(* ===== verification/Prelude.thy ===== *)
theory Prelude
  imports Main "HOL-Library.State_Monad"
begin

text \<open>
  The shared prelude: Go strings as byte lists with the functions of the packages
  \<^verbatim>\<open>strings\<close>, \<^verbatim>\<open>unicode\<close> and \<^verbatim>\<open>strconv\<close> that the backend calls, instants and durations
  as nanosecond counts, JSON values, and the lemmas on the state monad and on lists that the
  component theories share.

  A Go \<^verbatim>\<open>string\<close> is a sequence of bytes, and so is a HOL \<^typ>\<open>string\<close> (a list of
  8-bit characters); \<^const>\<open>length\<close> is Go's \<^verbatim>\<open>len\<close>.
\<close>

named_theorems gostr \<open>evaluation of the string functions\<close>
named_theorems world_simps \<open>running the state monad\<close>

type_synonym time = int      \<comment> \<open>\<^verbatim>\<open>time.Time\<close>: nanoseconds since the Unix epoch\<close>
type_synonym duration = int  \<comment> \<open>\<^verbatim>\<open>time.Duration\<close>: nanoseconds\<close>

definition Millisecond :: duration where "Millisecond = 1000000"
definition Second :: duration where "Second = 1000 * Millisecond"
definition Minute :: duration where "Minute = 60 * Second"
definition Hour :: duration where "Hour = 60 * Minute"

lemmas duration_defs = Hour_def Minute_def Second_def Millisecond_def

text \<open>
  \<^verbatim>\<open>t.Format(time.RFC3339)\<close>: the text itself is not spelled out; the token keeps what the
  text determines, the instant rounded down to the second.
\<close>

datatype rfc3339 = RFC3339 int

definition FormatRFC3339 :: "time \<Rightarrow> rfc3339" where
  "FormatRFC3339 t = RFC3339 (t div 1000000000)"

section \<open>Strings\<close>

abbreviation byte :: "char \<Rightarrow> nat" where "byte c \<equiv> of_char c"

definition isASCII :: "string \<Rightarrow> bool" where
  "isASCII s = list_all (\<lambda>c. byte c < 128) s"

text \<open>
  \<^verbatim>\<open>unicode.IsSpace\<close> in UTF-8: the byte sequences of the runes with the White\_Space
  property. Leading and trailing runes are decoded at rune boundaries, and UTF-8 is
  self-synchronising, so a leading (trailing) white-space rune is exactly a prefix (suffix)
  equal to one of these sequences.
\<close>

definition space_seqs :: "string list" where
  "space_seqs =
     map (\<lambda>n. [char_of (n::nat)]) [9, 10, 11, 12, 13, 32] @
     [map char_of [0xC2, 0x85 :: nat], map char_of [0xC2, 0xA0 :: nat],
      map char_of [0xE1, 0x9A, 0x80 :: nat]] @
     map (\<lambda>n. map char_of [0xE2, 0x80, n :: nat])
       [0x80, 0x81, 0x82, 0x83, 0x84, 0x85, 0x86, 0x87, 0x88, 0x89, 0x8A, 0xA8, 0xA9, 0xAF] @
     [map char_of [0xE2, 0x81, 0x9F :: nat], map char_of [0xE3, 0x80, 0x80 :: nat]]"

fun strip_prefix :: "string \<Rightarrow> string \<Rightarrow> string option" where
  "strip_prefix [] s = Some s"
| "strip_prefix (p # ps) [] = None"
| "strip_prefix (p # ps) (c # cs) = (if p = c then strip_prefix ps cs else None)"

fun strip_one :: "string list \<Rightarrow> string \<Rightarrow> string option" where
  "strip_one [] s = None"
| "strip_one (p # ps) s =
     (case strip_prefix p s of Some r \<Rightarrow> if length r < length s then Some r else strip_one ps s
      | None \<Rightarrow> strip_one ps s)"

lemma strip_prefix_Some: "strip_prefix p s = Some r \<longleftrightarrow> s = p @ r"
  by (induction p s rule: strip_prefix.induct) auto

lemma strip_one_shorter: "strip_one ps s = Some r \<Longrightarrow> length r < length s"
  by (induction ps) (auto split: option.splits if_splits)

function trim_seqs :: "string list \<Rightarrow> string \<Rightarrow> string" where
  "trim_seqs ps s = (case strip_one ps s of None \<Rightarrow> s | Some r \<Rightarrow> trim_seqs ps r)"
  by pat_completeness auto
termination
  by (relation "measure (\<lambda>(ps, s). length s)") (auto dest: strip_one_shorter)

declare trim_seqs.simps [simp del]

definition TrimSpace :: "string \<Rightarrow> string" where
  "TrimSpace s = rev (trim_seqs (map rev space_seqs) (rev (trim_seqs space_seqs s)))"

text \<open>The lemmas behind idempotence: a trimmed string has no removable prefix or suffix.\<close>

lemma trim_seqs_stop: "strip_one ps (trim_seqs ps s) = None"
  by (induction ps s rule: trim_seqs.induct)
    (subst trim_seqs.simps, auto split: option.splits)

lemma trim_seqs_id: "strip_one ps s = None \<Longrightarrow> trim_seqs ps s = s"
  by (simp add: trim_seqs.simps)

lemma strip_one_None:
  "strip_one ps s = None \<longleftrightarrow> (\<forall>p \<in> set ps. p \<noteq> [] \<longrightarrow> (\<nexists>r. s = p @ r))"
proof (induction ps)
  case (Cons p ps)
  show ?case
  proof (cases "strip_prefix p s")
    case None
    then have "\<nexists>r. s = p @ r" using strip_prefix_Some by (metis option.distinct(1))
    with None Cons show ?thesis by simp
  next
    case (Some r)
    then have "s = p @ r" by (simp add: strip_prefix_Some)
    with Some Cons show ?thesis by (cases "p = []") auto
  qed
qed simp

lemma trim_seqs_suffix: "\<exists>p. s = p @ trim_seqs ps s"
proof (induction ps s rule: trim_seqs.induct)
  case (1 ps s)
  have strip: "strip_one ps s = Some r \<Longrightarrow> \<exists>p. s = p @ r" for r
    by (induction ps) (auto split: option.splits if_splits simp: strip_prefix_Some)
  show ?case
  proof (cases "strip_one ps s")
    case (Some r)
    with 1 strip obtain p q where "s = p @ r" "r = q @ trim_seqs ps r" by blast
    with Some show ?thesis by (subst trim_seqs.simps) (metis append.assoc option.simps(5))
  qed (simp add: trim_seqs.simps)
qed

lemma TrimSpace_idem [simp]: "TrimSpace (TrimSpace s) = TrimSpace s"
proof -
  let ?l = "trim_seqs space_seqs s"
  let ?t = "rev (trim_seqs (map rev space_seqs) (rev ?l))"
  obtain q where q: "?l = ?t @ q"
    using trim_seqs_suffix [of "rev ?l" "map rev space_seqs"]
    by (metis rev_append rev_rev_ident)
  have "strip_one space_seqs ?t = None"
    using trim_seqs_stop [of space_seqs s] q unfolding strip_one_None
    by (metis append.assoc)
  then have "trim_seqs space_seqs ?t = ?t" by (rule trim_seqs_id)
  then show ?thesis
    by (simp add: TrimSpace_def trim_seqs_id trim_seqs_stop)
qed

text \<open>A string with visible ASCII characters at both ends has nothing to trim.\<close>

lemma TrimSpace_plain:
  assumes "s \<noteq> []" "byte (hd s) \<in> {33..<127}" "byte (last s) \<in> {33..<127}"
  shows "TrimSpace s = s"
proof -
  have ends: "list_all (\<lambda>p. p \<noteq> [] \<and> \<not> (33 \<le> byte (hd p) \<and> byte (hd p) < 127) \<and>
      \<not> (33 \<le> byte (last p) \<and> byte (last p) < 127)) space_seqs"
    by code_simp
  have pre: "strip_one space_seqs s = None"
    unfolding strip_one_None
  proof (intro ballI impI notI, elim exE)
    fix p r assume p: "p \<in> set space_seqs" "p \<noteq> []" "s = p @ r"
    then have "hd s = hd p" by simp
    with p ends assms(2) show False by (auto simp: list_all_iff)
  qed
  have suf: "strip_one (map rev space_seqs) (rev s) = None"
    unfolding strip_one_None
  proof (intro ballI impI notI, elim exE)
    fix q r assume q: "q \<in> set (map rev space_seqs)" "q \<noteq> []" "rev s = q @ r"
    then obtain p where p: "p \<in> set space_seqs" "q = rev p" by auto
    have "s = rev r @ p" using q(3) p(2) by (metis rev_append rev_rev_ident)
    then have "last s = last p" using q(2) p(2) by simp
    with p(1) ends assms(3) show False by (auto simp: list_all_iff)
  qed
  show ?thesis by (simp add: TrimSpace_def trim_seqs_id [OF pre] trim_seqs_id [OF suf])
qed

lemma length_TrimSpace: "length (TrimSpace s) \<le> length s"
proof -
  have le: "length (trim_seqs ps u) \<le> length u" for ps u
    using trim_seqs_suffix [of u ps] by (metis le_add2 length_append)
  have "length (TrimSpace s) \<le> length (rev (trim_seqs space_seqs s))"
    unfolding TrimSpace_def using le [of _ "rev (trim_seqs space_seqs s)"] by simp
  also have "\<dots> \<le> length s" by (simp add: le)
  finally show ?thesis .
qed


text \<open>
  \<^verbatim>\<open>strings.ToLower\<close> has a fast path for strings that are all ASCII; any other string goes
  through the Unicode case table (\<^verbatim>\<open>strings.Map(unicode.ToLower, s)\<close>), which is the
  parameter \<open>uni\<close>.
\<close>

definition lower_byte :: "char \<Rightarrow> char" where
  "lower_byte c = (if 65 \<le> byte c \<and> byte c \<le> 90 then char_of (byte c + 32) else c)"

definition ToLower :: "(string \<Rightarrow> string) \<Rightarrow> string \<Rightarrow> string" where
  "ToLower uni s = (if isASCII s then map lower_byte s else uni s)"

text \<open>
  \<^verbatim>\<open>strings.EqualFold\<close>: byte by byte while both strings are ASCII; at the first byte
  outside ASCII the rest is compared under Unicode case folding (\<open>ufold\<close>).
\<close>

fun EqualFold :: "(string \<Rightarrow> string \<Rightarrow> bool) \<Rightarrow> string \<Rightarrow> string \<Rightarrow> bool" where
  "EqualFold ufold (c # s) (d # t) =
     (if 128 \<le> byte c \<or> 128 \<le> byte d then ufold (c # s) (d # t)
      else if lower_byte c = lower_byte d then EqualFold ufold s t else False)"
| "EqualFold ufold s t = (s = [] \<and> t = [])"

fun HasPrefix :: "string \<Rightarrow> string \<Rightarrow> bool" where
  "HasPrefix s p = (take (length p) s = p)"

definition TrimPrefix :: "string \<Rightarrow> string \<Rightarrow> string" where
  "TrimPrefix s p = (if HasPrefix s p then drop (length p) s else s)"

fun Contains :: "string \<Rightarrow> string \<Rightarrow> bool" where
  "Contains [] p = (p = [])"
| "Contains (c # s) p = (HasPrefix (c # s) p \<or> Contains s p)"

text \<open>
  \<^verbatim>\<open>strings.ContainsFunc(s, unicode.IsControl)\<close>: the control runes are the ASCII controls
  and U+0080 to U+009F, which UTF-8 writes as the byte C2 followed by 80 to 9F. Neither an
  ASCII byte nor C2 is ever a continuation byte, so both are always at a rune boundary.
\<close>

fun ContainsControl :: "string \<Rightarrow> bool" where
  "ContainsControl [] = False"
| "ContainsControl (c # s) =
     (byte c < 32 \<or> byte c = 127 \<or>
      (byte c = 0xC2 \<and> (case s of [] \<Rightarrow> False | d # _ \<Rightarrow> 0x80 \<le> byte d \<and> byte d \<le> 0x9F)) \<or>
      ContainsControl s)"

text \<open>Decimal numerals, as \<^verbatim>\<open>%d\<close> prints them.\<close>

fun nat_digits :: "nat \<Rightarrow> string" where
  "nat_digits n =
     (if n < 10 then [char_of (48 + n)] else nat_digits (n div 10) @ [char_of (48 + n mod 10)])"

declare nat_digits.simps [simp del]

definition itoa :: "int \<Rightarrow> string" where
  "itoa i = (if i < 0 then ''-'' @ nat_digits (nat (- i)) else nat_digits (nat i))"

lemma nat_digits_bytes: "c \<in> set (nat_digits n) \<Longrightarrow> 48 \<le> byte c \<and> byte c \<le> 57"
proof (induction n rule: nat_digits.induct)
  case (1 n)
  have d: "m < 10 \<Longrightarrow> byte (char_of (48 + m :: nat)) = 48 + m" for m by simp
  show ?case
  proof (cases "n < 10")
    case True
    with 1 have "c = char_of (48 + n)" by (simp add: nat_digits.simps [of n])
    with d [OF True] True show ?thesis by simp
  next
    case False
    with 1 have "c \<in> set (nat_digits (n div 10)) \<or> c = char_of (48 + n mod 10)"
      by (auto simp: nat_digits.simps [of n])
    moreover have "n mod 10 < 10" by simp
    ultimately show ?thesis using 1 d [of "n mod 10"] False by auto
  qed
qed

lemmas [gostr] = lower_byte_def isASCII_def ToLower_def TrimPrefix_def TrimSpace_def
  space_seqs_def trim_seqs.simps

lemma ToLower_ASCII: "isASCII s \<Longrightarrow> ToLower uni s = map lower_byte s"
  by (simp add: ToLower_def)

text \<open>
  The parts of the standard library that rest on the Unicode tables, as one parameter: the
  case mapping and case folding of strings outside ASCII, and \<^verbatim>\<open>strconv.Quote\<close> (the verb
  \<^verbatim>\<open>%q\<close>), which needs the table of printable runes.
\<close>

record golib =
  lower_uni :: "string \<Rightarrow> string"
  fold_uni :: "string \<Rightarrow> string \<Rightarrow> bool"
  quote :: "string \<Rightarrow> string"

section \<open>JSON values\<close>

text \<open>
  The content of a \<^verbatim>\<open>jsonb\<close> column and the tree that \<^verbatim>\<open>encoding/json\<close> builds. Numbers
  are the integers that the backend stores; an object is the list of its members.
\<close>

datatype json = JNull | JBool bool | JNum int | JStr string
  | JArr "json list" | JObj "(string \<times> json) list"

text \<open>\<^verbatim>\<open>m[key] = value\<close> on a Go map.\<close>

fun map_put :: "'k \<Rightarrow> 'v \<Rightarrow> ('k \<times> 'v) list \<Rightarrow> ('k \<times> 'v) list" where
  "map_put k v [] = [(k, v)]"
| "map_put k v ((k', v') # m) = (if k' = k then (k, v) # m else (k', v') # map_put k v m)"

lemma map_of_map_put [simp]: "map_of (map_put k v m) = (map_of m)(k \<mapsto> v)"
  by (induction m) auto

section \<open>The state monad\<close>

abbreviation ret :: "'a \<Rightarrow> ('s, 'a) state" where "ret \<equiv> State_Monad.return"
abbreviation getw :: "('s, 's) state" where "getw \<equiv> State_Monad.get"

lemma run_state_if [simp]:
  "run_state (if b then m else n) s = (if b then run_state m s else run_state n s)"
  by simp

lemma run_state_case_sum [simp]:
  "run_state (case_sum f g x) s = (case x of Inl e \<Rightarrow> run_state (f e) s | Inr y \<Rightarrow> run_state (g y) s)"
  by (cases x) auto

lemma run_state_case_option [simp]:
  "run_state (case_option m f x) s = (case x of None \<Rightarrow> run_state m s | Some y \<Rightarrow> run_state (f y) s)"
  by (cases x) auto

text \<open>
  A computation keeps a reflexive and transitive relation between the states before and after
  when each of its calls does: the rule that lifts frame and invariant facts from the
  repository calls to whole handlers.
\<close>

definition keeps :: "('s \<Rightarrow> 's \<Rightarrow> bool) \<Rightarrow> ('s, 'a) state \<Rightarrow> bool" where
  "keeps R m = (\<forall>s. R s (snd (run_state m s)))"

named_theorems keeps_intros \<open>calls that keep a relation\<close>

lemma keepsD: "keeps R m \<Longrightarrow> R s (snd (run_state m s))"
  by (simp add: keeps_def)

lemma keepsI: "(\<And>s. R s (snd (run_state m s))) \<Longrightarrow> keeps R m"
  by (simp add: keeps_def)

lemma keeps_ret [keeps_intros]: "reflp R \<Longrightarrow> keeps R (ret x)"
  by (simp add: keeps_def reflp_def)

lemma keeps_get [keeps_intros]: "reflp R \<Longrightarrow> keeps R getw"
  by (simp add: keeps_def reflp_def)

lemma keeps_bind [keeps_intros]:
  "\<lbrakk>transp R; keeps R m; \<And>x. keeps R (f x)\<rbrakk> \<Longrightarrow> keeps R (State_Monad.bind m f)"
  unfolding keeps_def by (auto split: prod.splits dest: transpD) (metis snd_conv transpD)

lemma keeps_if [keeps_intros]:
  "\<lbrakk>b \<Longrightarrow> keeps R m; \<not> b \<Longrightarrow> keeps R n\<rbrakk> \<Longrightarrow> keeps R (if b then m else n)"
  by simp

lemma keeps_case_sum [keeps_intros]:
  "\<lbrakk>\<And>e. x = Inl e \<Longrightarrow> keeps R (f e); \<And>y. x = Inr y \<Longrightarrow> keeps R (g y)\<rbrakk> \<Longrightarrow> keeps R (case_sum f g x)"
  by (cases x) auto

lemma keeps_case_option [keeps_intros]:
  "\<lbrakk>x = None \<Longrightarrow> keeps R m; \<And>y. x = Some y \<Longrightarrow> keeps R (f y)\<rbrakk> \<Longrightarrow> keeps R (case_option m f x)"
  by (cases x) auto

lemma keeps_case_prod [keeps_intros]:
  "(\<And>a b. x = (a, b) \<Longrightarrow> keeps R (f a b)) \<Longrightarrow> keeps R (case_prod f x)"
  by (cases x) auto

text \<open>
  \<open>runs P m v Q\<close>: started in a state with \<open>P\<close>, the computation returns \<open>v\<close> and ends in a
  state with \<open>Q\<close>. This is total: a computation of the state monad always returns.
\<close>

definition runs :: "('s \<Rightarrow> bool) \<Rightarrow> ('s, 'a) state \<Rightarrow> 'a \<Rightarrow> ('s \<Rightarrow> bool) \<Rightarrow> bool" where
  "runs P m v Q = (\<forall>s. P s \<longrightarrow> fst (run_state m s) = v \<and> Q (snd (run_state m s)))"

lemma runsD: "runs P m v Q \<Longrightarrow> P s \<Longrightarrow> fst (run_state m s) = v \<and> Q (snd (run_state m s))"
  by (simp add: runs_def)

lemma runsI: "(\<And>s. P s \<Longrightarrow> fst (run_state m s) = v \<and> Q (snd (run_state m s))) \<Longrightarrow> runs P m v Q"
  by (simp add: runs_def)

lemma runs_ret: "(\<And>s. P s \<Longrightarrow> Q s) \<Longrightarrow> x = v \<Longrightarrow> runs P (ret x) v Q"
  by (simp add: runs_def)

lemma runs_return [simp]: "runs P (ret x) v P \<longleftrightarrow> (\<forall>s. P s \<longrightarrow> x = v)"
  by (auto simp: runs_def)

lemma runs_bind: "runs P m v R \<Longrightarrow> runs R (f v) u Q \<Longrightarrow> runs P (State_Monad.bind m f) u Q"
  by (simp add: runs_def split_beta)

lemma runs_weaken: "runs P m v Q \<Longrightarrow> (\<And>s. P' s \<Longrightarrow> P s) \<Longrightarrow> (\<And>s. Q s \<Longrightarrow> Q' s) \<Longrightarrow> runs P' m v Q'"
  by (simp add: runs_def)

text \<open>\<open>valid P m Q\<close>: the same with a postcondition on the value, for runs with several outcomes.\<close>

definition valid :: "('s \<Rightarrow> bool) \<Rightarrow> ('s, 'a) state \<Rightarrow> ('a \<Rightarrow> 's \<Rightarrow> bool) \<Rightarrow> bool" where
  "valid P m Q = (\<forall>s. P s \<longrightarrow> Q (fst (run_state m s)) (snd (run_state m s)))"

lemma validD: "valid P m Q \<Longrightarrow> P s \<Longrightarrow> Q (fst (run_state m s)) (snd (run_state m s))"
  by (simp add: valid_def)

lemma validI: "(\<And>s. P s \<Longrightarrow> Q (fst (run_state m s)) (snd (run_state m s))) \<Longrightarrow> valid P m Q"
  by (simp add: valid_def)

lemma valid_ret: "(\<And>s. P s \<Longrightarrow> Q x s) \<Longrightarrow> valid P (ret x) Q"
  by (simp add: valid_def)

lemma valid_bind: "valid P m R \<Longrightarrow> (\<And>x. valid (R x) (f x) Q) \<Longrightarrow> valid P (State_Monad.bind m f) Q"
  by (simp add: valid_def split_beta)

lemma valid_weaken:
  "valid P m Q \<Longrightarrow> (\<And>s. P' s \<Longrightarrow> P s) \<Longrightarrow> (\<And>x s. Q x s \<Longrightarrow> Q' x s) \<Longrightarrow> valid P' m Q'"
  by (simp add: valid_def)

lemma valid_pre_disj: "valid P m Q \<Longrightarrow> valid P' m Q \<Longrightarrow> valid (\<lambda>s. P s \<or> P' s) m Q"
  by (auto simp: valid_def)

lemma valid_pre_ex: "(\<And>x. valid (P x) m Q) \<Longrightarrow> valid (\<lambda>s. \<exists>x. P x s) m Q"
  by (auto simp: valid_def)

lemma valid_pre_conj: "(c \<Longrightarrow> valid P m Q) \<Longrightarrow> valid (\<lambda>s. c \<and> P s) m Q"
  by (auto simp: valid_def)

section \<open>Loops\<close>

text \<open>
  Go's \<^verbatim>\<open>for { ... }\<close> over the local variables \<open>s\<close>: an iteration either goes on with new
  values (\<open>Inl\<close>) or leaves the loop with a result (\<open>Inr\<close>). A loop that never leaves has the
  value \<^const>\<open>None\<close>.
\<close>

partial_function (option) forever ::
  "('s \<Rightarrow> ('w, 's + 'r) state) \<Rightarrow> 's \<Rightarrow> 'w \<Rightarrow> ('r \<times> 'w) option" where
  "forever step s w = (case run_state (step s) w of
       (Inl s', w') \<Rightarrow> forever step s' w'
     | (Inr r, w') \<Rightarrow> Some (r, w'))"

text \<open>
  Total correctness: iterations that keep an invariant and lower a measure come to an end,
  and the last one establishes the postcondition.
\<close>

lemma forever_total:
  assumes step: "\<And>s w s' w'. I s w \<Longrightarrow> run_state (step s) w = (Inl s', w') \<Longrightarrow>
      I s' w' \<and> (m s' w' :: nat) < m s w"
    and leave: "\<And>s w r w'. I s w \<Longrightarrow> run_state (step s) w = (Inr r, w') \<Longrightarrow> Q r w'"
  shows "I s w \<Longrightarrow> \<exists>r w'. forever step s w = Some (r, w') \<and> Q r w'"
proof (induction "m s w" arbitrary: s w rule: less_induct)
  case less
  obtain x w' where run: "run_state (step s) w = (x, w')" by fastforce
  show ?case
  proof (cases x)
    case (Inl s')
    with step [OF less.prems] run have "I s' w'" "m s' w' < m s w" by auto
    from less.hyps [OF this(2,1)] show ?thesis
      by (subst forever.simps) (simp add: run Inl)
  next
    case (Inr r)
    with leave [OF less.prems] run have "Q r w'" by simp
    then show ?thesis by (subst forever.simps) (simp add: run Inr)
  qed
qed

text \<open>Partial correctness: whatever a loop returns satisfies what its last iteration establishes.\<close>

lemma forever_partial:
  assumes step: "\<And>s w s' w'. I s w \<Longrightarrow> run_state (step s) w = (Inl s', w') \<Longrightarrow> I s' w'"
    and leave: "\<And>s w r w'. I s w \<Longrightarrow> run_state (step s) w = (Inr r, w') \<Longrightarrow> Q r w'"
    and run: "forever step s w = Some (r, w')" and init: "I s w"
  shows "Q r w'"
proof -
  have "step = step \<longrightarrow> I s w \<longrightarrow> Q (fst (r, w')) (snd (r, w'))"
  proof (rule forever.raw_induct
      [where P = "\<lambda>p s w x. p = step \<longrightarrow> I s w \<longrightarrow> Q (fst x) (snd x)", OF _ run])
    fix go and p :: "'a \<Rightarrow> ('b, 'a + 'c) state" and s w and x :: "'c \<times> 'b"
    assume IH: "\<And>p s w x. go p s w = Some x \<Longrightarrow> p = step \<longrightarrow> I s w \<longrightarrow> Q (fst x) (snd x)"
      and eq: "(case run_state (p s) w of (Inl s', w') \<Rightarrow> go p s' w'
        | (Inr r, w') \<Rightarrow> Some (r, w')) = Some x"
    show "p = step \<longrightarrow> I s w \<longrightarrow> Q (fst x) (snd x)"
    proof (intro impI)
      assume "p = step" "I s w"
      then show "Q (fst x) (snd x)"
        using eq IH [of step _ _ x] step leave
        by (auto split: prod.splits sum.splits)
    qed
  qed
  with init show ?thesis by simp
qed

text \<open>A loop none of whose iterations leaves never returns.\<close>

lemma forever_stuck:
  assumes step: "\<And>s w. I s w \<Longrightarrow> \<exists>s' w'. run_state (step s) w = (Inl s', w') \<and> I s' w'"
    and init: "I s w"
  shows "forever step s w = None"
proof (rule ccontr)
  assume "forever step s w \<noteq> None"
  then obtain r w' where run: "forever step s w = Some (r, w')" by auto
  show False
    by (rule forever_partial [where I = I and Q = "\<lambda>_ _. False", OF _ _ run init])
      (use step in fastforce)+
qed

end
