(* ===== verification/Apperror.thy ===== *)
theory Apperror
  imports Prelude
begin

text \<open>
  Go errors. \<^verbatim>\<open>internal/apperror/error.go\<close> (the application error with its code and HTTP
  status), \<^verbatim>\<open>AgentError\<close> of \<^verbatim>\<open>internal/grpcclient/agent_client.go\<close>, the
  \<^verbatim>\<open>nonRetryableTaskError\<close> wrapper of \<^verbatim>\<open>internal/service/task_service.go\<close>, and
  \<^verbatim>\<open>internal/service/agent_error.go\<close>, which turns agent errors into application errors.

  The type of every error value the backend handles: \<open>Plain\<close> is \<^verbatim>\<open>errors.New\<close>, \<open>Wrapf p e\<close>
  is \<^verbatim>\<open>fmt.Errorf("p: %w", e)\<close>, \<open>Lib l\<close> is an error made by a library (database driver,
  JSON, file system), of which only a label is kept, \<open>GrpcStatus c m\<close> is a gRPC status error.
  \<open>App\<close> is \<^verbatim>\<open>*apperror.Error\<close>; that type has no \<^verbatim>\<open>Unwrap\<close> method.
\<close>

datatype go_error =
    Plain string
  | Lib string
  | GrpcStatus nat string
  | Wrapf string go_error
  | App (Code: int) (Message: string) (HTTPStatus: int) (Err: "go_error option")
  | NonRetryable go_error
  | AgentError (agent_Code: int) (agent_Message: string) (agent_Detail: string)
      (agent_GRPCCode: nat) (agent_Cause: "go_error option")

type_synonym 'a result = "go_error + 'a"

fun Error :: "go_error \<Rightarrow> string" where
  "Error (Plain s) = s"
| "Error (Lib s) = s"
| "Error (GrpcStatus c m) = m"
| "Error (Wrapf p e) = p @ '': '' @ Error e"
| "Error (App c m h e) = (case e of None \<Rightarrow> m | Some e' \<Rightarrow> m @ '': '' @ Error e')"
| "Error (NonRetryable e) = Error e"
| "Error (AgentError c m d g cause) =
     (let message = (if TrimSpace m = [] then ''core agent request failed'' else TrimSpace m)
      in if TrimSpace d = []
         then (case cause of Some e \<Rightarrow> message @ '': '' @ Error e | None \<Rightarrow> message)
         else message @ '': '' @ TrimSpace d)"

text \<open>
  \<^verbatim>\<open>errors.As\<close> walks the \<^verbatim>\<open>Unwrap\<close> chain and stops at the first error of the wanted type.
\<close>

fun Unwrap :: "go_error \<Rightarrow> go_error option" where
  "Unwrap (Wrapf p e) = Some e"
| "Unwrap (NonRetryable e) = Some e"
| "Unwrap (AgentError c m d g cause) = cause"
| "Unwrap e = None"

fun As :: "go_error \<Rightarrow> go_error option" where
  "As (App c m h e) = Some (App c m h e)"
| "As (Wrapf p e) = As e"
| "As (NonRetryable e) = As e"
| "As (AgentError c m d g cause) = (case cause of None \<Rightarrow> None | Some e \<Rightarrow> As e)"
| "As e = None"

fun asNonRetryable :: "go_error \<Rightarrow> bool" where
  "asNonRetryable (NonRetryable e) = True"
| "asNonRetryable (Wrapf p e) = asNonRetryable e"
| "asNonRetryable (AgentError c m d g cause) =
     (case cause of None \<Rightarrow> False | Some e \<Rightarrow> asNonRetryable e)"
| "asNonRetryable e = False"

fun asAgentError :: "go_error \<Rightarrow> go_error option" where
  "asAgentError (AgentError c m d g cause) = Some (AgentError c m d g cause)"
| "asAgentError (Wrapf p e) = asAgentError e"
| "asAgentError (NonRetryable e) = asAgentError e"
| "asAgentError e = None"

lemma As_Unwrap:
  "As e = (if is_App e then Some e else case Unwrap e of None \<Rightarrow> None | Some e' \<Rightarrow> As e')"
  by (cases e) auto

lemma asAgentError_Unwrap:
  "asAgentError e =
     (if is_AgentError e then Some e else case Unwrap e of None \<Rightarrow> None | Some e' \<Rightarrow> asAgentError e')"
  by (cases e) auto

lemma asNonRetryable_Unwrap:
  "asNonRetryable e =
     (is_NonRetryable e \<or> (case Unwrap e of None \<Rightarrow> False | Some e' \<Rightarrow> asNonRetryable e'))"
  by (cases e) auto

section \<open>apperror: constructors and the catalogue\<close>

definition New :: "int \<Rightarrow> int \<Rightarrow> string \<Rightarrow> go_error" where
  "New code status message = App code message status None"

definition Wrap :: "int \<Rightarrow> int \<Rightarrow> string \<Rightarrow> go_error \<Rightarrow> go_error" where
  "Wrap code status message err = App code message status (Some err)"

definition ErrBadRequest :: go_error where "ErrBadRequest = New 2000 400 ''bad request''"
definition ErrInvalidCredential :: go_error where
  "ErrInvalidCredential = New 2001 401 ''invalid username or password''"
definition ErrUnauthorized :: go_error where "ErrUnauthorized = New 2002 401 ''unauthorized''"
definition ErrUserNotFound :: go_error where "ErrUserNotFound = New 2003 404 ''user not found''"
definition ErrInternal :: go_error where "ErrInternal = New 1000 500 ''internal server error''"
definition ErrTokenGenerate :: go_error where
  "ErrTokenGenerate = New 2004 500 ''failed to generate token''"
definition ErrTokenParse :: go_error where "ErrTokenParse = New 2005 401 ''invalid token''"
definition ErrBootstrapAdminFail :: go_error where
  "ErrBootstrapAdminFail = New 2006 500 ''failed to bootstrap default admin''"
definition ErrPermissionDenied :: go_error where
  "ErrPermissionDenied = New 2007 403 ''permission denied''"
definition ErrTaskNotFound :: go_error where "ErrTaskNotFound = New 2008 404 ''task not found''"
definition ErrPasswordChangeNeed :: go_error where
  "ErrPasswordChangeNeed = New 2009 403 ''password change required''"
definition ErrSessionExpired :: go_error where
  "ErrSessionExpired = New 2010 401 ''session expired''"
definition ErrUserDisabled :: go_error where "ErrUserDisabled = New 2011 403 ''user is disabled''"
definition ErrLoginRateLimited :: go_error where
  "ErrLoginRateLimited = New 2012 429 ''too many login attempts, try later''"
definition ErrSystemSettingNotFound :: go_error where
  "ErrSystemSettingNotFound = New 2013 404 ''system setting not found''"
definition ErrBackupNotFound :: go_error where
  "ErrBackupNotFound = New 2014 404 ''backup not found''"
definition ErrAgentUnavailable :: go_error where
  "ErrAgentUnavailable = New 3001 503 ''core agent unavailable''"

text \<open>
  The idiom \<^verbatim>\<open>apperror.Wrap(apperror.ErrX.Code, apperror.ErrX.HTTPStatus,
  apperror.ErrX.Message, err)\<close>.
\<close>

abbreviation wrapAs :: "go_error \<Rightarrow> go_error \<Rightarrow> go_error" where
  "wrapAs e err \<equiv> Wrap (Code e) (HTTPStatus e) (Message e) err"

lemmas apperror_defs = New_def Wrap_def ErrBadRequest_def ErrInvalidCredential_def
  ErrUnauthorized_def ErrUserNotFound_def ErrInternal_def ErrTokenGenerate_def
  ErrTokenParse_def ErrBootstrapAdminFail_def ErrPermissionDenied_def ErrTaskNotFound_def
  ErrPasswordChangeNeed_def ErrSessionExpired_def ErrUserDisabled_def
  ErrLoginRateLimited_def ErrSystemSettingNotFound_def ErrBackupNotFound_def
  ErrAgentUnavailable_def

section \<open>Agent errors (agent\_error.go)\<close>

text \<open>The numeric gRPC codes (\<^verbatim>\<open>google.golang.org/grpc/codes\<close>) that the source names.\<close>

abbreviation (input) "codes_OK \<equiv> 0 :: nat"
abbreviation (input) "codes_Unknown \<equiv> 2 :: nat"
abbreviation (input) "codes_InvalidArgument \<equiv> 3 :: nat"
abbreviation (input) "codes_DeadlineExceeded \<equiv> 4 :: nat"
abbreviation (input) "codes_NotFound \<equiv> 5 :: nat"
abbreviation (input) "codes_PermissionDenied \<equiv> 7 :: nat"
abbreviation (input) "codes_Unimplemented \<equiv> 12 :: nat"
abbreviation (input) "codes_Internal \<equiv> 13 :: nat"
abbreviation (input) "codes_Unavailable \<equiv> 14 :: nat"
abbreviation (input) "codes_Unauthenticated \<equiv> 16 :: nat"

definition IsTransport :: "go_error \<Rightarrow> bool" where
  "IsTransport e = (agent_Cause e \<noteq> None)"

definition mapAgentHTTPStatus :: "go_error \<Rightarrow> int" where
  "mapAgentHTTPStatus e =
     (if IsTransport e then
        (let g = agent_GRPCCode e in
         if g = codes_InvalidArgument then 400
         else if g = codes_Unauthenticated then 401
         else if g = codes_PermissionDenied then 403
         else if g = codes_NotFound then 404
         else if g = codes_DeadlineExceeded \<or> g = codes_Unavailable then 503
         else if g = codes_Unimplemented then 502
         else HTTPStatus ErrAgentUnavailable)
      else
        (let c = agent_Code e in
         if c \<in> {4000, 4003, 4006, 5000, 6001, 7000} then 400
         else if c = 4004 then 413
         else if c \<in> {4001, 4007, 5002} then 403
         else if c \<in> {4002, 6002, 7001} then 404
         else if c \<in> {4005, 5001, 5003, 6003, 7002} then 502
         else if c = 6000 then 503
         else HTTPStatus ErrAgentUnavailable))"

definition mapAgentError :: "go_error \<Rightarrow> go_error" where
  "mapAgentError err =
     (case asAgentError err of
        Some agentErr \<Rightarrow>
          Wrap (if agent_Code agentErr > 0 then agent_Code agentErr else Code ErrAgentUnavailable)
            (mapAgentHTTPStatus agentErr)
            (if agent_Message agentErr \<noteq> [] then agent_Message agentErr
             else Message ErrAgentUnavailable)
            err
      | None \<Rightarrow> wrapAs ErrAgentUnavailable err)"

lemma mapAgentHTTPStatus_range:
  "mapAgentHTTPStatus e \<in> {400, 401, 403, 404, 413, 502, 503}"
  by (auto simp: mapAgentHTTPStatus_def apperror_defs Let_def)

lemma mapAgentError_App: "\<exists>c m h. mapAgentError e = App c m h (Some e)"
  by (auto simp: mapAgentError_def Wrap_def split: option.splits)

lemma As_mapAgentError [simp]: "As (mapAgentError e) = Some (mapAgentError e)"
  using mapAgentError_App [of e] by auto

lemma HTTPStatus_mapAgentError:
  "HTTPStatus (mapAgentError e) \<in> {400, 401, 403, 404, 413, 502, 503}"
  using mapAgentHTTPStatus_range
  by (auto simp: mapAgentError_def Wrap_def ErrAgentUnavailable_def New_def split: option.splits)

end
