(* ===== verification/Schema.thy ===== *)
theory Schema
  imports Apperror
begin

text \<open>
  The rows of \<^verbatim>\<open>internal/model/schema.go\<close> that the backend's services use, and the database
  they live in. A table is the list of its rows; ids come from the table's sequence.
  Nullable columns (Go pointers) are options. \<^verbatim>\<open>jsonb\<close> columns hold JSON values.
\<close>

record User =
  user_ID :: int
  user_Username :: string
  user_Email :: string
  user_PasswordHash :: string
  user_Status :: int
  user_LastLoginAt :: "time option"
  user_CreatedAt :: time
  user_UpdatedAt :: time
  user_DeletedAt :: "time option"

record Role =
  role_ID :: int
  role_Name :: string
  role_Slug :: string
  role_Description :: string
  role_CreatedAt :: time
  role_UpdatedAt :: time

record Permission =
  perm_ID :: int
  perm_Name :: string
  perm_Description :: string
  perm_CreatedAt :: time
  perm_UpdatedAt :: time

record RolePermission =
  rp_RoleID :: int
  rp_PermissionID :: int
  rp_CreatedAt :: time

record UserRole =
  ur_UserID :: int
  ur_RoleID :: int
  ur_CreatedAt :: time

record Task =
  task_ID :: int
  task_Type :: string
  task_Status :: string
  task_Progress :: int
  task_Payload :: json
  task_Result :: json
  task_ErrorMsg :: string
  task_TriggeredBy :: "int option"
  task_HostID :: "int option"
  task_LockedBy :: "string option"
  task_LockedUntil :: "time option"
  task_Attempt :: int
  task_MaxAttempts :: int
  task_IdempotencyKey :: "string option"
  task_NextRunAt :: "time option"
  task_StartedAt :: "time option"
  task_FinishedAt :: "time option"
  task_CreatedAt :: time
  task_UpdatedAt :: time

record TaskLog =
  log_ID :: int
  log_TaskID :: int
  log_Level :: string
  log_Message :: string
  log_Metadata :: json
  log_CreatedAt :: time

record Backup =
  backup_ID :: int
  backup_ResourceType :: string
  backup_ResourceID :: string
  backup_StorageType :: string
  backup_FilePath :: string
  backup_SizeBytes :: int
  backup_Checksum :: string
  backup_Status :: string
  backup_CreatedBy :: "int option"
  backup_CreatedAt :: time
  backup_UpdatedAt :: time

text \<open>
  The Go value stored in the payload column of a task
  (\<^verbatim>\<open>taskPayload\<close> of \<^verbatim>\<open>internal/service/task_service.go\<close>).
\<close>

record taskPayload =
  pl_Operation :: string
  pl_ContainerID :: string
  pl_ServiceName :: string
  pl_BackupID :: int
  pl_ResourceType :: string
  pl_ResourceID :: string
  pl_StorageType :: string
  pl_FilePath :: string
  pl_SizeBytes :: int
  pl_Checksum :: string

text \<open>
  The columns of an audit record that hold text: \<^verbatim>\<open>request_summary\<close> is the text that was
  sent for the \<^verbatim>\<open>jsonb\<close> column.
\<close>

record AuditLog =
  audit_ID :: int
  audit_UserID :: "int option"
  audit_Username :: string
  audit_IP :: string
  audit_Module :: string
  audit_Action :: string
  audit_TargetType :: string
  audit_TargetID :: string
  audit_RequestSummary :: string
  audit_Success :: bool
  audit_ResultCode :: string
  audit_ResultMessage :: string
  audit_RequestID :: string
  audit_TraceID :: string
  audit_CreatedAt :: time

record SystemSetting =
  setting_ID :: int
  setting_Key :: string
  setting_Value :: string
  setting_ValueType :: string
  setting_IsEncrypted :: bool
  setting_Description :: string
  setting_UpdatedBy :: "int option"
  setting_CreatedAt :: time
  setting_UpdatedAt :: time

text \<open>The tables, each with the next value of its id sequence.\<close>

record tables =
  users :: "User list"
  roles :: "Role list"
  permissions :: "Permission list"
  role_permissions :: "RolePermission list"
  user_roles :: "UserRole list"
  tasks :: "Task list"
  task_logs :: "TaskLog list"
  backups :: "Backup list"
  users_seq :: int
  roles_seq :: int
  permissions_seq :: int
  tasks_seq :: int
  task_logs_seq :: int
  backups_seq :: int
  audit_logs :: "AuditLog list"
  audit_logs_seq :: int
  system_settings :: "SystemSetting list"
  system_settings_seq :: int

definition empty_tables :: tables where
  "empty_tables = \<lparr>users = [], roles = [], permissions = [], role_permissions = [],
     user_roles = [], tasks = [], task_logs = [], backups = [], users_seq = 1, roles_seq = 1,
     permissions_seq = 1, tasks_seq = 1, task_logs_seq = 1, backups_seq = 1,
     audit_logs = [], audit_logs_seq = 1, system_settings = [], system_settings_seq = 1\<rparr>"

section \<open>SQL on lists\<close>

text \<open>
  \<^verbatim>\<open>UPDATE ... WHERE p\<close> and \<^verbatim>\<open>SELECT ... WHERE p LIMIT 1\<close> (GORM's \<^verbatim>\<open>First\<close> on a column with a
  unique value). \<^verbatim>\<open>ORDER BY k ASC\<close> and \<^verbatim>\<open>DESC\<close> leave the order of rows with equal keys open
  in SQL: a query that returns more than one row is given the order \<open>tie\<close> in which the
  database happens to visit them (\<open>dbquery\<close> supplies it, anew for each query), and sorts
  stably. Where the code only takes the first row (the claim of a task), the tie is decided by
  the order of the rows in the table.
\<close>

definition update_where :: "('r \<Rightarrow> bool) \<Rightarrow> ('r \<Rightarrow> 'r) \<Rightarrow> 'r list \<Rightarrow> 'r list" where
  "update_where p f rows = map (\<lambda>r. if p r then f r else r) rows"

definition order_asc :: "('r \<Rightarrow> int) \<Rightarrow> 'r list \<Rightarrow> 'r list" where
  "order_asc k rows = sort_key k rows"

definition order_desc :: "('r \<Rightarrow> int) \<Rightarrow> ('r \<Rightarrow> int) \<Rightarrow> 'r list \<Rightarrow> 'r list" where
  "order_desc tie k rows = sort_key (\<lambda>r. - k r) (sort_key tie rows)"

definition first_where :: "('r \<Rightarrow> bool) \<Rightarrow> 'r list \<Rightarrow> 'r option" where
  "first_where p rows = List.find p rows"

text \<open>\<^verbatim>\<open>OFFSET o LIMIT l\<close>; both are non-negative wherever the repositories use them.\<close>

definition page_rows :: "int \<Rightarrow> int \<Rightarrow> 'r list \<Rightarrow> 'r list" where
  "page_rows offset limit rows = take (nat limit) (drop (nat offset) rows)"

lemma length_update_where [simp]: "length (update_where p f rows) = length rows"
  by (simp add: update_where_def)

lemma update_where_Nil [simp]: "update_where p f [] = []"
  by (simp add: update_where_def)

lemma update_where_Cons [simp]:
  "update_where p f (r # rows) = (if p r then f r else r) # update_where p f rows"
  by (simp add: update_where_def)

lemma map_update_where:
  "(\<And>r. p r \<Longrightarrow> g (f r) = g r) \<Longrightarrow> map g (update_where p f rows) = map g rows"
  by (induction rows) auto

lemma set_update_where: "set (update_where p f rows) = (\<lambda>r. if p r then f r else r) ` set rows"
  by (simp add: update_where_def)

lemma list_all_update_where:
  "(\<And>r. P r \<Longrightarrow> p r \<Longrightarrow> P (f r)) \<Longrightarrow> list_all P rows \<Longrightarrow> list_all P (update_where p f rows)"
  by (induction rows) auto

lemma first_where_Some:
  "first_where p rows = Some r \<Longrightarrow> r \<in> set rows \<and> p r"
  by (auto simp: first_where_def find_Some_iff)

lemma first_where_None: "first_where p rows = None \<longleftrightarrow> (\<forall>r \<in> set rows. \<not> p r)"
  by (simp add: first_where_def find_None_iff) blast

lemma first_where_Nil [simp]: "first_where p [] = None"
  by (simp add: first_where_def)

lemma first_where_Cons [simp]:
  "first_where p (r # rows) = (if p r then Some r else first_where p rows)"
  by (simp add: first_where_def)

lemma first_where_append [simp]:
  "first_where p (xs @ ys) = (case first_where p xs of Some r \<Rightarrow> Some r | None \<Rightarrow> first_where p ys)"
  by (induction xs) auto

text \<open>A look-up by key after an update of other columns: the row found is the updated one.\<close>

lemma first_where_update_where:
  assumes "\<And>r. q (f r) = q r"
  shows "first_where q (update_where p f rows) =
    map_option (\<lambda>r. if p r then f r else r) (first_where q rows)"
  using assms by (induction rows) auto

lemma length_page_rows: "length (page_rows off lim rows) \<le> nat lim"
  by (simp add: page_rows_def)

lemma set_page_rows: "set (page_rows off lim rows) \<subseteq> set rows"
  unfolding page_rows_def by (meson order.trans set_drop_subset set_take_subset)

lemma set_order [simp]: "set (order_asc k rows) = set rows" "set (order_desc tie k rows) = set rows"
  by (simp_all add: order_asc_def order_desc_def)

lemma length_order [simp]:
  "length (order_asc k rows) = length rows" "length (order_desc tie k rows) = length rows"
  by (simp_all add: order_asc_def order_desc_def)

text \<open>Rows with different keys have one order, whatever the database does with ties.\<close>

lemma order_desc_distinct:
  assumes "distinct (map k rows)"
  shows "order_desc tie k rows = sort_key (\<lambda>r. - k r) rows"
  unfolding order_desc_def
proof (rule map_sorted_distinct_set_unique [where f = "\<lambda>r. - k r"])
  have inj: "inj_on (\<lambda>r. - k r) (set rows)" "distinct rows"
    using assms by (auto simp: distinct_map inj_on_def)
  then show "inj_on (\<lambda>r. - k r) (set (sort_key (\<lambda>r. - k r) (sort_key tie rows)) \<union> set (sort_key (\<lambda>r. - k r) rows))"
    "distinct (map (\<lambda>r. - k r) (sort_key (\<lambda>r. - k r) (sort_key tie rows)))"
    "distinct (map (\<lambda>r. - k r) (sort_key (\<lambda>r. - k r) rows))"
    by (simp_all add: distinct_map)
qed simp_all

lemma sort_key_hd_least: "sort_key k xs = r # rs \<Longrightarrow> x \<in> set xs \<Longrightarrow> k r \<le> k x"
  by (metis list.set_cases list.simps(9) set_ConsD set_sort sorted_simps(2) image_eqI
      list.set_map order_refl sorted_sort_key)

section \<open>Tables with a key\<close>

text \<open>
  The interface that the repositories offer to the services: rows found by a key, rows
  changed in place, rows appended. The laws the services rely on (a read after a write sees
  the write, a write leaves rows with other keys alone) are proved here once and hold of
  every table that is a field of the database.
\<close>

locale keyed_table =
  fixes rows :: "'t \<Rightarrow> 'r list"
    and put :: "'r list \<Rightarrow> 't \<Rightarrow> 't"
    and key :: "'r \<Rightarrow> 'k"
  assumes rows_put: "rows (put rs t) = rs"
begin

lemma find_update:
  assumes "\<And>r. key (f r) = key r"
  shows "first_where (\<lambda>r. key r = i) (rows (put (update_where p f (rows t)) t)) =
    map_option (\<lambda>r. if p r then f r else r) (first_where (\<lambda>r. key r = i) (rows t))"
  by (simp add: rows_put first_where_update_where assms)

lemma find_update_other:
  assumes "\<And>r. key (f r) = key r" "\<And>r. p r \<Longrightarrow> key r \<noteq> i"
  shows "first_where (\<lambda>r. key r = i) (rows (put (update_where p f (rows t)) t)) =
    first_where (\<lambda>r. key r = i) (rows t)"
proof (cases "first_where (\<lambda>r. key r = i) (rows t)")
  case (Some r)
  then have "\<not> p r" using first_where_Some [OF Some] assms(2) by blast
  with Some show ?thesis by (simp add: find_update [OF assms(1)])
qed (simp add: find_update [OF assms(1)])

lemma find_insert:
  assumes "\<forall>r \<in> set (rows t). key r \<noteq> key x"
  shows "first_where (\<lambda>r. key r = i) (rows (put (rows t @ [x]) t)) =
    (if i = key x then Some x else first_where (\<lambda>r. key r = i) (rows t))"
proof (cases "i = key x")
  case True
  with assms have "first_where (\<lambda>r. key r = i) (rows t) = None" by (simp add: first_where_None)
  with True show ?thesis by (simp add: rows_put)
qed (auto simp: rows_put split: option.splits)

lemma find_unique:
  assumes "distinct (map key (rows t))" "r \<in> set (rows t)"
  shows "first_where (\<lambda>x. key x = key r) (rows t) = Some r"
proof -
  obtain r' where r': "first_where (\<lambda>x. key x = key r) (rows t) = Some r'"
    using assms(2) first_where_None [of "\<lambda>x. key x = key r" "rows t"]
    by (cases "first_where (\<lambda>x. key x = key r) (rows t)") auto
  with first_where_Some [OF r'] assms have "r' = r" by (auto simp: distinct_map inj_on_def)
  with r' show ?thesis by simp
qed

end

interpretation task_table: keyed_table tasks "\<lambda>rs t. t\<lparr>tasks := rs\<rparr>" task_ID
  by unfold_locales simp

interpretation backup_table: keyed_table backups "\<lambda>rs t. t\<lparr>backups := rs\<rparr>" backup_ID
  by unfold_locales simp

interpretation user_table: keyed_table users "\<lambda>rs t. t\<lparr>users := rs\<rparr>" user_ID
  by unfold_locales simp

end
