(* ===== verification/JsonDecode.thy ===== *)
theory JsonDecode
  imports Prelude
begin

text \<open>
  How \<^verbatim>\<open>encoding/json\<close> fills a struct from an object: members are taken in order, a member
  sets the field whose name equals its key, or equals it under the package's case folding; a
  null leaves the field alone; a value of the wrong type makes the whole decoding fail.
  Structs are written member by member; \<^verbatim>\<open>omitempty\<close> drops empty values.
\<close>

text \<open>
  \<^verbatim>\<open>foldName\<close>: ASCII case, plus the two runes outside ASCII that fold to ASCII letters,
  U+212A (Kelvin sign) and U+017F (long s).
\<close>

fun foldName :: "string \<Rightarrow> string" where
  "foldName [] = []"
| "foldName (c # s) =
     (if byte c = 0xE2 \<and> take 2 s = map char_of [0x84, 0xAA :: nat] then CHR ''k'' # foldName (drop 2 s)
      else if byte c = 0xC5 \<and> take 1 s = map char_of [0xBF :: nat] then CHR ''s'' # foldName (drop 1 s)
      else lower_byte c # foldName s)"

definition fieldMatch :: "string \<Rightarrow> string \<Rightarrow> bool" where
  "fieldMatch name key = (key = name \<or> foldName key = foldName name)"

fun decStr :: "string \<Rightarrow> (string \<times> json) list \<Rightarrow> string \<Rightarrow> string option" where
  "decStr name [] acc = Some acc"
| "decStr name ((k, v) # ms) acc =
     (if fieldMatch name k
      then (case v of JStr s \<Rightarrow> decStr name ms s | JNull \<Rightarrow> decStr name ms acc | _ \<Rightarrow> None)
      else decStr name ms acc)"

definition int64 :: "int \<Rightarrow> bool" where
  "int64 n = (- (2 ^ 63) \<le> n \<and> n < 2 ^ 63)"

fun decInt :: "string \<Rightarrow> (string \<times> json) list \<Rightarrow> int \<Rightarrow> int option" where
  "decInt name [] acc = Some acc"
| "decInt name ((k, v) # ms) acc =
     (if fieldMatch name k
      then (case v of JNum n \<Rightarrow> if int64 n then decInt name ms n else None
            | JNull \<Rightarrow> decInt name ms acc | _ \<Rightarrow> None)
      else decInt name ms acc)"

definition str_elem_ok :: "json \<Rightarrow> bool" where
  "str_elem_ok v = (case v of JStr _ \<Rightarrow> True | JNull \<Rightarrow> True | _ \<Rightarrow> False)"

fun decStrListOk :: "string \<Rightarrow> (string \<times> json) list \<Rightarrow> bool" where
  "decStrListOk name [] = True"
| "decStrListOk name ((k, v) # ms) =
     ((fieldMatch name k \<longrightarrow>
        (case v of JArr vs \<Rightarrow> list_all str_elem_ok vs | JNull \<Rightarrow> True | _ \<Rightarrow> False)) \<and>
      decStrListOk name ms)"

text \<open>Members of a struct with \<^verbatim>\<open>omitempty\<close>.\<close>

definition omitStr :: "string \<Rightarrow> string \<Rightarrow> (string \<times> json) list" where
  "omitStr name s = (if s = [] then [] else [(name, JStr s)])"

definition omitInt :: "string \<Rightarrow> int \<Rightarrow> (string \<times> json) list" where
  "omitInt name n = (if n = 0 then [] else [(name, JNum n)])"

section \<open>Lemmas\<close>

lemma decStr_append:
  "decStr name (xs @ ys) acc = Option.bind (decStr name xs acc) (decStr name ys)"
  by (induction xs arbitrary: acc) (auto split: json.splits)

lemma decInt_append:
  "decInt name (xs @ ys) acc = Option.bind (decInt name xs acc) (decInt name ys)"
  by (induction xs arbitrary: acc) (auto split: json.splits)

lemma decStr_omitStr:
  "decStr name (omitStr name' s) acc =
     Some (if fieldMatch name name' \<and> s \<noteq> [] then s else acc)"
  by (simp add: omitStr_def)

lemma decStr_omitInt:
  "\<not> fieldMatch name name' \<Longrightarrow> decStr name (omitInt name' n) acc = Some acc"
  by (simp add: omitInt_def)

lemma decInt_omitInt:
  "int64 n \<Longrightarrow> decInt name (omitInt name' n) acc =
     Some (if fieldMatch name name' \<and> n \<noteq> 0 then n else acc)"
  by (simp add: omitInt_def)

lemma decInt_omitStr:
  "\<not> fieldMatch name name' \<Longrightarrow> decInt name (omitStr name' s) acc = Some acc"
  by (simp add: omitStr_def)

lemmas dec_simps = decStr_append decInt_append decStr_omitStr decStr_omitInt decInt_omitInt
  decInt_omitStr

end
