(* ===== verification/Redaction.thy ===== *)
theory Redaction
  imports Prelude
begin

text \<open>
  \<^verbatim>\<open>internal/security/redaction.go\<close>: masking the values of sensitive keys in JSON documents
  before they are stored in task logs and audit records, and the regular-expression pass over
  free text. \<open>uni\<close> is the Unicode part of \<^verbatim>\<open>strings.ToLower\<close>.
\<close>

definition RedactedValue :: string where "RedactedValue = ''[REDACTED]''"

definition sensitiveKeyParts :: "string list" where
  "sensitiveKeyParts = [''password'', ''passwd'', ''token'', ''secret'', ''key'', ''credential'',
     ''authorization'', ''cookie'', ''set-cookie'']"

definition IsSensitiveKey :: "(string \<Rightarrow> string) \<Rightarrow> string \<Rightarrow> bool" where
  "IsSensitiveKey uni key =
     (let normalized = ToLower uni (TrimSpace key)
      in normalized \<noteq> [] \<and> list_ex (\<lambda>part. Contains normalized part) sensitiveKeyParts)"

lemma size_member_less: "(m :: string \<times> json) \<in> set ms \<Longrightarrow> size (snd m) < Suc (size_list (size_prod (\<lambda>_. 0) size) ms)"
  by (induction ms) auto

lemma size_element_less: "(v :: json) \<in> set vs \<Longrightarrow> size v < Suc (size_list size vs)"
  by (induction vs) auto

function (sequential) redactValue :: "(string \<Rightarrow> string) \<Rightarrow> json \<Rightarrow> json" where
  "redactValue uni (JObj ms) =
     JObj (map (\<lambda>m. (fst m, if IsSensitiveKey uni (fst m) then JStr RedactedValue
                            else redactValue uni (snd m))) ms)"
| "redactValue uni (JArr vs) = JArr (map (redactValue uni) vs)"
| "redactValue uni v = v"
  by pat_completeness auto

termination
  by (relation "measure (\<lambda>(uni, v). size v)") (auto dest: size_member_less size_element_less)

text \<open>No sensitive key, at any depth, still carries a value.\<close>

function (sequential) masked :: "(string \<Rightarrow> string) \<Rightarrow> json \<Rightarrow> bool" where
  "masked uni (JObj ms) =
     list_all (\<lambda>m. if IsSensitiveKey uni (fst m) then snd m = JStr RedactedValue
                   else masked uni (snd m)) ms"
| "masked uni (JArr vs) = list_all (masked uni) vs"
| "masked uni v = True"
  by pat_completeness auto

termination
  by (relation "measure (\<lambda>(uni, v). size v)") (auto dest: size_member_less size_element_less)

lemma masked_redactValue: "masked uni (redactValue uni v)"
  by (induction uni v rule: redactValue.induct) (auto simp: list_all_iff)

lemma redactValue_masked: "masked uni v \<Longrightarrow> redactValue uni v = v"
  by (induction uni v rule: redactValue.induct)
    (auto simp: list_all_iff intro!: map_idI prod_eqI split: if_splits)

text \<open>Keys outside the list keep their (redacted) value: the shape of the document survives.\<close>

lemma redactValue_keys:
  "redactValue uni (JObj ms) = JObj ms' \<Longrightarrow> map fst ms' = map fst ms"
  by auto

section \<open>RedactText\<close>

text \<open>
  \<^verbatim>\<open>sensitiveAssignmentPattern\<close>: a key word between word boundaries (ASCII case ignored, and
  with it the two runes that fold to \<^verbatim>\<open>k\<close> and \<^verbatim>\<open>s\<close>), white space, a colon or an equals
  sign, white space, and a value: a quoted text, or else everything up to white space, a comma
  or a closing brace. No key word is a prefix of another one, and neither white space nor the
  separator can be matched in two ways, so the leftmost match at a position is unique.
\<close>

definition is_word :: "char \<Rightarrow> bool" where
  "is_word c = ((48 \<le> byte c \<and> byte c \<le> 57) \<or> (65 \<le> byte c \<and> byte c \<le> 90) \<or>
     (97 \<le> byte c \<and> byte c \<le> 122) \<or> byte c = 95)"

definition is_re_space :: "char \<Rightarrow> bool" where
  "is_re_space c = (byte c \<in> {9, 10, 12, 13, 32})"

definition word_boundary :: "char option \<Rightarrow> string \<Rightarrow> bool" where
  "word_boundary prev s =
     ((case prev of None \<Rightarrow> False | Some c \<Rightarrow> is_word c) \<noteq>
      (case s of [] \<Rightarrow> False | c # _ \<Rightarrow> is_word c))"

text \<open>The text that matches a key word at the start of a string, and what follows.\<close>

fun fold_prefix :: "string \<Rightarrow> string \<Rightarrow> (string \<times> string) option" where
  "fold_prefix [] s = Some ([], s)"
| "fold_prefix (p # ps) s =
     (let matched = (\<lambda>m s'. map_option (\<lambda>(t, rest). (m @ t, rest)) (fold_prefix ps s')) in
      case s of
        [] \<Rightarrow> None
      | c # s' \<Rightarrow>
          if lower_byte c = p then matched [c] s'
          else if p = CHR ''k'' \<and> take 3 s = map char_of [0xE2, 0x84, 0xAA :: nat]
               then matched (take 3 s) (drop 3 s)
          else if p = CHR ''s'' \<and> take 2 s = map char_of [0xC5, 0xBF :: nat]
               then matched (take 2 s) (drop 2 s)
          else None)"

definition match_value :: "string \<Rightarrow> string option" where
  "match_value s =
     (let plain = (\<lambda>c. \<not> is_re_space c \<and> c \<noteq> CHR '','' \<and> c \<noteq> CHR ''}'');
          quoted = (\<lambda>q r. if q \<in> set r then Some (tl (dropWhile (\<lambda>c. c \<noteq> q) r)) else None)
      in case s of
           [] \<Rightarrow> None
         | c # r \<Rightarrow>
             (case (if c = CHR 0x22 \<or> c = CHR 0x27 then quoted c r else None) of
                Some rest \<Rightarrow> Some rest
              | None \<Rightarrow> if plain c then Some (dropWhile plain s) else None))"

definition match_assignment :: "char option \<Rightarrow> string \<Rightarrow> string \<Rightarrow> (string \<times> string) option" where
  "match_assignment prev s key =
     (if \<not> word_boundary prev s then None
      else case fold_prefix key s of
        None \<Rightarrow> None
      | Some (word, s1) \<Rightarrow>
          if \<not> word_boundary (if word = [] then None else Some (last word)) s1 then None
          else (case dropWhile is_re_space s1 of
              [] \<Rightarrow> None
            | c # s2 \<Rightarrow>
                if c = CHR '':'' \<or> c = CHR ''=''
                then map_option (\<lambda>rest. (word, rest)) (match_value (dropWhile is_re_space s2))
                else None))"

fun first_match :: "char option \<Rightarrow> string \<Rightarrow> string list \<Rightarrow> (string \<times> string) option" where
  "first_match prev s [] = None"
| "first_match prev s (key # keys) =
     (case match_assignment prev s key of Some m \<Rightarrow> Some m | None \<Rightarrow> first_match prev s keys)"

definition patternKeys :: "string list" where
  "patternKeys = [''password'', ''passwd'', ''token'', ''secret'', ''key'', ''credential'',
     ''authorization'', ''cookie'', ''set-cookie'']"

lemma length_dropWhile: "length (dropWhile p s) \<le> length s"
  by (induction s) auto

lemma match_value_shorter: "match_value s = Some r \<Longrightarrow> length r < length s"
proof (cases s)
  case (Cons c t)
  assume "match_value s = Some r"
  with Cons consider "r = tl (dropWhile (\<lambda>d. d \<noteq> c) t)" "c \<in> set t"
    | "r = dropWhile (\<lambda>c. \<not> is_re_space c \<and> c \<noteq> CHR '','' \<and> c \<noteq> CHR ''}'') t"
    by (auto simp: match_value_def Let_def split: if_splits option.splits)
  then show ?thesis
    using length_dropWhile [of "\<lambda>d. d \<noteq> c" t]
      length_dropWhile [of "\<lambda>c. \<not> is_re_space c \<and> c \<noteq> CHR '','' \<and> c \<noteq> CHR ''}''" t] Cons
    by cases auto
qed (simp add: match_value_def)

lemma fold_prefix_shorter: "fold_prefix key s = Some (w, r) \<Longrightarrow> length r \<le> length s"
proof (induction key s arbitrary: w r rule: fold_prefix.induct)
  case (2 p ps s)
  then show ?case
    by (cases s) (fastforce simp: Let_def split: if_splits)+
qed simp

lemma match_assignment_shorter: "match_assignment prev s key = Some (w, r) \<Longrightarrow> length r < length s"
proof -
  assume "match_assignment prev s key = Some (w, r)"
  then obtain s1 c s2 where "fold_prefix key s = Some (w, s1)" "dropWhile is_re_space s1 = c # s2"
      "match_value (dropWhile is_re_space s2) = Some r"
    by (auto simp: match_assignment_def split: if_splits option.splits list.splits)
  then show ?thesis
    using fold_prefix_shorter [of key s w s1] length_dropWhile [of is_re_space s1]
      length_dropWhile [of is_re_space s2] match_value_shorter [of "dropWhile is_re_space s2" r]
    by simp
qed

lemma first_match_shorter: "first_match prev s keys = Some (w, r) \<Longrightarrow> length r < length s"
  by (induction keys) (auto split: option.splits dest: match_assignment_shorter)

text \<open>\<^verbatim>\<open>ReplaceAllString(raw, "${1}: [REDACTED]")\<close>, from a position with the byte before it.\<close>

function redact_from :: "char option \<Rightarrow> string \<Rightarrow> string" where
  "redact_from prev s =
     (case s of
        [] \<Rightarrow> []
      | c # s' \<Rightarrow>
          (case first_match prev s patternKeys of
             None \<Rightarrow> c # redact_from (Some c) s'
           | Some (word, rest) \<Rightarrow>
               word @ '': '' @ RedactedValue @
               redact_from (Some (s ! (length s - length rest - 1))) rest))"
  by pat_completeness auto

termination
  by (relation "measure (\<lambda>(prev, s). length s)") (auto dest: first_match_shorter)

declare redact_from.simps [simp del]

definition RedactText :: "string \<Rightarrow> string" where
  "RedactText raw = (if raw = [] then raw else redact_from None raw)"

end
