(* ===== verification/TaskPayload.thy ===== *)
theory TaskPayload
  imports Schema JsonDecode Redaction
begin

text \<open>
  The pure functions of \<^verbatim>\<open>internal/service/task_service.go\<close>: the payload stored with a task
  and its validation, the idempotency key, the redacted metadata of the task log, the
  classification of errors, retry and heartbeat times, and the options of the worker.
\<close>

definition TaskTypeDockerRestart :: string where "TaskTypeDockerRestart = ''docker_restart''"
definition TaskTypeServiceRestart :: string where "TaskTypeServiceRestart = ''service_restart''"
definition TaskTypeBackupCreate :: string where "TaskTypeBackupCreate = ''backup_create''"
definition TaskTypeBackupVerify :: string where "TaskTypeBackupVerify = ''backup_verify''"

definition taskOperationDockerRestart :: string where
  "taskOperationDockerRestart = ''docker.restart''"
definition taskOperationServiceRestart :: string where
  "taskOperationServiceRestart = ''service.restart''"
definition taskOperationBackupCreate :: string where
  "taskOperationBackupCreate = ''backup.create''"
definition taskOperationBackupVerify :: string where
  "taskOperationBackupVerify = ''backup.verify''"

lemmas task_operation_defs = taskOperationDockerRestart_def taskOperationServiceRestart_def
  taskOperationBackupCreate_def taskOperationBackupVerify_def

section \<open>Payload\<close>

definition empty_payload :: taskPayload where
  "empty_payload = \<lparr>pl_Operation = [], pl_ContainerID = [], pl_ServiceName = [], pl_BackupID = 0,
     pl_ResourceType = [], pl_ResourceID = [], pl_StorageType = [], pl_FilePath = [],
     pl_SizeBytes = 0, pl_Checksum = []\<rparr>"

text \<open>The struct as \<^verbatim>\<open>json.Marshal\<close> writes it; this marshalling cannot fail.\<close>

definition marshalTaskPayload :: "taskPayload \<Rightarrow> json" where
  "marshalTaskPayload p = JObj (
     [(''operation'', JStr (pl_Operation p))] @
     omitStr ''container_id'' (pl_ContainerID p) @ omitStr ''service_name'' (pl_ServiceName p) @
     omitInt ''backup_id'' (pl_BackupID p) @ omitStr ''resource_type'' (pl_ResourceType p) @
     omitStr ''resource_id'' (pl_ResourceID p) @ omitStr ''storage_type'' (pl_StorageType p) @
     omitStr ''file_path'' (pl_FilePath p) @ omitInt ''size_bytes'' (pl_SizeBytes p) @
     omitStr ''checksum'' (pl_Checksum p))"

text \<open>\<^verbatim>\<open>json.Unmarshal([]byte(raw), &payload)\<close>.\<close>

definition decode_payload :: "json \<Rightarrow> taskPayload option" where
  "decode_payload j = (case j of
       JNull \<Rightarrow> Some empty_payload
     | JObj ms \<Rightarrow> (
         case decStr ''operation'' ms [] of None \<Rightarrow> None | Some op \<Rightarrow> (
         case decStr ''container_id'' ms [] of None \<Rightarrow> None | Some ci \<Rightarrow> (
         case decStr ''service_name'' ms [] of None \<Rightarrow> None | Some sn \<Rightarrow> (
         case decInt ''backup_id'' ms 0 of None \<Rightarrow> None | Some bi \<Rightarrow> (
         case decStr ''resource_type'' ms [] of None \<Rightarrow> None | Some rt \<Rightarrow> (
         case decStr ''resource_id'' ms [] of None \<Rightarrow> None | Some ri \<Rightarrow> (
         case decStr ''storage_type'' ms [] of None \<Rightarrow> None | Some st \<Rightarrow> (
         case decStr ''file_path'' ms [] of None \<Rightarrow> None | Some fp \<Rightarrow> (
         case decInt ''size_bytes'' ms 0 of None \<Rightarrow> None | Some sz \<Rightarrow> (
         case decStr ''checksum'' ms [] of None \<Rightarrow> None | Some ck \<Rightarrow>
         Some \<lparr>pl_Operation = op, pl_ContainerID = ci, pl_ServiceName = sn, pl_BackupID = bi,
           pl_ResourceType = rt, pl_ResourceID = ri, pl_StorageType = st, pl_FilePath = fp,
           pl_SizeBytes = sz, pl_Checksum = ck\<rparr>))))))))))
     | _ \<Rightarrow> None)"

definition hasManualVerification :: "int \<Rightarrow> string \<Rightarrow> string \<Rightarrow> bool" where
  "hasManualVerification sizeBytes checksum filePath =
     (sizeBytes > 0 \<or> TrimSpace checksum \<noteq> [] \<or> TrimSpace filePath \<noteq> [])"

definition unmarshalTaskPayload :: "json \<Rightarrow> taskPayload result" where
  "unmarshalTaskPayload raw = (case decode_payload raw of
       None \<Rightarrow> Inl (Wrapf ''invalid task payload'' (Lib ''json''))
     | Some p \<Rightarrow>
       if pl_Operation p = taskOperationDockerRestart then
         (if TrimSpace (pl_ContainerID p) = []
          then Inl (Plain ''container_id is required in task payload'') else Inr p)
       else if pl_Operation p = taskOperationServiceRestart then
         (if TrimSpace (pl_ServiceName p) = []
          then Inl (Plain ''service_name is required in task payload'') else Inr p)
       else if pl_Operation p = taskOperationBackupCreate then
         (if pl_BackupID p \<le> 0
          then Inl (Plain ''backup_id is required in task payload'') else Inr p)
       else if pl_Operation p = taskOperationBackupVerify then
         (if pl_BackupID p \<le> 0
          then Inl (Plain ''backup_id is required in task payload'')
          else if hasManualVerification (pl_SizeBytes p) (pl_Checksum p) (pl_FilePath p) then
            (if pl_SizeBytes p \<le> 0
             then Inl (Plain ''size_bytes is required when overriding backup verification'')
             else if TrimSpace (pl_Checksum p) = []
             then Inl (Plain ''checksum is required when overriding backup verification'')
             else Inr p)
          else Inr p)
       else Inl (Plain (''unsupported operation '' @ [CHR 0x27] @ pl_Operation p @ [CHR 0x27])))"

definition normalizeTaskIdempotencyKey :: "string \<Rightarrow> string option result" where
  "normalizeTaskIdempotencyKey raw =
     (let key = TrimSpace raw
      in if key = [] then Inr None
         else if length key > 128
         then Inl (Plain ''idempotency_key must be at most 128 bytes'')
         else if ContainsControl key
         then Inl (Plain ''idempotency_key cannot contain control characters'')
         else Inr (Some key))"

text \<open>
  \<^verbatim>\<open>marshalTaskMetadata\<close>: marshal the map, parse it again inside \<^verbatim>\<open>RedactJSON\<close>, redact, marshal.
  Values of the map are strings, integers, booleans and payloads, so neither pass can fail, and
  the composition is the redaction of the tree.
\<close>

definition marshalTaskMetadata :: "golib \<Rightarrow> (string \<times> json) list \<Rightarrow> json" where
  "marshalTaskMetadata lib data = redactValue (lower_uni lib) (JObj data)"

section \<open>Retries, heartbeats, options\<close>

definition isRetryableTaskError :: "go_error \<Rightarrow> bool" where
  "isRetryableTaskError err = (case As err of
       None \<Rightarrow> True
     | Some appErr \<Rightarrow> HTTPStatus appErr \<notin> {400, 401, 403, 404, 413})"

definition taskRetryBackoff :: "int \<Rightarrow> duration" where
  "taskRetryBackoff attempt =
     (let a1 = (if attempt \<le> 0 then 1 else attempt);
          a2 = (if a1 > 6 then 6 else a1);
          delay = push_bit (nat (a2 - 1)) Second
      in if delay > 30 * Second then 30 * Second else delay)"

definition nextTaskRetryAt :: "time \<Rightarrow> int \<Rightarrow> int \<Rightarrow> bool \<Rightarrow> time option" where
  "nextTaskRetryAt now attempt maxAttempts retryable =
     (if \<not> retryable \<or> maxAttempts \<le> 0 \<or> attempt \<ge> maxAttempts then None
      else Some (now + taskRetryBackoff attempt))"

definition taskHeartbeatInterval :: "duration \<Rightarrow> duration" where
  "taskHeartbeatInterval leaseDuration =
     (if leaseDuration \<le> 0 then 10 * Second
      else let interval = leaseDuration div 3
           in if interval \<le> 0 then leaseDuration
              else if interval < 50 * Millisecond then 50 * Millisecond
              else interval)"

record TaskWorkerOptions =
  wo_WorkerID :: string
  wo_Concurrency :: int
  wo_LeaseDuration :: duration
  wo_PollInterval :: duration

text \<open>\<open>hostname\<close> and \<open>pid\<close> are what \<^verbatim>\<open>os.Hostname\<close> and \<^verbatim>\<open>os.Getpid\<close> return.\<close>

definition normalizeTaskWorkerOptions ::
  "string \<Rightarrow> int \<Rightarrow> TaskWorkerOptions \<Rightarrow> TaskWorkerOptions" where
  "normalizeTaskWorkerOptions hostname pid opts =
     (let workerID = TrimSpace (wo_WorkerID opts);
          host = TrimSpace hostname
      in \<lparr>wo_WorkerID = (if workerID = []
             then (if host = [] then ''snowpanel-backend'' else host) @ ''-'' @ itoa pid
             else workerID),
          wo_Concurrency = (if wo_Concurrency opts \<le> 0 then 1 else wo_Concurrency opts),
          wo_LeaseDuration = (if wo_LeaseDuration opts \<le> 0 then 30 * Second
             else wo_LeaseDuration opts),
          wo_PollInterval = (if wo_PollInterval opts \<le> 0 then 2 * Second
             else wo_PollInterval opts)\<rparr>)"

section \<open>Lemmas\<close>

lemma fieldMatch_refl [simp]: "fieldMatch name name"
  by (simp add: fieldMatch_def)

lemma decode_marshal_payload:
  assumes "int64 (pl_BackupID p)" "int64 (pl_SizeBytes p)"
  shows "decode_payload (marshalTaskPayload p) = Some p"
  using assms
  by (simp add: decode_payload_def marshalTaskPayload_def dec_simps fieldMatch_def lower_byte_def)

text \<open>The payloads the service creates, as a predicate on the Go value.\<close>

definition valid_payload :: "taskPayload \<Rightarrow> bool" where
  "valid_payload p =
     ((pl_Operation p = taskOperationDockerRestart \<longrightarrow> TrimSpace (pl_ContainerID p) \<noteq> []) \<and>
      (pl_Operation p = taskOperationServiceRestart \<longrightarrow> TrimSpace (pl_ServiceName p) \<noteq> []) \<and>
      (pl_Operation p = taskOperationBackupCreate \<longrightarrow> 0 < pl_BackupID p) \<and>
      (pl_Operation p = taskOperationBackupVerify \<longrightarrow> 0 < pl_BackupID p \<and>
         (hasManualVerification (pl_SizeBytes p) (pl_Checksum p) (pl_FilePath p) \<longrightarrow>
            0 < pl_SizeBytes p \<and> TrimSpace (pl_Checksum p) \<noteq> [])) \<and>
      pl_Operation p \<in> {taskOperationDockerRestart, taskOperationServiceRestart,
        taskOperationBackupCreate, taskOperationBackupVerify})"

lemma unmarshal_valid: "unmarshalTaskPayload raw = Inr p \<Longrightarrow> valid_payload p"
  by (auto simp: unmarshalTaskPayload_def valid_payload_def task_operation_defs
      split: option.splits if_splits)

lemma unmarshal_marshal:
  assumes "valid_payload p" "int64 (pl_BackupID p)" "int64 (pl_SizeBytes p)"
  shows "unmarshalTaskPayload (marshalTaskPayload p) = Inr p"
  using assms(1) decode_marshal_payload [OF assms(2,3)]
  by (auto simp: unmarshalTaskPayload_def valid_payload_def)

lemma masked_metadata: "masked (lower_uni lib) (marshalTaskMetadata lib data)"
  by (simp only: marshalTaskMetadata_def masked_redactValue)

lemma taskRetryBackoff_eq:
  "taskRetryBackoff a =
     (if a \<le> 1 then Second else if a = 2 then 2 * Second else if a = 3 then 4 * Second
      else if a = 4 then 8 * Second else if a = 5 then 16 * Second else 30 * Second)"
proof -
  consider "a \<le> 1" | "a = 2" | "a = 3" | "a = 4" | "a = 5" | "a \<ge> 6" by linarith
  then show ?thesis
    by cases (simp_all add: taskRetryBackoff_def duration_defs Let_def push_bit_eq_mult)
qed

lemma taskRetryBackoff_bounds: "Second \<le> taskRetryBackoff a" "taskRetryBackoff a \<le> 30 * Second"
  by (simp_all add: taskRetryBackoff_eq duration_defs)

lemma taskRetryBackoff_mono: "a \<le> b \<Longrightarrow> taskRetryBackoff a \<le> taskRetryBackoff b"
  by (simp add: taskRetryBackoff_eq duration_defs)

lemma normalizeTaskIdempotencyKey_fixed:
  "normalizeTaskIdempotencyKey raw = Inr (Some key) \<Longrightarrow>
     normalizeTaskIdempotencyKey key = Inr (Some key) \<and> key \<noteq> [] \<and> length key \<le> 128"
  by (auto simp: normalizeTaskIdempotencyKey_def Let_def split: if_splits)

end
