(* ===== verification/World.thy ===== *)
theory World
  imports Schema "HOL-Library.Word"
begin

text \<open>
  What the backend runs against: the database, the clock, the local file system, the agent
  and the metrics registry.

  Every call that leaves the process (a database statement, a file operation) takes the next
  slot of a schedule. A slot says what the rest of the system does before the call takes
  effect (\<open>env\<close>: statements of other goroutines, other backend instances and operators, as a
  change of the tables), how far the wall clock moves (\<open>tick\<close>, possibly backwards), and
  whether the call fails (\<open>fault\<close>). A statement that fails changes nothing itself (one that
  took effect although its caller saw an error is an \<open>env\<close> of the failing slot). An exhausted
  schedule stands for calls that succeed undisturbed. Theorems quantify over the schedule,
  so they hold for every interleaving and every pattern of failures.

  Times are nanoseconds; a \<^verbatim>\<open>TIMESTAMPTZ\<close> column keeps microseconds. The rounding is
  written out for \<^verbatim>\<open>users.last_login_at\<close>, which the code compares with nanoseconds kept
  outside the database; the other instants are only compared with instants of the database.
\<close>

record slot =
  env :: "tables \<Rightarrow> tables"
  tick :: duration
  fault :: "go_error option"

definition quiet :: slot where "quiet = \<lparr>env = id, tick = 0, fault = None\<rparr>"

text \<open>Requests sent to the core agent, and observations made on the metrics registry.\<close>

datatype rpc_request = RestartDockerContainerReq string | RestartServiceReq string
  | StartDockerContainerReq string | StopDockerContainerReq string
  | StartServiceReq string | StopServiceReq string
  | ListFilesReq string
  | ReadTextFileReq (rt_path: string) (rt_max_bytes: int) (rt_encoding: string)
  | ReadFileChunkReq (rc_path: string) (rc_offset: "64 word") (rc_limit: "32 word")
  | WriteFileChunkReq (wc_path: string) (wc_offset: "64 word") (wc_chunk: string)
      (wc_create: bool) (wc_truncate: bool)
  | WriteTextFileReq (wt_path: string) (wt_content: string) (wt_create: bool) (wt_truncate: bool)
      (wt_encoding: string)
  | CreateDirectoryReq string bool | DeleteFileReq string bool | RenameFileReq string string
  | ListCronTasksReq | CreateCronTaskReq string string bool
  | UpdateCronTaskReq string string string bool | DeleteCronTaskReq string
  | SetCronTaskEnabledReq string bool
  | ListDockerContainersReq | ListDockerImagesReq | ListServicesReq string
  | CheckHealthReq | GetSystemOverviewReq | GetRealtimeResourceReq

datatype metric = TaskWorkerClaim string | TaskCompleted string string duration
  | TaskQueueDepth int | TasksRunning int | AgentRequest string bool bool

record world =
  tbl :: tables
  sched :: "slot list"
  clock :: time
  files :: "string \<rightharpoonup> string"
  rpc_log :: "rpc_request list"
  metrics :: "metric list"
  spawned :: "(int \<times> taskPayload) list"
  drawn :: nat
  scan :: "tables \<Rightarrow> time \<Rightarrow> int \<Rightarrow> int \<Rightarrow> int"

definition init_world :: world where
  "init_world = \<lparr>tbl = empty_tables, sched = [], clock = 0, files = Map.empty, rpc_log = [],
     metrics = [], spawned = [], drawn = 0,
     scan = (\<lambda>_ _ _ _. 0)\<rparr>"

section \<open>Primitive effects\<close>

definition Now :: "(world, time) state" where
  "Now = State (\<lambda>w. (clock w, w))"

text \<open>Take the next slot: interference and clock movement happen, then the call's fate is known.\<close>

definition enter :: "world \<Rightarrow> go_error option \<times> world" where
  "enter w = (case sched w of [] \<Rightarrow> (None, w)
     | s # ss \<Rightarrow> (fault s, w\<lparr>tbl := env s (tbl w), clock := clock w + tick s, sched := ss\<rparr>))"

definition dbcall :: "(tables \<Rightarrow> 'a result \<times> tables) \<Rightarrow> (world, 'a result) state" where
  "dbcall f = State (\<lambda>w. case enter w of
       (Some e, w') \<Rightarrow> (Inl e, w')
     | (None, w') \<Rightarrow> (case f (tbl w') of (r, t) \<Rightarrow> (r, w'\<lparr>tbl := t\<rparr>)))"

definition filecall ::
  "((string \<rightharpoonup> string) \<Rightarrow> 'a result \<times> (string \<rightharpoonup> string)) \<Rightarrow> (world, 'a result) state" where
  "filecall f = State (\<lambda>w. case enter w of
       (Some e, w') \<Rightarrow> (Inl e, w')
     | (None, w') \<Rightarrow> (case f (files w') of (r, t) \<Rightarrow> (r, w'\<lparr>files := t\<rparr>)))"

definition send_rpc :: "rpc_request \<Rightarrow> (world, unit) state" where
  "send_rpc q = State (\<lambda>w. ((), w\<lparr>rpc_log := rpc_log w @ [q]\<rparr>))"

definition observe :: "metric \<Rightarrow> (world, unit) state" where
  "observe m = State (\<lambda>w. ((), w\<lparr>metrics := metrics w @ [m]\<rparr>))"

definition spawn :: "int \<Rightarrow> taskPayload \<Rightarrow> (world, unit) state" where
  "spawn i p = State (\<lambda>w. ((), w\<lparr>spawned := spawned w @ [(i, p)]\<rparr>))"

text \<open>A read of the system's randomness: the number of reads so far identifies what it returns.\<close>

definition draw :: "(world, nat) state" where
  "draw = State (\<lambda>w. (drawn w, w\<lparr>drawn := drawn w + 1\<rparr>))"

lemmas [world_simps] = Now_def enter_def dbcall_def filecall_def send_rpc_def observe_def
  spawn_def draw_def quiet_def

lemma enter_no_sched [simp]: "sched w = [] \<Longrightarrow> enter w = (None, w)"
  by (simp add: enter_def)

lemma run_dbcall_calm:
  "sched w = [] \<Longrightarrow>
   run_state (dbcall f) w = (fst (f (tbl w)), w\<lparr>tbl := snd (f (tbl w))\<rparr>)"
  by (simp add: dbcall_def enter_def split: prod.splits)

lemma run_filecall_calm:
  "sched w = [] \<Longrightarrow>
   run_state (filecall f) w = (fst (f (files w)), w\<lparr>files := snd (f (files w))\<rparr>)"
  by (simp add: filecall_def enter_def split: prod.splits)

text \<open>
  A query for several rows: the database visits them in an order of its own, which may differ
  from one query to the next. \<open>scan\<close> ranks the row ids by the tables, the clock and the offset
  of the page that is asked for.
\<close>

definition dbquery :: "int \<Rightarrow> ((int \<Rightarrow> int) \<Rightarrow> tables \<Rightarrow> 'a) \<Rightarrow> (world, 'a result) state" where
  "dbquery offset f = do { w \<leftarrow> getw; dbcall (\<lambda>t. (Inr (f (scan w t (clock w) offset) t), t)) }"

lemma run_dbquery_calm:
  "sched w = [] \<Longrightarrow> run_state (dbquery offset f) w = (Inr (f (scan w (tbl w) (clock w) offset) (tbl w)), w)"
  by (simp add: dbquery_def run_dbcall_calm)

section \<open>Calls that may fail\<close>

text \<open>
  The idiom \<^verbatim>\<open>x, err := call; if err != nil { return ..., apperror.Wrap(ErrX..., err) }\<close>, and
  the same with the error returned as it is.
\<close>

definition call_as :: "go_error \<Rightarrow> (world, 'a result) state \<Rightarrow> ('a \<Rightarrow> (world, 'b result) state) \<Rightarrow>
    (world, 'b result) state" where
  "call_as E m k = do { r \<leftarrow> m; case r of Inl err \<Rightarrow> ret (Inl (wrapAs E err)) | Inr x \<Rightarrow> k x }"

definition call :: "(world, 'a result) state \<Rightarrow> ('a \<Rightarrow> (world, 'b result) state) \<Rightarrow>
    (world, 'b result) state" where
  "call m k = do { r \<leftarrow> m; case r of Inl err \<Rightarrow> ret (Inl err) | Inr x \<Rightarrow> k x }"

lemma keeps_call_as:
  "\<lbrakk>reflp R; transp R; keeps R m; \<And>x. keeps R (k x)\<rbrakk> \<Longrightarrow> keeps R (call_as E m k)"
  unfolding call_as_def by (intro keeps_bind keeps_case_sum keeps_ret)

lemma keeps_call:
  "\<lbrakk>reflp R; transp R; keeps R m; \<And>x. keeps R (k x)\<rbrakk> \<Longrightarrow> keeps R (call m k)"
  unfolding call_def by (intro keeps_bind keeps_case_sum keeps_ret)

lemma run_call_as:
  "run_state (call_as E m k) w = (case run_state m w of
     (Inl e, w') \<Rightarrow> (Inl (wrapAs E e), w') | (Inr x, w') \<Rightarrow> run_state (k x) w')"
  by (simp add: call_as_def split: prod.split sum.split)

lemma run_call:
  "run_state (call m k) w = (case run_state m w of
     (Inl e, w') \<Rightarrow> (Inl e, w') | (Inr x, w') \<Rightarrow> run_state (k x) w')"
  by (simp add: call_def split: prod.split sum.split)

section \<open>Alone\<close>

text \<open>Nobody else is at work: calls may fail and the clock may move, but the tables are ours.\<close>

definition alone :: "world \<Rightarrow> bool" where
  "alone w = (\<forall>x \<in> set (sched w). env x = id)"

lemma alone_enter:
  "alone w \<Longrightarrow> alone (snd (enter w)) \<and> tbl (snd (enter w)) = tbl w \<and> files (snd (enter w)) = files w"
  by (cases "sched w") (auto simp: alone_def enter_def)

lemma alone_dbcall:
  assumes "\<And>t. P t \<Longrightarrow> (\<forall>e. Q (Inl e) t) \<and> Q (fst (f t)) (snd (f t))"
  shows "valid (\<lambda>w. alone w \<and> P (tbl w)) (dbcall f) (\<lambda>x w. alone w \<and> Q x (tbl w))"
proof (rule validI)
  fix w assume w: "alone w \<and> P (tbl w)"
  obtain x v where e: "enter w = (x, v)" by fastforce
  with w alone_enter [of w] have v: "alone v" "P (tbl v)" by simp_all
  show "alone (snd (run_state (dbcall f) w)) \<and>
      Q (fst (run_state (dbcall f) w)) (tbl (snd (run_state (dbcall f) w)))"
    using v assms [OF v(2)] by (cases x) (simp_all add: dbcall_def e alone_def split_beta)
qed

lemma alone_local:
  "valid (\<lambda>w. alone w \<and> P (tbl w)) Now (\<lambda>_ w. alone w \<and> P (tbl w))"
  "valid (\<lambda>w. alone w \<and> P (tbl w)) draw (\<lambda>_ w. alone w \<and> P (tbl w))"
  by (auto intro!: validI simp: Now_def draw_def alone_def)

section \<open>Rely and guarantee\<close>

text \<open>
  \<open>steps R\<close> relates two worlds when, provided every pending interference makes \<open>R\<close>-steps on
  the tables, the tables moved by \<open>R\<close>-steps and the interference still pending makes
  \<open>R\<close>-steps. A handler all of whose statements are \<open>R\<close>-steps keeps \<open>steps R\<close>, whatever is
  interleaved with it.
\<close>

definition rely :: "(tables \<Rightarrow> tables \<Rightarrow> bool) \<Rightarrow> world \<Rightarrow> bool" where
  "rely R w = (\<forall>s \<in> set (sched w). \<forall>t. R\<^sup>*\<^sup>* t (env s t))"

definition steps :: "(tables \<Rightarrow> tables \<Rightarrow> bool) \<Rightarrow> world \<Rightarrow> world \<Rightarrow> bool" where
  "steps R w w' = (rely R w \<longrightarrow> rely R w' \<and> R\<^sup>*\<^sup>* (tbl w) (tbl w'))"

lemma reflp_steps [keeps_intros]: "reflp (steps R)"
  by (simp add: steps_def reflp_def)

lemma transp_steps [keeps_intros]: "transp (steps R)"
  by (rule transpI) (auto simp: steps_def intro: rtranclp_trans)

lemma steps_enter: "steps R w (snd (enter w))"
  by (cases "sched w") (auto simp: steps_def rely_def enter_def)

lemma steps_same_tables: "tbl w' = tbl w \<Longrightarrow> sched w' = sched w \<Longrightarrow> steps R w w'"
  by (simp add: steps_def rely_def)

lemma keeps_steps_dbcall:
  assumes "\<And>t. R\<^sup>*\<^sup>* t (snd (f t))"
  shows "keeps (steps R) (dbcall f)"
proof (rule keepsI)
  fix w
  obtain x w' where e: "enter w = (x, w')" by fastforce
  obtain r t where f: "f (tbl w') = (r, t)" by fastforce
  have "steps R w w'" using steps_enter [of R w] e by simp
  moreover have "steps R w' (w'\<lparr>tbl := t\<rparr>)"
    using assms [of "tbl w'"] f by (simp add: steps_def rely_def)
  ultimately have "steps R w (w'\<lparr>tbl := t\<rparr>)" by (rule transpD [OF transp_steps])
  with \<open>steps R w w'\<close> show "steps R w (snd (run_state (dbcall f) w))"
    by (cases x) (simp_all add: dbcall_def e f)
qed

lemma keeps_steps_filecall [keeps_intros]: "keeps (steps R) (filecall f)"
proof (rule keepsI)
  fix w
  obtain x w' where e: "enter w = (x, w')" by fastforce
  have "steps R w w'" using steps_enter [of R w] e by simp
  moreover have "steps R w' (w'\<lparr>files := t\<rparr>)" for t by (simp add: steps_same_tables)
  ultimately show "steps R w (snd (run_state (filecall f) w))"
    by (cases x) (auto simp: filecall_def e intro: transpD [OF transp_steps] split: prod.splits)
qed

lemma keeps_steps_effects [keeps_intros]:
  "keeps (steps R) Now" "keeps (steps R) (send_rpc q)"
  "keeps (steps R) (observe m)" "keeps (steps R) (spawn i p)" "keeps (steps R) draw"
  by (auto intro!: keepsI steps_same_tables
      simp: Now_def send_rpc_def observe_def spawn_def draw_def)

lemmas keeps_steps = keeps_ret [OF reflp_steps] keeps_get [OF reflp_steps]
  keeps_bind [OF transp_steps] keeps_if keeps_case_sum keeps_case_option keeps_case_prod
  keeps_steps_filecall keeps_steps_effects

text \<open>Invariants: a predicate kept by every \<open>R\<close>-step is kept by a computation that keeps \<open>steps R\<close>.\<close>

lemma steps_invariant:
  assumes "steps R w w'" "rely R w" "\<And>t t'. R t t' \<Longrightarrow> I t \<Longrightarrow> I t'" "I (tbl w)"
  shows "I (tbl w')"
proof -
  have "R\<^sup>*\<^sup>* (tbl w) (tbl w')" using assms(1,2) by (simp add: steps_def)
  then show ?thesis by (induction rule: rtranclp_induct) (auto intro: assms(3,4))
qed

text \<open>Computations that touch neither the agent log nor anything else: frames.\<close>

definition same_rpc :: "world \<Rightarrow> world \<Rightarrow> bool" where
  "same_rpc w w' = (rpc_log w' = rpc_log w)"

lemma reflp_same_rpc: "reflp same_rpc" by (simp add: reflp_def same_rpc_def)

lemma transp_same_rpc: "transp same_rpc" by (auto simp: transp_def same_rpc_def)

lemma keeps_same_rpc_calls:
  "keeps same_rpc (dbcall f)" "keeps same_rpc (filecall g)" "keeps same_rpc Now"
  "keeps same_rpc (observe m)" "keeps same_rpc (spawn i p)"
  by (auto simp: keeps_def same_rpc_def dbcall_def filecall_def enter_def Now_def observe_def
      spawn_def split: prod.splits option.splits list.splits)

lemmas keeps_same_rpc = keeps_ret [OF reflp_same_rpc] keeps_get [OF reflp_same_rpc]
  keeps_bind [OF transp_same_rpc] keeps_if keeps_case_sum keeps_case_option keeps_case_prod
  keeps_same_rpc_calls

end
