(* ===== verification/TaskRepo.thy ===== *)
theory TaskRepo
  imports World
begin

text \<open>
  \<^verbatim>\<open>internal/repository/task_repository.go\<close>: the statements on the tables \<^verbatim>\<open>tasks\<close> and
  \<^verbatim>\<open>task_logs\<close>, each first as a function on the tables (\<open>sql_\<dots>\<close>), then as the repository
  method (\<open>taskRepo_\<dots>\<close>), which reads the clock and runs the statement. The constraints of
  \<^verbatim>\<open>migrations/0001_init_schema.up.sql\<close> and \<^verbatim>\<open>0002_durable_tasks.up.sql\<close> (the CHECKs on
  \<^verbatim>\<open>status\<close> and \<^verbatim>\<open>progress\<close>, the unique index on \<^verbatim>\<open>idempotency_key\<close>) are errors of the
  statements that can violate them.
\<close>

definition TaskStatusPending :: string where "TaskStatusPending = ''pending''"
definition TaskStatusRunning :: string where "TaskStatusRunning = ''running''"
definition TaskStatusSuccess :: string where "TaskStatusSuccess = ''success''"
definition TaskStatusFailed :: string where "TaskStatusFailed = ''failed''"
definition TaskStatusCanceled :: string where "TaskStatusCanceled = ''canceled''"

lemmas task_status_defs = TaskStatusPending_def TaskStatusRunning_def TaskStatusSuccess_def
  TaskStatusFailed_def TaskStatusCanceled_def

definition task_check :: "string \<Rightarrow> int \<Rightarrow> bool" where
  "task_check status progress =
     (status \<in> {''pending'', ''running'', ''success'', ''failed'', ''canceled''} \<and>
      0 \<le> progress \<and> progress \<le> 100)"

section \<open>Statements\<close>

definition sql_CreateTask :: "Task \<Rightarrow> time \<Rightarrow> tables \<Rightarrow> Task result \<times> tables" where
  "sql_CreateTask task now t =
     (let row = task\<lparr>task_ID := tasks_seq t, task_CreatedAt := now, task_UpdatedAt := now\<rparr>;
          t' = t\<lparr>tasks_seq := tasks_seq t + 1\<rparr>
      in if \<not> task_check (task_Status task) (task_Progress task) then (Inl (Lib ''check violation''), t')
         else if task_IdempotencyKey task \<noteq> None \<and>
                 (\<exists>r \<in> set (tasks t). task_IdempotencyKey r = task_IdempotencyKey task)
         then (Inl (Lib ''duplicate key''), t')
         else (Inr row, t'\<lparr>tasks := tasks t @ [row]\<rparr>))"

definition claimable :: "time \<Rightarrow> Task \<Rightarrow> bool" where
  "claimable now r =
     (task_Status r = ''pending'' \<and>
      (case task_NextRunAt r of None \<Rightarrow> True | Some n \<Rightarrow> n \<le> now) \<and>
      task_Attempt r < task_MaxAttempts r)"

definition claim_row :: "string \<Rightarrow> time \<Rightarrow> time \<Rightarrow> Task \<Rightarrow> Task" where
  "claim_row workerID lockedUntil now r =
     r\<lparr>task_Status := ''running'', task_LockedBy := Some workerID,
       task_LockedUntil := Some lockedUntil, task_Attempt := task_Attempt r + 1,
       task_StartedAt := (case task_StartedAt r of None \<Rightarrow> Some now | Some s \<Rightarrow> Some s),
       task_UpdatedAt := now\<rparr>"

definition sql_ClaimNextTask ::
  "string \<Rightarrow> time \<Rightarrow> time \<Rightarrow> tables \<Rightarrow> Task option result \<times> tables" where
  "sql_ClaimNextTask workerID lockedUntil now t =
     (case order_asc task_CreatedAt (filter (claimable now) (tasks t)) of
        [] \<Rightarrow> (Inr None, t)
      | r # _ \<Rightarrow> (Inr (Some (claim_row workerID lockedUntil now r)),
          t\<lparr>tasks := update_where (\<lambda>x. task_ID x = task_ID r) (claim_row workerID lockedUntil now)
                       (tasks t)\<rparr>))"

text \<open>The guard \<^verbatim>\<open>id = ? AND locked_by = ? AND status = 'running'\<close> of the worker's statements.\<close>

definition holds_lease :: "int \<Rightarrow> string \<Rightarrow> Task \<Rightarrow> bool" where
  "holds_lease taskID workerID r =
     (task_ID r = taskID \<and> task_LockedBy r = Some workerID \<and> task_Status r = ''running'')"

definition sql_HeartbeatTask ::
  "int \<Rightarrow> string \<Rightarrow> time \<Rightarrow> time \<Rightarrow> tables \<Rightarrow> unit result \<times> tables" where
  "sql_HeartbeatTask taskID workerID lockedUntil now t =
     (Inr (), t\<lparr>tasks := update_where (holds_lease taskID workerID)
        (\<lambda>r. r\<lparr>task_LockedUntil := Some lockedUntil, task_UpdatedAt := now\<rparr>) (tasks t)\<rparr>)"

definition sql_CompleteTask ::
  "int \<Rightarrow> string \<Rightarrow> json \<Rightarrow> time \<Rightarrow> tables \<Rightarrow> unit result \<times> tables" where
  "sql_CompleteTask taskID workerID res now t =
     (Inr (), t\<lparr>tasks := update_where (holds_lease taskID workerID)
        (\<lambda>r. r\<lparr>task_Status := ''success'', task_Progress := 100, task_Result := res,
               task_ErrorMsg := [], task_LockedBy := None, task_LockedUntil := None,
               task_FinishedAt := Some now, task_UpdatedAt := now\<rparr>) (tasks t)\<rparr>)"

definition fail_row :: "string \<Rightarrow> time option \<Rightarrow> time \<Rightarrow> Task \<Rightarrow> Task" where
  "fail_row errorMessage nextRunAt now r =
     (let status = (if nextRunAt \<noteq> None then ''pending'' else ''failed'');
          r' = r\<lparr>task_Status := status, task_ErrorMsg := errorMessage, task_LockedBy := None,
                 task_LockedUntil := None, task_NextRunAt := nextRunAt, task_UpdatedAt := now\<rparr>
      in if status = ''failed'' then r'\<lparr>task_Progress := 100, task_FinishedAt := Some now\<rparr> else r')"

definition sql_FailTask ::
  "int \<Rightarrow> string \<Rightarrow> string \<Rightarrow> time option \<Rightarrow> time \<Rightarrow> tables \<Rightarrow> unit result \<times> tables" where
  "sql_FailTask taskID workerID errorMessage nextRunAt now t =
     (Inr (), t\<lparr>tasks := update_where (holds_lease taskID workerID)
        (fail_row errorMessage nextRunAt now) (tasks t)\<rparr>)"

definition stale :: "time \<Rightarrow> Task \<Rightarrow> bool" where
  "stale now r = (task_Status r = ''running'' \<and>
     (case task_LockedUntil r of None \<Rightarrow> False | Some u \<Rightarrow> u < now))"

definition sql_ReleaseStaleTasks :: "time \<Rightarrow> time \<Rightarrow> tables \<Rightarrow> int result \<times> tables" where
  "sql_ReleaseStaleTasks now upd t =
     (Inr (int (length (filter (stale now) (tasks t)))),
      t\<lparr>tasks := update_where (stale now)
        (\<lambda>r. r\<lparr>task_Status := ''pending'', task_LockedBy := None, task_LockedUntil := None,
               task_NextRunAt := Some now, task_UpdatedAt := upd\<rparr>) (tasks t)\<rparr>)"

definition sql_UpdateStatus ::
  "int \<Rightarrow> string \<Rightarrow> int \<Rightarrow> string \<Rightarrow> time \<Rightarrow> tables \<Rightarrow> unit result \<times> tables" where
  "sql_UpdateStatus taskID status progress errorMessage now t =
     (if (\<exists>r \<in> set (tasks t). task_ID r = taskID) \<and> \<not> task_check status progress
      then (Inl (Lib ''check violation''), t)
      else (Inr (), t\<lparr>tasks := update_where (\<lambda>r. task_ID r = taskID)
        (\<lambda>r. r\<lparr>task_Status := status, task_Progress := progress, task_ErrorMsg := errorMessage,
               task_UpdatedAt := now\<rparr>) (tasks t)\<rparr>))"

definition sql_AppendLog :: "TaskLog \<Rightarrow> time \<Rightarrow> tables \<Rightarrow> unit result \<times> tables" where
  "sql_AppendLog log now t =
     (let t' = t\<lparr>task_logs_seq := task_logs_seq t + 1\<rparr>
      in if \<exists>r \<in> set (tasks t). task_ID r = log_TaskID log
         then (Inr (), t'\<lparr>task_logs := task_logs t @
                 [log\<lparr>log_ID := task_logs_seq t, log_CreatedAt := now\<rparr>]\<rparr>)
         else (Inl (Lib ''foreign key violation''), t'))"

section \<open>Repository methods\<close>

definition taskRepo_Create :: "Task \<Rightarrow> (world, Task result) state" where
  "taskRepo_Create task = do {
     now \<leftarrow> Now;
     let task' = (if task_MaxAttempts task \<le> 0 then task\<lparr>task_MaxAttempts := 1\<rparr> else task);
     dbcall (sql_CreateTask task' now)
   }"

definition taskRepo_ClaimNextTask :: "string \<Rightarrow> duration \<Rightarrow> (world, Task option result) state" where
  "taskRepo_ClaimNextTask workerID leaseDuration = do {
     now \<leftarrow> Now;
     dbcall (sql_ClaimNextTask workerID (now + leaseDuration) now)
   }"

definition taskRepo_HeartbeatTask ::
  "int \<Rightarrow> string \<Rightarrow> duration \<Rightarrow> (world, unit result) state" where
  "taskRepo_HeartbeatTask taskID workerID leaseDuration = do {
     now \<leftarrow> Now;
     dbcall (sql_HeartbeatTask taskID workerID (now + leaseDuration) now)
   }"

definition taskRepo_CompleteTask :: "int \<Rightarrow> string \<Rightarrow> json \<Rightarrow> (world, unit result) state" where
  "taskRepo_CompleteTask taskID workerID res = do {
     now \<leftarrow> Now;
     dbcall (sql_CompleteTask taskID workerID res now)
   }"

definition taskRepo_FailTask ::
  "int \<Rightarrow> string \<Rightarrow> string \<Rightarrow> time option \<Rightarrow> (world, unit result) state" where
  "taskRepo_FailTask taskID workerID errorMessage nextRunAt = do {
     now \<leftarrow> Now;
     dbcall (sql_FailTask taskID workerID errorMessage nextRunAt now)
   }"

definition taskRepo_ReleaseStaleTasks :: "time \<Rightarrow> (world, int result) state" where
  "taskRepo_ReleaseStaleTasks now = do {
     upd \<leftarrow> Now;
     dbcall (sql_ReleaseStaleTasks now upd)
   }"

definition taskRepo_UpdateStatus ::
  "int \<Rightarrow> string \<Rightarrow> int \<Rightarrow> string \<Rightarrow> (world, unit result) state" where
  "taskRepo_UpdateStatus taskID status progress errorMessage = do {
     now \<leftarrow> Now;
     dbcall (sql_UpdateStatus taskID status progress errorMessage now)
   }"

definition taskRepo_CountByStatus :: "string \<Rightarrow> (world, int result) state" where
  "taskRepo_CountByStatus status =
     dbcall (\<lambda>t. (Inr (int (length (filter (\<lambda>r. task_Status r = status) (tasks t)))), t))"

definition find_task :: "int \<Rightarrow> tables \<Rightarrow> Task option" where
  "find_task taskID t = first_where (\<lambda>r. task_ID r = taskID) (tasks t)"

definition taskRepo_GetByID :: "int \<Rightarrow> (world, Task option result) state" where
  "taskRepo_GetByID taskID = dbcall (\<lambda>t. (Inr (find_task taskID t), t))"

definition find_by_key :: "string \<Rightarrow> tables \<Rightarrow> Task option" where
  "find_by_key key t = first_where (\<lambda>r. task_IdempotencyKey r = Some key) (tasks t)"

definition taskRepo_GetByIdempotencyKey :: "string \<Rightarrow> (world, Task option result) state" where
  "taskRepo_GetByIdempotencyKey key = dbcall (\<lambda>t. (Inr (find_by_key key t), t))"

record TaskListFilter =
  tlf_Page :: int
  tlf_Size :: int
  tlf_Status :: string
  tlf_Type :: string

definition task_matches :: "TaskListFilter \<Rightarrow> Task \<Rightarrow> bool" where
  "task_matches f r =
     ((TrimSpace (tlf_Status f) \<noteq> [] \<longrightarrow> task_Status r = TrimSpace (tlf_Status f)) \<and>
      (TrimSpace (tlf_Type f) \<noteq> [] \<longrightarrow> task_Type r = TrimSpace (tlf_Type f)))"

definition taskRepo_List :: "TaskListFilter \<Rightarrow> (world, (Task list \<times> int) result) state" where
  "taskRepo_List f = (
     let page = (if tlf_Page f \<le> 0 then 1 else tlf_Page f);
         size0 = (if tlf_Size f \<le> 0 then 20 else tlf_Size f);
         size = (if size0 > 100 then 100 else size0)
     in do {
       total \<leftarrow> dbcall (\<lambda>t. (Inr (int (length (filter (task_matches f) (tasks t)))), t));
       case total of Inl e \<Rightarrow> ret (Inl e)
       | Inr n \<Rightarrow> do {
           items \<leftarrow> dbquery ((page - 1) * size) (\<lambda>rank t. page_rows ((page - 1) * size) size
                      (order_desc (\<lambda>r. rank (task_ID r)) task_CreatedAt
                        (filter (task_matches f) (tasks t))));
           case items of Inl e \<Rightarrow> ret (Inl e) | Inr rows \<Rightarrow> ret (Inr (rows, n))
         }
     })"

definition taskRepo_AppendLog :: "TaskLog \<Rightarrow> (world, unit result) state" where
  "taskRepo_AppendLog log = do {
     now \<leftarrow> Now;
     dbcall (sql_AppendLog log now)
   }"

definition taskRepo_ListLogs :: "int \<Rightarrow> int \<Rightarrow> (world, TaskLog list result) state" where
  "taskRepo_ListLogs taskID limit = (
     let lim = (if limit \<le> 0 \<or> limit > 500 then 200 else limit)
     in dbquery 0 (\<lambda>rank t. page_rows 0 lim (order_asc log_CreatedAt
          (sort_key (\<lambda>l. rank (log_ID l)) (filter (\<lambda>l. log_TaskID l = taskID) (task_logs t))))))"

end
