(* ===== verification/TaskProtocol.thy ===== *)
theory TaskProtocol
  imports TaskRepo
begin

text \<open>
  The task table as a state machine. A step is one statement of the repository, run by any
  party: a backend instance that creates a task, a worker that claims, heartbeats, completes
  or fails one, the sweep that releases stale leases (\<open>lease_step\<close>), or a call of
  \<^verbatim>\<open>UpdateStatus\<close>, which has no guard but the id (\<open>status_step\<close>). Everything the services
  do to the table, in any interleaving, is a sequence of \<open>task_step\<close>s.
\<close>

named_theorems task_sql \<open>statements on the task table\<close>

lemmas [task_sql] = sql_CreateTask_def sql_ClaimNextTask_def sql_HeartbeatTask_def
  sql_CompleteTask_def sql_FailTask_def sql_ReleaseStaleTasks_def sql_UpdateStatus_def
  sql_AppendLog_def fail_row_def claim_row_def

definition fresh_task :: "Task \<Rightarrow> bool" where
  "fresh_task r = (task_Status r = ''pending'' \<and> task_Progress r = 0 \<and> task_Attempt r = 0 \<and>
     1 \<le> task_MaxAttempts r \<and> task_LockedBy r = None \<and> task_LockedUntil r = None)"

inductive lease_step :: "tables \<Rightarrow> tables \<Rightarrow> bool" where
  create: "fresh_task task \<Longrightarrow> lease_step t (snd (sql_CreateTask task now t))"
| claim: "lease_step t (snd (sql_ClaimNextTask workerID lockedUntil now t))"
| heartbeat: "lease_step t (snd (sql_HeartbeatTask i workerID lockedUntil now t))"
| complete: "lease_step t (snd (sql_CompleteTask i workerID res now t))"
| fail: "lease_step t (snd (sql_FailTask i workerID msg nextRunAt now t))"
| release: "lease_step t (snd (sql_ReleaseStaleTasks now upd t))"
| other: "tasks t' = tasks t \<Longrightarrow> tasks_seq t' = tasks_seq t \<Longrightarrow> lease_step t t'"

inductive status_step :: "tables \<Rightarrow> tables \<Rightarrow> bool" where
  status: "st \<in> {''running'', ''success'', ''failed'', ''canceled''} \<Longrightarrow>
     status_step t (snd (sql_UpdateStatus i st progress msg now t))"

definition task_step :: "tables \<Rightarrow> tables \<Rightarrow> bool" where
  "task_step t t' = (lease_step t t' \<or> status_step t t')"

inductive_cases lease_stepE: "lease_step t t'"
inductive_cases status_stepE: "status_step t t'"

section \<open>The invariant of the table\<close>

definition task_row_ok :: "Task \<Rightarrow> bool" where
  "task_row_ok r =
     (task_check (task_Status r) (task_Progress r) \<and>
      0 \<le> task_Attempt r \<and> task_Attempt r \<le> task_MaxAttempts r \<and> 1 \<le> task_MaxAttempts r \<and>
      (task_LockedBy r = None \<longleftrightarrow> task_LockedUntil r = None) \<and>
      (task_Status r = ''pending'' \<longrightarrow> task_LockedBy r = None))"

definition task_keys :: "tables \<Rightarrow> (int \<times> string option) list" where
  "task_keys t = map (\<lambda>r. (task_ID r, task_IdempotencyKey r)) (tasks t)"

definition task_keys_ok :: "int \<Rightarrow> (int \<times> string option) list \<Rightarrow> bool" where
  "task_keys_ok next ks =
     (distinct (map fst ks) \<and> (\<forall>x \<in> set ks. 0 < fst x \<and> fst x < next) \<and> 0 < next \<and>
      (\<forall>x \<in> set ks. \<forall>y \<in> set ks. snd x \<noteq> None \<longrightarrow> snd x = snd y \<longrightarrow> fst x = fst y))"

definition task_inv :: "tables \<Rightarrow> bool" where
  "task_inv t = (list_all task_row_ok (tasks t) \<and> task_keys_ok (tasks_seq t) (task_keys t))"

lemma task_inv_empty: "task_inv empty_tables"
  by (simp add: task_inv_def empty_tables_def task_keys_def task_keys_ok_def)

text \<open>An update that keeps ids and idempotency keys and turns good rows into good rows.\<close>

lemma task_inv_update:
  assumes "task_inv t"
    and keys: "\<And>r. task_ID (f r) = task_ID r" "\<And>r. task_IdempotencyKey (f r) = task_IdempotencyKey r"
    and rows: "\<And>r. task_row_ok r \<Longrightarrow> p r \<Longrightarrow> task_row_ok (f r)"
  shows "task_inv (t\<lparr>tasks := update_where p f (tasks t)\<rparr>)"
proof -
  have "task_keys (t\<lparr>tasks := update_where p f (tasks t)\<rparr>) = task_keys t"
    by (simp add: task_keys_def map_update_where keys)
  moreover have "list_all task_row_ok (update_where p f (tasks t))"
    using assms(1) by (auto simp: task_inv_def intro: list_all_update_where rows)
  ultimately show ?thesis using assms(1) by (simp add: task_inv_def)
qed

lemma task_keys_ok_snoc:
  assumes ok: "task_keys_ok n ks" and new: "k \<noteq> None \<Longrightarrow> k \<notin> snd ` set ks"
  shows "task_keys_ok (n + 1) (ks @ [(n, k)])"
proof -
  have b: "\<forall>x \<in> set ks. 0 < fst x \<and> fst x < n" "0 < n" "distinct (map fst ks)"
    and u: "\<forall>x \<in> set ks. \<forall>y \<in> set ks. snd x \<noteq> None \<longrightarrow> snd x = snd y \<longrightarrow> fst x = fst y"
    using ok unfolding task_keys_ok_def by blast+
  have f: "\<forall>x \<in> set ks. k \<noteq> None \<longrightarrow> snd x \<noteq> k" using new by blast
  have "distinct (map fst (ks @ [(n, k)]))" using b by force
  moreover have "\<forall>x \<in> set (ks @ [(n, k)]). 0 < fst x \<and> fst x < n + 1"
    using b(1,2) by fastforce
  moreover have "\<forall>x \<in> set (ks @ [(n, k)]). \<forall>y \<in> set (ks @ [(n, k)]).
      snd x \<noteq> None \<longrightarrow> snd x = snd y \<longrightarrow> fst x = fst y"
    using u f by (simp add: ball_Un) metis
  ultimately show ?thesis using b(2) by (simp add: task_keys_ok_def)
qed

lemma task_inv_create:
  assumes "fresh_task task" "task_inv t"
  shows "task_inv (snd (sql_CreateTask task now t))"
proof -
  have keys: "task_keys_ok (tasks_seq t) (task_keys t)" using assms(2) by (simp add: task_inv_def)
  then have more: "task_keys_ok (tasks_seq t + 1) (task_keys t)"
    by (auto simp: task_keys_ok_def)
  have snoc: "task_keys_ok (tasks_seq t + 1) (task_keys t @ [(tasks_seq t, task_IdempotencyKey task)])"
    if "task_IdempotencyKey task \<noteq> None \<Longrightarrow>
      \<forall>r \<in> set (tasks t). task_IdempotencyKey r \<noteq> task_IdempotencyKey task"
    using that by (intro task_keys_ok_snoc [OF keys]) (auto simp: task_keys_def)
  have row: "task_row_ok (task\<lparr>task_ID := i, task_CreatedAt := now, task_UpdatedAt := now\<rparr>)" for i
    using assms(1) by (simp add: fresh_task_def task_row_ok_def task_check_def)
  show ?thesis
    using assms(2) more snoc row unfolding sql_CreateTask_def Let_def task_inv_def
    by (auto simp: task_keys_def)
qed

lemma task_row_ok_claim:
  "task_row_ok r \<Longrightarrow> claimable now r \<Longrightarrow> task_row_ok (claim_row workerID lockedUntil now r)"
  by (simp add: claim_row_def task_row_ok_def task_check_def claimable_def)

lemma task_inv_ids_unique:
  assumes "task_inv t" "r \<in> set (tasks t)" "r' \<in> set (tasks t)" "task_ID r = task_ID r'"
  shows "r = r'"
proof -
  have "distinct (map task_ID (tasks t))"
    using assms(1) by (simp add: task_inv_def task_keys_def task_keys_ok_def comp_def)
  then show ?thesis using assms(2-4) by (auto simp: distinct_map inj_on_def)
qed

lemma claim_pick:
  assumes "order_asc task_CreatedAt (filter (claimable now) (tasks t)) = r # rs"
  shows "r \<in> set (tasks t)" "claimable now r"
  using arg_cong [OF assms, of set] by auto

lemma task_inv_claim:
  assumes "task_inv t"
  shows "task_inv (snd (sql_ClaimNextTask workerID lockedUntil now t))"
proof (cases "order_asc task_CreatedAt (filter (claimable now) (tasks t))")
  case Nil
  with assms show ?thesis by (simp add: sql_ClaimNextTask_def)
next
  case (Cons r rs)
  note pick = claim_pick [OF Cons]
  have same: "update_where (\<lambda>x. task_ID x = task_ID r) (claim_row workerID lockedUntil now) (tasks t)
    = update_where (\<lambda>x. x = r) (claim_row workerID lockedUntil now) (tasks t)"
    using task_inv_ids_unique [OF assms] pick(1) by (auto simp: update_where_def)
  have "task_inv (t\<lparr>tasks := update_where (\<lambda>x. x = r) (claim_row workerID lockedUntil now) (tasks t)\<rparr>)"
    by (rule task_inv_update [OF assms])
      (auto simp: claim_row_def intro: task_row_ok_claim [unfolded claim_row_def] pick(2))
  with Cons same show ?thesis by (simp add: sql_ClaimNextTask_def)
qed

lemma task_inv_lease_step: "lease_step t t' \<Longrightarrow> task_inv t \<Longrightarrow> task_inv t'"
proof (induction rule: lease_step.induct)
  case (create task t now)
  then show ?case by (rule task_inv_create)
next
  case (claim t workerID lockedUntil now)
  then show ?case by (rule task_inv_claim)
next
  case (heartbeat t i workerID lockedUntil now)
  then show ?case unfolding sql_HeartbeatTask_def
    by (auto intro!: task_inv_update simp: task_row_ok_def holds_lease_def)
next
  case (complete t i workerID res now)
  then show ?case unfolding sql_CompleteTask_def
    by (auto intro!: task_inv_update simp: task_row_ok_def task_check_def)
next
  case (fail t i workerID msg nextRunAt now)
  then show ?case unfolding sql_FailTask_def
    by (auto intro!: task_inv_update simp: task_row_ok_def task_check_def fail_row_def Let_def)
next
  case (release t now upd)
  then show ?case unfolding sql_ReleaseStaleTasks_def
    by (auto intro!: task_inv_update simp: task_row_ok_def task_check_def)
next
  case (other t' t)
  then show ?case by (simp add: task_inv_def task_keys_def)
qed

lemma task_inv_status_step: "status_step t t' \<Longrightarrow> task_inv t \<Longrightarrow> task_inv t'"
proof (induction rule: status_step.induct)
  case (status st t i progress msg now)
  show ?case
  proof (cases "task_check st progress")
    case True
    with status show ?thesis unfolding sql_UpdateStatus_def
      by (auto intro!: task_inv_update simp: task_row_ok_def)
  next
    case False
    then have "tasks (snd (sql_UpdateStatus i st progress msg now t)) = tasks t"
      by (auto simp: sql_UpdateStatus_def update_where_def map_idI)
    moreover have "tasks_seq (snd (sql_UpdateStatus i st progress msg now t)) = tasks_seq t"
      by (simp add: sql_UpdateStatus_def)
    ultimately show ?thesis using status.prems by (simp add: task_inv_def task_keys_def)
  qed
qed

lemma task_inv_step: "task_step t t' \<Longrightarrow> task_inv t \<Longrightarrow> task_inv t'"
  unfolding task_step_def using task_inv_lease_step task_inv_status_step by blast

lemma task_inv_reachable: "task_step\<^sup>*\<^sup>* empty_tables t \<Longrightarrow> task_inv t"
  by (induction rule: rtranclp_induct) (auto intro: task_inv_empty task_inv_step)

section \<open>What lease-guarded statements can and cannot do\<close>

lemma find_task_update:
  assumes "\<And>r. task_ID (f r) = task_ID r"
  shows "find_task i (t\<lparr>tasks := update_where p f (tasks t)\<rparr>) =
    map_option (\<lambda>r. if p r then f r else r) (find_task i t)"
  using task_table.find_update [of f, OF assms] by (simp add: find_task_def)

lemma find_task_in: "find_task i t = Some r \<Longrightarrow> r \<in> set (tasks t) \<and> task_ID r = i"
  unfolding find_task_def using first_where_Some by fastforce

lemma find_task_inv:
  "task_inv t \<Longrightarrow> r \<in> set (tasks t) \<Longrightarrow> task_ID r = i \<Longrightarrow> find_task i t = Some r"
  using task_table.find_unique [of t r]
  by (auto simp: find_task_def task_inv_def task_keys_def task_keys_ok_def comp_def)

lemma find_task_row_ok: "task_inv t \<Longrightarrow> find_task i t = Some r \<Longrightarrow> task_row_ok r"
  using find_task_in [of i t r] by (auto simp: task_inv_def list_all_iff)

lemma find_task_update_frame:
  assumes "find_task i t = Some r" "\<And>r. task_ID (f r) = task_ID r" "\<not> p r"
  shows "find_task i (t\<lparr>tasks := update_where p f (tasks t)\<rparr>) = Some r"
  by (subst find_task_update) (simp_all add: assms)

text \<open>
  A row no lease-guarded statement can change: a finished task, and a pending one with no
  attempt left.
\<close>

definition terminal :: "Task \<Rightarrow> bool" where
  "terminal r = (task_Status r \<in> {''success'', ''failed'', ''canceled''})"

definition exhausted :: "Task \<Rightarrow> bool" where
  "exhausted r = (task_Status r = ''pending'' \<and> task_MaxAttempts r \<le> task_Attempt r)"

lemma frozen_not_leased:
  "terminal r \<or> exhausted r \<Longrightarrow> \<not> claimable now r \<and> \<not> holds_lease i w r \<and> \<not> stale now r"
  by (auto simp: terminal_def exhausted_def claimable_def holds_lease_def stale_def)

lemma find_task_create:
  assumes "task_inv t" "find_task i t = Some r"
  shows "find_task i (snd (sql_CreateTask task now t)) = Some r"
  using assms(2) by (auto simp: sql_CreateTask_def Let_def find_task_def)

lemma find_task_claim_other:
  assumes "task_inv t" "find_task i t = Some r" "\<not> claimable now r"
  shows "find_task i (snd (sql_ClaimNextTask w u now t)) = Some r"
proof (cases "order_asc task_CreatedAt (filter (claimable now) (tasks t))")
  case Nil
  with assms show ?thesis by (simp add: sql_ClaimNextTask_def)
next
  case (Cons c cs)
  note pick = claim_pick [OF Cons]
  have "task_ID r \<noteq> task_ID c"
    using task_inv_ids_unique [OF assms(1)] find_task_in [OF assms(2)] pick assms(3) by blast
  then show ?thesis
    by (simp add: sql_ClaimNextTask_def Cons find_task_update_frame [OF assms(2)] claim_row_def)
qed

lemma lease_step_frozen:
  assumes "lease_step t t'" "task_inv t" "find_task i t = Some r" "terminal r \<or> exhausted r"
  shows "find_task i t' = Some r"
  using assms
proof (induction rule: lease_step.induct)
  case (create task t now)
  then show ?case by (blast intro: find_task_create)
next
  case (claim t workerID lockedUntil now)
  then show ?case using find_task_claim_other frozen_not_leased by blast
next
  case (other t' t)
  then show ?case by (simp add: find_task_def)
qed (simp_all add: sql_HeartbeatTask_def sql_CompleteTask_def sql_FailTask_def
    sql_ReleaseStaleTasks_def find_task_update_frame frozen_not_leased fail_row_def Let_def)

lemma lease_steps_frozen:
  assumes "lease_step\<^sup>*\<^sup>* t t'" "task_inv t" "find_task i t = Some r" "terminal r \<or> exhausted r"
  shows "find_task i t' = Some r"
  using assms
proof (induction rule: rtranclp_induct)
  case (step u v)
  moreover have "task_inv u" using step.hyps(1) step.prems(1)
    by (induction rule: rtranclp_induct) (auto intro: task_inv_lease_step)
  ultimately show ?case using lease_step_frozen by blast
qed

text \<open>The row a claim returns.\<close>

lemma claim_result:
  assumes "task_inv t" "sql_ClaimNextTask w u now t = (Inr (Some r), t')"
  obtains c where "find_task (task_ID c) t = Some c" "claimable now c" "r = claim_row w u now c"
    "find_task (task_ID c) t' = Some r"
    "\<forall>x \<in> set (tasks t). claimable now x \<longrightarrow> task_CreatedAt c \<le> task_CreatedAt x"
proof (cases "order_asc task_CreatedAt (filter (claimable now) (tasks t))")
  case Nil
  with assms show ?thesis by (simp add: sql_ClaimNextTask_def)
next
  case (Cons c cs)
  note pick = claim_pick [OF Cons]
  have c: "find_task (task_ID c) t = Some c" using find_task_inv [OF assms(1) pick(1)] by simp
  have r: "r = claim_row w u now c"
    and t': "t' = t\<lparr>tasks := update_where (\<lambda>x. task_ID x = task_ID c) (claim_row w u now) (tasks t)\<rparr>"
    using assms(2) Cons by (simp_all add: sql_ClaimNextTask_def)
  have "find_task (task_ID c) t' = Some r"
    unfolding t' by (subst find_task_update) (simp_all add: c r claim_row_def)
  moreover have "\<forall>x \<in> set (tasks t). claimable now x \<longrightarrow> task_CreatedAt c \<le> task_CreatedAt x"
    using sort_key_hd_least [OF Cons [unfolded order_asc_def]] by auto
  ultimately show ?thesis using that c pick(2) r by blast
qed

text \<open>
  While a worker holds an unexpired lease, no other worker's statement, no sweep and no claim
  changes the row.
\<close>

lemma lease_protects:
  assumes "task_inv t" "find_task i t = Some r" "holds_lease i w r"
    "task_LockedUntil r = Some u" "w' \<noteq> w" "now \<le> u"
  shows "find_task i (snd (sql_ClaimNextTask w'' u' now' t)) = Some r"
    "find_task i (snd (sql_HeartbeatTask j w' u' now' t)) = Some r"
    "find_task i (snd (sql_CompleteTask j w' res now' t)) = Some r"
    "find_task i (snd (sql_FailTask j w' msg nxt now' t)) = Some r"
    "find_task i (snd (sql_ReleaseStaleTasks now upd t)) = Some r"
proof -
  have n: "\<not> claimable now' r" "\<not> holds_lease j w' r" "\<not> stale now r"
    using assms by (auto simp: holds_lease_def claimable_def stale_def)
  show "find_task i (snd (sql_ClaimNextTask w'' u' now' t)) = Some r"
    using find_task_claim_other assms n by blast
  show "find_task i (snd (sql_HeartbeatTask j w' u' now' t)) = Some r"
    "find_task i (snd (sql_CompleteTask j w' res now' t)) = Some r"
    "find_task i (snd (sql_FailTask j w' msg nxt now' t)) = Some r"
    "find_task i (snd (sql_ReleaseStaleTasks now upd t)) = Some r"
    by (simp_all add: sql_HeartbeatTask_def sql_CompleteTask_def sql_FailTask_def fail_row_def
        sql_ReleaseStaleTasks_def find_task_update_frame [OF assms(2)] n Let_def)
qed

end
