(* ===== verification/Agent.thy ===== *)
theory Agent
  imports World
begin

text \<open>
  The gRPC client of \<^verbatim>\<open>internal/grpcclient/agent_client.go\<close> (its error handling and the docker
  and service-manager calls), and the two services on top of it,
  \<^verbatim>\<open>internal/service/docker_service.go\<close> and \<^verbatim>\<open>service_manager_service.go\<close>.

  The core agent is another process: what it answers is a parameter (\<open>agent_conn\<close>), a
  function of the requests it has been sent so far. An answer is a failure to connect, an
  RPC error, or a response with its error envelope and its body.
\<close>

type_synonym envelope = "(int \<times> string \<times> string) option"  \<comment> \<open>code, message, detail\<close>

datatype 'a wire = DialError go_error | CallError go_error | Response envelope 'a

record DockerContainerActionResult =
  dca_ID :: string
  dca_State :: string

record ServiceActionResult =
  sa_Name :: string
  sa_Status :: string

record DockerContainerInfo =
  dci_ID :: string
  dci_Name :: string
  dci_Image :: string
  dci_State :: string
  dci_Status :: string

record DockerImageInfo =
  dii_ID :: string
  dii_RepoTags :: "string list"
  dii_Size :: "64 word"

record ServiceInfo =
  si_Name :: string
  si_DisplayName :: string
  si_Status :: string

record agent_conn =
  conn_docker :: "rpc_request list \<Rightarrow> rpc_request \<Rightarrow> DockerContainerActionResult wire"
  conn_service :: "rpc_request list \<Rightarrow> rpc_request \<Rightarrow> ServiceActionResult wire"
  conn_containers :: "rpc_request list \<Rightarrow> DockerContainerInfo list wire"
  conn_images :: "rpc_request list \<Rightarrow> DockerImageInfo list wire"
  conn_services :: "rpc_request list \<Rightarrow> string \<Rightarrow> ServiceInfo list wire"

section \<open>Errors of the client\<close>

definition agentUnavailableCode :: int where "agentUnavailableCode = 3001"
definition agentInvalidPayloadCode :: int where "agentInvalidPayloadCode = 3002"

definition invalidPayloadError :: "string \<Rightarrow> go_error" where
  "invalidPayloadError detail =
     AgentError agentInvalidPayloadCode ''invalid core agent response'' detail codes_Internal None"

definition responseError :: "envelope \<Rightarrow> go_error option" where
  "responseError e = (case e of
       None \<Rightarrow> Some (invalidPayloadError ''missing error envelope'')
     | Some (code, message, detail) \<Rightarrow>
         if code = 0 then None
         else Some (AgentError code
           (if TrimSpace message = [] then ''core agent request failed'' else TrimSpace message)
           (TrimSpace detail) codes_OK None))"

text \<open>
  \<^verbatim>\<open>status.FromError\<close>: a status error gives its code and message; an error that wraps one
  gives its code and its own text; anything else is no status.
\<close>

fun wrapped_status :: "go_error \<Rightarrow> nat option" where
  "wrapped_status (GrpcStatus c m) = Some c"
| "wrapped_status (Wrapf p e) = wrapped_status e"
| "wrapped_status (NonRetryable e) = wrapped_status e"
| "wrapped_status (AgentError c m d g cause) =
     (case cause of None \<Rightarrow> None | Some e \<Rightarrow> wrapped_status e)"
| "wrapped_status e = None"

definition FromError :: "go_error \<Rightarrow> (nat \<times> string) option" where
  "FromError err = map_option (\<lambda>c. (c, Error err)) (wrapped_status err)"

definition transportError :: "go_error \<Rightarrow> go_error" where
  "transportError err = (case FromError err of
       None \<Rightarrow> AgentError agentUnavailableCode ''core agent unavailable'' (Error err)
                codes_Unknown (Some err)
     | Some (code, msg) \<Rightarrow>
         let message =
           (if code = codes_InvalidArgument then ''invalid request to core agent''
            else if code = codes_Unauthenticated then ''core agent authentication failed''
            else if code = codes_PermissionDenied then ''core agent permission denied''
            else if code = codes_Unimplemented then ''core agent rpc is not implemented''
            else ''core agent unavailable'')
         in AgentError agentUnavailableCode message msg code (Some err))"

text \<open>
  \<^verbatim>\<open>Client.invoke\<close>: connect, call, classify the error, count the request. The body of the
  call checks the envelope of the response and builds the result from it.
\<close>

definition invoke :: "string \<Rightarrow> 'a wire \<Rightarrow> (world, 'a result) state" where
  "invoke rpcName answer = (case answer of
       DialError err \<Rightarrow> do {
         observe (AgentRequest rpcName True True);
         ret (Inl (transportError err))
       }
     | CallError err \<Rightarrow> (case asAgentError err of
           Some agentErr \<Rightarrow> do {
             observe (AgentRequest rpcName (IsTransport agentErr) True);
             ret (Inl agentErr)
           }
         | None \<Rightarrow> do {
             observe (AgentRequest rpcName True True);
             ret (Inl (transportError err))
           })
     | Response e body \<Rightarrow> (case responseError e of
           Some agentErr \<Rightarrow> do {
             observe (AgentRequest rpcName (IsTransport agentErr) True);
             ret (Inl agentErr)
           }
         | None \<Rightarrow> do {
             observe (AgentRequest rpcName False False);
             ret (Inr body)
           }))"

definition runDockerAction ::
  "agent_conn \<Rightarrow> string \<Rightarrow> rpc_request \<Rightarrow> (world, DockerContainerActionResult result) state" where
  "runDockerAction c rpcName q = do {
     w \<leftarrow> getw;
     send_rpc q;
     invoke rpcName (conn_docker c (rpc_log w) q)
   }"

definition runServiceAction ::
  "agent_conn \<Rightarrow> string \<Rightarrow> rpc_request \<Rightarrow> (world, ServiceActionResult result) state" where
  "runServiceAction c rpcName q = do {
     w \<leftarrow> getw;
     send_rpc q;
     invoke rpcName (conn_service c (rpc_log w) q)
   }"

section \<open>Docker and service calls of the client\<close>

definition Client_ListDockerContainers :: "agent_conn \<Rightarrow> (world, DockerContainerInfo list result) state" where
  "Client_ListDockerContainers c = do {
     w \<leftarrow> getw;
     send_rpc ListDockerContainersReq;
     invoke ''docker.list_containers'' (conn_containers c (rpc_log w))
   }"

definition Client_StartDockerContainer :: "agent_conn \<Rightarrow> string \<Rightarrow> (world, DockerContainerActionResult result) state"
  where
  "Client_StartDockerContainer c cid = runDockerAction c ''docker.start'' (StartDockerContainerReq cid)"

definition Client_StopDockerContainer :: "agent_conn \<Rightarrow> string \<Rightarrow> (world, DockerContainerActionResult result) state"
  where
  "Client_StopDockerContainer c cid = runDockerAction c ''docker.stop'' (StopDockerContainerReq cid)"

definition Client_RestartDockerContainer :: "agent_conn \<Rightarrow> string \<Rightarrow> (world, DockerContainerActionResult result) state"
  where
  "Client_RestartDockerContainer c cid = runDockerAction c ''docker.restart'' (RestartDockerContainerReq cid)"

definition Client_ListDockerImages :: "agent_conn \<Rightarrow> (world, DockerImageInfo list result) state" where
  "Client_ListDockerImages c = do {
     w \<leftarrow> getw;
     send_rpc ListDockerImagesReq;
     invoke ''docker.list_images'' (conn_images c (rpc_log w))
   }"

definition Client_ListServices :: "agent_conn \<Rightarrow> string \<Rightarrow> (world, ServiceInfo list result) state" where
  "Client_ListServices c keyword = do {
     w \<leftarrow> getw;
     send_rpc (ListServicesReq keyword);
     invoke ''service.list'' (conn_services c (rpc_log w) keyword)
   }"

definition Client_StartService :: "agent_conn \<Rightarrow> string \<Rightarrow> (world, ServiceActionResult result) state" where
  "Client_StartService c name = runServiceAction c ''service.start'' (StartServiceReq name)"

definition Client_StopService :: "agent_conn \<Rightarrow> string \<Rightarrow> (world, ServiceActionResult result) state" where
  "Client_StopService c name = runServiceAction c ''service.stop'' (StopServiceReq name)"

definition Client_RestartService :: "agent_conn \<Rightarrow> string \<Rightarrow> (world, ServiceActionResult result) state" where
  "Client_RestartService c name = runServiceAction c ''service.restart'' (RestartServiceReq name)"

lemmas agent_client_defs = Client_ListDockerContainers_def Client_StartDockerContainer_def
  Client_StopDockerContainer_def Client_RestartDockerContainer_def Client_ListDockerImages_def
  Client_ListServices_def Client_StartService_def Client_StopService_def Client_RestartService_def

section \<open>Docker and service-manager services\<close>

text \<open>\<^verbatim>\<open>result, err := s.agentClient.X(...); if err != nil { return mapAgentError(err) }\<close>.\<close>

definition map_agent_result :: "'a result \<Rightarrow> 'a result" where
  "map_agent_result r = (case r of Inl err \<Rightarrow> Inl (mapAgentError err) | Inr x \<Rightarrow> Inr x)"

definition ListContainers :: "agent_conn \<Rightarrow> (world, DockerContainerInfo list result) state" where
  "ListContainers c = do { r \<leftarrow> Client_ListDockerContainers c; ret (map_agent_result r) }"

definition StartContainer :: "agent_conn \<Rightarrow> string \<Rightarrow> (world, DockerContainerActionResult result) state" where
  "StartContainer c cid = do { r \<leftarrow> Client_StartDockerContainer c cid; ret (map_agent_result r) }"

definition StopContainer :: "agent_conn \<Rightarrow> string \<Rightarrow> (world, DockerContainerActionResult result) state" where
  "StopContainer c cid = do { r \<leftarrow> Client_StopDockerContainer c cid; ret (map_agent_result r) }"

definition RestartContainer :: "agent_conn \<Rightarrow> string \<Rightarrow> (world, DockerContainerActionResult result) state" where
  "RestartContainer c cid = do { r \<leftarrow> Client_RestartDockerContainer c cid; ret (map_agent_result r) }"

definition ListImages :: "agent_conn \<Rightarrow> (world, DockerImageInfo list result) state" where
  "ListImages c = do { r \<leftarrow> Client_ListDockerImages c; ret (map_agent_result r) }"

definition ListServices :: "agent_conn \<Rightarrow> string \<Rightarrow> (world, ServiceInfo list result) state" where
  "ListServices c keyword = do { r \<leftarrow> Client_ListServices c keyword; ret (map_agent_result r) }"

definition StartService :: "agent_conn \<Rightarrow> string \<Rightarrow> (world, ServiceActionResult result) state" where
  "StartService c name = do { r \<leftarrow> Client_StartService c name; ret (map_agent_result r) }"

definition StopService :: "agent_conn \<Rightarrow> string \<Rightarrow> (world, ServiceActionResult result) state" where
  "StopService c name = do { r \<leftarrow> Client_StopService c name; ret (map_agent_result r) }"

definition RestartService :: "agent_conn \<Rightarrow> string \<Rightarrow> (world, ServiceActionResult result) state" where
  "RestartService c name = do { r \<leftarrow> Client_RestartService c name; ret (map_agent_result r) }"

lemmas agent_service_defs = ListContainers_def StartContainer_def StopContainer_def
  RestartContainer_def ListImages_def ListServices_def StartService_def StopService_def
  RestartService_def agent_client_defs

section \<open>Lemmas\<close>

lemma FromError_GrpcStatus [simp]: "FromError (GrpcStatus c m) = Some (c, m)"
  by (simp add: FromError_def)

lemma transportError_AgentError:
  "\<exists>m d g. transportError err = AgentError agentUnavailableCode m d g (Some err)"
  by (auto simp: transportError_def Let_def split: option.splits)

lemma transportError_is [simp]: "is_AgentError (transportError err)"
  using transportError_AgentError [of err] by auto

lemma asAgentError_is: "asAgentError e = Some a \<Longrightarrow> is_AgentError a"
  by (induction e rule: asAgentError.induct) auto

lemma responseError_is: "responseError e = Some a \<Longrightarrow> is_AgentError a"
  by (auto simp: responseError_def invalidPayloadError_def split: option.splits if_splits)

text \<open>Every failure of the client is an \<^verbatim>\<open>*AgentError\<close>, and it is counted exactly once.\<close>

lemma invoke_error: "run_state (invoke rpc answer) w = (Inl e, w') \<Longrightarrow> is_AgentError e"
  by (auto simp: invoke_def observe_def dest: asAgentError_is responseError_is
      split: wire.splits option.splits)

lemma invoke_observes:
  "\<exists>tr. snd (run_state (invoke rpc answer) w) =
     w\<lparr>metrics := metrics w @ [AgentRequest rpc tr (\<exists>e. fst (run_state (invoke rpc answer) w) = Inl e)]\<rparr>"
  by (auto simp: invoke_def observe_def split: wire.splits option.splits)

lemma keeps_steps_invoke: "keeps (steps R) (invoke rpc answer)"
  unfolding invoke_def by (auto intro!: keeps_steps split: wire.split option.split)

lemma keeps_steps_agent:
  "keeps (steps R) (RestartContainer c i)" "keeps (steps R) (RestartService c i)"
  "keeps (steps R) (StartContainer c i)" "keeps (steps R) (StopContainer c i)"
  "keeps (steps R) (StartService c i)" "keeps (steps R) (StopService c i)"
  "keeps (steps R) (ListContainers c)" "keeps (steps R) (ListImages c)"
  "keeps (steps R) (ListServices c k)"
  unfolding agent_service_defs runDockerAction_def runServiceAction_def
  by (intro keeps_steps keeps_steps_invoke; assumption)+

lemma agent_service_error:
  "fst (run_state (RestartContainer c i) w) = Inl e \<Longrightarrow> \<exists>a. is_AgentError a \<and> e = mapAgentError a"
  "fst (run_state (RestartService c i) w) = Inl e \<Longrightarrow> \<exists>a. is_AgentError a \<and> e = mapAgentError a"
  by (auto simp: RestartContainer_def RestartService_def Client_RestartDockerContainer_def
      Client_RestartService_def runDockerAction_def runServiceAction_def
      map_agent_result_def send_rpc_def split: prod.splits sum.splits dest!: invoke_error)

end
