(* ===== verification/BackupRepo.thy ===== *)
theory BackupRepo
  imports World
begin

text \<open>
  \<^verbatim>\<open>internal/repository/backup_repository.go\<close>: the statements on the table \<^verbatim>\<open>backups\<close>, with
  the CHECK constraints of the migration, and the invariant of the table.
\<close>

definition backup_check :: "string \<Rightarrow> int \<Rightarrow> bool" where
  "backup_check status sz =
     (status \<in> {''pending'', ''running'', ''success'', ''failed''} \<and> 0 \<le> sz)"

definition sql_CreateBackup :: "Backup \<Rightarrow> time \<Rightarrow> tables \<Rightarrow> Backup result \<times> tables" where
  "sql_CreateBackup backup now t =
     (let row = backup\<lparr>backup_ID := backups_seq t, backup_CreatedAt := now, backup_UpdatedAt := now\<rparr>;
          t' = t\<lparr>backups_seq := backups_seq t + 1\<rparr>
      in if \<not> backup_check (backup_Status backup) (backup_SizeBytes backup)
         then (Inl (Lib ''check violation''), t')
         else (Inr row, t'\<lparr>backups := backups t @ [row]\<rparr>))"

definition verification_row ::
  "string \<Rightarrow> int \<Rightarrow> string \<Rightarrow> string \<Rightarrow> time \<Rightarrow> Backup \<Rightarrow> Backup" where
  "verification_row status sizeBytes checksum filePath now r =
     (let r' = r\<lparr>backup_Status := status, backup_SizeBytes := sizeBytes,
                 backup_Checksum := checksum, backup_UpdatedAt := now\<rparr>
      in if TrimSpace filePath \<noteq> [] then r'\<lparr>backup_FilePath := filePath\<rparr> else r')"

definition sql_UpdateVerification ::
  "int \<Rightarrow> string \<Rightarrow> int \<Rightarrow> string \<Rightarrow> string \<Rightarrow> time \<Rightarrow> tables \<Rightarrow> unit result \<times> tables" where
  "sql_UpdateVerification i status sizeBytes checksum filePath now t =
     (if (\<exists>r \<in> set (backups t). backup_ID r = i) \<and> \<not> backup_check status sizeBytes
      then (Inl (Lib ''check violation''), t)
      else (Inr (), t\<lparr>backups := update_where (\<lambda>r. backup_ID r = i)
        (verification_row status sizeBytes checksum filePath now) (backups t)\<rparr>))"

definition sql_UpdateBackupStatus ::
  "int \<Rightarrow> string \<Rightarrow> time \<Rightarrow> tables \<Rightarrow> unit result \<times> tables" where
  "sql_UpdateBackupStatus i status now t =
     (if (\<exists>r \<in> set (backups t). backup_ID r = i) \<and> \<not> backup_check status 0
      then (Inl (Lib ''check violation''), t)
      else (Inr (), t\<lparr>backups := update_where (\<lambda>r. backup_ID r = i)
        (\<lambda>r. r\<lparr>backup_Status := status, backup_UpdatedAt := now\<rparr>) (backups t)\<rparr>))"

definition deletable :: "time \<Rightarrow> Backup \<Rightarrow> bool" where
  "deletable cutoff r =
     (backup_CreatedAt r < cutoff \<and> backup_Status r \<in> {''success'', ''failed''})"

definition sql_DeleteDeletableBefore :: "time \<Rightarrow> tables \<Rightarrow> int result \<times> tables" where
  "sql_DeleteDeletableBefore cutoff t =
     (Inr (int (length (filter (deletable cutoff) (backups t)))),
      t\<lparr>backups := filter (\<lambda>r. \<not> deletable cutoff r) (backups t)\<rparr>)"

section \<open>Repository methods\<close>

definition backupRepo_Create :: "Backup \<Rightarrow> (world, Backup result) state" where
  "backupRepo_Create backup = do {
     now \<leftarrow> Now;
     dbcall (sql_CreateBackup backup now)
   }"

definition find_backup :: "int \<Rightarrow> tables \<Rightarrow> Backup option" where
  "find_backup i t = first_where (\<lambda>r. backup_ID r = i) (backups t)"

definition backupRepo_GetByID :: "int \<Rightarrow> (world, Backup option result) state" where
  "backupRepo_GetByID i = dbcall (\<lambda>t. (Inr (find_backup i t), t))"

record BackupListFilter =
  blf_Page :: int
  blf_Size :: int
  blf_Status :: string
  blf_ResourceType :: string
  blf_ResourceID :: string

definition backup_matches :: "BackupListFilter \<Rightarrow> Backup \<Rightarrow> bool" where
  "backup_matches f r =
     ((TrimSpace (blf_Status f) \<noteq> [] \<longrightarrow> backup_Status r = TrimSpace (blf_Status f)) \<and>
      (TrimSpace (blf_ResourceType f) \<noteq> [] \<longrightarrow>
         backup_ResourceType r = TrimSpace (blf_ResourceType f)) \<and>
      (TrimSpace (blf_ResourceID f) \<noteq> [] \<longrightarrow>
         backup_ResourceID r = TrimSpace (blf_ResourceID f)))"

definition backupRepo_List :: "BackupListFilter \<Rightarrow> (world, (Backup list \<times> int) result) state" where
  "backupRepo_List f = (
     let page = (if blf_Page f \<le> 0 then 1 else blf_Page f);
         size0 = (if blf_Size f \<le> 0 then 20 else blf_Size f);
         size = (if size0 > 100 then 100 else size0)
     in do {
       total \<leftarrow> dbcall (\<lambda>t. (Inr (int (length (filter (backup_matches f) (backups t)))), t));
       case total of Inl e \<Rightarrow> ret (Inl e)
       | Inr n \<Rightarrow> do {
           items \<leftarrow> dbquery ((page - 1) * size) (\<lambda>rank t. page_rows ((page - 1) * size) size
                      (order_desc (\<lambda>r. rank (backup_ID r)) backup_CreatedAt
                        (filter (backup_matches f) (backups t))));
           case items of Inl e \<Rightarrow> ret (Inl e) | Inr rows \<Rightarrow> ret (Inr (rows, n))
         }
     })"

definition backupRepo_UpdateVerification ::
  "int \<Rightarrow> string \<Rightarrow> int \<Rightarrow> string \<Rightarrow> string \<Rightarrow> (world, unit result) state" where
  "backupRepo_UpdateVerification i status sizeBytes checksum filePath = do {
     now \<leftarrow> Now;
     dbcall (sql_UpdateVerification i status sizeBytes checksum filePath now)
   }"

definition backupRepo_UpdateStatus :: "int \<Rightarrow> string \<Rightarrow> (world, unit result) state" where
  "backupRepo_UpdateStatus i status = do {
     now \<leftarrow> Now;
     dbcall (sql_UpdateBackupStatus i status now)
   }"

definition backupRepo_CountDeletableBefore :: "time \<Rightarrow> (world, int result) state" where
  "backupRepo_CountDeletableBefore cutoff =
     dbcall (\<lambda>t. (Inr (int (length (filter (deletable cutoff) (backups t)))), t))"

text \<open>\<^verbatim>\<open>ORDER BY created_at ASC, id ASC\<close>: sort by the second key first, then stably by the first.\<close>

definition backupRepo_ListDeletableBefore :: "time \<Rightarrow> (world, Backup list result) state" where
  "backupRepo_ListDeletableBefore cutoff =
     dbcall (\<lambda>t. (Inr (order_asc backup_CreatedAt (order_asc backup_ID
        (filter (deletable cutoff) (backups t)))), t))"

definition backupRepo_DeleteDeletableBefore :: "time \<Rightarrow> (world, int result) state" where
  "backupRepo_DeleteDeletableBefore cutoff = dbcall (sql_DeleteDeletableBefore cutoff)"

section \<open>The invariant of the table\<close>

definition backup_inv :: "tables \<Rightarrow> bool" where
  "backup_inv t =
     (list_all (\<lambda>r. backup_check (backup_Status r) (backup_SizeBytes r)) (backups t) \<and>
      distinct (map backup_ID (backups t)) \<and>
      (\<forall>r \<in> set (backups t). 0 < backup_ID r \<and> backup_ID r < backups_seq t) \<and> 0 < backups_seq t)"

text \<open>
  The steps the repository makes on the table, beside steps that do not touch it.
\<close>

inductive backup_step :: "tables \<Rightarrow> tables \<Rightarrow> bool" where
  create: "backup_step t (snd (sql_CreateBackup b now t))"
| verification: "backup_step t (snd (sql_UpdateVerification i st sz ck path now t))"
| status: "backup_step t (snd (sql_UpdateBackupStatus i st now t))"
| delete: "backup_step t (snd (sql_DeleteDeletableBefore cutoff t))"
| other: "backups t' = backups t \<Longrightarrow> backups_seq t' = backups_seq t \<Longrightarrow> backup_step t t'"

lemma backup_inv_update:
  assumes "backup_inv t" "\<And>r. backup_ID (f r) = backup_ID r"
    "\<And>r. backup_check (backup_Status r) (backup_SizeBytes r) \<Longrightarrow> p r \<Longrightarrow>
       backup_check (backup_Status (f r)) (backup_SizeBytes (f r))"
  shows "backup_inv (t\<lparr>backups := update_where p f (backups t)\<rparr>)"
  using assms by (auto simp: backup_inv_def map_update_where set_update_where
      intro!: list_all_update_where)

lemma update_where_none: "(\<forall>r \<in> set rows. \<not> p r) \<Longrightarrow> update_where p f rows = rows"
  by (simp add: update_where_def map_idI)

lemma verification_row_simps [simp]:
  "backup_ID (verification_row st sz ck fp now r) = backup_ID r"
  "backup_Status (verification_row st sz ck fp now r) = st"
  "backup_SizeBytes (verification_row st sz ck fp now r) = sz"
  "backup_Checksum (verification_row st sz ck fp now r) = ck"
  by (simp_all add: verification_row_def Let_def)

lemma backup_inv_create:
  "backup_inv t \<Longrightarrow> backup_inv (snd (sql_CreateBackup b now t))"
  by (auto simp: backup_inv_def sql_CreateBackup_def Let_def)

lemma backup_inv_step: "backup_step t t' \<Longrightarrow> backup_inv t \<Longrightarrow> backup_inv t'"
proof (induction rule: backup_step.induct)
  case (create t b now)
  then show ?case by (rule backup_inv_create)
next
  case (verification t i st sz ck path now)
  then show ?case
    by (cases "backup_check st sz")
      (auto simp: sql_UpdateVerification_def update_where_none intro!: backup_inv_update)
next
  case (status t i st now)
  then show ?case
    by (cases "backup_check st 0")
      (auto simp: sql_UpdateBackupStatus_def update_where_none backup_check_def
        intro!: backup_inv_update)
next
  case (delete t cutoff)
  then show ?case
    by (auto simp: backup_inv_def sql_DeleteDeletableBefore_def list_all_iff
        intro: distinct_map_filter)
next
  case (other t' t)
  then show ?case by (simp add: backup_inv_def)
qed

lemma find_backup_update:
  assumes "\<And>r. backup_ID (f r) = backup_ID r"
  shows "find_backup i (t\<lparr>backups := update_where p f (backups t)\<rparr>) =
    map_option (\<lambda>r. if p r then f r else r) (find_backup i t)"
  using backup_table.find_update [of f, OF assms] by (simp add: find_backup_def)

lemma find_backup_in: "find_backup i t = Some r \<Longrightarrow> r \<in> set (backups t) \<and> backup_ID r = i"
  unfolding find_backup_def using first_where_Some by fastforce

text \<open>Every method makes only such steps.\<close>

lemma backup_stepI:
  assumes "\<And>t. backup_step t (snd (f t))"
  shows "keeps (steps backup_step) (dbcall f)"
  by (rule keeps_steps_dbcall) (simp add: assms r_into_rtranclp)

lemma backup_step_read: "(\<And>t. snd (f t) = t) \<Longrightarrow> backup_step t (snd (f t))"
  by (simp add: backup_step.other)

lemma keeps_backupRepo:
  "keeps (steps backup_step) (backupRepo_Create b)"
  "keeps (steps backup_step) (backupRepo_GetByID i)"
  "keeps (steps backup_step) (backupRepo_List fl)"
  "keeps (steps backup_step) (backupRepo_UpdateVerification i st sz ck fp)"
  "keeps (steps backup_step) (backupRepo_UpdateStatus i st)"
  "keeps (steps backup_step) (backupRepo_CountDeletableBefore c)"
  "keeps (steps backup_step) (backupRepo_ListDeletableBefore c)"
  "keeps (steps backup_step) (backupRepo_DeleteDeletableBefore c)"
  unfolding backupRepo_Create_def backupRepo_GetByID_def backupRepo_List_def dbquery_def
    backupRepo_UpdateVerification_def backupRepo_UpdateStatus_def Let_def
    backupRepo_CountDeletableBefore_def backupRepo_ListDeletableBefore_def
    backupRepo_DeleteDeletableBefore_def
  by (intro keeps_steps backup_stepI backup_step.create backup_step.verification
      backup_step.status backup_step.delete backup_step_read; simp)+

text \<open>And they leave the task table alone.\<close>

lemma keeps_backupRepo_frame:
  assumes "\<And>t t'. tasks t' = tasks t \<Longrightarrow> tasks_seq t' = tasks_seq t \<Longrightarrow> R t t'"
  shows "keeps (steps R) (backupRepo_Create b)"
    "keeps (steps R) (backupRepo_GetByID i)"
    "keeps (steps R) (backupRepo_List fl)"
    "keeps (steps R) (backupRepo_UpdateVerification i st sz ck fp)"
    "keeps (steps R) (backupRepo_UpdateStatus i st)"
    "keeps (steps R) (backupRepo_CountDeletableBefore c)"
    "keeps (steps R) (backupRepo_ListDeletableBefore c)"
    "keeps (steps R) (backupRepo_DeleteDeletableBefore c)"
  unfolding backupRepo_Create_def backupRepo_GetByID_def backupRepo_List_def dbquery_def
    backupRepo_UpdateVerification_def backupRepo_UpdateStatus_def Let_def
    backupRepo_CountDeletableBefore_def backupRepo_ListDeletableBefore_def
    backupRepo_DeleteDeletableBefore_def
  by (intro keeps_steps keeps_steps_dbcall r_into_rtranclp assms;
      simp add: sql_CreateBackup_def sql_UpdateVerification_def sql_UpdateBackupStatus_def
        sql_DeleteDeletableBefore_def Let_def)+

end
