(* ===== verification/Filepath.thy ===== *)
theory Filepath
  imports Apperror
begin

text \<open>
  The functions of Go's \<^verbatim>\<open>path/filepath\<close> (on Unix) that the backup service uses: lexical
  cleaning, joining, absolute and relative paths and the extension. Paths are split into
  their elements at slashes.
\<close>

definition slash :: char where "slash = CHR ''/''"

fun splitSlash :: "string \<Rightarrow> string list" where
  "splitSlash [] = [[]]"
| "splitSlash (c # s) =
     (if c = slash then [] # splitSlash s
      else (case splitSlash s of [] \<Rightarrow> [[c]] | p # ps \<Rightarrow> (c # p) # ps))"

fun joinSlash :: "string list \<Rightarrow> string" where
  "joinSlash [] = []"
| "joinSlash [p] = p"
| "joinSlash (p # ps) = p @ slash # joinSlash ps"

definition IsAbs :: "string \<Rightarrow> bool" where
  "IsAbs p = (case p of [] \<Rightarrow> False | c # _ \<Rightarrow> c = slash)"

definition comps :: "string \<Rightarrow> string list" where
  "comps p = filter (\<lambda>c. c \<noteq> [] \<and> c \<noteq> ''.'') (splitSlash p)"

text \<open>One element of \<^verbatim>\<open>Clean\<close>'s scan; the output is kept with its last element first.\<close>

definition clean_step :: "bool \<Rightarrow> string \<Rightarrow> string list \<Rightarrow> string list" where
  "clean_step rooted c out =
     (if c = ''..'' then
        (case out of [] \<Rightarrow> if rooted then [] else [''..'']
         | x # xs \<Rightarrow> if x = ''..'' then ''..'' # out else xs)
      else c # out)"

definition clean_comps :: "string \<Rightarrow> string list" where
  "clean_comps p = rev (fold (clean_step (IsAbs p)) (comps p) [])"

definition Clean :: "string \<Rightarrow> string" where
  "Clean p = (if IsAbs p then slash # joinSlash (clean_comps p)
     else if clean_comps p = [] then ''.'' else joinSlash (clean_comps p))"

definition Join :: "string list \<Rightarrow> string" where
  "Join elems = (case dropWhile (\<lambda>e. e = []) elems of [] \<Rightarrow> [] | es \<Rightarrow> Clean (joinSlash es))"

text \<open>\<^verbatim>\<open>filepath.Abs\<close>; \<open>wd\<close> is what \<^verbatim>\<open>os.Getwd\<close> returns.\<close>

definition Abs :: "string result \<Rightarrow> string \<Rightarrow> string result" where
  "Abs wd p = (if IsAbs p then Inr (Clean p)
     else (case wd of Inl e \<Rightarrow> Inl e | Inr d \<Rightarrow> Inr (Join [d, p])))"

text \<open>The elements of a cleaned path.\<close>

definition parts :: "string \<Rightarrow> string list" where
  "parts p = (let q = (if IsAbs p then tl p else p) in if q = [] then [] else splitSlash q)"

fun strip_common :: "string list \<Rightarrow> string list \<Rightarrow> string list \<times> string list" where
  "strip_common (b # bs) (t # ts) = (if b = t then strip_common bs ts else (b # bs, t # ts))"
| "strip_common bs ts = (bs, ts)"

definition Rel :: "string \<Rightarrow> string \<Rightarrow> string result" where
  "Rel basePath targPath =
     (let base = Clean basePath; targ = Clean targPath in
      if targ = base then Inr ''.''
      else let base' = (if base = ''.'' then [] else base) in
        if IsAbs base' \<noteq> IsAbs targ then Inl (Lib ''Rel: can't make path relative'')
        else (case strip_common (parts base') (parts targ) of (bs, ts) \<Rightarrow>
          if bs \<noteq> [] \<and> hd bs = ''..'' then Inl (Lib ''Rel: can't make path relative'')
          else Inr (joinSlash (map (\<lambda>_. ''..'') bs @ ts))))"

text \<open>\<^verbatim>\<open>filepath.Ext\<close>: from the last dot of the last element, or empty.\<close>

definition Ext :: "string \<Rightarrow> string" where
  "Ext p = (let b = last (splitSlash p); r = takeWhile (\<lambda>c. c \<noteq> CHR ''.'') (rev b)
     in if length r = length b then [] else CHR ''.'' # rev r)"

section \<open>Lemmas\<close>

definition good_elem :: "string \<Rightarrow> bool" where
  "good_elem c = (c \<noteq> [] \<and> c \<noteq> ''.'' \<and> slash \<notin> set c)"

lemma splitSlash_ne [simp]: "splitSlash s \<noteq> []"
  by (induction s) (auto split: list.splits)

lemma splitSlash_noslash: "c \<in> set (splitSlash s) \<Longrightarrow> slash \<notin> set c"
  by (induction s arbitrary: c) (auto split: list.splits if_splits)

lemma comps_good: "c \<in> set (comps p) \<Longrightarrow> good_elem c"
  by (auto simp: comps_def good_elem_def dest: splitSlash_noslash)

lemma splitSlash_plain: "slash \<notin> set p \<Longrightarrow> splitSlash p = [p]"
  by (induction p) auto

lemma splitSlash_append_slash: "splitSlash (p @ slash # s) = splitSlash p @ splitSlash s"
  by (induction p) (auto split: list.splits)

lemma splitSlash_joinSlash:
  "ps \<noteq> [] \<Longrightarrow> \<forall>p \<in> set ps. slash \<notin> set p \<Longrightarrow> splitSlash (joinSlash ps) = ps"
  by (induction ps rule: joinSlash.induct)
    (auto simp: splitSlash_plain splitSlash_append_slash)

lemma good_elem_dotdot: "good_elem ''..''"
  by (simp add: good_elem_def slash_def)

lemma clean_step_good:
  "good_elem c \<Longrightarrow> list_all good_elem out \<Longrightarrow> list_all good_elem (clean_step rooted c out)"
  by (cases out) (simp_all add: clean_step_def good_elem_dotdot)

lemma fold_clean_good:
  "list_all good_elem cs \<Longrightarrow> list_all good_elem out \<Longrightarrow>
   list_all good_elem (fold (clean_step rooted) cs out)"
  by (induction cs arbitrary: out) (simp_all add: clean_step_good)

lemma clean_step_rooted: "''..'' \<notin> set out \<Longrightarrow> ''..'' \<notin> set (clean_step True c out)"
  by (cases out) (auto simp: clean_step_def)

lemma fold_clean_rooted:
  "''..'' \<notin> set out \<Longrightarrow> ''..'' \<notin> set (fold (clean_step True) cs out)"
  by (induction cs arbitrary: out) (simp_all add: clean_step_rooted)

lemma clean_comps_good: "c \<in> set (clean_comps p) \<Longrightarrow> good_elem c"
  using fold_clean_good [of "comps p" "[]" "IsAbs p"] comps_good
  by (simp add: clean_comps_def list_all_iff)

lemma clean_comps_rooted: "IsAbs p \<Longrightarrow> ''..'' \<notin> set (clean_comps p)"
  by (simp add: clean_comps_def fold_clean_rooted)

lemma fold_clean_id: "''..'' \<notin> set cs \<Longrightarrow> fold (clean_step r) cs out = rev cs @ out"
  by (induction cs arbitrary: out) (auto simp: clean_step_def)

text \<open>A rooted path written from good elements is clean, and its elements are read back.\<close>

definition rooted_path :: "string list \<Rightarrow> string" where
  "rooted_path cs = slash # joinSlash cs"

definition clean_elems :: "string list \<Rightarrow> bool" where
  "clean_elems cs = (list_all good_elem cs \<and> ''..'' \<notin> set cs)"

lemma IsAbs_rooted [simp]: "IsAbs (rooted_path cs)" "IsAbs (slash # s)"
  by (simp_all add: IsAbs_def rooted_path_def)

lemma splitSlash_rooted_path:
  assumes "list_all good_elem cs"
  shows "splitSlash (rooted_path cs) = [] # (if cs = [] then [[]] else cs)"
  using assms splitSlash_joinSlash [of cs]
  by (auto simp: rooted_path_def list_all_iff good_elem_def)

lemma comps_rooted_path: "list_all good_elem cs \<Longrightarrow> comps (rooted_path cs) = cs"
  by (auto simp: comps_def splitSlash_rooted_path list_all_iff good_elem_def)

lemma Clean_rooted_path: "clean_elems cs \<Longrightarrow> Clean (rooted_path cs) = rooted_path cs"
  by (simp add: Clean_def clean_comps_def comps_rooted_path fold_clean_id clean_elems_def)
    (simp add: rooted_path_def)

lemma parts_rooted_path: "clean_elems cs \<Longrightarrow> parts (rooted_path cs) = cs"
proof (cases cs)
  case (Cons c cs')
  assume "clean_elems cs"
  moreover from this Cons have "joinSlash cs \<noteq> []"
    by (cases cs') (auto simp: clean_elems_def good_elem_def)
  ultimately show ?thesis
    using splitSlash_joinSlash [of cs] Cons
    by (auto simp: parts_def rooted_path_def IsAbs_def clean_elems_def list_all_iff good_elem_def)
qed (simp add: parts_def rooted_path_def IsAbs_def)

lemma Clean_abs: "IsAbs p \<Longrightarrow> Clean p = rooted_path (clean_comps p) \<and> clean_elems (clean_comps p)"
  using clean_comps_good clean_comps_rooted
  by (auto simp: Clean_def rooted_path_def clean_elems_def list_all_iff)

lemma rooted_path_inject:
  "clean_elems cs \<Longrightarrow> clean_elems ds \<Longrightarrow> rooted_path cs = rooted_path ds \<Longrightarrow> cs = ds"
  by (metis parts_rooted_path)

text \<open>Joining one plain file name below a clean absolute directory, and going back.\<close>

lemma Join_below:
  assumes "clean_elems cs" "good_elem f" "f \<noteq> ''..''"
  shows "Join [rooted_path cs, f] = rooted_path (cs @ [f])"
proof -
  have "splitSlash (rooted_path cs @ slash # f) = splitSlash (rooted_path cs) @ [f]"
    using assms(2) by (simp add: splitSlash_append_slash splitSlash_plain good_elem_def)
  then have c: "comps (rooted_path cs @ slash # f) = cs @ [f]"
    using comps_rooted_path [of cs] assms by (simp add: comps_def clean_elems_def good_elem_def)
  have abs: "IsAbs (rooted_path cs @ slash # f)" by (simp add: IsAbs_def rooted_path_def)
  have "clean_comps (rooted_path cs @ slash # f) = cs @ [f]"
    using assms by (simp add: clean_comps_def c fold_clean_id clean_elems_def clean_step_def)
  moreover have "Join [rooted_path cs, f] = Clean (rooted_path cs @ slash # f)"
    by (simp add: Join_def rooted_path_def)
  ultimately show ?thesis using abs by (simp add: Clean_def) (simp add: rooted_path_def)
qed

lemma strip_common_append [simp]: "strip_common cs (cs @ ds) = ([], ds)"
  by (induction cs) auto

lemma Rel_below:
  assumes "clean_elems cs" "good_elem f" "f \<noteq> ''..''"
  shows "Rel (rooted_path cs) (rooted_path (cs @ [f])) = Inr f"
proof -
  have d: "clean_elems (cs @ [f])" using assms by (simp add: clean_elems_def)
  then have "rooted_path (cs @ [f]) \<noteq> rooted_path cs"
    using rooted_path_inject [OF _ assms(1)] by fastforce
  moreover have "rooted_path cs \<noteq> ''.''" by (simp add: rooted_path_def slash_def)
  ultimately show ?thesis
    using assms d by (simp add: Rel_def Clean_rooted_path parts_rooted_path)
qed

text \<open>
  The test \<^verbatim>\<open>rel != ".." && !HasPrefix(rel, "../")\<close> on the relative path means that the base's
  elements are a prefix of the target's.
\<close>

lemma strip_common_split:
  "strip_common bs ts = (bs', ts') \<Longrightarrow> \<exists>cs. bs = cs @ bs' \<and> ts = cs @ ts'"
proof (induction bs ts arbitrary: bs' ts' rule: strip_common.induct)
  case (1 b bs t ts)
  then show ?case by (cases "b = t") (force, simp)
qed auto

end
