(* ===== verification/BackupService.thy ===== *)
theory BackupService
  imports BackupRepo Filepath JsonDecode
begin

text \<open>
  \<^verbatim>\<open>internal/service/backup_service.go\<close>: backup metadata, artifacts on the local disk, their
  verification, and retention.

  Parameters (\<open>backupService\<close>): the fields of the Go struct, the Unicode tables (\<open>golib\<close>),
  the working directory, the resolution of symbolic links, SHA-256 (as the hex digest), the
  JSON text layer (printing with and without indentation, parsing) and the text of an RFC 3339
  time stamp.
\<close>

record backupService =
  bs_retentionDays :: int
  bs_localDir :: string
  bs_lib :: golib
  bs_wd :: "string result"
  bs_evalSymlinks :: "string \<Rightarrow> string result"
  bs_sha256hex :: "string \<Rightarrow> string"
  bs_marshalIndent :: "json \<Rightarrow> string result"
  bs_marshal :: "json \<Rightarrow> string result"
  bs_parse :: "string \<Rightarrow> json option"
  bs_rfc3339 :: "rfc3339 \<Rightarrow> string"

definition BackupStatusPending :: string where "BackupStatusPending = ''pending''"
definition BackupStatusRunning :: string where "BackupStatusRunning = ''running''"
definition BackupStatusSuccess :: string where "BackupStatusSuccess = ''success''"
definition BackupStatusFailed :: string where "BackupStatusFailed = ''failed''"
definition BackupStorageLocal :: string where "BackupStorageLocal = ''local''"
definition BackupResourcePostgres :: string where "BackupResourcePostgres = ''postgres''"
definition BackupResourceAppMetadata :: string where "BackupResourceAppMetadata = ''app_metadata''"
definition BackupResourceObservability :: string where
  "BackupResourceObservability = ''observability_config''"
definition BackupResourceCoreAgentTemplate :: string where
  "BackupResourceCoreAgentTemplate = ''core_agent_config''"

lemmas backup_const_defs = BackupStatusPending_def BackupStatusRunning_def
  BackupStatusSuccess_def BackupStatusFailed_def BackupStorageLocal_def
  BackupResourcePostgres_def BackupResourceAppMetadata_def BackupResourceObservability_def
  BackupResourceCoreAgentTemplate_def

definition NewBackupServiceWithOptions :: "int \<Rightarrow> string \<Rightarrow> backupService \<Rightarrow> backupService" where
  "NewBackupServiceWithOptions retentionDays localDir ext =
     ext\<lparr>bs_retentionDays := (if retentionDays \<le> 0 then 30 else retentionDays),
         bs_localDir := (if TrimSpace localDir = [] then ''var/backups'' else TrimSpace localDir)\<rparr>"

definition badBackupRequest :: "go_error \<Rightarrow> go_error" where
  "badBackupRequest err = wrapAs ErrBadRequest err"

definition wrapBackupInternal :: "go_error \<Rightarrow> go_error" where
  "wrapBackupInternal err = Wrap (Code ErrInternal) 500 (Message ErrInternal) err"

section \<open>Normalisation of requests\<close>

definition normalizeBackupResourceType :: "golib \<Rightarrow> string \<Rightarrow> string result" where
  "normalizeBackupResourceType lib raw =
     (let value = ToLower (lower_uni lib) (TrimSpace raw)
      in if value \<in> {BackupResourcePostgres, BackupResourceAppMetadata,
                     BackupResourceObservability, BackupResourceCoreAgentTemplate}
         then Inr value
         else Inl (Plain (''resource_type '' @ quote lib raw @ '' is outside the P3 backup scope'')))"

definition normalizeBackupStorageType :: "golib \<Rightarrow> string \<Rightarrow> string result" where
  "normalizeBackupStorageType lib raw =
     (let value = ToLower (lower_uni lib) (TrimSpace raw)
      in if value = [] then Inr BackupStorageLocal
         else if value \<noteq> BackupStorageLocal
         then Inl (Plain ''only local backup storage is supported in P3'')
         else Inr value)"

definition normalizeBackupStatusFilter :: "golib \<Rightarrow> string \<Rightarrow> string result" where
  "normalizeBackupStatusFilter lib raw =
     (let value = ToLower (lower_uni lib) (TrimSpace raw)
      in if value = [] then Inr []
         else if value \<in> {BackupStatusPending, BackupStatusRunning, BackupStatusSuccess,
                          BackupStatusFailed}
         then Inr value
         else Inl (Plain (''unsupported backup status '' @ quote lib raw)))"

definition normalizeBackupText :: "string \<Rightarrow> string \<Rightarrow> int \<Rightarrow> bool \<Rightarrow> string result" where
  "normalizeBackupText raw field maxLength required =
     (let value = TrimSpace raw
      in if required \<and> value = [] then Inl (Plain (field @ '' is required''))
         else if int (length value) > maxLength
         then Inl (Plain (field @ '' must be at most '' @ itoa maxLength @ '' bytes''))
         else if ContainsControl value
         then Inl (Plain (field @ '' cannot contain control characters''))
         else Inr value)"

definition is_lower_hex :: "char \<Rightarrow> bool" where
  "is_lower_hex c = ((48 \<le> byte c \<and> byte c \<le> 57) \<or> (97 \<le> byte c \<and> byte c \<le> 102))"

definition normalizeBackupChecksum :: "golib \<Rightarrow> string \<Rightarrow> string result" where
  "normalizeBackupChecksum lib raw =
     (let value = TrimPrefix (ToLower (lower_uni lib) (TrimSpace raw)) ''sha256:''
      in if length value \<noteq> 64 then Inl (Plain ''checksum must be a sha256 hex digest'')
         else if \<not> list_all is_lower_hex value
         then Inl (Plain ''checksum must be a sha256 hex digest'')
         else Inr (''sha256:'' @ value))"

section \<open>Artifacts: names, manifests, paths\<close>

definition backupArtifactScope :: "string \<Rightarrow> string list" where
  "backupArtifactScope resourceType =
     (if resourceType = BackupResourcePostgres then [''postgres.metadata'']
      else if resourceType = BackupResourceAppMetadata then [''application.metadata'']
      else if resourceType = BackupResourceObservability then [''observability.config'']
      else if resourceType = BackupResourceCoreAgentTemplate then [''core_agent.config'']
      else [''unknown''])"

definition backupArtifactNote :: "string \<Rightarrow> string" where
  "backupArtifactNote resourceType =
     (if resourceType = BackupResourcePostgres
      then ''This P3 artifact is a controlled manifest. Full pg_dump generation remains a follow-up.''
      else [])"

text \<open>
  The loop of \<^verbatim>\<open>sanitizeBackupFilenamePart\<close>. The source walks runes; a rune outside ASCII is
  replaced by one dash, and its bytes by one dash too, since a run of replaced characters
  gives a single dash.
\<close>

definition is_name_char :: "char \<Rightarrow> bool" where
  "is_name_char c = ((97 \<le> byte c \<and> byte c \<le> 122) \<or> (48 \<le> byte c \<and> byte c \<le> 57))"

fun sanitize_loop :: "bool \<Rightarrow> string \<Rightarrow> string" where
  "sanitize_loop lastDash [] = []"
| "sanitize_loop lastDash (c # s) =
     (if is_name_char c then c # sanitize_loop False s
      else if \<not> lastDash then CHR ''-'' # sanitize_loop True s
      else sanitize_loop True s)"

definition trim_dash :: "string \<Rightarrow> string" where
  "trim_dash s = rev (dropWhile (\<lambda>c. c = CHR ''-'') (rev (dropWhile (\<lambda>c. c = CHR ''-'') s)))"

definition sanitizeBackupFilenamePart :: "golib \<Rightarrow> string \<Rightarrow> string" where
  "sanitizeBackupFilenamePart lib raw =
     (let value = ToLower (lower_uni lib) (TrimSpace raw);
          result = trim_dash (sanitize_loop False value)
      in if result = [] then ''backup''
         else let result' = (if length result > 64 then trim_dash (take 64 result) else result)
              in if result' = [] then ''backup'' else result')"

text \<open>The test \<^verbatim>\<open>rel == ".." || HasPrefix(rel, "../") || IsAbs(rel)\<close>.\<close>

definition rel_escapes :: "string \<Rightarrow> bool" where
  "rel_escapes rel = (rel = ''..'' \<or> HasPrefix rel ''../'' \<or> IsAbs rel)"

definition artifactFileName :: "golib \<Rightarrow> Backup \<Rightarrow> time \<Rightarrow> string" where
  "artifactFileName lib b now =
     ''snowpanel-'' @ sanitizeBackupFilenamePart lib (backup_ResourceType b) @ ''-'' @
     sanitizeBackupFilenamePart lib (backup_ResourceID b) @ ''-'' @ itoa (backup_ID b) @ ''-'' @
     itoa (now div 1000000000) @ ''.json''"

definition safeBackupArtifactPath :: "backupService \<Rightarrow> string \<Rightarrow> Backup \<Rightarrow> time \<Rightarrow> string result" where
  "safeBackupArtifactPath s localDir b now =
     (let dir = TrimSpace localDir in
      if dir = [] then Inl (Plain ''backup local directory is required'')
      else case Abs (bs_wd s) dir of Inl e \<Rightarrow> Inl e
      | Inr localAbs \<Rightarrow>
          (let path = Join [localAbs, artifactFileName (bs_lib s) b now]
           in case Rel localAbs path of Inl e \<Rightarrow> Inl e
              | Inr rel \<Rightarrow> if rel_escapes rel
                  then Inl (Plain ''backup artifact path escapes local directory'')
                  else Inr path))"

definition backupPathWithinLocalDir :: "backupService \<Rightarrow> string \<Rightarrow> string \<Rightarrow> bool" where
  "backupPathWithinLocalDir s localDir path =
     (case Abs (bs_wd s) (TrimSpace localDir) of Inl _ \<Rightarrow> False
      | Inr localAbs \<Rightarrow>
        (case Abs (bs_wd s) (TrimSpace path) of Inl _ \<Rightarrow> False
         | Inr pathAbs \<Rightarrow>
           (let localAbs' = (case bs_evalSymlinks s localAbs of Inl _ \<Rightarrow> localAbs | Inr r \<Rightarrow> r)
            in case bs_evalSymlinks s pathAbs of Inl _ \<Rightarrow> False
               | Inr pathReal \<Rightarrow>
                 (case Rel localAbs' pathReal of Inl _ \<Rightarrow> False
                  | Inr rel \<Rightarrow> \<not> rel_escapes rel))))"

record backupArtifactManifest =
  mf_Version :: int
  mf_Kind :: string
  mf_BackupID :: int
  mf_ResourceType :: string
  mf_ResourceID :: string
  mf_StorageType :: string
  mf_CreatedAt :: rfc3339
  mf_Scope :: "string list"
  mf_Note :: string

text \<open>
  The manifest as a JSON tree; \<open>fmt\<close> is the text of its creation time.
\<close>

definition manifest_json :: "(rfc3339 \<Rightarrow> string) \<Rightarrow> backupArtifactManifest \<Rightarrow> json" where
  "manifest_json fmt m = JObj (
     [(''version'', JNum (mf_Version m)), (''kind'', JStr (mf_Kind m)),
      (''backup_id'', JNum (mf_BackupID m)), (''resource_type'', JStr (mf_ResourceType m)),
      (''resource_id'', JStr (mf_ResourceID m)), (''storage_type'', JStr (mf_StorageType m)),
      (''created_at'', JStr (fmt (mf_CreatedAt m))),
      (''scope'', JArr (map JStr (mf_Scope m)))] @ omitStr ''note'' (mf_Note m))"

text \<open>\<^verbatim>\<open>json.Unmarshal(content, &manifest)\<close>: the fields the check reads, and the type errors.\<close>

definition decode_manifest :: "json \<Rightarrow> (string \<times> int \<times> string \<times> string \<times> string) option" where
  "decode_manifest j = (case j of
       JNull \<Rightarrow> Some ([], 0, [], [], [])
     | JObj ms \<Rightarrow> (
         case decStr ''kind'' ms [] of None \<Rightarrow> None | Some k \<Rightarrow> (
         case decInt ''backup_id'' ms 0 of None \<Rightarrow> None | Some i \<Rightarrow> (
         case decStr ''resource_type'' ms [] of None \<Rightarrow> None | Some rt \<Rightarrow> (
         case decStr ''resource_id'' ms [] of None \<Rightarrow> None | Some ri \<Rightarrow> (
         case decStr ''storage_type'' ms [] of None \<Rightarrow> None | Some st \<Rightarrow>
         if decInt ''version'' ms 0 = None \<or> decStr ''created_at'' ms [] = None \<or>
            decStr ''note'' ms [] = None \<or> \<not> decStrListOk ''scope'' ms then None
         else Some (k, i, rt, ri, st))))))
     | _ \<Rightarrow> None)"

section \<open>The service\<close>

record BackupSummary =
  sum_ID :: int
  sum_ResourceType :: string
  sum_ResourceID :: string
  sum_StorageType :: string
  sum_FilePath :: string
  sum_SizeBytes :: int
  sum_Checksum :: string
  sum_Status :: string
  sum_CreatedBy :: "int option"
  sum_CreatedAt :: rfc3339
  sum_UpdatedAt :: rfc3339

definition mapBackupSummary :: "Backup \<Rightarrow> BackupSummary" where
  "mapBackupSummary b = \<lparr>sum_ID = backup_ID b, sum_ResourceType = backup_ResourceType b,
     sum_ResourceID = backup_ResourceID b, sum_StorageType = backup_StorageType b,
     sum_FilePath = backup_FilePath b, sum_SizeBytes = backup_SizeBytes b,
     sum_Checksum = backup_Checksum b, sum_Status = backup_Status b,
     sum_CreatedBy = backup_CreatedBy b, sum_CreatedAt = FormatRFC3339 (backup_CreatedAt b),
     sum_UpdatedAt = FormatRFC3339 (backup_UpdatedAt b)\<rparr>"

record CreateBackupMetadataRequest =
  cbm_ResourceType :: string
  cbm_ResourceID :: string
  cbm_StorageType :: string
  cbm_FilePath :: string

definition CreateMetadata ::
  "backupService \<Rightarrow> CreateBackupMetadataRequest \<Rightarrow> int option \<Rightarrow> (world, BackupSummary result) state" where
  "CreateMetadata s req createdBy = (
     case normalizeBackupResourceType (bs_lib s) (cbm_ResourceType req) of
       Inl err \<Rightarrow> ret (Inl (badBackupRequest err))
     | Inr resourceType \<Rightarrow> (
     case normalizeBackupText (cbm_ResourceID req) ''resource_id'' 128 True of
       Inl err \<Rightarrow> ret (Inl (badBackupRequest err))
     | Inr resourceID \<Rightarrow> (
     case normalizeBackupStorageType (bs_lib s) (cbm_StorageType req) of
       Inl err \<Rightarrow> ret (Inl (badBackupRequest err))
     | Inr storageType \<Rightarrow> (
     case normalizeBackupText (cbm_FilePath req) ''file_path'' 1024 False of
       Inl err \<Rightarrow> ret (Inl (badBackupRequest err))
     | Inr filePath \<Rightarrow> do {
         r \<leftarrow> backupRepo_Create \<lparr>backup_ID = 0, backup_ResourceType = resourceType,
                backup_ResourceID = resourceID, backup_StorageType = storageType,
                backup_FilePath = filePath, backup_SizeBytes = 0, backup_Checksum = [],
                backup_Status = BackupStatusPending, backup_CreatedBy = createdBy,
                backup_CreatedAt = 0, backup_UpdatedAt = 0\<rparr>;
         case r of Inl err \<Rightarrow> ret (Inl (wrapBackupInternal err))
         | Inr backup \<Rightarrow> ret (Inr (mapBackupSummary backup))
       }))))"

text \<open>
  The pair of lines \<^verbatim>\<open>_ = s.repo.UpdateStatus(ctx, id, BackupStatusFailed); return ..., err\<close>,
  with which the artifact operations leave after a failure.
\<close>

definition failBackup :: "int \<Rightarrow> go_error \<Rightarrow> (world, 'a result) state" where
  "failBackup i err = do {
     _ \<leftarrow> backupRepo_UpdateStatus i BackupStatusFailed;
     ret (Inl err)
   }"

definition WriteFile :: "string \<Rightarrow> string \<Rightarrow> (world, unit result) state" where
  "WriteFile path content = filecall (\<lambda>fs. (Inr (), fs(path \<mapsto> content)))"

definition Rename :: "string \<Rightarrow> string \<Rightarrow> (world, unit result) state" where
  "Rename from to = filecall (\<lambda>fs. case fs from of
       None \<Rightarrow> (Inl (Lib ''no such file''), fs)
     | Some content \<Rightarrow> (Inr (), (fs(from := None))(to \<mapsto> content)))"

definition Remove :: "string \<Rightarrow> (world, unit result) state" where
  "Remove path = filecall (\<lambda>fs. case fs path of
       None \<Rightarrow> (Inl (Lib ''no such file''), fs)
     | Some _ \<Rightarrow> (Inr (), fs(path := None)))"

definition ReadFile :: "string \<Rightarrow> (world, string result) state" where
  "ReadFile path = filecall (\<lambda>fs. case fs path of
       None \<Rightarrow> (Inl (Lib ''no such file''), fs)
     | Some content \<Rightarrow> (Inr content, fs))"

text \<open>\<^verbatim>\<open>os.MkdirAll\<close>: directories are not part of the model; the call can only fail.\<close>

definition MkdirAll :: "string \<Rightarrow> (world, unit result) state" where
  "MkdirAll path = filecall (\<lambda>fs. (Inr (), fs))"

definition artifact_manifest :: "Backup \<Rightarrow> time \<Rightarrow> backupArtifactManifest" where
  "artifact_manifest b now = \<lparr>mf_Version = 1, mf_Kind = ''snowpanel.backup.artifact'',
     mf_BackupID = backup_ID b, mf_ResourceType = backup_ResourceType b,
     mf_ResourceID = backup_ResourceID b, mf_StorageType = backup_StorageType b,
     mf_CreatedAt = FormatRFC3339 now, mf_Scope = backupArtifactScope (backup_ResourceType b),
     mf_Note = backupArtifactNote (backup_ResourceType b)\<rparr>"

definition CreateArtifact :: "backupService \<Rightarrow> int \<Rightarrow> (world, BackupSummary result) state" where
  "CreateArtifact s i = (
     if i \<le> 0 then ret (Inl (badBackupRequest (Plain ''backup id must be positive'')))
     else do {
       got \<leftarrow> backupRepo_GetByID i;
       case got of Inl err \<Rightarrow> ret (Inl (wrapBackupInternal err))
       | Inr None \<Rightarrow> ret (Inl ErrBackupNotFound)
       | Inr (Some backup) \<Rightarrow>
         if backup_StorageType backup \<noteq> BackupStorageLocal
         then failBackup i (badBackupRequest (Plain ''only local backup storage can create artifacts in P3''))
         else do {
           started \<leftarrow> backupRepo_UpdateStatus i BackupStatusRunning;
           case started of Inl err \<Rightarrow> ret (Inl (wrapBackupInternal err))
           | Inr _ \<Rightarrow> do {
             now \<leftarrow> Now;
             case safeBackupArtifactPath s (bs_localDir s) backup now of
               Inl err \<Rightarrow> failBackup i (wrapBackupInternal err)
             | Inr path \<Rightarrow> do {
               made \<leftarrow> MkdirAll path;
               case made of Inl err \<Rightarrow> failBackup i (wrapBackupInternal err)
               | Inr _ \<Rightarrow> (
                 case bs_marshalIndent s (manifest_json (bs_rfc3339 s) (artifact_manifest backup now)) of
                   Inl err \<Rightarrow> failBackup i (wrapBackupInternal err)
                 | Inr text \<Rightarrow> (
                   let content = text @ [CHR 0x0A]; tempPath = path @ ''.tmp'' in do {
                   written \<leftarrow> WriteFile tempPath content;
                   case written of Inl err \<Rightarrow> failBackup i (wrapBackupInternal err)
                   | Inr _ \<Rightarrow> do {
                     renamed \<leftarrow> Rename tempPath path;
                     case renamed of Inl err \<Rightarrow> do {
                         _ \<leftarrow> Remove tempPath;
                         failBackup i (wrapBackupInternal err)
                       }
                     | Inr _ \<Rightarrow> (
                       let checksum = ''sha256:'' @ bs_sha256hex s content in do {
                       stored \<leftarrow> backupRepo_UpdateVerification i BackupStatusSuccess
                                   (int (length content)) checksum path;
                       case stored of Inl err \<Rightarrow> failBackup i (wrapBackupInternal err)
                       | Inr _ \<Rightarrow> do {
                         updated \<leftarrow> Now;
                         ret (Inr (mapBackupSummary (backup\<lparr>backup_Status := BackupStatusSuccess,
                           backup_SizeBytes := int (length content), backup_Checksum := checksum,
                           backup_FilePath := path, backup_UpdatedAt := updated\<rparr>)))
                       }})}}))}}}})"

record VerifyBackupRequest =
  vbr_SizeBytes :: int
  vbr_Checksum :: string
  vbr_FilePath :: string

definition Verify ::
  "backupService \<Rightarrow> int \<Rightarrow> VerifyBackupRequest \<Rightarrow> (world, BackupSummary result) state" where
  "Verify s i req = (
     if i \<le> 0 then ret (Inl (badBackupRequest (Plain ''backup id must be positive'')))
     else if vbr_SizeBytes req \<le> 0
     then ret (Inl (badBackupRequest (Plain ''size_bytes must be positive'')))
     else case normalizeBackupChecksum (bs_lib s) (vbr_Checksum req) of
       Inl err \<Rightarrow> ret (Inl (badBackupRequest err))
     | Inr checksum \<Rightarrow> (
     case normalizeBackupText (vbr_FilePath req) ''file_path'' 1024 False of
       Inl err \<Rightarrow> ret (Inl (badBackupRequest err))
     | Inr filePath \<Rightarrow> do {
       got \<leftarrow> backupRepo_GetByID i;
       case got of Inl err \<Rightarrow> ret (Inl (wrapBackupInternal err))
       | Inr None \<Rightarrow> ret (Inl ErrBackupNotFound)
       | Inr (Some backup) \<Rightarrow>
         if backup_Checksum backup \<noteq> [] \<and> backup_Checksum backup \<noteq> checksum
         then failBackup i (badBackupRequest (Plain ''backup checksum mismatch''))
         else if backup_SizeBytes backup > 0 \<and> backup_SizeBytes backup \<noteq> vbr_SizeBytes req
         then failBackup i (badBackupRequest (Plain ''backup size mismatch''))
         else do {
           stored \<leftarrow> backupRepo_UpdateVerification i BackupStatusSuccess (vbr_SizeBytes req)
                       checksum filePath;
           case stored of Inl err \<Rightarrow> ret (Inl (wrapBackupInternal err))
           | Inr _ \<Rightarrow> do {
             updated \<leftarrow> Now;
             ret (Inr (mapBackupSummary (backup\<lparr>backup_SizeBytes := vbr_SizeBytes req,
               backup_Checksum := checksum, backup_Status := BackupStatusSuccess,
               backup_FilePath := (if filePath \<noteq> [] then filePath else backup_FilePath backup),
               backup_UpdatedAt := updated\<rparr>)))
           }}}))"

definition checksumLocalBackupFile ::
  "backupService \<Rightarrow> string \<Rightarrow> (world, (int \<times> string) result) state" where
  "checksumLocalBackupFile s path = do {
     opened \<leftarrow> ReadFile path;
     case opened of Inl err \<Rightarrow> ret (Inl err)
     | Inr _ \<Rightarrow> do {
       copied \<leftarrow> ReadFile path;
       case copied of Inl err \<Rightarrow> ret (Inl err)
       | Inr content \<Rightarrow> ret (Inr (int (length content), ''sha256:'' @ bs_sha256hex s content))
     }}"

definition validateBackupArtifactManifest :: "backupService \<Rightarrow> Backup \<Rightarrow> (world, unit result) state" where
  "validateBackupArtifactManifest s backup = (
     if ToLower (lower_uni (bs_lib s)) (Ext (backup_FilePath backup)) \<noteq> ''.json'' then ret (Inr ())
     else do {
       r \<leftarrow> ReadFile (backup_FilePath backup);
       case r of Inl err \<Rightarrow> ret (Inl err)
       | Inr content \<Rightarrow> ret (
         case Option.bind (bs_parse s content) decode_manifest of
           None \<Rightarrow> Inl (Plain ''backup artifact manifest is invalid'')
         | Some (kind, bid, rt, ri, st) \<Rightarrow>
             if kind \<noteq> ''snowpanel.backup.artifact''
             then Inl (Plain ''backup artifact manifest kind mismatch'')
             else if bid \<noteq> backup_ID backup
             then Inl (Plain ''backup artifact manifest backup_id mismatch'')
             else if rt \<noteq> backup_ResourceType backup
             then Inl (Plain ''backup artifact manifest resource_type mismatch'')
             else if ri \<noteq> backup_ResourceID backup
             then Inl (Plain ''backup artifact manifest resource_id mismatch'')
             else if st \<noteq> backup_StorageType backup
             then Inl (Plain ''backup artifact manifest storage_type mismatch'')
             else Inr ())
     })"

definition VerifyArtifact :: "backupService \<Rightarrow> int \<Rightarrow> (world, BackupSummary result) state" where
  "VerifyArtifact s i = (
     if i \<le> 0 then ret (Inl (badBackupRequest (Plain ''backup id must be positive'')))
     else do {
       got \<leftarrow> backupRepo_GetByID i;
       case got of Inl err \<Rightarrow> ret (Inl (wrapBackupInternal err))
       | Inr None \<Rightarrow> ret (Inl ErrBackupNotFound)
       | Inr (Some backup) \<Rightarrow>
         if backup_StorageType backup \<noteq> BackupStorageLocal
         then failBackup i (badBackupRequest (Plain ''only local backup storage can verify artifacts in P3''))
         else if TrimSpace (backup_FilePath backup) = []
         then failBackup i (badBackupRequest (Plain ''backup file_path is required for artifact verification''))
         else if \<not> backupPathWithinLocalDir s (bs_localDir s) (backup_FilePath backup)
         then failBackup i (badBackupRequest (Plain ''backup artifact path must be inside BACKUP_LOCAL_DIR''))
         else do {
           summed \<leftarrow> checksumLocalBackupFile s (backup_FilePath backup);
           case summed of Inl err \<Rightarrow> failBackup i (wrapBackupInternal err)
           | Inr (sizeBytes, checksum) \<Rightarrow>
             if backup_Checksum backup \<noteq> [] \<and> backup_Checksum backup \<noteq> checksum
             then failBackup i (badBackupRequest (Plain ''backup checksum mismatch''))
             else if backup_SizeBytes backup > 0 \<and> backup_SizeBytes backup \<noteq> sizeBytes
             then failBackup i (badBackupRequest (Plain ''backup size mismatch''))
             else do {
               valid \<leftarrow> validateBackupArtifactManifest s backup;
               case valid of Inl err \<Rightarrow> failBackup i (badBackupRequest err)
               | Inr _ \<Rightarrow> do {
                 stored \<leftarrow> backupRepo_UpdateVerification i BackupStatusSuccess sizeBytes checksum
                             (backup_FilePath backup);
                 case stored of Inl err \<Rightarrow> ret (Inl (wrapBackupInternal err))
                 | Inr _ \<Rightarrow> do {
                   updated \<leftarrow> Now;
                   ret (Inr (mapBackupSummary (backup\<lparr>backup_Status := BackupStatusSuccess,
                     backup_SizeBytes := sizeBytes, backup_Checksum := checksum,
                     backup_UpdatedAt := updated\<rparr>)))
                 }}}}})"

definition MarkStatus :: "backupService \<Rightarrow> int \<Rightarrow> string \<Rightarrow> (world, BackupSummary result) state" where
  "MarkStatus s i status = (
     if i \<le> 0 then ret (Inl (badBackupRequest (Plain ''backup id must be positive'')))
     else case normalizeBackupStatusFilter (bs_lib s) status of
       Inl err \<Rightarrow> ret (Inl (badBackupRequest err))
     | Inr normalized \<Rightarrow>
       if normalized = [] then ret (Inl (badBackupRequest (Plain ''backup status is required'')))
       else do {
         got \<leftarrow> backupRepo_GetByID i;
         case got of Inl err \<Rightarrow> ret (Inl (wrapBackupInternal err))
         | Inr None \<Rightarrow> ret (Inl ErrBackupNotFound)
         | Inr (Some backup) \<Rightarrow> do {
           stored \<leftarrow> backupRepo_UpdateStatus i normalized;
           case stored of Inl err \<Rightarrow> ret (Inl (wrapBackupInternal err))
           | Inr _ \<Rightarrow> do {
             updated \<leftarrow> Now;
             ret (Inr (mapBackupSummary (backup\<lparr>backup_Status := normalized,
               backup_UpdatedAt := updated\<rparr>)))
           }}})"

record ListBackupsQuery =
  lbq_Page :: int
  lbq_Size :: int
  lbq_Status :: string
  lbq_ResourceType :: string
  lbq_ResourceID :: string

record ListBackupsResult =
  lbr_Page :: int
  lbr_Size :: int
  lbr_Total :: int
  lbr_Items :: "BackupSummary list"

definition ListBackups ::
  "backupService \<Rightarrow> ListBackupsQuery \<Rightarrow> (world, ListBackupsResult result) state" where
  "ListBackups s query = (
     let page = (if lbq_Page query \<le> 0 then 1 else lbq_Page query);
         size = (if lbq_Size query \<le> 0 then 20 else lbq_Size query)
     in case normalizeBackupStatusFilter (bs_lib s) (lbq_Status query) of
       Inl err \<Rightarrow> ret (Inl (badBackupRequest err))
     | Inr status \<Rightarrow> (
       case (if TrimSpace (lbq_ResourceType query) \<noteq> []
             then normalizeBackupResourceType (bs_lib s) (lbq_ResourceType query) else Inr []) of
         Inl err \<Rightarrow> ret (Inl (badBackupRequest err))
       | Inr resourceType \<Rightarrow> do {
           r \<leftarrow> backupRepo_List \<lparr>blf_Page = page, blf_Size = size, blf_Status = status,
                  blf_ResourceType = resourceType,
                  blf_ResourceID = TrimSpace (lbq_ResourceID query)\<rparr>;
           case r of Inl err \<Rightarrow> ret (Inl (wrapBackupInternal err))
           | Inr (items, ttl) \<Rightarrow> ret (Inr \<lparr>lbr_Page = page, lbr_Size = size, lbr_Total = ttl,
               lbr_Items = map mapBackupSummary items\<rparr>)
         }))"

record BackupRetentionCleanupRequest =
  brc_DryRun :: bool
  brc_RetentionDays :: int
  brc_ArchiveBeforeDelete :: bool

record BackupRetentionCleanupResult =
  brr_DryRun :: bool
  brr_RetentionDays :: int
  brr_Cutoff :: rfc3339
  brr_MatchedRows :: int
  brr_DeletedRows :: int
  brr_ArchiveBeforeDelete :: bool
  brr_ArchivePath :: string

definition summary_json :: "(rfc3339 \<Rightarrow> string) \<Rightarrow> BackupSummary \<Rightarrow> json" where
  "summary_json fmt b = JObj
     [(''id'', JNum (sum_ID b)), (''resource_type'', JStr (sum_ResourceType b)),
      (''resource_id'', JStr (sum_ResourceID b)), (''storage_type'', JStr (sum_StorageType b)),
      (''file_path'', JStr (sum_FilePath b)), (''size_bytes'', JNum (sum_SizeBytes b)),
      (''checksum'', JStr (sum_Checksum b)), (''status'', JStr (sum_Status b)),
      (''created_by'', case sum_CreatedBy b of None \<Rightarrow> JNull | Some u \<Rightarrow> JNum u),
      (''created_at'', JStr (fmt (sum_CreatedAt b))), (''updated_at'', JStr (fmt (sum_UpdatedAt b)))]"

definition archive_line :: "(rfc3339 \<Rightarrow> string) \<Rightarrow> time \<Rightarrow> time \<Rightarrow> Backup \<Rightarrow> json" where
  "archive_line fmt archivedAt cutoff item = JObj
     [(''archived_at'', JStr (fmt (FormatRFC3339 archivedAt))),
      (''cutoff'', JStr (fmt (FormatRFC3339 cutoff))),
      (''backup'', summary_json fmt (mapBackupSummary item))]"

definition CreateExclusive :: "string \<Rightarrow> (world, unit result) state" where
  "CreateExclusive path = filecall (\<lambda>fs. case fs path of
       None \<Rightarrow> (Inr (), fs(path \<mapsto> [])) | Some _ \<Rightarrow> (Inl (Lib ''file exists''), fs))"

definition AppendFile :: "string \<Rightarrow> string \<Rightarrow> (world, unit result) state" where
  "AppendFile path text = filecall (\<lambda>fs. (Inr (), fs(path \<mapsto>
       (case fs path of None \<Rightarrow> [] | Some c \<Rightarrow> c) @ text)))"

fun write_archive_lines ::
  "backupService \<Rightarrow> string \<Rightarrow> time \<Rightarrow> Backup list \<Rightarrow> (world, unit result) state" where
  "write_archive_lines s path cutoff [] = ret (Inr ())"
| "write_archive_lines s path cutoff (item # items) = do {
     now \<leftarrow> Now;
     case bs_marshal s (archive_line (bs_rfc3339 s) now cutoff item) of
       Inl err \<Rightarrow> ret (Inl err)
     | Inr text \<Rightarrow> do {
         r \<leftarrow> AppendFile path (text @ [CHR 0x0A]);
         case r of Inl err \<Rightarrow> ret (Inl err)
         | Inr _ \<Rightarrow> write_archive_lines s path cutoff items
       }
   }"

definition archiveFileName :: "time \<Rightarrow> string" where
  "archiveFileName now = ''snowpanel-backup-metadata-archive-'' @ itoa now @ ''.jsonl''"

definition writeRetentionArchive ::
  "backupService \<Rightarrow> Backup list \<Rightarrow> time \<Rightarrow> (world, string result) state" where
  "writeRetentionArchive s items cutoff = (
     if items = [] then ret (Inr [])
     else case Abs (bs_wd s) (TrimSpace (bs_localDir s)) of Inl err \<Rightarrow> ret (Inl err)
     | Inr localAbs \<Rightarrow> do {
       made \<leftarrow> MkdirAll localAbs;
       case made of Inl err \<Rightarrow> ret (Inl err)
       | Inr _ \<Rightarrow> do {
         now \<leftarrow> Now;
         (let path = Join [localAbs, archiveFileName now] in
          case Rel localAbs path of Inl err \<Rightarrow> ret (Inl err)
          | Inr rel \<Rightarrow>
            if rel_escapes rel
            then ret (Inl (Plain ''backup retention archive path escapes local directory''))
            else do {
              opened \<leftarrow> CreateExclusive path;
              case opened of Inl err \<Rightarrow> ret (Inl err)
              | Inr _ \<Rightarrow> do {
                r \<leftarrow> write_archive_lines s path cutoff items;
                case r of Inl err \<Rightarrow> ret (Inl err) | Inr _ \<Rightarrow> ret (Inr path)
              }})
       }})"

definition CleanupRetention ::
  "backupService \<Rightarrow> BackupRetentionCleanupRequest \<Rightarrow> (world, BackupRetentionCleanupResult result) state" where
  "CleanupRetention s req = (
     let days1 = (if brc_RetentionDays req \<le> 0 then bs_retentionDays s else brc_RetentionDays req);
         retentionDays = (if days1 \<le> 0 then 30 else days1)
     in do {
       now \<leftarrow> Now;
       (let cutoff = now - retentionDays * (24 * Hour) in do {
       counted \<leftarrow> backupRepo_CountDeletableBefore cutoff;
       case counted of Inl err \<Rightarrow> ret (Inl (wrapBackupInternal err))
       | Inr matchedRows \<Rightarrow> (
         let result = \<lparr>brr_DryRun = brc_DryRun req, brr_RetentionDays = retentionDays,
               brr_Cutoff = FormatRFC3339 cutoff, brr_MatchedRows = matchedRows,
               brr_DeletedRows = 0, brr_ArchiveBeforeDelete = brc_ArchiveBeforeDelete req,
               brr_ArchivePath = []\<rparr>
         in if brc_DryRun req then ret (Inr result)
         else do {
           archived \<leftarrow>
             (if brc_ArchiveBeforeDelete req \<and> matchedRows > 0
              then do {
                listed \<leftarrow> backupRepo_ListDeletableBefore cutoff;
                case listed of Inl err \<Rightarrow> ret (Inl err)
                | Inr items \<Rightarrow> writeRetentionArchive s items cutoff
              }
              else ret (Inr []));
           case archived of Inl err \<Rightarrow> ret (Inl (wrapBackupInternal err))
           | Inr archivePath \<Rightarrow> do {
             deleted \<leftarrow> backupRepo_DeleteDeletableBefore cutoff;
             case deleted of Inl err \<Rightarrow> ret (Inl (wrapBackupInternal err))
             | Inr deletedRows \<Rightarrow> ret (Inr (result\<lparr>brr_DeletedRows := deletedRows,
                 brr_ArchivePath := archivePath\<rparr>))
           }})})})"

section \<open>What the service does to the world\<close>

text \<open>
  The effects the service relies on, as an interface: a relation between worlds that every
  repository call and every file operation keeps is kept by every operation of the service.
\<close>

locale backup_frame =
  fixes R :: "world \<Rightarrow> world \<Rightarrow> bool"
  assumes refl: "reflp R" and trans: "transp R"
    and now: "keeps R Now"
    and file_call: "keeps R (filecall (f :: _ \<Rightarrow> unit result \<times> _))"
      "keeps R (filecall (g :: _ \<Rightarrow> string result \<times> _))"
    and create: "keeps R (backupRepo_Create b)"
    and get: "keeps R (backupRepo_GetByID i)"
    and list: "keeps R (backupRepo_List fl)"
    and verification: "keeps R (backupRepo_UpdateVerification i st sz ck fp)"
    and status: "keeps R (backupRepo_UpdateStatus i st)"
    and retention: "keeps R (backupRepo_CountDeletableBefore c)"
      "keeps R (backupRepo_ListDeletableBefore c)" "keeps R (backupRepo_DeleteDeletableBefore c)"
begin

lemmas monad_rules = keeps_ret [OF refl] keeps_get [OF refl] keeps_bind [OF trans]
  keeps_if keeps_case_sum keeps_case_option keeps_case_prod

lemmas call_rules = now create get list verification status retention

lemma file_ops:
  "keeps R (WriteFile p c)" "keeps R (Rename p q)" "keeps R (Remove p)" "keeps R (ReadFile p)"
  "keeps R (MkdirAll p)" "keeps R (CreateExclusive p)" "keeps R (AppendFile p c)"
  unfolding WriteFile_def Rename_def Remove_def ReadFile_def MkdirAll_def CreateExclusive_def
    AppendFile_def by (rule file_call)+

lemma fail: "keeps R (failBackup i err)"
  unfolding failBackup_def by (intro monad_rules call_rules)

lemmas rules = monad_rules call_rules file_ops fail

lemma archive_lines: "keeps R (write_archive_lines s path cutoff items)"
  by (induction items) (auto intro!: rules)

lemma service:
  "keeps R (CreateMetadata s req by)" "keeps R (CreateArtifact s i)" "keeps R (Verify s i vreq)"
  "keeps R (VerifyArtifact s i)" "keeps R (MarkStatus s i st)" "keeps R (ListBackups s q)"
  "keeps R (CleanupRetention s creq)"
  unfolding CreateMetadata_def CreateArtifact_def Verify_def VerifyArtifact_def MarkStatus_def
    ListBackups_def CleanupRetention_def writeRetentionArchive_def Let_def
    checksumLocalBackupFile_def validateBackupArtifactManifest_def
  by (intro rules archive_lines; simp?)+

end

interpretation backup_steps: backup_frame "steps backup_step"
  by unfold_locales (intro reflp_steps transp_steps keeps_steps keeps_backupRepo)+

end
