(* ===== verification/TaskService.thy ===== *)
theory TaskService
  imports TaskPayload TaskProtocol Agent BackupService
begin

text \<open>
  \<^verbatim>\<open>internal/service/task_service.go\<close>: creating, cancelling, retrying and reading tasks, and
  the in-process execution \<^verbatim>\<open>runTask\<close>. The worker is in \<^verbatim>\<open>TaskWorker\<close>.

  The service struct: a nil dependency is \<open>None\<close>. A call through a nil interface is a
  run-time panic, which ends the goroutine's work at that point (\<open>Panic\<close>). \<^verbatim>\<open>jsonb\<close> columns
  are JSON values; \<open>ts_jsonText\<close> is the text the driver returns for one, which the source logs
  verbatim in a single place, and \<open>ts_timeText\<close> the text of an RFC 3339 time stamp. A call \<^verbatim>\<open>go s.runTask(...)\<close> is recorded in \<open>spawned\<close>; the
  goroutine's own statements are those of \<open>runTask\<close>, and reach a concurrent computation
  through the interference of its schedule. \<open>run_goroutines\<close> of \<^theory_text>\<open>TaskPipeline\<close> runs what
  was recorded.
\<close>

record taskService =
  ts_dockerService :: "agent_conn option"
  ts_serviceManager :: "agent_conn option"
  ts_backupService :: "backupService option"
  ts_AsyncExecution :: bool
  ts_MaxAttempts :: int
  ts_metrics :: bool
  ts_lib :: golib
  ts_jsonText :: "json \<Rightarrow> string"
  ts_timeText :: "rfc3339 \<Rightarrow> string"

definition NewTaskServiceWithOptions :: "taskService \<Rightarrow> taskService" where
  "NewTaskServiceWithOptions opts =
     opts\<lparr>ts_MaxAttempts := (if ts_MaxAttempts opts \<le> 0 then 1 else ts_MaxAttempts opts)\<rparr>"

definition NewTaskService :: "taskService \<Rightarrow> taskService" where
  "NewTaskService deps =
     NewTaskServiceWithOptions (deps\<lparr>ts_AsyncExecution := True, ts_MaxAttempts := 1,
       ts_metrics := False, ts_backupService := None\<rparr>)"

datatype 'a outcome = Panic | Done 'a

record CreateTaskResult =
  ctr_ID :: int
  ctr_Type :: string
  ctr_Status :: string

record TaskSummary =
  tsum_ID :: int
  tsum_Type :: string
  tsum_Status :: string
  tsum_Progress :: int
  tsum_Error :: string
  tsum_TriggeredBy :: "int option"
  tsum_CreatedAt :: rfc3339
  tsum_UpdatedAt :: rfc3339

definition mapTaskSummary :: "Task \<Rightarrow> TaskSummary" where
  "mapTaskSummary task = \<lparr>tsum_ID = task_ID task, tsum_Type = task_Type task,
     tsum_Status = task_Status task, tsum_Progress = task_Progress task,
     tsum_Error = task_ErrorMsg task, tsum_TriggeredBy = task_TriggeredBy task,
     tsum_CreatedAt = FormatRFC3339 (task_CreatedAt task),
     tsum_UpdatedAt = FormatRFC3339 (task_UpdatedAt task)\<rparr>"

abbreviation badRequest :: "go_error \<Rightarrow> go_error" where "badRequest err \<equiv> wrapAs ErrBadRequest err"
abbreviation internalError :: "go_error \<Rightarrow> go_error" where "internalError err \<equiv> wrapAs ErrInternal err"

text \<open>\<^verbatim>\<open>_ = s.repo.AppendLog(ctx, &model.TaskLog{...})\<close>: the error is dropped.\<close>

definition appendTaskLog :: "int \<Rightarrow> string \<Rightarrow> string \<Rightarrow> json \<Rightarrow> (world, unit) state" where
  "appendTaskLog taskID level message metadata = do {
     _ \<leftarrow> taskRepo_AppendLog \<lparr>log_ID = 0, log_TaskID = taskID, log_Level = level,
            log_Message = message, log_Metadata = metadata, log_CreatedAt = 0\<rparr>;
     ret ()
   }"

section \<open>Creating tasks\<close>

definition new_task :: "taskService \<Rightarrow> string \<Rightarrow> taskPayload \<Rightarrow> int option \<Rightarrow> string option \<Rightarrow> Task" where
  "new_task s taskType payload triggeredBy idempotencyKey =
     \<lparr>task_ID = 0, task_Type = taskType, task_Status = TaskStatusPending, task_Progress = 0,
      task_Payload = marshalTaskPayload payload, task_Result = JObj [], task_ErrorMsg = [],
      task_TriggeredBy = triggeredBy, task_HostID = None, task_LockedBy = None,
      task_LockedUntil = None, task_Attempt = 0, task_MaxAttempts = ts_MaxAttempts s,
      task_IdempotencyKey = idempotencyKey, task_NextRunAt = None, task_StartedAt = None,
      task_FinishedAt = None, task_CreatedAt = 0, task_UpdatedAt = 0\<rparr>"

definition create_result :: "Task \<Rightarrow> CreateTaskResult" where
  "create_result task = \<lparr>ctr_ID = task_ID task, ctr_Type = task_Type task,
     ctr_Status = task_Status task\<rparr>"

text \<open>The look-up by idempotency key before the insert: \<open>Inr None\<close> when there is no key or no task.\<close>

definition find_existing :: "string option \<Rightarrow> (world, Task option result) state" where
  "find_existing idempotencyKey = (case idempotencyKey of
       None \<Rightarrow> ret (Inr None)
     | Some key \<Rightarrow> taskRepo_GetByIdempotencyKey key)"

definition createAndRunTask ::
  "taskService \<Rightarrow> string \<Rightarrow> taskPayload \<Rightarrow> int option \<Rightarrow> string \<Rightarrow> string option \<Rightarrow>
   (world, CreateTaskResult result) state" where
  "createAndRunTask s taskType payload triggeredBy username idempotencyKey = do {
     existing \<leftarrow> find_existing idempotencyKey;
     case existing of Inl err \<Rightarrow> ret (Inl (internalError err))
     | Inr (Some task) \<Rightarrow> ret (Inr (create_result task))
     | Inr None \<Rightarrow> do {
       created \<leftarrow> taskRepo_Create (new_task s taskType payload triggeredBy idempotencyKey);
       case created of
         Inl err \<Rightarrow> do {
           again \<leftarrow> find_existing idempotencyKey;
           ret (case again of Inr (Some task) \<Rightarrow> Inr (create_result task)
                | _ \<Rightarrow> Inl (internalError err))
         }
       | Inr task \<Rightarrow> do {
           appendTaskLog (task_ID task) ''info'' ''task queued''
             (marshalTaskMetadata (ts_lib s) [(''actor'', JStr username), (''type'', JStr taskType),
               (''payload'', marshalTaskPayload payload), (''status'', JStr TaskStatusPending),
               (''progress'', JNum 0)]);
           _ \<leftarrow> (if ts_AsyncExecution s then spawn (task_ID task) payload else ret ());
           ret (Inr (create_result task))
         }
     }}"

record CreateDockerRestartTaskRequest =
  cdr_ContainerID :: string
  cdr_IdempotencyKey :: string

definition CreateDockerRestartTask ::
  "taskService \<Rightarrow> CreateDockerRestartTaskRequest \<Rightarrow> int option \<Rightarrow> string \<Rightarrow>
   (world, CreateTaskResult result) state" where
  "CreateDockerRestartTask s req triggeredBy username = (
     let containerID = TrimSpace (cdr_ContainerID req) in
     if containerID = [] then ret (Inl (badRequest (Plain ''container_id is required'')))
     else if ts_dockerService s = None
     then ret (Inl (internalError (Plain ''docker service is not configured'')))
     else case normalizeTaskIdempotencyKey (cdr_IdempotencyKey req) of
       Inl err \<Rightarrow> ret (Inl (badRequest err))
     | Inr idempotencyKey \<Rightarrow>
         createAndRunTask s TaskTypeDockerRestart
           (empty_payload\<lparr>pl_Operation := taskOperationDockerRestart, pl_ContainerID := containerID\<rparr>)
           triggeredBy username idempotencyKey)"

record CreateServiceRestartTaskRequest =
  csr_ServiceName :: string
  csr_IdempotencyKey :: string

definition CreateServiceRestartTask ::
  "taskService \<Rightarrow> CreateServiceRestartTaskRequest \<Rightarrow> int option \<Rightarrow> string \<Rightarrow>
   (world, CreateTaskResult result) state" where
  "CreateServiceRestartTask s req triggeredBy username = (
     let serviceName = TrimSpace (csr_ServiceName req) in
     if serviceName = [] then ret (Inl (badRequest (Plain ''service_name is required'')))
     else if ts_serviceManager s = None
     then ret (Inl (internalError (Plain ''service manager is not configured'')))
     else case normalizeTaskIdempotencyKey (csr_IdempotencyKey req) of
       Inl err \<Rightarrow> ret (Inl (badRequest err))
     | Inr idempotencyKey \<Rightarrow>
         createAndRunTask s TaskTypeServiceRestart
           (empty_payload\<lparr>pl_Operation := taskOperationServiceRestart, pl_ServiceName := serviceName\<rparr>)
           triggeredBy username idempotencyKey)"

record CreateBackupTaskRequest =
  cbt_ResourceType :: string
  cbt_ResourceID :: string
  cbt_StorageType :: string
  cbt_FilePath :: string
  cbt_IdempotencyKey :: string

definition CreateBackupTask ::
  "taskService \<Rightarrow> CreateBackupTaskRequest \<Rightarrow> int option \<Rightarrow> string \<Rightarrow>
   (world, (BackupSummary \<times> CreateTaskResult) result) state" where
  "CreateBackupTask s req triggeredBy username = (
     case ts_backupService s of
       None \<Rightarrow> ret (Inl (internalError (Plain ''backup service is not configured'')))
     | Some bs \<Rightarrow> (
     case normalizeTaskIdempotencyKey (cbt_IdempotencyKey req) of
       Inl err \<Rightarrow> ret (Inl (badRequest err))
     | Inr idempotencyKey \<Rightarrow> do {
       made \<leftarrow> CreateMetadata bs \<lparr>cbm_ResourceType = cbt_ResourceType req,
                cbm_ResourceID = cbt_ResourceID req, cbm_StorageType = cbt_StorageType req,
                cbm_FilePath = cbt_FilePath req\<rparr> triggeredBy;
       case made of Inl err \<Rightarrow> ret (Inl err)
       | Inr backup \<Rightarrow> do {
         r \<leftarrow> createAndRunTask s TaskTypeBackupCreate
           (empty_payload\<lparr>pl_Operation := taskOperationBackupCreate, pl_BackupID := sum_ID backup,
             pl_ResourceType := sum_ResourceType backup, pl_ResourceID := sum_ResourceID backup,
             pl_StorageType := sum_StorageType backup, pl_FilePath := sum_FilePath backup\<rparr>)
           triggeredBy username idempotencyKey;
         case r of
           Inl err \<Rightarrow> do {
             _ \<leftarrow> MarkStatus bs (sum_ID backup) BackupStatusFailed;
             ret (Inl err)
           }
         | Inr task \<Rightarrow> ret (Inr (backup, task))
       }}))"

record CreateBackupVerifyTaskRequest =
  cbv_SizeBytes :: int
  cbv_Checksum :: string
  cbv_FilePath :: string
  cbv_IdempotencyKey :: string

definition CreateBackupVerifyTask ::
  "taskService \<Rightarrow> int \<Rightarrow> CreateBackupVerifyTaskRequest \<Rightarrow> int option \<Rightarrow> string \<Rightarrow>
   (world, CreateTaskResult result) state" where
  "CreateBackupVerifyTask s backupID req triggeredBy username = (
     if backupID \<le> 0 then ret (Inl (badRequest (Plain ''backup id must be positive'')))
     else if ts_backupService s = None
     then ret (Inl (internalError (Plain ''backup service is not configured'')))
     else case normalizeTaskIdempotencyKey (cbv_IdempotencyKey req) of
       Inl err \<Rightarrow> ret (Inl (badRequest err))
     | Inr idempotencyKey \<Rightarrow>
         if hasManualVerification (cbv_SizeBytes req) (cbv_Checksum req) (cbv_FilePath req) \<and>
            (cbv_SizeBytes req \<le> 0 \<or> TrimSpace (cbv_Checksum req) = [])
         then ret (Inl (badRequest (Plain
           ''size_bytes and checksum are required when overriding artifact verification'')))
         else createAndRunTask s TaskTypeBackupVerify
           (empty_payload\<lparr>pl_Operation := taskOperationBackupVerify, pl_BackupID := backupID,
             pl_SizeBytes := cbv_SizeBytes req, pl_Checksum := cbv_Checksum req,
             pl_FilePath := cbv_FilePath req\<rparr>)
           triggeredBy username idempotencyKey)"

section \<open>Cancelling, retrying, reading\<close>

definition CancelTask :: "taskService \<Rightarrow> int \<Rightarrow> string \<Rightarrow> (world, unit result) state" where
  "CancelTask s i username = do {
     got \<leftarrow> taskRepo_GetByID i;
     case got of Inl err \<Rightarrow> ret (Inl (internalError err))
     | Inr None \<Rightarrow> ret (Inl ErrTaskNotFound)
     | Inr (Some task) \<Rightarrow>
       if task_Status task \<in> {TaskStatusSuccess, TaskStatusFailed, TaskStatusCanceled}
       then ret (Inl (badRequest (Plain (''task is already terminal with status '' @ [CHR 0x27] @
              task_Status task @ [CHR 0x27]))))
       else do {
         r \<leftarrow> taskRepo_UpdateStatus i TaskStatusCanceled (task_Progress task) ''canceled by operator'';
         case r of Inl err \<Rightarrow> ret (Inl (internalError err))
         | Inr _ \<Rightarrow> do {
           appendTaskLog i ''warn'' ''task canceled''
             (marshalTaskMetadata (ts_lib s) [(''actor'', JStr username)]);
           ret (Inr ())
         }}}"

definition RetryTask ::
  "taskService \<Rightarrow> int \<Rightarrow> int option \<Rightarrow> string \<Rightarrow> (world, CreateTaskResult result) state" where
  "RetryTask s i triggeredBy username = do {
     got \<leftarrow> taskRepo_GetByID i;
     case got of Inl err \<Rightarrow> ret (Inl (internalError err))
     | Inr None \<Rightarrow> ret (Inl ErrTaskNotFound)
     | Inr (Some task) \<Rightarrow>
       if task_Status task \<noteq> TaskStatusFailed \<and> task_Status task \<noteq> TaskStatusCanceled
       then ret (Inl (badRequest (Plain ''only failed or canceled tasks can be retried'')))
       else case unmarshalTaskPayload (task_Payload task) of
         Inl payloadErr \<Rightarrow> ret (Inl (badRequest payloadErr))
       | Inr payload \<Rightarrow> do {
           r \<leftarrow> createAndRunTask s (task_Type task) payload triggeredBy username None;
           case r of Inl err \<Rightarrow> ret (Inl err)
           | Inr result \<Rightarrow> do {
             appendTaskLog (task_ID task) ''info'' ''task retried''
               (marshalTaskMetadata (ts_lib s) [(''actor'', JStr username),
                 (''retry_task_id'', JNum (ctr_ID result))]);
             ret (Inr result)
           }}}"

record ListTasksQuery =
  ltq_Page :: int
  ltq_Size :: int
  ltq_Status :: string
  ltq_Type :: string

record ListTasksResult =
  ltr_Page :: int
  ltr_Size :: int
  ltr_Total :: int
  ltr_Items :: "TaskSummary list"

definition ListTasks :: "taskService \<Rightarrow> ListTasksQuery \<Rightarrow> (world, ListTasksResult result) state" where
  "ListTasks s query = (
     let page = (if ltq_Page query \<le> 0 then 1 else ltq_Page query);
         sz = (if ltq_Size query \<le> 0 then 20 else ltq_Size query)
     in do {
       r \<leftarrow> taskRepo_List \<lparr>tlf_Page = page, tlf_Size = sz, tlf_Status = ltq_Status query,
              tlf_Type = ltq_Type query\<rparr>;
       case r of Inl err \<Rightarrow> ret (Inl (internalError err))
       | Inr (items, ttl) \<Rightarrow> ret (Inr \<lparr>ltr_Page = page, ltr_Size = sz, ltr_Total = ttl,
           ltr_Items = map mapTaskSummary items\<rparr>)
     })"

record TaskLogItem =
  tli_ID :: int
  tli_Level :: string
  tli_Message :: string
  tli_Metadata :: json
  tli_CreatedAt :: rfc3339

record TaskDetail =
  td_Summary :: TaskSummary
  td_Logs :: "TaskLogItem list"

definition GetTaskDetail :: "taskService \<Rightarrow> int \<Rightarrow> (world, TaskDetail result) state" where
  "GetTaskDetail s i = do {
     got \<leftarrow> taskRepo_GetByID i;
     case got of Inl err \<Rightarrow> ret (Inl (internalError err))
     | Inr None \<Rightarrow> ret (Inl ErrTaskNotFound)
     | Inr (Some task) \<Rightarrow> do {
       listed \<leftarrow> taskRepo_ListLogs i 200;
       case listed of Inl err \<Rightarrow> ret (Inl (internalError err))
       | Inr logs \<Rightarrow> ret (Inr \<lparr>td_Summary = mapTaskSummary task,
           td_Logs = map (\<lambda>log. \<lparr>tli_ID = log_ID log, tli_Level = log_Level log,
             tli_Message = log_Message log, tli_Metadata = log_Metadata log,
             tli_CreatedAt = FormatRFC3339 (log_CreatedAt log)\<rparr>) logs\<rparr>)
     }}"

end
