(* ===== verification/TaskWorker.thy ===== *)
theory TaskWorker
  imports TaskService
begin

text \<open>
  \<^verbatim>\<open>internal/service/task_service.go\<close>: the execution of tasks, in process (\<^verbatim>\<open>runTask\<close>) and
  by the polling worker (\<^verbatim>\<open>RunWorker\<close>, \<^verbatim>\<open>claimAvailableTasks\<close>, \<^verbatim>\<open>runClaimedTask\<close>).
\<close>

section \<open>Status and progress\<close>

definition isCanceled :: "int \<Rightarrow> (world, bool) state" where
  "isCanceled taskID = do {
     got \<leftarrow> taskRepo_GetByID taskID;
     ret (case got of Inr (Some task) \<Rightarrow> task_Status task = TaskStatusCanceled | _ \<Rightarrow> False)
   }"

definition setRunningProgress :: "int \<Rightarrow> int \<Rightarrow> (world, bool) state" where
  "setRunningProgress taskID progress = do {
     canceled \<leftarrow> isCanceled taskID;
     if canceled then ret False
     else do {
       r \<leftarrow> taskRepo_UpdateStatus taskID TaskStatusRunning progress [];
       ret (case r of Inl _ \<Rightarrow> False | Inr _ \<Rightarrow> True)
     }}"

definition put_all :: "(string \<times> json) list \<Rightarrow> (string \<times> json) list \<Rightarrow> (string \<times> json) list" where
  "put_all metadata data = fold (\<lambda>(k, v). map_put k v) metadata data"

definition markTaskFailed ::
  "taskService \<Rightarrow> int \<Rightarrow> go_error \<Rightarrow> (string \<times> json) list \<Rightarrow> (world, unit) state" where
  "markTaskFailed s taskID err metadata = do {
     canceled \<leftarrow> isCanceled taskID;
     if canceled
     then appendTaskLog taskID ''warn'' ''task canceled while operation was running'' (JObj [])
     else do {
       _ \<leftarrow> taskRepo_UpdateStatus taskID TaskStatusFailed 100 (Error err);
       appendTaskLog taskID ''error'' ''task failed''
         (marshalTaskMetadata (ts_lib s) (put_all metadata [(''error'', JStr (Error err))]))
     }}"

section \<open>Operations\<close>

text \<open>Calls through the two agent-backed interfaces; a nil interface panics.\<close>

definition docker_restart ::
  "taskService \<Rightarrow> string \<Rightarrow> (world, DockerContainerActionResult result outcome) state" where
  "docker_restart s cid = (case ts_dockerService s of None \<Rightarrow> ret Panic
     | Some c \<Rightarrow> do { r \<leftarrow> RestartContainer c cid; ret (Done r) })"

definition service_restart ::
  "taskService \<Rightarrow> string \<Rightarrow> (world, ServiceActionResult result outcome) state" where
  "service_restart s name = (case ts_serviceManager s of None \<Rightarrow> ret Panic
     | Some c \<Rightarrow> do { r \<leftarrow> RestartService c name; ret (Done r) })"

definition executeBackupCreate ::
  "taskService \<Rightarrow> int \<Rightarrow> taskPayload \<Rightarrow> string \<Rightarrow> (world, unit result) state" where
  "executeBackupCreate s taskID payload workerID = (
     case ts_backupService s of
       None \<Rightarrow> ret (Inl (NonRetryable (Plain ''backup service is not configured'')))
     | Some bs \<Rightarrow> do {
       ok \<leftarrow> setRunningProgress taskID 30;
       if \<not> ok then ret (Inl (Plain ''task canceled before backup artifact creation''))
       else do {
         appendTaskLog taskID ''info'' ''creating backup artifact''
           (marshalTaskMetadata (ts_lib s) [(''backup_id'', JNum (pl_BackupID payload)),
             (''resource_type'', JStr (pl_ResourceType payload)),
             (''resource_id'', JStr (pl_ResourceID payload)), (''progress'', JNum 30),
             (''worker_id'', JStr workerID)]);
         r \<leftarrow> CreateArtifact bs (pl_BackupID payload);
         case r of Inl err \<Rightarrow> ret (Inl err)
         | Inr backup \<Rightarrow> do {
           ok2 \<leftarrow> setRunningProgress taskID 85;
           if \<not> ok2 then ret (Inl (Plain ''task canceled after backup artifact creation''))
           else do {
             appendTaskLog taskID ''info'' ''backup artifact created''
               (marshalTaskMetadata (ts_lib s) [(''backup_id'', JNum (sum_ID backup)),
                 (''file_path'', JStr (sum_FilePath backup)),
                 (''size_bytes'', JNum (sum_SizeBytes backup)),
                 (''checksum'', JStr (sum_Checksum backup)),
                 (''status'', JStr BackupStatusSuccess), (''progress'', JNum 85),
                 (''worker_id'', JStr workerID)]);
             ret (Inr ())
           }}}})"

definition executeBackupVerify ::
  "taskService \<Rightarrow> int \<Rightarrow> taskPayload \<Rightarrow> string \<Rightarrow> (world, unit result) state" where
  "executeBackupVerify s taskID payload workerID = (
     case ts_backupService s of
       None \<Rightarrow> ret (Inl (NonRetryable (Plain ''backup service is not configured'')))
     | Some bs \<Rightarrow> do {
       ok \<leftarrow> setRunningProgress taskID 30;
       if \<not> ok then ret (Inl (Plain ''task canceled before backup verification''))
       else do {
         r \<leftarrow> (if hasManualVerification (pl_SizeBytes payload) (pl_Checksum payload) (pl_FilePath payload)
               then Verify bs (pl_BackupID payload) \<lparr>vbr_SizeBytes = pl_SizeBytes payload,
                      vbr_Checksum = pl_Checksum payload, vbr_FilePath = pl_FilePath payload\<rparr>
               else VerifyArtifact bs (pl_BackupID payload));
         case r of Inl err \<Rightarrow> ret (Inl err)
         | Inr backup \<Rightarrow> do {
           ok2 \<leftarrow> setRunningProgress taskID 85;
           if \<not> ok2 then ret (Inl (Plain ''task canceled after backup verification''))
           else do {
             appendTaskLog taskID ''info'' ''backup metadata verified''
               (marshalTaskMetadata (ts_lib s) [(''backup_id'', JNum (sum_ID backup)),
                 (''file_path'', JStr (sum_FilePath backup)),
                 (''size_bytes'', JNum (sum_SizeBytes backup)),
                 (''checksum'', JStr (sum_Checksum backup)), (''progress'', JNum 85),
                 (''worker_id'', JStr workerID)]);
             ret (Inr ())
           }}}})"

definition executeTaskOperation ::
  "taskService \<Rightarrow> int \<Rightarrow> taskPayload \<Rightarrow> string \<Rightarrow> (world, unit result outcome) state" where
  "executeTaskOperation s taskID payload workerID = (
     if pl_Operation payload = taskOperationDockerRestart then do {
       ok \<leftarrow> setRunningProgress taskID 30;
       if \<not> ok then ret (Done (Inl (Plain ''task canceled before docker restart'')))
       else do {
         appendTaskLog taskID ''info'' ''restarting docker container''
           (marshalTaskMetadata (ts_lib s) [(''container_id'', JStr (pl_ContainerID payload)),
             (''progress'', JNum 30)]);
         called \<leftarrow> docker_restart s (pl_ContainerID payload);
         case called of Panic \<Rightarrow> ret Panic
         | Done (Inl err) \<Rightarrow> ret (Done (Inl err))
         | Done (Inr result) \<Rightarrow> do {
           ok2 \<leftarrow> setRunningProgress taskID 85;
           if \<not> ok2 then ret (Done (Inl (Plain ''task canceled after docker restart'')))
           else do {
             appendTaskLog taskID ''info'' ''docker container restarted''
               (marshalTaskMetadata (ts_lib s) [(''container_id'', JStr (dca_ID result)),
                 (''state'', JStr (dca_State result)), (''progress'', JNum 85)]);
             ret (Done (Inr ()))
           }}}}
     else if pl_Operation payload = taskOperationServiceRestart then do {
       ok \<leftarrow> setRunningProgress taskID 30;
       if \<not> ok then ret (Done (Inl (Plain ''task canceled before service restart'')))
       else do {
         appendTaskLog taskID ''info'' ''restarting system service''
           (marshalTaskMetadata (ts_lib s) [(''service_name'', JStr (pl_ServiceName payload)),
             (''progress'', JNum 30)]);
         called \<leftarrow> service_restart s (pl_ServiceName payload);
         case called of Panic \<Rightarrow> ret Panic
         | Done (Inl err) \<Rightarrow> ret (Done (Inl err))
         | Done (Inr result) \<Rightarrow> do {
           ok2 \<leftarrow> setRunningProgress taskID 85;
           if \<not> ok2 then ret (Done (Inl (Plain ''task canceled after service restart'')))
           else do {
             appendTaskLog taskID ''info'' ''system service restarted''
               (marshalTaskMetadata (ts_lib s) [(''service_name'', JStr (sa_Name result)),
                 (''status'', JStr (sa_Status result)), (''progress'', JNum 85)]);
             ret (Done (Inr ()))
           }}}}
     else if pl_Operation payload = taskOperationBackupCreate then do {
       r \<leftarrow> executeBackupCreate s taskID payload workerID;
       ret (Done r)
     }
     else if pl_Operation payload = taskOperationBackupVerify then do {
       r \<leftarrow> executeBackupVerify s taskID payload workerID;
       ret (Done r)
     }
     else ret (Done (Inl (NonRetryable (Plain ''unsupported task operation'')))))"

section \<open>In-process execution\<close>

text \<open>
  The operation part of \<^verbatim>\<open>runTask\<close>. It differs from \<^verbatim>\<open>executeTaskOperation\<close> in what it does
  on the way out: a cancellation is logged and ends the run, an error goes to
  \<^verbatim>\<open>markTaskFailed\<close> with the metadata of the branch. \<open>Done True\<close> means that the run goes on.
\<close>

definition runTask_operation ::
  "taskService \<Rightarrow> int \<Rightarrow> taskPayload \<Rightarrow> (world, bool outcome) state" where
  "runTask_operation s taskID payload = (
     if pl_Operation payload = taskOperationDockerRestart then do {
       ok \<leftarrow> setRunningProgress taskID 30;
       if \<not> ok then do {
         appendTaskLog taskID ''warn'' ''task canceled before docker restart'' (JObj []);
         ret (Done False)
       } else do {
         appendTaskLog taskID ''info'' ''restarting docker container''
           (marshalTaskMetadata (ts_lib s) [(''container_id'', JStr (pl_ContainerID payload)),
             (''progress'', JNum 30)]);
         called \<leftarrow> docker_restart s (pl_ContainerID payload);
         case called of Panic \<Rightarrow> ret Panic
         | Done (Inl err) \<Rightarrow> do {
             markTaskFailed s taskID err [(''operation'', JStr (pl_Operation payload)),
               (''container_id'', JStr (pl_ContainerID payload))];
             ret (Done False)
           }
         | Done (Inr result) \<Rightarrow> do {
           ok2 \<leftarrow> setRunningProgress taskID 85;
           if \<not> ok2 then do {
             appendTaskLog taskID ''warn'' ''task canceled after docker restart'' (JObj []);
             ret (Done False)
           } else do {
             appendTaskLog taskID ''info'' ''docker container restarted''
               (marshalTaskMetadata (ts_lib s) [(''container_id'', JStr (dca_ID result)),
                 (''state'', JStr (dca_State result)), (''progress'', JNum 85)]);
             ret (Done True)
           }}}}
     else if pl_Operation payload = taskOperationServiceRestart then do {
       ok \<leftarrow> setRunningProgress taskID 30;
       if \<not> ok then do {
         appendTaskLog taskID ''warn'' ''task canceled before service restart'' (JObj []);
         ret (Done False)
       } else do {
         appendTaskLog taskID ''info'' ''restarting system service''
           (marshalTaskMetadata (ts_lib s) [(''service_name'', JStr (pl_ServiceName payload)),
             (''progress'', JNum 30)]);
         called \<leftarrow> service_restart s (pl_ServiceName payload);
         case called of Panic \<Rightarrow> ret Panic
         | Done (Inl err) \<Rightarrow> do {
             markTaskFailed s taskID err [(''operation'', JStr (pl_Operation payload)),
               (''service_name'', JStr (pl_ServiceName payload))];
             ret (Done False)
           }
         | Done (Inr result) \<Rightarrow> do {
           ok2 \<leftarrow> setRunningProgress taskID 85;
           if \<not> ok2 then do {
             appendTaskLog taskID ''warn'' ''task canceled after service restart'' (JObj []);
             ret (Done False)
           } else do {
             appendTaskLog taskID ''info'' ''system service restarted''
               (marshalTaskMetadata (ts_lib s) [(''service_name'', JStr (sa_Name result)),
                 (''status'', JStr (sa_Status result)), (''progress'', JNum 85)]);
             ret (Done True)
           }}}}
     else if pl_Operation payload = taskOperationBackupCreate then do {
       r \<leftarrow> executeBackupCreate s taskID payload [];
       case r of Inl err \<Rightarrow> do {
           markTaskFailed s taskID err [(''operation'', JStr (pl_Operation payload)),
             (''backup_id'', JNum (pl_BackupID payload))];
           ret (Done False)
         }
       | Inr _ \<Rightarrow> ret (Done True)
     }
     else if pl_Operation payload = taskOperationBackupVerify then do {
       r \<leftarrow> executeBackupVerify s taskID payload [];
       case r of Inl err \<Rightarrow> do {
           markTaskFailed s taskID err [(''operation'', JStr (pl_Operation payload)),
             (''backup_id'', JNum (pl_BackupID payload))];
           ret (Done False)
         }
       | Inr _ \<Rightarrow> ret (Done True)
     }
     else do {
       markTaskFailed s taskID (Plain ''unsupported task operation'')
         [(''operation'', JStr (pl_Operation payload))];
       ret (Done False)
     })"

definition runTask :: "taskService \<Rightarrow> int \<Rightarrow> taskPayload \<Rightarrow> (world, unit outcome) state" where
  "runTask s taskID payload = do {
     c1 \<leftarrow> isCanceled taskID;
     if c1 then do {
       appendTaskLog taskID ''warn'' ''task canceled before execution'' (JObj []);
       ret (Done ())
     } else do {
       ok \<leftarrow> setRunningProgress taskID 5;
       if \<not> ok then ret (Done ())
       else do {
         appendTaskLog taskID ''info'' ''task execution started''
           (marshalTaskMetadata (ts_lib s) [(''operation'', JStr (pl_Operation payload)),
             (''progress'', JNum 5)]);
         c2 \<leftarrow> isCanceled taskID;
         if c2 then do {
           appendTaskLog taskID ''warn'' ''task canceled before operation'' (JObj []);
           ret (Done ())
         } else do {
           going \<leftarrow> runTask_operation s taskID payload;
           case going of Panic \<Rightarrow> ret Panic
           | Done False \<Rightarrow> ret (Done ())
           | Done True \<Rightarrow> do {
             c3 \<leftarrow> isCanceled taskID;
             if c3 then do {
               appendTaskLog taskID ''warn'' ''task canceled after operation'' (JObj []);
               ret (Done ())
             } else do {
               _ \<leftarrow> taskRepo_UpdateStatus taskID TaskStatusSuccess 100 [];
               appendTaskLog taskID ''info'' ''task completed''
                 (marshalTaskMetadata (ts_lib s) [(''operation'', JStr (pl_Operation payload)),
                   (''status'', JStr TaskStatusSuccess), (''progress'', JNum 100)]);
               ret (Done ())
             }}}}}}"

section \<open>The worker\<close>

text \<open>Observations go through \<^verbatim>\<open>*metrics.Set\<close>, whose methods do nothing on a nil receiver.\<close>

definition observe_if :: "taskService \<Rightarrow> metric \<Rightarrow> (world, unit) state" where
  "observe_if s m = (if ts_metrics s then observe m else ret ())"

definition refreshTaskGauges :: "taskService \<Rightarrow> (world, unit) state" where
  "refreshTaskGauges s = (
     if \<not> ts_metrics s then ret ()
     else do {
       pending \<leftarrow> taskRepo_CountByStatus TaskStatusPending;
       _ \<leftarrow> (case pending of Inl _ \<Rightarrow> ret () | Inr n \<Rightarrow> observe (TaskQueueDepth n));
       running \<leftarrow> taskRepo_CountByStatus TaskStatusRunning;
       (case running of Inl _ \<Rightarrow> ret () | Inr n \<Rightarrow> observe (TasksRunning n))
     })"

definition failClaimedTask ::
  "taskService \<Rightarrow> Task \<Rightarrow> string \<Rightarrow> go_error \<Rightarrow> (string \<times> json) list \<Rightarrow> (world, unit) state" where
  "failClaimedTask s task workerID err metadata = do {
     canceled \<leftarrow> isCanceled (task_ID task);
     if canceled
     then appendTaskLog (task_ID task) ''warn'' ''task canceled while operation was running''
            (marshalTaskMetadata (ts_lib s) [(''worker_id'', JStr workerID)])
     else do {
       now \<leftarrow> Now;
       (let retryable = (\<not> asNonRetryable err \<and> isRetryableTaskError err);
            nextRunAt = nextTaskRetryAt now (task_Attempt task) (task_MaxAttempts task) retryable;
            data = [(''attempt'', JNum (task_Attempt task)), (''error'', JStr (Error err)),
              (''max_attempts'', JNum (task_MaxAttempts task)), (''retryable'', JBool retryable),
              (''worker_id'', JStr workerID)];
            data' = (case nextRunAt of None \<Rightarrow> data
              | Some n \<Rightarrow> map_put ''next_run_at'' (JStr (ts_timeText s (FormatRFC3339 n))) data);
            message = (if nextRunAt \<noteq> None then ''task failed; retry scheduled'' else ''task failed'')
        in do {
          _ \<leftarrow> taskRepo_FailTask (task_ID task) workerID (Error err) nextRunAt;
          _ \<leftarrow> (if nextRunAt = None then do {
                  done \<leftarrow> Now;
                  observe_if s (TaskCompleted (task_Type task) TaskStatusFailed
                    (done - task_CreatedAt task))
                } else ret ());
          appendTaskLog (task_ID task) ''error'' message
            (marshalTaskMetadata (ts_lib s) (put_all metadata data'))
        })
     }}"

definition runClaimedTask ::
  "taskService \<Rightarrow> string \<Rightarrow> Task \<Rightarrow> (world, unit outcome) state" where
  "runClaimedTask s workerID task = (
     case unmarshalTaskPayload (task_Payload task) of
       Inl err \<Rightarrow> do {
         failClaimedTask s task workerID (NonRetryable err)
           [(''payload'', JStr (ts_jsonText s (task_Payload task)))];
         ret (Done ())
       }
     | Inr payload \<Rightarrow> do {
       appendTaskLog (task_ID task) ''info'' ''task claimed by worker''
         (marshalTaskMetadata (ts_lib s) [(''worker_id'', JStr workerID),
           (''attempt'', JNum (task_Attempt task))]);
       c1 \<leftarrow> isCanceled (task_ID task);
       if c1 then do {
         appendTaskLog (task_ID task) ''warn'' ''task canceled before worker execution'' (JObj []);
         ret (Done ())
       } else do {
         ok \<leftarrow> setRunningProgress (task_ID task) 5;
         if \<not> ok then ret (Done ())
         else do {
           appendTaskLog (task_ID task) ''info'' ''task execution started''
             (marshalTaskMetadata (ts_lib s) [(''operation'', JStr (pl_Operation payload)),
               (''progress'', JNum 5), (''worker_id'', JStr workerID)]);
           executed \<leftarrow> executeTaskOperation s (task_ID task) payload workerID;
           case executed of Panic \<Rightarrow> ret Panic
           | Done (Inl err) \<Rightarrow> do {
               failClaimedTask s task workerID err [(''operation'', JStr (pl_Operation payload))];
               ret (Done ())
             }
           | Done (Inr _) \<Rightarrow> do {
             c2 \<leftarrow> isCanceled (task_ID task);
             if c2 then do {
               appendTaskLog (task_ID task) ''warn'' ''task canceled after operation'' (JObj []);
               ret (Done ())
             } else do {
               _ \<leftarrow> taskRepo_CompleteTask (task_ID task) workerID (JObj []);
               done \<leftarrow> Now;
               observe_if s (TaskCompleted (task_Type task) TaskStatusSuccess
                 (done - task_CreatedAt task));
               appendTaskLog (task_ID task) ''info'' ''task completed''
                 (marshalTaskMetadata (ts_lib s) [(''operation'', JStr (pl_Operation payload)),
                   (''status'', JStr TaskStatusSuccess), (''progress'', JNum 100),
                   (''worker_id'', JStr workerID)]);
               ret (Done ())
             }}}}})"

text \<open>
  The heartbeat goroutine, with the number of ticks it sees before its context is cancelled.
  It runs beside \<open>runClaimedTask\<close>, as interference on the table.
\<close>

primrec startTaskHeartbeat :: "nat \<Rightarrow> int \<Rightarrow> string \<Rightarrow> duration \<Rightarrow> (world, unit) state" where
  "startTaskHeartbeat 0 taskID workerID leaseDuration = ret ()"
| "startTaskHeartbeat (Suc n) taskID workerID leaseDuration = do {
     _ \<leftarrow> taskRepo_HeartbeatTask taskID workerID leaseDuration;
     startTaskHeartbeat n taskID workerID leaseDuration
   }"

text \<open>
  \<^verbatim>\<open>claimAvailableTasks\<close>. The channel \<^verbatim>\<open>workers\<close> holds one token for every task in execution;
  \<open>inUse\<close> is its length. \<open>freed\<close> says how many tokens the goroutines give back before each
  turn of the loop (none once the list is exhausted). The result is the list of tasks whose
  goroutines were started, and the length of the channel.
\<close>

function claimAvailableTasks ::
  "taskService \<Rightarrow> TaskWorkerOptions \<Rightarrow> nat list \<Rightarrow> nat \<Rightarrow> (world, Task list \<times> nat) state" where
  "claimAvailableTasks s opts freed inUse = (
     let held = inUse - (case freed of [] \<Rightarrow> 0 | n # _ \<Rightarrow> n)
     in if \<not> held < nat (wo_Concurrency opts) then ret ([], held)
        else do {
          claimed \<leftarrow> taskRepo_ClaimNextTask (wo_WorkerID opts) (wo_LeaseDuration opts);
          case claimed of
            Inl err \<Rightarrow> do { observe_if s (TaskWorkerClaim ''error''); ret ([], held) }
          | Inr None \<Rightarrow> do { observe_if s (TaskWorkerClaim ''empty''); ret ([], held) }
          | Inr (Some task) \<Rightarrow> do {
              observe_if s (TaskWorkerClaim ''success'');
              more \<leftarrow> claimAvailableTasks s opts (tl freed) (held + 1);
              ret (task # fst more, snd more)
            }
        })"
  by pat_completeness auto

termination
proof (relation "measures [\<lambda>(s, opts, freed, inUse). length freed,
    \<lambda>(s, opts, freed, inUse). nat (wo_Concurrency opts) - inUse]")
qed (auto split: list.splits)

declare claimAvailableTasks.simps [simp del]

text \<open>
  \<^verbatim>\<open>RunWorker\<close>: one element of \<open>turns\<close> per turn of the polling loop before the context is
  cancelled, with the releases seen by the claiming loop of that turn. The result is every
  task started.
\<close>

definition worker_turn ::
  "taskService \<Rightarrow> TaskWorkerOptions \<Rightarrow> nat list \<Rightarrow> nat \<Rightarrow> (world, Task list \<times> nat) state" where
  "worker_turn s opts freed inUse = do {
     now \<leftarrow> Now;
     _ \<leftarrow> taskRepo_ReleaseStaleTasks now;
     refreshTaskGauges s;
     claimAvailableTasks s opts freed inUse
   }"

primrec worker_loop ::
  "taskService \<Rightarrow> TaskWorkerOptions \<Rightarrow> nat list list \<Rightarrow> nat \<Rightarrow> (world, Task list) state" where
  "worker_loop s opts [] inUse = ret []"
| "worker_loop s opts (freed # turns) inUse = do {
     r \<leftarrow> worker_turn s opts freed inUse;
     rest \<leftarrow> worker_loop s opts turns (snd r);
     ret (fst r @ rest)
   }"

definition RunWorker ::
  "taskService \<Rightarrow> string \<Rightarrow> int \<Rightarrow> TaskWorkerOptions \<Rightarrow> nat list list \<Rightarrow> (world, Task list) state" where
  "RunWorker s hostname pid options turns =
     worker_loop s (normalizeTaskWorkerOptions hostname pid options) turns 0"

end
