(* ===== verification/TaskFrame.thy ===== *)
theory TaskFrame
  imports TaskWorker
begin

text \<open>
  What the task service does to the world, for any interleaving. The interface
  \<open>task_frame\<close> lists the calls the service makes (with what it guarantees about their
  arguments: rows are created fresh, statuses are never set back to pending, log metadata is
  redacted); every operation of the service and of the worker then keeps whatever those calls
  keep. It is interpreted for the protocol of the task table, for the backup table and for the
  task log.
\<close>

lemma keeps_case_outcome:
  "\<lbrakk>x = Panic \<Longrightarrow> keeps R m; \<And>y. x = Done y \<Longrightarrow> keeps R (f y)\<rbrakk> \<Longrightarrow> keeps R (case_outcome m f x)"
  by (cases x) auto

lemma keeps_case_bool: "\<lbrakk>b \<Longrightarrow> keeps R m; \<not> b \<Longrightarrow> keeps R n\<rbrakk> \<Longrightarrow> keeps R (case_bool m n b)"
  by (cases b) auto

text \<open>The entry points of the service and of the worker, and a run of any sequence of them.\<close>

datatype task_op =
    OpCreateDockerRestart CreateDockerRestartTaskRequest "int option" string
  | OpCreateServiceRestart CreateServiceRestartTaskRequest "int option" string
  | OpCreateBackup CreateBackupTaskRequest "int option" string
  | OpCreateBackupVerify int CreateBackupVerifyTaskRequest "int option" string
  | OpCancel int string
  | OpRetry int "int option" string
  | OpList ListTasksQuery
  | OpDetail int
  | OpRunTask int taskPayload
  | OpRunClaimed string Task
  | OpHeartbeat nat int string duration
  | OpRunWorker string int TaskWorkerOptions "nat list list"

fun run_op :: "taskService \<Rightarrow> task_op \<Rightarrow> (world, unit) state" where
  "run_op s (OpCreateDockerRestart req u n) = do { _ \<leftarrow> CreateDockerRestartTask s req u n; ret () }"
| "run_op s (OpCreateServiceRestart req u n) = do { _ \<leftarrow> CreateServiceRestartTask s req u n; ret () }"
| "run_op s (OpCreateBackup req u n) = do { _ \<leftarrow> CreateBackupTask s req u n; ret () }"
| "run_op s (OpCreateBackupVerify i req u n) = do { _ \<leftarrow> CreateBackupVerifyTask s i req u n; ret () }"
| "run_op s (OpCancel i n) = do { _ \<leftarrow> CancelTask s i n; ret () }"
| "run_op s (OpRetry i u n) = do { _ \<leftarrow> RetryTask s i u n; ret () }"
| "run_op s (OpList q) = do { _ \<leftarrow> ListTasks s q; ret () }"
| "run_op s (OpDetail i) = do { _ \<leftarrow> GetTaskDetail s i; ret () }"
| "run_op s (OpRunTask i p) = do { _ \<leftarrow> runTask s i p; ret () }"
| "run_op s (OpRunClaimed wid task) = do { _ \<leftarrow> runClaimedTask s wid task; ret () }"
| "run_op s (OpHeartbeat n i wid lease) = startTaskHeartbeat n i wid lease"
| "run_op s (OpRunWorker host pid opts turns) = do { _ \<leftarrow> RunWorker s host pid opts turns; ret () }"

primrec run_ops :: "taskService \<Rightarrow> task_op list \<Rightarrow> (world, unit) state" where
  "run_ops s [] = ret ()"
| "run_ops s (x # xs) = do { run_op s x; run_ops s xs }"

definition unclaimed :: "Task \<Rightarrow> bool" where
  "unclaimed r = (task_Status r = ''pending'' \<and> task_Progress r = 0 \<and> task_Attempt r = 0 \<and>
     task_LockedBy r = None \<and> task_LockedUntil r = None)"

lemma unclaimed_new_task: "unclaimed (new_task s ty p by key)"
  by (simp add: unclaimed_def new_task_def TaskStatusPending_def)

locale task_frame = backup_frame R for R :: "world \<Rightarrow> world \<Rightarrow> bool" +
  fixes uni :: "string \<Rightarrow> string"
  assumes task_reads: "keeps R (taskRepo_GetByID i)" "keeps R (taskRepo_GetByIdempotencyKey k)"
      "keeps R (taskRepo_List tf)" "keeps R (taskRepo_ListLogs i n)"
      "keeps R (taskRepo_CountByStatus st)"
    and task_create: "unclaimed task \<Longrightarrow> keeps R (taskRepo_Create task)"
    and task_claim: "keeps R (taskRepo_ClaimNextTask wid lease)"
    and task_heartbeat: "keeps R (taskRepo_HeartbeatTask i wid lease)"
    and task_complete: "keeps R (taskRepo_CompleteTask i wid res)"
    and task_fail: "keeps R (taskRepo_FailTask i wid msg next)"
    and task_release: "keeps R (taskRepo_ReleaseStaleTasks t)"
    and task_status: "st \<in> {''running'', ''success'', ''failed'', ''canceled''} \<Longrightarrow>
      keeps R (taskRepo_UpdateStatus i st progress msg)"
    and task_log: "masked uni (log_Metadata log) \<Longrightarrow> keeps R (taskRepo_AppendLog log)"
    and effects: "keeps R (observe m)" "keeps R (spawn i p)"
    and agent: "keeps R (RestartContainer c name)" "keeps R (RestartService c name)"
begin

lemma append_log: "masked uni meta \<Longrightarrow> keeps R (appendTaskLog i level msg meta)"
  unfolding appendTaskLog_def by (intro monad_rules task_log) simp

lemma append_metadata:
  "lower_uni lib = uni \<Longrightarrow> keeps R (appendTaskLog i level msg (marshalTaskMetadata lib data))"
  using masked_metadata [of lib data] by (simp add: append_log)

lemma append_empty: "keeps R (appendTaskLog i level msg (JObj []))"
  by (simp add: append_log)

lemma set_status:
  "keeps R (taskRepo_UpdateStatus i TaskStatusRunning p msg)"
  "keeps R (taskRepo_UpdateStatus i TaskStatusSuccess p msg)"
  "keeps R (taskRepo_UpdateStatus i TaskStatusFailed p msg)"
  "keeps R (taskRepo_UpdateStatus i TaskStatusCanceled p msg)"
  by (simp_all add: task_status task_status_defs)

lemmas task_rules = rules service keeps_case_outcome keeps_case_bool task_reads task_claim
  task_heartbeat task_complete task_fail task_release effects agent append_empty set_status
  task_create [OF unclaimed_new_task]

lemma create_and_run:
  "lower_uni (ts_lib s) = uni \<Longrightarrow> keeps R (createAndRunTask s ty p by un key)"
  unfolding createAndRunTask_def find_existing_def by (intro task_rules append_metadata)

lemma api:
  assumes "lower_uni (ts_lib s) = uni"
  shows "keeps R (CreateDockerRestartTask s dreq by un)"
    "keeps R (CreateServiceRestartTask s sreq by un)"
    "keeps R (CreateBackupTask s breq by un)"
    "keeps R (CreateBackupVerifyTask s i vreq by un)"
    "keeps R (CancelTask s i un)" "keeps R (RetryTask s i by un)"
    "keeps R (ListTasks s q)" "keeps R (GetTaskDetail s i)"
  unfolding CreateDockerRestartTask_def CreateServiceRestartTask_def CreateBackupTask_def
    CreateBackupVerifyTask_def CancelTask_def RetryTask_def ListTasks_def GetTaskDetail_def Let_def
  by (intro task_rules create_and_run append_metadata assms)+

lemma canceled: "keeps R (isCanceled i)"
  unfolding isCanceled_def by (intro task_rules)

lemma progress: "keeps R (setRunningProgress i p)"
  unfolding setRunningProgress_def by (intro task_rules canceled)

lemma mark_failed: "lower_uni (ts_lib s) = uni \<Longrightarrow> keeps R (markTaskFailed s i err meta)"
  unfolding markTaskFailed_def by (intro task_rules canceled append_metadata)

lemma fail_claimed: "lower_uni (ts_lib s) = uni \<Longrightarrow> keeps R (failClaimedTask s task wid err meta)"
  unfolding failClaimedTask_def observe_if_def Let_def
  by (intro task_rules canceled append_metadata)

lemma restarts: "keeps R (docker_restart s n)" "keeps R (service_restart s n)"
  unfolding docker_restart_def service_restart_def by (intro task_rules)+

lemma backup_operations:
  assumes "lower_uni (ts_lib s) = uni"
  shows "keeps R (executeBackupCreate s i p wid)" "keeps R (executeBackupVerify s i p wid)"
  unfolding executeBackupCreate_def executeBackupVerify_def
  by (intro task_rules progress append_metadata assms)+

lemma operations:
  assumes "lower_uni (ts_lib s) = uni"
  shows "keeps R (executeTaskOperation s i p wid)" "keeps R (runTask_operation s i p)"
  unfolding executeTaskOperation_def runTask_operation_def
  by (intro task_rules progress append_metadata restarts backup_operations mark_failed assms)+

lemma run:
  assumes "lower_uni (ts_lib s) = uni"
  shows "keeps R (runTask s i p)" "keeps R (runClaimedTask s wid task)"
  unfolding runTask_def runClaimedTask_def observe_if_def
  by (intro task_rules canceled progress append_metadata operations fail_claimed assms)+

lemma heartbeat: "keeps R (startTaskHeartbeat n i wid lease)"
  by (induction n) (auto intro!: task_rules)

lemma claims: "keeps R (claimAvailableTasks s opts freed inUse)"
proof (induction s opts freed inUse rule: claimAvailableTasks.induct)
  case (1 s opts freed inUse)
  show ?case
    by (subst claimAvailableTasks.simps, unfold Let_def observe_if_def)
      (intro task_rules 1 [OF HOL.refl]; simp)
qed

lemma turn: "keeps R (worker_turn s opts freed inUse)"
  unfolding worker_turn_def refreshTaskGauges_def by (intro task_rules claims)

lemma worker: "keeps R (RunWorker s host pid opts turns)"
proof -
  have "keeps R (worker_loop s o' turns n)" for o' n
    by (induction turns arbitrary: n) (auto intro!: task_rules turn)
  then show ?thesis by (simp add: RunWorker_def)
qed

lemma any_op: "lower_uni (ts_lib s) = uni \<Longrightarrow> keeps R (run_op s x)"
  by (cases x) (auto intro!: task_rules api run heartbeat worker)

lemma any_ops: "lower_uni (ts_lib s) = uni \<Longrightarrow> keeps R (run_ops s xs)"
  by (induction xs) (auto intro!: task_rules any_op)

end

section \<open>Repository calls as steps\<close>

lemmas taskRepo_defs = taskRepo_Create_def taskRepo_ClaimNextTask_def taskRepo_HeartbeatTask_def
  taskRepo_CompleteTask_def taskRepo_FailTask_def taskRepo_ReleaseStaleTasks_def
  taskRepo_UpdateStatus_def taskRepo_CountByStatus_def taskRepo_GetByID_def
  taskRepo_GetByIdempotencyKey_def taskRepo_List_def taskRepo_AppendLog_def taskRepo_ListLogs_def
  dbquery_def

lemma keeps_taskRepo_reads:
  assumes "\<And>t. R t t"
  shows "keeps (steps R) (taskRepo_GetByID i)" "keeps (steps R) (taskRepo_GetByIdempotencyKey k)"
    "keeps (steps R) (taskRepo_List tf)" "keeps (steps R) (taskRepo_ListLogs i n)"
    "keeps (steps R) (taskRepo_CountByStatus st)"
  unfolding taskRepo_defs Let_def by (intro keeps_steps keeps_steps_dbcall; simp)+

text \<open>Steps on the task table.\<close>

lemma fresh_unclaimed:
  "unclaimed task \<Longrightarrow>
     fresh_task (if task_MaxAttempts task \<le> 0 then task\<lparr>task_MaxAttempts := 1\<rparr> else task)"
  by (simp add: unclaimed_def fresh_task_def)

lemma task_step_other: "tasks t' = tasks t \<Longrightarrow> tasks_seq t' = tasks_seq t \<Longrightarrow> task_step t t'"
  by (simp add: task_step_def lease_step.other)

lemma task_stepI:
  "unclaimed task \<Longrightarrow> keeps (steps task_step) (taskRepo_Create task)"
  "keeps (steps task_step) (taskRepo_ClaimNextTask wid lease)"
  "keeps (steps task_step) (taskRepo_HeartbeatTask i wid lease)"
  "keeps (steps task_step) (taskRepo_CompleteTask i wid res)"
  "keeps (steps task_step) (taskRepo_FailTask i wid msg nxt)"
  "keeps (steps task_step) (taskRepo_ReleaseStaleTasks now)"
  "st \<in> {''running'', ''success'', ''failed'', ''canceled''} \<Longrightarrow>
     keeps (steps task_step) (taskRepo_UpdateStatus i st progress msg)"
  unfolding taskRepo_defs Let_def task_step_def
  by (intro keeps_steps keeps_steps_dbcall r_into_rtranclp disjI1 lease_step.intros fresh_unclaimed
      disjI2 status_step.intros; assumption)+

lemma task_step_AppendLog: "task_step t (snd (sql_AppendLog log now t))"
  by (intro task_step_other) (simp_all add: sql_AppendLog_def Let_def)

interpretation task_steps: task_frame "steps task_step" uni for uni
proof unfold_locales
  fix log
  show "keeps (steps task_step) (taskRepo_AppendLog log)"
    unfolding taskRepo_AppendLog_def
    by (intro keeps_steps keeps_steps_dbcall r_into_rtranclp task_step_AppendLog)
qed (intro reflp_steps transp_steps keeps_steps keeps_backupRepo_frame keeps_taskRepo_reads
    task_stepI task_step_other keeps_steps_agent HOL.refl; assumption)+

text \<open>The task service and the backup table.\<close>

lemma sql_task_frame:
  "backups (snd (sql_CreateTask task now t)) = backups t"
  "backups (snd (sql_ClaimNextTask wid u now t)) = backups t"
  "backups (snd (sql_HeartbeatTask i wid u now t)) = backups t"
  "backups (snd (sql_CompleteTask i wid res now t)) = backups t"
  "backups (snd (sql_FailTask i wid msg nxt now t)) = backups t"
  "backups (snd (sql_ReleaseStaleTasks now upd t)) = backups t"
  "backups (snd (sql_UpdateStatus i st progress msg now t)) = backups t"
  "backups (snd (sql_AppendLog log now t)) = backups t"
  "backups_seq (snd (sql_CreateTask task now t)) = backups_seq t"
  "backups_seq (snd (sql_ClaimNextTask wid u now t)) = backups_seq t"
  "backups_seq (snd (sql_HeartbeatTask i wid u now t)) = backups_seq t"
  "backups_seq (snd (sql_CompleteTask i wid res now t)) = backups_seq t"
  "backups_seq (snd (sql_FailTask i wid msg nxt now t)) = backups_seq t"
  "backups_seq (snd (sql_ReleaseStaleTasks now upd t)) = backups_seq t"
  "backups_seq (snd (sql_UpdateStatus i st progress msg now t)) = backups_seq t"
  "backups_seq (snd (sql_AppendLog log now t)) = backups_seq t"
  by (auto simp: task_sql Let_def split: list.splits)

lemma backup_step_task_sql:
  "keeps (steps backup_step) (taskRepo_Create task)"
  "keeps (steps backup_step) (taskRepo_ClaimNextTask wid lease)"
  "keeps (steps backup_step) (taskRepo_HeartbeatTask i wid lease)"
  "keeps (steps backup_step) (taskRepo_CompleteTask i wid res)"
  "keeps (steps backup_step) (taskRepo_FailTask i wid msg nxt)"
  "keeps (steps backup_step) (taskRepo_ReleaseStaleTasks now)"
  "keeps (steps backup_step) (taskRepo_UpdateStatus i st progress msg)"
  "keeps (steps backup_step) (taskRepo_AppendLog log)"
  unfolding taskRepo_defs Let_def
  by (intro keeps_steps backup_stepI backup_step.other; simp add: sql_task_frame)+

interpretation task_backup_steps: task_frame "steps backup_step" uni for uni
  by unfold_locales (intro keeps_taskRepo_reads backup_step_task_sql keeps_steps keeps_steps_agent
      backup_step.other HOL.refl)+

text \<open>The task log: it only grows, and what is appended is redacted.\<close>

definition log_step :: "(string \<Rightarrow> string) \<Rightarrow> tables \<Rightarrow> tables \<Rightarrow> bool" where
  "log_step uni t t' = (\<exists>new. task_logs t' = task_logs t @ new \<and>
     list_all (\<lambda>l. masked uni (log_Metadata l)) new)"

lemma log_step_same: "task_logs t' = task_logs t \<Longrightarrow> log_step uni t t'"
  by (simp add: log_step_def)

lemma log_step_append:
  "masked uni (log_Metadata log) \<Longrightarrow> log_step uni t (snd (sql_AppendLog log now t))"
  by (auto simp: log_step_def sql_AppendLog_def Let_def)

lemma task_logs_sql:
  "task_logs (snd (sql_CreateTask task now t)) = task_logs t"
  "task_logs (snd (sql_ClaimNextTask wid u now t)) = task_logs t"
  "task_logs (snd (sql_HeartbeatTask i wid u now t)) = task_logs t"
  "task_logs (snd (sql_CompleteTask i wid res now t)) = task_logs t"
  "task_logs (snd (sql_FailTask i wid msg nxt now t)) = task_logs t"
  "task_logs (snd (sql_ReleaseStaleTasks now upd t)) = task_logs t"
  "task_logs (snd (sql_UpdateStatus i st progress msg now t)) = task_logs t"
  "task_logs (snd (sql_CreateBackup b now t)) = task_logs t"
  "task_logs (snd (sql_UpdateVerification i bst sz ck fp now t)) = task_logs t"
  "task_logs (snd (sql_UpdateBackupStatus i bst now t)) = task_logs t"
  "task_logs (snd (sql_DeleteDeletableBefore cutoff t)) = task_logs t"
  by (auto simp: task_sql sql_CreateBackup_def sql_UpdateVerification_def
      sql_UpdateBackupStatus_def sql_DeleteDeletableBefore_def Let_def split: list.splits)

interpretation log_steps: task_frame "steps (log_step uni)" uni for uni
  unfolding task_frame_def backup_frame_def task_frame_axioms_def taskRepo_defs Let_def
    backupRepo_Create_def backupRepo_GetByID_def backupRepo_List_def
    backupRepo_UpdateVerification_def backupRepo_UpdateStatus_def
    backupRepo_CountDeletableBefore_def backupRepo_ListDeletableBefore_def
    backupRepo_DeleteDeletableBefore_def
  by (intro conjI allI impI reflp_steps transp_steps keeps_steps keeps_steps_agent
      keeps_steps_dbcall r_into_rtranclp log_step_append; simp add: log_step_same task_logs_sql)

end
