(* ===== verification/TaskRun.thy ===== *)
theory TaskRun
  imports TaskFrame
begin

text \<open>
  What a run of a task does, statement by statement, when nothing else touches the database:
  the row, the clock and the requests sent to the agent are followed through every operation.
\<close>

definition at_row :: "int \<Rightarrow> Task \<Rightarrow> time \<Rightarrow> rpc_request list \<Rightarrow> world \<Rightarrow> bool" where
  "at_row i r c l w = (sched w = [] \<and> clock w = c \<and> find_task i (tbl w) = Some r \<and> rpc_log w = l)"

definition status_row :: "string \<Rightarrow> int \<Rightarrow> string \<Rightarrow> time \<Rightarrow> Task \<Rightarrow> Task" where
  "status_row st progress msg now r = r\<lparr>task_Status := st, task_Progress := progress,
     task_ErrorMsg := msg, task_UpdatedAt := now\<rparr>"

definition complete_row :: "json \<Rightarrow> time \<Rightarrow> Task \<Rightarrow> Task" where
  "complete_row res now r = r\<lparr>task_Status := ''success'', task_Progress := 100, task_Result := res,
     task_ErrorMsg := [], task_LockedBy := None, task_LockedUntil := None,
     task_FinishedAt := Some now, task_UpdatedAt := now\<rparr>"

section \<open>Repository calls\<close>

lemma runs_Now: "runs (at_row i r c l) Now c (at_row i r c l)"
  by (auto intro!: runsI simp: Now_def at_row_def)

lemma runs_dbcall:
  assumes "\<And>t. find_task i t = Some r \<Longrightarrow> fst (f t) = v \<and> find_task i (snd (f t)) = Some r'"
  shows "runs (at_row i r c l) (dbcall f) v (at_row i r' c l)"
  by (intro runsI) (simp add: at_row_def run_dbcall_calm assms)

lemma runs_GetByID: "runs (at_row i r c l) (taskRepo_GetByID i) (Inr (Some r)) (at_row i r c l)"
  unfolding taskRepo_GetByID_def by (rule runs_dbcall) simp

lemma runs_AppendLog:
  "log_TaskID log = i \<Longrightarrow> runs (at_row i r c l) (taskRepo_AppendLog log) (Inr ()) (at_row i r c l)"
  unfolding taskRepo_AppendLog_def
  by (intro runs_bind [OF runs_Now] runs_dbcall)
    (auto simp: sql_AppendLog_def Let_def find_task_def dest: first_where_Some)

lemma runs_appendTaskLog:
  "runs (at_row i r c l) (appendTaskLog i level msg meta) () (at_row i r c l)"
  unfolding appendTaskLog_def by (rule runs_bind [OF runs_AppendLog]) simp_all

lemma runs_UpdateStatus:
  assumes "task_check st progress"
  shows "runs (at_row i r c l) (taskRepo_UpdateStatus i st progress msg) (Inr ())
    (at_row i (status_row st progress msg c r) c l)"
  unfolding taskRepo_UpdateStatus_def
proof (intro runs_bind [OF runs_Now] runs_dbcall conjI)
  fix t assume t: "find_task i t = Some r"
  show "fst (sql_UpdateStatus i st progress msg c t) = Inr ()"
    using assms by (simp add: sql_UpdateStatus_def)
  show "find_task i (snd (sql_UpdateStatus i st progress msg c t)) =
      Some (status_row st progress msg c r)"
    using assms t find_task_in [OF t]
    by (simp add: sql_UpdateStatus_def find_task_update status_row_def)
qed

lemma runs_CompleteTask:
  assumes "holds_lease i wid r"
  shows "runs (at_row i r c l) (taskRepo_CompleteTask i wid res) (Inr ())
    (at_row i (complete_row res c r) c l)"
  unfolding taskRepo_CompleteTask_def
  by (intro runs_bind [OF runs_Now] runs_dbcall)
    (simp add: sql_CompleteTask_def find_task_update assms complete_row_def)

lemma runs_FailTask:
  assumes "holds_lease i wid r"
  shows "runs (at_row i r c l) (taskRepo_FailTask i wid msg nxt) (Inr ())
    (at_row i (fail_row msg nxt c r) c l)"
  unfolding taskRepo_FailTask_def
  by (intro runs_bind [OF runs_Now] runs_dbcall)
    (simp add: sql_FailTask_def find_task_update assms fail_row_def Let_def)

lemma runs_observe: "runs (at_row i r c l) (observe m) () (at_row i r c l)"
  by (auto intro!: runsI simp: observe_def at_row_def)

lemma runs_observe_if: "runs (at_row i r c l) (observe_if s m) () (at_row i r c l)"
  by (simp add: observe_if_def runs_observe)

section \<open>The steps of a run\<close>

lemma runs_isCanceled:
  "runs (at_row i r c l) (isCanceled i) (task_Status r = ''canceled'') (at_row i r c l)"
  unfolding isCanceled_def
  by (rule runs_bind [OF runs_GetByID]) (simp add: TaskStatusCanceled_def)

lemma runs_not_canceled:
  "task_Status r \<noteq> ''canceled'' \<Longrightarrow> runs (at_row i r c l) (isCanceled i) False (at_row i r c l)"
  using runs_isCanceled [of i r c l] by simp

lemma runs_canceled:
  "task_Status r = ''canceled'' \<Longrightarrow> runs (at_row i r c l) (isCanceled i) True (at_row i r c l)"
  using runs_isCanceled [of i r c l] by simp

lemma runs_setRunningProgress:
  assumes "task_Status r \<noteq> ''canceled''" "0 \<le> p" "p \<le> 100"
  shows "runs (at_row i r c l) (setRunningProgress i p) True
    (at_row i (status_row ''running'' p [] c r) c l)"
proof -
  have "task_check ''running'' p" using assms by (simp add: task_check_def)
  then show ?thesis unfolding setRunningProgress_def TaskStatusRunning_def
    by (intro runs_bind [OF runs_not_canceled [OF assms(1)]])
      (simp, rule runs_bind [OF runs_UpdateStatus], simp_all)
qed

lemma status_row_simps [simp]:
  "task_Status (status_row st p m c r) = st" "task_Progress (status_row st p m c r) = p"
  "task_ID (status_row st p m c r) = task_ID r"
  "task_LockedBy (status_row st p m c r) = task_LockedBy r"
  "status_row st p m c (status_row st' p' m' c' r) = status_row st p m c r"
  by (simp_all add: status_row_def)

lemma holds_lease_status_row [simp]:
  "holds_lease i wid (status_row ''running'' p m c r) \<longleftrightarrow>
     task_ID r = i \<and> task_LockedBy r = Some wid"
  by (simp add: holds_lease_def)

text \<open>What the agent answers to a request.\<close>

definition answer :: "'a wire \<Rightarrow> 'a result" where
  "answer x = (case x of DialError err \<Rightarrow> Inl (transportError err)
     | CallError err \<Rightarrow> (case asAgentError err of Some e \<Rightarrow> Inl e | None \<Rightarrow> Inl (transportError err))
     | Response e body \<Rightarrow> (case responseError e of Some a \<Rightarrow> Inl a | None \<Rightarrow> Inr body))"

lemma runs_invoke: "runs (at_row i r c l) (invoke rpc x) (answer x) (at_row i r c l)"
  unfolding invoke_def answer_def
  by (auto intro!: runs_bind [OF runs_observe] split: wire.splits option.splits)

lemma runs_rpc:
  "runs (at_row i r c l) (do { w \<leftarrow> getw; send_rpc q; invoke rpc (g (rpc_log w)) }) (answer (g l))
     (at_row i r c (l @ [q]))"
proof (rule runsI)
  fix w assume w: "at_row i r c l w"
  then have "at_row i r c (l @ [q]) (w\<lparr>rpc_log := l @ [q]\<rparr>)" by (simp add: at_row_def)
  note sent = runsD [OF runs_invoke [of _ _ _ _ rpc "g l"] this]
  have "rpc_log w = l" using w by (simp add: at_row_def)
  with sent show "fst (run_state (do { w \<leftarrow> getw; send_rpc q; invoke rpc (g (rpc_log w)) }) w) = answer (g l) \<and>
      at_row i r c (l @ [q]) (snd (run_state (do { w \<leftarrow> getw; send_rpc q; invoke rpc (g (rpc_log w)) }) w))"
    by (simp add: send_rpc_def)
qed

lemma runs_map: "runs P m v Q \<Longrightarrow> runs P (State_Monad.bind m (\<lambda>x. ret (f x))) (f v) Q"
  by (erule runs_bind) simp

lemma runs_docker_restart:
  assumes "ts_dockerService s = Some conn"
  shows "runs (at_row i r c l) (docker_restart s n)
    (Done (map_agent_result (answer (conn_docker conn l (RestartDockerContainerReq n)))))
    (at_row i r c (l @ [RestartDockerContainerReq n]))"
  unfolding docker_restart_def RestartContainer_def Client_RestartDockerContainer_def runDockerAction_def assms option.case
  by (intro runs_map runs_rpc [of i r c l _ _ "\<lambda>l. conn_docker conn l (RestartDockerContainerReq n)"])

lemma runs_service_restart:
  assumes "ts_serviceManager s = Some conn"
  shows "runs (at_row i r c l) (service_restart s n)
    (Done (map_agent_result (answer (conn_service conn l (RestartServiceReq n)))))
    (at_row i r c (l @ [RestartServiceReq n]))"
  unfolding service_restart_def RestartService_def Client_RestartService_def runServiceAction_def assms option.case
  by (intro runs_map runs_rpc [of i r c l _ _ "\<lambda>l. conn_service conn l (RestartServiceReq n)"])

section \<open>Operations\<close>

text \<open>The row while the operation runs, and the verdict of the agent.\<close>

abbreviation progress_row :: "int \<Rightarrow> time \<Rightarrow> Task \<Rightarrow> Task" where
  "progress_row p c r \<equiv> status_row ''running'' p [] c r"

text \<open>Sequencing: the statement is run, the rest starts from the row it leaves.\<close>

lemma runs_progress_then:
  assumes "task_Status r \<noteq> ''canceled''" "0 \<le> p" "p \<le> 100"
    "runs (at_row i (progress_row p c r) c l) (f True) u Q"
  shows "runs (at_row i r c l) (State_Monad.bind (setRunningProgress i p) f) u Q"
  using assms by (intro runs_bind [OF runs_setRunningProgress])

lemmas runs_log_then = runs_bind [OF runs_appendTaskLog]

lemmas runs_seq = runs_progress_then runs_log_then

lemma runs_docker_operation:
  assumes "pl_Operation p = taskOperationDockerRestart" "ts_dockerService s = Some conn"
    "task_Status r \<noteq> ''canceled''"
    "answer (conn_docker conn l (RestartDockerContainerReq (pl_ContainerID p))) = a"
  shows "runs (at_row i r c l) (executeTaskOperation s i p wid)
    (Done (case a of Inl e \<Rightarrow> Inl (mapAgentError e) | Inr _ \<Rightarrow> Inr ()))
    (at_row i (progress_row (case a of Inl _ \<Rightarrow> 30 | Inr _ \<Rightarrow> 85) c r) c
      (l @ [RestartDockerContainerReq (pl_ContainerID p)]))"
  unfolding executeTaskOperation_def if_P [OF assms(1)]
  by (cases a) (auto simp: assms map_agent_result_def
      intro!: runs_seq runs_bind [OF runs_docker_restart [OF assms(2)]])

lemma runs_service_operation:
  assumes "pl_Operation p = taskOperationServiceRestart" "ts_serviceManager s = Some conn"
    "task_Status r \<noteq> ''canceled''"
    "answer (conn_service conn l (RestartServiceReq (pl_ServiceName p))) = a"
  shows "runs (at_row i r c l) (executeTaskOperation s i p wid)
    (Done (case a of Inl e \<Rightarrow> Inl (mapAgentError e) | Inr _ \<Rightarrow> Inr ()))
    (at_row i (progress_row (case a of Inl _ \<Rightarrow> 30 | Inr _ \<Rightarrow> 85) c r) c
      (l @ [RestartServiceReq (pl_ServiceName p)]))"
proof -
  have op: "pl_Operation p \<noteq> taskOperationDockerRestart"
    using assms(1) by (simp add: task_operation_defs)
  show ?thesis
    unfolding executeTaskOperation_def if_not_P [OF op] if_P [OF assms(1)]
    by (cases a) (auto simp: assms map_agent_result_def
        intro!: runs_seq runs_bind [OF runs_service_restart [OF assms(2)]])
qed

section \<open>Runs of the worker\<close>

text \<open>The retry decision of \<^verbatim>\<open>failClaimedTask\<close>.\<close>

definition retry_at :: "time \<Rightarrow> Task \<Rightarrow> go_error \<Rightarrow> time option" where
  "retry_at now task err = nextTaskRetryAt now (task_Attempt task) (task_MaxAttempts task)
     (\<not> asNonRetryable err \<and> isRetryableTaskError err)"

lemma runs_failClaimedTask:
  assumes "task_Status r \<noteq> ''canceled''" "task_ID task = i" "holds_lease i wid r"
  shows "runs (at_row i r c l) (failClaimedTask s task wid err meta) ()
    (at_row i (fail_row (Error err) (retry_at c task err) c r) c l)"
  unfolding failClaimedTask_def assms(2)
  apply (rule runs_bind [OF runs_not_canceled [OF assms(1)]])
  apply (simp only: if_False Let_def)
  apply (rule runs_bind [OF runs_Now])
  apply (rule runs_bind [OF runs_FailTask [OF assms(3)]])
  apply (simp only: retry_at_def [symmetric])
  apply (cases "retry_at c task err")
   apply (auto intro!: runs_bind [OF runs_Now] runs_bind [OF runs_observe_if] runs_appendTaskLog)
  done

lemma runs_claimed:
  assumes "unmarshalTaskPayload (task_Payload task) = Inr p" "task_ID task = i"
    "task_Status r \<noteq> ''canceled''"
    "runs (at_row i (progress_row 5 c r) c l) (executeTaskOperation s i p wid) (Done x)
       (at_row i (progress_row q c r) c l')"
    "task_ID r = i" "task_LockedBy r = Some wid"
  shows "runs (at_row i r c l) (runClaimedTask s wid task) (Done ())
    (at_row i (case x of Inr _ \<Rightarrow> complete_row (JObj []) c (progress_row q c r)
       | Inl err \<Rightarrow> fail_row (Error err) (retry_at c task err) c (progress_row q c r)) c l')"
  unfolding runClaimedTask_def assms(1,2) sum.case
  apply (rule runs_log_then)
  apply (rule runs_bind [OF runs_not_canceled [OF assms(3)]])
  apply (simp only: if_False)
  apply (rule runs_progress_then [OF assms(3)], simp, simp)
  apply (simp only: not_True_eq_False if_False)
  apply (rule runs_log_then)
  apply (rule runs_bind [OF assms(4)])
  apply (cases x)
   apply (auto simp: assms intro!: runs_log_then runs_bind [OF runs_failClaimedTask]
      runs_bind [OF runs_not_canceled] runs_bind [OF runs_Now] runs_bind [OF runs_observe_if]
      runs_bind [OF runs_CompleteTask])
  done

section \<open>Cancelled tasks\<close>

text \<open>
  A cancelled task in a database that other parties go on using: their statements leave the
  task cancelled, and none of the calls fails.
\<close>

definition canceled_in :: "int \<Rightarrow> tables \<Rightarrow> bool" where
  "canceled_in i t = (\<exists>r. find_task i t = Some r \<and> task_Status r = ''canceled'')"

definition stays_canceled :: "int \<Rightarrow> rpc_request list \<Rightarrow> world \<Rightarrow> bool" where
  "stays_canceled i l w = (canceled_in i (tbl w) \<and> rpc_log w = l \<and>
     (\<forall>x \<in> set (sched w). fault x = None \<and> (\<forall>t. canceled_in i t \<longrightarrow> canceled_in i (env x t))))"

lemma stays_canceled_dbcall:
  assumes "stays_canceled i l w" "\<And>t. canceled_in i t \<Longrightarrow> canceled_in i (snd (f t))"
  obtains t where "canceled_in i t" "fst (run_state (dbcall f) w) = fst (f t)"
    "stays_canceled i l (snd (run_state (dbcall f) w))"
proof (cases "sched w")
  case Nil
  with assms that [of "tbl w"] show ?thesis
    by (auto simp: stays_canceled_def run_dbcall_calm)
next
  case (Cons x xs)
  with assms that [of "env x (tbl w)"] show ?thesis
    by (auto simp: stays_canceled_def dbcall_def enter_def split_beta)
qed

lemma runs_stays_canceled:
  "runs (stays_canceled i l) (isCanceled i) True (stays_canceled i l)"
  "runs (stays_canceled i l) (appendTaskLog i level msg meta) () (stays_canceled i l)"
proof -
  have "fst (run_state (isCanceled i) w) = True \<and> stays_canceled i l (snd (run_state (isCanceled i) w))"
    if w: "stays_canceled i l w" for w
    using w by (rule stays_canceled_dbcall [of i l w "\<lambda>t. (Inr (find_task i t), t)"])
      (auto simp: isCanceled_def taskRepo_GetByID_def canceled_in_def TaskStatusCanceled_def split_beta)
  then show "runs (stays_canceled i l) (isCanceled i) True (stays_canceled i l)" by (intro runsI)
  have "stays_canceled i l (snd (run_state (appendTaskLog i level msg meta) w))"
    if w: "stays_canceled i l w" for w
  proof -
    have log: "canceled_in i t \<Longrightarrow> canceled_in i (snd (sql_AppendLog g n t))" for t g n
      by (auto simp: canceled_in_def sql_AppendLog_def find_task_def Let_def)
    have "stays_canceled i l (snd (run_state (dbcall (sql_AppendLog g n)) w))" for g n
      using w log by (rule stays_canceled_dbcall)
    then show ?thesis
      by (simp add: appendTaskLog_def taskRepo_AppendLog_def Now_def split_beta)
  qed
  then show "runs (stays_canceled i l) (appendTaskLog i level msg meta) () (stays_canceled i l)"
    by (intro runsI) simp
qed

lemma runs_canceled_claim:
  assumes "task_ID task = i"
  shows "runs (stays_canceled i l) (runClaimedTask s wid task) (Done ()) (stays_canceled i l)"
    "runs (stays_canceled i l) (runTask s i p) (Done ()) (stays_canceled i l)"
proof -
  show "runs (stays_canceled i l) (runClaimedTask s wid task) (Done ()) (stays_canceled i l)"
    by (cases "unmarshalTaskPayload (task_Payload task)")
      (auto simp: runClaimedTask_def failClaimedTask_def assms
        intro!: runs_bind [OF runs_stays_canceled(1)] runs_bind [OF runs_stays_canceled(2)])
  show "runs (stays_canceled i l) (runTask s i p) (Done ()) (stays_canceled i l)"
    unfolding runTask_def
    by (auto intro!: runs_bind [OF runs_stays_canceled(1)] runs_bind [OF runs_stays_canceled(2)])
qed

section \<open>Idempotent creation\<close>

text \<open>Rows are never removed: what was once in the table keeps its id and its key.\<close>

lemma task_keys_update:
  "(\<And>r. task_ID (f r) = task_ID r) \<Longrightarrow> (\<And>r. task_IdempotencyKey (f r) = task_IdempotencyKey r) \<Longrightarrow>
   task_keys (t\<lparr>tasks := update_where p f (tasks t)\<rparr>) = task_keys t"
  by (simp add: task_keys_def map_update_where)

lemma task_step_keys:
  assumes "task_step t t'" shows "set (task_keys t) \<subseteq> set (task_keys t')"
  using assms unfolding task_step_def
proof
  assume "lease_step t t'"
  then show ?thesis
  proof (induction rule: lease_step.induct)
    case (create task t now)
    then show ?case by (auto simp: sql_CreateTask_def Let_def task_keys_def)
  next
    case (claim t workerID lockedUntil now)
    then show ?case
      by (auto simp: sql_ClaimNextTask_def task_keys_update claim_row_def split: list.split)
  next
    case (other t' t)
    then show ?case by (simp add: task_keys_def)
  qed (simp_all add: task_sql task_keys_update Let_def)
next
  assume "status_step t t'"
  then show ?thesis
    by (induction rule: status_step.induct) (simp add: sql_UpdateStatus_def task_keys_update)
qed

lemma steps_keys:
  assumes "steps task_step w w'" "rely task_step w"
  shows "set (task_keys (tbl w)) \<subseteq> set (task_keys (tbl w'))"
  using steps_invariant [OF assms, of "\<lambda>t. set (task_keys (tbl w)) \<subseteq> set (task_keys t)"]
    task_step_keys by blast

definition nofault :: "world \<Rightarrow> bool" where
  "nofault w = (\<forall>x \<in> set (sched w). fault x = None)"

lemma dbcall_nofault:
  assumes "nofault w"
  obtains v where "steps R w v" "nofault v"
    "run_state (dbcall f) w = (fst (f (tbl v)), v\<lparr>tbl := snd (f (tbl v))\<rparr>)"
proof -
  let ?v = "snd (enter w)"
  have "fst (enter w) = None" "nofault ?v"
    using assms by (auto simp: enter_def nofault_def split: list.split)
  moreover have "run_state (dbcall f) w = (fst (f (tbl ?v)), ?v\<lparr>tbl := snd (f (tbl ?v))\<rparr>)"
    using calculation by (cases "enter w") (simp add: dbcall_def split_beta)
  ultimately show ?thesis using that [of ?v] steps_enter [of R w] by simp
qed

lemma find_by_key_Some:
  "find_by_key k t = Some r \<Longrightarrow> (task_ID r, Some k) \<in> set (task_keys t)"
  by (force simp: find_by_key_def task_keys_def dest: first_where_Some)

lemma find_by_key_exists:
  "(i, Some k) \<in> set (task_keys t) \<Longrightarrow> find_by_key k t \<noteq> None"
  by (auto simp: find_by_key_def task_keys_def first_where_None)

lemma find_existing_run:
  assumes "nofault w"
  obtains v where "steps task_step w v" "nofault v"
    "run_state (find_existing (Some k)) w = (Inr (find_by_key k (tbl v)), v)"
proof -
  obtain v where "steps task_step w v" "nofault v"
    "run_state (find_existing (Some k)) w = (Inr (find_by_key k (tbl v)), v\<lparr>tbl := tbl v\<rparr>)"
    using dbcall_nofault [OF assms, where R = task_step and f = "\<lambda>t. (Inr (find_by_key k t), t)"]
    by (auto simp: find_existing_def taskRepo_GetByIdempotencyKey_def)
  then show ?thesis using that by simp
qed

lemma new_task_check: "task_check (task_Status (new_task s ty p by key)) (task_Progress (new_task s ty p by key))"
  by (simp add: new_task_def task_check_def TaskStatusPending_def)

text \<open>The insert, and what is in the table after it whether it succeeds or not.\<close>

lemma create_new_task:
  fixes s ty p "by" k now t
  defines "task \<equiv> new_task s ty p by (Some k)"
  defines "task' \<equiv> (if task_MaxAttempts task \<le> 0 then task\<lparr>task_MaxAttempts := 1\<rparr> else task)"
  shows "(\<exists>e. fst (sql_CreateTask task' now t) = Inl e \<and>
            (\<exists>i. (i, Some k) \<in> set (task_keys (snd (sql_CreateTask task' now t))))) \<or>
         (\<exists>r. fst (sql_CreateTask task' now t) = Inr r \<and>
            (task_ID r, Some k) \<in> set (task_keys (snd (sql_CreateTask task' now t))))"
proof -
  have k: "task_IdempotencyKey task' = Some k" and ok: "task_check (task_Status task') (task_Progress task')"
    using new_task_check [of s ty p "by" "Some k"]
    by (simp_all add: task'_def task_def) (simp_all add: new_task_def)
  show ?thesis
  proof (cases "\<exists>r \<in> set (tasks t). task_IdempotencyKey r = Some k")
    case True
    then show ?thesis using ok k by (force simp: sql_CreateTask_def Let_def task_keys_def)
  next
    case False
    then show ?thesis using ok k by (simp add: sql_CreateTask_def Let_def task_keys_def)
  qed
qed

lemma create_tail_keys:
  assumes "rely task_step w" "x \<in> set (task_keys (tbl w))"
  shows "x \<in> set (task_keys (tbl (snd (run_state (do {
     appendTaskLog i level msg (marshalTaskMetadata lib data);
     _ \<leftarrow> (if b then spawn i p else ret ());
     ret res }) w))))"
proof -
  have "keeps (steps task_step) (do {
     appendTaskLog i level msg (marshalTaskMetadata lib data);
     _ \<leftarrow> (if b then spawn i p else ret ());
     ret res })"
    by (intro task_steps.task_rules task_steps.append_metadata [OF HOL.refl])
  then show ?thesis using steps_keys assms by (blast dest: keepsD)
qed

lemma createAndRunTask_key:
  assumes "nofault w" "rely task_step w"
  shows "\<exists>v. fst (run_state (createAndRunTask s ty p by un (Some k)) w) = Inr v \<and>
    (ctr_ID v, Some k) \<in> set (task_keys (tbl (snd (run_state (createAndRunTask s ty p by un (Some k)) w))))"
proof -
  obtain v1 where v1: "steps task_step w v1" "nofault v1"
    "run_state (find_existing (Some k)) w = (Inr (find_by_key k (tbl v1)), v1)"
    using find_existing_run [OF assms(1)] by blast
  have r1: "rely task_step v1" using v1(1) assms(2) by (simp add: steps_def)
  show ?thesis
  proof (cases "find_by_key k (tbl v1)")
    case (Some r)
    then show ?thesis using v1(3) find_by_key_Some [OF Some]
      by (simp add: createAndRunTask_def create_result_def)
  next
    case None
    let ?task = "new_task s ty p by (Some k)"
    let ?task' = "if task_MaxAttempts ?task \<le> 0 then ?task\<lparr>task_MaxAttempts := 1\<rparr> else ?task"
    obtain v2 where v2: "steps task_step v1 v2" "nofault v2"
      "run_state (dbcall (sql_CreateTask ?task' (clock v1))) v1 =
        (fst (sql_CreateTask ?task' (clock v1) (tbl v2)),
         v2\<lparr>tbl := snd (sql_CreateTask ?task' (clock v1) (tbl v2))\<rparr>)"
      using dbcall_nofault [OF v1(2)] by blast
    define v3 where "v3 = v2\<lparr>tbl := snd (sql_CreateTask ?task' (clock v1) (tbl v2))\<rparr>"
    have r3: "rely task_step v3" and n3: "nofault v3"
      using v2(1,2) r1 by (simp_all add: steps_def rely_def nofault_def v3_def)
    have ran: "run_state (taskRepo_Create ?task) v1 =
        (fst (sql_CreateTask ?task' (clock v1) (tbl v2)), v3)"
      using v2(3) by (simp add: taskRepo_Create_def Now_def v3_def Let_def)
    consider (dup) e i where "fst (sql_CreateTask ?task' (clock v1) (tbl v2)) = Inl e"
        "(i, Some k) \<in> set (task_keys (tbl v3))"
      | (new) r where "fst (sql_CreateTask ?task' (clock v1) (tbl v2)) = Inr r"
        "(task_ID r, Some k) \<in> set (task_keys (tbl v3))"
      using create_new_task [of s ty p "by" k "clock v1" "tbl v2"] by (auto simp: v3_def)
    then show ?thesis
    proof cases
      case dup
      obtain v4 where v4: "steps task_step v3 v4"
        "run_state (find_existing (Some k)) v3 = (Inr (find_by_key k (tbl v4)), v4)"
        using find_existing_run [OF n3] by blast
      have "(i, Some k) \<in> set (task_keys (tbl v4))" using steps_keys [OF v4(1) r3] dup(2) by blast
      then obtain r where "find_by_key k (tbl v4) = Some r" using find_by_key_exists by blast
      then show ?thesis using v1(3) None ran dup(1) v4(2) find_by_key_Some
        by (simp add: createAndRunTask_def create_result_def)
    next
      case new
      then show ?thesis using v1(3) None ran create_tail_keys [OF r3 new(2)]
        by (simp add: createAndRunTask_def create_result_def split_beta)
    qed
  qed
qed

end
