(* ===== verification/TaskPipeline.thy ===== *)
theory TaskPipeline
  imports TaskRun
begin

text \<open>
  A task from its creation to its end: the table as a whole is followed through the creating
  request, one turn of the worker and the execution of what the worker claimed.
\<close>

definition tables_at :: "Task list \<Rightarrow> int \<Rightarrow> time \<Rightarrow> rpc_request list \<Rightarrow> world \<Rightarrow> bool" where
  "tables_at ts n c l w = (sched w = [] \<and> clock w = c \<and> tasks (tbl w) = ts \<and>
     tasks_seq (tbl w) = n \<and> rpc_log w = l)"

lemma runs_table_Now: "runs (tables_at ts n c l) Now c (tables_at ts n c l)"
  by (auto intro!: runsI simp: Now_def tables_at_def)

lemma runs_table_dbcall:
  assumes "\<And>t. tasks t = ts \<Longrightarrow> tasks_seq t = n \<Longrightarrow>
    fst (f t) = v \<and> tasks (snd (f t)) = ts' \<and> tasks_seq (snd (f t)) = n'"
  shows "runs (tables_at ts n c l) (dbcall f) v (tables_at ts' n' c l)"
  by (intro runsI) (simp add: tables_at_def run_dbcall_calm assms)

lemma runs_table_effects:
  "runs (tables_at ts n c l) (observe m) () (tables_at ts n c l)"
  "runs (tables_at ts n c l) (observe_if s m) () (tables_at ts n c l)"
  "runs (tables_at ts n c l) (spawn i p) () (tables_at ts n c l)"
  by (auto intro!: runsI simp: observe_def observe_if_def spawn_def tables_at_def)

lemma runs_table_log:
  "runs (tables_at ts n c l) (appendTaskLog i level msg meta) () (tables_at ts n c l)"
proof -
  have "tables_at ts n c l w \<Longrightarrow>
      tables_at ts n c l (snd (run_state (dbcall (sql_AppendLog g now)) w))" for g now w
    by (simp add: tables_at_def run_dbcall_calm sql_AppendLog_def Let_def)
  then show ?thesis
    by (intro runsI) (simp add: appendTaskLog_def taskRepo_AppendLog_def Now_def split_beta)
qed

section \<open>Creation\<close>

definition created_row :: "taskService \<Rightarrow> string \<Rightarrow> taskPayload \<Rightarrow> int option \<Rightarrow> string option \<Rightarrow>
  int \<Rightarrow> time \<Rightarrow> Task" where
  "created_row s ty p u key n now =
     (new_task s ty p u key)\<lparr>task_MaxAttempts := (if ts_MaxAttempts s \<le> 0 then 1 else ts_MaxAttempts s),
       task_ID := n, task_CreatedAt := now, task_UpdatedAt := now\<rparr>"

lemma runs_table_create:
  assumes "case key of None \<Rightarrow> True | Some k \<Rightarrow> \<forall>r \<in> set ts. task_IdempotencyKey r \<noteq> Some k"
  shows "runs (tables_at ts n c l) (taskRepo_Create (new_task s ty p u key))
    (Inr (created_row s ty p u key n c)) (tables_at (ts @ [created_row s ty p u key n c]) (n + 1) c l)"
  unfolding taskRepo_Create_def Let_def
proof (rule runs_bind [OF runs_table_Now], rule runs_table_dbcall)
  fix t :: tables assume t: "tasks t = ts" "tasks_seq t = n"
  let ?task = "new_task s ty p u key"
  let ?task' = "if task_MaxAttempts ?task \<le> 0 then ?task\<lparr>task_MaxAttempts := 1\<rparr> else ?task"
  have "task_check (task_Status ?task') (task_Progress ?task')" "task_IdempotencyKey ?task' = key"
    by (simp_all add: new_task_def task_check_def TaskStatusPending_def)
  moreover have "?task'\<lparr>task_ID := n, task_CreatedAt := c, task_UpdatedAt := c\<rparr> = created_row s ty p u key n c"
    by (simp add: created_row_def new_task_def)
  ultimately show "fst (sql_CreateTask ?task' c t) = Inr (created_row s ty p u key n c) \<and>
      tasks (snd (sql_CreateTask ?task' c t)) = ts @ [created_row s ty p u key n c] \<and>
      tasks_seq (snd (sql_CreateTask ?task' c t)) = n + 1"
    using assms t by (cases key) (simp_all add: sql_CreateTask_def Let_def)
qed

lemma runs_find_existing:
  assumes "case key of None \<Rightarrow> True | Some k \<Rightarrow> \<forall>r \<in> set ts. task_IdempotencyKey r \<noteq> Some k"
  shows "runs (tables_at ts n c l) (find_existing key) (Inr None) (tables_at ts n c l)"
  using assms unfolding find_existing_def taskRepo_GetByIdempotencyKey_def
  by (cases key) (auto intro!: runs_table_dbcall simp: find_by_key_def first_where_None)

lemma create_result_created [simp]:
  "create_result (created_row s ty p u key n now) =
     \<lparr>ctr_ID = n, ctr_Type = ty, ctr_Status = ''pending''\<rparr>"
  by (simp add: create_result_def created_row_def new_task_def TaskStatusPending_def)

lemma runs_createAndRunTask:
  assumes "case key of None \<Rightarrow> True | Some k \<Rightarrow> \<forall>r \<in> set ts. task_IdempotencyKey r \<noteq> Some k"
  shows "runs (tables_at ts n c l) (createAndRunTask s ty p u un key)
    (Inr \<lparr>ctr_ID = n, ctr_Type = ty, ctr_Status = ''pending''\<rparr>)
    (tables_at (ts @ [created_row s ty p u key n c]) (n + 1) c l)"
  unfolding createAndRunTask_def
  by (rule runs_bind [OF runs_find_existing [OF assms]])
    (auto intro!: runs_bind [OF runs_table_create [OF assms]] runs_bind [OF runs_table_log]
      runs_bind [OF runs_table_effects(3)])

text \<open>
  What a creation starts: in process execution is on, one goroutine for the new task; else none.
\<close>

definition same_spawned :: "world \<Rightarrow> world \<Rightarrow> bool" where
  "same_spawned w w' = (spawned w' = spawned w)"

lemma keeps_same_spawned:
  "keeps same_spawned (find_existing key)" "keeps same_spawned (taskRepo_Create task)"
  "keeps same_spawned (appendTaskLog i level msg meta)"
proof -
  have refl: "reflp same_spawned" and trans: "transp same_spawned"
    by (auto simp: reflp_def transp_def same_spawned_def)
  have db: "keeps same_spawned (dbcall f)" for f :: "tables \<Rightarrow> 'a result \<times> tables"
    by (auto simp: keeps_def same_spawned_def dbcall_def enter_def split: prod.splits option.splits list.splits)
  have now: "keeps same_spawned Now"
    by (simp add: keeps_def same_spawned_def Now_def)
  note rules = keeps_ret [OF refl] keeps_bind [OF trans] keeps_if keeps_case_sum keeps_case_option db now
  show "keeps same_spawned (find_existing key)" "keeps same_spawned (taskRepo_Create task)"
    "keeps same_spawned (appendTaskLog i level msg meta)"
    unfolding find_existing_def taskRepo_GetByIdempotencyKey_def taskRepo_Create_def appendTaskLog_def
      taskRepo_AppendLog_def Let_def
    by (intro rules)+
qed

definition spawned_at :: "(int \<times> taskPayload) list \<Rightarrow> Task list \<Rightarrow> int \<Rightarrow> time \<Rightarrow> rpc_request list \<Rightarrow>
  world \<Rightarrow> bool" where
  "spawned_at sp ts n c l w = (tables_at ts n c l w \<and> spawned w = sp)"

lemma runs_spawned_at:
  "\<lbrakk>runs (tables_at ts n c l) m v (tables_at ts' n' c' l'); keeps same_spawned m\<rbrakk> \<Longrightarrow>
    runs (spawned_at sp ts n c l) m v (spawned_at sp ts' n' c' l')"
  by (simp add: runs_def keeps_def spawned_at_def same_spawned_def)

lemma runs_spawn_at: "runs (spawned_at sp ts n c l) (spawn i p) () (spawned_at (sp @ [(i, p)]) ts n c l)"
  by (auto intro!: runsI simp: spawn_def spawned_at_def tables_at_def)

lemma runs_createAndRunTask_spawned:
  assumes "case key of None \<Rightarrow> True | Some k \<Rightarrow> \<forall>r \<in> set ts. task_IdempotencyKey r \<noteq> Some k"
  shows "runs (spawned_at [] ts n c l) (createAndRunTask s ty p u un key)
    (Inr \<lparr>ctr_ID = n, ctr_Type = ty, ctr_Status = ''pending''\<rparr>)
    (spawned_at (if ts_AsyncExecution s then [(n, p)] else []) (ts @ [created_row s ty p u key n c]) (n + 1) c l)"
proof -
  note existing = runs_spawned_at [OF runs_find_existing [OF assms] keeps_same_spawned(1)]
  note create = runs_spawned_at [OF runs_table_create [OF assms] keeps_same_spawned(2)]
  note entry = runs_spawned_at [OF runs_table_log keeps_same_spawned(3)]
  have id: "task_ID (created_row s ty p u key n c) = n" by (simp add: created_row_def)
  show ?thesis unfolding createAndRunTask_def
    by (rule runs_bind [OF existing], cases "ts_AsyncExecution s")
      (auto simp: id intro!: runs_bind [OF create] runs_bind [OF entry]
        runs_bind [OF runs_spawn_at [where sp = "[]", simplified]])
qed

section \<open>One turn of the worker\<close>

lemma runs_table_release:
  assumes "\<forall>r \<in> set ts. \<not> stale now r"
  shows "runs (tables_at ts n c l) (taskRepo_ReleaseStaleTasks now) (Inr 0) (tables_at ts n c l)"
  unfolding taskRepo_ReleaseStaleTasks_def
  by (rule runs_bind [OF runs_table_Now], rule runs_table_dbcall)
    (use assms in \<open>auto simp: sql_ReleaseStaleTasks_def update_where_none filter_empty_conv\<close>)

lemma runs_table_gauges: "runs (tables_at ts n c l) (refreshTaskGauges s) () (tables_at ts n c l)"
proof -
  have count: "runs (tables_at ts n c l) (taskRepo_CountByStatus st)
      (Inr (int (length (filter (\<lambda>r. task_Status r = st) ts)))) (tables_at ts n c l)" for st
    unfolding taskRepo_CountByStatus_def by (rule runs_table_dbcall) simp
  show ?thesis unfolding refreshTaskGauges_def
    by (auto intro!: runs_bind [OF count] runs_bind [OF runs_table_effects(1)] runs_table_effects(1))
qed

lemma runs_table_claim:
  assumes "filter (claimable c) ts = [r]"
  shows "runs (tables_at ts n c l) (taskRepo_ClaimNextTask wid d)
    (Inr (Some (claim_row wid (c + d) c r)))
    (tables_at (update_where (\<lambda>x. task_ID x = task_ID r) (claim_row wid (c + d) c) ts) n c l)"
  unfolding taskRepo_ClaimNextTask_def
  by (rule runs_bind [OF runs_table_Now], rule runs_table_dbcall)
    (use assms in \<open>auto simp: sql_ClaimNextTask_def order_asc_def\<close>)

lemma runs_table_no_claim:
  assumes "filter (claimable c) ts = []"
  shows "runs (tables_at ts n c l) (taskRepo_ClaimNextTask wid d) (Inr None) (tables_at ts n c l)"
  unfolding taskRepo_ClaimNextTask_def
  by (rule runs_bind [OF runs_table_Now], rule runs_table_dbcall)
    (use assms in \<open>auto simp: sql_ClaimNextTask_def order_asc_def\<close>)

lemma runs_claim_one:
  assumes one: "filter (claimable c) ts = [r]" and free: "1 \<le> wo_Concurrency opts"
    and none: "filter (claimable c)
      (update_where (\<lambda>x. task_ID x = task_ID r) (claim_row (wo_WorkerID opts) (c + wo_LeaseDuration opts) c) ts) = []"
  shows "runs (tables_at ts n c l) (claimAvailableTasks s opts [] 0)
    ([claim_row (wo_WorkerID opts) (c + wo_LeaseDuration opts) c r], 1)
    (tables_at (update_where (\<lambda>x. task_ID x = task_ID r)
       (claim_row (wo_WorkerID opts) (c + wo_LeaseDuration opts) c) ts) n c l)"
proof -
  have rest: "runs (tables_at (update_where (\<lambda>x. task_ID x = task_ID r)
       (claim_row (wo_WorkerID opts) (c + wo_LeaseDuration opts) c) ts) n c l)
     (claimAvailableTasks s opts [] (Suc 0)) ([], Suc 0)
     (tables_at (update_where (\<lambda>x. task_ID x = task_ID r)
       (claim_row (wo_WorkerID opts) (c + wo_LeaseDuration opts) c) ts) n c l)"
    by (subst claimAvailableTasks.simps)
      (auto simp: Let_def intro!: runs_bind [OF runs_table_no_claim [OF none]]
        runs_bind [OF runs_table_effects(2)])
  show ?thesis
    by (subst claimAvailableTasks.simps)
      (use free in \<open>auto simp: Let_def intro!: runs_bind [OF runs_table_claim [OF one]]
        runs_bind [OF runs_table_effects(2)] runs_bind [OF rest]\<close>)
qed

lemma runs_turn_one:
  assumes "\<forall>r \<in> set ts. \<not> stale c r" "filter (claimable c) ts = [r]" "1 \<le> wo_Concurrency opts"
    "filter (claimable c) (update_where (\<lambda>x. task_ID x = task_ID r)
       (claim_row (wo_WorkerID opts) (c + wo_LeaseDuration opts) c) ts) = []"
  shows "runs (tables_at ts n c l) (worker_turn s opts [] 0)
    ([claim_row (wo_WorkerID opts) (c + wo_LeaseDuration opts) c r], 1)
    (tables_at (update_where (\<lambda>x. task_ID x = task_ID r)
       (claim_row (wo_WorkerID opts) (c + wo_LeaseDuration opts) c) ts) n c l)"
  unfolding worker_turn_def
  by (rule runs_bind [OF runs_table_Now], rule runs_bind [OF runs_table_release [OF assms(1)]],
      rule runs_bind [OF runs_table_gauges], rule runs_claim_one [OF assms(2-4)])

section \<open>From request to result\<close>

text \<open>
  A request, then what executes tasks: the goroutines that the request started with
  \<^verbatim>\<open>go s.runTask(...)\<close>, and a turn of the worker with the goroutines of what it claimed, in
  either order. \<^verbatim>\<open>main\<close> starts the worker exactly when in process execution is off.
\<close>

primrec run_goroutines :: "taskService \<Rightarrow> (int \<times> taskPayload) list \<Rightarrow> (world, unit) state" where
  "run_goroutines s [] = ret ()"
| "run_goroutines s (g # gs) = do { _ \<leftarrow> runTask s (fst g) (snd g); run_goroutines s gs }"

definition take_spawned :: "(world, (int \<times> taskPayload) list) state" where
  "take_spawned = State (\<lambda>w. (spawned w, w\<lparr>spawned := []\<rparr>))"

primrec run_claimed :: "taskService \<Rightarrow> string \<Rightarrow> Task list \<Rightarrow> (world, unit) state" where
  "run_claimed s wid [] = ret ()"
| "run_claimed s wid (task # ts) = do { _ \<leftarrow> runClaimedTask s wid task; run_claimed s wid ts }"

definition run_worker_turn :: "taskService \<Rightarrow> TaskWorkerOptions \<Rightarrow> (world, unit) state" where
  "run_worker_turn s opts =
     (if ts_AsyncExecution s then ret ()
      else do {
        claimed \<leftarrow> worker_turn s opts [] 0;
        run_claimed s (wo_WorkerID opts) (fst claimed)
      })"

definition serve_docker_restart ::
  "taskService \<Rightarrow> TaskWorkerOptions \<Rightarrow> bool \<Rightarrow> CreateDockerRestartTaskRequest \<Rightarrow> int option \<Rightarrow> string \<Rightarrow>
   (world, CreateTaskResult result) state" where
  "serve_docker_restart s opts workerFirst req u un = do {
     created \<leftarrow> CreateDockerRestartTask s req u un;
     started \<leftarrow> take_spawned;
     (if workerFirst then do { run_worker_turn s opts; run_goroutines s started }
      else do { run_goroutines s started; run_worker_turn s opts });
     ret created
   }"

text \<open>The task that the request creates, and the worker's copy of it.\<close>

definition docker_payload :: "string \<Rightarrow> taskPayload" where
  "docker_payload cid =
     empty_payload\<lparr>pl_Operation := taskOperationDockerRestart, pl_ContainerID := TrimSpace cid\<rparr>"

lemma created_row_simps [simp]:
  "task_ID (created_row s ty p u key n c) = n"
  "task_Status (created_row s ty p u key n c) = ''pending''"
  "task_Payload (created_row s ty p u key n c) = marshalTaskPayload p"
  "claimable c' (created_row s ty p u key n c)"
  "\<not> stale c' (created_row s ty p u key n c)"
  by (simp_all add: created_row_def new_task_def TaskStatusPending_def claimable_def stale_def)

lemma claim_row_simps [simp]:
  "task_ID (claim_row wid u c r) = task_ID r" "task_Status (claim_row wid u c r) = ''running''"
  "task_Payload (claim_row wid u c r) = task_Payload r"
  "task_LockedBy (claim_row wid u c r) = Some wid" "\<not> claimable c' (claim_row wid u c r)"
  by (simp_all add: claim_row_def claimable_def)

lemma unmarshal_docker_payload:
  "TrimSpace cid \<noteq> [] \<Longrightarrow>
     unmarshalTaskPayload (marshalTaskPayload (docker_payload cid)) = Inr (docker_payload cid)"
  by (rule unmarshal_marshal)
    (simp_all add: valid_payload_def docker_payload_def empty_payload_def task_operation_defs int64_def)

lemma tables_at_row:
  "tables_at ts n c l w \<Longrightarrow> first_where (\<lambda>r. task_ID r = i) ts = Some r \<Longrightarrow> at_row i r c l w"
  by (simp add: tables_at_def at_row_def find_task_def)

lemma runs_new_docker_task:
  assumes "TrimSpace (cdr_ContainerID req) \<noteq> []" "ts_dockerService s = Some conn"
    "normalizeTaskIdempotencyKey (cdr_IdempotencyKey req) = Inr key"
    "case key of None \<Rightarrow> True | Some k \<Rightarrow> \<forall>r \<in> set ts. task_IdempotencyKey r \<noteq> Some k"
  defines "p \<equiv> docker_payload (cdr_ContainerID req)"
  shows "runs (spawned_at [] ts n c l) (CreateDockerRestartTask s req u un)
    (Inr \<lparr>ctr_ID = n, ctr_Type = TaskTypeDockerRestart, ctr_Status = ''pending''\<rparr>)
    (spawned_at (if ts_AsyncExecution s then [(n, p)] else [])
      (ts @ [created_row s TaskTypeDockerRestart p u key n c]) (n + 1) c l)"
proof -
  have "CreateDockerRestartTask s req u un = createAndRunTask s TaskTypeDockerRestart p u un key"
    using assms(1-3) by (simp add: CreateDockerRestartTask_def p_def docker_payload_def Let_def)
  then show ?thesis
    by (simp only:) (rule runs_createAndRunTask_spawned [OF assms(4)])
qed

lemma runs_take_spawned: "runs (spawned_at sp ts n c l) take_spawned sp (tables_at ts n c l)"
  by (auto intro!: runsI simp: take_spawned_def spawned_at_def tables_at_def)

text \<open>The in-process execution of a docker restart that the agent accepts, once it is under way.\<close>

lemma runs_runTask_docker_from:
  assumes "runs P (isCanceled i) False P'" "runs P' (setRunningProgress i 5) True (at_row i (progress_row 5 c r) c l)"
    and op: "pl_Operation p = taskOperationDockerRestart" "ts_dockerService s = Some conn"
    "answer (conn_docker conn l (RestartDockerContainerReq (pl_ContainerID p))) = Inr res"
  shows "runs P (runTask s i p) (Done ())
    (at_row i (status_row ''success'' 100 [] c r) c (l @ [RestartDockerContainerReq (pl_ContainerID p)]))"
proof -
  let ?l = "l @ [RestartDockerContainerReq (pl_ContainerID p)]"
  have run: "runs (at_row i (progress_row 5 c r) c l) (runTask_operation s i p) (Done True)
      (at_row i (progress_row 85 c r) c ?l)"
    unfolding runTask_operation_def if_P [OF op(1)]
    by (auto simp: op map_agent_result_def
        intro!: runs_seq runs_bind [OF runs_docker_restart [OF op(2)]])
  have finish: "runs (at_row i (progress_row 85 c r) c ?l) (taskRepo_UpdateStatus i TaskStatusSuccess 100 [])
      (Inr ()) (at_row i (status_row ''success'' 100 [] c r) c ?l)"
    using runs_UpdateStatus [of "''success''" 100 i "progress_row 85 c r" c ?l "[]"]
    by (simp add: TaskStatusSuccess_def task_check_def)
  show ?thesis unfolding runTask_def
    by (rule runs_bind [OF assms(1)], simp only: if_False, rule runs_bind [OF assms(2)])
      (auto intro!: runs_log_then runs_bind [OF runs_not_canceled] runs_bind [OF run] runs_bind [OF finish])
qed

lemma runs_runTask_docker:
  assumes "pl_Operation p = taskOperationDockerRestart" "ts_dockerService s = Some conn"
    "task_Status r \<noteq> ''canceled''"
    "answer (conn_docker conn l (RestartDockerContainerReq (pl_ContainerID p))) = Inr res"
  shows "runs (at_row i r c l) (runTask s i p) (Done ())
    (at_row i (status_row ''success'' 100 [] c r) c (l @ [RestartDockerContainerReq (pl_ContainerID p)]))"
  by (rule runs_runTask_docker_from [OF runs_not_canceled [OF assms(3)] _ assms(1,2,4)])
    (rule runs_setRunningProgress [OF assms(3)], simp_all)

text \<open>
  \<^verbatim>\<open>isCanceled\<close> answers no when it cannot read the task: when both reads before the first
  progress fail, the task is set running again.
\<close>

definition blind_at :: "go_error list \<Rightarrow> int \<Rightarrow> Task \<Rightarrow> time \<Rightarrow> rpc_request list \<Rightarrow> world \<Rightarrow> bool" where
  "blind_at es i r c l w = (sched w = map (\<lambda>e. quiet\<lparr>fault := Some e\<rparr>) es \<and>
     find_task i (tbl w) = Some r \<and> clock w = c \<and> rpc_log w = l)"

lemma runs_blind:
  "runs (blind_at (e # es) i r c l) (isCanceled i) False (blind_at es i r c l)"
  by (auto intro!: runsI simp: blind_at_def isCanceled_def taskRepo_GetByID_def dbcall_def enter_def quiet_def)

lemma runs_blind_progress:
  "runs (blind_at [e] i r c l) (setRunningProgress i 5) True (at_row i (progress_row 5 c r) c l)"
proof -
  have at: "blind_at [] i r c l w \<Longrightarrow> at_row i r c l w" for w
    by (simp add: blind_at_def at_row_def)
  have "runs (blind_at [] i r c l) (taskRepo_UpdateStatus i ''running'' 5 []) (Inr ()) (at_row i (progress_row 5 c r) c l)"
    by (rule runs_weaken [OF runs_UpdateStatus at]) (simp_all add: task_check_def)
  then show ?thesis unfolding setRunningProgress_def TaskStatusRunning_def
    by (intro runs_bind [OF runs_blind]) (simp, rule runs_bind, assumption, simp)
qed

lemma claimable_snoc:
  assumes "\<forall>r \<in> set ts. terminal r \<and> task_ID r \<noteq> task_ID new" "claimable c new"
  shows "filter (claimable c) (ts @ [new]) = [new]"
    "filter (claimable c) (update_where (\<lambda>x. task_ID x = task_ID new) (claim_row wid u c) (ts @ [new])) = []"
    "first_where (\<lambda>x. task_ID x = task_ID new)
       (update_where (\<lambda>x. task_ID x = task_ID new) (claim_row wid u c) (ts @ [new])) =
       Some (claim_row wid u c new)"
proof -
  have ts: "filter (claimable c) ts = []"
    using assms(1) frozen_not_leased by (auto simp: filter_empty_conv)
  have upd: "update_where (\<lambda>x. task_ID x = task_ID new) f ts = ts" for f
    using assms(1) by (simp add: update_where_none)
  have app: "update_where p f (ts @ [new]) = update_where p f ts @ update_where p f [new]" for p f
    by (simp add: update_where_def)
  show "filter (claimable c) (ts @ [new]) = [new]" using ts assms(2) by simp
  show "filter (claimable c) (update_where (\<lambda>x. task_ID x = task_ID new) (claim_row wid u c) (ts @ [new])) = []"
    using ts upd by (simp add: app)
  have "first_where (\<lambda>x. task_ID x = task_ID new) ts = None"
    using assms(1) by (simp add: first_where_None)
  then show "first_where (\<lambda>x. task_ID x = task_ID new)
       (update_where (\<lambda>x. task_ID x = task_ID new) (claim_row wid u c) (ts @ [new])) =
       Some (claim_row wid u c new)"
    using upd by (simp add: app)
qed

text \<open>The two ways to execute the new task, after which it is successful and one request was sent.\<close>

lemma runs_docker_turn:
  fixes c :: time and u :: "int option" and key :: "string option"
  assumes "TrimSpace cid \<noteq> []" "ts_dockerService s = Some conn"
    and ts: "\<forall>r \<in> set ts. terminal r \<and> task_ID r \<noteq> n" and opts: "1 \<le> wo_Concurrency opts"
    and ok: "answer (conn_docker conn l (RestartDockerContainerReq (TrimSpace cid))) = Inr res"
    and sync: "\<not> ts_AsyncExecution s"
  defines "row \<equiv> created_row s TaskTypeDockerRestart (docker_payload cid) u key n c"
  defines "held \<equiv> claim_row (wo_WorkerID opts) (c + wo_LeaseDuration opts) c row"
  shows "runs (tables_at (ts @ [row]) (n + 1) c l) (run_worker_turn s opts) ()
    (at_row n (complete_row (JObj []) c (progress_row 85 c held)) c (l @ [RestartDockerContainerReq (TrimSpace cid)]))"
proof -
  have id: "task_ID row = n" "claimable c row" by (simp_all add: row_def)
  have ts': "\<forall>r \<in> set ts. terminal r \<and> task_ID r \<noteq> task_ID row" using ts id by simp
  note snoc = claimable_snoc [OF ts' id(2)]
  have stale: "\<forall>r \<in> set (ts @ [row]). \<not> stale c r"
    using ts frozen_not_leased by (auto simp: row_def)
  have turn: "runs (tables_at (ts @ [row]) (n + 1) c l) (worker_turn s opts [] 0) ([held], 1)
      (at_row n held c l)"
    unfolding held_def
    by (rule runs_weaken [OF runs_turn_one [OF stale snoc(1) opts snoc(2)]])
      (use tables_at_row [OF _ snoc(3)] in \<open>auto simp: id(1)\<close>)
  have pl: "unmarshalTaskPayload (task_Payload held) = Inr (docker_payload cid)"
    using unmarshal_docker_payload [OF assms(1)] by (simp add: held_def row_def)
  have op: "runs (at_row n (progress_row 5 c held) c l)
      (executeTaskOperation s n (docker_payload cid) (wo_WorkerID opts))
      (Done (Inr ())) (at_row n (progress_row 85 c held) c (l @ [RestartDockerContainerReq (TrimSpace cid)]))"
    using runs_docker_operation [of "docker_payload cid" s conn "progress_row 5 c held" l "Inr res"] assms(2) ok
    by (simp add: docker_payload_def)
  have run: "runs (at_row n held c l) (runClaimedTask s (wo_WorkerID opts) held) (Done ())
      (at_row n (complete_row (JObj []) c (progress_row 85 c held)) c (l @ [RestartDockerContainerReq (TrimSpace cid)]))"
    using runs_claimed [OF pl _ _ op] by (simp add: held_def id)
  show ?thesis unfolding run_worker_turn_def if_not_P [OF sync]
    by (rule runs_bind [OF turn], simp) (rule runs_bind [OF run], simp)
qed

lemma runs_docker_goroutine:
  fixes c :: time and u :: "int option" and key :: "string option"
  assumes "ts_dockerService s = Some conn" and ts: "\<forall>r \<in> set ts. task_ID r \<noteq> n"
    and ok: "answer (conn_docker conn l (RestartDockerContainerReq (TrimSpace cid))) = Inr res"
  defines "row \<equiv> created_row s TaskTypeDockerRestart (docker_payload cid) u key n c"
  shows "runs (tables_at (ts @ [row]) (n + 1) c l) (run_goroutines s [(n, docker_payload cid)]) ()
    (at_row n (status_row ''success'' 100 [] c row) c (l @ [RestartDockerContainerReq (TrimSpace cid)]))"
proof -
  have row: "task_ID row = n" "task_Status row \<noteq> ''canceled''" by (simp_all add: row_def)
  have "first_where (\<lambda>x. task_ID x = n) ts = None"
    using ts by (simp add: first_where_None)
  then have "first_where (\<lambda>r. task_ID r = n) (ts @ [row]) = Some row"
    using row by simp
  note at = tables_at_row [OF _ this]
  have op: "pl_Operation (docker_payload cid) = taskOperationDockerRestart"
    "pl_ContainerID (docker_payload cid) = TrimSpace cid"
    by (simp_all add: docker_payload_def)
  have "runs (tables_at (ts @ [row]) (n + 1) c l) (runTask s n (docker_payload cid)) (Done ())
      (at_row n (status_row ''success'' 100 [] c row) c (l @ [RestartDockerContainerReq (TrimSpace cid)]))"
    using runs_runTask_docker [OF op(1) assms(1) row(2), unfolded op(2), OF ok]
    by (rule runs_weaken) (use at in simp_all)
  then show ?thesis
    unfolding run_goroutines.simps fst_conv snd_conv by (rule runs_bind) simp
qed

lemma runs_serve_docker_restart:
  fixes c :: time and u :: "int option"
  assumes req: "TrimSpace (cdr_ContainerID req) \<noteq> []" "ts_dockerService s = Some conn"
    "normalizeTaskIdempotencyKey (cdr_IdempotencyKey req) = Inr key"
    "case key of None \<Rightarrow> True | Some k \<Rightarrow> \<forall>r \<in> set ts. task_IdempotencyKey r \<noteq> Some k"
    and ts: "\<forall>r \<in> set ts. terminal r \<and> task_ID r \<noteq> n"
    and opts: "1 \<le> wo_Concurrency opts"
    and ok: "answer (conn_docker conn l (RestartDockerContainerReq (TrimSpace (cdr_ContainerID req)))) = Inr res"
  shows "\<exists>r. task_Status r = ''success'' \<and>
    runs (spawned_at [] ts n c l) (serve_docker_restart s opts workerFirst req u un)
      (Inr \<lparr>ctr_ID = n, ctr_Type = TaskTypeDockerRestart, ctr_Status = ''pending''\<rparr>)
      (at_row n r c (l @ [RestartDockerContainerReq (TrimSpace (cdr_ContainerID req))]))"
proof -
  let ?p = "docker_payload (cdr_ContainerID req)"
  let ?row = "created_row s TaskTypeDockerRestart ?p u key n c"
  let ?started = "if ts_AsyncExecution s then [(n, ?p)] else []"
  let ?held = "claim_row (wo_WorkerID opts) (c + wo_LeaseDuration opts) c ?row"
  let ?r = "if ts_AsyncExecution s then status_row ''success'' 100 [] c ?row
    else complete_row (JObj []) c (progress_row 85 c ?held)"
  let ?done = "at_row n ?r c (l @ [RestartDockerContainerReq (TrimSpace (cdr_ContainerID req))])"
  have ids: "\<forall>r \<in> set ts. task_ID r \<noteq> n" using ts by blast
  note goroutine = runs_docker_goroutine [OF req(2) ids ok, of u key c]
  note turn = runs_docker_turn [OF req(1,2) ts opts ok, of u key c]
  have "runs (tables_at (ts @ [?row]) (n + 1) c l)
      (if workerFirst then do { run_worker_turn s opts; run_goroutines s ?started }
       else do { run_goroutines s ?started; run_worker_turn s opts }) () ?done"
  proof (cases "ts_AsyncExecution s")
    case True
    then have "run_worker_turn s opts = ret ()" by (simp add: run_worker_turn_def)
    with goroutine True show ?thesis by (auto intro: runs_bind)
  next
    case False
    with turn [OF False] show ?thesis by (auto intro: runs_bind)
  qed
  then have "runs (spawned_at [] ts n c l) (serve_docker_restart s opts workerFirst req u un)
      (Inr \<lparr>ctr_ID = n, ctr_Type = TaskTypeDockerRestart, ctr_Status = ''pending''\<rparr>) ?done"
    unfolding serve_docker_restart_def
    by (intro runs_bind [OF runs_new_docker_task [OF req]] runs_bind [OF runs_take_spawned])
      (rule runs_bind, assumption, simp)
  then show ?thesis by (intro exI [of _ ?r]) (simp add: complete_row_def)
qed

section \<open>The bound on concurrent executions\<close>

lemma claimAvailableTasks_bound:
  "snd (fst (run_state (claimAvailableTasks s opts freed inUse) w)) \<le> max inUse (nat (wo_Concurrency opts))"
proof (induction s opts freed inUse arbitrary: w rule: claimAvailableTasks.induct)
  case (1 s opts freed inUse)
  define held where "held = inUse - (case freed of [] \<Rightarrow> 0 | n # _ \<Rightarrow> n)"
  have le: "held \<le> inUse" by (simp add: held_def)
  show ?case
  proof (cases "held < nat (wo_Concurrency opts)")
    case False
    with le show ?thesis
      by (subst claimAvailableTasks.simps) (simp add: held_def [symmetric] Let_def)
  next
    case True
    have "snd (fst (run_state (claimAvailableTasks s opts (tl freed) (Suc held)) v))
        \<le> nat (wo_Concurrency opts)" for v
      using 1 [OF held_def, of v] True by simp
    with le True show ?thesis
      by (subst claimAvailableTasks.simps)
        (auto simp: held_def [symmetric] Let_def observe_if_def split_beta le_max_iff_disj
          split: sum.splits option.splits)
  qed
qed

end
