(* ===== verification/TaskTheorems.thy ===== *)
theory TaskTheorems
  imports TaskPipeline
begin

text \<open>
  The properties of the task queue, each with a concrete instance where it has hypotheses.
  The instances use a small service: an agent that accepts every request, one task in the
  table, a worker \<open>w1\<close>.
\<close>

definition ex_lib :: golib where
  "ex_lib = \<lparr>lower_uni = id, fold_uni = (=), quote = id\<rparr>"

definition ex_conn :: agent_conn where
  "ex_conn = \<lparr>conn_docker = (\<lambda>l q. Response (Some (0, [], [])) \<lparr>dca_ID = ''c1'', dca_State = ''running''\<rparr>),
     conn_service = (\<lambda>l q. CallError (GrpcStatus 5 ''no such unit'')),
     conn_containers = (\<lambda>l. Response None []), conn_images = (\<lambda>l. Response None []),
     conn_services = (\<lambda>l k. Response None [])\<rparr>"

definition ex_service :: taskService where
  "ex_service = \<lparr>ts_dockerService = Some ex_conn, ts_serviceManager = Some ex_conn,
     ts_backupService = None, ts_AsyncExecution = False, ts_MaxAttempts = 3, ts_metrics = True,
     ts_lib = ex_lib, ts_jsonText = (\<lambda>_. []), ts_timeText = (\<lambda>_. [])\<rparr>"

definition ex_task :: Task where
  "ex_task = \<lparr>task_ID = 1, task_Type = ''docker_restart'', task_Status = ''running'', task_Progress = 0,
     task_Payload = JObj [(''operation'', JStr ''docker.restart''), (''container_id'', JStr ''c1'')],
     task_Result = JObj [], task_ErrorMsg = [], task_TriggeredBy = None, task_HostID = None,
     task_LockedBy = Some ''w1'', task_LockedUntil = Some 30, task_Attempt = 1, task_MaxAttempts = 3,
     task_IdempotencyKey = Some ''k'', task_NextRunAt = None, task_StartedAt = Some 0,
     task_FinishedAt = None, task_CreatedAt = 0, task_UpdatedAt = 0\<rparr>"

definition ex_tables :: "Task \<Rightarrow> tables" where
  "ex_tables r = empty_tables\<lparr>tasks := [r], tasks_seq := 2\<rparr>"

definition ex_world :: "Task \<Rightarrow> world" where
  "ex_world r = init_world\<lparr>tbl := ex_tables r\<rparr>"

lemma ex_inv: "task_inv (ex_tables ex_task)"
  by (simp add: task_inv_def ex_tables_def empty_tables_def task_keys_def task_keys_ok_def
      task_row_ok_def task_check_def ex_task_def)

lemma ex_payload: "unmarshalTaskPayload (task_Payload ex_task) =
  Inr (empty_payload\<lparr>pl_Operation := ''docker.restart'', pl_ContainerID := ''c1''\<rparr>)"
  by code_simp

lemma ex_conn_simps [simp]:
  "conn_docker ex_conn l q = Response (Some (0, [], [])) \<lparr>dca_ID = ''c1'', dca_State = ''running''\<rparr>"
  "conn_service ex_conn l q = CallError (GrpcStatus 5 ''no such unit'')"
  by (simp_all add: ex_conn_def)

lemmas ex_defs = ex_lib_def ex_service_def ex_task_def ex_tables_def ex_world_def
  init_world_def empty_tables_def

section \<open>Invariants under interference\<close>

text \<open>
  C1. The invariant of the task table (status and progress within the schema's CHECKs,
  attempts within the limit, a lease holder exactly when there is a lease deadline, no lease
  on a pending task, unique positive ids below the sequence, unique idempotency keys) is kept
  by every sequence of operations of the task service and the worker, with calls failing
  anywhere and with other parties running any statements of the repository in between.
\<close>

theorem task_table_invariant:
  assumes "task_inv (tbl w)" "rely task_step w"
  shows "task_inv (tbl (snd (run_state (run_ops s ops) w)))"
  by (rule steps_invariant [OF keepsD [OF task_steps.any_ops [OF HOL.refl]] assms(2)])
    (auto intro: task_inv_step assms(1))

definition ex_busy_world :: world where
  "ex_busy_world = init_world\<lparr>sched := [\<lparr>env = (\<lambda>t. snd (sql_ReleaseStaleTasks 9 9 t)), tick = 1,
     fault = None\<rparr>, \<lparr>env = id, tick = 1, fault = Some (Lib ''timeout'')\<rparr>]\<rparr>"

lemma ex_busy_rely: "rely task_step ex_busy_world"
  by (auto simp: rely_def ex_busy_world_def init_world_def task_step_def
      intro!: r_into_rtranclp lease_step.release)

theorem task_table_invariant_witness:
  "task_inv (tbl (snd (run_state (run_ops ex_service
     [OpCreateDockerRestart \<lparr>cdr_ContainerID = ''c1'', cdr_IdempotencyKey = ''k''\<rparr> None ''root'',
      OpCancel 1 ''root'']) ex_busy_world)))"
  by (rule task_table_invariant [OF _ ex_busy_rely])
    (simp add: ex_busy_world_def init_world_def task_inv_empty)

text \<open>
  The invariant of the backup table (known status, non-negative size, unique positive ids
  below the sequence) is kept by every sequence of task operations, which create backups,
  write and verify artifacts, under the same interference.
\<close>

theorem backup_table_invariant:
  assumes "backup_inv (tbl w)" "rely backup_step w"
  shows "backup_inv (tbl (snd (run_state (run_ops s ops) w)))"
  by (rule steps_invariant [OF keepsD [OF task_backup_steps.any_ops [OF HOL.refl]] assms(2)])
    (auto intro: backup_inv_step assms(1))

theorem backup_table_invariant_witness:
  "backup_inv (tbl (snd (run_state (run_ops ex_service
     [OpCreateBackup \<lparr>cbt_ResourceType = ''postgres'', cbt_ResourceID = ''main'',
        cbt_StorageType = [], cbt_FilePath = [], cbt_IdempotencyKey = []\<rparr> None ''root'']) init_world)))"
  by (rule backup_table_invariant)
    (simp_all add: init_world_def backup_inv_def empty_tables_def rely_def)

text \<open>
  C21. The task log is append-only under every sequence of operations, and what they append
  has the value of every sensitive key, at any depth of the metadata, replaced by the mask.
\<close>

theorem task_log_redacted:
  assumes "rely (log_step (lower_uni (ts_lib s))) w"
  shows "\<exists>new. task_logs (tbl (snd (run_state (run_ops s ops) w))) = task_logs (tbl w) @ new \<and>
    list_all (\<lambda>l. masked (lower_uni (ts_lib s)) (log_Metadata l)) new"
proof -
  let ?R = "log_step (lower_uni (ts_lib s))"
  have trans: "log_step u t t' \<Longrightarrow> log_step u t' t'' \<Longrightarrow> log_step u t t''" for u t t' t''
    by (fastforce simp: log_step_def)
  have "?R (tbl w) (tbl (snd (run_state (run_ops s ops) w)))"
    by (rule steps_invariant [OF keepsD [OF log_steps.any_ops [OF HOL.refl]] assms])
      (auto intro: trans log_step_same)
  then show ?thesis by (simp add: log_step_def)
qed

theorem task_log_redacted_witness:
  "\<exists>new. task_logs (tbl (snd (run_state (run_ops ex_service [OpCancel 1 ''root'']) (ex_world ex_task)))) =
     task_logs (tbl (ex_world ex_task)) @ new \<and>
     list_all (\<lambda>l. masked (lower_uni (ts_lib ex_service)) (log_Metadata l)) new"
  by (rule task_log_redacted) (simp add: rely_def ex_world_def init_world_def)

section \<open>Leases\<close>

text \<open>
  What anybody else can do while \<open>w\<close> holds a lease up to \<open>u\<close>: create and claim tasks, the
  guarded statements of other workers, a sweep at a time up to the deadline, and, if \<open>b\<close>,
  the unguarded \<^verbatim>\<open>UpdateStatus\<close> of \<^verbatim>\<open>setRunningProgress\<close>, \<^verbatim>\<open>runTask\<close> and \<^verbatim>\<open>CancelTask\<close>,
  which a worker that lost its lease issues as well.
\<close>

inductive rival_step :: "bool \<Rightarrow> string \<Rightarrow> time \<Rightarrow> tables \<Rightarrow> tables \<Rightarrow> bool" for b w u where
  create: "fresh_task task \<Longrightarrow> rival_step b w u t (snd (sql_CreateTask task now t))"
| claim: "rival_step b w u t (snd (sql_ClaimNextTask workerID lockedUntil now t))"
| heartbeat: "w' \<noteq> w \<Longrightarrow> rival_step b w u t (snd (sql_HeartbeatTask j w' lockedUntil now t))"
| complete: "w' \<noteq> w \<Longrightarrow> rival_step b w u t (snd (sql_CompleteTask j w' res now t))"
| fail: "w' \<noteq> w \<Longrightarrow> rival_step b w u t (snd (sql_FailTask j w' msg nextRunAt now t))"
| release: "now \<le> u \<Longrightarrow> rival_step b w u t (snd (sql_ReleaseStaleTasks now upd t))"
| update: "b \<Longrightarrow> st \<in> {''running'', ''success'', ''failed'', ''canceled''} \<Longrightarrow>
    rival_step b w u t (snd (sql_UpdateStatus j st progress msg now t))"
| other: "tasks t' = tasks t \<Longrightarrow> tasks_seq t' = tasks_seq t \<Longrightarrow> rival_step b w u t t'"

lemma rival_task_step: "rival_step b w u t t' \<Longrightarrow> task_step t t'"
  unfolding task_step_def
  by (induction rule: rival_step.induct) (auto intro: lease_step.intros status_step.intros)

lemma rival_step_row:
  assumes "rival_step b w u t t'" "task_inv t" "find_task i t = Some r"
    "task_LockedBy r = Some w" "task_LockedUntil r = Some u" "task_Status r \<noteq> ''pending''"
  shows "find_task i t' = Some r \<or> b \<and> (\<exists>st p msg c. st \<noteq> ''pending'' \<and> find_task i t' = Some (status_row st p msg c r))"
proof -
  have n: "\<not> claimable c r" "w' \<noteq> w \<Longrightarrow> \<not> holds_lease j w' r" "c \<le> u \<Longrightarrow> \<not> stale c r" for c w' j
    using assms(4-6) by (auto simp: claimable_def holds_lease_def stale_def)
  note frame = find_task_update_frame [OF assms(3)]
  from assms(1) show ?thesis
  proof cases
    case (create task now)
    then show ?thesis using find_task_create [OF assms(2,3)] by simp
  next
    case (claim wid d now)
    then show ?thesis using find_task_claim_other [OF assms(2,3)] n(1) by simp
  next
    case (update st j p msg now)
    then have st: "st \<noteq> ''pending''" by auto
    have "find_task i t' = Some r \<or> find_task i t' = Some (status_row st p msg now r)"
      using update assms(3) by (simp add: sql_UpdateStatus_def find_task_update status_row_def)
    with update(2) st show ?thesis by (metis (full_types))
  next
    case other
    then show ?thesis using assms(3) by (simp add: find_task_def)
  qed (simp_all add: sql_HeartbeatTask_def sql_CompleteTask_def sql_FailTask_def fail_row_def
      sql_ReleaseStaleTasks_def frame n Let_def)
qed

text \<open>
  C2. While a worker holds a lease that has not expired, nothing that other parties do takes
  the task from it, however many of their statements run: claims, the guarded statements of
  other workers and sweeps at times up to the deadline leave the row as it is; the unguarded
  \<^verbatim>\<open>UpdateStatus\<close>, which a worker that lost its lease issues too, may still overwrite its
  status, progress, error message and time of change, but not the lease, the attempt, the
  payload, the result or any other column, and never makes it pending. The exclusivity is
  thus one of the lease and not of the status: \<^verbatim>\<open>setRunningProgress\<close> is not guarded by it.
\<close>

theorem lease_exclusive:
  assumes "(rival_step b w u)\<^sup>*\<^sup>* t t'" "task_inv t" "find_task i t = Some r" "holds_lease i w r"
    "task_LockedUntil r = Some u"
  shows "\<exists>st p msg c. st \<noteq> ''pending'' \<and>
    find_task i t' = Some (r\<lparr>task_Status := st, task_Progress := p, task_ErrorMsg := msg, task_UpdatedAt := c\<rparr>) \<and>
    (\<not> b \<longrightarrow> find_task i t' = Some r)"
proof -
  have r: "task_LockedBy r = Some w" "task_Status r \<noteq> ''pending''"
    using assms(4) by (auto simp: holds_lease_def)
  have self: "r = status_row (task_Status r) (task_Progress r) (task_ErrorMsg r) (task_UpdatedAt r) r"
    by (simp add: status_row_def)
  from assms(1) have "task_inv t' \<and> (\<exists>st p msg c. st \<noteq> ''pending'' \<and>
      find_task i t' = Some (status_row st p msg c r)) \<and> (\<not> b \<longrightarrow> find_task i t' = Some r)"
  proof (induction rule: rtranclp_induct)
    case base
    from r(2) self assms(2,3) show ?case by metis
  next
    case (step x y)
    from step.IH obtain st p msg c where x: "task_inv x" "st \<noteq> ''pending''"
      "find_task i x = Some (status_row st p msg c r)" "\<not> b \<longrightarrow> find_task i x = Some r"
      by blast
    have lease: "task_LockedBy (status_row st p msg c r) = Some w"
      "task_LockedUntil (status_row st p msg c r) = Some u" "task_Status (status_row st p msg c r) \<noteq> ''pending''"
      using r assms(5) x(2) by (simp_all add: status_row_def)
    have "task_inv y" using task_inv_step [OF rival_task_step [OF step.hyps(2)] x(1)] .
    moreover note rival_step_row [OF step.hyps(2) x(1,3) lease]
    ultimately show ?case using x(2,4) x(3) by auto
  qed
  then show ?thesis by (auto simp: status_row_def)
qed

theorem lease_exclusive_witness:
  "\<exists>st p msg c. st \<noteq> ''pending'' \<and>
     find_task 1 (snd (sql_UpdateStatus 1 ''running'' 30 [] 25
       (snd (sql_ReleaseStaleTasks 30 30 (snd (sql_CompleteTask 1 ''w2'' (JObj []) 20
         (snd (sql_ClaimNextTask ''w2'' 70 20 (ex_tables ex_task))))))))) =
     Some (ex_task\<lparr>task_Status := st, task_Progress := p, task_ErrorMsg := msg, task_UpdatedAt := c\<rparr>) \<and>
     (\<not> True \<longrightarrow> find_task 1 (snd (sql_UpdateStatus 1 ''running'' 30 [] 25
       (snd (sql_ReleaseStaleTasks 30 30 (snd (sql_CompleteTask 1 ''w2'' (JObj []) 20
         (snd (sql_ClaimNextTask ''w2'' 70 20 (ex_tables ex_task))))))))) = Some ex_task)"
proof (rule lease_exclusive [of True "''w1''" 30 "ex_tables ex_task"])
  let ?R = "rival_step True ''w1'' 30" and ?t0 = "ex_tables ex_task"
  let ?t1 = "snd (sql_ClaimNextTask ''w2'' 70 20 ?t0)"
  let ?t2 = "snd (sql_CompleteTask 1 ''w2'' (JObj []) 20 ?t1)"
  let ?t3 = "snd (sql_ReleaseStaleTasks 30 30 ?t2)"
  let ?t4 = "snd (sql_UpdateStatus 1 ''running'' 30 [] 25 ?t3)"
  have s: "?R ?t0 ?t1" "?R ?t1 ?t2" "?R ?t2 ?t3" "?R ?t3 ?t4"
    by (rule rival_step.claim, rule rival_step.complete, simp, rule rival_step.release, simp,
        rule rival_step.update, simp_all)
  note step = rtranclp.rtrancl_into_rtrancl [of ?R ?t0]
  have "?R\<^sup>*\<^sup>* ?t0 ?t1" by (rule r_into_rtranclp) (rule s(1))
  then have "?R\<^sup>*\<^sup>* ?t0 ?t2" by (rule step) (rule s(2))
  then have "?R\<^sup>*\<^sup>* ?t0 ?t3" by (rule step) (rule s(3))
  then show "?R\<^sup>*\<^sup>* ?t0 ?t4" by (rule step) (rule s(4))
qed (simp_all add: ex_inv, simp_all add: ex_defs find_task_def holds_lease_def)

text \<open>
  A claim takes the oldest claimable task (pending, due, attempts left), stores the lease
  and the running status in its row, counts the attempt, and returns the row as stored.
\<close>

theorem claim_takes_oldest:
  assumes "task_inv t" "sql_ClaimNextTask w u now t = (Inr (Some r), t')"
  shows "\<exists>c. find_task (task_ID r) t = Some c \<and> claimable now c \<and>
    (\<forall>x \<in> set (tasks t). claimable now x \<longrightarrow> task_CreatedAt c \<le> task_CreatedAt x) \<and>
    find_task (task_ID r) t' = Some r \<and> holds_lease (task_ID r) w r \<and>
    task_LockedUntil r = Some u \<and> task_Attempt r = task_Attempt c + 1 \<and>
    task_Attempt r \<le> task_MaxAttempts r"
proof -
  obtain c where c: "find_task (task_ID c) t = Some c" "claimable now c" "r = claim_row w u now c"
    "find_task (task_ID c) t' = Some r"
    "\<forall>x \<in> set (tasks t). claimable now x \<longrightarrow> task_CreatedAt c \<le> task_CreatedAt x"
    using claim_result [OF assms] by blast
  moreover have "task_Attempt c < task_MaxAttempts c" using c(2) by (simp add: claimable_def)
  ultimately show ?thesis by (auto simp: claim_row_def holds_lease_def)
qed

theorem claim_takes_oldest_witness:
  "\<exists>c. find_task 1 (ex_tables (ex_task\<lparr>task_Status := ''pending'', task_LockedBy := None,
      task_LockedUntil := None\<rparr>)) = Some c \<and> task_Attempt c + 1 = 2"
proof -
  let ?p = "ex_task\<lparr>task_Status := ''pending'', task_LockedBy := None, task_LockedUntil := None\<rparr>"
  let ?r = "claim_row ''w2'' 40 10 ?p"
  have "task_inv (ex_tables ?p)"
    by (simp add: task_inv_def task_keys_def task_keys_ok_def task_row_ok_def task_check_def ex_defs)
  moreover have "sql_ClaimNextTask ''w2'' 40 10 (ex_tables ?p) =
      (Inr (Some ?r), snd (sql_ClaimNextTask ''w2'' 40 10 (ex_tables ?p)))"
    by (simp add: sql_ClaimNextTask_def order_asc_def claimable_def ex_defs)
  ultimately have "\<exists>c. find_task (task_ID ?r) (ex_tables ?p) = Some c \<and> task_Attempt ?r = task_Attempt c + 1"
    using claim_takes_oldest by blast
  then show ?thesis by (simp add: claim_row_def ex_task_def)
qed

text \<open>
  C16. A finished task (success, failed, canceled) is final for creations, claims, heartbeats,
  completions, failures and sweeps, in any number and order, whoever makes them.
\<close>

theorem finished_stays_finished:
  assumes "lease_step\<^sup>*\<^sup>* t t'" "task_inv t" "find_task i t = Some r" "terminal r"
  shows "find_task i t' = Some r"
  using lease_steps_frozen assms by blast

theorem finished_stays_finished_witness:
  "find_task 1 (snd (sql_CompleteTask 1 ''w1'' (JObj []) 5 (ex_tables (ex_task\<lparr>task_Status := ''canceled''\<rparr>))))
     = Some (ex_task\<lparr>task_Status := ''canceled''\<rparr>)"
  by (rule finished_stays_finished [OF r_into_rtranclp [of lease_step, OF lease_step.complete]])
    (simp_all add: task_inv_def task_keys_def task_keys_ok_def task_row_ok_def task_check_def
      find_task_def terminal_def ex_defs)

text \<open>
  A pending task whose attempts are used up is never executed again: no claim, sweep or
  other lease statement changes it. The sweep itself produces such tasks, since it returns a
  stale task to pending without looking at its attempts.
\<close>

theorem exhausted_task_stuck:
  assumes "task_inv t" "find_task i t = Some r" "stale now r" "task_Attempt r = task_MaxAttempts r"
    "lease_step\<^sup>*\<^sup>* (snd (sql_ReleaseStaleTasks now upd t)) t'"
  shows "\<exists>r'. find_task i t' = Some r' \<and> task_Status r' = ''pending''"
proof -
  let ?r = "r\<lparr>task_Status := ''pending'', task_LockedBy := None, task_LockedUntil := None,
    task_NextRunAt := Some now, task_UpdatedAt := upd\<rparr>"
  have "find_task i (snd (sql_ReleaseStaleTasks now upd t)) = Some ?r"
    using assms(2,3) by (simp add: sql_ReleaseStaleTasks_def find_task_update)
  moreover have "task_inv (snd (sql_ReleaseStaleTasks now upd t))"
    using task_inv_lease_step [OF lease_step.release assms(1)] .
  moreover have "exhausted ?r" using assms(4) by (simp add: exhausted_def)
  ultimately have "find_task i t' = Some ?r" using lease_steps_frozen [OF assms(5)] by blast
  then show ?thesis by simp
qed

theorem exhausted_task_stuck_witness:
  "\<exists>r'. find_task 1 (snd (sql_ClaimNextTask ''w1'' 90 60
     (snd (sql_ReleaseStaleTasks 50 50 (ex_tables (ex_task\<lparr>task_Attempt := 3\<rparr>)))))) = Some r' \<and>
     task_Status r' = ''pending''"
  by (rule exhausted_task_stuck [of _ _ "ex_task\<lparr>task_Attempt := 3\<rparr>" 50,
        OF _ _ _ _ r_into_rtranclp [of lease_step, OF lease_step.claim]])
    (simp_all add: task_inv_def task_keys_def task_keys_ok_def task_row_ok_def task_check_def
      find_task_def stale_def ex_defs)

section \<open>Execution\<close>

text \<open>
  Executing a claimed docker-restart task, when the agent accepts the restart: the run
  ends, the task's row is success with progress 100 and no lease, and the agent was sent
  exactly one request, for the container of the payload.
\<close>

theorem worker_docker_restart_succeeds:
  assumes "sched w = []" "find_task i (tbl w) = Some task" "holds_lease i wid task"
    "unmarshalTaskPayload (task_Payload task) = Inr p" "pl_Operation p = taskOperationDockerRestart"
    "ts_dockerService s = Some conn"
    "answer (conn_docker conn (rpc_log w) (RestartDockerContainerReq (pl_ContainerID p))) = Inr res"
  shows "\<exists>w' r. run_state (runClaimedTask s wid task) w = (Done (), w') \<and>
    find_task i (tbl w') = Some r \<and> task_Status r = ''success'' \<and> task_Progress r = 100 \<and>
    task_LockedBy r = None \<and> task_FinishedAt r = Some (clock w) \<and>
    rpc_log w' = rpc_log w @ [RestartDockerContainerReq (pl_ContainerID p)]"
proof -
  have id: "task_ID task = i" "task_Status task \<noteq> ''canceled''" "task_LockedBy task = Some wid"
    using assms(3) by (auto simp: holds_lease_def)
  have start: "at_row i task (clock w) (rpc_log w) w" using assms(1,2) by (simp add: at_row_def)
  have op: "runs (at_row i (progress_row 5 (clock w) task) (clock w) (rpc_log w))
      (executeTaskOperation s i p wid) (Done (Inr ())) (at_row i (progress_row 85 (clock w) task)
        (clock w) (rpc_log w @ [RestartDockerContainerReq (pl_ContainerID p)]))"
    using runs_docker_operation [OF assms(5,6) _ assms(7), of "progress_row 5 (clock w) task"] by simp
  from runsD [OF runs_claimed [OF assms(4) id(1,2) op id(1,3)] start] show ?thesis
    by (cases "run_state (runClaimedTask s wid task) w") (auto simp: at_row_def complete_row_def)
qed

theorem worker_docker_restart_succeeds_witness:
  "\<exists>w' r. run_state (runClaimedTask ex_service ''w1'' ex_task) (ex_world ex_task) = (Done (), w') \<and>
    find_task 1 (tbl w') = Some r \<and> task_Status r = ''success'' \<and> task_Progress r = 100 \<and>
    task_LockedBy r = None \<and> task_FinishedAt r = Some (clock (ex_world ex_task)) \<and>
    rpc_log w' = rpc_log (ex_world ex_task) @ [RestartDockerContainerReq (pl_ContainerID
      (empty_payload\<lparr>pl_Operation := ''docker.restart'', pl_ContainerID := ''c1''\<rparr>))]"
  by (rule worker_docker_restart_succeeds [OF _ _ _ ex_payload, where conn = ex_conn
        and res = "\<lparr>dca_ID = ''c1'', dca_State = ''running''\<rparr>"])
    (simp_all add: ex_defs find_task_def holds_lease_def taskOperationDockerRestart_def answer_def
      responseError_def)

text \<open>
  Executing a claimed service-restart task, when the agent or the connection to it fails:
  the request was sent once; the lease is given up; the task waits for its next attempt, after
  the back-off of the current one, exactly when the error is not a client error (400, 401,
  403, 404, 413) and an attempt is left; otherwise it has failed for good.
\<close>

theorem worker_service_restart_fails:
  assumes "sched w = []" "find_task i (tbl w) = Some task" "holds_lease i wid task"
    "unmarshalTaskPayload (task_Payload task) = Inr p" "pl_Operation p = taskOperationServiceRestart"
    "ts_serviceManager s = Some conn"
    "answer (conn_service conn (rpc_log w) (RestartServiceReq (pl_ServiceName p))) = Inl e"
  shows "\<exists>w' r. run_state (runClaimedTask s wid task) w = (Done (), w') \<and>
    find_task i (tbl w') = Some r \<and> task_LockedBy r = None \<and>
    rpc_log w' = rpc_log w @ [RestartServiceReq (pl_ServiceName p)] \<and>
    (if HTTPStatus (mapAgentError e) \<notin> {400, 401, 403, 404, 413} \<and>
        task_Attempt task < task_MaxAttempts task \<and> 0 < task_MaxAttempts task
     then task_Status r = ''pending'' \<and>
          task_NextRunAt r = Some (clock w + taskRetryBackoff (task_Attempt task))
     else task_Status r = ''failed'' \<and> task_NextRunAt r = None \<and> task_Progress r = 100)"
proof -
  have id: "task_ID task = i" "task_Status task \<noteq> ''canceled''" "task_LockedBy task = Some wid"
    using assms(3) by (auto simp: holds_lease_def)
  have start: "at_row i task (clock w) (rpc_log w) w" using assms(1,2) by (simp add: at_row_def)
  have op: "runs (at_row i (progress_row 5 (clock w) task) (clock w) (rpc_log w))
      (executeTaskOperation s i p wid) (Done (Inl (mapAgentError e)))
      (at_row i (progress_row 30 (clock w) task)
        (clock w) (rpc_log w @ [RestartServiceReq (pl_ServiceName p)]))"
    using runs_service_operation [OF assms(5,6) _ assms(7), of "progress_row 5 (clock w) task"] by simp
  have "\<not> asNonRetryable (mapAgentError e)" using mapAgentError_App [of e] by auto
  then have retry: "retry_at (clock w) task (mapAgentError e) =
      (if HTTPStatus (mapAgentError e) \<notin> {400, 401, 403, 404, 413} \<and>
          task_Attempt task < task_MaxAttempts task \<and> 0 < task_MaxAttempts task
       then Some (clock w + taskRetryBackoff (task_Attempt task)) else None)"
    by (auto simp: retry_at_def nextTaskRetryAt_def isRetryableTaskError_def)
  from runsD [OF runs_claimed [OF assms(4) id(1,2) op id(1,3)] start] show ?thesis
    by (cases "run_state (runClaimedTask s wid task) w")
      (auto simp: at_row_def fail_row_def Let_def retry)
qed

definition ex_service_task :: Task where
  "ex_service_task = ex_task\<lparr>task_Payload := JObj [(''operation'', JStr ''service.restart''),
     (''service_name'', JStr ''nginx'')]\<rparr>"

lemma ex_service_payload: "unmarshalTaskPayload (task_Payload ex_service_task) =
  Inr (empty_payload\<lparr>pl_Operation := ''service.restart'', pl_ServiceName := ''nginx''\<rparr>)"
  by code_simp

theorem worker_service_restart_fails_witness:
  "\<exists>w' r. run_state (runClaimedTask ex_service ''w1'' ex_service_task) (ex_world ex_service_task) = (Done (), w') \<and>
    find_task 1 (tbl w') = Some r \<and> task_Status r = ''failed''"
proof -
  let ?p = "empty_payload\<lparr>pl_Operation := ''service.restart'', pl_ServiceName := ''nginx''\<rparr>"
  let ?e = "transportError (GrpcStatus 5 ''no such unit'')"
  have "\<exists>w' r. run_state (runClaimedTask ex_service ''w1'' ex_service_task) (ex_world ex_service_task) = (Done (), w') \<and>
    find_task 1 (tbl w') = Some r \<and> task_LockedBy r = None \<and>
    rpc_log w' = rpc_log (ex_world ex_service_task) @ [RestartServiceReq (pl_ServiceName ?p)] \<and>
    (if HTTPStatus (mapAgentError ?e) \<notin> {400, 401, 403, 404, 413} \<and>
        task_Attempt ex_service_task < task_MaxAttempts ex_service_task \<and> 0 < task_MaxAttempts ex_service_task
     then task_Status r = ''pending'' \<and> task_NextRunAt r =
          Some (clock (ex_world ex_service_task) + taskRetryBackoff (task_Attempt ex_service_task))
     else task_Status r = ''failed'' \<and> task_NextRunAt r = None \<and> task_Progress r = 100)"
    by (rule worker_service_restart_fails [OF _ _ _ ex_service_payload, where conn = ex_conn])
      (simp_all add: ex_defs ex_service_task_def find_task_def holds_lease_def
        taskOperationServiceRestart_def answer_def)
  moreover have "HTTPStatus (mapAgentError ?e) = 404"
    by (simp add: mapAgentError_def transportError_def mapAgentHTTPStatus_def IsTransport_def
        agentUnavailableCode_def Wrap_def)
  ultimately show ?thesis by auto
qed

text \<open>
  C14. Once a task is cancelled, and provided that no call to the database fails and that
  nobody else revives it, executing it (by the worker that claimed it or in process) changes
  nothing but the log: the run ends, the task stays cancelled and no request reaches the
  agent, whatever other statements are interleaved. Without the first proviso it is not so:
  \<^verbatim>\<open>isCanceled\<close> answers no when it cannot read the task.
\<close>

theorem canceled_task_is_not_executed:
  assumes "canceled_in i (tbl w)" "\<forall>x \<in> set (sched w). fault x = None"
    "\<forall>x \<in> set (sched w). \<forall>t. canceled_in i t \<longrightarrow> canceled_in i (env x t)" "task_ID task = i"
  shows "(\<exists>w'. run_state (runClaimedTask s wid task) w = (Done (), w') \<and>
      canceled_in i (tbl w') \<and> rpc_log w' = rpc_log w) \<and>
    (\<exists>w'. run_state (runTask s i p) w = (Done (), w') \<and>
      canceled_in i (tbl w') \<and> rpc_log w' = rpc_log w)"
proof -
  have w: "stays_canceled i (rpc_log w) w"
    using assms(1-3) by (simp add: stays_canceled_def)
  show ?thesis
  proof
    show "\<exists>w'. run_state (runClaimedTask s wid task) w = (Done (), w') \<and>
        canceled_in i (tbl w') \<and> rpc_log w' = rpc_log w"
      using runsD [OF runs_canceled_claim(1) [OF assms(4), of _ s wid] w]
      by (cases "run_state (runClaimedTask s wid task) w") (auto simp: stays_canceled_def)
    show "\<exists>w'. run_state (runTask s i p) w = (Done (), w') \<and>
        canceled_in i (tbl w') \<and> rpc_log w' = rpc_log w"
      using runsD [OF runs_canceled_claim(2) [OF assms(4), of _ s p] w]
      by (cases "run_state (runTask s i p) w") (auto simp: stays_canceled_def)
  qed
qed

theorem canceled_task_is_not_executed_witness:
  "\<exists>w'. run_state (runClaimedTask ex_service ''w1'' ex_task)
      ((ex_world (ex_task\<lparr>task_Status := ''canceled''\<rparr>))\<lparr>sched := [quiet, quiet]\<rparr>) = (Done (), w') \<and>
     rpc_log w' = []"
proof -
  let ?w = "(ex_world (ex_task\<lparr>task_Status := ''canceled''\<rparr>))\<lparr>sched := [quiet, quiet]\<rparr>"
  have "canceled_in 1 (tbl ?w)" "\<forall>x \<in> set (sched ?w). fault x = None"
    "\<forall>x \<in> set (sched ?w). \<forall>t. canceled_in 1 t \<longrightarrow> canceled_in 1 (env x t)"
    by (simp_all add: canceled_in_def quiet_def find_task_def ex_defs)
  moreover have "task_ID ex_task = 1" "rpc_log ?w = []" by (simp_all add: ex_defs)
  ultimately show ?thesis
    using canceled_task_is_not_executed [of 1 ?w ex_task ex_service "''w1''"] by auto
qed

text \<open>
  C20. What happens when the database fails twice at the wrong moment: a cancelled
  docker-restart task whose in-process execution cannot read the row, in the first check and in
  the check of the first progress, is executed all the same. The cancelled row is set running
  and ends successful, and the agent has been sent the restart.
\<close>

theorem unreadable_cancellation_is_ignored:
  assumes "sched w = [quiet\<lparr>fault := Some e\<rparr>, quiet\<lparr>fault := Some e'\<rparr>]"
    "find_task i (tbl w) = Some r" "task_Status r = ''canceled''"
    "pl_Operation p = taskOperationDockerRestart" "ts_dockerService s = Some conn"
    "answer (conn_docker conn (rpc_log w) (RestartDockerContainerReq (pl_ContainerID p))) = Inr res"
  shows "\<exists>w' r'. run_state (runTask s i p) w = (Done (), w') \<and>
    find_task i (tbl w') = Some r' \<and> task_Status r' = ''success'' \<and>
    rpc_log w' = rpc_log w @ [RestartDockerContainerReq (pl_ContainerID p)]"
proof -
  have "blind_at [e, e'] i r (clock w) (rpc_log w) w"
    using assms(1,2) by (simp add: blind_at_def)
  from runsD [OF runs_runTask_docker_from [OF runs_blind runs_blind_progress assms(4-6)] this]
  show ?thesis
    by (cases "run_state (runTask s i p) w") (auto simp: at_row_def)
qed

theorem unreadable_cancellation_is_ignored_witness:
  "\<exists>w' r'. run_state (runTask ex_service 1 (docker_payload ''c1''))
      ((ex_world (ex_task\<lparr>task_Status := ''canceled''\<rparr>))
        \<lparr>sched := [quiet\<lparr>fault := Some (Plain ''eof'')\<rparr>, quiet\<lparr>fault := Some (Plain ''eof'')\<rparr>]\<rparr>) = (Done (), w') \<and>
    find_task 1 (tbl w') = Some r' \<and> task_Status r' = ''success'' \<and> rpc_log w' \<noteq> []"
proof -
  let ?w = "(ex_world (ex_task\<lparr>task_Status := ''canceled''\<rparr>))
    \<lparr>sched := [quiet\<lparr>fault := Some (Plain ''eof'')\<rparr>, quiet\<lparr>fault := Some (Plain ''eof'')\<rparr>]\<rparr>"
  have "find_task 1 (tbl ?w) = Some (ex_task\<lparr>task_Status := ''canceled''\<rparr>)" "ts_dockerService ex_service = Some ex_conn"
    by (simp_all add: find_task_def ex_defs)
  with unreadable_cancellation_is_ignored [of ?w "Plain ''eof''" "Plain ''eof''" 1 "ex_task\<lparr>task_Status := ''canceled''\<rparr>"
      "docker_payload ''c1''" ex_service ex_conn]
  show ?thesis
    by (fastforce simp: docker_payload_def answer_def responseError_def)
qed

section \<open>Requests\<close>

text \<open>
  Creating a task with an idempotency key never fails for want of a race: with any
  interleaved statements of other parties (another request with the same key included) and no
  database failure, the request returns the id of a task that carries the key.
\<close>

theorem create_returns_keyed_task:
  assumes "nofault w" "rely task_step w"
  shows "\<exists>v w'. run_state (createAndRunTask s ty p u un (Some k)) w = (Inr v, w') \<and>
    (\<exists>r \<in> set (tasks (tbl w')). task_ID r = ctr_ID v \<and> task_IdempotencyKey r = Some k)"
proof -
  obtain v where v: "fst (run_state (createAndRunTask s ty p u un (Some k)) w) = Inr v"
    "(ctr_ID v, Some k) \<in> set (task_keys (tbl (snd (run_state (createAndRunTask s ty p u un (Some k)) w))))"
    using createAndRunTask_key [OF assms] by blast
  then have "run_state (createAndRunTask s ty p u un (Some k)) w =
      (Inr v, snd (run_state (createAndRunTask s ty p u un (Some k)) w))"
    by (cases "run_state (createAndRunTask s ty p u un (Some k)) w") simp
  then show ?thesis using v(2) by (force simp: task_keys_def)
qed

definition ex_race_world :: world where
  "ex_race_world = init_world\<lparr>sched := [quiet, \<lparr>env = (\<lambda>t. snd (sql_CreateTask
     (new_task ex_service ''docker_restart'' empty_payload None (Some ''k'')) 1 t)), tick = 1, fault = None\<rparr>]\<rparr>"

lemma ex_race: "nofault ex_race_world" "rely task_step ex_race_world"
proof -
  have "fresh_task (new_task ex_service ty p u key)" for ty p u key
    by (simp add: fresh_task_def new_task_def ex_service_def TaskStatusPending_def)
  then have "task_step t (snd (sql_CreateTask (new_task ex_service ty p u key) n t))" for t ty p u key n
    by (simp add: task_step_def lease_step.create)
  then show "nofault ex_race_world" "rely task_step ex_race_world"
    by (auto simp: nofault_def rely_def ex_race_world_def init_world_def quiet_def)
qed

theorem create_returns_keyed_task_witness:
  "\<exists>v w'. run_state (createAndRunTask ex_service ''docker_restart'' empty_payload None ''root'' (Some ''k''))
      ex_race_world = (Inr v, w') \<and>
    (\<exists>r \<in> set (tasks (tbl w')). task_ID r = ctr_ID v \<and> task_IdempotencyKey r = Some ''k'')"
  by (rule create_returns_keyed_task [OF ex_race])

text \<open>
  C15. Two requests with the same idempotency key, with anything in between and around them
  but database failures, return the same task.
\<close>

theorem create_idempotent:
  assumes "nofault w" "rely task_step w" "task_inv (tbl w)"
    and "run_state (createAndRunTask s ty p u un (Some k)) w = (a, w1)"
    and "steps task_step w1 w2" "nofault w2"
    and "run_state (createAndRunTask s ty' p' u' un' (Some k)) w2 = (b, w3)"
  shows "\<exists>v v'. a = Inr v \<and> b = Inr v' \<and> ctr_ID v = ctr_ID v'"
proof -
  have keep: "steps task_step x (snd (run_state (createAndRunTask s y q j n (Some k)) x))" for x y q j n
    by (rule keepsD [OF task_steps.create_and_run [OF HOL.refl]])
  have s1: "steps task_step w w1" using keep [of w] assms(4) by (metis snd_conv)
  then have r2: "rely task_step w2" using assms(2,5) by (simp add: steps_def)
  have s3: "steps task_step w2 w3" using keep [of w2] assms(7) by (metis snd_conv)
  obtain v where v: "a = Inr v" "(ctr_ID v, Some k) \<in> set (task_keys (tbl w1))"
    using createAndRunTask_key [OF assms(1,2), of s ty p u un k] assms(4) by auto
  obtain v' where v': "b = Inr v'" "(ctr_ID v', Some k) \<in> set (task_keys (tbl w3))"
    using createAndRunTask_key [OF assms(6) r2, of s ty' p' u' un' k] assms(7) by auto
  have "steps task_step w w3" using s1 assms(5) s3 by (meson transpD transp_steps)
  then have "task_inv (tbl w3)" using steps_invariant [OF _ assms(2), of _ task_inv] task_inv_step assms(3) by blast
  moreover have "(ctr_ID v, Some k) \<in> set (task_keys (tbl w3))"
  proof -
    have "steps task_step w1 w3" using assms(5) s3 by (meson transpD transp_steps)
    moreover have "rely task_step w1" using s1 assms(2) by (simp add: steps_def)
    ultimately show ?thesis using steps_keys v(2) by blast
  qed
  ultimately have "ctr_ID v = ctr_ID v'"
    using v'(2) by (force simp: task_inv_def task_keys_ok_def)
  then show ?thesis using v(1) v'(1) by blast
qed

theorem create_idempotent_witness:
  "\<exists>v v'. fst (run_state (createAndRunTask ex_service ''a'' empty_payload None ''u'' (Some ''k'')) init_world) = Inr v \<and>
     fst (run_state (createAndRunTask ex_service ''b'' empty_payload None ''u'' (Some ''k''))
       (snd (run_state (createAndRunTask ex_service ''a'' empty_payload None ''u'' (Some ''k'')) init_world))) = Inr v' \<and>
     ctr_ID v = ctr_ID v'"
proof -
  let ?c = "\<lambda>y. createAndRunTask ex_service y empty_payload None ''u'' (Some ''k'')"
  let ?w1 = "snd (run_state (?c ''a'') init_world)"
  have "nofault init_world" "rely task_step init_world" "task_inv (tbl init_world)"
    by (simp_all add: nofault_def rely_def init_world_def task_inv_empty)
  moreover have "sched ?w1 = []"
    using runsD [OF runs_createAndRunTask [where key = "Some ''k''" and ts = "[]" and n = 1
          and c = 0 and l = "[]"], of init_world]
    by (simp add: tables_at_def init_world_def empty_tables_def)
  ultimately show ?thesis
    using create_idempotent [of init_world ex_service "''a''" empty_payload None "''u''" "''k''"
        "fst (run_state (?c ''a'') init_world)" ?w1 ?w1 "''b''" empty_payload None "''u''"
        "fst (run_state (?c ''b'') ?w1)" "snd (run_state (?c ''b'') ?w1)"]
    by (auto simp: nofault_def intro: reflpD [OF reflp_steps])
qed

text \<open>
  Cancelling a task: a finished one is refused with a 400 and nothing changes; any other
  becomes cancelled with its progress kept, its lease untouched and every other task as it was.
\<close>

theorem cancel_task:
  assumes "sched w = []" "task_inv (tbl w)" "find_task i (tbl w) = Some r"
  shows "if terminal r then \<exists>e. run_state (CancelTask s i un) w = (Inl e, w) \<and> HTTPStatus e = 400
    else \<exists>w'. run_state (CancelTask s i un) w = (Inr (), w') \<and>
      find_task i (tbl w') = Some (status_row ''canceled'' (task_Progress r) ''canceled by operator'' (clock w) r) \<and>
      (\<forall>j. j \<noteq> i \<longrightarrow> find_task j (tbl w') = find_task j (tbl w))"
proof -
  have got: "run_state (taskRepo_GetByID i) w = (Inr (Some r), w)"
    using assms(1,3) by (simp add: taskRepo_GetByID_def run_dbcall_calm)
  show ?thesis
  proof (cases "terminal r")
    case True
    then show ?thesis using got
      by (simp add: CancelTask_def terminal_def task_status_defs apperror_defs)
  next
    case False
    let ?t = "snd (sql_UpdateStatus i ''canceled'' (task_Progress r) ''canceled by operator'' (clock w) (tbl w))"
    have ok: "task_check ''canceled'' (task_Progress r)"
      using find_task_row_ok [OF assms(2,3)] by (simp add: task_row_ok_def task_check_def)
    have upd: "run_state (taskRepo_UpdateStatus i TaskStatusCanceled (task_Progress r) ''canceled by operator'') w =
        (Inr (), w\<lparr>tbl := ?t\<rparr>)"
      using assms(1) ok by (simp add: taskRepo_UpdateStatus_def Now_def run_dbcall_calm
          TaskStatusCanceled_def sql_UpdateStatus_def)
    have log: "tasks (tbl (snd (run_state (appendTaskLog i lv m d) v))) = tasks (tbl v)"
      if "sched v = []" for v lv m d
      using that by (simp add: appendTaskLog_def taskRepo_AppendLog_def Now_def run_dbcall_calm
          sql_AppendLog_def Let_def split_beta)
    have row: "find_task i ?t = Some (status_row ''canceled'' (task_Progress r) ''canceled by operator'' (clock w) r)"
      using ok find_task_in [OF assms(3)] assms(3)
      by (simp add: sql_UpdateStatus_def find_task_update status_row_def)
    have other: "j \<noteq> i \<Longrightarrow> find_task j ?t = find_task j (tbl w)" for j
      using ok task_table.find_update_other [of "\<lambda>r. r\<lparr>task_Status := ''canceled'', task_Progress := task_Progress r,
          task_ErrorMsg := ''canceled by operator'', task_UpdatedAt := clock w\<rparr>"]
      by (auto simp: sql_UpdateStatus_def find_task_update find_task_in map_option_case
          dest: find_task_in split: option.split)
    show ?thesis
      using False got upd log [of "w\<lparr>tbl := ?t\<rparr>"] assms(1) row other
      by (auto simp: CancelTask_def terminal_def task_status_defs find_task_def split_beta)
  qed
qed

theorem cancel_task_witness:
  "\<exists>w'. run_state (CancelTask ex_service 1 ''root'') (ex_world ex_task) = (Inr (), w') \<and>
     find_task 1 (tbl w') = Some (status_row ''canceled'' 0 ''canceled by operator'' 0 ex_task)"
  using cancel_task [of "ex_world ex_task" 1 ex_task ex_service "''root''"] ex_inv
  by (auto simp: ex_defs find_task_def terminal_def)

text \<open>
  Retrying a failed or cancelled task whose payload is valid adds one pending task with
  the same type and payload, no idempotency key and no attempt made, and leaves every existing
  row as it is.
\<close>

theorem retry_task:
  assumes "sched w = []" "find_task i (tbl w) = Some r" "task_Status r \<in> {''failed'', ''canceled''}"
    "unmarshalTaskPayload (task_Payload r) = Inr p"
  shows "\<exists>w'. run_state (RetryTask s i u un) w =
      (Inr \<lparr>ctr_ID = tasks_seq (tbl w), ctr_Type = task_Type r, ctr_Status = ''pending''\<rparr>, w') \<and>
    tasks (tbl w') = tasks (tbl w) @ [created_row s (task_Type r) p u None (tasks_seq (tbl w)) (clock w)]"
proof -
  let ?T = "tables_at (tasks (tbl w)) (tasks_seq (tbl w)) (clock w) (rpc_log w)"
  have get: "runs ?T (taskRepo_GetByID i) (Inr (Some r)) ?T"
    unfolding taskRepo_GetByID_def
    by (rule runs_table_dbcall) (use assms(2) in \<open>simp add: find_task_def\<close>)
  have "runs ?T (RetryTask s i u un)
      (Inr \<lparr>ctr_ID = tasks_seq (tbl w), ctr_Type = task_Type r, ctr_Status = ''pending''\<rparr>)
      (tables_at (tasks (tbl w) @ [created_row s (task_Type r) p u None (tasks_seq (tbl w)) (clock w)])
        (tasks_seq (tbl w) + 1) (clock w) (rpc_log w))"
    unfolding RetryTask_def
    by (rule runs_bind [OF get]) (use assms(3) in \<open>auto simp: assms(4) task_status_defs
        intro!: runs_bind [OF runs_createAndRunTask] runs_bind [OF runs_table_log]\<close>)
  from runsD [OF this, of w] show ?thesis using assms(1)
    by (cases "run_state (RetryTask s i u un) w") (auto simp: tables_at_def)
qed

theorem retry_task_witness:
  "\<exists>w'. run_state (RetryTask ex_service 1 None ''root'') (ex_world (ex_task\<lparr>task_Status := ''failed''\<rparr>)) =
     (Inr \<lparr>ctr_ID = 2, ctr_Type = ''docker_restart'', ctr_Status = ''pending''\<rparr>, w')"
  using retry_task [of "ex_world (ex_task\<lparr>task_Status := ''failed''\<rparr>)" 1 "ex_task\<lparr>task_Status := ''failed''\<rparr>"
      _ ex_service None "''root''"] ex_payload
  by (auto simp: ex_defs find_task_def)

text \<open>
  C13. From request to result, in both modes of execution: undisturbed, with no other
  unfinished task and an agent that accepts the restart, a docker-restart request without
  an idempotency key, followed by the goroutines it started and (when in process execution is
  off) a turn of the worker and what it claimed, in either order, leaves the new task
  successful, and the agent has been sent exactly one restart, of the trimmed container id.
\<close>

theorem docker_restart_served:
  assumes "sched w = []" "spawned w = []" "task_inv (tbl w)" "\<forall>r \<in> set (tasks (tbl w)). terminal r"
    "TrimSpace (cdr_ContainerID req) \<noteq> []" "TrimSpace (cdr_IdempotencyKey req) = []"
    "ts_dockerService s = Some conn" "1 \<le> wo_Concurrency opts"
    "answer (conn_docker conn (rpc_log w) (RestartDockerContainerReq (TrimSpace (cdr_ContainerID req)))) = Inr res"
  shows "\<exists>v w' r. run_state (serve_docker_restart s opts workerFirst req u un) w = (Inr v, w') \<and>
    find_task (ctr_ID v) (tbl w') = Some r \<and> task_Status r = ''success'' \<and>
    rpc_log w' = rpc_log w @ [RestartDockerContainerReq (TrimSpace (cdr_ContainerID req))]"
proof -
  have key: "normalizeTaskIdempotencyKey (cdr_IdempotencyKey req) = Inr None"
    using assms(6) by (simp add: normalizeTaskIdempotencyKey_def)
  have ids: "\<forall>r \<in> set (tasks (tbl w)). terminal r \<and> task_ID r \<noteq> tasks_seq (tbl w)"
    using assms(3,4) by (force simp: task_inv_def task_keys_ok_def task_keys_def)
  have at: "spawned_at [] (tasks (tbl w)) (tasks_seq (tbl w)) (clock w) (rpc_log w) w"
    using assms(1,2) by (simp add: spawned_at_def tables_at_def)
  from runs_serve_docker_restart [OF assms(5,7) key _ ids assms(8,9), of "clock w" workerFirst u un]
  obtain r where "task_Status r = ''success''" and runs: "runs
      (spawned_at [] (tasks (tbl w)) (tasks_seq (tbl w)) (clock w) (rpc_log w))
      (serve_docker_restart s opts workerFirst req u un)
      (Inr \<lparr>ctr_ID = tasks_seq (tbl w), ctr_Type = TaskTypeDockerRestart, ctr_Status = ''pending''\<rparr>)
      (at_row (tasks_seq (tbl w)) r (clock w)
        (rpc_log w @ [RestartDockerContainerReq (TrimSpace (cdr_ContainerID req))]))"
    by auto
  with runsD [OF runs at] show ?thesis
    by (cases "run_state (serve_docker_restart s opts workerFirst req u un) w") (auto simp: at_row_def)
qed

theorem docker_restart_served_witness:
  "\<exists>v w' r. run_state (serve_docker_restart ex_service
       \<lparr>wo_WorkerID = ''w1'', wo_Concurrency = 2, wo_LeaseDuration = 30, wo_PollInterval = 2\<rparr> True
       \<lparr>cdr_ContainerID = ''c1'', cdr_IdempotencyKey = []\<rparr> None ''root'') init_world = (Inr v, w') \<and>
     find_task (ctr_ID v) (tbl w') = Some r \<and> task_Status r = ''success''"
proof -
  have trim: "TrimSpace ''c1'' = ''c1''" "TrimSpace [] = []" by code_simp+
  show ?thesis
    using docker_restart_served [of init_world "\<lparr>cdr_ContainerID = ''c1'', cdr_IdempotencyKey = []\<rparr>"
        ex_service ex_conn "\<lparr>wo_WorkerID = ''w1'', wo_Concurrency = 2, wo_LeaseDuration = 30, wo_PollInterval = 2\<rparr>"
        _ True None "''root''"]
    by (fastforce simp: trim task_inv_empty init_world_def empty_tables_def ex_service_def answer_def
        responseError_def task_inv_empty [unfolded empty_tables_def])
qed

section \<open>Payloads, retries, limits\<close>

text \<open>
  A payload the service accepts is read back unchanged from the column it was stored in,
  and nothing but accepted payloads is ever read from a column.
\<close>

theorem payload_round_trip:
  assumes "int64 (pl_BackupID p)" "int64 (pl_SizeBytes p)"
  shows "unmarshalTaskPayload (marshalTaskPayload p) = Inr p \<longleftrightarrow> valid_payload p"
  using unmarshal_marshal [OF _ assms] unmarshal_valid by blast

theorem payload_round_trip_witness:
  "unmarshalTaskPayload (marshalTaskPayload (docker_payload ''c1'')) = Inr (docker_payload ''c1'') \<longleftrightarrow>
     valid_payload (docker_payload ''c1'')"
  by (rule payload_round_trip) (simp_all add: docker_payload_def empty_payload_def int64_def)

text \<open>
  A retry is scheduled only for a retryable error with an attempt left, between one and
  thirty seconds ahead, and later attempts never wait less than earlier ones.
\<close>

theorem retry_schedule:
  assumes "nextTaskRetryAt now a m retryable = Some n"
  shows "retryable \<and> a < m \<and> now + Second \<le> n \<and> n \<le> now + 30 * Second \<and>
    (\<forall>b n'. a \<le> b \<longrightarrow> nextTaskRetryAt now b m retryable = Some n' \<longrightarrow> n \<le> n')"
  using assms taskRetryBackoff_bounds [of a] taskRetryBackoff_mono [of a]
  by (auto simp: nextTaskRetryAt_def split: if_splits)

theorem retry_schedule_witness:
  "nextTaskRetryAt 0 2 3 True = Some (2 * Second) \<and> 0 + Second \<le> 2 * Second \<and> 2 * Second \<le> 0 + 30 * Second"
  using retry_schedule [of 0 2 3 True "2 * Second"]
  by (simp add: nextTaskRetryAt_def taskRetryBackoff_eq)

text \<open>
  The heartbeat interval is positive, and for every lease of at least 150 milliseconds
  three heartbeats fit into the lease.
\<close>

theorem heartbeat_within_lease:
  "0 < taskHeartbeatInterval d \<and> (150 * Millisecond \<le> d \<longrightarrow> 3 * taskHeartbeatInterval d \<le> d)"
  by (auto simp: taskHeartbeatInterval_def duration_defs Let_def)

theorem heartbeat_within_lease_witness:
  "3 * taskHeartbeatInterval (30 * Second) \<le> 30 * Second"
  using heartbeat_within_lease [of "30 * Second"] by (simp add: duration_defs)

text \<open>
  The claiming loop never lets more executions run at once than the configured
  concurrency (or than already ran), however the running ones finish meanwhile.
\<close>

theorem worker_concurrency_bound:
  "snd (fst (run_state (claimAvailableTasks s opts freed inUse) w)) \<le>
     max inUse (nat (wo_Concurrency opts))"
  by (rule claimAvailableTasks_bound)

text \<open>
  The progress update checks for cancellation and then writes without a guard: when the
  operator's cancellation lands between the two, the task ends up running again and the update
  reports success.
\<close>

theorem cancellation_can_be_overwritten:
  "\<exists>w i. rely task_step w \<and> task_inv (tbl w) \<and>
     canceled_in i (env (sched w ! 1) (tbl w)) \<and>
     (\<exists>w' r. run_state (setRunningProgress i 30) w = (True, w') \<and>
       find_task i (tbl w') = Some r \<and> task_Status r = ''running'')"
proof -
  let ?cancel = "\<lambda>t. snd (sql_UpdateStatus 1 ''canceled'' 0 ''canceled by operator'' 0 t)"
  let ?w = "(ex_world ex_task)\<lparr>sched := [quiet, \<lparr>env = ?cancel, tick = 0, fault = None\<rparr>]\<rparr>"
  have "task_step t (?cancel t)" for t by (auto simp: task_step_def intro!: status_step.intros)
  then have "rely task_step ?w" by (auto simp: rely_def quiet_def)
  moreover have "task_inv (tbl ?w)" using ex_inv by (simp add: ex_world_def)
  moreover have "canceled_in 1 (env (sched ?w ! 1) (tbl ?w))"
    by (simp add: canceled_in_def find_task_def sql_UpdateStatus_def task_check_def ex_defs)
  moreover have "\<exists>w' r. run_state (setRunningProgress 1 30) ?w = (True, w') \<and>
      find_task 1 (tbl w') = Some r \<and> task_Status r = ''running''"
    by (simp add: setRunningProgress_def isCanceled_def taskRepo_GetByID_def taskRepo_UpdateStatus_def
        world_simps find_task_def sql_UpdateStatus_def task_check_def task_status_defs ex_defs)
  ultimately show ?thesis by blast
qed

end
