(* ===== verification/BackupRun.thy ===== *)
theory BackupRun
  imports BackupService
begin

text \<open>
  Lemmas on the backup service: file names and paths, and what its operations do to a row and
  to the files when nothing else runs.
\<close>

section \<open>File names\<close>

definition name_byte :: "char \<Rightarrow> bool" where
  "name_byte c = (is_name_char c \<or> c = CHR ''-'')"

lemma sanitize_loop_bytes: "c \<in> set (sanitize_loop d s) \<Longrightarrow> name_byte c"
  by (induction d s rule: sanitize_loop.induct) (auto simp: name_byte_def split: if_splits)

lemma set_trim_dash: "set (trim_dash s) \<subseteq> set s"
  by (auto simp: trim_dash_def dest!: set_dropWhileD)

lemma trim_dash_ends: "trim_dash s \<noteq> [] \<Longrightarrow> hd (trim_dash s) \<noteq> CHR ''-'' \<and> last (trim_dash s) \<noteq> CHR ''-''"
proof -
  have ends: "hd (rev (dropWhile P (rev (dropWhile P xs)))) = hd (dropWhile P xs) \<and>
      \<not> P (hd (dropWhile P xs)) \<and> \<not> P (hd (dropWhile P (rev (dropWhile P xs))))"
    if ne: "dropWhile P (rev (dropWhile P xs)) \<noteq> []" for P :: "char \<Rightarrow> bool" and xs
  proof -
    let ?d = "dropWhile P xs"
    let ?e = "dropWhile P (rev ?d)"
    have d: "?d \<noteq> []" using ne by (metis dropWhile.simps(1) rev.simps(1))
    have "?d = rev ?e @ rev (takeWhile P (rev ?d))"
      by (metis rev_append rev_rev_ident takeWhile_dropWhile_id)
    then have "hd ?d = hd (rev ?e)" using ne by (metis hd_append2 rev_is_Nil_conv)
    then show ?thesis using hd_dropWhile [OF ne] hd_dropWhile [OF d] by simp
  qed
  assume "trim_dash s \<noteq> []"
  then have ne: "dropWhile (\<lambda>c. c = CHR ''-'') (rev (dropWhile (\<lambda>c. c = CHR ''-'') s)) \<noteq> []"
    by (simp add: trim_dash_def)
  from ends [OF this] ne show ?thesis by (simp add: trim_dash_def last_rev)
qed

lemma sanitize_result:
  fixes lib raw
  defines "r \<equiv> sanitizeBackupFilenamePart lib raw"
  shows "r \<noteq> []" "length r \<le> 64" "list_all name_byte r" "hd r \<noteq> CHR ''-''" "last r \<noteq> CHR ''-''"
proof -
  define x where "x = trim_dash (sanitize_loop False (ToLower (lower_uni lib) (TrimSpace raw)))"
  define y where "y = (if length x > 64 then trim_dash (take 64 x) else x)"
  have r: "r = (if x = [] \<or> y = [] then ''backup'' else y)"
    by (simp add: r_def sanitizeBackupFilenamePart_def x_def y_def Let_def)
  have xb: "set x \<subseteq> {c. name_byte c}"
    using set_trim_dash sanitize_loop_bytes unfolding x_def by blast
  have "set y \<subseteq> set x"
    using set_trim_dash [of "take 64 x"] set_take_subset [of 64 x] by (auto simp: y_def)
  then have yb: "list_all name_byte y" using xb by (auto simp: list_all_iff)
  have "length (trim_dash s) \<le> length s" for s
    unfolding trim_dash_def by (metis length_dropWhile_le length_rev order_trans)
  from this [of "take 64 x"] have yl: "length y \<le> 64" by (auto simp: y_def)
  have ye: "y \<noteq> [] \<Longrightarrow> hd y \<noteq> CHR ''-'' \<and> last y \<noteq> CHR ''-''"
    using trim_dash_ends by (auto simp: y_def x_def split: if_splits)
  show "r \<noteq> []" "length r \<le> 64" "list_all name_byte r" "hd r \<noteq> CHR ''-''" "last r \<noteq> CHR ''-''"
    using r yb yl ye by (auto simp: name_byte_def is_name_char_def)
qed

lemma name_byte_noslash: "list_all name_byte s \<Longrightarrow> slash \<notin> set s"
  by (auto simp: list_all_iff name_byte_def is_name_char_def slash_def)

lemma itoa_noslash: "slash \<notin> set (itoa n)"
proof
  assume "slash \<in> set (itoa n)"
  then obtain k where "slash \<in> set (nat_digits k)"
    by (auto simp: itoa_def slash_def split: if_splits)
  then show False using nat_digits_bytes [of slash k] by (simp add: slash_def)
qed

lemma artifactFileName_elem: "good_elem (artifactFileName lib b now) \<and> artifactFileName lib b now \<noteq> ''..''"
  using name_byte_noslash [OF sanitize_result(3)] itoa_noslash
  by (simp add: artifactFileName_def good_elem_def) (simp add: slash_def)

section \<open>Paths\<close>

lemma Abs_rooted:
  assumes "Abs wd p = Inr q" "\<And>d. wd = Inr d \<Longrightarrow> IsAbs d"
  shows "\<exists>cs. clean_elems cs \<and> q = rooted_path cs"
proof (cases "IsAbs p")
  case True
  then show ?thesis using assms(1) Clean_abs [OF True] by (auto simp: Abs_def)
next
  case False
  then obtain d where d: "wd = Inr d" "q = Join [d, p]" using assms(1) by (cases wd) (auto simp: Abs_def)
  then have "IsAbs d" using assms(2) by blast
  then have "d \<noteq> []" "IsAbs (d @ slash # p)" by (auto simp: IsAbs_def split: list.splits)
  then show ?thesis using d(2) Clean_abs [of "d @ slash # p"] by (auto simp: Join_def)
qed

lemma HasPrefix_append [simp]: "HasPrefix (p @ s) p"
  by simp

lemma joinSlash_dotdot: "rel_escapes (joinSlash (''..'' # cs))"
  by (cases cs) (auto simp: rel_escapes_def slash_def)

lemma Rel_inside:
  assumes "clean_elems cs" "clean_elems ds" "Rel (rooted_path cs) (rooted_path ds) = Inr rel"
    "\<not> rel_escapes rel"
  shows "\<exists>es. ds = cs @ es"
proof (cases "rooted_path ds = rooted_path cs")
  case True
  then show ?thesis using rooted_path_inject [OF assms(2,1)] by auto
next
  case False
  have "rooted_path cs \<noteq> ''.''" by (simp add: rooted_path_def slash_def)
  obtain bs ts where st: "strip_common cs ds = (bs, ts)" by fastforce
  have rel: "rel = joinSlash (map (\<lambda>_. ''..'') bs @ ts)"
    using assms(3) False \<open>rooted_path cs \<noteq> ''.''\<close>
    by (auto simp: Rel_def Clean_rooted_path parts_rooted_path assms(1,2) st split: if_splits)
  have "bs = []"
    using assms(4) joinSlash_dotdot unfolding rel by (cases bs) auto
  then show ?thesis using strip_common_split [OF st] by auto
qed

lemma safeBackupArtifactPath_below:
  assumes "TrimSpace dir \<noteq> []" "Abs (bs_wd s) (TrimSpace dir) = Inr root"
    "\<And>d. bs_wd s = Inr d \<Longrightarrow> IsAbs d"
  obtains cs where "clean_elems cs" "root = rooted_path cs"
    "safeBackupArtifactPath s dir b now = Inr (rooted_path (cs @ [artifactFileName (bs_lib s) b now]))"
proof -
  let ?f = "artifactFileName (bs_lib s) b now"
  obtain cs where cs: "clean_elems cs" "root = rooted_path cs" using Abs_rooted [OF assms(2,3)] by blast
  have f: "good_elem ?f" "?f \<noteq> ''..''" using artifactFileName_elem by blast+
  have "\<not> rel_escapes ?f"
  proof -
    have "take 3 ?f = ''sno''" by (simp add: artifactFileName_def)
    then show ?thesis
      by (auto simp: rel_escapes_def IsAbs_def slash_def f split: list.splits)
  qed
  then have "safeBackupArtifactPath s dir b now = Inr (rooted_path (cs @ [?f]))"
    using assms(1,2) by (simp add: safeBackupArtifactPath_def Let_def cs(2) Join_below [OF cs(1) f]
        Rel_below [OF cs(1) f])
  with cs that show ?thesis by blast
qed

section \<open>Undisturbed runs\<close>

definition at_backup :: "int \<Rightarrow> Backup \<Rightarrow> time \<Rightarrow> (string \<rightharpoonup> string) \<Rightarrow> world \<Rightarrow> bool" where
  "at_backup i b c fs w =
     (sched w = [] \<and> clock w = c \<and> find_backup i (tbl w) = Some b \<and> files w = fs)"

definition backup_status_row :: "string \<Rightarrow> time \<Rightarrow> Backup \<Rightarrow> Backup" where
  "backup_status_row st now b = b\<lparr>backup_Status := st, backup_UpdatedAt := now\<rparr>"

lemma runs_backup_Now: "runs (at_backup i b c fs) Now c (at_backup i b c fs)"
  by (auto intro!: runsI simp: Now_def at_backup_def)

lemma runs_backup_dbcall:
  assumes "\<And>t. find_backup i t = Some b \<Longrightarrow> fst (f t) = v \<and> find_backup i (snd (f t)) = Some b'"
  shows "runs (at_backup i b c fs) (dbcall f) v (at_backup i b' c fs)"
  by (intro runsI) (simp add: at_backup_def run_dbcall_calm assms)

lemma runs_filecall:
  assumes "f fs = (v, fs')"
  shows "runs (at_backup i b c fs) (filecall f) v (at_backup i b c fs')"
  by (intro runsI) (simp add: at_backup_def run_filecall_calm assms)

lemma runs_backup_get: "runs (at_backup i b c fs) (backupRepo_GetByID i) (Inr (Some b)) (at_backup i b c fs)"
  unfolding backupRepo_GetByID_def by (rule runs_backup_dbcall) simp

lemma runs_backup_status:
  assumes "st \<in> {''pending'', ''running'', ''success'', ''failed''}"
  shows "runs (at_backup i b c fs) (backupRepo_UpdateStatus i st) (Inr ())
    (at_backup i (backup_status_row st c b) c fs)"
  unfolding backupRepo_UpdateStatus_def
proof (intro runs_bind [OF runs_backup_Now] runs_backup_dbcall)
  fix t assume t: "find_backup i t = Some b"
  show "fst (sql_UpdateBackupStatus i st c t) = Inr () \<and>
      find_backup i (snd (sql_UpdateBackupStatus i st c t)) = Some (backup_status_row st c b)"
    using assms t find_backup_in [OF t]
    by (auto simp: sql_UpdateBackupStatus_def backup_check_def find_backup_update backup_status_row_def)
qed

lemma runs_backup_verification:
  assumes "st \<in> {''pending'', ''running'', ''success'', ''failed''}" "0 \<le> sz"
  shows "runs (at_backup i b c fs) (backupRepo_UpdateVerification i st sz ck fp) (Inr ())
    (at_backup i (verification_row st sz ck fp c b) c fs)"
  unfolding backupRepo_UpdateVerification_def
proof (intro runs_bind [OF runs_backup_Now] runs_backup_dbcall)
  fix t assume t: "find_backup i t = Some b"
  show "fst (sql_UpdateVerification i st sz ck fp c t) = Inr () \<and>
      find_backup i (snd (sql_UpdateVerification i st sz ck fp c t)) = Some (verification_row st sz ck fp c b)"
    using assms t find_backup_in [OF t]
    by (auto simp: sql_UpdateVerification_def backup_check_def find_backup_update)
qed

lemma runs_failBackup:
  "runs (at_backup i b c fs) (failBackup i err) (Inl err) (at_backup i (backup_status_row ''failed'' c b) c fs)"
  unfolding failBackup_def BackupStatusFailed_def by (rule runs_bind [OF runs_backup_status]) simp_all

lemma runs_file_ops:
  "runs (at_backup i b c fs) (WriteFile p x) (Inr ()) (at_backup i b c (fs(p \<mapsto> x)))"
  "fs p = Some x \<Longrightarrow> runs (at_backup i b c fs) (Rename p q) (Inr ()) (at_backup i b c ((fs(p := None))(q \<mapsto> x)))"
  "fs p = Some x \<Longrightarrow> runs (at_backup i b c fs) (ReadFile p) (Inr x) (at_backup i b c fs)"
  "runs (at_backup i b c fs) (MkdirAll p) (Inr ()) (at_backup i b c fs)"
  unfolding WriteFile_def Rename_def ReadFile_def MkdirAll_def by (auto intro!: runs_filecall)

section \<open>Creating and verifying an artifact\<close>

definition artifact_content :: "string \<Rightarrow> string" where
  "artifact_content text = text @ [CHR 0x0A]"

definition artifact_row :: "backupService \<Rightarrow> string \<Rightarrow> string \<Rightarrow> time \<Rightarrow> Backup \<Rightarrow> Backup" where
  "artifact_row s text path c b =
     verification_row ''success'' (int (length (artifact_content text)))
       (''sha256:'' @ bs_sha256hex s (artifact_content text)) path c (backup_status_row ''running'' c b)"

lemmas runs_backup_seq = runs_bind [OF runs_backup_get] runs_bind [OF runs_backup_Now]
  runs_bind [OF runs_backup_status] runs_bind [OF runs_backup_verification]
  runs_bind [OF runs_file_ops(1)] runs_bind [OF runs_file_ops(2)] runs_bind [OF runs_file_ops(3)]
  runs_bind [OF runs_file_ops(4)]

lemmas run_cases = sum.case option.case simp_thms if_True if_False

lemma runs_CreateArtifact:
  assumes "0 < i" "backup_StorageType b = ''local''"
    "safeBackupArtifactPath s (bs_localDir s) b c = Inr path"
    "bs_marshalIndent s (manifest_json (bs_rfc3339 s) (artifact_manifest b c)) = Inr text"
  shows "runs (at_backup i b c fs) (CreateArtifact s i)
    (Inr (mapBackupSummary (b\<lparr>backup_Status := ''success'',
       backup_SizeBytes := int (length (artifact_content text)),
       backup_Checksum := ''sha256:'' @ bs_sha256hex s (artifact_content text),
       backup_FilePath := path, backup_UpdatedAt := c\<rparr>)))
    (at_backup i (artifact_row s text path c b) c (fs(path @ ''.tmp'' := None, path \<mapsto> artifact_content text)))"
proof -
  have tmp: "(fs(path @ ''.tmp'' \<mapsto> artifact_content text)) (path @ ''.tmp'') = Some (artifact_content text)"
    by simp
  have files: "(fs(path @ ''.tmp'' \<mapsto> artifact_content text))(path @ ''.tmp'' := None, path \<mapsto> artifact_content text)
      = fs(path @ ''.tmp'' := None, path \<mapsto> artifact_content text)"
    by simp
  have i: "\<not> i \<le> 0" using assms(1) by simp
  show ?thesis
    unfolding CreateArtifact_def backup_const_defs artifact_row_def Let_def if_not_P [OF i]
      artifact_content_def [symmetric]
    apply (rule runs_bind [OF runs_backup_get])
    apply (simp only: run_cases assms(2))
    apply (rule runs_bind [OF runs_backup_status], simp)
    apply (simp only: sum.case)
    apply (rule runs_bind [OF runs_backup_Now])
    apply (simp only: sum.case assms(3))
    apply (rule runs_bind [OF runs_file_ops(4)])
    apply (simp only: sum.case assms(4) artifact_content_def [symmetric])
    apply (rule runs_bind [OF runs_file_ops(1)])
    apply (simp only: sum.case)
    apply (rule runs_bind [OF runs_file_ops(2) [where fs = "fs(path @ ''.tmp'' \<mapsto> artifact_content text)", OF tmp]])
    apply (simp only: sum.case files)
    apply (rule runs_bind [OF runs_backup_verification], simp, simp)
    apply (simp only: sum.case)
    apply (rule runs_bind [OF runs_backup_Now])
    apply simp
    done
qed

text \<open>The path of an artifact has no space at its ends, and its extension is that of a manifest.\<close>

lemma TrimSpace_digest:
  assumes "c = ''sha256:'' @ v" "length v = 64" "list_all is_lower_hex v"
  shows "TrimSpace c = c"
proof (rule TrimSpace_plain)
  have "v \<noteq> []" using assms(2) by auto
  then have "is_lower_hex (last v)" "last c = last v" using assms(1,3) by (auto simp: list_all_iff)
  then show "byte (last c) \<in> {33..<127}" by (auto simp: is_lower_hex_def)
qed (simp_all add: assms(1))

lemma joinSlash_snoc: "joinSlash (cs @ [f]) = (if cs = [] then f else joinSlash cs @ slash # f)"
  by (induction cs rule: joinSlash.induct) auto

lemma artifact_path_trim:
  "TrimSpace (rooted_path (cs @ [artifactFileName lib b now])) = rooted_path (cs @ [artifactFileName lib b now])"
proof -
  have "\<exists>v. artifactFileName lib b now = v @ ''n''" by (simp add: artifactFileName_def)
  then obtain v where "artifactFileName lib b now = v @ ''n''" ..
  then have "\<exists>v. rooted_path (cs @ [artifactFileName lib b now]) = v @ ''n''"
    by (auto simp: rooted_path_def joinSlash_snoc)
  then obtain u where "rooted_path (cs @ [artifactFileName lib b now]) = u @ ''n''" ..
  then have "last (rooted_path (cs @ [artifactFileName lib b now])) = CHR ''n''" by simp
  moreover have "hd (rooted_path (cs @ [artifactFileName lib b now])) = CHR ''/''"
    by (simp add: rooted_path_def slash_def)
  moreover have "rooted_path (cs @ [artifactFileName lib b now]) \<noteq> []" by (simp add: rooted_path_def)
  ultimately show ?thesis by (intro TrimSpace_plain) simp_all
qed

lemma Ext_artifact:
  assumes "clean_elems cs"
  shows "Ext (rooted_path (cs @ [artifactFileName lib b now])) = ''.json''"
proof -
  have "list_all good_elem (cs @ [artifactFileName lib b now])"
    using assms artifactFileName_elem by (simp add: clean_elems_def)
  then have "last (splitSlash (rooted_path (cs @ [artifactFileName lib b now]))) = artifactFileName lib b now"
    by (simp add: splitSlash_rooted_path)
  then show ?thesis by (simp add: Ext_def Let_def artifactFileName_def)
qed

lemma decode_manifest_json:
  assumes "int64 (backup_ID b)"
  shows "decode_manifest (manifest_json fmt (artifact_manifest b now)) =
    Some (''snowpanel.backup.artifact'', backup_ID b, backup_ResourceType b, backup_ResourceID b,
      backup_StorageType b)"
proof -
  have "decStr name (omitStr ''note'' x) acc = Some acc" if "\<not> fieldMatch name ''note''" for name x acc
    using that by (simp add: decStr_omitStr)
  moreover have "decStrListOk ''scope'' (omitStr ''note'' x)" for x
    by (simp add: omitStr_def fieldMatch_def lower_byte_def)
  ultimately show ?thesis
    using assms
    by (simp add: decode_manifest_def manifest_json_def artifact_manifest_def fieldMatch_def
        lower_byte_def int64_def dec_simps str_elem_ok_def backupArtifactScope_def)
qed

lemma artifactFileName_inside: "\<not> rel_escapes (artifactFileName lib b now)"
proof -
  have "take 3 (artifactFileName lib b now) = ''sno''" by (simp add: artifactFileName_def)
  then show ?thesis using artifactFileName_elem [of lib b now]
    by (auto simp: rel_escapes_def IsAbs_def slash_def split: list.splits)
qed

lemma backupPathWithin_artifact:
  assumes "Abs (bs_wd s) (TrimSpace dir) = Inr (rooted_path cs)" "clean_elems cs"
    "\<And>p. bs_evalSymlinks s p = Inr p"
  shows "backupPathWithinLocalDir s dir (rooted_path (cs @ [artifactFileName lib b now]))"
proof -
  let ?f = "artifactFileName lib b now"
  have f: "good_elem ?f" "?f \<noteq> ''..''" using artifactFileName_elem by blast+
  then have "clean_elems (cs @ [?f])" using assms(2) by (simp add: clean_elems_def)
  then have "Abs (bs_wd s) (TrimSpace (rooted_path (cs @ [?f]))) = Inr (rooted_path (cs @ [?f]))"
    by (simp add: artifact_path_trim Abs_def Clean_rooted_path)
  then show ?thesis
    using assms artifactFileName_inside Rel_below [OF assms(2) f]
    by (simp add: backupPathWithinLocalDir_def)
qed

lemma runs_VerifyArtifact:
  assumes "0 < i" "backup_StorageType b = ''local''" "TrimSpace (backup_FilePath b) \<noteq> []"
    "backupPathWithinLocalDir s (bs_localDir s) (backup_FilePath b)"
    "fs (backup_FilePath b) = Some content"
    "backup_Checksum b = ''sha256:'' @ bs_sha256hex s content"
    "backup_SizeBytes b = int (length content)"
    "ToLower (lower_uni (bs_lib s)) (Ext (backup_FilePath b)) = ''.json''"
    "Option.bind (bs_parse s content) decode_manifest = Some (''snowpanel.backup.artifact'', backup_ID b,
       backup_ResourceType b, backup_ResourceID b, backup_StorageType b)"
  shows "runs (at_backup i b c fs) (VerifyArtifact s i)
    (Inr (mapBackupSummary (b\<lparr>backup_Status := ''success'', backup_UpdatedAt := c\<rparr>)))
    (at_backup i (verification_row ''success'' (backup_SizeBytes b) (backup_Checksum b)
       (backup_FilePath b) c b) c fs)"
proof -
  have i: "\<not> i \<le> 0" using assms(1) by simp
  note read = runs_file_ops(3) [where fs = fs and p = "backup_FilePath b", OF assms(5)]
  have sum: "runs (at_backup i b c fs) (checksumLocalBackupFile s (backup_FilePath b))
      (Inr (backup_SizeBytes b, backup_Checksum b)) (at_backup i b c fs)"
    unfolding checksumLocalBackupFile_def assms(6,7)
    by (auto intro!: runs_bind [OF read])
  have valid: "runs (at_backup i b c fs) (validateBackupArtifactManifest s b) (Inr ()) (at_backup i b c fs)"
    unfolding validateBackupArtifactManifest_def
    by (auto simp: assms(8,9) intro!: runs_bind [OF read])
  show ?thesis
    unfolding VerifyArtifact_def backup_const_defs if_not_P [OF i]
    apply (rule runs_bind [OF runs_backup_get])
    apply (simp only: run_cases assms(2,3,4))
    apply (rule runs_bind [OF sum])
    apply (simp only: run_cases prod.case)
    apply (rule runs_bind [OF valid])
    apply (simp only: run_cases)
    apply (rule runs_bind [OF runs_backup_verification], simp, simp add: assms(7))
    apply (simp only: run_cases)
    apply (rule runs_bind [OF runs_backup_Now])
    apply simp
    done
qed

text \<open>Both in sequence.\<close>

lemma artifact_row_simps [simp]:
  "backup_ID (artifact_row s text path c b) = backup_ID b"
  "backup_StorageType (artifact_row s text path c b) = backup_StorageType b"
  "backup_ResourceType (artifact_row s text path c b) = backup_ResourceType b"
  "backup_ResourceID (artifact_row s text path c b) = backup_ResourceID b"
  "backup_Checksum (artifact_row s text path c b) = ''sha256:'' @ bs_sha256hex s (artifact_content text)"
  "backup_SizeBytes (artifact_row s text path c b) = int (length (artifact_content text))"
  "TrimSpace path \<noteq> [] \<Longrightarrow> backup_FilePath (artifact_row s text path c b) = path"
  by (simp_all add: artifact_row_def verification_row_def backup_status_row_def Let_def)

lemma runs_create_then_verify:
  assumes "0 < i" "backup_ID b = i" "int64 i" "backup_StorageType b = ''local''"
    and dir: "TrimSpace (bs_localDir s) \<noteq> []" "Abs (bs_wd s) (TrimSpace (bs_localDir s)) = Inr root"
      "\<And>d. bs_wd s = Inr d \<Longrightarrow> IsAbs d"
    and ext: "\<And>p. bs_evalSymlinks s p = Inr p"
      "bs_marshalIndent s (manifest_json (bs_rfc3339 s) (artifact_manifest b c)) = Inr text"
      "bs_parse s (artifact_content text) = Some (manifest_json (bs_rfc3339 s) (artifact_manifest b c))"
  obtains path row v v' where
    "runs (at_backup i b c fs) (CreateArtifact s i) (Inr v)
       (at_backup i row c (fs(path @ ''.tmp'' := None, path \<mapsto> artifact_content text)))"
    "runs (at_backup i row c (fs(path @ ''.tmp'' := None, path \<mapsto> artifact_content text)))
       (VerifyArtifact s i) (Inr v')
       (at_backup i (verification_row ''success'' (backup_SizeBytes row) (backup_Checksum row) path c row) c
         (fs(path @ ''.tmp'' := None, path \<mapsto> artifact_content text)))"
    "row = artifact_row s text path c b" "TrimSpace path \<noteq> []"
proof -
  obtain cs where cs: "clean_elems cs" "root = rooted_path cs"
    "safeBackupArtifactPath s (bs_localDir s) b c = Inr (rooted_path (cs @ [artifactFileName (bs_lib s) b c]))"
    using safeBackupArtifactPath_below [OF dir] by blast
  let ?path = "rooted_path (cs @ [artifactFileName (bs_lib s) b c])"
  have trim: "TrimSpace ?path = ?path" by (rule artifact_path_trim)
  then have ne: "TrimSpace ?path \<noteq> []" by (simp add: rooted_path_def)
  have fp: "backup_FilePath (artifact_row s text ?path c b) = ?path"
    using ne by simp
  have json: "ToLower (lower_uni (bs_lib s)) (Ext ?path) = ''.json''"
    using Ext_artifact [OF cs(1)] by (simp add: ToLower_def isASCII_def lower_byte_def)
  note made = runs_CreateArtifact [OF assms(1,4) cs(3) ext(2), of fs]
  have within: "backupPathWithinLocalDir s (bs_localDir s) ?path"
    by (rule backupPathWithin_artifact [OF _ cs(1) ext(1)]) (simp add: dir(2) cs(2))
  have id: "int64 (backup_ID b)" using assms(2,3) by simp
  have "runs (at_backup i (artifact_row s text ?path c b) c (fs(?path @ ''.tmp'' := None, ?path \<mapsto> artifact_content text)))
     (VerifyArtifact s i) (Inr (mapBackupSummary ((artifact_row s text ?path c b)\<lparr>backup_Status := ''success'', backup_UpdatedAt := c\<rparr>)))
     (at_backup i (verification_row ''success'' (backup_SizeBytes (artifact_row s text ?path c b))
        (backup_Checksum (artifact_row s text ?path c b)) (backup_FilePath (artifact_row s text ?path c b)) c
        (artifact_row s text ?path c b)) c
       (fs(?path @ ''.tmp'' := None, ?path \<mapsto> artifact_content text)))"
    by (rule runs_VerifyArtifact [OF assms(1), where content = "artifact_content text"])
      (simp_all add: fp assms(4) ne within json ext(3) decode_manifest_json [OF id])
  from that [OF made this [unfolded fp] HOL.refl ne] show ?thesis .
qed

end
