(* ===== verification/BackupRetention.thy ===== *)
theory BackupRetention
  imports BackupRun
begin

text \<open>
  The retention clean-up with any pattern of failing calls (and nobody else at work): what is
  deleted, what is archived, and what is left alone when something fails.
\<close>

definition alone_at :: "Backup list \<Rightarrow> (string \<rightharpoonup> string) \<Rightarrow> world \<Rightarrow> bool" where
  "alone_at bs fs w = (alone w \<and> backups (tbl w) = bs \<and> files w = fs)"

definition some_files :: "Backup list \<Rightarrow> world \<Rightarrow> bool" where
  "some_files bs w = (alone w \<and> backups (tbl w) = bs)"

lemma alone_Now:
  "valid (\<lambda>w. alone_at bs fs w \<and> clock w = c) Now (\<lambda>x w. x = c \<and> alone_at bs fs w)"
  "valid (alone_at bs fs) Now (\<lambda>_. alone_at bs fs)"
  by (auto intro!: validI simp: Now_def alone_at_def)

lemma alone_read:
  "valid (alone_at bs fs) (dbcall (\<lambda>t. (Inr (g (backups t)), t)))
     (\<lambda>x w. (x = Inr (g bs) \<or> (\<exists>e. x = Inl e)) \<and> alone_at bs fs w)"
proof (rule validI)
  fix w assume w: "alone_at bs fs w"
  obtain x v where e: "enter w = (x, v)" by fastforce
  show "(fst (run_state (dbcall (\<lambda>t. (Inr (g (backups t)), t))) w) = Inr (g bs) \<or>
      (\<exists>e. fst (run_state (dbcall (\<lambda>t. (Inr (g (backups t)), t))) w) = Inl e)) \<and>
      alone_at bs fs (snd (run_state (dbcall (\<lambda>t. (Inr (g (backups t)), t))) w))"
    using w alone_enter [of w] e by (cases x) (auto simp: dbcall_def alone_at_def alone_def)
qed

lemma alone_delete:
  "valid (alone_at bs fs) (dbcall (sql_DeleteDeletableBefore cutoff))
     (\<lambda>x w. ((\<exists>e. x = Inl e) \<and> alone_at bs fs w) \<or>
        (x = Inr (int (length (filter (deletable cutoff) bs))) \<and>
         alone_at (filter (\<lambda>r. \<not> deletable cutoff r) bs) fs w))"
proof (rule validI)
  fix w assume w: "alone_at bs fs w"
  obtain x v where e: "enter w = (x, v)" by fastforce
  show "((\<exists>e. fst (run_state (dbcall (sql_DeleteDeletableBefore cutoff)) w) = Inl e) \<and>
       alone_at bs fs (snd (run_state (dbcall (sql_DeleteDeletableBefore cutoff)) w))) \<or>
      (fst (run_state (dbcall (sql_DeleteDeletableBefore cutoff)) w) = Inr (int (length (filter (deletable cutoff) bs))) \<and>
       alone_at (filter (\<lambda>r. \<not> deletable cutoff r) bs) fs (snd (run_state (dbcall (sql_DeleteDeletableBefore cutoff)) w)))"
    using w alone_enter [of w] e
    by (cases x) (auto simp: dbcall_def alone_at_def alone_def sql_DeleteDeletableBefore_def)
qed

lemma alone_filecall:
  "valid (alone_at bs fs) (filecall f)
     (\<lambda>x w. ((\<exists>e. x = Inl e) \<and> alone_at bs fs w) \<or> (x = fst (f fs) \<and> alone_at bs (snd (f fs)) w))"
proof (rule validI)
  fix w assume w: "alone_at bs fs w"
  obtain x v where e: "enter w = (x, v)" by fastforce
  show "((\<exists>e. fst (run_state (filecall f) w) = Inl e) \<and> alone_at bs fs (snd (run_state (filecall f) w))) \<or>
      (fst (run_state (filecall f) w) = fst (f fs) \<and> alone_at bs (snd (f fs)) (snd (run_state (filecall f) w)))"
    using w alone_enter [of w] e
    by (cases x) (auto simp: filecall_def alone_at_def alone_def split_beta)
qed

section \<open>The archive\<close>

definition archive_text :: "string list \<Rightarrow> string" where
  "archive_text texts = concat (map (\<lambda>t. t @ [CHR 0x0A]) texts)"

definition archived :: "backupService \<Rightarrow> time \<Rightarrow> Backup list \<Rightarrow> string list \<Rightarrow> bool" where
  "archived s cutoff items texts =
     list_all2 (\<lambda>item text. \<exists>t. bs_marshal s (archive_line (bs_rfc3339 s) t cutoff item) = Inr text) items texts"

lemma alone_append:
  "valid (alone_at bs fs) (AppendFile path text)
     (\<lambda>x w. ((\<exists>e. x = Inl e) \<and> alone_at bs fs w) \<or>
        (x = Inr () \<and> alone_at bs (fs(path \<mapsto> (case fs path of None \<Rightarrow> [] | Some c \<Rightarrow> c) @ text)) w))"
  unfolding AppendFile_def by (rule valid_weaken [OF alone_filecall]) simp_all

definition lines_post ::
  "backupService \<Rightarrow> string \<Rightarrow> time \<Rightarrow> Backup list \<Rightarrow> (string \<rightharpoonup> string) \<Rightarrow> string \<Rightarrow> Backup list \<Rightarrow>
   unit result \<Rightarrow> world \<Rightarrow> bool" where
  "lines_post s path cutoff bs fs acc items x w =
     (((\<exists>e. x = Inl e) \<and> some_files bs w) \<or>
      (x = Inr () \<and> (\<exists>texts. archived s cutoff items texts \<and>
         alone_at bs (fs(path \<mapsto> acc @ archive_text texts)) w)))"

lemma lines_post_Nil: "alone_at bs (fs(path \<mapsto> acc)) w \<Longrightarrow> lines_post s path cutoff bs fs acc [] (Inr ()) w"
  unfolding lines_post_def
  by (intro disjI2 conjI exI [of _ "[]"]) (simp_all add: archived_def archive_text_def del: fun_upd_apply)

lemma lines_post_Inl: "alone_at bs fs' w \<Longrightarrow> lines_post s path cutoff bs fs acc items (Inl e) w"
  by (simp add: lines_post_def some_files_def alone_at_def)

lemma lines_post_Cons:
  assumes "bs_marshal s (archive_line (bs_rfc3339 s) t cutoff item) = Inr text"
    "lines_post s path cutoff bs fs (acc @ text @ [CHR 0x0A]) items x w"
  shows "lines_post s path cutoff bs fs acc (item # items) x w"
proof -
  have "archived s cutoff (item # items) (text # texts)" if "archived s cutoff items texts" for texts
    using that assms(1) by (auto simp: archived_def)
  moreover have "(acc @ text @ [CHR 0x0A]) @ archive_text texts = acc @ archive_text (text # texts)" for texts
    by (simp add: archive_text_def)
  ultimately show ?thesis using assms(2) unfolding lines_post_def by metis
qed

lemma alone_lines:
  "valid (alone_at bs (fs(path \<mapsto> acc))) (write_archive_lines s path cutoff items)
     (lines_post s path cutoff bs fs acc items)"
proof (induction items arbitrary: acc)
  case Nil
  show ?case unfolding write_archive_lines.simps by (rule valid_ret, rule lines_post_Nil)
next
  case (Cons item items)
  have rest: "valid (alone_at bs (fs(path \<mapsto> acc @ line @ [CHR 0x0A]))) (write_archive_lines s path cutoff items)
      (lines_post s path cutoff bs fs acc (item # items))"
    if "bs_marshal s (archive_line (bs_rfc3339 s) now cutoff item) = Inr line" for now line
    by (rule valid_weaken [OF Cons.IH], assumption) (rule lines_post_Cons [OF that])
  have step: "valid (\<lambda>w. ((\<exists>e. r = Inl e) \<and> alone_at bs (fs(path \<mapsto> acc)) w) \<or>
        (r = Inr () \<and> alone_at bs ((fs(path \<mapsto> acc))(path \<mapsto>
           (case (fs(path \<mapsto> acc)) path of None \<Rightarrow> [] | Some c \<Rightarrow> c) @ line @ [CHR 0x0A])) w))
      (case r of Inl err \<Rightarrow> ret (Inl err) | Inr _ \<Rightarrow> write_archive_lines s path cutoff items)
      (lines_post s path cutoff bs fs acc (item # items))"
    if "bs_marshal s (archive_line (bs_rfc3339 s) now cutoff item) = Inr line" for now line and r :: "unit result"
    using rest [OF that] by (cases r) (auto intro!: valid_ret lines_post_Inl)
  show ?case
    unfolding write_archive_lines.simps
    by (rule valid_bind [OF alone_Now(2)], split sum.split)
      (intro conjI allI impI valid_ret lines_post_Inl valid_bind [OF alone_append] step; assumption)
qed

definition archive_post ::
  "backupService \<Rightarrow> time \<Rightarrow> Backup list \<Rightarrow> Backup list \<Rightarrow> string result \<Rightarrow> world \<Rightarrow> bool" where
  "archive_post s cutoff bs items x w =
     (((\<exists>e. x = Inl e) \<and> some_files bs w) \<or>
      (\<exists>path texts fs. x = Inr path \<and> archived s cutoff items texts \<and>
         alone_at bs (fs(path \<mapsto> archive_text texts)) w))"

lemma archive_post_Inl: "some_files bs w \<Longrightarrow> archive_post s cutoff bs items (Inl e) w"
  by (simp add: archive_post_def)

lemma alone_some_files: "alone_at bs fs w \<Longrightarrow> some_files bs w"
  by (simp add: alone_at_def some_files_def)

lemma alone_create_exclusive:
  "valid (alone_at bs fs) (CreateExclusive path)
     (\<lambda>x w. ((\<exists>e. x = Inl e) \<and> alone_at bs fs w) \<or> (x = Inr () \<and> alone_at bs (fs(path \<mapsto> [])) w))"
  unfolding CreateExclusive_def
  by (rule valid_weaken [OF alone_filecall]) (auto split: option.splits)

lemma alone_write_archive_file:
  "valid (alone_at bs fs) (do {
       opened \<leftarrow> CreateExclusive path;
       case opened of Inl err \<Rightarrow> ret (Inl err)
       | Inr _ \<Rightarrow> do {
           r \<leftarrow> write_archive_lines s path cutoff items;
           case r of Inl err \<Rightarrow> ret (Inl err) | Inr _ \<Rightarrow> ret (Inr path) }})
     (archive_post s cutoff bs items)"
proof (rule valid_bind [OF alone_create_exclusive])
  fix x :: "unit result"
  have finish: "valid (lines_post s path cutoff bs fs [] items r)
      (case r of Inl err \<Rightarrow> ret (Inl err) | Inr _ \<Rightarrow> ret (Inr path)) (archive_post s cutoff bs items)" for r
    by (cases r) (auto intro!: valid_ret simp: lines_post_def archive_post_def simp del: fun_upd_apply, blast)
  show "valid (\<lambda>w. ((\<exists>e. x = Inl e) \<and> alone_at bs fs w) \<or> (x = Inr () \<and> alone_at bs (fs(path \<mapsto> [])) w))
      (case x of Inl err \<Rightarrow> ret (Inl err)
       | Inr _ \<Rightarrow> do {
           r \<leftarrow> write_archive_lines s path cutoff items;
           case r of Inl err \<Rightarrow> ret (Inl err) | Inr _ \<Rightarrow> ret (Inr path) })
      (archive_post s cutoff bs items)"
    by (cases x) (auto intro!: valid_ret archive_post_Inl valid_bind [OF alone_lines] finish
        dest: alone_some_files simp del: fun_upd_apply)
qed

lemma alone_archive:
  assumes "items \<noteq> []"
  shows "valid (alone_at bs fs) (writeRetentionArchive s items cutoff) (archive_post s cutoff bs items)"
proof (cases "Abs (bs_wd s) (TrimSpace (bs_localDir s))")
  case (Inl e)
  then show ?thesis using assms
    by (auto simp: writeRetentionArchive_def intro!: valid_ret archive_post_Inl dest: alone_some_files)
next
  case (Inr root)
  have mk: "valid (alone_at bs fs) (MkdirAll p) (\<lambda>_. alone_at bs fs)" for p
    unfolding MkdirAll_def by (rule valid_weaken [OF alone_filecall]) auto
  have stop: "valid (alone_at bs fs) (ret (Inl e)) (archive_post s cutoff bs items)" for e
    by (auto intro!: valid_ret archive_post_Inl dest: alone_some_files)
  show ?thesis
    using assms Inr
    by (auto simp: writeRetentionArchive_def Let_def intro!: valid_bind [OF mk] valid_bind [OF alone_Now(2)]
        stop alone_write_archive_file split: sum.split)
qed

section \<open>The clean-up\<close>

definition cleanup_days :: "backupService \<Rightarrow> BackupRetentionCleanupRequest \<Rightarrow> int" where
  "cleanup_days s req =
     (let d = (if brc_RetentionDays req \<le> 0 then bs_retentionDays s else brc_RetentionDays req)
      in if d \<le> 0 then 30 else d)"

text \<open>The rows in the order of the archive.\<close>

definition retired :: "time \<Rightarrow> Backup list \<Rightarrow> Backup list" where
  "retired cutoff bs = order_asc backup_CreatedAt (order_asc backup_ID (filter (deletable cutoff) bs))"

definition cleanup_post ::
  "backupService \<Rightarrow> BackupRetentionCleanupRequest \<Rightarrow> time \<Rightarrow> Backup list \<Rightarrow>
   BackupRetentionCleanupResult result \<Rightarrow> world \<Rightarrow> bool" where
  "cleanup_post s req cutoff bs x w = (case x of
       Inl _ \<Rightarrow> backups (tbl w) = bs
     | Inr res \<Rightarrow>
         brr_MatchedRows res = int (length (filter (deletable cutoff) bs)) \<and>
         (if brc_DryRun req then brr_DeletedRows res = 0 \<and> backups (tbl w) = bs
          else brr_DeletedRows res = brr_MatchedRows res \<and>
               backups (tbl w) = filter (\<lambda>r. \<not> deletable cutoff r) bs \<and>
               (brc_ArchiveBeforeDelete req \<and> 0 < brr_MatchedRows res \<longrightarrow>
                  (\<exists>texts. archived s cutoff (retired cutoff bs) texts \<and>
                     files w (brr_ArchivePath res) = Some (archive_text texts)))))"

lemma alone_backups: "alone_at bs fs w \<Longrightarrow> backups (tbl w) = bs" "some_files bs w \<Longrightarrow> backups (tbl w) = bs"
  by (simp_all add: alone_at_def some_files_def)

text \<open>The optional archive step, before the deletion.\<close>

definition archived_post ::
  "backupService \<Rightarrow> bool \<Rightarrow> time \<Rightarrow> Backup list \<Rightarrow> string result \<Rightarrow> world \<Rightarrow> bool" where
  "archived_post s archive cutoff bs x w =
     (((\<exists>e. x = Inl e) \<and> some_files bs w) \<or>
      (\<exists>path fs. x = Inr path \<and> alone_at bs fs w \<and>
         (archive \<longrightarrow> (\<exists>texts. archived s cutoff (retired cutoff bs) texts \<and> fs path = Some (archive_text texts)))))"

lemma archived_post_archive:
  assumes "archive_post s cutoff bs (retired cutoff bs) x w"
  shows "archived_post s b cutoff bs x w"
proof -
  have "(fs(path \<mapsto> t)) path = Some t" for fs :: "string \<rightharpoonup> string" and path t by simp
  then show ?thesis using assms unfolding archive_post_def archived_post_def by blast
qed

lemma alone_archive_step:
  "valid (alone_at bs fs)
     (if archive \<and> int (length (filter (deletable cutoff) bs)) > 0
      then do {
        listed \<leftarrow> backupRepo_ListDeletableBefore cutoff;
        case listed of Inl err \<Rightarrow> ret (Inl err) | Inr items \<Rightarrow> writeRetentionArchive s items cutoff }
      else ret (Inr []))
     (archived_post s (archive \<and> filter (deletable cutoff) bs \<noteq> []) cutoff bs)"
proof (cases "archive \<and> filter (deletable cutoff) bs \<noteq> []")
  case False
  then show ?thesis by (auto intro!: valid_ret simp: archived_post_def)
next
  case True
  have read: "valid (alone_at bs fs) (backupRepo_ListDeletableBefore cutoff)
      (\<lambda>x w. (x = Inr (retired cutoff bs) \<or> (\<exists>e. x = Inl e)) \<and> alone_at bs fs w)"
    unfolding backupRepo_ListDeletableBefore_def retired_def by (rule alone_read)
  have "retired cutoff bs \<noteq> []"
    using True by (metis length_0_conv length_order(1) retired_def)
  then have "valid (alone_at bs fs) (writeRetentionArchive s (retired cutoff bs) cutoff) (archived_post s b cutoff bs)" for b
    by (rule valid_weaken [OF alone_archive]) (auto intro: archived_post_archive)
  moreover have "valid (alone_at bs fs) (ret (Inl e)) (archived_post s b cutoff bs)" for e b
    by (auto intro!: valid_ret simp: archived_post_def dest: alone_some_files)
  ultimately have after: "valid (\<lambda>w. (x = Inr (retired cutoff bs) \<or> (\<exists>e. x = Inl e)) \<and> alone_at bs fs w)
      (case x of Inl err \<Rightarrow> ret (Inl err) | Inr items \<Rightarrow> writeRetentionArchive s items cutoff)
      (archived_post s b cutoff bs)" for x b
    by (cases x) (auto intro!: valid_pre_conj)
  show ?thesis using True by (simp add: valid_bind [OF read after])
qed

lemma alone_delete_step:
  "valid (archived_post s (brc_ArchiveBeforeDelete req \<and> filter (deletable cutoff) bs \<noteq> []) cutoff bs x)
     (case x of Inl err \<Rightarrow> ret (Inl (wrapBackupInternal err))
      | Inr archivePath \<Rightarrow> do {
          deleted \<leftarrow> backupRepo_DeleteDeletableBefore cutoff;
          case deleted of Inl err \<Rightarrow> ret (Inl (wrapBackupInternal err))
          | Inr deletedRows \<Rightarrow> ret (Inr (res\<lparr>brr_DeletedRows := deletedRows, brr_ArchivePath := archivePath\<rparr>)) })
     (\<lambda>y w. brr_MatchedRows res = int (length (filter (deletable cutoff) bs)) \<longrightarrow> \<not> brc_DryRun req \<longrightarrow>
        cleanup_post s req cutoff bs y w)"
proof (cases x)
  case (Inl e)
  then show ?thesis
    by (auto intro!: valid_ret simp: archived_post_def cleanup_post_def dest: alone_backups)
next
  case (Inr path)
  have del: "valid (alone_at bs fs) (backupRepo_DeleteDeletableBefore cutoff)
     (\<lambda>x w. ((\<exists>e. x = Inl e) \<and> alone_at bs fs w) \<or>
        (x = Inr (int (length (filter (deletable cutoff) bs))) \<and>
         alone_at (filter (\<lambda>r. \<not> deletable cutoff r) bs) fs w))" for fs
    unfolding backupRepo_DeleteDeletableBefore_def by (rule alone_delete)
  let ?Q = "\<lambda>y w. brr_MatchedRows res = int (length (filter (deletable cutoff) bs)) \<longrightarrow> \<not> brc_DryRun req \<longrightarrow>
        cleanup_post s req cutoff bs y w"
  let ?c = "\<lambda>fs. brc_ArchiveBeforeDelete req \<and> filter (deletable cutoff) bs \<noteq> [] \<longrightarrow>
      (\<exists>texts. archived s cutoff (retired cutoff bs) texts \<and> fs path = Some (archive_text texts))"
  have core: "valid (alone_at bs fs) (do {
          deleted \<leftarrow> backupRepo_DeleteDeletableBefore cutoff;
          case deleted of Inl err \<Rightarrow> ret (Inl (wrapBackupInternal err))
          | Inr deletedRows \<Rightarrow> ret (Inr (res\<lparr>brr_DeletedRows := deletedRows, brr_ArchivePath := path\<rparr>)) }) ?Q"
    if c: "?c fs" for fs
  proof (rule valid_bind [OF del])
    fix y :: "int result"
    show "valid (\<lambda>w. ((\<exists>e. y = Inl e) \<and> alone_at bs fs w) \<or>
          (y = Inr (int (length (filter (deletable cutoff) bs))) \<and>
           alone_at (filter (\<lambda>r. \<not> deletable cutoff r) bs) fs w))
        (case y of Inl err \<Rightarrow> ret (Inl (wrapBackupInternal err))
         | Inr deletedRows \<Rightarrow> ret (Inr (res\<lparr>brr_DeletedRows := deletedRows, brr_ArchivePath := path\<rparr>))) ?Q"
      using c by (cases y) (auto intro!: valid_ret simp: cleanup_post_def alone_at_def)
  qed
  show ?thesis
    unfolding Inr sum.case
  proof (rule validI, goal_cases)
    case (1 w)
    then obtain fs where "alone_at bs fs w" "?c fs" unfolding archived_post_def by blast
    then show ?case using validD [OF core] by blast
  qed
qed

lemma alone_cleanup:
  "valid (\<lambda>w. alone_at bs fs w \<and> clock w = c) (CleanupRetention s req)
     (cleanup_post s req (c - cleanup_days s req * (24 * Hour)) bs)"
proof -
  let ?days = "cleanup_days s req"
  let ?cutoff = "c - ?days * (24 * Hour)"
  have count: "valid (alone_at bs fs) (backupRepo_CountDeletableBefore ?cutoff)
      (\<lambda>x w. (x = Inr (int (length (filter (deletable ?cutoff) bs))) \<or> (\<exists>e. x = Inl e)) \<and> alone_at bs fs w)"
    unfolding backupRepo_CountDeletableBefore_def by (rule alone_read)
  show ?thesis
    unfolding CleanupRetention_def Let_def cleanup_days_def [unfolded Let_def, symmetric]
    apply (rule valid_bind [OF alone_Now(1)], rule valid_pre_conj, hypsubst)
    apply (rule valid_bind [OF count], rule valid_pre_conj)
    apply (elim disjE exE; hypsubst; simp only: sum.case)
     apply (cases "brc_DryRun req"; simp only: if_True if_False)
      apply (rule valid_ret, simp add: cleanup_post_def alone_backups)
     apply (rule valid_bind [OF alone_archive_step], rule valid_weaken [OF alone_delete_step], assumption, simp)
    apply (rule valid_ret, simp add: cleanup_post_def alone_backups)
    done
qed

end
