(* ===== verification/BackupTheorems.thy ===== *)
theory BackupTheorems
  imports BackupRetention
begin

text \<open>
  The properties of the backup service, with concrete instances. The example service keeps its
  artifacts in \<^verbatim>\<open>/b\<close>, resolves symbolic links to themselves, prints every JSON value as
  \<open>j\<close> and parses that text as one fixed manifest.
\<close>

definition ex_backup :: Backup where
  "ex_backup = \<lparr>backup_ID = 1, backup_ResourceType = ''postgres'', backup_ResourceID = ''main'',
     backup_StorageType = ''local'', backup_FilePath = [], backup_SizeBytes = 0, backup_Checksum = [],
     backup_Status = ''pending'', backup_CreatedBy = None, backup_CreatedAt = 0, backup_UpdatedAt = 0\<rparr>"

definition ex_bs :: backupService where
  "ex_bs = \<lparr>bs_retentionDays = 30, bs_localDir = ''/b'',
     bs_lib = \<lparr>lower_uni = id, fold_uni = (=), quote = id\<rparr>, bs_wd = Inr ''/srv'',
     bs_evalSymlinks = Inr, bs_sha256hex = (\<lambda>_. replicate 64 (CHR ''0'')),
     bs_marshalIndent = (\<lambda>_. Inr ''j''), bs_marshal = (\<lambda>_. Inr ''j''),
     bs_parse = (\<lambda>_. Some (manifest_json (\<lambda>_. ''t'') (artifact_manifest ex_backup 0))),
     bs_rfc3339 = (\<lambda>_. ''t'')\<rparr>"

definition ex_backup_world :: "Backup \<Rightarrow> time \<Rightarrow> world" where
  "ex_backup_world b now = init_world\<lparr>tbl := empty_tables\<lparr>backups := [b], backups_seq := 2\<rparr>, clock := now\<rparr>"

lemma ex_trim: "TrimSpace ''/b'' = ''/b''" "TrimSpace [] = []"
  by code_simp+

lemma ex_abs: "Abs (bs_wd ex_bs) (TrimSpace (bs_localDir ex_bs)) = Inr ''/b''"
  by code_simp

section \<open>Artifacts\<close>

text \<open>
  Whatever the resource type and id of a backup, each part of its artifact's file name is
  non-empty, at most 64 bytes long, made of lower-case letters, digits and dashes, and has no
  dash at its ends; the file name is a single path element.
\<close>

theorem artifact_name_safe:
  "sanitizeBackupFilenamePart lib raw \<noteq> [] \<and> length (sanitizeBackupFilenamePart lib raw) \<le> 64 \<and>
   list_all (\<lambda>c. is_name_char c \<or> c = CHR ''-'') (sanitizeBackupFilenamePart lib raw) \<and>
   hd (sanitizeBackupFilenamePart lib raw) \<noteq> CHR ''-'' \<and>
   last (sanitizeBackupFilenamePart lib raw) \<noteq> CHR ''-'' \<and>
   slash \<notin> set (artifactFileName lib b now)"
  using sanitize_result [of lib raw] artifactFileName_elem [of lib b now]
  by (simp add: name_byte_def [abs_def] good_elem_def)

text \<open>
  With a configured directory that can be made absolute, the path of an artifact is never
  refused and is always a file directly inside that directory, whatever the backup's fields.
\<close>

theorem artifact_path_inside:
  assumes "TrimSpace dir \<noteq> []" "Abs (bs_wd s) (TrimSpace dir) = Inr root"
    "\<And>d. bs_wd s = Inr d \<Longrightarrow> IsAbs d"
  shows "\<exists>cs. clean_elems cs \<and> root = rooted_path cs \<and>
    safeBackupArtifactPath s dir b now = Inr (rooted_path (cs @ [artifactFileName (bs_lib s) b now]))"
  using safeBackupArtifactPath_below [OF assms] by metis

theorem artifact_path_inside_witness:
  "\<exists>cs. clean_elems cs \<and> ''/b'' = rooted_path cs \<and>
    safeBackupArtifactPath ex_bs (bs_localDir ex_bs) ex_backup 0 =
      Inr (rooted_path (cs @ [artifactFileName (bs_lib ex_bs) ex_backup 0]))"
  by (rule artifact_path_inside [OF _ ex_abs]) (simp_all add: ex_bs_def ex_trim IsAbs_def slash_def)

text \<open>
  C18. A file that passes the check of artifact verification lies, with symbolic links resolved,
  inside the (resolved) artifact directory. The resolver is assumed to return clean absolute
  paths for clean absolute paths.
\<close>

theorem verified_path_inside:
  assumes "backupPathWithinLocalDir s dir path"
    and "\<And>d. bs_wd s = Inr d \<Longrightarrow> IsAbs d"
    and "\<And>cs q. clean_elems cs \<Longrightarrow> bs_evalSymlinks s (rooted_path cs) = Inr q \<Longrightarrow>
      \<exists>ds. clean_elems ds \<and> q = rooted_path ds"
  shows "\<exists>pathAbs cs es. Abs (bs_wd s) (TrimSpace path) = Inr pathAbs \<and>
    bs_evalSymlinks s pathAbs = Inr (rooted_path (cs @ es)) \<and>
    (\<exists>localAbs. Abs (bs_wd s) (TrimSpace dir) = Inr localAbs \<and>
       (bs_evalSymlinks s localAbs = Inr (rooted_path cs) \<or> localAbs = rooted_path cs))"
proof -
  obtain l p where lp: "Abs (bs_wd s) (TrimSpace dir) = Inr l" "Abs (bs_wd s) (TrimSpace path) = Inr p"
    using assms(1) by (auto simp: backupPathWithinLocalDir_def split: sum.splits)
  obtain ls where ls: "clean_elems ls" "l = rooted_path ls" using Abs_rooted [OF lp(1) assms(2)] by blast
  obtain ps where ps: "clean_elems ps" "p = rooted_path ps" using Abs_rooted [OF lp(2) assms(2)] by blast
  obtain r where r: "bs_evalSymlinks s p = Inr r"
    using assms(1) lp by (auto simp: backupPathWithinLocalDir_def split: sum.splits)
  obtain ds where ds: "clean_elems ds" "r = rooted_path ds" using assms(3) [OF ps(1)] r ps(2) by blast
  define l' where "l' = (case bs_evalSymlinks s l of Inl _ \<Rightarrow> l | Inr q \<Rightarrow> q)"
  have "\<exists>cs. clean_elems cs \<and> l' = rooted_path cs"
    using ls assms(3) [OF ls(1)] by (auto simp: l'_def split: sum.splits)
  then obtain cs where cs: "clean_elems cs" "l' = rooted_path cs" by blast
  obtain rel where "Rel l' r = Inr rel" "\<not> rel_escapes rel"
    using assms(1) lp r by (auto simp: backupPathWithinLocalDir_def l'_def Let_def split: sum.splits)
  then obtain es where "ds = cs @ es" using Rel_inside [OF cs(1) ds(1)] cs(2) ds(2) by blast
  moreover have "bs_evalSymlinks s l = Inr (rooted_path cs) \<or> l = rooted_path cs"
    using cs(2) by (auto simp: l'_def split: sum.splits)
  ultimately show ?thesis using lp r ds(2) by blast
qed

theorem verified_path_inside_witness:
  "\<exists>pathAbs cs es. Abs (bs_wd ex_bs) (TrimSpace ''/b/x.json'') = Inr pathAbs \<and>
    bs_evalSymlinks ex_bs pathAbs = Inr (rooted_path (cs @ es)) \<and>
    (\<exists>localAbs. Abs (bs_wd ex_bs) (TrimSpace ''/b'') = Inr localAbs \<and>
       (bs_evalSymlinks ex_bs localAbs = Inr (rooted_path cs) \<or> localAbs = rooted_path cs))"
proof (rule verified_path_inside)
  show "backupPathWithinLocalDir ex_bs ''/b'' ''/b/x.json''" by code_simp
qed (auto simp: ex_bs_def IsAbs_def slash_def)


section \<open>Verification of metadata\<close>

text \<open>
  Verifying a backup against a reported size and checksum: a disagreement with what is
  stored answers 400 and marks the backup failed; agreement (or nothing stored yet) stores the
  reported values and marks it successful.
\<close>

theorem verify_backup:
  assumes "sched w = []" "find_backup i (tbl w) = Some b" "0 < i" "0 < vbr_SizeBytes req"
    "normalizeBackupChecksum (bs_lib s) (vbr_Checksum req) = Inr ck"
    "normalizeBackupText (vbr_FilePath req) ''file_path'' 1024 False = Inr fp"
  shows "if (backup_Checksum b \<noteq> [] \<and> backup_Checksum b \<noteq> ck) \<or>
      (backup_SizeBytes b > 0 \<and> backup_SizeBytes b \<noteq> vbr_SizeBytes req)
    then \<exists>e w'. run_state (Verify s i req) w = (Inl e, w') \<and> HTTPStatus e = 400 \<and>
      find_backup i (tbl w') = Some (b\<lparr>backup_Status := ''failed'', backup_UpdatedAt := clock w\<rparr>)
    else \<exists>v w'. run_state (Verify s i req) w = (Inr v, w') \<and>
      find_backup i (tbl w') = Some (verification_row ''success'' (vbr_SizeBytes req) ck fp (clock w) b)"
proof -
  let ?at = "\<lambda>r. at_backup i r (clock w) (files w)"
  let ?bad = "(backup_Checksum b \<noteq> [] \<and> backup_Checksum b \<noteq> ck) \<or>
      (backup_SizeBytes b > 0 \<and> backup_SizeBytes b \<noteq> vbr_SizeBytes req)"
  have start: "?at b w" using assms(1,2) by (simp add: at_backup_def)
  have pos: "\<not> i \<le> 0" "\<not> vbr_SizeBytes req \<le> 0" using assms(3,4) by simp_all
  note unfold = Verify_def if_not_P [OF pos(1)] if_not_P [OF pos(2)] assms(5,6) sum.case
  show ?thesis
  proof (cases ?bad)
    case True
    have "\<exists>msg. runs (?at b) (Verify s i req) (Inl (badBackupRequest (Plain msg))) (?at (backup_status_row ''failed'' (clock w) b))"
      unfolding unfold
      using True by (intro exI [of _ "if backup_Checksum b \<noteq> [] \<and> backup_Checksum b \<noteq> ck
          then ''backup checksum mismatch'' else ''backup size mismatch''"] runs_bind [OF runs_backup_get])
        (auto simp: runs_failBackup)
    then obtain msg where "runs (?at b) (Verify s i req) (Inl (badBackupRequest (Plain msg)))
        (?at (backup_status_row ''failed'' (clock w) b))" ..
    from runsD [OF this start] True show ?thesis
      by (cases "run_state (Verify s i req) w")
        (auto simp: at_backup_def backup_status_row_def badBackupRequest_def apperror_defs)
  next
    case False
    have "\<exists>v. runs (?at b) (Verify s i req) (Inr v)
        (?at (verification_row ''success'' (vbr_SizeBytes req) ck fp (clock w) b))"
      unfolding unfold BackupStatusSuccess_def
      by (intro exI [of _ "mapBackupSummary (b\<lparr>backup_SizeBytes := vbr_SizeBytes req,
           backup_Checksum := ck, backup_Status := ''success'',
           backup_FilePath := (if fp \<noteq> [] then fp else backup_FilePath b), backup_UpdatedAt := clock w\<rparr>)"]
          runs_bind [OF runs_backup_get])
        (use False pos in \<open>auto intro!: runs_bind [OF runs_backup_verification] runs_bind [OF runs_backup_Now]\<close>)
    then obtain v where "runs (?at b) (Verify s i req) (Inr v)
        (?at (verification_row ''success'' (vbr_SizeBytes req) ck fp (clock w) b))" ..
    from runsD [OF this start] False show ?thesis
      by (cases "run_state (Verify s i req) w") (auto simp: at_backup_def)
  qed
qed

theorem verify_backup_witness:
  "\<exists>e w'. run_state (Verify ex_bs 1 \<lparr>vbr_SizeBytes = 7, vbr_Checksum = replicate 64 (CHR ''a''), vbr_FilePath = []\<rparr>)
      (ex_backup_world (ex_backup\<lparr>backup_SizeBytes := 5\<rparr>) 0) = (Inl e, w') \<and> HTTPStatus e = 400"
proof -
  have "normalizeBackupChecksum (bs_lib ex_bs) (replicate 64 (CHR ''a'')) = Inr (''sha256:'' @ replicate 64 (CHR ''a''))"
    by code_simp
  moreover have "normalizeBackupText [] ''file_path'' 1024 False = Inr []" by code_simp
  ultimately show ?thesis
    using verify_backup [of "ex_backup_world (ex_backup\<lparr>backup_SizeBytes := 5\<rparr>) 0" 1 "ex_backup\<lparr>backup_SizeBytes := 5\<rparr>"
        "\<lparr>vbr_SizeBytes = 7, vbr_Checksum = replicate 64 (CHR ''a''), vbr_FilePath = []\<rparr>" ex_bs
        "''sha256:'' @ replicate 64 (CHR ''a'')" "[]"]
    by (auto simp: ex_backup_world_def init_world_def empty_tables_def find_backup_def ex_backup_def)
qed

text \<open>
  A checksum that is accepted is stored in one form only: the prefix and 64 lower-case hex
  digits; normalising it again changes nothing.
\<close>

theorem checksum_normal_form:
  assumes "normalizeBackupChecksum lib raw = Inr c"
  shows "\<exists>v. c = ''sha256:'' @ v \<and> length v = 64 \<and> list_all is_lower_hex v \<and>
    normalizeBackupChecksum lib c = Inr c"
proof -
  obtain v where v: "c = ''sha256:'' @ v" "length v = 64" "list_all is_lower_hex v"
    using assms by (auto simp: normalizeBackupChecksum_def Let_def split: if_splits)
  have byte: "is_lower_hex x \<Longrightarrow> byte x < 128 \<and> lower_byte x = x" for x
    by (auto simp: is_lower_hex_def lower_byte_def)
  then have low: "isASCII c" "map lower_byte c = c"
    using v by (auto simp: isASCII_def list_all_iff lower_byte_def intro!: map_idI)
  have "TrimSpace c = c" by (rule TrimSpace_digest [OF v])
  then have "normalizeBackupChecksum lib c = Inr c"
    using v low by (simp add: normalizeBackupChecksum_def ToLower_ASCII TrimPrefix_def Let_def)
  with v show ?thesis by blast
qed

theorem checksum_normal_form_witness:
  "\<exists>v. ''sha256:'' @ replicate 64 (CHR ''a'') = ''sha256:'' @ v \<and> length v = 64 \<and> list_all is_lower_hex v \<and>
    normalizeBackupChecksum (bs_lib ex_bs) (''sha256:'' @ replicate 64 (CHR ''a'')) =
      Inr (''sha256:'' @ replicate 64 (CHR ''a''))"
  by (rule checksum_normal_form [of "bs_lib ex_bs" "''  SHA256:'' @ replicate 64 (CHR ''A'')"]) code_simp

section \<open>Retention\<close>

text \<open>
  C19. The retention clean-up, with any of its calls failing: on an error no backup is removed;
  a dry run removes none; otherwise exactly the finished backups (success or failed) created
  before the cut-off are removed and counted, and if an archive was asked for and something
  matched, the archive file holds one line for every removed backup, in order of creation.
\<close>

theorem retention_cleanup:
  assumes "alone w" "run_state (CleanupRetention s req) w = (x, w')"
  shows "cleanup_post s req (clock w - cleanup_days s req * (24 * Hour)) (backups (tbl w)) x w'"
  using validD [OF alone_cleanup [of "backups (tbl w)" "files w" "clock w" s req], of w] assms
  by (simp add: alone_at_def)

theorem retention_cleanup_witness:
  "cleanup_post ex_bs \<lparr>brc_DryRun = False, brc_RetentionDays = 1, brc_ArchiveBeforeDelete = True\<rparr>
     (25 * Hour - cleanup_days ex_bs \<lparr>brc_DryRun = False, brc_RetentionDays = 1, brc_ArchiveBeforeDelete = True\<rparr> * (24 * Hour))
     [ex_backup\<lparr>backup_Status := ''success''\<rparr>]
     (fst (run_state (CleanupRetention ex_bs \<lparr>brc_DryRun = False, brc_RetentionDays = 1, brc_ArchiveBeforeDelete = True\<rparr>)
        (ex_backup_world (ex_backup\<lparr>backup_Status := ''success''\<rparr>) (25 * Hour))))
     (snd (run_state (CleanupRetention ex_bs \<lparr>brc_DryRun = False, brc_RetentionDays = 1, brc_ArchiveBeforeDelete = True\<rparr>)
        (ex_backup_world (ex_backup\<lparr>backup_Status := ''success''\<rparr>) (25 * Hour))))"
  using retention_cleanup [of "ex_backup_world (ex_backup\<lparr>backup_Status := ''success''\<rparr>) (25 * Hour)" ex_bs
      "\<lparr>brc_DryRun = False, brc_RetentionDays = 1, brc_ArchiveBeforeDelete = True\<rparr>"]
  by (simp add: ex_backup_world_def alone_def init_world_def)

end
