(* ===== verification/UserRepo.thy ===== *)
theory UserRepo
  imports World
begin

text \<open>
  \<^verbatim>\<open>internal/repository/user_repository.go\<close>: the statements on users, roles and permissions,
  first as functions on the tables, then as the repository methods. The constraints of
  \<^verbatim>\<open>migrations/0001_init_schema.up.sql\<close> are errors of the statements that can violate them.
  The collation of \<^verbatim>\<open>ORDER BY\<close> on text columns belongs to the database and is a parameter
  (\<open>collate\<close>: a list of distinct strings, in the order of the database).
\<close>

text \<open>What a \<^verbatim>\<open>TIMESTAMPTZ\<close> column keeps of an instant: microseconds, truncated.\<close>

definition timestamptz :: "time \<Rightarrow> time" where
  "timestamptz t = t div 1000 * 1000"

lemma timestamptz_le: "timestamptz t \<le> t"
  unfolding timestamptz_def using pos_mod_sign [of 1000 t] div_mult_mod_eq [of t 1000] by linarith

lemma timestamptz_mono: "s \<le> t \<Longrightarrow> timestamptz s \<le> timestamptz t"
  by (simp add: timestamptz_def zdiv_mono1)

lemma timestamptz_later: "s + 1000 \<le> t \<Longrightarrow> s < timestamptz t"
  unfolding timestamptz_def using pos_mod_bound [of 1000 t] div_mult_mod_eq [of t 1000] by linarith

section \<open>Statements\<close>

definition sql_CreateUser :: "User \<Rightarrow> time \<Rightarrow> tables \<Rightarrow> User result \<times> tables" where
  "sql_CreateUser user now t =
     (let row = user\<lparr>user_ID := users_seq t,
            user_Status := (if user_Status user = 0 then 1 else user_Status user),
            user_CreatedAt := now, user_UpdatedAt := now\<rparr>;
          t' = t\<lparr>users_seq := users_seq t + 1\<rparr>
      in if user_Status row \<notin> {0, 1, 2} then (Inl (Lib ''check violation''), t')
         else if \<exists>r \<in> set (users t). user_Username r = user_Username user \<or> user_Email r = user_Email user
         then (Inl (Lib ''duplicate key''), t')
         else (Inr row, t'\<lparr>users := users t @ [row]\<rparr>))"

definition sql_UpdateLastLoginAt :: "int \<Rightarrow> time \<Rightarrow> time \<Rightarrow> tables \<Rightarrow> unit result \<times> tables" where
  "sql_UpdateLastLoginAt i lastLoginAt now t =
     (Inr (), t\<lparr>users := update_where (\<lambda>r. user_ID r = i)
        (\<lambda>r. r\<lparr>user_LastLoginAt := Some (timestamptz lastLoginAt), user_UpdatedAt := now\<rparr>) (users t)\<rparr>)"

definition sql_UpdatePasswordHash :: "int \<Rightarrow> string \<Rightarrow> time \<Rightarrow> tables \<Rightarrow> unit result \<times> tables" where
  "sql_UpdatePasswordHash i passwordHash now t =
     (Inr (), t\<lparr>users := update_where (\<lambda>r. user_ID r = i)
        (\<lambda>r. r\<lparr>user_PasswordHash := passwordHash, user_UpdatedAt := now\<rparr>) (users t)\<rparr>)"

text \<open>
  \<^verbatim>\<open>INSERT ... ON CONFLICT (...) DO NOTHING\<close>, row by row: every row takes an id of the
  sequence; a row whose conflict target exists is skipped; a role with a new slug and a used
  name violates the other unique index.
\<close>

fun insert_roles :: "time \<Rightarrow> Role list \<Rightarrow> tables \<Rightarrow> unit result \<times> tables" where
  "insert_roles now [] t = (Inr (), t)"
| "insert_roles now (r # rs) t =
     (let t' = t\<lparr>roles_seq := roles_seq t + 1\<rparr>
      in if \<exists>x \<in> set (roles t). role_Slug x = role_Slug r then insert_roles now rs t'
         else if \<exists>x \<in> set (roles t). role_Name x = role_Name r
         then (Inl (Lib ''duplicate key''), t')
         else insert_roles now rs (t'\<lparr>roles := roles t @
                [r\<lparr>role_ID := roles_seq t, role_CreatedAt := now, role_UpdatedAt := now\<rparr>]\<rparr>))"

fun insert_permissions :: "time \<Rightarrow> Permission list \<Rightarrow> tables \<Rightarrow> tables" where
  "insert_permissions now [] t = t"
| "insert_permissions now (p # ps) t =
     (let t' = t\<lparr>permissions_seq := permissions_seq t + 1\<rparr>
      in if \<exists>x \<in> set (permissions t). perm_Name x = perm_Name p then insert_permissions now ps t'
         else insert_permissions now ps (t'\<lparr>permissions := permissions t @
                [p\<lparr>perm_ID := permissions_seq t, perm_CreatedAt := now, perm_UpdatedAt := now\<rparr>]\<rparr>))"

fun insert_role_permissions :: "time \<Rightarrow> (int \<times> int) list \<Rightarrow> tables \<Rightarrow> tables" where
  "insert_role_permissions now [] t = t"
| "insert_role_permissions now ((r, p) # xs) t =
     insert_role_permissions now xs
       (if \<exists>x \<in> set (role_permissions t). rp_RoleID x = r \<and> rp_PermissionID x = p then t
        else t\<lparr>role_permissions := role_permissions t @
               [\<lparr>rp_RoleID = r, rp_PermissionID = p, rp_CreatedAt = now\<rparr>]\<rparr>)"

definition new_role :: "string \<Rightarrow> string \<Rightarrow> string \<Rightarrow> Role" where
  "new_role name slug description = \<lparr>role_ID = 0, role_Name = name, role_Slug = slug,
     role_Description = description, role_CreatedAt = 0, role_UpdatedAt = 0\<rparr>"

definition default_roles :: "Role list" where
  "default_roles =
     [new_role ''Super Admin'' ''super_admin'' ''Full access to all resources'',
      new_role ''Operator'' ''operator'' ''Limited operations access'']"

definition permissionSeeds :: "(string \<times> string) list" where
  "permissionSeeds =
     [(''dashboard.read'', ''Read dashboard overview''),
      (''files.read'', ''Read files''),
      (''files.write'', ''Write files''),
      (''services.read'', ''Read service states''),
      (''services.manage'', ''Manage services''),
      (''docker.read'', ''Read docker resources''),
      (''docker.manage'', ''Manage docker resources''),
      (''cron.read'', ''Read cron jobs''),
      (''cron.manage'', ''Manage cron jobs''),
      (''audit.read'', ''Read audit logs''),
      (''audit.export'', ''Export audit logs''),
      (''audit.manage'', ''Manage audit retention''),
      (''tasks.read'', ''Read tasks''),
      (''tasks.manage'', ''Manage tasks''),
      (''backup.read'', ''Read backup metadata''),
      (''backup.manage'', ''Manage backups'')]"

definition operatorPermissions :: "string list" where
  "operatorPermissions = [''dashboard.read'', ''files.read'']"

text \<open>The loops that fill a Go map from the records read back: a later record overwrites.\<close>

definition ids_by :: "('r \<Rightarrow> string) \<Rightarrow> ('r \<Rightarrow> int) \<Rightarrow> 'r list \<Rightarrow> string \<rightharpoonup> int" where
  "ids_by name ident records = foldl (\<lambda>m r. m(name r \<mapsto> ident r)) Map.empty records"

definition granted_pairs ::
  "(string \<rightharpoonup> int) \<Rightarrow> (string \<rightharpoonup> int) \<Rightarrow> string \<Rightarrow> string list \<Rightarrow> (int \<times> int) list" where
  "granted_pairs roleIDs permissionIDs slug names =
     concat (map (\<lambda>n. case (roleIDs slug, permissionIDs n) of (Some r, Some p) \<Rightarrow> [(r, p)] | _ \<Rightarrow> []) names)"

text \<open>
  The transaction, as one step: what others commit between its statements is left out. An
  error rolls the rows back, but not the sequences.
\<close>

definition sql_EnsureRBACDefaults :: "time \<Rightarrow> tables \<Rightarrow> unit result \<times> tables" where
  "sql_EnsureRBACDefaults now t =
     (case insert_roles now default_roles t of
        (Inl e, t1) \<Rightarrow> (Inl e, t\<lparr>roles_seq := roles_seq t1\<rparr>)
      | (Inr _, t1) \<Rightarrow>
          let permissionNames = map fst permissionSeeds;
              t2 = insert_permissions now (map (\<lambda>(n, d). \<lparr>perm_ID = 0, perm_Name = n,
                     perm_Description = d, perm_CreatedAt = 0, perm_UpdatedAt = 0\<rparr>) permissionSeeds) t1;
              roleIDs = ids_by role_Slug role_ID
                (filter (\<lambda>r. role_Slug r \<in> {''super_admin'', ''operator''}) (roles t2));
              permissionIDs = ids_by perm_Name perm_ID
                (filter (\<lambda>p. perm_Name p \<in> set permissionNames) (permissions t2));
              rolePermissions = granted_pairs roleIDs permissionIDs ''super_admin'' permissionNames @
                granted_pairs roleIDs permissionIDs ''operator'' operatorPermissions
          in (Inr (), insert_role_permissions now rolePermissions t2))"

definition sql_AddUserRole :: "int \<Rightarrow> int \<Rightarrow> time \<Rightarrow> tables \<Rightarrow> unit result \<times> tables" where
  "sql_AddUserRole userID roleID now t =
     (if \<exists>x \<in> set (user_roles t). ur_UserID x = userID \<and> ur_RoleID x = roleID then (Inr (), t)
      else if (\<exists>u \<in> set (users t). user_ID u = userID) \<and> (\<exists>r \<in> set (roles t). role_ID r = roleID)
      then (Inr (), t\<lparr>user_roles := user_roles t @
             [\<lparr>ur_UserID = userID, ur_RoleID = roleID, ur_CreatedAt = now\<rparr>]\<rparr>)
      else (Inl (Lib ''foreign key violation''), t))"

definition find_user :: "int \<Rightarrow> tables \<Rightarrow> User option" where
  "find_user i t = first_where (\<lambda>r. user_ID r = i) (users t)"

definition find_username :: "string \<Rightarrow> tables \<Rightarrow> User option" where
  "find_username name t = first_where (\<lambda>r. user_Username r = name) (users t)"

definition find_slug :: "string \<Rightarrow> tables \<Rightarrow> Role option" where
  "find_slug slug t = first_where (\<lambda>r. role_Slug r = slug) (roles t)"

definition user_role_slugs :: "int \<Rightarrow> tables \<Rightarrow> string list" where
  "user_role_slugs userID t = remdups [role_Slug r. r \<leftarrow> roles t, ur \<leftarrow> user_roles t,
     ur_RoleID ur = role_ID r \<and> ur_UserID ur = userID]"

definition user_permission_names :: "int \<Rightarrow> tables \<Rightarrow> string list" where
  "user_permission_names userID t = remdups [perm_Name p. p \<leftarrow> permissions t,
     rp \<leftarrow> role_permissions t, rp_PermissionID rp = perm_ID p,
     ur \<leftarrow> user_roles t, ur_RoleID ur = rp_RoleID rp \<and> ur_UserID ur = userID]"

section \<open>Repository methods\<close>

definition userRepo_Count :: "(world, int result) state" where
  "userRepo_Count = dbcall (\<lambda>t. (Inr (int (length (users t))), t))"

definition userRepo_Create :: "User \<Rightarrow> (world, User result) state" where
  "userRepo_Create user = do {
     now \<leftarrow> Now;
     dbcall (sql_CreateUser user now)
   }"

definition userRepo_GetByUsername :: "string \<Rightarrow> (world, User option result) state" where
  "userRepo_GetByUsername username = dbcall (\<lambda>t. (Inr (find_username username t), t))"

definition userRepo_GetByID :: "int \<Rightarrow> (world, User option result) state" where
  "userRepo_GetByID i = dbcall (\<lambda>t. (Inr (find_user i t), t))"

definition userRepo_UpdateLastLoginAt :: "int \<Rightarrow> time \<Rightarrow> (world, unit result) state" where
  "userRepo_UpdateLastLoginAt i lastLoginAt = do {
     now \<leftarrow> Now;
     dbcall (sql_UpdateLastLoginAt i lastLoginAt now)
   }"

definition userRepo_UpdatePasswordHash :: "int \<Rightarrow> string \<Rightarrow> (world, unit result) state" where
  "userRepo_UpdatePasswordHash i passwordHash = do {
     now \<leftarrow> Now;
     dbcall (sql_UpdatePasswordHash i passwordHash now)
   }"

definition userRepo_EnsureRBACDefaults :: "(world, unit result) state" where
  "userRepo_EnsureRBACDefaults = do {
     now \<leftarrow> Now;
     dbcall (sql_EnsureRBACDefaults now)
   }"

definition userRepo_EnsureUserRoleBySlug :: "int \<Rightarrow> string \<Rightarrow> (world, unit result) state" where
  "userRepo_EnsureUserRoleBySlug userID roleSlug = do {
     role \<leftarrow> dbcall (\<lambda>t. (Inr (find_slug roleSlug t), t));
     case role of
       Inl e \<Rightarrow> ret (Inl e)
     | Inr None \<Rightarrow> ret (Inr ())
     | Inr (Some r) \<Rightarrow> do {
         now \<leftarrow> Now;
         dbcall (sql_AddUserRole userID (role_ID r) now)
       }
   }"

definition userRepo_GetRolesAndPermissions ::
  "(string list \<Rightarrow> string list) \<Rightarrow> int \<Rightarrow> (world, (string list \<times> string list) result) state" where
  "userRepo_GetRolesAndPermissions collate userID = do {
     roles \<leftarrow> dbcall (\<lambda>t. (Inr (collate (user_role_slugs userID t)), t));
     case roles of Inl e \<Rightarrow> ret (Inl e)
     | Inr rs \<Rightarrow> do {
         permissions \<leftarrow> dbcall (\<lambda>t. (Inr (collate (user_permission_names userID t)), t));
         case permissions of Inl e \<Rightarrow> ret (Inl e) | Inr ps \<Rightarrow> ret (Inr (rs, ps))
       }
   }"

lemmas userRepo_defs = userRepo_Count_def userRepo_Create_def userRepo_GetByUsername_def
  userRepo_GetByID_def userRepo_UpdateLastLoginAt_def userRepo_UpdatePasswordHash_def
  userRepo_EnsureRBACDefaults_def userRepo_EnsureUserRoleBySlug_def
  userRepo_GetRolesAndPermissions_def

end
