(* ===== verification/Base64.thy ===== *)
theory Base64
  imports Prelude
begin

text \<open>
  \<^verbatim>\<open>encoding/base64\<close> as the backend uses it: the standard and the URL alphabet, with and without
  padding. The decoder skips line breaks, as Go's does, and ignores the unused bits of the last
  character.
\<close>

definition b64_common :: "nat \<Rightarrow> char" where
  "b64_common n = (if n < 26 then char_of (65 + n) else if n < 52 then char_of (71 + n) else char_of (n - 4))"

definition b64_std :: "nat \<Rightarrow> char" where
  "b64_std n = (if n < 62 then b64_common n else if n = 62 then CHR ''+'' else CHR ''/'')"

definition b64_url :: "nat \<Rightarrow> char" where
  "b64_url n = (if n < 62 then b64_common n else if n = 62 then CHR ''-'' else CHR ''_'')"

text \<open>\<^verbatim>\<open>EncodeToString\<close> of the encodings without padding.\<close>

fun b64_encode :: "(nat \<Rightarrow> char) \<Rightarrow> string \<Rightarrow> string" where
  "b64_encode al (a # b # c # s) =
     [al (byte a div 4), al (byte a mod 4 * 16 + byte b div 16),
      al (byte b mod 16 * 4 + byte c div 64), al (byte c mod 64)] @ b64_encode al s"
| "b64_encode al [a, b] =
     [al (byte a div 4), al (byte a mod 4 * 16 + byte b div 16), al (byte b mod 16 * 4)]"
| "b64_encode al [a] = [al (byte a div 4), al (byte a mod 4 * 16)]"
| "b64_encode al [] = []"

definition b64_val :: "(nat \<Rightarrow> char) \<Rightarrow> char \<Rightarrow> nat option" where
  "b64_val al c = find (\<lambda>n. al n = c) [0..<64]"

text \<open>The bytes of a group of two, three and four characters.\<close>

definition b64_bytes :: "(nat \<Rightarrow> char) \<Rightarrow> string \<Rightarrow> string option" where
  "b64_bytes al cs = (case map (b64_val al) cs of
       [Some a, Some b] \<Rightarrow> Some [char_of (a * 4 + b div 16)]
     | [Some a, Some b, Some c] \<Rightarrow> Some [char_of (a * 4 + b div 16), char_of (b mod 16 * 16 + c div 4)]
     | [Some a, Some b, Some c, Some d] \<Rightarrow>
         Some [char_of (a * 4 + b div 16), char_of (b mod 16 * 16 + c div 4), char_of (c mod 4 * 64 + d)]
     | _ \<Rightarrow> None)"

fun b64_groups :: "(nat \<Rightarrow> char) \<Rightarrow> bool \<Rightarrow> string \<Rightarrow> string option" where
  "b64_groups al padded [] = Some []"
| "b64_groups al padded (a # b # c # d # s) =
     (if padded \<and> c = CHR ''='' then (if d = CHR ''='' \<and> s = [] then b64_bytes al [a, b] else None)
      else if padded \<and> d = CHR ''='' then (if s = [] then b64_bytes al [a, b, c] else None)
      else (case b64_bytes al [a, b, c, d] of None \<Rightarrow> None
          | Some xs \<Rightarrow> map_option (append xs) (b64_groups al padded s)))"
| "b64_groups al padded cs = (if padded then None else b64_bytes al cs)"

definition b64_decode :: "(nat \<Rightarrow> char) \<Rightarrow> bool \<Rightarrow> string \<Rightarrow> string option" where
  "b64_decode al padded s =
     b64_groups al padded (filter (\<lambda>c. c \<noteq> CHR 0x0A \<and> c \<noteq> CHR 0x0D) s)"

section \<open>Decoding undoes encoding\<close>

lemma byte_char_of: "k < 256 \<Longrightarrow> byte (char_of k) = k"
  by simp

lemma byte_b64_std:
  "n < 64 \<Longrightarrow> byte (b64_std n) = (if n < 26 then 65 + n else if n < 52 then 71 + n else if n < 62 then n - 4
    else if n = 62 then 43 else 47)"
  by (simp add: b64_std_def b64_common_def byte_char_of)

lemma b64_val_std [simp]: "n < 64 \<Longrightarrow> b64_val b64_std (b64_std n) = Some n"
proof -
  assume n: "n < 64"
  have inj: "b64_std m \<noteq> b64_std n" if "m < n" for m
  proof
    assume "b64_std m = b64_std n"
    from arg_cong [OF this, of byte] that n show False by (simp add: byte_b64_std split: if_splits)
  qed
  then show ?thesis
    using n by (auto simp: b64_val_def find_Some_iff nth_append intro!: exI [of _ n] dest: inj)
qed

definition b64_plain :: "char \<Rightarrow> bool" where
  "b64_plain c = (33 \<le> byte c \<and> byte c < 127 \<and> byte c \<noteq> 61)"

lemma b64_std_plain: "n < 64 \<Longrightarrow> b64_plain (b64_std n)"
  by (auto simp: b64_plain_def byte_b64_std)

lemma byte_bounds:
  "byte c div 4 < 64" "byte c div 16 < 16" "byte c div 64 < 4" "byte c < 256"
proof -
  show "byte c < 256" by (cases c) (auto simp: of_char_Char)
  then show "byte c div 4 < 64" "byte c div 16 < 16" "byte c div 64 < 4"
    using less_mult_imp_div_less [of "byte c" 64 4] less_mult_imp_div_less [of "byte c" 16 16]
      less_mult_imp_div_less [of "byte c" 4 64] by simp_all
qed

lemma sextets:
  "byte a mod 4 * 16 + byte b div 16 < 64" "byte b mod 16 * 4 + byte c div 64 < 64" "byte a mod 4 * 16 < 64"
  "byte b mod 16 * 4 < 64" "byte c mod 64 < 64"
  using byte_bounds [of b] byte_bounds [of c] mod_less_divisor [of 4 "byte a"] mod_less_divisor [of 16 "byte b"]
  by simp_all

lemma encode_plain: "\<forall>n < 64. b64_plain (al n) \<Longrightarrow> list_all b64_plain (b64_encode al s)"
  by (induction al s rule: b64_encode.induct) (simp_all add: byte_bounds sextets)

lemma regroup:
  "byte a div 4 * 4 + (byte a mod 4 * 16 + byte b div 16) div 16 = byte a"
  "byte a div 4 * 4 + byte a mod 4 * 16 div 16 = byte a"
  "(byte a mod 4 * 16 + byte b div 16) mod 16 * 16 + (byte b mod 16 * 4 + byte c div 64) div 4 = byte b"
  "(byte a mod 4 * 16 + byte b div 16) mod 16 * 16 + byte b mod 16 * 4 div 4 = byte b"
  "(byte b mod 16 * 4 + byte c div 64) mod 4 * 64 + byte c mod 64 = byte c"
proof -
  have d: "(byte a mod 4 * 16 + byte b div 16) div 16 = byte a mod 4" "(byte b mod 16 * 4 + byte c div 64) div 4 = byte b mod 16"
    "(byte a mod 4 * 16 + byte b div 16) mod 16 = byte b div 16" "(byte b mod 16 * 4 + byte c div 64) mod 4 = byte c div 64"
    using byte_bounds [of b] byte_bounds [of c] by simp_all
  show "byte a div 4 * 4 + (byte a mod 4 * 16 + byte b div 16) div 16 = byte a"
    "byte a div 4 * 4 + byte a mod 4 * 16 div 16 = byte a"
    "(byte a mod 4 * 16 + byte b div 16) mod 16 * 16 + (byte b mod 16 * 4 + byte c div 64) div 4 = byte b"
    "(byte a mod 4 * 16 + byte b div 16) mod 16 * 16 + byte b mod 16 * 4 div 4 = byte b"
    "(byte b mod 16 * 4 + byte c div 64) mod 4 * 64 + byte c mod 64 = byte c"
    unfolding d by simp_all
qed

lemma b64_groups_encode:
  "\<forall>n < 64. b64_val al (al n) = Some n \<Longrightarrow> b64_groups al False (b64_encode al s) = Some s"
  by (induction al s rule: b64_encode.induct)
    (simp_all add: b64_bytes_def byte_bounds sextets regroup)

lemma not_newline: "b64_plain c \<Longrightarrow> c \<noteq> CHR 0x0A \<and> c \<noteq> CHR 0x0D"
  by (auto simp: b64_plain_def)

theorem b64_round_trip: "b64_decode b64_std False (b64_encode b64_std s) = Some s"
proof -
  have "filter (\<lambda>c. c \<noteq> CHR 0x0A \<and> c \<noteq> CHR 0x0D) (b64_encode b64_std s) = b64_encode b64_std s"
    using encode_plain [of b64_std s] by (simp add: filter_id_conv list_all_iff b64_std_plain not_newline)
  then show ?thesis by (simp add: b64_decode_def b64_groups_encode)
qed

text \<open>With padding, a text whose length is no multiple of four is refused.\<close>

lemma b64_groups_padded: "b64_groups al True s = Some r \<Longrightarrow> length s mod 4 = 0"
  by (induction al True s arbitrary: r rule: b64_groups.induct) (auto split: if_splits option.splits)

lemma length_b64_encode: "length (b64_encode al s) = (4 * length s + 2) div 3"
proof (induction al s rule: b64_encode.induct)
  case (1 al a b c s)
  have "(4 * (length s + 3) + 2) div 3 = (4 * length s + 2) div 3 + 4"
    using div_add_self1 [of 3 "4 * length s + 2"] by simp
  with 1 show ?case by simp
qed simp_all

end
