(* ===== verification/AuthService.thy ===== *)
theory AuthService
  imports UserRepo Base64 "HOL-Library.List_Lexorder" "HOL-Library.Char_ord"
begin

text \<open>
  \<^verbatim>\<open>internal/service/auth_service.go\<close>, with the request and response types of
  \<^verbatim>\<open>internal/dto/auth.go\<close>: logins, token pairs, sessions and their revocation, password
  changes and the bootstrap administrator. A session is not a row: it is the instant
  \<^verbatim>\<open>last_login_at\<close> of the user, which tokens carry and which moves forward to end it.

  Parameters (\<open>auth_env\<close>) are the libraries: bcrypt, SHA-256, the system's randomness, the JWT
  library's signing and parsing (which checks signature and expiry), the Unicode tables, and
  the collation of the database. Messages of the process log are not modelled.
\<close>

section \<open>Data\<close>

record AuthConfig =
  ac_AppEnv :: string
  ac_JWTSecret :: string
  ac_JWTIssuer :: string
  ac_JWTExpire :: duration
  ac_JWTRefreshExpire :: duration
  ac_LoginAttemptStore :: string
  ac_LoginAttemptPrefix :: string
  ac_LoginMaxFailures :: int
  ac_LoginFailureWindow :: duration
  ac_LoginLockDuration :: duration
  ac_BootstrapAdmin :: bool
  ac_DefaultAdminUsername :: string
  ac_DefaultAdminEmail :: string
  ac_DefaultAdminPassword :: string

record TokenClaims =
  tc_UserID :: int
  tc_Username :: string
  tc_Roles :: "string list"
  tc_Permissions :: "string list"
  tc_MustChangePassword :: bool
  tc_SessionIssuedAt :: int
  tc_TokenUse :: string
  tc_RBACChecksum :: string

record jwtClaims =
  jc_UserID :: int
  jc_Username :: string
  jc_Roles :: "string list"
  jc_Permissions :: "string list"
  jc_MustChangePassword :: bool
  jc_SessionIssuedAt :: int
  jc_TokenUse :: string
  jc_RBACChecksum :: string
  jc_ExpiresAt :: time
  jc_IssuedAt :: time
  jc_Issuer :: string
  jc_Subject :: string
  jc_ID :: string

record auth_env =
  ae_lib :: golib
  ae_compare :: "string \<Rightarrow> string \<Rightarrow> bool"
  ae_generate :: "nat \<Rightarrow> string \<Rightarrow> string result"
  ae_random :: "nat \<Rightarrow> nat \<Rightarrow> string result"
  ae_sha256hex :: "string \<Rightarrow> string"
  ae_sign :: "string \<Rightarrow> jwtClaims \<Rightarrow> string result"
  ae_parse :: "string \<Rightarrow> time \<Rightarrow> string \<Rightarrow> jwtClaims option"
  ae_collate :: "string list \<Rightarrow> string list"

record authService =
  as_cfg :: AuthConfig
  as_env :: auth_env

record LoginRequest =
  lr_Username :: string
  lr_Password :: string

record ChangePasswordRequest =
  cpr_CurrentPassword :: string
  cpr_NewPassword :: string

record UserProfile =
  up_ID :: int
  up_Username :: string
  up_Email :: string
  up_Status :: int
  up_Roles :: "string list"
  up_Permissions :: "string list"
  up_MustChangePassword :: bool

record LoginResponse =
  lres_AccessToken :: string
  lres_RefreshToken :: string
  lres_TokenType :: string
  lres_ExpiresIn :: int
  lres_RefreshExpiresIn :: int
  lres_User :: UserProfile

definition roleSuperAdmin :: string where "roleSuperAdmin = ''super_admin''"
definition roleOperator :: string where "roleOperator = ''operator''"
definition tokenUseAccess :: string where "tokenUseAccess = ''access''"
definition tokenUseRefresh :: string where "tokenUseRefresh = ''refresh''"

definition NewAuthService :: "auth_env \<Rightarrow> AuthConfig \<Rightarrow> authService" where
  "NewAuthService libs cfg = (
     let cfg1 = (if ac_JWTExpire cfg \<le> 0 then cfg\<lparr>ac_JWTExpire := 24 * Hour\<rparr> else cfg);
         cfg2 = (if ac_JWTRefreshExpire cfg1 \<le> 0 then cfg1\<lparr>ac_JWTRefreshExpire := 7 * 24 * Hour\<rparr> else cfg1)
     in \<lparr>as_cfg = cfg2, as_env = libs\<rparr>)"

section \<open>Pure parts\<close>

text \<open>\<^verbatim>\<open>base64.RawURLEncoding\<close>: the URL alphabet, no padding.\<close>

definition EncodeRawURL :: "string \<Rightarrow> string" where
  "EncodeRawURL = b64_encode b64_url"

definition isProductionEnv :: "golib \<Rightarrow> string \<Rightarrow> bool" where
  "isProductionEnv lib raw = EqualFold (fold_uni lib) (TrimSpace raw) ''production''"

text \<open>
  The loop of \<^verbatim>\<open>isStrongPassword\<close> classifies runes; the bytes of a rune outside ASCII (and
  invalid bytes) are all in the last class, as the rune is, so it can go byte by byte.
\<close>

definition is_upper :: "char \<Rightarrow> bool" where "is_upper c = (65 \<le> byte c \<and> byte c \<le> 90)"
definition is_lower :: "char \<Rightarrow> bool" where "is_lower c = (97 \<le> byte c \<and> byte c \<le> 122)"
definition is_digit :: "char \<Rightarrow> bool" where "is_digit c = (48 \<le> byte c \<and> byte c \<le> 57)"

fun password_loop :: "string \<Rightarrow> bool \<times> bool \<times> bool \<times> bool \<Rightarrow> bool \<times> bool \<times> bool \<times> bool" where
  "password_loop [] st = st"
| "password_loop (ch # s) (hasUpper, hasLower, hasDigit, hasSymbol) =
     password_loop s
       (if is_upper ch then (True, hasLower, hasDigit, hasSymbol)
        else if is_lower ch then (hasUpper, True, hasDigit, hasSymbol)
        else if is_digit ch then (hasUpper, hasLower, True, hasSymbol)
        else (hasUpper, hasLower, hasDigit, True))"

definition isStrongPassword :: "string \<Rightarrow> bool" where
  "isStrongPassword raw = (
     let password = TrimSpace raw
     in if length password < 14 then False
        else case password_loop password (False, False, False, False) of
          (hasUpper, hasLower, hasDigit, hasSymbol) \<Rightarrow> hasUpper \<and> hasLower \<and> hasDigit \<and> hasSymbol)"

fun JoinComma :: "string list \<Rightarrow> string" where
  "JoinComma [] = []"
| "JoinComma [s] = s"
| "JoinComma (s # t # ss) = s @ '','' @ JoinComma (t # ss)"

definition computeRBACChecksum :: "(string \<Rightarrow> string) \<Rightarrow> string list \<Rightarrow> string list \<Rightarrow> string" where
  "computeRBACChecksum sha256hex rs ps =
     sha256hex (JoinComma (sort rs) @ ''|'' @ JoinComma (sort ps))"

definition toProfile :: "User \<Rightarrow> string list \<Rightarrow> string list \<Rightarrow> bool \<Rightarrow> UserProfile" where
  "toProfile user rs ps mustChange = \<lparr>up_ID = user_ID user, up_Username = user_Username user,
     up_Email = user_Email user, up_Status = user_Status user, up_Roles = rs, up_Permissions = ps,
     up_MustChangePassword = mustChange\<rparr>"

definition mustChangePassword :: "authService \<Rightarrow> User \<Rightarrow> bool" where
  "mustChangePassword s user =
     (if \<not> EqualFold (fold_uni (ae_lib (as_env s))) (TrimSpace (user_Username user))
            (TrimSpace (ac_DefaultAdminUsername (as_cfg s))) then False
      else user_LastLoginAt user = None)"

section \<open>Effects\<close>

definition nextSessionTime :: "time option \<Rightarrow> (world, time) state" where
  "nextSessionTime previous = do {
     now \<leftarrow> Now;
     ret (case previous of None \<Rightarrow> now | Some p \<Rightarrow> if \<not> now > p then p + 1 else now)
   }"

definition generateTokenID :: "authService \<Rightarrow> nat \<Rightarrow> (world, string result) state" where
  "generateTokenID s byteLen = do {
     n \<leftarrow> draw;
     ret (case ae_random (as_env s) n byteLen of Inl e \<Rightarrow> Inl e | Inr buffer \<Rightarrow> Inr (EncodeRawURL buffer))
   }"

definition generateBootstrapPassword :: "authService \<Rightarrow> nat \<Rightarrow> (world, string result) state" where
  "generateBootstrapPassword s byteLen = do {
     n \<leftarrow> draw;
     ret (case ae_random (as_env s) n byteLen of Inl e \<Rightarrow> Inl e | Inr buffer \<Rightarrow> Inr (EncodeRawURL buffer))
   }"

text \<open>\<^verbatim>\<open>bcrypt.GenerateFromPassword\<close> draws its salt.\<close>

definition GenerateFromPassword :: "authService \<Rightarrow> string \<Rightarrow> (world, string result) state" where
  "GenerateFromPassword s password = do { n \<leftarrow> draw; ret (ae_generate (as_env s) n password) }"

text \<open>
  \<^verbatim>\<open>jwt.NewNumericDate\<close> truncates to seconds. The lifetime in seconds is
  \<^verbatim>\<open>int64(expireAfter.Seconds())\<close>: for the whole-second lifetimes that are configured in
  practice the quotient, as for any lifetime the detour through \<^verbatim>\<open>float64\<close> does not round up.
\<close>

definition NewNumericDate :: "time \<Rightarrow> time" where
  "NewNumericDate t = t div Second * Second"

definition generateToken ::
  "authService \<Rightarrow> User \<Rightarrow> string list \<Rightarrow> string list \<Rightarrow> bool \<Rightarrow> string \<Rightarrow> string \<Rightarrow> duration \<Rightarrow> int \<Rightarrow>
    (world, (string \<times> int) result) state" where
  "generateToken s user rs ps mustChange tokenUse rbacChecksum expireAfter sessionIssuedAt = do {
     issuedAt \<leftarrow> Now;
     call (generateTokenID s 16) (\<lambda>tokenID.
       let expireAt = issuedAt + expireAfter;
           claims = \<lparr>jc_UserID = user_ID user, jc_Username = user_Username user, jc_Roles = rs,
             jc_Permissions = ps, jc_MustChangePassword = mustChange,
             jc_SessionIssuedAt = sessionIssuedAt, jc_TokenUse = tokenUse,
             jc_RBACChecksum = rbacChecksum, jc_ExpiresAt = NewNumericDate expireAt,
             jc_IssuedAt = NewNumericDate issuedAt, jc_Issuer = ac_JWTIssuer (as_cfg s),
             jc_Subject = user_Username user, jc_ID = tokenID\<rparr>
       in ret (case ae_sign (as_env s) (ac_JWTSecret (as_cfg s)) claims of
            Inl e \<Rightarrow> Inl e
          | Inr token \<Rightarrow> Inr (token, expireAfter div Second)))
   }"

definition generateTokenPair ::
  "authService \<Rightarrow> User \<Rightarrow> string list \<Rightarrow> string list \<Rightarrow> bool \<Rightarrow> int \<Rightarrow>
    (world, (string \<times> int \<times> string \<times> int) result) state" where
  "generateTokenPair s user rs ps mustChange issued0 = do {
     issued \<leftarrow> (if issued0 \<le> 0 then Now else ret issued0);
     let rbacChecksum = computeRBACChecksum (ae_sha256hex (as_env s)) rs ps;
     call (generateToken s user rs ps mustChange tokenUseAccess rbacChecksum
         (ac_JWTExpire (as_cfg s)) issued) (\<lambda>(accessToken, accessExpiresIn).
     call (generateToken s user rs ps mustChange tokenUseRefresh rbacChecksum
         (ac_JWTRefreshExpire (as_cfg s)) issued) (\<lambda>(refreshToken, refreshExpiresIn).
     ret (Inr (accessToken, accessExpiresIn, refreshToken, refreshExpiresIn))))
   }"

definition resolveUserRBAC :: "authService \<Rightarrow> User \<Rightarrow> (world, (string list \<times> string list) result) state" where
  "resolveUserRBAC s user =
     call (userRepo_GetRolesAndPermissions (ae_collate (as_env s)) (user_ID user)) (\<lambda>(rs, ps).
       if rs \<noteq> [] then ret (Inr (rs, ps))
       else call (userRepo_EnsureUserRoleBySlug (user_ID user) roleOperator) (\<lambda>_.
         userRepo_GetRolesAndPermissions (ae_collate (as_env s)) (user_ID user)))"

definition resolveBootstrapPassword :: "authService \<Rightarrow> (world, string result) state" where
  "resolveBootstrapPassword s = (
     let cfg = as_cfg s; lib = ae_lib (as_env s);
         username = TrimSpace (ac_DefaultAdminUsername cfg);
         email = TrimSpace (ac_DefaultAdminEmail cfg)
     in if username = [] then ret (Inl (Plain ''DEFAULT_ADMIN_USERNAME cannot be empty''))
        else if email = [] then ret (Inl (Plain ''DEFAULT_ADMIN_EMAIL cannot be empty''))
        else
          let password = TrimSpace (ac_DefaultAdminPassword cfg)
          in if password = [] then
               if isProductionEnv lib (ac_AppEnv cfg)
               then ret (Inl (Plain ''DEFAULT_ADMIN_PASSWORD must be set in production''))
               else do {
                 generated \<leftarrow> generateBootstrapPassword s 24;
                 ret (case generated of Inl e \<Rightarrow> Inl (Wrapf ''generate bootstrap password'' e)
                      | Inr g \<Rightarrow> Inr g)
               }
             else if isProductionEnv lib (ac_AppEnv cfg) \<and> \<not> isStrongPassword password
             then ret (Inl (Plain ''DEFAULT_ADMIN_PASSWORD is weak for production environment''))
             else ret (Inr password))"

section \<open>Operations\<close>

definition EnsureDefaultAdmin :: "authService \<Rightarrow> (world, unit result) state" where
  "EnsureDefaultAdmin s = (
     let cfg = as_cfg s
     in call_as ErrBootstrapAdminFail userRepo_EnsureRBACDefaults (\<lambda>_.
        if \<not> ac_BootstrapAdmin cfg then ret (Inr ())
        else call_as ErrBootstrapAdminFail userRepo_Count (\<lambda>count.
          call (if count = 0
                then call_as ErrBootstrapAdminFail (resolveBootstrapPassword s) (\<lambda>bootstrapPassword.
                     call_as ErrBootstrapAdminFail (GenerateFromPassword s bootstrapPassword) (\<lambda>hash.
                     call_as ErrBootstrapAdminFail (userRepo_Create
                       \<lparr>user_ID = 0, user_Username = ac_DefaultAdminUsername cfg,
                        user_Email = ac_DefaultAdminEmail cfg, user_PasswordHash = hash,
                        user_Status = 1, user_LastLoginAt = None, user_CreatedAt = 0,
                        user_UpdatedAt = 0, user_DeletedAt = None\<rparr>) (\<lambda>user.
                     ret (Inr (Some user)))))
                else call_as ErrBootstrapAdminFail
                       (userRepo_GetByUsername (ac_DefaultAdminUsername cfg)) (\<lambda>existing.
                     ret (Inr existing)))
            (\<lambda>bootstrapUser. case bootstrapUser of
               None \<Rightarrow> ret (Inr ())
             | Some u \<Rightarrow> call_as ErrBootstrapAdminFail
                 (userRepo_EnsureUserRoleBySlug (user_ID u) roleSuperAdmin) (\<lambda>_. ret (Inr ()))))))"

definition login_response ::
  "User \<Rightarrow> string list \<Rightarrow> string list \<Rightarrow> bool \<Rightarrow> string \<times> int \<times> string \<times> int \<Rightarrow> LoginResponse" where
  "login_response user rs ps mustChange pair = (case pair of
     (accessToken, accessExpiresIn, refreshToken, refreshExpiresIn) \<Rightarrow>
       \<lparr>lres_AccessToken = accessToken, lres_RefreshToken = refreshToken, lres_TokenType = ''Bearer'',
        lres_ExpiresIn = accessExpiresIn, lres_RefreshExpiresIn = refreshExpiresIn,
        lres_User = toProfile user rs ps mustChange\<rparr>)"

definition Login :: "authService \<Rightarrow> LoginRequest \<Rightarrow> (world, LoginResponse result) state" where
  "Login s req =
     call_as ErrInternal (userRepo_GetByUsername (lr_Username req)) (\<lambda>found. case found of
       None \<Rightarrow> ret (Inl ErrInvalidCredential)
     | Some user \<Rightarrow>
       if \<not> ae_compare (as_env s) (user_PasswordHash user) (lr_Password req)
       then ret (Inl ErrInvalidCredential)
       else if user_Status user \<noteq> 1 then ret (Inl ErrUserDisabled)
       else call_as ErrInternal (resolveUserRBAC s user) (\<lambda>(rs, ps). do {
         let mustChange = mustChangePassword s user;
         sessionIssuedAt \<leftarrow> nextSessionTime (user_LastLoginAt user);
         call (if \<not> mustChange
               then call_as ErrInternal (userRepo_UpdateLastLoginAt (user_ID user) sessionIssuedAt)
                      (\<lambda>_. ret (Inr (user\<lparr>user_LastLoginAt := Some sessionIssuedAt\<rparr>)))
               else ret (Inr user)) (\<lambda>user'.
         call_as ErrTokenGenerate (generateTokenPair s user' rs ps mustChange sessionIssuedAt) (\<lambda>pair.
         ret (Inr (login_response user' rs ps mustChange pair))))
       }))"

definition parseTokenWithUse :: "authService \<Rightarrow> string \<Rightarrow> string \<Rightarrow> (world, TokenClaims result) state" where
  "parseTokenWithUse s rawToken expectedUse = do {
     now \<leftarrow> Now;
     ret (case ae_parse (as_env s) (ac_JWTSecret (as_cfg s)) now rawToken of
       None \<Rightarrow> Inl ErrTokenParse
     | Some claims \<Rightarrow>
       let use0 = TrimSpace (ToLower (lower_uni (ae_lib (as_env s))) (jc_TokenUse claims));
           tokenUse = (if use0 = [] then tokenUseAccess else use0)
       in if expectedUse \<noteq> [] \<and> tokenUse \<noteq> expectedUse then Inl ErrTokenParse
          else Inr \<lparr>tc_UserID = jc_UserID claims, tc_Username = jc_Username claims,
            tc_Roles = jc_Roles claims, tc_Permissions = jc_Permissions claims,
            tc_MustChangePassword = jc_MustChangePassword claims,
            tc_SessionIssuedAt = jc_SessionIssuedAt claims, tc_TokenUse = tokenUse,
            tc_RBACChecksum = TrimSpace (jc_RBACChecksum claims)\<rparr>)
   }"

definition ParseToken :: "authService \<Rightarrow> string \<Rightarrow> (world, TokenClaims result) state" where
  "ParseToken s rawToken = parseTokenWithUse s rawToken tokenUseAccess"

definition ValidateSession :: "authService \<Rightarrow> TokenClaims \<Rightarrow> (world, unit result) state" where
  "ValidateSession s claims =
     call_as ErrInternal (userRepo_GetByID (tc_UserID claims)) (\<lambda>found. case found of
       None \<Rightarrow> ret (Inl ErrSessionExpired)
     | Some user \<Rightarrow>
       if user_Status user \<noteq> 1 then ret (Inl ErrSessionExpired)
       else if tc_SessionIssuedAt claims \<le> 0 then ret (Inl ErrTokenParse)
       else if (case user_LastLoginAt user of None \<Rightarrow> False | Some l \<Rightarrow> tc_SessionIssuedAt claims < l)
       then ret (Inl ErrSessionExpired)
       else call_as ErrInternal (resolveUserRBAC s user) (\<lambda>(rs, ps).
         let currentChecksum = computeRBACChecksum (ae_sha256hex (as_env s)) rs ps;
             claim0 = TrimSpace (tc_RBACChecksum claims);
             claimChecksum = (if claim0 = []
               then computeRBACChecksum (ae_sha256hex (as_env s)) (tc_Roles claims) (tc_Permissions claims)
               else claim0)
         in if claimChecksum \<noteq> currentChecksum then ret (Inl ErrSessionExpired) else ret (Inr ())))"

definition Refresh :: "authService \<Rightarrow> string \<Rightarrow> (world, LoginResponse result) state" where
  "Refresh s refreshToken =
     call (parseTokenWithUse s refreshToken tokenUseRefresh) (\<lambda>claims.
       if tc_MustChangePassword claims then ret (Inl ErrPasswordChangeNeed)
       else call (ValidateSession s claims) (\<lambda>_.
         call_as ErrInternal (userRepo_GetByID (tc_UserID claims)) (\<lambda>found. case found of
           None \<Rightarrow> ret (Inl ErrSessionExpired)
         | Some user \<Rightarrow>
           if user_Status user \<noteq> 1 then ret (Inl ErrSessionExpired)
           else call_as ErrInternal (resolveUserRBAC s user) (\<lambda>(rs, ps). do {
             now \<leftarrow> nextSessionTime (user_LastLoginAt user);
             call_as ErrInternal (userRepo_UpdateLastLoginAt (user_ID user) now) (\<lambda>_.
             let user' = user\<lparr>user_LastLoginAt := Some now\<rparr>
             in call_as ErrTokenGenerate (generateTokenPair s user' rs ps False now) (\<lambda>pair.
                ret (Inr (login_response user' rs ps False pair))))
           }))))"

definition RevokeSession :: "authService \<Rightarrow> int \<Rightarrow> (world, unit result) state" where
  "RevokeSession s userID =
     call_as ErrInternal (userRepo_GetByID userID) (\<lambda>found. case found of
       None \<Rightarrow> ret (Inl ErrUserNotFound)
     | Some user \<Rightarrow>
       if mustChangePassword s user then ret (Inr ())
       else do {
         now \<leftarrow> nextSessionTime (user_LastLoginAt user);
         call_as ErrInternal (userRepo_UpdateLastLoginAt (user_ID user) now) (\<lambda>_. ret (Inr ()))
       })"

definition badPassword :: "string \<Rightarrow> string \<Rightarrow> go_error" where
  "badPassword message detail = Wrap (Code ErrBadRequest) (HTTPStatus ErrBadRequest) message (Plain detail)"

definition ChangePassword ::
  "authService \<Rightarrow> int \<Rightarrow> ChangePasswordRequest \<Rightarrow> (world, LoginResponse result) state" where
  "ChangePassword s userID req =
     call_as ErrInternal (userRepo_GetByID userID) (\<lambda>found. case found of
       None \<Rightarrow> ret (Inl ErrUserNotFound)
     | Some user \<Rightarrow>
       if \<not> ae_compare (as_env s) (user_PasswordHash user) (cpr_CurrentPassword req)
       then ret (Inl (badPassword ''current password is incorrect'' ''current password mismatch''))
       else
         let nextPassword = TrimSpace (cpr_NewPassword req)
         in if \<not> isStrongPassword nextPassword
            then ret (Inl (badPassword ''new password is too weak''
              ''new password must be at least 14 chars and include upper/lower/digit/symbol''))
            else if cpr_CurrentPassword req = nextPassword
            then ret (Inl (badPassword ''new password must be different from current password''
              ''new password equals current password''))
            else call_as ErrInternal (GenerateFromPassword s nextPassword) (\<lambda>hash.
              call_as ErrInternal (userRepo_UpdatePasswordHash (user_ID user) hash) (\<lambda>_. do {
                now \<leftarrow> nextSessionTime (user_LastLoginAt user);
                call_as ErrInternal (userRepo_UpdateLastLoginAt (user_ID user) now) (\<lambda>_.
                let user' = user\<lparr>user_PasswordHash := hash, user_LastLoginAt := Some now\<rparr>
                in call_as ErrInternal (resolveUserRBAC s user') (\<lambda>(rs, ps).
                   call_as ErrTokenGenerate (generateTokenPair s user' rs ps False now) (\<lambda>pair.
                   ret (Inr (login_response user' rs ps False pair)))))
              })))"

definition Me :: "authService \<Rightarrow> int \<Rightarrow> (world, UserProfile result) state" where
  "Me s userID =
     call_as ErrInternal (userRepo_GetByID userID) (\<lambda>found. case found of
       None \<Rightarrow> ret (Inl ErrUserNotFound)
     | Some user \<Rightarrow> call_as ErrInternal (resolveUserRBAC s user) (\<lambda>(rs, ps).
         ret (Inr (toProfile user rs ps (mustChangePassword s user)))))"

end
