(* ===== verification/AuthFrame.thy ===== *)
theory AuthFrame
  imports AuthService
begin

text \<open>
  The user and role tables under any interleaving: the invariant of the tables, the statements
  that may run (\<open>user_step\<close>: those of the repository, and an operator switching a user's
  status), and the interfaces \<open>auth_calls\<close> and \<open>auth_frame\<close>, in which every operation of the authentication
  service is shown to keep what its repository calls keep.
\<close>

section \<open>The invariant\<close>

definition ids_ok :: "int \<Rightarrow> int list \<Rightarrow> bool" where
  "ids_ok n ids = (0 < n \<and> distinct ids \<and> (\<forall>i \<in> set ids. 0 < i \<and> i < n))"

lemma ids_ok_bump: "ids_ok n ids \<Longrightarrow> ids_ok (n + 1) ids"
  by (force simp: ids_ok_def)

lemma ids_ok_snoc: "ids_ok n ids \<Longrightarrow> ids_ok (n + 1) (ids @ [n])"
  by (force simp: ids_ok_def)

definition users_ok :: "tables \<Rightarrow> bool" where
  "users_ok t = (ids_ok (users_seq t) (map user_ID (users t)) \<and>
     distinct (map user_Username (users t)) \<and> distinct (map user_Email (users t)) \<and>
     (\<forall>u \<in> set (users t). user_Status u \<in> {0, 1, 2}))"

definition roles_ok :: "tables \<Rightarrow> bool" where
  "roles_ok t = (ids_ok (roles_seq t) (map role_ID (roles t)) \<and>
     distinct (map role_Slug (roles t)) \<and> distinct (map role_Name (roles t)) \<and>
     ids_ok (permissions_seq t) (map perm_ID (permissions t)) \<and>
     distinct (map perm_Name (permissions t)))"

definition grants_ok :: "tables \<Rightarrow> bool" where
  "grants_ok t = (distinct (map (\<lambda>x. (rp_RoleID x, rp_PermissionID x)) (role_permissions t)) \<and>
     (\<forall>x \<in> set (role_permissions t). rp_RoleID x \<in> role_ID ` set (roles t) \<and>
        rp_PermissionID x \<in> perm_ID ` set (permissions t)) \<and>
     distinct (map (\<lambda>x. (ur_UserID x, ur_RoleID x)) (user_roles t)) \<and>
     (\<forall>x \<in> set (user_roles t). ur_UserID x \<in> user_ID ` set (users t) \<and>
        ur_RoleID x \<in> role_ID ` set (roles t)))"

definition user_inv :: "tables \<Rightarrow> bool" where
  "user_inv t = (users_ok t \<and> roles_ok t \<and> grants_ok t)"

lemmas user_inv_defs = user_inv_def users_ok_def roles_ok_def grants_ok_def

lemma user_inv_empty: "user_inv empty_tables"
  by (simp add: user_inv_defs ids_ok_def empty_tables_def)

inductive user_step :: "tables \<Rightarrow> tables \<Rightarrow> bool" where
  create: "user_step t (snd (sql_CreateUser u now t))"
| last_login: "user_step t (snd (sql_UpdateLastLoginAt i at now t))"
| password: "user_step t (snd (sql_UpdatePasswordHash i h now t))"
| defaults: "user_step t (snd (sql_EnsureRBACDefaults now t))"
| add_role: "user_step t (snd (sql_AddUserRole i r now t))"
| switch: "st \<in> {0, 1, 2} \<Longrightarrow> user_step t (t\<lparr>users := update_where (\<lambda>u. user_ID u = i)
      (\<lambda>u. u\<lparr>user_Status := st\<rparr>) (users t)\<rparr>)"

inductive_cases user_stepE: "user_step t t'"

lemma user_inv_update:
  assumes "user_inv t" "\<And>u. user_ID (f u) = user_ID u" "\<And>u. user_Username (f u) = user_Username u"
    "\<And>u. user_Email (f u) = user_Email u" "\<And>u. user_Status u \<in> {0, 1, 2} \<Longrightarrow> user_Status (f u) \<in> {0, 1, 2}"
  shows "user_inv (t\<lparr>users := update_where p f (users t)\<rparr>)"
proof -
  have maps: "map user_ID (update_where p f (users t)) = map user_ID (users t)"
    "map user_Username (update_where p f (users t)) = map user_Username (users t)"
    "map user_Email (update_where p f (users t)) = map user_Email (users t)"
    by (simp_all add: map_update_where assms(2-4))
  have "user_ID ` set (update_where p f (users t)) = user_ID ` set (users t)"
    by (metis maps(1) set_map)
  moreover have "\<forall>u \<in> set (update_where p f (users t)). user_Status u \<in> {0, 1, 2}"
    using assms(1,5) by (auto simp: user_inv_defs set_update_where)
  ultimately show ?thesis using assms(1) maps by (simp add: user_inv_defs)
qed

text \<open>One inserted row.\<close>

lemma user_inv_bump:
  "user_inv t \<Longrightarrow> user_inv (t\<lparr>roles_seq := roles_seq t + 1\<rparr>)"
  "user_inv t \<Longrightarrow> user_inv (t\<lparr>permissions_seq := permissions_seq t + 1\<rparr>)"
  by (simp_all add: user_inv_defs ids_ok_bump)

lemma user_inv_new_role:
  "\<lbrakk>user_inv t; \<forall>x \<in> set (roles t). role_Slug x \<noteq> role_Slug r \<and> role_Name x \<noteq> role_Name r\<rbrakk> \<Longrightarrow>
   user_inv (t\<lparr>roles_seq := roles_seq t + 1, roles := roles t @ [r\<lparr>role_ID := roles_seq t,
     role_CreatedAt := now, role_UpdatedAt := now\<rparr>]\<rparr>)"
  by (auto simp: user_inv_defs ids_ok_snoc)

lemma user_inv_new_permission:
  "\<lbrakk>user_inv t; \<forall>x \<in> set (permissions t). perm_Name x \<noteq> perm_Name p\<rbrakk> \<Longrightarrow>
   user_inv (t\<lparr>permissions_seq := permissions_seq t + 1, permissions := permissions t @
     [p\<lparr>perm_ID := permissions_seq t, perm_CreatedAt := now, perm_UpdatedAt := now\<rparr>]\<rparr>)"
  by (auto simp: user_inv_defs ids_ok_snoc)

lemma user_inv_new_grant:
  "\<lbrakk>user_inv t; r \<in> role_ID ` set (roles t); p \<in> perm_ID ` set (permissions t);
    \<forall>x \<in> set (role_permissions t). \<not> (rp_RoleID x = r \<and> rp_PermissionID x = p)\<rbrakk> \<Longrightarrow>
   user_inv (t\<lparr>role_permissions := role_permissions t @
     [\<lparr>rp_RoleID = r, rp_PermissionID = p, rp_CreatedAt = now\<rparr>]\<rparr>)"
  by (auto simp: user_inv_defs)

lemma user_inv_create: "user_inv t \<Longrightarrow> user_inv (snd (sql_CreateUser u now t))"
  by (auto simp: sql_CreateUser_def Let_def user_inv_defs ids_ok_bump ids_ok_snoc)

lemma user_inv_add_role: "user_inv t \<Longrightarrow> user_inv (snd (sql_AddUserRole i r now t))"
  by (auto simp: sql_AddUserRole_def user_inv_defs)

lemma insert_roles_inv:
  "user_inv t \<Longrightarrow> user_inv (snd (insert_roles now rs t))"
proof (induction now rs t rule: insert_roles.induct)
  case (2 now r rs t)
  show ?case
  proof (cases "\<exists>x \<in> set (roles t). role_Slug x = role_Slug r \<or> role_Name x = role_Name r")
    case True
    with 2 show ?thesis by (auto simp: Let_def user_inv_bump)
  next
    case False
    with 2 user_inv_new_role [OF 2(3), of r now] show ?thesis by (simp add: Let_def)
  qed
qed simp

lemma insert_roles_error:
  "roles_ok t \<Longrightarrow> insert_roles now rs t = (x, t') \<Longrightarrow> roles_ok (t\<lparr>roles_seq := roles_seq t'\<rparr>)"
proof -
  have "roles_seq t \<le> roles_seq (snd (insert_roles now rs t))"
    by (induction now rs t rule: insert_roles.induct) (fastforce simp: Let_def)+
  then show "roles_ok t \<Longrightarrow> insert_roles now rs t = (x, t') \<Longrightarrow> roles_ok (t\<lparr>roles_seq := roles_seq t'\<rparr>)"
    by (force simp: roles_ok_def ids_ok_def)
qed

lemma insert_permissions_inv: "user_inv t \<Longrightarrow> user_inv (insert_permissions now ps t)"
proof (induction now ps t rule: insert_permissions.induct)
  case (2 now p ps t)
  show ?case
  proof (cases "\<exists>x \<in> set (permissions t). perm_Name x = perm_Name p")
    case True
    with 2 show ?thesis by (auto simp: Let_def user_inv_bump)
  next
    case False
    with 2 user_inv_new_permission [OF 2(3), of p now] show ?thesis by (simp add: Let_def)
  qed
qed simp

lemma insert_role_permissions_inv:
  "user_inv t \<Longrightarrow> \<forall>(r, p) \<in> set xs. r \<in> role_ID ` set (roles t) \<and> p \<in> perm_ID ` set (permissions t) \<Longrightarrow>
   user_inv (insert_role_permissions now xs t)"
proof (induction now xs t rule: insert_role_permissions.induct)
  case (2 now r p xs t)
  then have "r \<in> role_ID ` set (roles t)" "p \<in> perm_ID ` set (permissions t)" by auto
  with 2 user_inv_new_grant [OF 2(2), of r p now] show ?case by auto
qed simp

text \<open>The ids a map filled from records can hold.\<close>

lemma ids_by_map_of: "ids_by name ident rs = map_of (rev (map (\<lambda>r. (name r, ident r)) rs))"
proof -
  have "foldl (\<lambda>m r. m(name r \<mapsto> ident r)) m rs = m ++ map_of (rev (map (\<lambda>r. (name r, ident r)) rs))" for m
    by (induction rs arbitrary: m) (auto simp: map_add_def fun_eq_iff split: option.splits)
  then show ?thesis by (simp add: ids_by_def)
qed

lemma ids_by_Some:
  "ids_by name ident rs n = Some i \<Longrightarrow> \<exists>r \<in> set rs. name r = n \<and> ident r = i"
  by (auto simp: ids_by_map_of dest!: map_of_SomeD)

lemma granted_pairs_in:
  "(r, p) \<in> set (granted_pairs R P slug names) \<longleftrightarrow> (\<exists>n \<in> set names. R slug = Some r \<and> P n = Some p)"
  by (force simp: granted_pairs_def split: option.splits)

lemma user_inv_defaults:
  assumes "user_inv t"
  shows "user_inv (snd (sql_EnsureRBACDefaults now t))"
proof (cases "insert_roles now default_roles t")
  case (Pair x t1)
  then have t1: "user_inv t1" using insert_roles_inv [OF assms, of now default_roles] by simp
  show ?thesis
  proof (cases x)
    case (Inl e)
    then show ?thesis using assms insert_roles_error [OF _ Pair]
      by (simp add: sql_EnsureRBACDefaults_def Pair user_inv_def users_ok_def grants_ok_def)
  next
    case (Inr u)
    show ?thesis unfolding sql_EnsureRBACDefaults_def Pair Inr prod.case sum.case Let_def snd_conv
      by (rule insert_role_permissions_inv [OF insert_permissions_inv [OF t1]])
        (auto simp: granted_pairs_in dest!: ids_by_Some)
  qed
qed

lemma user_inv_step: "user_step t t' \<Longrightarrow> user_inv t \<Longrightarrow> user_inv t'"
proof (induction rule: user_step.induct)
  case (switch st t i)
  then show ?case by (intro user_inv_update) auto
qed (auto simp: sql_UpdateLastLoginAt_def sql_UpdatePasswordHash_def
    intro!: user_inv_create user_inv_add_role user_inv_defaults user_inv_update)

section \<open>The interface of the service\<close>

datatype auth_op = OpEnsureDefaultAdmin | OpLogin LoginRequest | OpRefresh string
  | OpRevokeSession int | OpChangePassword int ChangePasswordRequest | OpMe int
  | OpParseToken string | OpValidateSession TokenClaims

fun run_auth_op :: "authService \<Rightarrow> auth_op \<Rightarrow> (world, unit) state" where
  "run_auth_op s OpEnsureDefaultAdmin = do { _ \<leftarrow> EnsureDefaultAdmin s; ret () }"
| "run_auth_op s (OpLogin req) = do { _ \<leftarrow> Login s req; ret () }"
| "run_auth_op s (OpRefresh tok) = do { _ \<leftarrow> Refresh s tok; ret () }"
| "run_auth_op s (OpRevokeSession i) = do { _ \<leftarrow> RevokeSession s i; ret () }"
| "run_auth_op s (OpChangePassword i req) = do { _ \<leftarrow> ChangePassword s i req; ret () }"
| "run_auth_op s (OpMe i) = do { _ \<leftarrow> Me s i; ret () }"
| "run_auth_op s (OpParseToken tok) = do { _ \<leftarrow> ParseToken s tok; ret () }"
| "run_auth_op s (OpValidateSession c) = do { _ \<leftarrow> ValidateSession s c; ret () }"

primrec run_auth_ops :: "authService \<Rightarrow> auth_op list \<Rightarrow> (world, unit) state" where
  "run_auth_ops s [] = ret ()"
| "run_auth_ops s (x # xs) = do { run_auth_op s x; run_auth_ops s xs }"

text \<open>
  The calls of the service, first all but the one that moves a session time (what a caller
  passes there matters), then with it.
\<close>

locale auth_calls =
  fixes R :: "world \<Rightarrow> world \<Rightarrow> bool"
  assumes refl: "reflp R" and trans: "transp R"
    and local_effects: "keeps R Now" "keeps R draw"
    and user_reads: "keeps R userRepo_Count" "keeps R (userRepo_GetByUsername n)"
      "keeps R (userRepo_GetByID i)" "keeps R (userRepo_GetRolesAndPermissions c i)"
    and user_create: "keeps R (userRepo_Create u)"
    and user_password: "keeps R (userRepo_UpdatePasswordHash i h)"
    and role_defaults: "keeps R userRepo_EnsureRBACDefaults"
    and role_add: "keeps R (userRepo_EnsureUserRoleBySlug i slug)"
begin

lemmas auth_rules = keeps_ret [OF refl] keeps_bind [OF trans] keeps_if keeps_case_sum
  keeps_case_option keeps_case_prod keeps_call [OF refl trans] keeps_call_as [OF refl trans]
  local_effects user_reads user_create user_password role_defaults role_add

lemma session_time: "keeps R (nextSessionTime p)"
  unfolding nextSessionTime_def by (intro auth_rules)

lemma randomness: "keeps R (generateTokenID s n)" "keeps R (generateBootstrapPassword s n)"
  "keeps R (GenerateFromPassword s p)"
  unfolding generateTokenID_def generateBootstrapPassword_def GenerateFromPassword_def
  by (intro auth_rules)+

lemma token_pair: "keeps R (generateTokenPair s u rs ps b i)"
  unfolding generateTokenPair_def generateToken_def Let_def by (intro auth_rules randomness)

lemma user_rbac: "keeps R (resolveUserRBAC s u)"
  unfolding resolveUserRBAC_def by (intro auth_rules)

lemma bootstrap_password: "keeps R (resolveBootstrapPassword s)"
  unfolding resolveBootstrapPassword_def Let_def by (intro auth_rules randomness)

lemmas helpers = session_time randomness token_pair user_rbac bootstrap_password

lemma parse: "keeps R (parseTokenWithUse s tok use)"
  unfolding parseTokenWithUse_def by (intro auth_rules)

lemma session: "keeps R (ValidateSession s c)"
  unfolding ValidateSession_def Let_def by (intro auth_rules helpers)

lemma sessionless: "keeps R (EnsureDefaultAdmin s)" "keeps R (Me s i)" "keeps R (ParseToken s tok)"
  unfolding EnsureDefaultAdmin_def Me_def ParseToken_def Let_def
  by (intro auth_rules helpers parse)+

end

locale auth_frame = auth_calls +
  assumes user_last_login: "keeps R (userRepo_UpdateLastLoginAt i at)"
begin

lemma operations:
  "keeps R (Login s req)" "keeps R (Refresh s tok)" "keeps R (RevokeSession s i)"
  "keeps R (ChangePassword s i creq)"
  unfolding Login_def Refresh_def RevokeSession_def ChangePassword_def Let_def
  by (intro auth_rules user_last_login helpers parse session)+

lemma any_op: "keeps R (run_auth_op s x)"
  by (cases x) (auto intro!: auth_rules operations sessionless session)

lemma any_ops: "keeps R (run_auth_ops s xs)"
  by (induction xs) (auto intro!: auth_rules any_op)

end

lemma keeps_userRepo:
  "keeps (steps user_step) userRepo_Count" "keeps (steps user_step) (userRepo_GetByUsername n)"
  "keeps (steps user_step) (userRepo_GetByID i)"
  "keeps (steps user_step) (userRepo_GetRolesAndPermissions c i)"
  "keeps (steps user_step) (userRepo_Create u)"
  "keeps (steps user_step) (userRepo_UpdateLastLoginAt i at)"
  "keeps (steps user_step) (userRepo_UpdatePasswordHash i h)"
  "keeps (steps user_step) userRepo_EnsureRBACDefaults"
  "keeps (steps user_step) (userRepo_EnsureUserRoleBySlug i slug)"
  unfolding userRepo_defs
  by (intro keeps_steps keeps_steps_dbcall; auto intro: user_step.intros)+

interpretation user_steps: auth_frame "steps user_step"
  by unfold_locales (intro reflp_steps transp_steps keeps_steps keeps_userRepo)+

end
