(* ===== verification/HttpAuth.thy ===== *)
theory HttpAuth
  imports AuthService
begin

text \<open>
  The gates in front of the handlers: \<^verbatim>\<open>internal/middleware/jwt_auth.go\<close> and
  \<^verbatim>\<open>permission.go\<close>, and the route table of \<^verbatim>\<open>internal/api/router.go\<close>. The web framework's
  matching of paths to routes is not modelled, the other middleware is in \<^theory_text>\<open>HttpServer\<close>; a gate either answers the request itself (\<open>Abort\<close>: HTTP status,
  code, message) or lets it continue with what it put into the request context.
\<close>

record gin_keys =
  CurrentUserID :: "int option"
  CurrentUsername :: "string option"
  CurrentRoles :: "string list option"
  CurrentPerms :: "string list option"
  CurrentMustChangePassword :: "bool option"

definition no_keys :: gin_keys where
  "no_keys = \<lparr>CurrentUserID = None, CurrentUsername = None, CurrentRoles = None, CurrentPerms = None,
     CurrentMustChangePassword = None\<rparr>"

datatype 'a gate = Abort int int string | Continue 'a

definition abort_with :: "go_error \<Rightarrow> int \<Rightarrow> 'a gate" where
  "abort_with e status = Abort status (Code e) (Message e)"

definition isPasswordChangeAllowedPath :: "string \<Rightarrow> bool" where
  "isPasswordChangeAllowedPath path =
     (path = ''/api/v1/auth/me'' \<or> path = ''/api/v1/auth/change-password'' \<or>
      path = ''/api/v1/auth/logout'')"

definition JWTAuth :: "authService \<Rightarrow> string \<Rightarrow> string \<Rightarrow> (world, gin_keys gate) state" where
  "JWTAuth s authHeader path = (
     if authHeader = [] then ret (abort_with ErrUnauthorized 401)
     else if \<not> HasPrefix authHeader ''Bearer '' then ret (abort_with ErrUnauthorized 401)
     else do {
       let token = TrimSpace (TrimPrefix authHeader ''Bearer '');
       parsed \<leftarrow> ParseToken s token;
       case parsed of
         Inl _ \<Rightarrow> ret (abort_with ErrTokenParse 401)
       | Inr claims \<Rightarrow> do {
           session \<leftarrow> ValidateSession s claims;
           case session of
             Inl err \<Rightarrow>
               let appErr = (case As err of Some e \<Rightarrow> e | None \<Rightarrow> ErrTokenParse)
               in ret (abort_with appErr (HTTPStatus appErr))
           | Inr _ \<Rightarrow>
               if tc_MustChangePassword claims \<and> \<not> isPasswordChangeAllowedPath path
               then ret (abort_with ErrPasswordChangeNeed 403)
               else ret (Continue \<lparr>CurrentUserID = Some (tc_UserID claims),
                      CurrentUsername = Some (tc_Username claims),
                      CurrentRoles = Some (tc_Roles claims),
                      CurrentPerms = Some (tc_Permissions claims),
                      CurrentMustChangePassword = Some (tc_MustChangePassword claims)\<rparr>)
         }
     })"

definition GetCurrentPermissions :: "gin_keys \<Rightarrow> string list \<times> bool" where
  "GetCurrentPermissions keys = (case CurrentPerms keys of None \<Rightarrow> ([], False) | Some ps \<Rightarrow> (ps, True))"

definition GetCurrentUserID :: "gin_keys \<Rightarrow> int \<times> bool" where
  "GetCurrentUserID keys = (case CurrentUserID keys of None \<Rightarrow> (0, False) | Some i \<Rightarrow> (i, True))"

definition GetCurrentUsername :: "gin_keys \<Rightarrow> string \<times> bool" where
  "GetCurrentUsername keys = (case CurrentUsername keys of None \<Rightarrow> ([], False) | Some n \<Rightarrow> (n, True))"

definition RequirePermission :: "string \<Rightarrow> gin_keys \<Rightarrow> gin_keys gate" where
  "RequirePermission permission keys = (case GetCurrentPermissions keys of (granted, ok) \<Rightarrow>
     if \<not> ok \<or> permission \<notin> set granted then abort_with ErrPermissionDenied 403
     else Continue keys)"

section \<open>The route table\<close>

datatype access = Public | SignedIn | Needs string

record route =
  rt_method :: string
  rt_path :: string
  rt_access :: access
  rt_handler :: string

definition rte :: "string \<Rightarrow> string \<Rightarrow> access \<Rightarrow> string \<Rightarrow> route" where
  "rte m p a h = \<lparr>rt_method = m, rt_path = p, rt_access = a, rt_handler = h\<rparr>"

definition routes :: "route list" where
  "routes =
    [rte ''GET'' ''/health'' Public ''Health'',
     rte ''GET'' ''/ready'' Public ''Readiness'',
     rte ''GET'' ''/metrics'' Public ''promhttp'',
     rte ''GET'' ''/api/v1/ping'' Public ''Ping'',
     rte ''POST'' ''/api/v1/auth/login'' Public ''Login'',
     rte ''POST'' ''/api/v1/auth/refresh'' Public ''Refresh'',
     rte ''GET'' ''/api/v1/auth/me'' SignedIn ''Me'',
     rte ''POST'' ''/api/v1/auth/logout'' SignedIn ''Logout'',
     rte ''POST'' ''/api/v1/auth/change-password'' SignedIn ''ChangePassword'',
     rte ''GET'' ''/api/v1/dashboard/summary'' SignedIn ''Summary'',
     rte ''GET'' ''/api/v1/files/list'' (Needs ''files.read'') ''ListFiles'',
     rte ''GET'' ''/api/v1/files/download'' (Needs ''files.read'') ''DownloadFile'',
     rte ''POST'' ''/api/v1/files/upload'' (Needs ''files.write'') ''UploadFile'',
     rte ''POST'' ''/api/v1/files/read'' (Needs ''files.read'') ''ReadTextFile'',
     rte ''POST'' ''/api/v1/files/write'' (Needs ''files.write'') ''WriteTextFile'',
     rte ''POST'' ''/api/v1/files/rename'' (Needs ''files.write'') ''RenameFile'',
     rte ''POST'' ''/api/v1/files/mkdir'' (Needs ''files.write'') ''CreateDirectory'',
     rte ''DELETE'' ''/api/v1/files/delete'' (Needs ''files.write'') ''DeleteFile'',
     rte ''GET'' ''/api/v1/services'' (Needs ''services.read'') ''ListServices'',
     rte ''POST'' ''/api/v1/services/:name/start'' (Needs ''services.manage'') ''StartService'',
     rte ''POST'' ''/api/v1/services/:name/stop'' (Needs ''services.manage'') ''StopService'',
     rte ''POST'' ''/api/v1/services/:name/restart'' (Needs ''services.manage'') ''RestartService'',
     rte ''GET'' ''/api/v1/docker/containers'' (Needs ''docker.read'') ''ListContainers'',
     rte ''POST'' ''/api/v1/docker/containers/:id/start'' (Needs ''docker.manage'') ''StartContainer'',
     rte ''POST'' ''/api/v1/docker/containers/:id/stop'' (Needs ''docker.manage'') ''StopContainer'',
     rte ''POST'' ''/api/v1/docker/containers/:id/restart'' (Needs ''docker.manage'') ''RestartContainer'',
     rte ''GET'' ''/api/v1/docker/images'' (Needs ''docker.read'') ''ListImages'',
     rte ''GET'' ''/api/v1/cron'' (Needs ''cron.read'') ''ListTasks'',
     rte ''POST'' ''/api/v1/cron'' (Needs ''cron.manage'') ''CreateTask'',
     rte ''PUT'' ''/api/v1/cron/:id'' (Needs ''cron.manage'') ''UpdateTask'',
     rte ''DELETE'' ''/api/v1/cron/:id'' (Needs ''cron.manage'') ''DeleteTask'',
     rte ''POST'' ''/api/v1/cron/:id/enable'' (Needs ''cron.manage'') ''EnableTask'',
     rte ''POST'' ''/api/v1/cron/:id/disable'' (Needs ''cron.manage'') ''DisableTask'',
     rte ''GET'' ''/api/v1/audit/logs'' (Needs ''audit.read'') ''ListLogs'',
     rte ''GET'' ''/api/v1/audit/logs/export'' (Needs ''audit.export'') ''ExportLogs'',
     rte ''POST'' ''/api/v1/audit/retention/cleanup'' (Needs ''audit.manage'') ''CleanupRetention'',
     rte ''GET'' ''/api/v1/tasks'' (Needs ''tasks.read'') ''ListTasks'',
     rte ''GET'' ''/api/v1/tasks/:id'' (Needs ''tasks.read'') ''GetTaskDetail'',
     rte ''POST'' ''/api/v1/tasks/docker/restart'' (Needs ''tasks.manage'') ''CreateDockerRestartTask'',
     rte ''POST'' ''/api/v1/tasks/services/restart'' (Needs ''tasks.manage'') ''CreateServiceRestartTask'',
     rte ''POST'' ''/api/v1/tasks/:id/cancel'' (Needs ''tasks.manage'') ''CancelTask'',
     rte ''POST'' ''/api/v1/tasks/:id/retry'' (Needs ''tasks.manage'') ''RetryTask'',
     rte ''GET'' ''/api/v1/backups'' (Needs ''backup.read'') ''ListBackups'',
     rte ''POST'' ''/api/v1/backups'' (Needs ''backup.manage'') ''CreateBackup'',
     rte ''POST'' ''/api/v1/backups/tasks/create'' (Needs ''backup.manage'') ''CreateBackupTask'',
     rte ''POST'' ''/api/v1/backups/retention/cleanup'' (Needs ''backup.manage'') ''CleanupRetention'',
     rte ''POST'' ''/api/v1/backups/:id/verify'' (Needs ''backup.manage'') ''VerifyBackup'',
     rte ''POST'' ''/api/v1/backups/:id/verify-task'' (Needs ''backup.manage'') ''VerifyBackupTask'']"

text \<open>The gates of a route, in the order in which the router installs them.\<close>

definition admit :: "authService \<Rightarrow> access \<Rightarrow> string \<Rightarrow> string \<Rightarrow> (world, gin_keys gate) state" where
  "admit s a authHeader path = (case a of
     Public \<Rightarrow> ret (Continue no_keys)
   | SignedIn \<Rightarrow> JWTAuth s authHeader path
   | Needs permission \<Rightarrow> do {
       g \<leftarrow> JWTAuth s authHeader path;
       ret (case g of Abort st c m \<Rightarrow> Abort st c m | Continue keys \<Rightarrow> RequirePermission permission keys)
     })"

end
