(* ===== verification/AuthRun.thy ===== *)
theory AuthRun
  imports AuthFrame HttpAuth
begin

text \<open>
  Undisturbed runs of the authentication service: what each call and each operation returns and
  stores, given what the libraries document. The named hypotheses on the libraries:
  \<open>random_ok\<close> (the system's randomness is available), \<open>jwt_ok\<close> (signing works, and a token that
  has not expired, and has no space at its ends, parses under the secret it was signed with to the
  claims it was signed for),
  \<open>bcrypt_ok\<close> (passwords of up to 72 bytes can be hashed, and a hash matches its password; longer ones are refused),
  \<open>sha_ok\<close> (a hex digest is 64 lower-case hex digits), \<open>collate_ok\<close> (\<^verbatim>\<open>ORDER BY\<close> permutes).
\<close>

definition random_ok :: "auth_env \<Rightarrow> bool" where
  "random_ok e = (\<forall>n k. \<exists>b. ae_random e n k = Inr b)"

definition jwt_ok :: "auth_env \<Rightarrow> bool" where
  "jwt_ok e = (\<forall>secret c. \<exists>tok. ae_sign e secret c = Inr tok \<and> TrimSpace tok = tok \<and>
     (\<forall>now. now < jc_ExpiresAt c \<longrightarrow> ae_parse e secret now tok = Some c))"

definition bcrypt_ok :: "auth_env \<Rightarrow> bool" where
  "bcrypt_ok e = (\<forall>n p. if length p \<le> 72 then \<exists>h. ae_generate e n p = Inr h \<and> ae_compare e h p
     else \<exists>err. ae_generate e n p = Inl err)"

definition sha_ok :: "auth_env \<Rightarrow> bool" where
  "sha_ok e = (\<forall>x. length (ae_sha256hex e x) = 64 \<and>
     (\<forall>c \<in> set (ae_sha256hex e x). is_digit c \<or> (97 \<le> byte c \<and> byte c \<le> 102)))"

definition collate_ok :: "auth_env \<Rightarrow> bool" where
  "collate_ok e = (\<forall>xs. set (ae_collate e xs) = set xs)"

definition libs_ok :: "auth_env \<Rightarrow> bool" where
  "libs_ok e = (random_ok e \<and> jwt_ok e \<and> sha_ok e \<and> collate_ok e)"

lemma sha_trim:
  assumes "sha_ok e"
  shows "TrimSpace (ae_sha256hex e x) = ae_sha256hex e x" "ae_sha256hex e x \<noteq> []"
proof -
  let ?s = "ae_sha256hex e x"
  have s: "length ?s = 64" "\<forall>c \<in> set ?s. is_digit c \<or> (97 \<le> byte c \<and> byte c \<le> 102)"
    using assms by (simp_all add: sha_ok_def)
  then show ne: "?s \<noteq> []" by auto
  have "c \<in> set ?s \<Longrightarrow> byte c \<in> {33..<127}" for c using s(2) by (auto simp: is_digit_def)
  then show "TrimSpace ?s = ?s" by (intro TrimSpace_plain) (simp_all add: ne)
qed

section \<open>Repository calls\<close>

named_theorems auth_run \<open>undisturbed runs of the calls of the service\<close>

lemmas [auth_run] = run_call_as run_call

lemma run_users [auth_run]:
  assumes "sched w = []"
  shows "run_state (userRepo_GetByID i) w = (Inr (find_user i (tbl w)), w)"
    "run_state (userRepo_GetByUsername n) w = (Inr (find_username n (tbl w)), w)"
    "run_state userRepo_Count w = (Inr (int (length (users (tbl w)))), w)"
    "run_state (userRepo_Create u) w =
       (fst (sql_CreateUser u (clock w) (tbl w)), w\<lparr>tbl := snd (sql_CreateUser u (clock w) (tbl w))\<rparr>)"
    "run_state (userRepo_UpdateLastLoginAt i at) w =
       (Inr (), w\<lparr>tbl := snd (sql_UpdateLastLoginAt i at (clock w) (tbl w))\<rparr>)"
    "run_state (userRepo_UpdatePasswordHash i h) w =
       (Inr (), w\<lparr>tbl := snd (sql_UpdatePasswordHash i h (clock w) (tbl w))\<rparr>)"
    "run_state userRepo_EnsureRBACDefaults w =
       (fst (sql_EnsureRBACDefaults (clock w) (tbl w)), w\<lparr>tbl := snd (sql_EnsureRBACDefaults (clock w) (tbl w))\<rparr>)"
    "run_state (userRepo_GetRolesAndPermissions c i) w =
       (Inr (c (user_role_slugs i (tbl w)), c (user_permission_names i (tbl w))), w)"
    "run_state (userRepo_EnsureUserRoleBySlug i slug) w = (case find_slug slug (tbl w) of
       None \<Rightarrow> (Inr (), w)
     | Some r \<Rightarrow> (fst (sql_AddUserRole i (role_ID r) (clock w) (tbl w)),
         w\<lparr>tbl := snd (sql_AddUserRole i (role_ID r) (clock w) (tbl w))\<rparr>))"
  using assms by (simp_all add: userRepo_defs run_dbcall_calm Now_def sql_UpdateLastLoginAt_def
      sql_UpdatePasswordHash_def split: option.split)

lemma run_local [auth_run]:
  "run_state Now w = (clock w, w)" "run_state draw w = (drawn w, w\<lparr>drawn := drawn w + 1\<rparr>)"
  by (simp_all add: Now_def draw_def)

text \<open>The user found after a change of the user table.\<close>

lemma find_user_in: "find_user i t = Some u \<Longrightarrow> u \<in> set (users t) \<and> user_ID u = i"
  by (auto simp: find_user_def dest: first_where_Some)

lemma find_user_last_login [simp]:
  "find_user i (snd (sql_UpdateLastLoginAt j at now t)) = map_option (\<lambda>u. if user_ID u = j
     then u\<lparr>user_LastLoginAt := Some (timestamptz at), user_UpdatedAt := now\<rparr> else u) (find_user i t)"
  by (simp add: sql_UpdateLastLoginAt_def find_user_def first_where_update_where)

lemma find_user_password [simp]:
  "find_user i (snd (sql_UpdatePasswordHash j h now t)) = map_option (\<lambda>u. if user_ID u = j
     then u\<lparr>user_PasswordHash := h, user_UpdatedAt := now\<rparr> else u) (find_user i t)"
  by (simp add: sql_UpdatePasswordHash_def find_user_def first_where_update_where)

lemma find_user_add_role [simp]: "find_user i (snd (sql_AddUserRole j r now t)) = find_user i t"
  by (simp add: sql_AddUserRole_def find_user_def)

lemma rbac_unchanged [simp]:
  "user_role_slugs i (t\<lparr>users := us\<rparr>) = user_role_slugs i t"
  "user_permission_names i (t\<lparr>users := us\<rparr>) = user_permission_names i t"
  "find_slug slug (t\<lparr>users := us\<rparr>) = find_slug slug t"
  by (simp_all add: user_role_slugs_def user_permission_names_def find_slug_def cong: if_cong)

lemma sql_users_only:
  "snd (sql_UpdateLastLoginAt i at now t) = t\<lparr>users := users (snd (sql_UpdateLastLoginAt i at now t))\<rparr>"
  "snd (sql_UpdatePasswordHash i h now t) = t\<lparr>users := users (snd (sql_UpdatePasswordHash i h now t))\<rparr>"
  by (simp_all add: sql_UpdateLastLoginAt_def sql_UpdatePasswordHash_def)

lemma find_username_id:
  assumes "user_inv t" "find_username n t = Some u"
  shows "find_user (user_ID u) t = Some u"
proof -
  have "u \<in> set (users t)" using assms(2) by (auto simp: find_username_def dest: first_where_Some)
  moreover have "distinct (map user_ID (users t))"
    using assms(1) by (simp add: user_inv_defs ids_ok_def)
  ultimately show ?thesis by (simp add: find_user_def user_table.find_unique)
qed

section \<open>Roles of a user\<close>

text \<open>What the service makes of a user's roles: a user without any becomes an operator.\<close>

definition rbac_of :: "authService \<Rightarrow> int \<Rightarrow> tables \<Rightarrow> string list \<times> string list" where
  "rbac_of s i t = (ae_collate (as_env s) (user_role_slugs i t),
     ae_collate (as_env s) (user_permission_names i t))"

definition resolved :: "authService \<Rightarrow> int \<Rightarrow> time \<Rightarrow> tables \<Rightarrow> tables" where
  "resolved s i now t = (if fst (rbac_of s i t) \<noteq> [] then t
     else case find_slug roleOperator t of None \<Rightarrow> t
       | Some r \<Rightarrow> snd (sql_AddUserRole i (role_ID r) now t))"

lemma find_slug_in: "find_slug slug t = Some r \<Longrightarrow> r \<in> set (roles t) \<and> role_Slug r = slug"
  by (auto simp: find_slug_def dest: first_where_Some)

lemma resolved_users [simp]:
  "find_user j (resolved s i now t) = find_user j t" "users (resolved s i now t) = users t"
  "find_username n (resolved s i now t) = find_username n t"
  by (auto simp: resolved_def sql_AddUserRole_def find_user_def find_username_def split: option.split)

lemma resolved_update_users [simp]:
  "resolved s i now (t\<lparr>users := us\<rparr>) = (resolved s i now t)\<lparr>users := us\<rparr>"
  if "user_ID ` set us = user_ID ` set (users t)"
proof -
  have "(\<exists>u \<in> set us. user_ID u = i) = (\<exists>u \<in> set (users t). user_ID u = i)"
    using that by (metis imageE imageI)
  then show ?thesis by (auto simp: resolved_def rbac_of_def sql_AddUserRole_def split: option.split)
qed

lemma run_resolve [auth_run]:
  assumes "sched w = []" "find_user (user_ID u) (tbl w) \<noteq> None"
  shows "run_state (resolveUserRBAC s u) w =
    (Inr (rbac_of s (user_ID u) (resolved s (user_ID u) (clock w) (tbl w))),
     w\<lparr>tbl := resolved s (user_ID u) (clock w) (tbl w)\<rparr>)"
proof -
  have "\<exists>x \<in> set (users (tbl w)). user_ID x = user_ID u"
    using assms(2) find_user_in by fastforce
  then have ok: "find_slug slug (tbl w) = Some r \<Longrightarrow>
      fst (sql_AddUserRole (user_ID u) (role_ID r) now (tbl w)) = Inr ()" for slug r now
    using find_slug_in by (fastforce simp: sql_AddUserRole_def)
  show ?thesis
    using assms(1) ok by (auto simp: resolveUserRBAC_def run_call run_users rbac_of_def resolved_def
        split: option.split)
qed

lemma resolved_idem:
  assumes "collate_ok (as_env s)" "find_user i t \<noteq> None"
  shows "resolved s i now' (resolved s i now t) = resolved s i now t"
proof (cases "fst (rbac_of s i t) \<noteq> []")
  case False
  show ?thesis
  proof (cases "find_slug roleOperator t")
    case (Some r)
    obtain u where u: "u \<in> set (users t)" "user_ID u = i" using assms(2) find_user_in by fastforce
    let ?t = "snd (sql_AddUserRole i (role_ID r) now t)"
    have r: "r \<in> set (roles ?t)" using find_slug_in [OF Some] by (simp add: sql_AddUserRole_def)
    have "\<exists>y \<in> set (users t). user_ID y = i" "\<exists>y \<in> set (roles t). role_ID y = role_ID r"
      using u find_slug_in [OF Some] by blast+
    then have "\<exists>x \<in> set (user_roles ?t). ur_UserID x = i \<and> ur_RoleID x = role_ID r"
      by (simp add: sql_AddUserRole_def)
    then obtain x where "x \<in> set (user_roles ?t)" "ur_UserID x = i" "ur_RoleID x = role_ID r" by blast
    with r have "role_Slug r \<in> set (user_role_slugs i ?t)" by (force simp: user_role_slugs_def)
    then have "fst (rbac_of s i ?t) \<noteq> []"
      using assms(1) by (simp add: rbac_of_def collate_ok_def) (metis empty_iff empty_set)
    with False Some show ?thesis by (simp add: resolved_def)
  qed (use False in \<open>simp add: resolved_def\<close>)
qed (simp add: resolved_def)

section \<open>Tokens\<close>

definition session_claims ::
  "authService \<Rightarrow> User \<Rightarrow> string list \<times> string list \<Rightarrow> bool \<Rightarrow> string \<Rightarrow> duration \<Rightarrow> int \<Rightarrow> time \<Rightarrow> string \<Rightarrow> jwtClaims" where
  "session_claims s user rbac mustChange use life issued now tokenID =
     \<lparr>jc_UserID = user_ID user, jc_Username = user_Username user, jc_Roles = fst rbac,
      jc_Permissions = snd rbac, jc_MustChangePassword = mustChange, jc_SessionIssuedAt = issued,
      jc_TokenUse = use,
      jc_RBACChecksum = computeRBACChecksum (ae_sha256hex (as_env s)) (fst rbac) (snd rbac),
      jc_ExpiresAt = NewNumericDate (now + life), jc_IssuedAt = NewNumericDate now,
      jc_Issuer = ac_JWTIssuer (as_cfg s), jc_Subject = user_Username user, jc_ID = tokenID\<rparr>"

text \<open>A token that the service issued: it parses to these claims for at least its lifetime less a second.\<close>

definition issued_token :: "authService \<Rightarrow> string \<Rightarrow> jwtClaims \<Rightarrow> bool" where
  "issued_token s tok c = (TrimSpace tok = tok \<and> (\<forall>now. now < jc_ExpiresAt c \<longrightarrow>
     ae_parse (as_env s) (ac_JWTSecret (as_cfg s)) now tok = Some c))"

lemma run_generateToken:
  assumes "random_ok (as_env s)" "jwt_ok (as_env s)"
  shows "\<exists>tok tid. run_state (generateToken s user rs ps mc use
        (computeRBACChecksum (ae_sha256hex (as_env s)) rs ps) life issued) w =
      (Inr (tok, life div Second), w\<lparr>drawn := drawn w + 1\<rparr>) \<and>
    issued_token s tok (session_claims s user (rs, ps) mc use life issued (clock w) tid)"
proof -
  obtain b where b: "ae_random (as_env s) (drawn w) 16 = Inr b" using assms(1) by (auto simp: random_ok_def)
  let ?c = "session_claims s user (rs, ps) mc use life issued (clock w) (EncodeRawURL b)"
  obtain tok where "ae_sign (as_env s) (ac_JWTSecret (as_cfg s)) ?c = Inr tok" "issued_token s tok ?c"
    using assms(2) unfolding jwt_ok_def issued_token_def by metis
  then show ?thesis using b
    by (auto simp: generateToken_def generateTokenID_def auth_run session_claims_def Let_def)
qed

lemma run_generateTokenPair:
  assumes "random_ok (as_env s)" "jwt_ok (as_env s)" "0 < issued"
  shows "\<exists>a r ta tr. run_state (generateTokenPair s user rs ps mc issued) w =
      (Inr (a, ac_JWTExpire (as_cfg s) div Second, r, ac_JWTRefreshExpire (as_cfg s) div Second),
       w\<lparr>drawn := drawn w + 2\<rparr>) \<and>
    issued_token s a (session_claims s user (rs, ps) mc tokenUseAccess (ac_JWTExpire (as_cfg s)) issued (clock w) ta) \<and>
    issued_token s r (session_claims s user (rs, ps) mc tokenUseRefresh (ac_JWTRefreshExpire (as_cfg s)) issued (clock w) tr)"
proof -
  let ?ck = "computeRBACChecksum (ae_sha256hex (as_env s)) rs ps"
  obtain a ta where a: "run_state (generateToken s user rs ps mc tokenUseAccess ?ck (ac_JWTExpire (as_cfg s)) issued) w =
      (Inr (a, ac_JWTExpire (as_cfg s) div Second), w\<lparr>drawn := drawn w + 1\<rparr>)"
    "issued_token s a (session_claims s user (rs, ps) mc tokenUseAccess (ac_JWTExpire (as_cfg s)) issued (clock w) ta)"
    using run_generateToken [OF assms(1,2)] by blast
  obtain r tr where r: "run_state (generateToken s user rs ps mc tokenUseRefresh ?ck (ac_JWTRefreshExpire (as_cfg s)) issued)
        (w\<lparr>drawn := drawn w + 1\<rparr>) =
      (Inr (r, ac_JWTRefreshExpire (as_cfg s) div Second), w\<lparr>drawn := drawn w + 2\<rparr>)"
    "issued_token s r (session_claims s user (rs, ps) mc tokenUseRefresh (ac_JWTRefreshExpire (as_cfg s)) issued (clock w) tr)"
    using run_generateToken [OF assms(1,2), of user rs ps mc tokenUseRefresh "ac_JWTRefreshExpire (as_cfg s)" issued
        "w\<lparr>drawn := drawn w + 1\<rparr>"] by auto
  show ?thesis using a r assms(3) by (auto simp: generateTokenPair_def run_call Let_def)
qed

lemma run_nextSessionTime [auth_run]:
  "run_state (nextSessionTime p) w =
     (case p of None \<Rightarrow> clock w | Some q \<Rightarrow> if clock w > q then clock w else q + 1, w)"
  by (simp add: nextSessionTime_def run_local split: option.split)

text \<open>The claims that the service reads from a token it issued.\<close>

definition token_claims :: "authService \<Rightarrow> User \<Rightarrow> string list \<times> string list \<Rightarrow> bool \<Rightarrow> string \<Rightarrow> int \<Rightarrow> TokenClaims" where
  "token_claims s user rbac mustChange use issued =
     \<lparr>tc_UserID = user_ID user, tc_Username = user_Username user, tc_Roles = fst rbac,
      tc_Permissions = snd rbac, tc_MustChangePassword = mustChange, tc_SessionIssuedAt = issued,
      tc_TokenUse = use,
      tc_RBACChecksum = computeRBACChecksum (ae_sha256hex (as_env s)) (fst rbac) (snd rbac)\<rparr>"

lemma token_claims_simps [simp]:
  "tc_UserID (token_claims s user rbac mc use issued) = user_ID user"
  "tc_MustChangePassword (token_claims s user rbac mc use issued) = mc"
  "tc_SessionIssuedAt (token_claims s user rbac mc use issued) = issued"
  "tc_Roles (token_claims s user rbac mc use issued) = fst rbac"
  "tc_Permissions (token_claims s user rbac mc use issued) = snd rbac"
  by (simp_all add: token_claims_def)

lemma token_uses:
  "TrimSpace (ToLower uni tokenUseAccess) = tokenUseAccess" "tokenUseAccess \<noteq> []"
  "TrimSpace (ToLower uni tokenUseRefresh) = tokenUseRefresh" "tokenUseRefresh \<noteq> []"
  "tokenUseAccess \<noteq> tokenUseRefresh"
proof -
  have t: "TrimSpace ''access'' = ''access''" "TrimSpace ''refresh'' = ''refresh''" by code_simp+
  have "isASCII ''access''" "isASCII ''refresh''" by (simp_all add: isASCII_def)
  then have "ToLower uni ''access'' = ''access''" "ToLower uni ''refresh'' = ''refresh''"
    by (simp_all add: ToLower_def lower_byte_def)
  then show "TrimSpace (ToLower uni tokenUseAccess) = tokenUseAccess"
    "TrimSpace (ToLower uni tokenUseRefresh) = tokenUseRefresh"
    using t by (simp_all add: tokenUseAccess_def tokenUseRefresh_def)
qed (simp_all add: tokenUseAccess_def tokenUseRefresh_def)

lemma NewNumericDate_later: "Second \<le> life \<Longrightarrow> now < NewNumericDate (now + life)"
  unfolding NewNumericDate_def using pos_mod_bound [of Second "now + life"] div_mult_mod_eq [of "now + life" Second]
  by (simp add: duration_defs)

lemma run_parse_issued:
  assumes "sha_ok (as_env s)" "use \<in> {tokenUseAccess, tokenUseRefresh}"
    "issued_token s tok (session_claims s user rbac mc use life issued now0 tid)"
    "clock w < NewNumericDate (now0 + life)"
  shows "run_state (parseTokenWithUse s tok want) w =
    (if want \<noteq> [] \<and> want \<noteq> use then Inl ErrTokenParse else Inr (token_claims s user rbac mc use issued), w)"
proof -
  have "ae_parse (as_env s) (ac_JWTSecret (as_cfg s)) (clock w) tok =
      Some (session_claims s user rbac mc use life issued now0 tid)"
    using assms(3,4) by (simp add: issued_token_def session_claims_def)
  moreover have "TrimSpace (ToLower (lower_uni (ae_lib (as_env s))) use) = use" "use \<noteq> []"
    using assms(2) token_uses by auto
  ultimately show ?thesis
    using sha_trim(1) [OF assms(1)]
    by (auto simp: parseTokenWithUse_def run_local session_claims_def token_claims_def computeRBACChecksum_def Let_def)
qed

text \<open>Reading a token changes nothing and depends on the clock only.\<close>

lemma run_parse_pure:
  "\<lbrakk>fst (run_state (parseTokenWithUse s tok want) w) = x; clock w' = clock w\<rbrakk> \<Longrightarrow>
   run_state (parseTokenWithUse s tok want) w' = (x, w')"
  by (simp add: parseTokenWithUse_def run_local)

section \<open>Sessions\<close>

text \<open>The test that a session passes, as a condition on the tables.\<close>

definition session_live :: "authService \<Rightarrow> TokenClaims \<Rightarrow> time \<Rightarrow> tables \<Rightarrow> bool" where
  "session_live s c now t = (\<exists>u. find_user (tc_UserID c) t = Some u \<and> user_Status u = 1 \<and>
     0 < tc_SessionIssuedAt c \<and> (\<forall>l. user_LastLoginAt u = Some l \<longrightarrow> l \<le> tc_SessionIssuedAt c) \<and>
     (let ck = TrimSpace (tc_RBACChecksum c) in
        (if ck = [] then computeRBACChecksum (ae_sha256hex (as_env s)) (tc_Roles c) (tc_Permissions c) else ck) =
        computeRBACChecksum (ae_sha256hex (as_env s)) (fst (rbac_of s (tc_UserID c) (resolved s (tc_UserID c) now t)))
          (snd (rbac_of s (tc_UserID c) (resolved s (tc_UserID c) now t)))))"

lemma run_ValidateSession:
  assumes "sched w = []" "find_user (tc_UserID c) (tbl w) = Some u"
  shows "run_state (ValidateSession s c) w =
    (if user_Status u \<noteq> 1 then (Inl ErrSessionExpired, w)
     else if tc_SessionIssuedAt c \<le> 0 then (Inl ErrTokenParse, w)
     else if (\<exists>l. user_LastLoginAt u = Some l \<and> tc_SessionIssuedAt c < l) then (Inl ErrSessionExpired, w)
     else (if session_live s c (clock w) (tbl w) then Inr () else Inl ErrSessionExpired,
           w\<lparr>tbl := resolved s (tc_UserID c) (clock w) (tbl w)\<rparr>))"
proof -
  have id: "user_ID u = tc_UserID c" using find_user_in [OF assms(2)] by simp
  show ?thesis
    using assms id unfolding ValidateSession_def session_live_def
    by (auto simp: auth_run Let_def split_beta split: option.splits)
qed

end
