(* ===== verification/AuthSession.thy ===== *)
theory AuthSession
  imports AuthRun
begin

text \<open>
  Sessions from login to their end: undisturbed logins, refreshes, revocations and password
  changes, and (with failing calls and any movement of the clock) that the end of a session is
  final.
\<close>

section \<open>Opening a session\<close>

definition opened ::
  "authService \<Rightarrow> LoginResponse \<Rightarrow> time \<Rightarrow> User \<Rightarrow> string list \<times> string list \<Rightarrow> bool \<Rightarrow> int \<Rightarrow> bool" where
  "opened s v now u rbac mc issued = (\<exists>ta tr.
     issued_token s (lres_AccessToken v)
       (session_claims s u rbac mc tokenUseAccess (ac_JWTExpire (as_cfg s)) issued now ta) \<and>
     issued_token s (lres_RefreshToken v)
       (session_claims s u rbac mc tokenUseRefresh (ac_JWTRefreshExpire (as_cfg s)) issued now tr) \<and>
     lres_User v = toProfile u (fst rbac) (snd rbac) mc)"

lemma run_open:
  assumes "libs_ok (as_env s)" "0 < issued"
  shows "\<exists>v. run_state (call_as ErrTokenGenerate (generateTokenPair s u rs ps mc issued)
        (\<lambda>pair. ret (Inr (login_response u rs ps mc pair)))) w = (Inr v, w\<lparr>drawn := drawn w + 2\<rparr>) \<and>
    opened s v (clock w) u (rs, ps) mc issued"
proof -
  obtain a r ta tr where "run_state (generateTokenPair s u rs ps mc issued) w =
      (Inr (a, ac_JWTExpire (as_cfg s) div Second, r, ac_JWTRefreshExpire (as_cfg s) div Second),
       w\<lparr>drawn := drawn w + 2\<rparr>)"
    "issued_token s a (session_claims s u (rs, ps) mc tokenUseAccess (ac_JWTExpire (as_cfg s)) issued (clock w) ta)"
    "issued_token s r (session_claims s u (rs, ps) mc tokenUseRefresh (ac_JWTRefreshExpire (as_cfg s)) issued (clock w) tr)"
    using run_generateTokenPair [OF _ _ assms(2)] assms(1) unfolding libs_ok_def by blast
  then show ?thesis by (auto simp: run_call_as login_response_def opened_def)
qed

text \<open>What the service reads from the tokens of an opened session, while they have not expired.\<close>

lemma opened_tokens:
  assumes "libs_ok (as_env s)" "opened s v now u rbac mc issued"
  shows "clock w < NewNumericDate (now + ac_JWTExpire (as_cfg s)) \<Longrightarrow>
      run_state (ParseToken s (lres_AccessToken v)) w =
        (Inr (token_claims s u rbac mc tokenUseAccess issued), w)"
    "clock w < NewNumericDate (now + ac_JWTRefreshExpire (as_cfg s)) \<Longrightarrow>
      run_state (parseTokenWithUse s (lres_RefreshToken v) tokenUseRefresh) w =
        (Inr (token_claims s u rbac mc tokenUseRefresh issued), w)"
    "clock w < NewNumericDate (now + ac_JWTRefreshExpire (as_cfg s)) \<Longrightarrow>
      run_state (ParseToken s (lres_RefreshToken v)) w = (Inl ErrTokenParse, w)"
proof -
  have sha: "sha_ok (as_env s)" using assms(1) by (simp add: libs_ok_def)
  obtain ta tr where t: "issued_token s (lres_AccessToken v)
       (session_claims s u rbac mc tokenUseAccess (ac_JWTExpire (as_cfg s)) issued now ta)"
    "issued_token s (lres_RefreshToken v)
       (session_claims s u rbac mc tokenUseRefresh (ac_JWTRefreshExpire (as_cfg s)) issued now tr)"
    using assms(2) by (auto simp: opened_def)
  show "clock w < NewNumericDate (now + ac_JWTExpire (as_cfg s)) \<Longrightarrow> run_state (ParseToken s (lres_AccessToken v)) w =
      (Inr (token_claims s u rbac mc tokenUseAccess issued), w)"
    using run_parse_issued [OF sha _ t(1)] by (simp add: ParseToken_def)
  assume "clock w < NewNumericDate (now + ac_JWTRefreshExpire (as_cfg s))"
  note refresh = run_parse_issued [OF sha _ t(2) this]
  show "run_state (parseTokenWithUse s (lres_RefreshToken v) tokenUseRefresh) w =
      (Inr (token_claims s u rbac mc tokenUseRefresh issued), w)" using refresh by simp
  show "run_state (ParseToken s (lres_RefreshToken v)) w = (Inl ErrTokenParse, w)"
    using refresh token_uses by (simp add: ParseToken_def)
qed

definition session_time :: "User \<Rightarrow> time \<Rightarrow> time" where
  "session_time u now = (case user_LastLoginAt u of None \<Rightarrow> now | Some q \<Rightarrow> if now > q then now else q + 1)"

lemma session_time_bounds: "now \<le> session_time u now" "user_LastLoginAt u = Some q \<Longrightarrow> q < session_time u now"
  by (auto simp: session_time_def split: option.splits)

text \<open>Claims made from a user's current roles pass the session test as long as no later session began.\<close>

lemma fresh_session_live:
  assumes "libs_ok (as_env s)" "find_user i t = Some u" "user_ID u0 = i" "user_Status u = 1" "0 < issued"
    "\<forall>l. user_LastLoginAt u = Some l \<longrightarrow> l \<le> issued"
    "rbac = rbac_of s i (resolved s i now t)"
  shows "session_live s (token_claims s u0 rbac mc use issued) now t"
  using assms sha_trim [of "as_env s"]
  unfolding session_live_def token_claims_def libs_ok_def
  by (simp add: Let_def computeRBACChecksum_def)

section \<open>The operations\<close>

definition logged_in :: "authService \<Rightarrow> User \<Rightarrow> time \<Rightarrow> tables \<Rightarrow> tables" where
  "logged_in s u now t = snd (sql_UpdateLastLoginAt (user_ID u) (session_time u now) now (resolved s (user_ID u) now t))"

lemma run_Login:
  assumes "libs_ok (as_env s)" "sched w = []" "user_inv (tbl w)" "0 < clock w"
    "find_username (lr_Username req) (tbl w) = Some u"
    "ae_compare (as_env s) (user_PasswordHash u) (lr_Password req)" "user_Status u = 1"
  shows "\<exists>v u'. run_state (Login s req) w = (Inr v, w\<lparr>tbl :=
        (if mustChangePassword s u then resolved s (user_ID u) (clock w) (tbl w)
         else logged_in s u (clock w) (tbl w)), drawn := drawn w + 2\<rparr>) \<and>
    user_ID u' = user_ID u \<and> user_Username u' = user_Username u \<and>
    opened s v (clock w) u' (rbac_of s (user_ID u) (resolved s (user_ID u) (clock w) (tbl w)))
      (mustChangePassword s u) (session_time u (clock w))"
proof -
  let ?i = "user_ID u" and ?t = "resolved s (user_ID u) (clock w) (tbl w)"
  let ?si = "session_time u (clock w)" and ?mc = "mustChangePassword s u"
  have id: "find_user ?i (tbl w) = Some u" by (rule find_username_id [OF assms(3,5)])
  have pos: "0 < ?si" using session_time_bounds(1) [of "clock w" u] assms(4) by simp
  define u' where "u' = (if ?mc then u else u\<lparr>user_LastLoginAt := Some ?si\<rparr>)"
  define w' where "w' = w\<lparr>tbl := (if ?mc then ?t else logged_in s u (clock w) (tbl w))\<rparr>"
  obtain v where v: "run_state (call_as ErrTokenGenerate
        (generateTokenPair s u' (fst (rbac_of s ?i ?t)) (snd (rbac_of s ?i ?t)) ?mc ?si)
        (\<lambda>pair. ret (Inr (login_response u' (fst (rbac_of s ?i ?t)) (snd (rbac_of s ?i ?t)) ?mc pair)))) w' =
      (Inr v, w'\<lparr>drawn := drawn w' + 2\<rparr>)"
    "opened s v (clock w') u' (rbac_of s ?i ?t) ?mc ?si"
    using run_open [OF assms(1) pos, of u' "fst (rbac_of s ?i ?t)" "snd (rbac_of s ?i ?t)" ?mc w'] by auto
  have time: "run_state (nextSessionTime (user_LastLoginAt u)) x = (session_time u (clock x), x)" for x
    by (simp add: run_nextSessionTime session_time_def split: option.split)
  have "run_state (Login s req) w = (Inr v, w'\<lparr>drawn := drawn w' + 2\<rparr>)"
    using assms(2,5,6,7) id v(1) unfolding u'_def w'_def logged_in_def
    by (cases ?mc) (simp_all add: Login_def run_call_as [of ErrInternal] run_call run_users run_resolve time split_beta Let_def)
  with v(2) show ?thesis by (intro exI [of _ v] exI [of _ u']) (auto simp: u'_def w'_def)
qed

lemma password_changed_rbac:
  "rbac_of s i (snd (sql_UpdatePasswordHash j h now t)) = rbac_of s i t"
  "rbac_of s i (snd (sql_UpdateLastLoginAt j at now t)) = rbac_of s i t"
  by (simp_all add: rbac_of_def sql_UpdatePasswordHash_def sql_UpdateLastLoginAt_def)

text \<open>A session time moves no role.\<close>

lemma resolved_last_login:
  "resolved s i now (snd (sql_UpdateLastLoginAt j at now' t)) = snd (sql_UpdateLastLoginAt j at now' (resolved s i now t))"
proof -
  have "map user_ID (users (snd (sql_UpdateLastLoginAt j at now' t))) = map user_ID (users t)"
    by (simp add: sql_UpdateLastLoginAt_def map_update_where)
  then have ids: "user_ID ` set (users (snd (sql_UpdateLastLoginAt j at now' t))) = user_ID ` set (users t)"
    by (metis set_map)
  show ?thesis
    using resolved_update_users [OF ids, of s i now] by (simp add: sql_UpdateLastLoginAt_def)
qed

lemma run_Refresh:
  assumes "libs_ok (as_env s)" "sched w = []" "0 < clock w"
    "run_state (parseTokenWithUse s tok tokenUseRefresh) w = (Inr c, w)" "\<not> tc_MustChangePassword c"
    "find_user (tc_UserID c) (tbl w) = Some u" "session_live s c (clock w) (tbl w)"
  shows "\<exists>v u'. run_state (Refresh s tok) w =
      (Inr v, w\<lparr>tbl := logged_in s u (clock w) (tbl w), drawn := drawn w + 2\<rparr>) \<and>
    user_ID u' = user_ID u \<and> user_Username u' = user_Username u \<and>
    opened s v (clock w) u' (rbac_of s (user_ID u) (resolved s (user_ID u) (clock w) (tbl w)))
      False (session_time u (clock w))"
proof -
  let ?i = "user_ID u" and ?t = "resolved s (user_ID u) (clock w) (tbl w)"
  let ?si = "session_time u (clock w)"
  have id: "user_ID u = tc_UserID c" using find_user_in [OF assms(6)] by simp
  have live: "user_Status u = 1" "0 < tc_SessionIssuedAt c"
    "\<not> (\<exists>l. user_LastLoginAt u = Some l \<and> tc_SessionIssuedAt c < l)"
    using assms(6,7) by (auto simp: session_live_def)
  have validated: "run_state (ValidateSession s c) w = (Inr (), w\<lparr>tbl := ?t\<rparr>)"
    using live assms(7) by (simp add: run_ValidateSession [OF assms(2,6)] id)
  have again: "resolved s (tc_UserID c) (clock w) (resolved s (tc_UserID c) (clock w) (tbl w)) =
      resolved s (tc_UserID c) (clock w) (tbl w)"
    using assms(1,6) by (intro resolved_idem) (simp_all add: libs_ok_def)
  have pos: "0 < ?si" using session_time_bounds(1) [of "clock w" u] assms(3) by simp
  define u' where "u' = u\<lparr>user_LastLoginAt := Some ?si\<rparr>"
  define w' where "w' = w\<lparr>tbl := logged_in s u (clock w) (tbl w)\<rparr>"
  obtain v where v: "run_state (call_as ErrTokenGenerate
        (generateTokenPair s u' (fst (rbac_of s ?i ?t)) (snd (rbac_of s ?i ?t)) False ?si)
        (\<lambda>pair. ret (Inr (login_response u' (fst (rbac_of s ?i ?t)) (snd (rbac_of s ?i ?t)) False pair)))) w' =
      (Inr v, w'\<lparr>drawn := drawn w' + 2\<rparr>)"
    "opened s v (clock w') u' (rbac_of s ?i ?t) False ?si"
    using run_open [OF assms(1) pos, of u' "fst (rbac_of s ?i ?t)" "snd (rbac_of s ?i ?t)" False w'] by auto
  have time: "run_state (nextSessionTime (user_LastLoginAt u)) x = (session_time u (clock x), x)" for x
    by (simp add: run_nextSessionTime session_time_def split: option.split)
  have "run_state (Refresh s tok) w = (Inr v, w'\<lparr>drawn := drawn w' + 2\<rparr>)"
    using assms(2,4,5,6) live v(1) validated id again unfolding u'_def w'_def logged_in_def
    by (simp add: Refresh_def run_call_as [of ErrInternal] run_call run_users run_resolve time split_beta Let_def)
  with v(2) show ?thesis by (intro exI [of _ v] exI [of _ u']) (auto simp: u'_def w'_def)
qed

lemma run_RevokeSession:
  assumes "sched w = []" "find_user i (tbl w) = Some u"
  shows "run_state (RevokeSession s i) w =
    (Inr (), if mustChangePassword s u then w
       else w\<lparr>tbl := snd (sql_UpdateLastLoginAt i (session_time u (clock w)) (clock w) (tbl w))\<rparr>)"
  using assms find_user_in [OF assms(2)]
  by (auto simp: RevokeSession_def auth_run session_time_def split: option.splits)

section \<open>The end of a session is final\<close>

text \<open>
  \<open>ended i l\<close>: the session time of user \<open>i\<close> is at least \<open>l\<close>. The service never moves a session
  time back when nobody else writes the user table: it reads the user, picks a later instant
  and stores it, rounded to what the column keeps, which is still not before \<open>l\<close>.
\<close>

definition late :: "int \<Rightarrow> time \<Rightarrow> User \<Rightarrow> bool" where
  "late i l u = (user_ID u = i \<longrightarrow> (\<exists>x. user_LastLoginAt u = Some x \<and> l \<le> x))"

definition ended_in :: "int \<Rightarrow> time \<Rightarrow> tables \<Rightarrow> bool" where
  "ended_in i l t = (user_inv t \<and> (\<exists>u. find_user i t = Some u \<and> late i l u))"

definition ended :: "int \<Rightarrow> time \<Rightarrow> world \<Rightarrow> bool" where
  "ended i l w = (alone w \<and> ended_in i l (tbl w))"

definition stays_ended :: "int \<Rightarrow> time \<Rightarrow> world \<Rightarrow> world \<Rightarrow> bool" where
  "stays_ended i l w w' = (ended i l w \<longrightarrow> ended i l w')"

lemma find_user_append: "find_user i t = Some u \<Longrightarrow> find_user i (t\<lparr>users := users t @ us\<rparr>) = Some u"
  by (simp add: find_user_def)

lemma stays_ended_dbcall:
  assumes "\<And>t. ended_in i l t \<Longrightarrow> ended_in i l (snd (f t))"
  shows "keeps (stays_ended i l) (dbcall f)"
proof (rule keepsI)
  fix w show "stays_ended i l w (snd (run_state (dbcall f) w))"
    using validD [OF alone_dbcall [where P = "ended_in i l" and Q = "\<lambda>_. ended_in i l" and f = f], of w] assms
    by (auto simp: stays_ended_def ended_def)
qed

lemma ended_in_users:
  "ended_in i l t \<Longrightarrow> user_inv t' \<Longrightarrow> find_user i t' = find_user i t \<Longrightarrow> ended_in i l t'"
  by (simp add: ended_in_def)

lemma defaults_users: "users (snd (sql_EnsureRBACDefaults now t)) = users t"
proof -
  have r: "users (snd (insert_roles now rs t)) = users t" for rs t
    by (induction now rs t rule: insert_roles.induct) (simp_all add: Let_def)
  have p: "users (insert_permissions now ps t) = users t" for ps t
    by (induction now ps t rule: insert_permissions.induct) (simp_all add: Let_def)
  have g: "users (insert_role_permissions now xs t) = users t" for xs t
    by (induction now xs t rule: insert_role_permissions.induct) simp_all
  show ?thesis using r [of default_roles t]
    by (auto simp: sql_EnsureRBACDefaults_def p g Let_def split: prod.splits sum.splits)
qed

lemma ended_in_steps:
  assumes "ended_in i l t"
  shows "ended_in i l (snd (sql_CreateUser u now t))" "ended_in i l (snd (sql_UpdatePasswordHash j h now t))"
    "ended_in i l (snd (sql_EnsureRBACDefaults now t))" "ended_in i l (snd (sql_AddUserRole j r now t))"
    "timestamptz l = l \<Longrightarrow> j = i \<longrightarrow> l \<le> at \<Longrightarrow> ended_in i l (snd (sql_UpdateLastLoginAt j at now t))"
proof -
  obtain v where v: "user_inv t" "find_user i t = Some v" "late i l v" using assms by (auto simp: ended_in_def)
  have "find_user i (snd (sql_CreateUser u now t)) = Some v"
    using v(2) by (auto simp: sql_CreateUser_def Let_def find_user_def)
  then show "ended_in i l (snd (sql_CreateUser u now t))"
    using assms v user_inv_create by (auto intro: ended_in_users)
  show "ended_in i l (snd (sql_EnsureRBACDefaults now t))"
    using assms v user_inv_defaults by (auto intro: ended_in_users simp: find_user_def defaults_users)
  show "ended_in i l (snd (sql_AddUserRole j r now t))"
    using assms v user_inv_add_role by (auto intro: ended_in_users)
  show "ended_in i l (snd (sql_UpdatePasswordHash j h now t))"
    using v user_inv_step [OF user_step.password v(1)] by (auto simp: ended_in_def late_def)
  assume l: "timestamptz l = l" "j = i \<longrightarrow> l \<le> at"
  then have "j = i \<longrightarrow> l \<le> timestamptz at" using timestamptz_mono [of l at] by auto
  then show "ended_in i l (snd (sql_UpdateLastLoginAt j at now t))"
    using v user_inv_step [OF user_step.last_login v(1)] find_user_in [OF v(2)] by (auto simp: ended_in_def late_def)
qed

lemma stays_ended_rel: "reflp (stays_ended i l)" "transp (stays_ended i l)"
  by (auto simp: reflp_def transp_def stays_ended_def)

interpretation ending: auth_calls "stays_ended i l" for i l
proof
  show "keeps (stays_ended i l) Now" "keeps (stays_ended i l) draw"
    by (auto intro!: keepsI simp: Now_def draw_def stays_ended_def ended_def alone_def)
qed (unfold userRepo_defs, (intro stays_ended_rel keeps_bind keeps_ret keeps_case_sum keeps_case_option stays_ended_dbcall;
      auto intro!: keepsI ended_in_steps simp: Now_def stays_ended_def)+)

text \<open>Reading a user, then picking a later session time, then storing it.\<close>

lemma stays_ended_read:
  assumes "\<And>u. late i l u \<Longrightarrow> keeps (stays_ended i l) (k (Some u))" "keeps (stays_ended i l) (k None)"
  shows "keeps (stays_ended i l) (call_as E (userRepo_GetByID j) k)"
    "keeps (stays_ended i l) (call_as E (userRepo_GetByUsername n) k)"
proof -
  have unique: "ended_in i l t \<Longrightarrow> u \<in> set (users t) \<Longrightarrow> late i l u" for t u
    using user_table.find_unique [of t u] by (auto simp: ended_in_def late_def find_user_def user_inv_defs ids_ok_def)
  have read: "keeps (stays_ended i l) (call_as E (dbcall (\<lambda>t. (Inr (g t), t))) k)"
    if g: "\<And>t u. g t = Some u \<Longrightarrow> u \<in> set (users t)" for g
  proof (rule keepsI)
    fix w
    let ?m = "dbcall (\<lambda>t. (Inr (g t), t))"
    obtain x v where x: "run_state ?m w = (x, v)" by fastforce
    have "ended i l w \<Longrightarrow> ended i l v \<and> (\<forall>u. x = Inr (Some u) \<longrightarrow> late i l u)"
      using validD [OF alone_dbcall [where P = "ended_in i l" and f = "\<lambda>t. (Inr (g t), t)" and
            Q = "\<lambda>x t. ended_in i l t \<and> (\<forall>u. x = Inr (Some u) \<longrightarrow> late i l u)"], of w] x g unique
      by (fastforce simp: ended_def)
    then show "stays_ended i l w (snd (run_state (call_as E ?m k) w))"
      using keepsD [OF assms(1), of _ v] keepsD [OF assms(2), of v]
      by (cases x; simp add: run_call_as x stays_ended_def; cases "projr x"; auto)
  qed
  show "keeps (stays_ended i l) (call_as E (userRepo_GetByID j) k)"
    "keeps (stays_ended i l) (call_as E (userRepo_GetByUsername n) k)"
    unfolding userRepo_GetByID_def userRepo_GetByUsername_def
    by (rule read; auto simp: find_user_def find_username_def dest: first_where_Some)+
qed

lemma stays_ended_time:
  assumes "late i l u" "timestamptz l = l"
    "\<And>at. keeps (stays_ended i l) (userRepo_UpdateLastLoginAt (user_ID u) at) \<Longrightarrow> keeps (stays_ended i l) (k at)"
  shows "keeps (stays_ended i l) (do { at \<leftarrow> nextSessionTime (user_LastLoginAt u); k at })"
proof (rule keepsI)
  fix w :: world
  have "keeps (stays_ended i l) (userRepo_UpdateLastLoginAt (user_ID u) (session_time u (clock w)))"
    unfolding userRepo_UpdateLastLoginAt_def
  proof (intro keeps_bind stays_ended_rel ending.local_effects stays_ended_dbcall)
    fix now t assume t: "ended_in i l t"
    have "user_ID u = i \<longrightarrow> l \<le> session_time u (clock w)"
      using assms(1) session_time_bounds(2) [of u _ "clock w"] by (force simp: late_def)
    then show "ended_in i l (snd (sql_UpdateLastLoginAt (user_ID u) (session_time u (clock w)) now t))"
      by (rule ended_in_steps(5) [OF t assms(2)])
  qed
  then have "keeps (stays_ended i l) (k (session_time u (clock w)))" by (rule assms(3))
  from keepsD [OF this, of w] show "stays_ended i l w (snd (run_state (do { at \<leftarrow> nextSessionTime (user_LastLoginAt u); k at }) w))"
    by (simp add: run_nextSessionTime session_time_def)
qed

lemma stays_ended_operations:
  assumes "timestamptz l = l"
  shows "keeps (stays_ended i l) (Login s req)" "keeps (stays_ended i l) (Refresh s tok)"
    "keeps (stays_ended i l) (RevokeSession s j)" "keeps (stays_ended i l) (ChangePassword s j creq)"
  unfolding Login_def Refresh_def RevokeSession_def ChangePassword_def Let_def
  by (rule stays_ended_read stays_ended_time [OF _ assms] ending.auth_rules ending.helpers ending.parse ending.session
      | simp add: ending.auth_rules)+

lemma ended_stays: "timestamptz l = l \<Longrightarrow> ended i l w \<Longrightarrow> ended i l (snd (run_state (run_auth_ops s ops) w))"
proof -
  assume l: "timestamptz l = l"
  have op: "keeps (stays_ended i l) (run_auth_op s x)" for x
    by (cases x) (auto intro!: ending.auth_rules stays_ended_operations [OF l] ending.sessionless ending.session)
  have "keeps (stays_ended i l) (run_auth_ops s ops)"
    by (induction ops) (auto intro!: ending.auth_rules op)
  then show "ended i l w \<Longrightarrow> ended i l (snd (run_state (run_auth_ops s ops) w))"
    using keepsD by (metis stays_ended_def)
qed

lemma ended_refuses:
  assumes "ended i l w" "tc_UserID c = i" "tc_SessionIssuedAt c < l"
  shows "fst (run_state (ValidateSession s c) w) \<noteq> Inr ()"
proof -
  obtain x v where x: "run_state (userRepo_GetByID i) w = (x, v)" by fastforce
  have "x = Inr r \<Longrightarrow> \<exists>u. r = Some u \<and> user_ID u = i \<and> late i l u" for r
    using validD [OF alone_dbcall [where P = "ended_in i l" and f = "\<lambda>t. (Inr (find_user i t), t)" and
          Q = "\<lambda>x t. \<forall>r. x = Inr r \<longrightarrow> (\<exists>u. r = Some u \<and> user_ID u = i \<and> late i l u)"], of w] x assms(1)
    by (fastforce simp: ended_def ended_in_def userRepo_GetByID_def dest: find_user_in)
  then consider e where "x = Inl e" | u where "x = Inr (Some u)" "user_ID u = i" "late i l u"
    by (cases x) auto
  then show ?thesis
  proof cases
    case 2
    then obtain z where "user_LastLoginAt u = Some z" "l \<le> z" by (auto simp: late_def)
    with 2 x assms(2,3) show ?thesis by (simp add: ValidateSession_def run_call_as [of _ "userRepo_GetByID i"])
  qed (use x assms(2) in \<open>simp add: ValidateSession_def run_call_as [of _ "userRepo_GetByID i"]\<close>)
qed

end
