(* ===== verification/AuthRoles.thy ===== *)
theory AuthRoles
  imports AuthSession "HOL-Library.Multiset"
begin

text \<open>
  Roles and permissions: the checksum that ties a token to the roles it was issued for, the
  default roles, and the bootstrap administrator.
\<close>

section \<open>The checksum\<close>

text \<open>
  What the checksum digests determines the sorted lists, as long as names are not empty and
  contain neither the comma nor the bar that separate them.
\<close>

definition plain_name :: "string \<Rightarrow> bool" where
  "plain_name s = (s \<noteq> [] \<and> CHR '','' \<notin> set s \<and> CHR ''|'' \<notin> set s)"

definition rbac_payload :: "string list \<Rightarrow> string list \<Rightarrow> string" where
  "rbac_payload rs ps = JoinComma (sort rs) @ ''|'' @ JoinComma (sort ps)"

lemma append_sep_inject:
  assumes "a @ x # b = a' @ x # b'" "x \<notin> set a" "x \<notin> set a'"
  shows "a = a' \<and> b = b'"
  using assms
proof (induction a arbitrary: a')
  case Nil
  then show ?case by (cases a') auto
next
  case (Cons c a)
  then show ?case by (cases a') auto
qed

lemma JoinComma_inject:
  "\<lbrakk>JoinComma ss = JoinComma ts; \<forall>s \<in> set ss. plain_name s; \<forall>s \<in> set ts. plain_name s\<rbrakk> \<Longrightarrow> ss = ts"
proof (induction ss arbitrary: ts rule: JoinComma.induct)
  case 1
  then show ?case by (cases ts rule: JoinComma.cases) (auto simp: plain_name_def)
next
  case (2 s)
  then show ?case
  proof (cases ts rule: JoinComma.cases)
    case (3 t u us)
    then have "CHR '','' \<in> set (JoinComma ts)" by simp
    then have "CHR '','' \<in> set s" using 2(1) by simp
    with 2 show ?thesis by (simp add: plain_name_def)
  qed (use 2 in \<open>auto simp: plain_name_def\<close>)
next
  case (3 s t ss)
  show ?case
  proof (cases ts rule: JoinComma.cases)
    case (3 s' t' ts')
    then have "s @ CHR '','' # JoinComma (t # ss) = s' @ CHR '','' # JoinComma (t' # ts')"
      using \<open>JoinComma (s # t # ss) = JoinComma ts\<close> by simp
    then have "s = s' \<and> JoinComma (t # ss) = JoinComma (t' # ts')"
      using "3.prems" 3 by (intro append_sep_inject) (auto simp: plain_name_def)
    moreover have "t # ss = t' # ts'"
      using "3.IH" [of "t' # ts'"] calculation "3.prems" 3 by simp
    ultimately show ?thesis using 3 by simp
  next
    case (2 u)
    then have "CHR '','' \<in> set u" using "3.prems"(1) by (metis JoinComma.simps(2,3) append_Cons in_set_conv_decomp)
    with "3.prems" 2 show ?thesis by (simp add: plain_name_def)
  qed (use "3.prems" in \<open>auto simp: plain_name_def\<close>)
qed

lemma JoinComma_no_bar: "\<forall>s \<in> set ss. plain_name s \<Longrightarrow> CHR ''|'' \<notin> set (JoinComma ss)"
  by (induction ss rule: JoinComma.induct) (auto simp: plain_name_def)

lemma rbac_payload_inject:
  assumes "rbac_payload rs ps = rbac_payload rs' ps'" "\<forall>s \<in> set rs \<union> set ps \<union> set rs' \<union> set ps'. plain_name s"
  shows "mset rs = mset rs' \<and> mset ps = mset ps'"
proof -
  have "JoinComma (sort rs) = JoinComma (sort rs') \<and> JoinComma (sort ps) = JoinComma (sort ps')"
    using assms JoinComma_no_bar by (intro append_sep_inject [where x = "CHR ''|''"]) (auto simp: rbac_payload_def)
  then have "sort rs = sort rs'" "sort ps = sort ps'"
    using assms(2) by (auto intro!: JoinComma_inject)
  then show ?thesis by (metis mset_sort)
qed

section \<open>Password rules\<close>

lemma password_loop_spec:
  "password_loop s (u, l, d, y) = (u \<or> (\<exists>c \<in> set s. is_upper c), l \<or> (\<exists>c \<in> set s. is_lower c),
     d \<or> (\<exists>c \<in> set s. is_digit c),
     y \<or> (\<exists>c \<in> set s. \<not> is_upper c \<and> \<not> is_lower c \<and> \<not> is_digit c))"
proof (induction s arbitrary: u l d y)
  case (Cons c s)
  have "\<not> (is_upper c \<and> is_lower c)" "\<not> (is_upper c \<and> is_digit c)" "\<not> (is_lower c \<and> is_digit c)"
    by (auto simp: is_upper_def is_lower_def is_digit_def)
  with Cons show ?case by auto
qed simp

lemma isStrongPassword_spec:
  "isStrongPassword raw \<longleftrightarrow> 14 \<le> length (TrimSpace raw) \<and>
     (\<exists>c \<in> set (TrimSpace raw). is_upper c) \<and> (\<exists>c \<in> set (TrimSpace raw). is_lower c) \<and>
     (\<exists>c \<in> set (TrimSpace raw). is_digit c) \<and>
     (\<exists>c \<in> set (TrimSpace raw). \<not> is_upper c \<and> \<not> is_lower c \<and> \<not> is_digit c)"
  by (auto simp: isStrongPassword_def password_loop_spec Let_def)

section \<open>The default roles\<close>

text \<open>What a role may do: the names of the permissions granted to the role with this slug.\<close>

definition role_grants :: "string \<Rightarrow> tables \<Rightarrow> string set" where
  "role_grants slug t = {perm_Name p |p r x. p \<in> set (permissions t) \<and> r \<in> set (roles t) \<and>
     x \<in> set (role_permissions t) \<and> role_Slug r = slug \<and> rp_RoleID x = role_ID r \<and> rp_PermissionID x = perm_ID p}"

lemma ids_by_find:
  assumes "r \<in> set rs" "distinct (map name rs)"
  shows "ids_by name ident rs (name r) = Some (ident r)"
  using assms by (auto simp: ids_by_map_of rev_map distinct_map inj_on_def intro!: map_of_is_SomeI)

lemma insert_roles_ok:
  "insert_roles now rs t = (Inr (), t') \<Longrightarrow>
   (\<forall>r \<in> set rs. \<exists>x \<in> set (roles t'). role_Slug x = role_Slug r) \<and> set (roles t) \<subseteq> set (roles t') \<and>
   role_permissions t' = role_permissions t \<and> permissions t' = permissions t \<and>
   user_roles t' = user_roles t \<and> users t' = users t"
proof (induction now rs t rule: insert_roles.induct)
  case (2 now r rs t)
  consider "\<exists>x \<in> set (roles t). role_Slug x = role_Slug r"
    | "\<not> (\<exists>x \<in> set (roles t). role_Slug x = role_Slug r)" "\<not> (\<exists>x \<in> set (roles t). role_Name x = role_Name r)"
    using 2(3) by (auto simp: Let_def split: if_splits)
  then show ?case
  proof cases
    case 1
    with 2(1) [OF HOL.refl 1] 2(3) show ?thesis by (auto simp: Let_def)
  next
    case a: 2
    with 2(2) [OF HOL.refl a] 2(3) show ?thesis by (auto simp: Let_def intro: rev_bexI)
  qed
qed simp

lemma insert_permissions_ok:
  "(\<forall>p \<in> set ps. \<exists>x \<in> set (permissions (insert_permissions now ps t)). perm_Name x = perm_Name p) \<and>
   set (permissions t) \<subseteq> set (permissions (insert_permissions now ps t)) \<and>
   roles (insert_permissions now ps t) = roles t \<and> users (insert_permissions now ps t) = users t \<and>
   role_permissions (insert_permissions now ps t) = role_permissions t \<and>
   user_roles (insert_permissions now ps t) = user_roles t"
proof (induction now ps t rule: insert_permissions.induct)
  case (2 now p ps t)
  show ?case
  proof (cases "\<exists>x \<in> set (permissions t). perm_Name x = perm_Name p")
    case True
    with 2(1) [OF HOL.refl True] show ?thesis by (auto simp: Let_def)
  next
    case False
    with 2(2) [OF HOL.refl False] show ?thesis by (auto simp: Let_def intro: rev_bexI)
  qed
qed simp

definition pairs :: "RolePermission list \<Rightarrow> (int \<times> int) set" where
  "pairs rps = (\<lambda>x. (rp_RoleID x, rp_PermissionID x)) ` set rps"

lemma insert_role_permissions_ok:
  "pairs (role_permissions (insert_role_permissions now xs t)) = set xs \<union> pairs (role_permissions t) \<and>
   set (role_permissions t) \<subseteq> set (role_permissions (insert_role_permissions now xs t)) \<and>
   roles (insert_role_permissions now xs t) = roles t \<and> users (insert_role_permissions now xs t) = users t \<and>
   permissions (insert_role_permissions now xs t) = permissions t \<and>
   user_roles (insert_role_permissions now xs t) = user_roles t"
proof (induction now xs t rule: insert_role_permissions.induct)
  case (2 now r p xs t)
  let ?b = "\<exists>x \<in> set (role_permissions t). rp_RoleID x = r \<and> rp_PermissionID x = p"
  have "?b \<longleftrightarrow> (r, p) \<in> pairs (role_permissions t)" by (auto simp: pairs_def)
  with 2 show ?case by (cases ?b) (auto simp: pairs_def)
qed (simp add: pairs_def)

lemma role_grants_pairs:
  "role_grants slug t = {perm_Name p |p r. p \<in> set (permissions t) \<and> r \<in> set (roles t) \<and>
     role_Slug r = slug \<and> (role_ID r, perm_ID p) \<in> pairs (role_permissions t)}"
  by (force simp: role_grants_def pairs_def)

lemma granted_pairs_found:
  assumes "n \<in> set names" "R slug = Some r" "P n = Some p"
  shows "(r, p) \<in> set (granted_pairs R P slug names)"
  using assms by (auto simp: granted_pairs_in intro: bexI [of _ n])

lemma defaults_grant:
  assumes "user_inv t" "sql_EnsureRBACDefaults now t = (Inr (), t')"
  shows "fst ` set permissionSeeds \<subseteq> role_grants roleSuperAdmin t'"
    "set operatorPermissions \<subseteq> role_grants roleOperator t'"
proof -
  let ?names = "map fst permissionSeeds"
  let ?seed = "\<lambda>(n, d). \<lparr>perm_ID = 0, perm_Name = n, perm_Description = d, perm_CreatedAt = 0, perm_UpdatedAt = 0\<rparr>"
  obtain t1 where t1: "insert_roles now default_roles t = (Inr (), t1)"
    using assms(2) by (auto simp: sql_EnsureRBACDefaults_def split: prod.splits sum.splits)
  define t2 where "t2 = insert_permissions now (map ?seed permissionSeeds) t1"
  define R where "R = ids_by role_Slug role_ID (filter (\<lambda>r. role_Slug r \<in> {''super_admin'', ''operator''}) (roles t2))"
  define P where "P = ids_by perm_Name perm_ID (filter (\<lambda>p. perm_Name p \<in> set ?names) (permissions t2))"
  define xs where "xs = granted_pairs R P ''super_admin'' ?names @ granted_pairs R P ''operator'' operatorPermissions"
  have t': "t' = insert_role_permissions now xs t2"
    using assms(2) t1 by (simp add: sql_EnsureRBACDefaults_def Let_def t2_def R_def P_def xs_def)
  have inv: "user_inv t2"
    using insert_permissions_inv insert_roles_inv [OF assms(1), of now default_roles] t1 by (simp add: t2_def)
  have role: "\<exists>r \<in> set (roles t2). role_Slug r = slug \<and> R slug = Some (role_ID r)"
    if s: "slug \<in> {''super_admin'', ''operator''}" for slug
  proof -
    have "\<exists>d \<in> set default_roles. role_Slug d = slug" using s by (auto simp: default_roles_def new_role_def)
    then obtain r where r: "r \<in> set (roles t2)" "role_Slug r = slug"
      using insert_roles_ok [OF t1] insert_permissions_ok [of _ now t1] unfolding t2_def by metis
    have "distinct (map role_Slug (roles t2))" using inv by (simp add: user_inv_defs)
    then have "distinct (map role_Slug (filter (\<lambda>r. role_Slug r \<in> {''super_admin'', ''operator''}) (roles t2)))"
      by (rule distinct_map_filter)
    then have "R (role_Slug r) = Some (role_ID r)" unfolding R_def
      by (rule ids_by_find [rotated]) (use r s in simp)
    with r show ?thesis by blast
  qed
  have perm: "\<exists>p \<in> set (permissions t2). perm_Name p = n \<and> P n = Some (perm_ID p)" if n: "n \<in> set ?names" for n
  proof -
    have "\<exists>q \<in> set (map ?seed permissionSeeds). perm_Name q = n" using n by force
    then obtain p where p: "p \<in> set (permissions t2)" "perm_Name p = n"
      using insert_permissions_ok [of "map ?seed permissionSeeds" now t1] unfolding t2_def by metis
    have "distinct (map perm_Name (permissions t2))" using inv by (simp add: user_inv_defs)
    then have "distinct (map perm_Name (filter (\<lambda>p. perm_Name p \<in> set ?names) (permissions t2)))"
      by (rule distinct_map_filter)
    then have "P (perm_Name p) = Some (perm_ID p)" unfolding P_def
      by (rule ids_by_find [rotated]) (use p n in simp)
    with p show ?thesis by blast
  qed
  have grant: "n \<in> role_grants slug t'"
    if g: "slug \<in> {''super_admin'', ''operator''}" "n \<in> set ?names" "n \<in> set ns"
      "set (granted_pairs R P slug ns) \<subseteq> set xs" for slug n ns
  proof -
    obtain r where r: "r \<in> set (roles t2)" "role_Slug r = slug" "R slug = Some (role_ID r)"
      using role [OF g(1)] by blast
    obtain p where p: "p \<in> set (permissions t2)" "perm_Name p = n" "P n = Some (perm_ID p)"
      using perm [OF g(2)] by blast
    have "(role_ID r, perm_ID p) \<in> set xs" using granted_pairs_found [where R = R and P = P, OF g(3) r(3) p(3)] g(4) by blast
    with r p show ?thesis unfolding role_grants_pairs t' by (simp add: insert_role_permissions_ok) blast
  qed
  show "fst ` set permissionSeeds \<subseteq> role_grants roleSuperAdmin t'"
    using grant [of "''super_admin''" _ ?names] by (auto simp: roleSuperAdmin_def xs_def)
  have "set operatorPermissions \<subseteq> set ?names" by (simp add: operatorPermissions_def permissionSeeds_def)
  then show "set operatorPermissions \<subseteq> role_grants roleOperator t'"
    using grant [of "''operator''" _ operatorPermissions] by (auto simp: roleOperator_def xs_def)
qed

text \<open>A second run finds everything in place.\<close>

lemma insert_roles_skip:
  "\<forall>r \<in> set rs. \<exists>x \<in> set (roles t). role_Slug x = role_Slug r \<Longrightarrow>
   insert_roles now rs t = (Inr (), t\<lparr>roles_seq := roles_seq t + int (length rs)\<rparr>)"
  by (induction rs arbitrary: t) (simp_all add: Let_def algebra_simps)

lemma insert_permissions_skip:
  "\<forall>p \<in> set ps. \<exists>x \<in> set (permissions t). perm_Name x = perm_Name p \<Longrightarrow>
   insert_permissions now ps t = t\<lparr>permissions_seq := permissions_seq t + int (length ps)\<rparr>"
  by (induction ps arbitrary: t) (simp_all add: Let_def algebra_simps)

lemma insert_role_permissions_skip:
  "set xs \<subseteq> pairs (role_permissions t) \<Longrightarrow> insert_role_permissions now xs t = t"
proof (induction xs)
  case (Cons a xs)
  moreover obtain x where "x \<in> set (role_permissions t)" "a = (rp_RoleID x, rp_PermissionID x)"
    using Cons.prems by (auto simp: pairs_def)
  ultimately show ?case by auto
qed simp

lemma defaults_again:
  assumes "sql_EnsureRBACDefaults now t = (Inr (), t')"
  shows "\<exists>m n. sql_EnsureRBACDefaults now' t' = (Inr (), t'\<lparr>roles_seq := m, permissions_seq := n\<rparr>)"
proof -
  let ?names = "map fst permissionSeeds"
  let ?seed = "\<lambda>(n, d). \<lparr>perm_ID = 0, perm_Name = n, perm_Description = d, perm_CreatedAt = 0, perm_UpdatedAt = 0\<rparr>"
  let ?R = "\<lambda>t. ids_by role_Slug role_ID (filter (\<lambda>r. role_Slug r \<in> {''super_admin'', ''operator''}) (roles t))"
  let ?P = "\<lambda>t. ids_by perm_Name perm_ID (filter (\<lambda>p. perm_Name p \<in> set ?names) (permissions t))"
  let ?xs = "\<lambda>t. granted_pairs (?R t) (?P t) ''super_admin'' ?names @ granted_pairs (?R t) (?P t) ''operator'' operatorPermissions"
  obtain t1 where t1: "insert_roles now default_roles t = (Inr (), t1)"
    using assms by (auto simp: sql_EnsureRBACDefaults_def split: prod.splits sum.splits)
  define t2 where "t2 = insert_permissions now (map ?seed permissionSeeds) t1"
  have t': "t' = insert_role_permissions now (?xs t2) t2"
    using assms t1 by (simp add: sql_EnsureRBACDefaults_def Let_def t2_def)
  have same: "roles t' = roles t2" "permissions t' = permissions t2" "roles t2 = roles t1"
    using insert_role_permissions_ok insert_permissions_ok by (simp_all add: t' t2_def)
  have skip1: "insert_roles now' default_roles t' = (Inr (), t'\<lparr>roles_seq := roles_seq t' + int (length default_roles)\<rparr>)"
    using insert_roles_ok [OF t1] same by (intro insert_roles_skip) simp
  have skip2: "insert_permissions now' (map ?seed permissionSeeds) (t'\<lparr>roles_seq := m\<rparr>) =
      t'\<lparr>roles_seq := m, permissions_seq := permissions_seq t' + int (length permissionSeeds)\<rparr>" for m
    using insert_permissions_ok [of "map ?seed permissionSeeds" now t1] same
    by (subst insert_permissions_skip) (simp_all add: t2_def)
  have "set (?xs t2) \<subseteq> pairs (role_permissions t')" unfolding t' by (simp add: insert_role_permissions_ok)
  then have skip3: "insert_role_permissions now' (?xs t2) (t'\<lparr>roles_seq := m, permissions_seq := n\<rparr>) =
      t'\<lparr>roles_seq := m, permissions_seq := n\<rparr>" for m n
    by (intro insert_role_permissions_skip) simp
  have fields: "roles (t'\<lparr>roles_seq := m, permissions_seq := n\<rparr>) = roles t2"
    "permissions (t'\<lparr>roles_seq := m, permissions_seq := n\<rparr>) = permissions t2" for m n
    using same by simp_all
  show ?thesis
    unfolding sql_EnsureRBACDefaults_def Let_def skip1 prod.case sum.case skip2 fields skip3 by blast
qed

text \<open>A user with a role has the permissions granted to it.\<close>

lemma role_grants_user:
  assumes "r \<in> set (roles t)" "role_Slug r = slug" "roles_ok t"
    "\<exists>x \<in> set (user_roles t). ur_UserID x = i \<and> ur_RoleID x = role_ID r"
  shows "role_grants slug t \<subseteq> set (user_permission_names i t)"
proof
  fix n assume "n \<in> role_grants slug t"
  then obtain p r' x where *: "n = perm_Name p" "p \<in> set (permissions t)" "r' \<in> set (roles t)"
    "x \<in> set (role_permissions t)" "role_Slug r' = slug" "rp_RoleID x = role_ID r'" "rp_PermissionID x = perm_ID p"
    by (auto simp: role_grants_def)
  have "r' = r" using assms(1-3) *(3,5) by (auto simp: roles_ok_def distinct_map inj_on_def)
  with * assms(4) show "n \<in> set (user_permission_names i t)"
    by (force simp: user_permission_names_def)
qed

section \<open>Password change and bootstrap\<close>

definition password_changed :: "User \<Rightarrow> string \<Rightarrow> time \<Rightarrow> tables \<Rightarrow> tables" where
  "password_changed u h now t = snd (sql_UpdateLastLoginAt (user_ID u) (session_time u now) now
     (snd (sql_UpdatePasswordHash (user_ID u) h now t)))"

lemma run_ChangePassword:
  assumes "libs_ok (as_env s)" "sched w = []" "0 < clock w" "find_user i (tbl w) = Some u"
    "ae_compare (as_env s) (user_PasswordHash u) (cpr_CurrentPassword req)"
    "isStrongPassword (TrimSpace (cpr_NewPassword req))" "cpr_CurrentPassword req \<noteq> TrimSpace (cpr_NewPassword req)"
    "ae_generate (as_env s) (drawn w) (TrimSpace (cpr_NewPassword req)) = Inr h"
  shows "\<exists>v u'. run_state (ChangePassword s i req) w = (Inr v, w\<lparr>drawn := drawn w + 3,
      tbl := resolved s i (clock w) (password_changed u h (clock w) (tbl w))\<rparr>) \<and>
    user_ID u' = i \<and> user_Username u' = user_Username u \<and>
    opened s v (clock w) u' (rbac_of s i (resolved s i (clock w) (password_changed u h (clock w) (tbl w))))
      False (session_time u (clock w))"
proof -
  let ?t = "password_changed u h (clock w) (tbl w)" and ?si = "session_time u (clock w)"
  have id: "user_ID u = i" using find_user_in [OF assms(4)] by simp
  have pos: "0 < ?si" using session_time_bounds(1) [of "clock w" u] assms(3) by simp
  define u' where "u' = u\<lparr>user_PasswordHash := h, user_LastLoginAt := Some ?si\<rparr>"
  define w' where "w' = w\<lparr>drawn := drawn w + 1, tbl := resolved s i (clock w) ?t\<rparr>"
  let ?r = "rbac_of s i (resolved s i (clock w) ?t)"
  have found: "find_user (user_ID u') ?t \<noteq> None"
    using assms(4) id by (simp add: password_changed_def u'_def)
  obtain v where v: "run_state (call_as ErrTokenGenerate (generateTokenPair s u' (fst ?r) (snd ?r) False ?si)
        (\<lambda>pair. ret (Inr (login_response u' (fst ?r) (snd ?r) False pair)))) w' = (Inr v, w'\<lparr>drawn := drawn w' + 2\<rparr>)"
    "opened s v (clock w') u' ?r False ?si"
    using run_open [OF assms(1) pos, of u' "fst ?r" "snd ?r" False w'] by auto
  have time: "run_state (nextSessionTime (user_LastLoginAt u)) x = (session_time u (clock x), x)" for x
    by (simp add: run_nextSessionTime session_time_def split: option.split)
  have rbac: "run_state (resolveUserRBAC s u') (w\<lparr>drawn := drawn w + 1, tbl := ?t\<rparr>) = (Inr ?r, w')"
    using run_resolve [of "w\<lparr>drawn := drawn w + 1, tbl := ?t\<rparr>" u' s] assms(2) found id
    by (simp add: w'_def u'_def)
  have "run_state (ChangePassword s i req) w = (Inr v, w'\<lparr>drawn := drawn w' + 2\<rparr>)"
    using assms(2,4-8) id v(1) rbac
    by (simp add: ChangePassword_def run_call_as [of ErrInternal] run_users time split_beta Let_def
        GenerateFromPassword_def run_local password_changed_def u'_def)
  with v(2) id show ?thesis by (intro exI [of _ v] exI [of _ u']) (simp add: u'_def w'_def)
qed

text \<open>The configured passwords that the bootstrap takes: in production only strong ones.\<close>

definition accepted_password :: "authService \<Rightarrow> bool" where
  "accepted_password s = (TrimSpace (ac_DefaultAdminPassword (as_cfg s)) \<noteq> [] \<and>
     (isProductionEnv (ae_lib (as_env s)) (ac_AppEnv (as_cfg s)) \<longrightarrow>
        isStrongPassword (TrimSpace (ac_DefaultAdminPassword (as_cfg s)))))"

lemma strong_password_accepted:
  "isStrongPassword (ac_DefaultAdminPassword (as_cfg s)) \<Longrightarrow> accepted_password s"
  by (auto simp: accepted_password_def isStrongPassword_spec)

lemma run_EnsureDefaultAdmin_unhashed:
  assumes "sched w = []" "users (tbl w) = []" "ac_BootstrapAdmin (as_cfg s)"
    "TrimSpace (ac_DefaultAdminUsername (as_cfg s)) \<noteq> []" "TrimSpace (ac_DefaultAdminEmail (as_cfg s)) \<noteq> []"
    "accepted_password s" "ae_generate (as_env s) (drawn w) (TrimSpace (ac_DefaultAdminPassword (as_cfg s))) = Inl err"
    "sql_EnsureRBACDefaults (clock w) (tbl w) = (Inr (), t1)"
  shows "run_state (EnsureDefaultAdmin s) w =
      (Inl (wrapAs ErrBootstrapAdminFail err), w\<lparr>tbl := t1, drawn := drawn w + 1\<rparr>) \<and> users t1 = []"
proof -
  have none: "users t1 = []" using defaults_users [of "clock w" "tbl w"] assms(2,8) by simp
  have pw: "TrimSpace (ac_DefaultAdminPassword (as_cfg s)) \<noteq> []"
    "\<not> (isProductionEnv (ae_lib (as_env s)) (ac_AppEnv (as_cfg s)) \<and>
        \<not> isStrongPassword (TrimSpace (ac_DefaultAdminPassword (as_cfg s))))"
    using assms(6) by (auto simp: accepted_password_def)
  show ?thesis
    using assms(1,3,4,5,7,8) none pw
    by (auto simp: EnsureDefaultAdmin_def auth_run resolveBootstrapPassword_def GenerateFromPassword_def Let_def)
qed

lemma run_EnsureDefaultAdmin:
  assumes "sched w = []" "user_inv (tbl w)" "users (tbl w) = []" "ac_BootstrapAdmin (as_cfg s)"
    "TrimSpace (ac_DefaultAdminUsername (as_cfg s)) \<noteq> []" "TrimSpace (ac_DefaultAdminEmail (as_cfg s)) \<noteq> []"
    "accepted_password s" "ae_generate (as_env s) (drawn w) (TrimSpace (ac_DefaultAdminPassword (as_cfg s))) = Inr h"
    "sql_EnsureRBACDefaults (clock w) (tbl w) = (Inr (), t1)"
  shows "\<exists>w' u. run_state (EnsureDefaultAdmin s) w = (Inr (), w') \<and> sched w' = [] \<and> clock w' = clock w \<and>
    user_inv (tbl w') \<and> users (tbl w') = [u] \<and> user_Username u = ac_DefaultAdminUsername (as_cfg s) \<and>
    user_PasswordHash u = h \<and> user_Status u = 1 \<and> user_LastLoginAt u = None \<and>
    fst ` set permissionSeeds \<subseteq> set (user_permission_names (user_ID u) (tbl w')) \<and>
    roleSuperAdmin \<in> set (user_role_slugs (user_ID u) (tbl w'))"
proof -
  let ?row = "\<lparr>user_ID = users_seq t1, user_Username = ac_DefaultAdminUsername (as_cfg s),
    user_Email = ac_DefaultAdminEmail (as_cfg s), user_PasswordHash = h, user_Status = 1,
    user_LastLoginAt = None, user_CreatedAt = clock w, user_UpdatedAt = clock w, user_DeletedAt = None\<rparr>"
  let ?new = "\<lparr>user_ID = 0, user_Username = ac_DefaultAdminUsername (as_cfg s),
    user_Email = ac_DefaultAdminEmail (as_cfg s), user_PasswordHash = h, user_Status = 1,
    user_LastLoginAt = None, user_CreatedAt = 0, user_UpdatedAt = 0, user_DeletedAt = None\<rparr>"
  define t2 where "t2 = snd (sql_CreateUser ?new (clock w) t1)"
  have inv1: "user_inv t1" using user_inv_defaults [OF assms(2), of "clock w"] assms(9) by simp
  have none: "users t1 = []" using defaults_users [of "clock w" "tbl w"] assms(3,9) by simp
  then have t2: "t2 = t1\<lparr>users_seq := users_seq t1 + 1, users := [?row]\<rparr>"
    "sql_CreateUser ?new (clock w) t1 = (Inr ?row, t2)"
    by (simp_all add: t2_def sql_CreateUser_def Let_def)
  have inv2: "user_inv t2" unfolding t2_def by (rule user_inv_create [OF inv1])
  have grants: "fst ` set permissionSeeds \<subseteq> role_grants roleSuperAdmin t2"
    using defaults_grant(1) [OF assms(2,9)] by (simp add: role_grants_def t2)
  then have "role_grants roleSuperAdmin t2 \<noteq> {}" by (auto simp: permissionSeeds_def)
  then obtain r where r: "r \<in> set (roles t2)" "role_Slug r = roleSuperAdmin" by (auto simp: role_grants_def)
  then obtain r' where r': "find_slug roleSuperAdmin t2 = Some r'"
    by (cases "find_slug roleSuperAdmin t2") (auto simp: find_slug_def first_where_None)
  define t3 where "t3 = snd (sql_AddUserRole (users_seq t1) (role_ID r') (clock w) t2)"
  have "\<not> (\<exists>x \<in> set (user_roles t2). ur_UserID x = users_seq t1)"
    using inv1 none by (auto simp: user_inv_defs t2)
  then have add: "sql_AddUserRole (users_seq t1) (role_ID r') (clock w) t2 = (Inr (), t3)"
    "\<exists>x \<in> set (user_roles t3). ur_UserID x = users_seq t1 \<and> ur_RoleID x = role_ID r'"
    "roles t3 = roles t2" "users t3 = [?row]" "permissions t3 = permissions t2" "role_permissions t3 = role_permissions t2"
    using find_slug_in [OF r'] by (auto simp: t3_def sql_AddUserRole_def t2)
  have inv3: "user_inv t3" unfolding t3_def by (rule user_inv_add_role [OF inv2])
  have "role_grants roleSuperAdmin t3 \<subseteq> set (user_permission_names (users_seq t1) t3)"
    using find_slug_in [OF r'] add inv3 by (intro role_grants_user) (auto simp: user_inv_def)
  then have perms: "fst ` set permissionSeeds \<subseteq> set (user_permission_names (users_seq t1) t3)"
    using grants add(3,5,6) by (simp add: role_grants_def)
  have slug: "roleSuperAdmin \<in> set (user_role_slugs (users_seq t1) t3)"
    using add(2,3) find_slug_in [OF r'] by (force simp: user_role_slugs_def)
  have pw: "TrimSpace (ac_DefaultAdminPassword (as_cfg s)) \<noteq> []"
    "\<not> (isProductionEnv (ae_lib (as_env s)) (ac_AppEnv (as_cfg s)) \<and>
        \<not> isStrongPassword (TrimSpace (ac_DefaultAdminPassword (as_cfg s))))"
    using assms(7) by (auto simp: accepted_password_def)
  have "run_state (EnsureDefaultAdmin s) w = (Inr (), w\<lparr>tbl := t3, drawn := drawn w + 1\<rparr>)"
    using assms(1,4,5,6,8,9) none pw r' add(1)
    by (simp add: EnsureDefaultAdmin_def auth_run resolveBootstrapPassword_def GenerateFromPassword_def Let_def t2(2))
  with inv3 add(4) perms slug assms(1) show ?thesis
    by (intro exI [of _ "w\<lparr>tbl := t3, drawn := drawn w + 1\<rparr>"] exI [of _ ?row]) simp
qed

end
