(* ===== verification/AuthExample.thy ===== *)
theory AuthExample
  imports AuthRoles
begin

text \<open>
  A concrete instance for the properties of authentication: small stand-ins for the libraries
  (a token is its claims written out behind the secret, a hash is the password behind a
  letter) that meet the hypotheses, a service, and a user in its table.
\<close>

section \<open>The example libraries\<close>

fun enc_nat :: "nat \<Rightarrow> string" where
  "enc_nat 0 = ''0''"
| "enc_nat (Suc n) = CHR ''1'' # enc_nat n"

fun dec_nat :: "string \<Rightarrow> nat \<times> string" where
  "dec_nat [] = (0, [])"
| "dec_nat (c # s) = (if c = CHR ''1'' then map_prod Suc id (dec_nat s) else (0, s))"

lemma dec_enc_nat [simp]: "dec_nat (enc_nat n @ r) = (n, r)"
  by (induction n) auto

definition enc_int :: "int \<Rightarrow> string" where
  "enc_int i = (if i < 0 then CHR ''-'' else CHR ''+'') # enc_nat (nat \<bar>i\<bar>)"

definition dec_int :: "string \<Rightarrow> int \<times> string" where
  "dec_int s = (case dec_nat (tl s) of (n, r) \<Rightarrow> (if hd s = CHR ''-'' then - int n else int n, r))"

lemma dec_enc_int [simp]: "dec_int (enc_int i @ r) = (i, r)"
  by (simp add: dec_int_def enc_int_def)

definition enc_str :: "string \<Rightarrow> string" where "enc_str s = enc_nat (length s) @ s"

definition dec_str :: "string \<Rightarrow> string \<times> string" where
  "dec_str s = (case dec_nat s of (n, r) \<Rightarrow> (take n r, drop n r))"

lemma dec_enc_str [simp]: "dec_str (enc_str s @ r) = (s, r)"
  by (simp add: dec_str_def enc_str_def)

fun dec_many :: "nat \<Rightarrow> string \<Rightarrow> string list \<times> string" where
  "dec_many 0 s = ([], s)"
| "dec_many (Suc n) s = (case dec_str s of (x, r) \<Rightarrow> map_prod (Cons x) id (dec_many n r))"

definition enc_strs :: "string list \<Rightarrow> string" where
  "enc_strs ss = enc_nat (length ss) @ concat (map enc_str ss)"

definition dec_strs :: "string \<Rightarrow> string list \<times> string" where
  "dec_strs s = (case dec_nat s of (n, r) \<Rightarrow> dec_many n r)"

lemma dec_enc_strs [simp]: "dec_strs (enc_strs ss @ r) = (ss, r)"
proof -
  have "dec_many (length ss) (concat (map enc_str ss) @ r) = (ss, r)"
    by (induction ss) (auto simp: append_assoc)
  then show ?thesis by (simp add: dec_strs_def enc_strs_def)
qed

definition enc_claims :: "jwtClaims \<Rightarrow> string" where
  "enc_claims c = enc_int (jc_UserID c) @ enc_str (jc_Username c) @ enc_strs (jc_Roles c) @
     enc_strs (jc_Permissions c) @ enc_int (if jc_MustChangePassword c then 1 else 0) @
     enc_int (jc_SessionIssuedAt c) @ enc_str (jc_TokenUse c) @ enc_str (jc_RBACChecksum c) @
     enc_int (jc_ExpiresAt c) @ enc_int (jc_IssuedAt c) @ enc_str (jc_Issuer c) @
     enc_str (jc_Subject c) @ enc_str (jc_ID c) @ ''.''"

definition dec_claims :: "string \<Rightarrow> jwtClaims" where
  "dec_claims s0 =
    (case dec_int s0 of (i, s1) \<Rightarrow> case dec_str s1 of (n, s2) \<Rightarrow> case dec_strs s2 of (rs, s3) \<Rightarrow>
     case dec_strs s3 of (ps, s4) \<Rightarrow> case dec_int s4 of (m, s5) \<Rightarrow> case dec_int s5 of (si, s6) \<Rightarrow>
     case dec_str s6 of (u, s7) \<Rightarrow> case dec_str s7 of (ck, s8) \<Rightarrow> case dec_int s8 of (e, s9) \<Rightarrow>
     case dec_int s9 of (ia, s10) \<Rightarrow> case dec_str s10 of (iss, s11) \<Rightarrow>
     case dec_str s11 of (sub, s12) \<Rightarrow> case dec_str s12 of (jid, _) \<Rightarrow>
       \<lparr>jc_UserID = i, jc_Username = n, jc_Roles = rs, jc_Permissions = ps,
        jc_MustChangePassword = (m = 1), jc_SessionIssuedAt = si, jc_TokenUse = u,
        jc_RBACChecksum = ck, jc_ExpiresAt = e, jc_IssuedAt = ia, jc_Issuer = iss,
        jc_Subject = sub, jc_ID = jid\<rparr>)"

lemma dec_enc_claims [simp]: "dec_claims (enc_claims c) = c"
  by (cases c) (simp add: dec_claims_def enc_claims_def)

definition ex_auth_env :: auth_env where
  "ex_auth_env = \<lparr>ae_lib = \<lparr>lower_uni = id, fold_uni = (=), quote = id\<rparr>,
     ae_compare = (\<lambda>h p. h = CHR ''h'' # p), 
     ae_generate = (\<lambda>n p. if length p \<le> 72 then Inr (CHR ''h'' # p) else Inl (Lib ''password length exceeds 72 bytes'')),
     ae_random = (\<lambda>n k. Inr (replicate k (CHR ''r''))), ae_sha256hex = (\<lambda>x. replicate 64 (CHR ''0'')),
     ae_sign = (\<lambda>k c. Inr (enc_str k @ enc_claims c)),
     ae_parse = (\<lambda>k now tok. case dec_str tok of (k', r) \<Rightarrow>
       if k' = k \<and> now < jc_ExpiresAt (dec_claims r) then Some (dec_claims r) else None),
     ae_collate = id\<rparr>"

lemma ex_token_trim: "TrimSpace (enc_str k @ enc_claims c) = enc_str k @ enc_claims c"
proof (rule TrimSpace_plain)
  have "hd (enc_nat n @ r) \<in> {CHR ''0'', CHR ''1''}" for n r by (cases n) auto
  then have "hd (enc_str k @ enc_claims c) \<in> {CHR ''0'', CHR ''1''}" by (simp add: enc_str_def)
  then show "byte (hd (enc_str k @ enc_claims c)) \<in> {33..<127}" by auto
qed (simp_all add: enc_claims_def)

lemma ex_libs: "libs_ok ex_auth_env" "bcrypt_ok ex_auth_env"
  by (simp_all add: libs_ok_def random_ok_def jwt_ok_def sha_ok_def collate_ok_def bcrypt_ok_def
      ex_auth_env_def is_digit_def ex_token_trim)

lemma ex_env_simps [simp]:
  "ae_compare ex_auth_env h p = (h = CHR ''h'' # p)" 
  "ae_generate ex_auth_env n p =
     (if length p \<le> 72 then Inr (CHR ''h'' # p) else Inl (Lib ''password length exceeds 72 bytes''))"
  by (simp_all add: ex_auth_env_def)

definition ex_auth :: authService where
  "ex_auth = NewAuthService ex_auth_env
     \<lparr>ac_AppEnv = ''production'', ac_JWTSecret = ''k'', ac_JWTIssuer = ''snowpanel'', ac_JWTExpire = 0,
      ac_JWTRefreshExpire = 0, ac_LoginAttemptStore = [], ac_LoginAttemptPrefix = [],
      ac_LoginMaxFailures = 0, ac_LoginFailureWindow = 0, ac_LoginLockDuration = 0,
      ac_BootstrapAdmin = True, ac_DefaultAdminUsername = ''admin'', ac_DefaultAdminEmail = ''a@b'',
      ac_DefaultAdminPassword = ''Correct-Horse-1''\<rparr>"

lemma ex_auth_simps [simp]:
  "as_env ex_auth = ex_auth_env" "ac_JWTExpire (as_cfg ex_auth) = 24 * Hour"
  "ac_JWTRefreshExpire (as_cfg ex_auth) = 7 * 24 * Hour" "ac_BootstrapAdmin (as_cfg ex_auth) = True"
  "ac_DefaultAdminUsername (as_cfg ex_auth) = ''admin''" "ac_DefaultAdminEmail (as_cfg ex_auth) = ''a@b''"
  "ac_DefaultAdminPassword (as_cfg ex_auth) = ''Correct-Horse-1''" "ac_JWTSecret (as_cfg ex_auth) = ''k''"
  "ac_JWTIssuer (as_cfg ex_auth) = ''snowpanel''"
  by (simp_all add: ex_auth_def NewAuthService_def Let_def)

definition ex_user :: User where
  "ex_user = \<lparr>user_ID = 7, user_Username = ''bob'', user_Email = ''b@b'', user_PasswordHash = ''hpw'',
     user_Status = 1, user_LastLoginAt = Some 2000, user_CreatedAt = 0, user_UpdatedAt = 0,
     user_DeletedAt = None\<rparr>"

definition ex_auth_tables :: "User \<Rightarrow> tables" where
  "ex_auth_tables u = empty_tables\<lparr>users := [u], users_seq := 8,
     roles := [\<lparr>role_ID = 1, role_Name = ''Op'', role_Slug = ''op'', role_Description = [],
       role_CreatedAt = 0, role_UpdatedAt = 0\<rparr>], roles_seq := 2,
     permissions := [\<lparr>perm_ID = 1, perm_Name = ''files.read'', perm_Description = [],
       perm_CreatedAt = 0, perm_UpdatedAt = 0\<rparr>], permissions_seq := 2,
     role_permissions := [\<lparr>rp_RoleID = 1, rp_PermissionID = 1, rp_CreatedAt = 0\<rparr>],
     user_roles := [\<lparr>ur_UserID = 7, ur_RoleID = 1, ur_CreatedAt = 0\<rparr>]\<rparr>"

definition ex_auth_world :: "User \<Rightarrow> time \<Rightarrow> world" where
  "ex_auth_world u now = init_world\<lparr>tbl := ex_auth_tables u, clock := now\<rparr>"

lemma ex_auth_world_simps [simp]:
  "sched (ex_auth_world u now) = []" "clock (ex_auth_world u now) = now" "drawn (ex_auth_world u now) = 0"
  "tbl (ex_auth_world u now) = ex_auth_tables u"
  by (simp_all add: ex_auth_world_def init_world_def)

lemma ex_user_inv: "user_ID u = 7 \<Longrightarrow> user_Status u \<in> {0, 1, 2} \<Longrightarrow> user_inv (ex_auth_tables u)"
  by (simp add: user_inv_defs ids_ok_def ex_auth_tables_def empty_tables_def)

lemma ex_find [simp]:
  "find_user i (ex_auth_tables u) = (if user_ID u = i then Some u else None)"
  "find_username n (ex_auth_tables u) = (if user_Username u = n then Some u else None)"
  by (simp_all add: find_user_def find_username_def ex_auth_tables_def empty_tables_def)

lemma ex_rbac [simp]:
  "rbac_of ex_auth 7 (ex_auth_tables u) = ([''op''], [''files.read''])"
  "resolved ex_auth 7 now (ex_auth_tables u) = ex_auth_tables u"
  by (simp_all add: resolved_def rbac_of_def ex_auth_env_def user_role_slugs_def user_permission_names_def
      ex_auth_tables_def empty_tables_def)

lemma ex_user_simps [simp]:
  "user_ID ex_user = 7" "user_Username ex_user = ''bob''" "user_Status ex_user = 1"
  "user_LastLoginAt ex_user = Some 2000" "user_PasswordHash ex_user = ''hpw''"
  by (simp_all add: ex_user_def)

lemma ex_not_admin: "\<not> mustChangePassword ex_auth ex_user"
proof -
  have "TrimSpace ''bob'' = ''bob''" "TrimSpace ''admin'' = ''admin''" by code_simp+
  then show ?thesis by (simp add: mustChangePassword_def lower_byte_def)
qed

end
