(* ===== verification/AuthTheorems.thy ===== *)
theory AuthTheorems
  imports AuthExample
begin

text \<open>
  The properties of authentication: sessions, revocation, roles, the gates of the HTTP
  interface, and the bootstrap administrator, each with a concrete instance.
\<close>

section \<open>Sessions\<close>

text \<open>
  The invariant of the user and role tables (unique ids, names and e-mail addresses,
  statuses and references as the schema demands) is kept by every sequence of operations of
  the authentication service, with calls failing anywhere and with any statements of the
  repository, or an operator switching statuses, in between.
\<close>

theorem user_table_invariant:
  assumes "user_inv (tbl w)" "rely user_step w"
  shows "user_inv (tbl (snd (run_state (run_auth_ops s ops) w)))"
  by (rule steps_invariant [OF keepsD [OF user_steps.any_ops] assms(2)]) (auto intro: user_inv_step assms(1))

theorem user_table_invariant_witness:
  "user_inv (tbl (snd (run_state (run_auth_ops ex_auth [OpEnsureDefaultAdmin,
     OpLogin \<lparr>lr_Username = ''admin'', lr_Password = ''Correct-Horse-1''\<rparr>])
     (init_world\<lparr>sched := [\<lparr>env = (\<lambda>t. snd (sql_EnsureRBACDefaults 0 t)), tick = 1, fault = Some (Lib ''timeout'')\<rparr>]\<rparr>))))"
  by (rule user_table_invariant)
    (auto simp: init_world_def user_inv_empty rely_def intro!: r_into_rtranclp user_step.defaults)

text \<open>
  C6. A login with the right password of an active user (other than the administrator's first)
  answers an access and a refresh token: the access token is read back as the user's session,
  carries the user's current roles and permissions and passes the session test; the refresh
  token is not accepted as an access token.
\<close>

theorem login_opens_session:
  assumes "libs_ok (as_env s)" "sched w = []" "user_inv (tbl w)" "0 < clock w"
    "find_username (lr_Username req) (tbl w) = Some u"
    "ae_compare (as_env s) (user_PasswordHash u) (lr_Password req)" "user_Status u = 1"
    "\<not> mustChangePassword s u" "Second \<le> ac_JWTExpire (as_cfg s)" "Second \<le> ac_JWTRefreshExpire (as_cfg s)"
  shows "\<exists>v w' c. run_state (Login s req) w = (Inr v, w') \<and>
    run_state (ParseToken s (lres_AccessToken v)) w' = (Inr c, w') \<and> tc_UserID c = user_ID u \<and>
    (tc_Roles c, tc_Permissions c) = rbac_of s (user_ID u) (tbl w') \<and>
    fst (run_state (ValidateSession s c) w') = Inr () \<and>
    run_state (ParseToken s (lres_RefreshToken v)) w' = (Inl ErrTokenParse, w')"
proof -
  let ?t = "resolved s (user_ID u) (clock w) (tbl w)"
  obtain v u' where v: "run_state (Login s req) w = (Inr v, w\<lparr>tbl := logged_in s u (clock w) (tbl w), drawn := drawn w + 2\<rparr>)"
    "user_ID u' = user_ID u" "opened s v (clock w) u' (rbac_of s (user_ID u) ?t) False (session_time u (clock w))"
    using run_Login [OF assms(1-7)] assms(8) by auto
  let ?w = "w\<lparr>tbl := logged_in s u (clock w) (tbl w), drawn := drawn w + 2\<rparr>"
  let ?c = "token_claims s u' (rbac_of s (user_ID u) ?t) False tokenUseAccess (session_time u (clock w))"
  have id: "find_user (user_ID u) (tbl w) = Some u" by (rule find_username_id [OF assms(3,5)])
  have same: "rbac_of s (user_ID u) (logged_in s u (clock w) (tbl w)) = rbac_of s (user_ID u) ?t"
    by (simp add: logged_in_def password_changed_rbac)
  have again: "resolved s (user_ID u) (clock w) (logged_in s u (clock w) (tbl w)) = logged_in s u (clock w) (tbl w)"
    using resolved_idem [of s "user_ID u" "tbl w" "clock w" "clock w"] assms(1) id
    by (simp add: logged_in_def libs_ok_def resolved_last_login)
  have "session_live s ?c (clock w) (tbl ?w)"
    using assms(1,4,7) id v(2) session_time_bounds(1) [of "clock w" u] timestamptz_le [of "session_time u (clock w)"]
    by (intro fresh_session_live [where i = "user_ID u" and u = "u\<lparr>user_LastLoginAt := Some (timestamptz (session_time u (clock w))), user_UpdatedAt := clock w\<rparr>"])
      (simp_all add: again same, simp_all add: logged_in_def)
  then have "fst (run_state (ValidateSession s ?c) ?w) = Inr ()"
    using assms(2) by (auto simp: session_live_def run_ValidateSession token_claims_def)
  moreover have "clock w < NewNumericDate (clock w + ac_JWTExpire (as_cfg s))"
    "clock w < NewNumericDate (clock w + ac_JWTRefreshExpire (as_cfg s))"
    using assms(9,10) by (simp_all add: NewNumericDate_later)
  ultimately show ?thesis
    using v opened_tokens [OF assms(1) v(3), of ?w] same
    by (intro exI [of _ v] exI [of _ ?w] exI [of _ ?c]) (simp add: token_claims_def)
qed

theorem login_opens_session_witness:
  "\<exists>v w' c. run_state (Login ex_auth \<lparr>lr_Username = ''bob'', lr_Password = ''pw''\<rparr>) (ex_auth_world ex_user 5000) = (Inr v, w') \<and>
     run_state (ParseToken ex_auth (lres_AccessToken v)) w' = (Inr c, w') \<and> tc_UserID c = 7 \<and>
     (tc_Roles c, tc_Permissions c) = rbac_of ex_auth 7 (tbl w') \<and>
     fst (run_state (ValidateSession ex_auth c) w') = Inr () \<and>
     run_state (ParseToken ex_auth (lres_RefreshToken v)) w' = (Inl ErrTokenParse, w')"
  using login_opens_session [of ex_auth "ex_auth_world ex_user 5000" "\<lparr>lr_Username = ''bob'', lr_Password = ''pw''\<rparr>" ex_user]
  by (simp add: ex_libs ex_user_inv ex_not_admin duration_defs)

text \<open>
  C7. A refresh rotates both tokens. A refresh token of a first login (which must change its
  password) is refused and nothing happens. Any other whose session is live is answered with
  new tokens: the access token is read back with the user's current roles and permissions, the
  refresh token as a refresh token, both of a session that begins now and passes the session
  test, while every token of the old session (issued a microsecond or more before) fails it
  and presenting the old refresh token again is answered with \<^verbatim>\<open>ErrSessionExpired\<close>. Undisturbed,
  with token lifetimes of at least a second.
\<close>

theorem refresh_rotates:
  assumes "libs_ok (as_env s)" "sched w = []" "0 < clock w"
    "fst (run_state (parseTokenWithUse s tok tokenUseRefresh) w) = Inr c"
    "find_user (tc_UserID c) (tbl w) = Some u" "session_live s c (clock w) (tbl w)"
    "tc_SessionIssuedAt c + 1000 \<le> clock w"
    "Second \<le> ac_JWTExpire (as_cfg s)" "Second \<le> ac_JWTRefreshExpire (as_cfg s)"
  shows "if tc_MustChangePassword c then run_state (Refresh s tok) w = (Inl ErrPasswordChangeNeed, w)
    else \<exists>v w' a r. run_state (Refresh s tok) w = (Inr v, w') \<and>
      run_state (ParseToken s (lres_AccessToken v)) w' = (Inr a, w') \<and>
      run_state (parseTokenWithUse s (lres_RefreshToken v) tokenUseRefresh) w' = (Inr r, w') \<and>
      (\<forall>d \<in> {a, r}. tc_UserID d = tc_UserID c \<and> \<not> tc_MustChangePassword d \<and> clock w \<le> tc_SessionIssuedAt d \<and>
        (tc_Roles d, tc_Permissions d) = rbac_of s (tc_UserID c) (tbl w') \<and>
        fst (run_state (ValidateSession s d) w') = Inr ()) \<and>
      (\<forall>d. tc_UserID d = tc_UserID c \<and> tc_SessionIssuedAt d \<le> tc_SessionIssuedAt c \<longrightarrow>
        fst (run_state (ValidateSession s d) w') \<noteq> Inr ()) \<and>
      fst (run_state (Refresh s tok) w') = Inl ErrSessionExpired"
proof -
  have parsed: "run_state (parseTokenWithUse s tok tokenUseRefresh) w = (Inr c, w)"
    using run_parse_pure [OF assms(4)] by simp
  show ?thesis
  proof (cases "tc_MustChangePassword c")
    case True
    with parsed show ?thesis by (simp add: Refresh_def run_call)
  next
    case False
    have id: "user_ID u = tc_UserID c" and active: "user_Status u = 1"
      using find_user_in [OF assms(5)] assms(5,6) by (auto simp: session_live_def)
    let ?i = "tc_UserID c" and ?t = "resolved s (user_ID u) (clock w) (tbl w)"
    let ?w = "w\<lparr>tbl := logged_in s u (clock w) (tbl w), drawn := drawn w + 2\<rparr>"
    let ?u = "u\<lparr>user_LastLoginAt := Some (timestamptz (session_time u (clock w))), user_UpdatedAt := clock w\<rparr>"
    obtain v u' where v: "run_state (Refresh s tok) w = (Inr v, ?w)" "user_ID u' = user_ID u"
      "opened s v (clock w) u' (rbac_of s (user_ID u) ?t) False (session_time u (clock w))"
      using run_Refresh [OF assms(1-3) parsed False assms(5,6)] by auto
    have found: "find_user ?i (tbl ?w) = Some ?u" using assms(5) id by (simp add: logged_in_def)
    have same: "rbac_of s (user_ID u) (logged_in s u (clock w) (tbl w)) = rbac_of s (user_ID u) ?t"
      by (simp add: logged_in_def password_changed_rbac)
    have again: "resolved s (user_ID u) (clock w) (logged_in s u (clock w) (tbl w)) = logged_in s u (clock w) (tbl w)"
      using resolved_idem [of s "user_ID u" "tbl w" "clock w" "clock w"] assms(1,5) id
      by (simp add: logged_in_def libs_ok_def resolved_last_login)
    define new where "new use = token_claims s u' (rbac_of s (user_ID u) ?t) False use (session_time u (clock w))" for use
    have valid: "fst (run_state (ValidateSession s (new use)) ?w) = Inr ()" for use
    proof -
      have "session_live s (new use) (clock w) (tbl ?w)" unfolding new_def
        using assms(1,3) active id v(2) found session_time_bounds(1) [of "clock w" u]
          timestamptz_le [of "session_time u (clock w)"]
        by (intro fresh_session_live [where i = "user_ID u" and u = ?u])
          (simp_all add: again [unfolded id] same [unfolded id])
      then show ?thesis
        using assms(2) by (auto simp: session_live_def run_ValidateSession new_def token_claims_def)
    qed
    have facts: "tc_UserID (new use) = ?i" "\<not> tc_MustChangePassword (new use)" "clock w \<le> tc_SessionIssuedAt (new use)"
      "(tc_Roles (new use), tc_Permissions (new use)) = rbac_of s ?i (tbl ?w)" for use
      using id v(2) same session_time_bounds(1) [of "clock w" u] by (simp_all add: new_def)
    have late: "tc_SessionIssuedAt c < timestamptz (session_time u (clock w))"
      using assms(7) session_time_bounds(1) [of "clock w" u] by (intro timestamptz_later) simp
    have old: "fst (run_state (ValidateSession s d) ?w) \<noteq> Inr ()"
      if "tc_UserID d = ?i" "tc_SessionIssuedAt d \<le> tc_SessionIssuedAt c" for d
      using that assms(2) found late by (auto simp: run_ValidateSession [where u = ?u])
    have expired: "fst (run_state (ValidateSession s c) ?w) = Inl ErrSessionExpired"
    proof -
      have "0 < tc_SessionIssuedAt c" using assms(6) by (auto simp: session_live_def)
      with assms(2) found active late show ?thesis by (simp add: run_ValidateSession [where u = ?u])
    qed
    have reparsed: "run_state (parseTokenWithUse s tok tokenUseRefresh) ?w = (Inr c, ?w)"
      using run_parse_pure [OF assms(4), of ?w] by simp
    have refused: "fst (run_state (Refresh s tok) ?w) = Inl ErrSessionExpired"
      using reparsed expired False by (cases "run_state (ValidateSession s c) ?w") (simp add: Refresh_def run_call)
    have exp: "clock ?w < NewNumericDate (clock w + ac_JWTExpire (as_cfg s))"
      "clock ?w < NewNumericDate (clock w + ac_JWTRefreshExpire (as_cfg s))"
      using assms(8,9) by (simp_all add: NewNumericDate_later)
    note tokens = opened_tokens(1,2) [OF assms(1) v(3), of ?w, folded new_def]
    show ?thesis unfolding if_not_P [OF False]
      by (rule exI [of _ v], rule exI [of _ ?w], rule exI [of _ "new tokenUseAccess"], rule exI [of _ "new tokenUseRefresh"])
        (use v(1) tokens exp facts valid old refused in \<open>auto simp del: split_paired_All\<close>)
  qed
qed

lemma ex_bob_token:
  fixes issued :: int
  defines "c \<equiv> session_claims ex_auth ex_user ([''op''], [''files.read'']) False tokenUseRefresh (7 * 24 * Hour) issued 3000 ''t''"
  shows "clock w = 5000 \<Longrightarrow> fst (run_state (parseTokenWithUse ex_auth (enc_str ''k'' @ enc_claims c) tokenUseRefresh) w) =
    Inr (token_claims ex_auth ex_user ([''op''], [''files.read'']) False tokenUseRefresh issued)"
proof -
  have "issued_token ex_auth (enc_str ''k'' @ enc_claims c) c"
    by (simp add: issued_token_def ex_token_trim ex_auth_env_def)
  then show "clock w = 5000 \<Longrightarrow> ?thesis"
    using run_parse_issued [of ex_auth tokenUseRefresh _ ex_user "([''op''], [''files.read''])" False "7 * 24 * Hour" issued 3000 "''t''" w tokenUseRefresh]
      ex_libs unfolding c_def by (simp add: libs_ok_def NewNumericDate_def duration_defs)
qed

lemma ex_bob_live:
  "2000 \<le> issued \<Longrightarrow> session_live ex_auth (token_claims ex_auth ex_user ([''op''], [''files.read'']) mc use issued) now (ex_auth_tables ex_user)"
  by (rule fresh_session_live [of _ 7 _ ex_user]) (simp_all add: ex_libs)

theorem refresh_rotates_witness:
  "\<exists>v w' a. run_state (Refresh ex_auth (enc_str ''k'' @ enc_claims (session_claims ex_auth ex_user
        ([''op''], [''files.read'']) False tokenUseRefresh (7 * 24 * Hour) 3000 3000 ''t''))) (ex_auth_world ex_user 5000) = (Inr v, w') \<and>
     run_state (ParseToken ex_auth (lres_AccessToken v)) w' = (Inr a, w') \<and> tc_UserID a = 7 \<and>
     fst (run_state (ValidateSession ex_auth a) w') = Inr () \<and>
     fst (run_state (Refresh ex_auth (enc_str ''k'' @ enc_claims (session_claims ex_auth ex_user
        ([''op''], [''files.read'']) False tokenUseRefresh (7 * 24 * Hour) 3000 3000 ''t''))) w') = Inl ErrSessionExpired"
proof -
  let ?tok = "enc_str ''k'' @ enc_claims (session_claims ex_auth ex_user
    ([''op''], [''files.read'']) False tokenUseRefresh (7 * 24 * Hour) 3000 3000 ''t'')"
  let ?c = "token_claims ex_auth ex_user ([''op''], [''files.read'']) False tokenUseRefresh 3000"
  have "fst (run_state (parseTokenWithUse ex_auth ?tok tokenUseRefresh) (ex_auth_world ex_user 5000)) = Inr ?c"
    by (rule ex_bob_token) simp
  from refresh_rotates [OF _ _ _ this, of ex_user]
  show ?thesis by (simp add: ex_libs ex_bob_live duration_defs) blast
qed

text \<open>
  C5. What the revocation of a logout does. For an administrator who still has to change the
  first password it does nothing: the session goes on. For every other user it is final: no
  token of the user issued a microsecond or more before passes the session test again, after
  any operations of the service, with calls failing and the clock moving in any way.
\<close>

theorem logout_ends_sessions:
  assumes "sched w = []" "user_inv (tbl w)" "find_user i (tbl w) = Some u"
    "\<forall>x \<in> set later. env x = id" "tc_UserID c = i" "tc_SessionIssuedAt c + 1000 \<le> clock w"
  shows "if mustChangePassword s u then run_state (RevokeSession s i) w = (Inr (), w)
    else fst (run_state (RevokeSession s i) w) = Inr () \<and>
      fst (run_state (ValidateSession s c) (snd (run_state (run_auth_ops s ops)
        ((snd (run_state (RevokeSession s i) w))\<lparr>sched := later\<rparr>)))) \<noteq> Inr ()"
proof -
  let ?at = "session_time u (clock w)"
  let ?w = "w\<lparr>tbl := snd (sql_UpdateLastLoginAt i ?at (clock w) (tbl w)), sched := later\<rparr>"
  have id: "user_ID u = i" using find_user_in [OF assms(3)] by simp
  have "ended i (timestamptz ?at) ?w"
    using assms(3,4) id user_inv_step [OF user_step.last_login assms(2)]
    by (simp add: ended_def alone_def ended_in_def late_def)
  then have "ended i (timestamptz ?at) (snd (run_state (run_auth_ops s ops) ?w))"
    by (rule ended_stays [rotated]) (simp add: timestamptz_def)
  moreover have "tc_SessionIssuedAt c < timestamptz ?at"
    using assms(6) session_time_bounds(1) [of "clock w" u] by (intro timestamptz_later) simp
  ultimately show ?thesis
    using ended_refuses [OF _ assms(5)] run_RevokeSession [OF assms(1,3)] by simp
qed

theorem logout_ends_sessions_witness:
  "fst (run_state (ValidateSession ex_auth (token_claims ex_auth ex_user ([''op''], [''files.read'']) False tokenUseAccess 3000))
     (snd (run_state (run_auth_ops ex_auth [OpLogin \<lparr>lr_Username = ''bob'', lr_Password = ''pw''\<rparr>])
       ((snd (run_state (RevokeSession ex_auth 7) (ex_auth_world ex_user 5000)))\<lparr>sched :=
          [\<lparr>env = id, tick = - 4000, fault = None\<rparr>]\<rparr>)))) \<noteq> Inr ()"
  using logout_ends_sessions [of "ex_auth_world ex_user 5000" 7 ex_user "[\<lparr>env = id, tick = - 4000, fault = None\<rparr>]"
      "token_claims ex_auth ex_user ([''op''], [''files.read'']) False tokenUseAccess 3000" ex_auth
      "[OpLogin \<lparr>lr_Username = ''bob'', lr_Password = ''pw''\<rparr>]"]
  by (simp add: ex_user_inv ex_not_admin)

text \<open>
  The session time is kept in microseconds, so a revocation in the same microsecond as the
  login ends nothing: it succeeds, and a session opened before it still passes the test.
\<close>

theorem revocation_lost_within_microsecond:
  "\<exists>w c. user_inv (tbl w) \<and> sched w = [] \<and> tc_SessionIssuedAt c < clock w \<and>
     fst (run_state (RevokeSession ex_auth (tc_UserID c)) w) = Inr () \<and>
     fst (run_state (ValidateSession ex_auth c) (snd (run_state (RevokeSession ex_auth (tc_UserID c)) w))) = Inr ()"
proof -
  let ?c = "token_claims ex_auth ex_user ([''op''], [''files.read'']) False tokenUseAccess 2500"
  let ?w = "ex_auth_world ex_user 2600"
  let ?t = "snd (sql_UpdateLastLoginAt 7 2600 2600 (ex_auth_tables ex_user))"
  have t: "?t = ex_auth_tables (ex_user\<lparr>user_UpdatedAt := 2600\<rparr>)"
    by (simp add: sql_UpdateLastLoginAt_def ex_auth_tables_def timestamptz_def empty_tables_def ex_user_def)
  have run: "run_state (RevokeSession ex_auth 7) ?w = (Inr (), ?w\<lparr>tbl := ?t\<rparr>)"
    using run_RevokeSession [of ?w 7 ex_user ex_auth] ex_not_admin by (simp add: session_time_def)
  have "session_live ex_auth ?c 2600 ?t"
    unfolding t by (rule fresh_session_live [of _ 7 _ "ex_user\<lparr>user_UpdatedAt := 2600\<rparr>"]) (simp_all add: ex_libs)
  then have "fst (run_state (ValidateSession ex_auth ?c) (?w\<lparr>tbl := ?t\<rparr>)) = Inr ()"
    using t by (simp add: run_ValidateSession [where u = "ex_user\<lparr>user_UpdatedAt := 2600\<rparr>"] token_claims_def)
  then show ?thesis
    using run ex_user_inv [of ex_user] by (intro exI [of _ ?w] exI [of _ ?c]) (simp add: token_claims_def)
qed

text \<open>
  C8. A user whose account is switched off (any status but 1) is locked out at once: with the
  database answering, every session is expired, the right password is answered with
  \<^verbatim>\<open>ErrUserDisabled\<close>, no refresh succeeds, and none of these changes anything.
\<close>

theorem disabled_user_locked_out:
  assumes "sched w = []" "find_user i (tbl w) = Some u" "user_Status u \<noteq> 1"
  shows "(tc_UserID c = i \<longrightarrow> run_state (ValidateSession s c) w = (Inl ErrSessionExpired, w)) \<and>
    (find_username (lr_Username req) (tbl w) = Some u \<and> ae_compare (as_env s) (user_PasswordHash u) (lr_Password req) \<longrightarrow>
       run_state (Login s req) w = (Inl ErrUserDisabled, w)) \<and>
    (\<forall>c. fst (run_state (parseTokenWithUse s tok tokenUseRefresh) w) = Inr c \<and> tc_UserID c = i \<longrightarrow>
       (\<exists>e. run_state (Refresh s tok) w = (Inl e, w)))"
proof -
  have v: "run_state (ValidateSession s c) w = (Inl ErrSessionExpired, w)" if "tc_UserID c = i" for c
    using run_ValidateSession [OF assms(1), of c u s] assms(2,3) that by simp
  moreover have "run_state (Refresh s tok) w = (Inl ErrSessionExpired, w) \<or> run_state (Refresh s tok) w = (Inl ErrPasswordChangeNeed, w)"
    if c: "fst (run_state (parseTokenWithUse s tok tokenUseRefresh) w) = Inr c" "tc_UserID c = i" for c
    using run_parse_pure [OF c(1), of w] v [OF c(2)] by (simp add: Refresh_def run_call)
  ultimately show ?thesis
    using assms(1,3) by (auto simp: Login_def run_call_as run_users)
qed

theorem disabled_user_locked_out_witness:
  "run_state (Login ex_auth \<lparr>lr_Username = ''bob'', lr_Password = ''pw''\<rparr>) (ex_auth_world (ex_user\<lparr>user_Status := 0\<rparr>) 5000) =
     (Inl ErrUserDisabled, ex_auth_world (ex_user\<lparr>user_Status := 0\<rparr>) 5000)"
  using disabled_user_locked_out [of "ex_auth_world (ex_user\<lparr>user_Status := 0\<rparr>) 5000" 7 "ex_user\<lparr>user_Status := 0\<rparr>" _ ex_auth
      "\<lparr>lr_Username = ''bob'', lr_Password = ''pw''\<rparr>"]
  by simp

section \<open>Passwords\<close>

text \<open>
  C9. Changing a password, undisturbed: a wrong current password, a weak new one (shorter than
  14 bytes, or lacking an upper-case or lower-case letter, a digit or another character) and
  the current one again are refused with a 400 and change nothing. A new password of more than
  72 bytes, which the request admits (up to 128) and bcrypt refuses, is answered with a 500
  and no row changes. Otherwise the new password is stored, trimmed, and every session opened
  a microsecond or more before ends.
\<close>

theorem change_password:
  assumes "libs_ok (as_env s)" "bcrypt_ok (as_env s)" "sched w = []" "0 < clock w"
    "find_user i (tbl w) = Some u"
  shows "if \<not> ae_compare (as_env s) (user_PasswordHash u) (cpr_CurrentPassword req) \<or>
      \<not> isStrongPassword (TrimSpace (cpr_NewPassword req)) \<or> cpr_CurrentPassword req = TrimSpace (cpr_NewPassword req)
    then \<exists>e. run_state (ChangePassword s i req) w = (Inl e, w) \<and> HTTPStatus e = 400
    else if 72 < length (TrimSpace (cpr_NewPassword req))
    then \<exists>e w'. run_state (ChangePassword s i req) w = (Inl e, w') \<and> HTTPStatus e = 500 \<and> tbl w' = tbl w
    else \<exists>v w' u'. run_state (ChangePassword s i req) w = (Inr v, w') \<and> find_user i (tbl w') = Some u' \<and>
      ae_compare (as_env s) (user_PasswordHash u') (TrimSpace (cpr_NewPassword req)) \<and>
      (\<forall>c. tc_UserID c = i \<and> tc_SessionIssuedAt c + 1000 \<le> clock w \<longrightarrow>
        fst (run_state (ValidateSession s c) w') \<noteq> Inr ())"
proof -
  let ?bad = "\<not> ae_compare (as_env s) (user_PasswordHash u) (cpr_CurrentPassword req) \<or>
      \<not> isStrongPassword (TrimSpace (cpr_NewPassword req)) \<or> cpr_CurrentPassword req = TrimSpace (cpr_NewPassword req)"
  consider "?bad" | "\<not> ?bad" "72 < length (TrimSpace (cpr_NewPassword req))"
    | "\<not> ?bad" "length (TrimSpace (cpr_NewPassword req)) \<le> 72" by linarith
  then show ?thesis
  proof cases
    case 1
    then show ?thesis using assms(3,5)
      by (auto simp: ChangePassword_def run_call_as run_users badPassword_def apperror_defs Let_def)
  next
    case 2
    then obtain err where "ae_generate (as_env s) (drawn w) (TrimSpace (cpr_NewPassword req)) = Inl err"
      using assms(2) unfolding bcrypt_ok_def by (metis not_less)
    then have "run_state (ChangePassword s i req) w = (Inl (wrapAs ErrInternal err), w\<lparr>drawn := drawn w + 1\<rparr>)"
      using assms(3,5) 2(1)
      by (simp add: ChangePassword_def run_call_as run_users GenerateFromPassword_def run_local Let_def)
    moreover have "HTTPStatus (wrapAs ErrInternal err) = 500"
      by (simp add: apperror_defs)
    ultimately show ?thesis using 2 by auto
  next
    case 3
    obtain h where h: "ae_generate (as_env s) (drawn w) (TrimSpace (cpr_NewPassword req)) = Inr h"
      "ae_compare (as_env s) h (TrimSpace (cpr_NewPassword req))"
      using assms(2) 3(2) unfolding bcrypt_ok_def by metis
    let ?t = "resolved s i (clock w) (password_changed u h (clock w) (tbl w))"
    let ?u = "u\<lparr>user_PasswordHash := h, user_LastLoginAt := Some (timestamptz (session_time u (clock w))), user_UpdatedAt := clock w\<rparr>"
    obtain v where v: "run_state (ChangePassword s i req) w = (Inr v, w\<lparr>drawn := drawn w + 3, tbl := ?t\<rparr>)"
      using run_ChangePassword [OF assms(1,3-5) _ _ _ h(1)] 3(1) by auto
    have found: "find_user i ?t = Some ?u"
      using assms(5) find_user_in [OF assms(5)] by (simp add: password_changed_def)
    have "fst (run_state (ValidateSession s c) (w\<lparr>drawn := drawn w + 3, tbl := ?t\<rparr>)) \<noteq> Inr ()"
      if c: "tc_UserID c = i" "tc_SessionIssuedAt c + 1000 \<le> clock w" for c
    proof -
      have "tc_SessionIssuedAt c < timestamptz (session_time u (clock w))"
        using c(2) session_time_bounds(1) [of "clock w" u] by (intro timestamptz_later) simp
      then show ?thesis using run_ValidateSession [of "w\<lparr>drawn := drawn w + 3, tbl := ?t\<rparr>" c ?u s] assms(3) found c(1)
        by simp
    qed
    with 3 v h(2) found show ?thesis by auto
  qed
qed

lemma ex_passwords:
  "TrimSpace ''Correct-Horse-1'' = ''Correct-Horse-1''" "isStrongPassword ''Correct-Horse-1''"
proof -
  show t: "TrimSpace ''Correct-Horse-1'' = ''Correct-Horse-1''" by (rule TrimSpace_plain) simp_all
  then show "isStrongPassword ''Correct-Horse-1''"
    by (simp add: isStrongPassword_spec is_upper_def is_lower_def is_digit_def)
qed

theorem change_password_witness:
  "\<exists>v w' u'. run_state (ChangePassword ex_auth 7 \<lparr>cpr_CurrentPassword = ''pw'', cpr_NewPassword = ''Correct-Horse-1''\<rparr>)
       (ex_auth_world ex_user 5000) = (Inr v, w') \<and>
     find_user 7 (tbl w') = Some u' \<and> ae_compare ex_auth_env (user_PasswordHash u') ''Correct-Horse-1'' \<and>
     (\<forall>c. tc_UserID c = 7 \<and> tc_SessionIssuedAt c + 1000 \<le> 5000 \<longrightarrow> fst (run_state (ValidateSession ex_auth c) w') \<noteq> Inr ())"
  using change_password [of ex_auth "ex_auth_world ex_user 5000" 7 ex_user
      "\<lparr>cpr_CurrentPassword = ''pw'', cpr_NewPassword = ''Correct-Horse-1''\<rparr>"] ex_passwords
  by (simp add: ex_libs)

section \<open>The gates\<close>

lemma Bearer_token: "TrimPrefix (''Bearer '' @ tok) ''Bearer '' = tok" "HasPrefix (''Bearer '' @ tok) ''Bearer ''"
  by (simp_all add: TrimPrefix_def)

text \<open>
  C10. The administrator's first login, undisturbed: it succeeds and leaves the account in its
  first-login state; the access token opens the profile, the password change and (unlike the
  security notes, which name only these two) the logout, and is answered with 403
  \<^verbatim>\<open>password change required\<close> everywhere else; the refresh token is refused.
\<close>

theorem first_login_restricted:
  assumes "libs_ok (as_env s)" "sched w = []" "user_inv (tbl w)" "0 < clock w"
    "find_username (lr_Username req) (tbl w) = Some u"
    "ae_compare (as_env s) (user_PasswordHash u) (lr_Password req)" "user_Status u = 1"
    "mustChangePassword s u" "Second \<le> ac_JWTExpire (as_cfg s)" "Second \<le> ac_JWTRefreshExpire (as_cfg s)"
  shows "\<exists>v w'. run_state (Login s req) w = (Inr v, w') \<and> find_user (user_ID u) (tbl w') = Some u \<and>
    fst (run_state (Refresh s (lres_RefreshToken v)) w') = Inl ErrPasswordChangeNeed \<and>
    (\<forall>path. fst (run_state (JWTAuth s (''Bearer '' @ lres_AccessToken v) path) w') =
       (if path \<in> {''/api/v1/auth/me'', ''/api/v1/auth/change-password'', ''/api/v1/auth/logout''}
        then Continue \<lparr>CurrentUserID = Some (user_ID u), CurrentUsername = Some (user_Username u),
               CurrentRoles = Some (fst (rbac_of s (user_ID u) (tbl w'))),
               CurrentPerms = Some (snd (rbac_of s (user_ID u) (tbl w'))), CurrentMustChangePassword = Some True\<rparr>
        else Abort 403 2009 ''password change required''))"
proof -
  let ?t = "resolved s (user_ID u) (clock w) (tbl w)"
  let ?r = "rbac_of s (user_ID u) ?t"
  let ?w = "w\<lparr>tbl := ?t, drawn := drawn w + 2\<rparr>"
  obtain v u' where v: "run_state (Login s req) w = (Inr v, ?w)" "user_ID u' = user_ID u" "user_Username u' = user_Username u"
    "opened s v (clock w) u' ?r True (session_time u (clock w))"
    using run_Login [OF assms(1-7)] assms(8) by auto
  have id: "find_user (user_ID u) (tbl w) = Some u" by (rule find_username_id [OF assms(3,5)])
  have never: "user_LastLoginAt u = None" using assms(8) by (simp add: mustChangePassword_def split: if_splits)
  let ?c = "token_claims s u' ?r True tokenUseAccess (session_time u (clock w))"
  have again: "resolved s (user_ID u) (clock w) ?t = ?t"
    using resolved_idem [of s "user_ID u" "tbl w"] assms(1) id by (simp add: libs_ok_def)
  have "session_live s ?c (clock w) ?t"
    using assms(1,4,7) id v(2) never session_time_bounds(1) [of "clock w" u]
    by (intro fresh_session_live [where i = "user_ID u" and u = u]) (simp_all add: again)
  then have valid: "run_state (ValidateSession s ?c) ?w = (Inr (), ?w)"
    using assms(2,4,7) id v(2) never again session_time_bounds(1) [of "clock w" u]
    by (simp add: run_ValidateSession [where u = u])
  have exp: "clock ?w < NewNumericDate (clock w + ac_JWTExpire (as_cfg s))"
    "clock ?w < NewNumericDate (clock w + ac_JWTRefreshExpire (as_cfg s))"
    using assms(9,10) by (simp_all add: NewNumericDate_later)
  have trim: "TrimSpace (lres_AccessToken v) = lres_AccessToken v"
    using v(4) by (auto simp: opened_def issued_token_def)
  have "fst (run_state (JWTAuth s (''Bearer '' @ lres_AccessToken v) path) ?w) =
      (if isPasswordChangeAllowedPath path
        then Continue \<lparr>CurrentUserID = Some (user_ID u), CurrentUsername = Some (user_Username u),
               CurrentRoles = Some (fst ?r), CurrentPerms = Some (snd ?r), CurrentMustChangePassword = Some True\<rparr>
        else Abort 403 2009 ''password change required'')" for path
    using opened_tokens(1) [OF assms(1) v(4) exp(1)] valid v(2,3) Bearer_token [of "lres_AccessToken v"] trim
    unfolding JWTAuth_def Let_def
    by (simp add: token_claims_def abort_with_def ErrPasswordChangeNeed_def New_def del: HasPrefix.simps)
  moreover have "fst (run_state (Refresh s (lres_RefreshToken v)) ?w) = Inl ErrPasswordChangeNeed"
    using opened_tokens(2) [OF assms(1) v(4) exp(2)] by (simp add: Refresh_def run_call)
  moreover have "isPasswordChangeAllowedPath path \<longleftrightarrow>
      path \<in> {''/api/v1/auth/me'', ''/api/v1/auth/change-password'', ''/api/v1/auth/logout''}" for path
    by (auto simp: isPasswordChangeAllowedPath_def)
  ultimately show ?thesis using v(1) id by (intro exI [of _ v] exI [of _ ?w]) simp
qed

definition ex_admin :: User where
  "ex_admin = ex_user\<lparr>user_Username := ''admin'', user_LastLoginAt := None\<rparr>"

lemma ex_admin_simps: "user_ID ex_admin = 7" "user_Username ex_admin = ''admin''" "user_Status ex_admin = 1"
  "user_PasswordHash ex_admin = ''hpw''" "mustChangePassword ex_auth ex_admin"
proof -
  have "TrimSpace ''admin'' = ''admin''" by code_simp
  then show "mustChangePassword ex_auth ex_admin" by (simp add: mustChangePassword_def ex_admin_def)
qed (simp_all add: ex_admin_def)

theorem first_login_restricted_witness:
  "\<exists>v w'. run_state (Login ex_auth \<lparr>lr_Username = ''admin'', lr_Password = ''pw''\<rparr>) (ex_auth_world ex_admin 5000) = (Inr v, w') \<and>
     fst (run_state (JWTAuth ex_auth (''Bearer '' @ lres_AccessToken v) ''/api/v1/tasks'') w') =
       Abort 403 2009 ''password change required''"
proof -
  let ?req = "\<lparr>lr_Username = ''admin'', lr_Password = ''pw''\<rparr>"
  obtain v w' where "run_state (Login ex_auth ?req) (ex_auth_world ex_admin 5000) = (Inr v, w')"
    "\<forall>path. fst (run_state (JWTAuth ex_auth (''Bearer '' @ lres_AccessToken v) path) w') =
       (if path \<in> {''/api/v1/auth/me'', ''/api/v1/auth/change-password'', ''/api/v1/auth/logout''}
        then Continue \<lparr>CurrentUserID = Some 7, CurrentUsername = Some ''admin'',
               CurrentRoles = Some (fst (rbac_of ex_auth 7 (tbl w'))),
               CurrentPerms = Some (snd (rbac_of ex_auth 7 (tbl w'))), CurrentMustChangePassword = Some True\<rparr>
        else Abort 403 2009 ''password change required'')"
    using first_login_restricted [of ex_auth "ex_auth_world ex_admin 5000" ?req ex_admin]
    by (auto simp: ex_libs ex_user_inv ex_admin_simps duration_defs)
  then show ?thesis by auto
qed

lemma admit_authorized:
  assumes "sched w = []" "sha_ok (as_env s)" "collate_ok (as_env s)"
    "run_state (admit s (Needs p) header path) w = (Continue keys, w')"
    and token: "ae_parse (as_env s) (ac_JWTSecret (as_cfg s)) (clock w) (TrimSpace (TrimPrefix header ''Bearer '')) = Some c"
    and own: "jc_RBACChecksum c = computeRBACChecksum (ae_sha256hex (as_env s)) (jc_Roles c) (jc_Permissions c)"
    and names: "\<forall>n \<in> set (jc_Roles c) \<union> set (jc_Permissions c) \<union> role_Slug ` set (roles (tbl w)) \<union>
      perm_Name ` set (permissions (tbl w)). plain_name n"
    and collision: "\<And>rs ps. ae_sha256hex (as_env s) (rbac_payload (jc_Roles c) (jc_Permissions c)) =
        ae_sha256hex (as_env s) (rbac_payload rs ps) \<Longrightarrow> (rs, ps) = rbac_of s (jc_UserID c) (tbl w') \<Longrightarrow>
      rbac_payload (jc_Roles c) (jc_Permissions c) = rbac_payload rs ps"
  shows "\<exists>u. CurrentUserID keys = Some (user_ID u) \<and> find_user (user_ID u) (tbl w) = Some u \<and> user_Status u = 1 \<and>
    (\<forall>l. user_LastLoginAt u = Some l \<longrightarrow> l \<le> jc_SessionIssuedAt c) \<and>
    p \<in> set (user_permission_names (user_ID u) (tbl w'))"
proof -
  let ?i = "jc_UserID c" and ?t = "resolved s (jc_UserID c) (clock w) (tbl w)"
  have parsed: "fst (run_state (ParseToken s (TrimSpace (TrimPrefix header ''Bearer ''))) w) = Inr tc \<Longrightarrow>
      tc_UserID tc = ?i \<and> tc_Permissions tc = jc_Permissions c \<and> tc_SessionIssuedAt tc = jc_SessionIssuedAt c \<and>
      tc_RBACChecksum tc = TrimSpace (jc_RBACChecksum c)" for tc
    using token by (auto simp: ParseToken_def parseTokenWithUse_def run_local Let_def split: if_splits)
  obtain k x where j: "run_state (JWTAuth s header path) w = (Continue k, x)" "w' = x" "RequirePermission p k = Continue keys"
    using assms(4) by (auto simp: admit_def split: gate.splits prod.splits)
  have keys: "keys = k" "\<exists>ps. CurrentPerms k = Some ps \<and> p \<in> set ps"
    using j(3) by (auto simp: RequirePermission_def GetCurrentPermissions_def abort_with_def split: option.splits if_splits)
  obtain tc where tc: "fst (run_state (ParseToken s (TrimSpace (TrimPrefix header ''Bearer ''))) w) = Inr tc"
    "run_state (ValidateSession s tc) w = (Inr (), x)" "CurrentUserID k = Some (tc_UserID tc)" "CurrentPerms k = Some (tc_Permissions tc)"
    using j(1) unfolding JWTAuth_def Let_def ParseToken_def
    by (auto simp: abort_with_def parseTokenWithUse_def run_local split: if_splits sum.splits prod.splits option.splits)
  note pc = parsed [OF tc(1)]
  obtain u where u: "find_user ?i (tbl w) = Some u"
    using tc(2) pc assms(1) by (cases "find_user ?i (tbl w)") (auto simp: ValidateSession_def run_call_as run_users)
  have ok: "user_Status u = 1" "session_live s tc (clock w) (tbl w)" "x = w\<lparr>tbl := ?t\<rparr>"
    "\<forall>l. user_LastLoginAt u = Some l \<longrightarrow> l \<le> jc_SessionIssuedAt c"
    using tc(2) run_ValidateSession [OF assms(1), of tc u s] u pc by (auto split: if_splits)
  obtain rs ps where now: "rbac_of s ?i ?t = (rs, ps)" by fastforce
  have "ae_sha256hex (as_env s) (rbac_payload (jc_Roles c) (jc_Permissions c)) = ae_sha256hex (as_env s) (rbac_payload rs ps)"
    using ok(2) u pc own now sha_trim [OF assms(2)]
    by (auto simp: session_live_def Let_def computeRBACChecksum_def rbac_payload_def split: if_splits)
  then have same: "rbac_payload (jc_Roles c) (jc_Permissions c) = rbac_payload rs ps"
    using collision now j(2) ok(3) by simp
  have tables: "roles ?t = roles (tbl w)" "permissions ?t = permissions (tbl w)"
    by (auto simp: resolved_def sql_AddUserRole_def split: option.split)
  have lists: "set rs = set (user_role_slugs ?i ?t)" "set ps = set (user_permission_names ?i ?t)"
    using now assms(3) by (auto simp: rbac_of_def collate_ok_def)
  have "set rs \<subseteq> role_Slug ` set (roles (tbl w))" "set ps \<subseteq> perm_Name ` set (permissions (tbl w))"
    unfolding lists by (auto simp: user_role_slugs_def user_permission_names_def tables)
  then have "mset (jc_Permissions c) = mset ps"
    using rbac_payload_inject [OF same] names by blast
  then have "p \<in> set ps" using keys(2) tc(4) pc by (metis option.inject set_mset_mset)
  then show ?thesis using u ok tc(3) pc keys(1) j(2) lists(2) find_user_in [OF u]
    by (intro exI [of _ u]) auto
qed

text \<open>
  C3. What reaches a handler behind a permission is authorised now, not only when the token was
  issued: the user exists and is active, no later session has begun, and the user's roles grant
  the permission. Assumed of the token at hand: its checksum digests its own lists (as in
  every token the service issues), and its digest is not a collision with the current roles';
  assumed of names of roles and permissions: no commas, no bars.
\<close>

theorem admitted_request_authorized:
  assumes "sched w = []" "sha_ok (as_env s)" "collate_ok (as_env s)"
    "run_state (admit s (Needs p) header path) w = (Continue keys, w')"
    and token: "ae_parse (as_env s) (ac_JWTSecret (as_cfg s)) (clock w) (TrimSpace (TrimPrefix header ''Bearer '')) = Some c"
    and own: "jc_RBACChecksum c = computeRBACChecksum (ae_sha256hex (as_env s)) (jc_Roles c) (jc_Permissions c)"
    and names: "\<forall>n \<in> set (jc_Roles c) \<union> set (jc_Permissions c) \<union> role_Slug ` set (roles (tbl w)) \<union>
      perm_Name ` set (permissions (tbl w)). plain_name n"
    and collision: "\<And>rs ps. ae_sha256hex (as_env s) (rbac_payload (jc_Roles c) (jc_Permissions c)) =
        ae_sha256hex (as_env s) (rbac_payload rs ps) \<Longrightarrow> (rs, ps) = rbac_of s (jc_UserID c) (tbl w') \<Longrightarrow>
      rbac_payload (jc_Roles c) (jc_Permissions c) = rbac_payload rs ps"
  shows "\<exists>u. CurrentUserID keys = Some (user_ID u) \<and> find_user (user_ID u) (tbl w) = Some u \<and> user_Status u = 1 \<and>
    (\<forall>l. user_LastLoginAt u = Some l \<longrightarrow> l \<le> jc_SessionIssuedAt c) \<and>
    p \<in> set (user_permission_names (user_ID u) (tbl w'))"
  using assms by (rule admit_authorized)

theorem admitted_request_authorized_witness:
  "\<exists>u. user_ID u = 7 \<and> find_user 7 (ex_auth_tables ex_user) = Some u \<and> user_Status u = 1 \<and>
     ''files.read'' \<in> set (user_permission_names 7 (ex_auth_tables ex_user))"
proof -
  let ?c = "session_claims ex_auth ex_user ([''op''], [''files.read'']) False tokenUseAccess (24 * Hour) 3000 3000 ''t''"
  let ?tok = "enc_str ''k'' @ enc_claims ?c" and ?w = "ex_auth_world ex_user 5000"
  let ?tc = "token_claims ex_auth ex_user ([''op''], [''files.read'']) False tokenUseAccess 3000"
  have iss: "issued_token ex_auth ?tok ?c"
    by (simp add: issued_token_def ex_token_trim ex_auth_env_def)
  have bearer: "TrimSpace (TrimPrefix (''Bearer '' @ ?tok) ''Bearer '') = ?tok"
    unfolding Bearer_token by (rule ex_token_trim)
  have parse: "run_state (ParseToken ex_auth ?tok) ?w = (Inr ?tc, ?w)"
    using run_parse_issued [OF _ _ iss, of ?w tokenUseAccess] ex_libs
    by (simp add: ParseToken_def libs_ok_def NewNumericDate_def duration_defs)
  have valid: "run_state (ValidateSession ex_auth ?tc) ?w = (Inr (), ?w)"
    using ex_bob_live [of 3000 False tokenUseAccess 5000]
    by (simp add: run_ValidateSession [where u = ex_user])
  obtain keys where adm: "run_state (admit ex_auth (Needs ''files.read'') (''Bearer '' @ ?tok) ''/'') ?w = (Continue keys, ?w)"
    "CurrentUserID keys = Some 7"
    using parse valid bearer Bearer_token [of ?tok]
    by (simp add: admit_def JWTAuth_def Let_def RequirePermission_def GetCurrentPermissions_def del: HasPrefix.simps append.simps)
  have token: "ae_parse (as_env ex_auth) (ac_JWTSecret (as_cfg ex_auth)) (clock ?w) (TrimSpace (TrimPrefix (''Bearer '' @ ?tok) ''Bearer '')) = Some ?c"
    using iss bearer by (simp add: issued_token_def session_claims_def NewNumericDate_def duration_defs)
  have own: "jc_RBACChecksum ?c = computeRBACChecksum (ae_sha256hex (as_env ex_auth)) (jc_Roles ?c) (jc_Permissions ?c)"
    by (simp add: session_claims_def)
  have names: "\<forall>n \<in> set (jc_Roles ?c) \<union> set (jc_Permissions ?c) \<union> role_Slug ` set (roles (tbl ?w)) \<union>
      perm_Name ` set (permissions (tbl ?w)). plain_name n"
    by (simp add: session_claims_def plain_name_def ex_auth_tables_def)
  have collision: "(rs, ps) = rbac_of ex_auth (jc_UserID ?c) (tbl ?w) \<Longrightarrow>
      rbac_payload (jc_Roles ?c) (jc_Permissions ?c) = rbac_payload rs ps" for rs ps
    by (simp add: session_claims_def)
  have "\<exists>u. CurrentUserID keys = Some (user_ID u) \<and> find_user (user_ID u) (tbl ?w) = Some u \<and> user_Status u = 1 \<and>
    (\<forall>l. user_LastLoginAt u = Some l \<longrightarrow> l \<le> jc_SessionIssuedAt ?c) \<and>
    ''files.read'' \<in> set (user_permission_names (user_ID u) (tbl ?w))"
    by (rule admitted_request_authorized [OF _ _ _ adm(1) token own names collision])
      (use ex_libs in \<open>simp_all add: libs_ok_def\<close>)
  then show ?thesis using adm(2) by auto
qed

section \<open>Defaults and bootstrap\<close>

text \<open>
  C11. The bootstrap on a database without users, undisturbed, with a password configured that
  the bootstrap accepts (in production a strong one, elsewhere any). Up to 72 bytes, it creates
  the administrator, and the configured password then logs in: one user, who must change the
  password, holding every permission the defaults define. A longer password, which the
  validation of the configuration lets pass, cannot be hashed: the bootstrap (and with it the
  start of the backend) fails and there is no user.
\<close>

theorem bootstrap_admin_logs_in:
  assumes "libs_ok (as_env s)" "bcrypt_ok (as_env s)" "sched w = []" "0 < clock w" "user_inv (tbl w)" "users (tbl w) = []"
    "fst (sql_EnsureRBACDefaults (clock w) (tbl w)) = Inr ()" "ac_BootstrapAdmin (as_cfg s)"
    "TrimSpace (ac_DefaultAdminUsername (as_cfg s)) \<noteq> []" "TrimSpace (ac_DefaultAdminEmail (as_cfg s)) \<noteq> []"
    "accepted_password s" "\<And>x. fold_uni (ae_lib (as_env s)) x x"
    "lr_Username req = ac_DefaultAdminUsername (as_cfg s)" "lr_Password req = TrimSpace (ac_DefaultAdminPassword (as_cfg s))"
  shows "if length (TrimSpace (ac_DefaultAdminPassword (as_cfg s))) \<le> 72
    then \<exists>w' v w''. run_state (EnsureDefaultAdmin s) w = (Inr (), w') \<and> run_state (Login s req) w' = (Inr v, w'') \<and>
      length (users (tbl w'')) = 1 \<and> up_MustChangePassword (lres_User v) \<and>
      fst ` set permissionSeeds \<subseteq> set (up_Permissions (lres_User v))
    else \<exists>e w'. run_state (EnsureDefaultAdmin s) w = (Inl e, w') \<and> users (tbl w') = []"
proof (cases "length (TrimSpace (ac_DefaultAdminPassword (as_cfg s))) \<le> 72")
  case True
  obtain t1 where t1: "sql_EnsureRBACDefaults (clock w) (tbl w) = (Inr (), t1)"
    using assms(7) by (metis prod.collapse)
  obtain h where h: "ae_generate (as_env s) (drawn w) (TrimSpace (ac_DefaultAdminPassword (as_cfg s))) = Inr h"
    "ae_compare (as_env s) h (TrimSpace (ac_DefaultAdminPassword (as_cfg s)))"
    using assms(2) True unfolding bcrypt_ok_def by metis
  obtain w' u where w': "run_state (EnsureDefaultAdmin s) w = (Inr (), w')" "sched w' = []" "clock w' = clock w"
    "user_inv (tbl w')" "users (tbl w') = [u]" "user_Username u = ac_DefaultAdminUsername (as_cfg s)"
    "user_PasswordHash u = h" "user_Status u = 1" "user_LastLoginAt u = None"
    "fst ` set permissionSeeds \<subseteq> set (user_permission_names (user_ID u) (tbl w'))"
    "roleSuperAdmin \<in> set (user_role_slugs (user_ID u) (tbl w'))"
    using run_EnsureDefaultAdmin [OF assms(3,5,6,8-11) h(1) t1] by blast
  have fold: "EqualFold (fold_uni (ae_lib (as_env s))) x x" for x
    using assms(12) by (induction x) auto
  have mc: "mustChangePassword s u" using w'(6,9) fold by (simp add: mustChangePassword_def)
  have rs: "resolved s (user_ID u) (clock w') (tbl w') = tbl w'"
    using w'(11) assms(1) by (force simp: resolved_def rbac_of_def libs_ok_def collate_ok_def)
  have name: "find_username (lr_Username req) (tbl w') = Some u"
    using w'(5,6) assms(13) by (simp add: find_username_def)
  have cmp: "ae_compare (as_env s) (user_PasswordHash u) (lr_Password req)" using h(2) w'(7) assms(14) by simp
  have pos: "0 < clock w'" using w'(3) assms(4) by simp
  obtain v u' where "run_state (Login s req) w' = (Inr v, w'\<lparr>tbl := tbl w', drawn := drawn w' + 2\<rparr>)"
    "opened s v (clock w') u' (rbac_of s (user_ID u) (tbl w')) True (session_time u (clock w'))"
    using run_Login [OF assms(1) w'(2,4) pos name cmp w'(8)] mc rs by auto
  moreover have "fst ` set permissionSeeds \<subseteq> set (snd (rbac_of s (user_ID u) (tbl w')))"
    using w'(10) assms(1) by (simp add: rbac_of_def libs_ok_def collate_ok_def)
  ultimately show ?thesis using w'(1,5) True
    by (simp only: if_True)
      (intro exI [of _ w'] exI [of _ v] exI [of _ "w'\<lparr>tbl := tbl w', drawn := drawn w' + 2\<rparr>"],
       auto simp: opened_def toProfile_def)
next
  case False
  then obtain err where err: "ae_generate (as_env s) (drawn w) (TrimSpace (ac_DefaultAdminPassword (as_cfg s))) = Inl err"
    using assms(2) unfolding bcrypt_ok_def by metis
  obtain t1 where t1: "sql_EnsureRBACDefaults (clock w) (tbl w) = (Inr (), t1)"
    using assms(7) by (metis prod.collapse)
  from run_EnsureDefaultAdmin_unhashed [OF assms(3,6,8-11) err t1] False show ?thesis by simp
qed

lemma ex_admin_config: "TrimSpace ''admin'' = ''admin''" "TrimSpace ''a@b'' = ''a@b''"
  by (rule TrimSpace_plain; simp)+

theorem bootstrap_admin_logs_in_witness:
  "\<exists>w' v w''. run_state (EnsureDefaultAdmin ex_auth) (init_world\<lparr>clock := 5\<rparr>) = (Inr (), w') \<and>
     run_state (Login ex_auth \<lparr>lr_Username = ''admin'', lr_Password = ''Correct-Horse-1''\<rparr>) w' = (Inr v, w'') \<and>
     length (users (tbl w'')) = 1 \<and> up_MustChangePassword (lres_User v) \<and>
     fst ` set permissionSeeds \<subseteq> set (up_Permissions (lres_User v))"
proof -
  have defaults: "fst (sql_EnsureRBACDefaults (clock (init_world\<lparr>clock := 5\<rparr>)) (tbl (init_world\<lparr>clock := 5\<rparr>))) = Inr ()"
    by (simp add: sql_EnsureRBACDefaults_def default_roles_def new_role_def init_world_def empty_tables_def Let_def)
  have accepted: "accepted_password ex_auth"
    by (rule strong_password_accepted) (simp add: ex_passwords)
  have empty: "user_inv (tbl (init_world\<lparr>clock := 5\<rparr>))" "users (tbl (init_world\<lparr>clock := 5\<rparr>)) = []"
    "sched (init_world\<lparr>clock := 5\<rparr>) = []"
    by (simp_all add: init_world_def user_inv_empty) (simp add: empty_tables_def)
  from bootstrap_admin_logs_in [OF _ _ empty(3) _ empty(1,2) defaults _ _ _ accepted,
      of "\<lparr>lr_Username = ''admin'', lr_Password = ''Correct-Horse-1''\<rparr>"]
  show ?thesis
    by (simp add: ex_libs ex_admin_config ex_passwords) (simp add: ex_auth_env_def)
qed

text \<open>
  The default roles: after a successful run of the defaults the super administrator is
  granted every seeded permission and the operator its two, whatever was in the tables; a
  second run adds nothing.
\<close>

theorem default_roles_granted:
  assumes "user_inv t" "sql_EnsureRBACDefaults now t = (Inr (), t')"
  shows "fst ` set permissionSeeds \<subseteq> role_grants roleSuperAdmin t' \<and>
    set operatorPermissions \<subseteq> role_grants roleOperator t' \<and>
    (\<exists>m n. sql_EnsureRBACDefaults now' t' = (Inr (), t'\<lparr>roles_seq := m, permissions_seq := n\<rparr>))"
  using defaults_grant [OF assms] defaults_again [OF assms(2)] by blast

theorem default_roles_granted_witness:
  "\<exists>t'. sql_EnsureRBACDefaults 5 empty_tables = (Inr (), t') \<and> ''backup.manage'' \<in> role_grants roleSuperAdmin t'"
proof -
  have "fst (sql_EnsureRBACDefaults 5 empty_tables) = Inr ()"
    by (simp add: sql_EnsureRBACDefaults_def default_roles_def new_role_def empty_tables_def Let_def)
  then obtain t' where "sql_EnsureRBACDefaults 5 empty_tables = (Inr (), t')" by (metis prod.collapse)
  moreover have "''backup.manage'' \<in> fst ` set permissionSeeds" by (simp add: permissionSeeds_def)
  ultimately show ?thesis using default_roles_granted [OF user_inv_empty] by blast
qed

end
