(* ===== verification/AgentFiles.thy ===== *)
theory AgentFiles
  imports Agent
begin

text \<open>
  The file calls of the gRPC client (\<^verbatim>\<open>internal/grpcclient/agent_client.go\<close>). As in
  \<^theory_text>\<open>Agent\<close>, what the core agent answers is a function of the requests it was sent
  before and of the present one (\<open>file_conn\<close>).
\<close>

section \<open>Messages\<close>

record FileEntry =
  fe_Name :: string
  fe_Path :: string
  fe_IsDir :: bool
  fe_Size :: "64 word"
  fe_ModifiedAtUnix :: int

record ListFilesResult =
  lf_CurrentPath :: string
  lf_Entries :: "FileEntry list"

record ReadTextFileResult =
  rt_Path :: string
  rt_Content :: string
  rt_Size :: "64 word"
  rt_Truncated :: bool
  rt_Encoding :: string

record ReadFileChunkResult =
  rc_Path :: string
  rc_Offset :: "64 word"
  rc_Chunk :: string
  rc_TotalSize :: "64 word"
  rc_EOF :: bool

record WriteTextFileResult =
  wt_Path :: string
  wt_WrittenBytes :: "64 word"

record WriteFileChunkResult =
  wc_Path :: string
  wc_Offset :: "64 word"
  wc_WrittenBytes :: "64 word"
  wc_TotalSize :: "64 word"

record CreateDirectoryResult = cd_Path :: string

record DeleteFileResult = df_Path :: string

record RenameFileResult =
  rn_SourcePath :: string
  rn_TargetPath :: string
  rn_MovedBytes :: "64 word"

type_synonym 'a answers = "rpc_request list \<Rightarrow> rpc_request \<Rightarrow> 'a wire"

record file_conn =
  conn_ListFiles :: "ListFilesResult answers"
  conn_ReadTextFile :: "ReadTextFileResult answers"
  conn_ReadFileChunk :: "ReadFileChunkResult answers"
  conn_WriteFileChunk :: "WriteFileChunkResult answers"
  conn_WriteTextFile :: "WriteTextFileResult answers"
  conn_CreateDirectory :: "CreateDirectoryResult answers"
  conn_DeleteFile :: "DeleteFileResult answers"
  conn_RenameFile :: "RenameFileResult answers"

section \<open>Calls\<close>

text \<open>
  The body the calls share: send the request, check the error envelope, count the request.
\<close>

definition agent_rpc :: "string \<Rightarrow> 'a answers \<Rightarrow> rpc_request \<Rightarrow> (world, 'a result) state" where
  "agent_rpc rpcName answers q = do {
     w \<leftarrow> getw;
     send_rpc q;
     invoke rpcName (answers (rpc_log w) q)
   }"

definition Client_ListFiles :: "file_conn \<Rightarrow> string \<Rightarrow> (world, ListFilesResult result) state" where
  "Client_ListFiles c path = agent_rpc ''file.list'' (conn_ListFiles c) (ListFilesReq path)"

definition Client_ReadTextFile ::
  "file_conn \<Rightarrow> string \<Rightarrow> int \<Rightarrow> string \<Rightarrow> (world, ReadTextFileResult result) state" where
  "Client_ReadTextFile c path maxBytes encoding =
     agent_rpc ''file.read_text'' (conn_ReadTextFile c) (ReadTextFileReq path maxBytes encoding)"

definition Client_ReadFileChunk ::
  "file_conn \<Rightarrow> string \<Rightarrow> 64 word \<Rightarrow> 32 word \<Rightarrow> (world, ReadFileChunkResult result) state" where
  "Client_ReadFileChunk c path offset limit =
     agent_rpc ''file.read_chunk'' (conn_ReadFileChunk c) (ReadFileChunkReq path offset limit)"

definition Client_WriteFileChunk ::
  "file_conn \<Rightarrow> string \<Rightarrow> 64 word \<Rightarrow> string \<Rightarrow> bool \<Rightarrow> bool \<Rightarrow> (world, WriteFileChunkResult result) state"
  where
  "Client_WriteFileChunk c path offset chunk createIfNotExists trunc =
     agent_rpc ''file.write_chunk'' (conn_WriteFileChunk c)
       (WriteFileChunkReq path offset chunk createIfNotExists trunc)"

definition Client_WriteTextFile ::
  "file_conn \<Rightarrow> string \<Rightarrow> string \<Rightarrow> bool \<Rightarrow> bool \<Rightarrow> string \<Rightarrow> (world, WriteTextFileResult result) state"
  where
  "Client_WriteTextFile c path content createIfNotExists trunc encoding =
     agent_rpc ''file.write_text'' (conn_WriteTextFile c)
       (WriteTextFileReq path content createIfNotExists trunc encoding)"

definition Client_CreateDirectory ::
  "file_conn \<Rightarrow> string \<Rightarrow> bool \<Rightarrow> (world, CreateDirectoryResult result) state" where
  "Client_CreateDirectory c path createParents =
     agent_rpc ''file.create_directory'' (conn_CreateDirectory c) (CreateDirectoryReq path createParents)"

definition Client_DeleteFile ::
  "file_conn \<Rightarrow> string \<Rightarrow> bool \<Rightarrow> (world, DeleteFileResult result) state" where
  "Client_DeleteFile c path recursive =
     agent_rpc ''file.delete'' (conn_DeleteFile c) (DeleteFileReq path recursive)"

definition Client_RenameFile ::
  "file_conn \<Rightarrow> string \<Rightarrow> string \<Rightarrow> (world, RenameFileResult result) state" where
  "Client_RenameFile c sourcePath targetPath =
     agent_rpc ''file.rename'' (conn_RenameFile c) (RenameFileReq sourcePath targetPath)"

section \<open>Lemmas\<close>

text \<open>What a call answers, with its error already classified.\<close>

definition reply_of :: "'a wire \<Rightarrow> 'a result" where
  "reply_of x = (case x of
       DialError err \<Rightarrow> Inl (transportError err)
     | CallError err \<Rightarrow> (case asAgentError err of Some e \<Rightarrow> Inl e | None \<Rightarrow> Inl (transportError err))
     | Response e body \<Rightarrow> (case responseError e of Some err \<Rightarrow> Inl err | None \<Rightarrow> Inr body))"

lemma run_agent_rpc:
  "\<exists>m. run_state (agent_rpc rpc answers q) w =
     (reply_of (answers (rpc_log w) q),
      w\<lparr>rpc_log := rpc_log w @ [q], metrics := metrics w @ [m]\<rparr>)"
  by (auto simp: agent_rpc_def invoke_def reply_of_def send_rpc_def observe_def
      split: wire.splits option.splits)

lemma reply_of_error: "reply_of x = Inl e \<Longrightarrow> is_AgentError e"
  by (auto simp: reply_of_def dest: asAgentError_is responseError_is
      split: wire.splits option.splits)

lemma reply_of_ok [simp]: "reply_of (Response (Some (0, m, d)) body) = Inr body"
  by (simp add: reply_of_def responseError_def)

text \<open>A call changes nothing of the world but the requests sent and the metrics.\<close>

definition only_rpc :: "world \<Rightarrow> world \<Rightarrow> bool" where
  "only_rpc w w' = (\<exists>qs ms. w' = w\<lparr>rpc_log := rpc_log w @ qs, metrics := metrics w @ ms\<rparr>)"

lemma reflp_only_rpc: "reflp only_rpc"
  by (rule reflpI) (auto simp: only_rpc_def intro!: exI [of _ "[]"])

lemma transp_only_rpc: "transp only_rpc"
proof (rule transpI)
  fix x y z assume "only_rpc x y" "only_rpc y z"
  then show "only_rpc x z"
    unfolding only_rpc_def by clarsimp (metis append.assoc)
qed

lemma only_rpc_agent_rpc: "keeps only_rpc (agent_rpc rpc answers q)"
proof (rule keepsI)
  fix w
  from run_agent_rpc [of rpc answers q w]
  show "only_rpc w (snd (run_state (agent_rpc rpc answers q) w))"
    unfolding only_rpc_def by (metis snd_conv)
qed

end
