(* ===== verification/FileService.thy ===== *)
theory FileService
  imports AgentFiles
begin

text \<open>
  \<^verbatim>\<open>internal/service/file_service.go\<close> over the file calls of the client, with the messages of
  \<^verbatim>\<open>internal/dto/file.go\<close>.

  The callbacks of a download and an upload are functions on the state of their owner:
  \<^verbatim>\<open>writeChunk\<close> takes the bytes of a chunk, and \<^verbatim>\<open>readChunk\<close> is given the size of the
  buffer and gives the content of the buffer after the call, the number of bytes it claims to
  have read, and its error. A nil callback is \<^const>\<open>None\<close>. The loops run under
  \<^const>\<open>forever\<close>: \<^const>\<open>None\<close> is a call that does not return.
\<close>

section \<open>Messages\<close>

record FileEntryDTO =
  fd_Name :: string
  fd_Path :: string
  fd_IsDir :: bool
  fd_Size :: "64 word"
  fd_ModifiedAt :: int

record ListFilesResultDTO =
  ld_CurrentPath :: string
  ld_Entries :: "FileEntryDTO list"

record ReadTextFileRequest =
  rtr_Path :: string
  rtr_MaxBytes :: int
  rtr_Encoding :: string

record ReadTextFileResultDTO =
  rtd_Path :: string
  rtd_Content :: string
  rtd_Size :: "64 word"
  rtd_Truncated :: bool
  rtd_Encoding :: string

record WriteTextFileRequest =
  wtr_Path :: string
  wtr_Content :: string
  wtr_CreateIfNotExists :: bool
  wtr_Truncate :: bool
  wtr_Encoding :: string

record WriteTextFileResultDTO =
  wtd_Path :: string
  wtd_WrittenBytes :: "64 word"

record CreateDirectoryRequest =
  cdr_Path :: string
  cdr_CreateParents :: bool

record DeleteFileRequest =
  dfr_Path :: string
  dfr_Recursive :: bool

record RenameFileRequest =
  rnr_SourcePath :: string
  rnr_TargetPath :: string

record RenameFileResultDTO =
  rnd_SourcePath :: string
  rnd_TargetPath :: string
  rnd_WrittenBytes :: "64 word"

record DownloadFileQuery =
  dq_Path :: string
  dq_Offset :: "64 word"
  dq_Limit :: "64 word"

record DownloadFileResult =
  dr_Path :: string
  dr_StartOffset :: "64 word"
  dr_EndOffset :: "64 word"
  dr_TotalSize :: "64 word"
  dr_DownloadedBytes :: "64 word"

record UploadFileRequest =
  ur_Path :: string
  ur_Offset :: "64 word"

record UploadFileResult =
  up_Path :: string
  up_UploadedBytes :: "64 word"
  up_TotalSize :: "64 word"

section \<open>Single calls\<close>

text \<open>\<^verbatim>\<open>result, err := s.agentClient.X(...); if err != nil { return mapAgentError(err) }\<close>, then the
  reply in the terms of the API.\<close>

definition translated ::
  "(world, 'a result) state \<Rightarrow> ('a \<Rightarrow> 'b) \<Rightarrow> (world, 'b result) state" where
  "translated m f = do {
     r \<leftarrow> m;
     ret (case r of Inl err \<Rightarrow> Inl (mapAgentError err) | Inr x \<Rightarrow> Inr (f x))
   }"

definition mapFileEntry :: "FileEntry \<Rightarrow> FileEntryDTO" where
  "mapFileEntry item = \<lparr>fd_Name = fe_Name item, fd_Path = fe_Path item, fd_IsDir = fe_IsDir item,
     fd_Size = fe_Size item, fd_ModifiedAt = fe_ModifiedAtUnix item\<rparr>"

definition ListFiles :: "file_conn \<Rightarrow> string \<Rightarrow> (world, ListFilesResultDTO result) state" where
  "ListFiles c path = translated (Client_ListFiles c path) (\<lambda>r.
     \<lparr>ld_CurrentPath = lf_CurrentPath r, ld_Entries = map mapFileEntry (lf_Entries r)\<rparr>)"

definition ReadTextFile ::
  "file_conn \<Rightarrow> ReadTextFileRequest \<Rightarrow> (world, ReadTextFileResultDTO result) state" where
  "ReadTextFile c req =
     translated (Client_ReadTextFile c (rtr_Path req) (rtr_MaxBytes req) (rtr_Encoding req)) (\<lambda>r.
       \<lparr>rtd_Path = rt_Path r, rtd_Content = rt_Content r, rtd_Size = rt_Size r,
        rtd_Truncated = rt_Truncated r, rtd_Encoding = rt_Encoding r\<rparr>)"

definition WriteTextFile ::
  "file_conn \<Rightarrow> WriteTextFileRequest \<Rightarrow> (world, WriteTextFileResultDTO result) state" where
  "WriteTextFile c req =
     translated (Client_WriteTextFile c (wtr_Path req) (wtr_Content req) (wtr_CreateIfNotExists req)
         (wtr_Truncate req) (wtr_Encoding req)) (\<lambda>r.
       \<lparr>wtd_Path = wt_Path r, wtd_WrittenBytes = wt_WrittenBytes r\<rparr>)"

definition CreateDirectory ::
  "file_conn \<Rightarrow> CreateDirectoryRequest \<Rightarrow> (world, string result) state" where
  "CreateDirectory c req =
     translated (Client_CreateDirectory c (cdr_Path req) (cdr_CreateParents req)) cd_Path"

definition DeleteFile :: "file_conn \<Rightarrow> DeleteFileRequest \<Rightarrow> (world, string result) state" where
  "DeleteFile c req = translated (Client_DeleteFile c (dfr_Path req) (dfr_Recursive req)) df_Path"

definition RenameFile ::
  "file_conn \<Rightarrow> RenameFileRequest \<Rightarrow> (world, RenameFileResultDTO result) state" where
  "RenameFile c req =
     (let sourcePath = TrimSpace (rnr_SourcePath req);
          targetPath = TrimSpace (rnr_TargetPath req)
      in if sourcePath = [] \<or> targetPath = [] then
           ret (Inl (wrapAs ErrBadRequest (Plain ''source_path and target_path are required'')))
         else if sourcePath = targetPath then
           ret (Inl (wrapAs ErrBadRequest
             (Plain ''source_path and target_path cannot be the same'')))
         else translated (Client_RenameFile c sourcePath targetPath) (\<lambda>r.
           let normalizedSource = TrimSpace (rn_SourcePath r);
               normalizedTarget = TrimSpace (rn_TargetPath r)
           in \<lparr>rnd_SourcePath = (if normalizedSource = [] then sourcePath else normalizedSource),
               rnd_TargetPath = (if normalizedTarget = [] then targetPath else normalizedTarget),
               rnd_WrittenBytes = rn_MovedBytes r\<rparr>))"

section \<open>Download\<close>

definition downloadChunkSize :: "32 word" where "downloadChunkSize = 256 * 1024"

text \<open>The local variables of the loop, and the state of the owner of \<^verbatim>\<open>writeChunk\<close>.\<close>

record 'b download =
  d_offset :: "64 word"
  d_normalizedPath :: string
  d_downloadedBytes :: "64 word"
  d_totalSize :: "64 word"
  d_remaining :: "64 word"
  d_sink :: 'b

type_synonym 'b writer = "'b \<Rightarrow> string \<Rightarrow> go_error option \<times> 'b"

definition offsetMismatch :: "string \<Rightarrow> 64 word \<Rightarrow> 64 word \<Rightarrow> go_error" where
  "offsetMismatch what got want = wrapAs ErrInternal
     (Plain (what @ '': got '' @ itoa (uint got) @ '', want '' @ itoa (uint want)))"

definition downloadLimit :: "64 word \<Rightarrow> 32 word" where
  "downloadLimit remaining =
     (if remaining > 0 \<and> remaining < ucast downloadChunkSize then ucast remaining
      else downloadChunkSize)"

text \<open>The path reported to the caller: the first one the agent names, else the one asked for.\<close>

definition normalizedPath :: "string \<Rightarrow> string \<Rightarrow> string \<Rightarrow> string" where
  "normalizedPath known path reported =
     (if known \<noteq> [] then known else if TrimSpace reported = [] then path else TrimSpace reported)"

text \<open>The part of a chunk that is still wanted.\<close>

definition clip :: "64 word \<Rightarrow> string \<Rightarrow> string" where
  "clip remaining chunk =
     (if remaining > 0 \<and> of_nat (length chunk) > remaining then take (unat remaining) chunk
      else chunk)"

text \<open>
  What the loop body does with a chunk: on with new values (\<^const>\<open>Inl\<close>), or out of the loop
  with an error or by \<^verbatim>\<open>break\<close>.
\<close>

definition download_chunk ::
  "'b writer \<Rightarrow> string \<Rightarrow> 64 word \<Rightarrow> ReadFileChunkResult \<Rightarrow> 'b download \<Rightarrow>
    'b download + go_error option \<times> 'b download" where
  "download_chunk writeChunk path queryLimit chunk d =
     (let d1 = d\<lparr>d_normalizedPath := normalizedPath (d_normalizedPath d) path (rc_Path chunk),
            d_totalSize := (if rc_TotalSize chunk > 0 then rc_TotalSize chunk else d_totalSize d)\<rparr>
      in if rc_Offset chunk \<noteq> d_offset d1 then
           Inr (Some (offsetMismatch ''unexpected chunk offset'' (rc_Offset chunk) (d_offset d1)), d1)
         else
           (let writeBytes = clip (d_remaining d1) (rc_Chunk chunk);
                (failed, sink) = (if rc_Chunk chunk = [] then (None, d_sink d1)
                   else writeChunk (d_sink d1) writeBytes);
                d2 = d1\<lparr>d_sink := sink\<rparr>
            in case failed of
                 Some err \<Rightarrow> Inr (Some (Wrap (Code ErrInternal) (HTTPStatus ErrInternal)
                   ''stream write failed'' err), d2)
               | None \<Rightarrow>
                   (let writtenLen =
                          (if rc_Chunk chunk = [] then 0 else of_nat (length writeBytes));
                        d3 = d2\<lparr>d_offset := d_offset d2 + writtenLen,
                          d_downloadedBytes := d_downloadedBytes d2 + writtenLen,
                          d_remaining := (if d_remaining d2 > 0
                            then d_remaining d2 - writtenLen else d_remaining d2)\<rparr>
                    in if rc_EOF chunk \<or> (queryLimit > 0 \<and> d_remaining d3 = 0) then Inr (None, d3)
                       else if rc_Chunk chunk = [] then
                         Inr (Some (wrapAs ErrInternal
                           (Plain ''core-agent returned empty chunk before EOF'')), d3)
                       else Inl d3)))"

text \<open>One pass of the loop.\<close>

definition download_pass ::
  "file_conn \<Rightarrow> 'b writer \<Rightarrow> string \<Rightarrow> 64 word \<Rightarrow> 'b download \<Rightarrow>
    (world, 'b download + go_error option \<times> 'b download) state" where
  "download_pass c writeChunk path queryLimit d =
     (if d_remaining d = 0 \<and> queryLimit > 0 then ret (Inr (None, d))
      else do {
        r \<leftarrow> Client_ReadFileChunk c path (d_offset d) (downloadLimit (d_remaining d));
        ret (case r of
               Inl err \<Rightarrow> Inr (Some (mapAgentError err), d)
             | Inr chunk \<Rightarrow> download_chunk writeChunk path queryLimit chunk d)
      })"

definition DownloadFile ::
  "file_conn \<Rightarrow> DownloadFileQuery \<Rightarrow> 'b writer option \<Rightarrow> 'b \<Rightarrow> world \<Rightarrow>
    ((DownloadFileResult result \<times> 'b) \<times> world) option" where
  "DownloadFile c query writeChunk sink w =
     (let path = TrimSpace (dq_Path query) in
      if path = [] then
        Some ((Inl (wrapAs ErrBadRequest (Plain ''path is required'')), sink), w)
      else case writeChunk of
        None \<Rightarrow> Some ((Inl (wrapAs ErrInternal (Plain ''download writer is required'')), sink), w)
      | Some wr \<Rightarrow>
          (case forever (download_pass c wr path (dq_Limit query))
             \<lparr>d_offset = dq_Offset query, d_normalizedPath = [], d_downloadedBytes = 0,
              d_totalSize = 0, d_remaining = dq_Limit query, d_sink = sink\<rparr> w of
             None \<Rightarrow> None
           | Some ((Some err, d), w') \<Rightarrow> Some ((Inl err, d_sink d), w')
           | Some ((None, d), w') \<Rightarrow> Some ((Inr
               \<lparr>dr_Path = d_normalizedPath d, dr_StartOffset = dq_Offset query,
                dr_EndOffset = (if d_downloadedBytes d > 0
                  then dq_Offset query + d_downloadedBytes d - 1 else dq_Offset query),
                dr_TotalSize = (if d_totalSize d = 0 then d_offset d else d_totalSize d),
                dr_DownloadedBytes = d_downloadedBytes d\<rparr>, d_sink d), w')))"

section \<open>Upload\<close>

definition uploadChunkSize :: nat where "uploadChunkSize = 256 * 1024"

definition io_EOF :: go_error where "io_EOF = Lib ''EOF''"

record chunk_read =
  cr_buffer :: string
  cr_len :: int
  cr_err :: "go_error option"

type_synonym 'r reader = "'r \<Rightarrow> nat \<Rightarrow> chunk_read \<times> 'r"

record 'r upload =
  u_offset :: "64 word"
  u_normalizedPath :: string
  u_totalSize :: "64 word"
  u_wroteChunk :: bool
  u_source :: 'r

definition upload_pass ::
  "file_conn \<Rightarrow> 'r reader \<Rightarrow> string \<Rightarrow> 'r upload \<Rightarrow>
    (world, 'r upload + go_error option \<times> 'r upload) state" where
  "upload_pass c readChunk path u =
     (let (cr, source) = readChunk (u_source u) uploadChunkSize;
          readLen = cr_len cr;
          readErr = cr_err cr;
          u1 = u\<lparr>u_source := source\<rparr>;
          pass_end = (\<lambda>u. ret (if readErr = Some io_EOF then Inr (None, u) else Inl u))
      in if readErr \<noteq> None \<and> readErr \<noteq> Some io_EOF then
           ret (Inr (Some (Wrap (Code ErrInternal) (HTTPStatus ErrInternal)
             ''stream read failed'' (the readErr)), u1))
         else if readLen < 0 \<or> readLen > int uploadChunkSize then
           ret (Inr (Some (wrapAs ErrInternal
             (Plain (''invalid stream chunk length: '' @ itoa readLen))), u1))
         else if readLen > 0 then do {
           r \<leftarrow> Client_WriteFileChunk c path (u_offset u1) (take (nat readLen) (cr_buffer cr)) True
                 (u_offset u1 = 0 \<and> \<not> u_wroteChunk u1);
           case r of
             Inl err \<Rightarrow> ret (Inr (Some (mapAgentError err), u1))
           | Inr result \<Rightarrow>
               if wc_Offset result \<noteq> u_offset u1 then
                 ret (Inr (Some (offsetMismatch ''unexpected write offset'' (wc_Offset result)
                   (u_offset u1)), u1))
               else if wc_WrittenBytes result \<noteq> of_int readLen then
                 ret (Inr (Some (offsetMismatch ''unexpected written bytes''
                   (wc_WrittenBytes result) (of_int readLen)), u1))
               else pass_end (u1\<lparr>u_offset := u_offset u1 + of_int readLen,
                 u_totalSize := wc_TotalSize result, u_wroteChunk := True,
                 u_normalizedPath := (if u_normalizedPath u1 = [] then TrimSpace (wc_Path result)
                   else u_normalizedPath u1)\<rparr>)
         }
         else pass_end u1)"

text \<open>After the loop: an empty stream at offset 0 still creates (and empties) the file.\<close>

definition upload_empty ::
  "file_conn \<Rightarrow> string \<Rightarrow> UploadFileRequest \<Rightarrow> 'r upload \<Rightarrow> (world, 'r upload result) state" where
  "upload_empty c path req u =
     (if \<not> u_wroteChunk u \<and> ur_Offset req = 0 then do {
        r \<leftarrow> Client_WriteFileChunk c path 0 [] True True;
        ret (case r of
               Inl err \<Rightarrow> Inl (mapAgentError err)
             | Inr result \<Rightarrow> Inr (u\<lparr>u_totalSize := wc_TotalSize result,
                 u_normalizedPath := (if u_normalizedPath u = [] then TrimSpace (wc_Path result)
                   else u_normalizedPath u)\<rparr>))
      }
      else ret (Inr u))"

definition upload_result :: "string \<Rightarrow> 'r upload \<Rightarrow> UploadFileResult" where
  "upload_result path u =
     \<lparr>up_Path = (if u_normalizedPath u = [] then path else u_normalizedPath u),
      up_UploadedBytes = u_offset u,
      up_TotalSize = (if u_totalSize u = 0 then u_offset u else u_totalSize u)\<rparr>"

definition UploadFile ::
  "file_conn \<Rightarrow> UploadFileRequest \<Rightarrow> 'r reader option \<Rightarrow> 'r \<Rightarrow> world \<Rightarrow>
    ((UploadFileResult result \<times> 'r) \<times> world) option" where
  "UploadFile c req readChunk source w =
     (let path = TrimSpace (ur_Path req) in
      if path = [] then
        Some ((Inl (wrapAs ErrBadRequest (Plain ''path is required'')), source), w)
      else case readChunk of
        None \<Rightarrow> Some ((Inl (wrapAs ErrInternal (Plain ''upload reader is required'')), source), w)
      | Some rd \<Rightarrow>
          (case forever (upload_pass c rd path)
             \<lparr>u_offset = ur_Offset req, u_normalizedPath = [], u_totalSize = 0,
              u_wroteChunk = False, u_source = source\<rparr> w of
             None \<Rightarrow> None
           | Some ((Some err, u), w') \<Rightarrow> Some ((Inl err, u_source u), w')
           | Some ((None, u), w') \<Rightarrow>
               (case run_state (upload_empty c path req u) w' of
                  (Inl err, w'') \<Rightarrow> Some ((Inl err, u_source u), w'')
                | (Inr u', w'') \<Rightarrow> Some ((Inr (upload_result path u'), u_source u'), w''))))"

end
