(* ===== verification/CoreAgent.thy ===== *)
theory CoreAgent
  imports AgentFiles
begin

text \<open>
  The other end of the chunked file calls: \<^verbatim>\<open>read_file_chunk\<close> and \<^verbatim>\<open>write_file_chunk\<close> of
  the core agent (\<^verbatim>\<open>core-agent/src/file/service.rs\<close>), behind the feature gate of
  \<^verbatim>\<open>core-agent/src/api/grpc_server.rs\<close>.

  The file system is a map from absolute paths to files and directories, and its system calls
  on what exists succeed (the properties of the backend for an arbitrary agent cover the
  rest). Parameters (\<open>core_agent\<close>): the validation of paths, which resolves links in the file
  system, the parent of a path (\<^verbatim>\<open>Path::parent\<close>), and how many of the available bytes
  \<^verbatim>\<open>Read::read\<close> returns, which may be fewer than asked for.
\<close>

datatype fsnode = File (bytes: string) | Dir

type_synonym fs = "string \<rightharpoonup> fsnode"

record FileError =
  fer_code :: int
  fer_message :: string
  fer_detail :: string

definition bad_request :: "string \<Rightarrow> FileError" where
  "bad_request d = \<lparr>fer_code = 4000, fer_message = ''bad request'', fer_detail = d\<rparr>"

definition not_found :: "string \<Rightarrow> FileError" where
  "not_found d = \<lparr>fer_code = 4002, fer_message = ''path not found'', fer_detail = d\<rparr>"

definition file_too_large :: "string \<Rightarrow> FileError" where
  "file_too_large d = \<lparr>fer_code = 4004, fer_message = ''file too large'', fer_detail = d\<rparr>"

definition io_error :: "string \<Rightarrow> FileError" where
  "io_error d = \<lparr>fer_code = 4005, fer_message = ''io error'', fer_detail = d\<rparr>"

record core_agent =
  ca_enabled :: bool
  ca_validate :: "fs \<Rightarrow> bool \<Rightarrow> string \<Rightarrow> FileError + string"  \<comment> \<open>for writing?, path\<close>
  ca_parent :: "string \<Rightarrow> string option"
  ca_max_read_bytes :: nat
  ca_max_write_bytes :: nat
  ca_read_len :: "nat \<Rightarrow> nat \<Rightarrow> nat"  \<comment> \<open>buffer size, bytes available\<close>

definition envelope_of :: "FileError \<Rightarrow> envelope" where
  "envelope_of e = Some (fer_code e, fer_message e, fer_detail e)"

definition gate_closed :: go_error where
  "gate_closed = GrpcStatus codes_PermissionDenied
     ''file operations disabled by core-agent feature gate''"

definition no_read :: ReadFileChunkResult where
  "no_read = \<lparr>rc_Path = [], rc_Offset = 0, rc_Chunk = [], rc_TotalSize = 0, rc_EOF = False\<rparr>"

definition no_write :: WriteFileChunkResult where
  "no_write = \<lparr>wc_Path = [], wc_Offset = 0, wc_WrittenBytes = 0, wc_TotalSize = 0\<rparr>"

definition Error_ok :: envelope where "Error_ok = Some (0, ''ok'', [])"

definition read_file_chunk ::
  "core_agent \<Rightarrow> fs \<Rightarrow> string \<Rightarrow> 64 word \<Rightarrow> 32 word \<Rightarrow> ReadFileChunkResult wire" where
  "read_file_chunk ca fs path offset limit =
     (if \<not> ca_enabled ca then CallError gate_closed
      else case ca_validate ca fs False path of
        Inl e \<Rightarrow> Response (envelope_of e) no_read
      | Inr p \<Rightarrow>
          (case fs p of
             None \<Rightarrow> Response (envelope_of (io_error (''cannot read metadata for '' @ p))) no_read
           | Some Dir \<Rightarrow> Response (envelope_of (bad_request (p @ '' is not a file''))) no_read
           | Some (File content) \<Rightarrow>
               (let total = length content; off = unat offset in
                if off > total then
                  Response (envelope_of (bad_request (''offset exceeds file size''))) no_read
                else if off = total then
                  Response Error_ok \<lparr>rc_Path = p, rc_Offset = offset, rc_Chunk = [],
                    rc_TotalSize = of_nat total, rc_EOF = True\<rparr>
                else
                  (let max_read_bytes = max (ca_max_read_bytes ca) 1;
                       max_allowed = (if limit > 0 then min (unat limit) max_read_bytes
                         else max_read_bytes);
                       read_len = ca_read_len ca max_allowed (total - off)
                   in Response Error_ok \<lparr>rc_Path = p, rc_Offset = offset,
                        rc_Chunk = take read_len (drop off content),
                        rc_TotalSize = of_nat total,
                        rc_EOF = (min (off + read_len) (2 ^ 64 - 1) \<ge> total)\<rparr>))))"

text \<open>What a file holds once it is opened for writing.\<close>

definition opened :: "fs \<Rightarrow> string \<Rightarrow> bool \<Rightarrow> string" where
  "opened fs p trunc = (case fs p of Some (File content) \<Rightarrow> if trunc then [] else content | _ \<Rightarrow> [])"

definition write_file_chunk ::
  "core_agent \<Rightarrow> fs \<Rightarrow> string \<Rightarrow> 64 word \<Rightarrow> string \<Rightarrow> bool \<Rightarrow> bool \<Rightarrow> WriteFileChunkResult wire \<times> fs" where
  "write_file_chunk ca fs path offset chunk create_if_not_exists trunc =
     (if \<not> ca_enabled ca then (CallError gate_closed, fs)
      else case ca_validate ca fs True path of
        Inl e \<Rightarrow> (Response (envelope_of e) no_write, fs)
      | Inr p \<Rightarrow>
          (let fail = (\<lambda>e fs. (Response (envelope_of e) no_write, fs)) in
           if length chunk > ca_max_write_bytes ca then
             fail (file_too_large ''chunk size exceeds max_write_bytes'') fs
           else if trunc \<and> offset > 0 then
             fail (bad_request ''truncate upload chunk requires offset=0'') fs
           else if (case ca_parent ca p of None \<Rightarrow> False | Some d \<Rightarrow> fs d = None) then
             fail (bad_request ''parent path does not exist'') fs
           else if fs p = None \<and> \<not> create_if_not_exists then
             fail (not_found (p @ '' does not exist'')) fs
           else if fs p = Some Dir then fail (io_error (''cannot open '' @ p)) fs
           else
             (let current = opened fs p trunc;
                  fs1 = fs(p \<mapsto> File current)
              in if unat offset > length current then
                   fail (bad_request (''offset exceeds file size'')) fs1
                 else
                   (let written = take (unat offset) current @ chunk @
                          drop (unat offset + length chunk) current
                    in (Response Error_ok \<lparr>wc_Path = p, wc_Offset = offset,
                          wc_WrittenBytes = of_nat (length chunk),
                          wc_TotalSize = of_nat (length written)\<rparr>,
                        fs1(p \<mapsto> File written))))))"

section \<open>The agent as the peer of the client\<close>

text \<open>
  The agent whose files are \<open>fs\<close> when \<open>k\<close> requests have been sent, and whom only the chunked
  calls are sent from then on: its files after a history, and its answers.
\<close>

definition serve :: "core_agent \<Rightarrow> fs \<Rightarrow> rpc_request \<Rightarrow> fs" where
  "serve ca fs q = (case q of
       WriteFileChunkReq p off chunk create trunc \<Rightarrow> snd (write_file_chunk ca fs p off chunk create trunc)
     | _ \<Rightarrow> fs)"

definition agent_fs :: "core_agent \<Rightarrow> fs \<Rightarrow> nat \<Rightarrow> rpc_request list \<Rightarrow> fs" where
  "agent_fs ca fs k h = foldl (serve ca) fs (drop k h)"

definition core_conn :: "core_agent \<Rightarrow> fs \<Rightarrow> nat \<Rightarrow> file_conn \<Rightarrow> file_conn" where
  "core_conn ca fs k others = others
     \<lparr>conn_ReadFileChunk := (\<lambda>h q. read_file_chunk ca (agent_fs ca fs k h) (rc_path q) (rc_offset q)
        (rc_limit q)),
      conn_WriteFileChunk := (\<lambda>h q. fst (write_file_chunk ca (agent_fs ca fs k h) (wc_path q)
        (wc_offset q) (wc_chunk q) (wc_create q) (wc_truncate q)))\<rparr>"

text \<open>What \<^verbatim>\<open>Read::read\<close> promises: at least one byte while there are any, never too many.\<close>

definition reads_some :: "core_agent \<Rightarrow> bool" where
  "reads_some ca = (\<forall>n a. 0 < n \<longrightarrow> 0 < a \<longrightarrow> 0 < ca_read_len ca n a \<and> ca_read_len ca n a \<le> min n a)"

lemma agent_fs_snoc:
  "k \<le> length h \<Longrightarrow> agent_fs ca fs k (h @ [q]) = serve ca (agent_fs ca fs k h) q"
  by (simp add: agent_fs_def)

lemma agent_fs_start [simp]: "agent_fs ca fs (length h) h = fs"
  by (simp add: agent_fs_def)

lemma serve_read [simp]: "serve ca fs (ReadFileChunkReq p off l) = fs"
  by (simp add: serve_def)

lemma core_conn_simps [simp]:
  "conn_ReadFileChunk (core_conn ca fs k others) h (ReadFileChunkReq p off l) =
     read_file_chunk ca (agent_fs ca fs k h) p off l"
  "conn_WriteFileChunk (core_conn ca fs k others) h (WriteFileChunkReq p off x cr tr) =
     fst (write_file_chunk ca (agent_fs ca fs k h) p off x cr tr)"
  by (simp_all add: core_conn_def)

text \<open>A read inside a file: a non-empty part of what is left, and the end of file exactly there.\<close>

lemma read_file_chunk_inside:
  assumes "ca_enabled ca" "ca_validate ca fs False path = Inr p" "fs p = Some (File content)"
    and size: "length content < 2 ^ 64" and off: "unat offset < length content"
    and rd: "reads_some ca" and limit: "limit > 0"
  shows "\<exists>n. 0 < n \<and> n \<le> unat limit \<and> unat offset + n \<le> length content \<and>
    read_file_chunk ca fs path offset limit = Response Error_ok
      \<lparr>rc_Path = p, rc_Offset = offset, rc_Chunk = take n (drop (unat offset) content),
       rc_TotalSize = of_nat (length content), rc_EOF = (unat offset + n = length content)\<rparr>"
proof -
  define m where "m = min (unat limit) (max (ca_max_read_bytes ca) 1)"
  define n where "n = ca_read_len ca m (length content - unat offset)"
  have "0 < unat limit" using limit by (simp add: word_gt_0 unat_gt_0)
  then have "0 < m" "m \<le> unat limit" by (auto simp: m_def)
  moreover from this off rd have "0 < n" "n \<le> m" "n \<le> length content - unat offset"
    by (auto simp: reads_some_def n_def)
  moreover have "(min (unat offset + n) (2 ^ 64 - 1) \<ge> length content) \<longleftrightarrow>
      unat offset + n = length content"
    using calculation size off by auto
  ultimately show ?thesis
    using assms by (intro exI [of _ n]) (auto simp: read_file_chunk_def Let_def m_def n_def)
qed

lemma read_file_chunk_end:
  assumes "ca_enabled ca" "ca_validate ca fs False path = Inr p" "fs p = Some (File content)"
    and "unat offset = length content"
  shows "read_file_chunk ca fs path offset limit = Response Error_ok
      \<lparr>rc_Path = p, rc_Offset = offset, rc_Chunk = [], rc_TotalSize = of_nat (length content),
       rc_EOF = True\<rparr>"
  using assms by (simp add: read_file_chunk_def)

end
