(* ===== verification/FileDownload.thy ===== *)
theory FileDownload
  imports FileService CoreAgent
begin

text \<open>
  Lemmas on the download loop: one pass of it against an agent that may answer anything, and
  against the core agent of \<^theory_text>\<open>CoreAgent\<close>.
\<close>

text \<open>The writer that the HTTP handler passes in (\<^verbatim>\<open>file_handler.go\<close>): it buffers every chunk.\<close>

definition bufferChunk :: "string list writer" where
  "bufferChunk bufferedChunks chunk = (None, bufferedChunks @ [chunk])"

text \<open>A Go slice is shorter than \<^verbatim>\<open>2^63\<close> (\<^verbatim>\<open>len\<close> is an \<^verbatim>\<open>int\<close>).\<close>

definition go_chunks :: "file_conn \<Rightarrow> bool" where
  "go_chunks c = (\<forall>h q r. reply_of (conn_ReadFileChunk c h q) = Inr r \<longrightarrow> length (rc_Chunk r) < 2 ^ 63)"

lemma forever_Inl:
  "run_state (step s) w = (Inl s', w') \<Longrightarrow> forever step s w = forever step s' w'"
  by (subst forever.simps) simp

section \<open>Words and lengths\<close>

lemma unat_of_small: "n < 2 ^ 64 \<Longrightarrow> unat (of_nat n :: 64 word) = n"
  by (simp add: unsigned_of_nat take_bit_nat_eq_self)

lemma unat_64: "unat (r :: 64 word) < 2 ^ 64"
  using unsigned_less [of r] by simp

lemma of_nat_gt_word: "n < 2 ^ 63 \<Longrightarrow> (r :: 64 word) < of_nat n \<longleftrightarrow> unat r < n"
  by (simp add: word_less_nat_alt unat_of_small)

lemma unat_narrow: "(r :: 64 word) < ucast downloadChunkSize \<Longrightarrow> unat (ucast r :: 32 word) = unat r"
  by (simp add: downloadChunkSize_def word_less_nat_alt unsigned_ucast_eq take_bit_nat_eq_self)

lemma downloadLimit_pos: "0 < downloadLimit r"
  using unat_narrow [of r]
  by (auto simp: downloadLimit_def downloadChunkSize_def word_less_nat_alt)

lemma downloadLimit_le: "r > 0 \<Longrightarrow> unat (downloadLimit r) \<le> unat r"
  using unat_narrow [of r]
  by (auto simp: downloadLimit_def downloadChunkSize_def word_less_nat_alt)

section \<open>One pass, whatever the agent answers\<close>

text \<open>
  The bookkeeping of a download with a limit: what was handed to the writer, what the counters
  say, and what is still to come.
\<close>

definition ranged :: "64 word \<Rightarrow> 64 word \<Rightarrow> string list download \<Rightarrow> bool" where
  "ranged start queryLimit d \<longleftrightarrow>
     unat (d_downloadedBytes d) + unat (d_remaining d) = unat queryLimit \<and>
     length (concat (d_sink d)) = unat (d_downloadedBytes d) \<and>
     d_offset d = start + d_downloadedBytes d"

lemma ranged_step:
  assumes "ranged start L d" "0 < d_remaining d" "length xs \<le> unat (d_remaining d)"
  shows "ranged start L (d\<lparr>d_normalizedPath := p, d_totalSize := t, d_sink := d_sink d @ [xs],
     d_offset := d_offset d + of_nat (length xs),
     d_downloadedBytes := d_downloadedBytes d + of_nat (length xs),
     d_remaining := d_remaining d - of_nat (length xs)\<rparr>)"
    and "unat (d_remaining d - of_nat (length xs)) = unat (d_remaining d) - length xs"
    and "d_remaining d = of_nat (length xs) \<longleftrightarrow> unat (d_remaining d) = length xs"
proof -
  have n: "unat (of_nat (length xs) :: 64 word) = length xs"
    using assms(3) unat_64 [of "d_remaining d"] by (simp add: unat_of_small)
  show "d_remaining d = of_nat (length xs) \<longleftrightarrow> unat (d_remaining d) = length xs"
    using n by (metis word_unat_eq_iff)
  from n have le: "of_nat (length xs) \<le> d_remaining d"
    using assms(3) by (simp add: word_le_nat_alt)
  then show sub: "unat (d_remaining d - of_nat (length xs)) = unat (d_remaining d) - length xs"
    using n by (simp add: unat_sub)
  have "unat (d_downloadedBytes d) + length xs < 2 ^ 64"
    using assms unat_64 [of L] by (simp add: ranged_def)
  then have add: "unat (d_downloadedBytes d + of_nat (length xs)) =
      unat (d_downloadedBytes d) + length xs"
    using n by (simp add: unat_word_ariths)
  show "ranged start L (d\<lparr>d_normalizedPath := p, d_totalSize := t, d_sink := d_sink d @ [xs],
     d_offset := d_offset d + of_nat (length xs),
     d_downloadedBytes := d_downloadedBytes d + of_nat (length xs),
     d_remaining := d_remaining d - of_nat (length xs)\<rparr>)"
    using assms add sub by (simp add: ranged_def)
qed

text \<open>A chunk with bytes at the right offset, and a writer that takes them.\<close>

definition advance :: "string \<Rightarrow> ReadFileChunkResult \<Rightarrow> string \<Rightarrow> 'b \<Rightarrow> 'b download \<Rightarrow> 'b download" where
  "advance path ch xs sink d = d
     \<lparr>d_normalizedPath := normalizedPath (d_normalizedPath d) path (rc_Path ch),
      d_totalSize := (if rc_TotalSize ch > 0 then rc_TotalSize ch else d_totalSize d),
      d_sink := sink,
      d_offset := d_offset d + of_nat (length xs),
      d_downloadedBytes := d_downloadedBytes d + of_nat (length xs),
      d_remaining := (if d_remaining d > 0 then d_remaining d - of_nat (length xs) else d_remaining d)\<rparr>"

lemma download_chunk_bytes:
  assumes "rc_Chunk ch \<noteq> []" "rc_Offset ch = d_offset d"
    and "clip (d_remaining d) (rc_Chunk ch) = xs" "wr (d_sink d) xs = (None, sink)"
  shows "download_chunk wr path L ch d =
     (if rc_EOF ch \<or> (L > 0 \<and> d_remaining (advance path ch xs sink d) = 0)
      then Inr (None, advance path ch xs sink d) else Inl (advance path ch xs sink d))"
  using assms by (auto simp: download_chunk_def advance_def Let_def)

lemma ranged_chunk:
  assumes d: "ranged start L d" "0 < d_remaining d" and fit: "length (rc_Chunk ch) < 2 ^ 63"
  shows "case download_chunk bufferChunk path L ch d of
      Inl d' \<Rightarrow> ranged start L d' \<and> 0 < d_remaining d' \<and> unat (d_remaining d') < unat (d_remaining d)
    | Inr (e, d') \<Rightarrow> ranged start L d'"
proof -
  let ?xs = "clip (d_remaining d) (rc_Chunk ch)"
  have xs: "length ?xs \<le> unat (d_remaining d)"
    using d of_nat_gt_word [OF fit] by (auto simp: clip_def)
  have L: "L > 0" using d by (auto simp: ranged_def word_less_nat_alt)
  have r: "d_remaining d \<noteq> 0" using d(2) by auto
  show ?thesis
  proof (cases "rc_Chunk ch = [] \<or> rc_Offset ch \<noteq> d_offset d")
    case True
    with d L r show ?thesis by (auto simp: download_chunk_def Let_def ranged_def)
  next
    case False
    then have some: "0 < length ?xs" using d(2) by (auto simp: clip_def word_less_nat_alt)
    have "download_chunk bufferChunk path L ch d =
     (let d' = advance path ch ?xs (d_sink d @ [?xs]) d in
      if rc_EOF ch \<or> (L > 0 \<and> d_remaining d' = 0) then Inr (None, d') else Inl d')"
      using False download_chunk_bytes [of ch d ?xs bufferChunk "d_sink d @ [?xs]" path L]
      by (simp add: bufferChunk_def Let_def)
    moreover have "ranged start L (advance path ch ?xs (d_sink d @ [?xs]) d)"
      using ranged_step(1) [OF d xs] d(2) by (simp add: advance_def)
    moreover have "d_remaining (advance path ch ?xs (d_sink d @ [?xs]) d) =
        d_remaining d - of_nat (length ?xs)"
      using d(2) by (simp add: advance_def)
    ultimately show ?thesis
      using L some xs ranged_step(2,3) [OF d xs]
      by (auto simp: Let_def word_less_nat_alt)
  qed
qed

text \<open>The pass as a whole, with the request it sends.\<close>

lemma run_download_pass:
  assumes "d_remaining d = 0 \<longrightarrow> L = 0"
    and "q = ReadFileChunkReq path (d_offset d) (downloadLimit (d_remaining d))"
  shows "\<exists>m. run_state (download_pass c wr path L d) w =
     (case reply_of (conn_ReadFileChunk c (rpc_log w) q) of
        Inl e \<Rightarrow> Inr (Some (mapAgentError e), d)
      | Inr ch \<Rightarrow> download_chunk wr path L ch d,
      w\<lparr>rpc_log := rpc_log w @ [q], metrics := metrics w @ [m]\<rparr>)"
  using assms run_agent_rpc [of "''file.read_chunk''" "conn_ReadFileChunk c" q w]
  by (auto simp: download_pass_def Client_ReadFileChunk_def)

lemma ranged_pass:
  assumes d: "ranged start L d" "0 < d_remaining d" and fit: "go_chunks c"
    and run: "run_state (download_pass c bufferChunk path L d) w = (x, w')"
  shows "length (rpc_log w') = length (rpc_log w) + 1 \<and> (case x of
         Inl d' \<Rightarrow> ranged start L d' \<and> 0 < d_remaining d' \<and> unat (d_remaining d') < unat (d_remaining d)
       | Inr (e, d') \<Rightarrow> ranged start L d')"
proof -
  let ?q = "ReadFileChunkReq path (d_offset d) (downloadLimit (d_remaining d))"
  have "d_remaining d = 0 \<longrightarrow> L = 0" using d(2) by auto
  with run run_download_pass [of d L _ path c bufferChunk w] obtain m where
    x: "x = (case reply_of (conn_ReadFileChunk c (rpc_log w) ?q) of
        Inl e \<Rightarrow> Inr (Some (mapAgentError e), d) | Inr ch \<Rightarrow> download_chunk bufferChunk path L ch d)"
    and w': "w' = w\<lparr>rpc_log := rpc_log w @ [?q], metrics := metrics w @ [m]\<rparr>" by auto
  show ?thesis
  proof (cases "reply_of (conn_ReadFileChunk c (rpc_log w) ?q)")
    case (Inr ch)
    with fit have "length (rc_Chunk ch) < 2 ^ 63" by (auto simp: go_chunks_def)
    from ranged_chunk [OF d this, of path] show ?thesis using x w' Inr by simp
  qed (use d x w' in simp)
qed

lemma ranged_forever:
  assumes "ranged start L d" "0 < d_remaining d" "go_chunks c"
  shows "\<exists>r w'. forever (download_pass c bufferChunk path L) d w = Some (r, w') \<and>
     ranged start L (snd r) \<and> length (rpc_log w') \<le> length (rpc_log w) + unat (d_remaining d)"
  by (rule forever_total [where
        I = "\<lambda>s v. ranged start L s \<and> 0 < d_remaining s \<and>
          length (rpc_log v) + unat (d_remaining s) \<le> length (rpc_log w) + unat (d_remaining d)" and
        m = "\<lambda>s v. unat (d_remaining s)"])
    (use assms in \<open>fastforce dest: ranged_pass simp: word_less_nat_alt\<close>)+

section \<open>One pass against a peer that serves a file\<close>

text \<open>The bytes a download is about, and the answers that make up a faithful chunk of a file.\<close>

definition wanted :: "string \<Rightarrow> 64 word \<Rightarrow> 64 word \<Rightarrow> string" where
  "wanted content start L =
     (if L = 0 then drop (unat start) content else take (unat L) (drop (unat start) content))"

definition chunk_of ::
  "string \<Rightarrow> string \<Rightarrow> 64 word \<Rightarrow> 32 word \<Rightarrow> ReadFileChunkResult \<Rightarrow> bool" where
  "chunk_of content p off limit ch \<longleftrightarrow> rc_Path ch = p \<and> rc_Offset ch = off \<and>
     rc_TotalSize ch = of_nat (length content) \<and>
     (\<exists>n. n \<le> unat limit \<and> unat off + n \<le> length content \<and>
        rc_Chunk ch = take n (drop (unat off) content) \<and> (n = 0 \<longrightarrow> unat off = length content) \<and>
        rc_EOF ch = (unat off + n = length content))"

definition delivered ::
  "string \<Rightarrow> 64 word \<Rightarrow> 64 word \<Rightarrow> nat \<Rightarrow> string list download \<Rightarrow> bool" where
  "delivered content start L n d \<longleftrightarrow> unat start + n \<le> length content \<and>
     d_offset d = start + of_nat n \<and> d_downloadedBytes d = of_nat n \<and>
     concat (d_sink d) = take n (drop (unat start) content) \<and>
     (if L = 0 then d_remaining d = 0 else n \<le> unat L \<and> unat (d_remaining d) = unat L - n)"

lemma delivered_all:
  assumes "delivered content start L n d" "unat start + n = length content \<or> (L \<noteq> 0 \<and> n = unat L)"
  shows "concat (d_sink d) = wanted content start L \<and>
    delivered content start L (length (wanted content start L)) d"
proof -
  have "concat (d_sink d) = wanted content start L" "n = length (wanted content start L)"
    using assms by (auto simp: delivered_def wanted_def min_def split: if_splits)
  with assms(1) show ?thesis by simp
qed

lemma delivered_offset:
  assumes "delivered content start L n d" "length content < 2 ^ 64"
  shows "unat (d_offset d) = unat start + n"
proof -
  have "n < 2 ^ 64" "unat start + n < 2 ^ 64" using assms by (auto simp: delivered_def)
  with assms(1) show ?thesis
    by (simp add: delivered_def unat_word_ariths unat_of_small)
qed

lemma delivered_chunk:
  assumes d: "delivered content start L n d" "L \<noteq> 0 \<longrightarrow> n < unat L" and small: "length content < 2 ^ 64"
    and ch: "chunk_of content p (d_offset d) (downloadLimit (d_remaining d)) ch"
  shows "\<exists>m d'. delivered content start L (n + m) d' \<and>
     d_normalizedPath d' = normalizedPath (d_normalizedPath d) path p \<and>
     (length content > 0 \<longrightarrow> d_totalSize d' = of_nat (length content)) \<and>
     (length content = 0 \<longrightarrow> d_totalSize d' = d_totalSize d) \<and>
     (if unat start + (n + m) = length content \<or> (L \<noteq> 0 \<and> n + m = unat L)
      then download_chunk bufferChunk path L ch d = Inr (None, d')
      else download_chunk bufferChunk path L ch d = Inl d' \<and> 0 < m)"
proof -
  have off: "unat (d_offset d) = unat start + n" by (rule delivered_offset [OF d(1) small])
  obtain m where m: "m \<le> unat (downloadLimit (d_remaining d))" "unat start + (n + m) \<le> length content"
      "rc_Chunk ch = take m (drop (unat start + n) content)" "m = 0 \<longrightarrow> unat start + n = length content"
      "rc_EOF ch = (unat start + (n + m) = length content)"
    using ch unfolding chunk_of_def off by (auto simp: add.assoc)
  have ch': "rc_Path ch = p" "rc_Offset ch = d_offset d" "rc_TotalSize ch = of_nat (length content)"
    using ch by (simp_all add: chunk_of_def)
  have tot: "0 < (of_nat (length content) :: 64 word) \<longleftrightarrow> 0 < length content"
    using small by (simp add: word_less_nat_alt unat_of_small)
  have len: "length (rc_Chunk ch) = m" using m by simp
  have rem: "0 < d_remaining d \<longleftrightarrow> L \<noteq> 0" "0 < d_remaining d \<Longrightarrow> n + m \<le> unat L"
    using d m(1) downloadLimit_le [of "d_remaining d"]
    by (auto simp: delivered_def word_less_nat_alt split: if_splits)
  have clip: "clip (d_remaining d) (rc_Chunk ch) = rc_Chunk ch"
    using d rem(2) len by (auto simp: clip_def delivered_def split: if_splits)
  define d' where "d' = (if m = 0 then d\<lparr>d_normalizedPath := normalizedPath (d_normalizedPath d) path p,
      d_totalSize := (if 0 < length content then of_nat (length content) else d_totalSize d)\<rparr>
    else advance path ch (rc_Chunk ch) (d_sink d @ [rc_Chunk ch]) d)"
  have small_m: "m < 2 ^ 64" using m(2) small by linarith
  have left: "0 < d_remaining d \<Longrightarrow> unat (d_remaining d - of_nat m) = unat L - (n + m)"
    using d rem unat_of_small [OF small_m]
    by (auto simp: delivered_def unat_sub word_le_nat_alt split: if_splits)
  have "delivered content start L (n + m) d'"
  proof (cases "m = 0")
    case False
    have "take (n + m) (drop (unat start) content) =
        take n (drop (unat start) content) @ rc_Chunk ch"
      using take_add [of n m "drop (unat start) content"] by (simp add: m(3) add.commute)
    then show ?thesis
      using d m(2) rem left False len
      by (auto simp: delivered_def d'_def advance_def add.assoc split: if_splits)
  qed (use d in \<open>simp add: delivered_def d'_def\<close>)
  moreover have "d_remaining d' = 0 \<longleftrightarrow> L = 0 \<or> n + m = unat L"
    using calculation rem(2) rem(1) by (auto simp: delivered_def unat_eq_0 [symmetric] split: if_splits)
  moreover have "rc_Chunk ch = [] \<longleftrightarrow> m = 0" using len by auto
  moreover have "if unat start + (n + m) = length content \<or> (L \<noteq> 0 \<and> n + m = unat L)
      then download_chunk bufferChunk path L ch d = Inr (None, d')
      else download_chunk bufferChunk path L ch d = Inl d' \<and> 0 < m"
  proof (cases "m = 0")
    case True
    with ch' tot m(4,5) \<open>rc_Chunk ch = [] \<longleftrightarrow> m = 0\<close> show ?thesis
      by (auto simp: d'_def download_chunk_def Let_def)
  next
    case False
    with ch' calculation(2,3) clip m(5) show ?thesis
      using download_chunk_bytes [of ch d "rc_Chunk ch" bufferChunk "d_sink d @ [rc_Chunk ch]" path L]
      by (auto simp: bufferChunk_def d'_def word_gt_0)
  qed
  moreover have "d_normalizedPath d' = normalizedPath (d_normalizedPath d) path p"
    "length content > 0 \<longrightarrow> d_totalSize d' = of_nat (length content)"
    "length content = 0 \<longrightarrow> d_totalSize d' = d_totalSize d"
    using ch' tot by (auto simp: d'_def advance_def)
  ultimately show ?thesis by blast
qed

end
