(* ===== verification/FileTransfer.thy ===== *)
theory FileTransfer
  imports FileDownload
begin

text \<open>
  Transfers against a peer that keeps a file: the contract of the chunked calls as the locale
  \<open>chunk_store\<close> (reading in \<open>chunk_reader\<close>), what the two loops of the file service achieve
  over it, and the core agent as an instance.
\<close>

section \<open>Reading\<close>

locale chunk_reader =
  fixes c :: file_conn and path p :: string
    and ok :: "rpc_request list \<Rightarrow> bool" and view :: "rpc_request list \<Rightarrow> string option"
  assumes small: "ok h \<Longrightarrow> view h = Some content \<Longrightarrow> length content < 2 ^ 64"
    and read: "ok h \<Longrightarrow> view h = Some content \<Longrightarrow> unat off \<le> length content \<Longrightarrow> 0 < limit \<Longrightarrow>
      \<exists>ch. reply_of (conn_ReadFileChunk c h (ReadFileChunkReq path off limit)) = Inr ch \<and>
        chunk_of content p off limit ch"
    and keep: "ok h \<Longrightarrow> ok (h @ [ReadFileChunkReq path off limit]) \<and>
      view (h @ [ReadFileChunkReq path off limit]) = view h"
begin

lemma download_loop:
  assumes "unat start \<le> length content" "ok (rpc_log w)" "view (rpc_log w) = Some content"
    and d: "d_offset d = start" "d_downloadedBytes d = 0" "concat (d_sink d) = []"
      "d_remaining d = L" "d_normalizedPath d = []" "d_totalSize d = 0"
  shows "\<exists>d' w'. forever (download_pass c bufferChunk path L) d w = Some ((None, d'), w') \<and>
    concat (d_sink d') = wanted content start L \<and>
    delivered content start L (length (wanted content start L)) d' \<and>
    d_normalizedPath d' = normalizedPath [] path p \<and> d_totalSize d' = of_nat (length content) \<and>
    ok (rpc_log w') \<and> view (rpc_log w') = Some content"
proof -
  let ?P = "normalizedPath [] path p"
  let ?len = "of_nat (length content) :: 64 word"
  define I where "I = (\<lambda>s (v :: world). ok (rpc_log v) \<and> view (rpc_log v) = Some content \<and>
    (\<exists>n. delivered content start L n s \<and> (L \<noteq> 0 \<longrightarrow> n < unat L)) \<and>
    d_normalizedPath s \<in> {[], ?P} \<and> d_totalSize s \<in> {0, ?len})"
  have small': "length content < 2 ^ 64" using small assms by blast
  have one: "\<exists>m s' v'. run_state (download_pass c bufferChunk path L s) v =
      (if unat start + (n + m) = length content \<or> (L \<noteq> 0 \<and> n + m = unat L) then Inr (None, s')
       else Inl s', v') \<and> delivered content start L (n + m) s' \<and>
      (unat start + (n + m) = length content \<or> (L \<noteq> 0 \<and> n + m = unat L) \<or> 0 < m) \<and>
      d_normalizedPath s' = ?P \<and> d_totalSize s' = ?len \<and>
      ok (rpc_log v') \<and> view (rpc_log v') = Some content"
    if g: "I s v" "delivered content start L n s" "L \<noteq> 0 \<longrightarrow> n < unat L" for s n and v :: world
  proof -
    have off: "unat (d_offset s) \<le> length content"
      using delivered_offset [OF g(2) small'] g(2) by (simp add: delivered_def)
    let ?q = "ReadFileChunkReq path (d_offset s) (downloadLimit (d_remaining s))"
    from g(1) have v: "ok (rpc_log v)" "view (rpc_log v) = Some content" by (simp_all add: I_def)
    from read [OF v off downloadLimit_pos] obtain ch where
      ch: "reply_of (conn_ReadFileChunk c (rpc_log v) ?q) = Inr ch"
        "chunk_of content p (d_offset s) (downloadLimit (d_remaining s)) ch" by blast
    have "d_remaining s = 0 \<longrightarrow> L = 0" using g by (auto simp: delivered_def split: if_splits)
    from run_download_pass [OF this, of ?q path c bufferChunk v] ch obtain mm where
      run: "run_state (download_pass c bufferChunk path L s) v =
        (download_chunk bufferChunk path L ch s,
         v\<lparr>rpc_log := rpc_log v @ [?q], metrics := metrics v @ [mm]\<rparr>)" by auto
    from g(1) have P: "normalizedPath (d_normalizedPath s) path p = ?P"
      by (auto simp: I_def normalizedPath_def)
    from delivered_chunk [OF g(2,3) small' ch(2), of path] obtain m s' where
      s': "delivered content start L (n + m) s'" "d_normalizedPath s' = ?P"
        "length content > 0 \<longrightarrow> d_totalSize s' = ?len"
        "length content = 0 \<longrightarrow> d_totalSize s' = d_totalSize s"
        "if unat start + (n + m) = length content \<or> (L \<noteq> 0 \<and> n + m = unat L)
         then download_chunk bufferChunk path L ch s = Inr (None, s')
         else download_chunk bufferChunk path L ch s = Inl s' \<and> 0 < m" unfolding P by blast
    have "d_totalSize s' = ?len" using s'(3,4) g(1) by (cases "content = []") (auto simp: I_def)
    with s' run keep [OF v(1), of "d_offset s"] v show ?thesis
      by (intro exI [of _ m] exI [of _ s']) (auto split: if_splits)
  qed
  have init: "I d w"
    using assms by (auto simp: I_def delivered_def intro!: exI [of _ 0] simp: unat_gt_0)
  define Q where "Q = (\<lambda>(r :: go_error option \<times> string list download) (v :: world). fst r = None \<and> concat (d_sink (snd r)) = wanted content start L \<and>
    delivered content start L (length (wanted content start L)) (snd r) \<and>
    d_normalizedPath (snd r) = ?P \<and> d_totalSize (snd r) = ?len \<and>
    ok (rpc_log v) \<and> view (rpc_log v) = Some content)"
  have "\<exists>r w'. forever (download_pass c bufferChunk path L) d w = Some (r, w') \<and> Q r w'"
  proof (rule forever_total [where I = I and m = "\<lambda>s v. length content - unat (d_offset s)"])
    fix s v s' v'
    assume g: "I s v" and run: "run_state (download_pass c bufferChunk path L s) v = (Inl s', v')"
    from g obtain n where n: "delivered content start L n s" "L \<noteq> 0 \<longrightarrow> n < unat L"
      by (auto simp: I_def)
    from one [OF g n] run obtain m where
      m: "delivered content start L (n + m) s'" "0 < m" "L \<noteq> 0 \<longrightarrow> n + m \<noteq> unat L"
        "unat start + (n + m) \<noteq> length content"
        "d_normalizedPath s' = ?P" "d_totalSize s' = ?len"
        "ok (rpc_log v')" "view (rpc_log v') = Some content" by (auto split: if_splits)
    have "L \<noteq> 0 \<longrightarrow> n + m < unat L" using m(1,3) by (auto simp: delivered_def)
    with m have "I s' v'" by (auto simp: I_def)
    moreover have "length content - unat (d_offset s') < length content - unat (d_offset s)"
      using delivered_offset [OF m(1) small'] delivered_offset [OF n(1) small'] m(1,2)
      by (auto simp: delivered_def)
    ultimately show "I s' v' \<and>
        length content - unat (d_offset s') < length content - unat (d_offset s)" ..
  next
    fix s v r v'
    assume g: "I s v" and run: "run_state (download_pass c bufferChunk path L s) v = (Inr r, v')"
    from g obtain n where n: "delivered content start L n s" "L \<noteq> 0 \<longrightarrow> n < unat L"
      by (auto simp: I_def)
    from one [OF g n] run show "Q r v'"
      by (auto simp: Q_def dest: delivered_all split: if_splits)
  qed (rule init)
  then show ?thesis by (auto simp: Q_def)
qed

lemma download_exact:
  assumes q: "TrimSpace (dq_Path q) = path" "path \<noteq> []" "unat (dq_Offset q) \<le> length content"
    and w: "ok (rpc_log w)" "view (rpc_log w) = Some content"
  defines "xs \<equiv> wanted content (dq_Offset q) (dq_Limit q)"
  shows "\<exists>chunks w'. DownloadFile c q (Some bufferChunk) [] w = Some ((Inr
       \<lparr>dr_Path = normalizedPath [] path p, dr_StartOffset = dq_Offset q,
        dr_EndOffset = (if xs = [] then dq_Offset q else dq_Offset q + of_nat (length xs) - 1),
        dr_TotalSize = of_nat (length content),
        dr_DownloadedBytes = of_nat (length xs)\<rparr>, chunks), w') \<and>
     concat chunks = xs \<and> ok (rpc_log w') \<and> view (rpc_log w') = Some content"
proof -
  have small': "length content < 2 ^ 64" using small w by blast
  let ?d = "\<lparr>d_offset = dq_Offset q, d_normalizedPath = [], d_downloadedBytes = 0,
    d_totalSize = 0, d_remaining = dq_Limit q, d_sink = []\<rparr> :: string list download"
  from download_loop [OF q(3) w, of ?d "dq_Limit q"] obtain d' w' where
    run: "forever (download_pass c bufferChunk path (dq_Limit q)) ?d w = Some ((None, d'), w')"
    and d': "concat (d_sink d') = xs" "delivered content (dq_Offset q) (dq_Limit q) (length xs) d'"
      "d_normalizedPath d' = normalizedPath [] path p" "d_totalSize d' = of_nat (length content)"
    and w': "ok (rpc_log w')" "view (rpc_log w') = Some content"
    unfolding xs_def by auto
  have len: "length xs < 2 ^ 64" using d'(2) small' by (simp add: delivered_def)
  have pos: "0 < (of_nat (length xs) :: 64 word) \<longleftrightarrow> xs \<noteq> []"
    using unat_of_small [OF len] by (simp add: word_less_nat_alt)
  have tot: "(of_nat (length content) :: 64 word) = 0 \<longleftrightarrow> content = []"
    using unat_of_small [OF small'] by (simp add: word_unat_eq_iff)
  have "d_offset d' = 0" if "content = []"
  proof -
    from that q(3) have "unat (dq_Offset q) = 0" by simp
    moreover from that d'(2) have "xs = []" by (simp add: delivered_def)
    ultimately show ?thesis using d'(2) by (simp add: delivered_def unat_eq_0)
  qed
  with run d' w' q(1,2) pos tot show ?thesis
    unfolding delivered_def DownloadFile_def Let_def
    by (intro exI [of _ "d_sink d'"] exI [of _ w']) simp
qed

end

section \<open>Writing\<close>

text \<open>A file after bytes were put at an offset inside it or at its end.\<close>

definition overwrite :: "string \<Rightarrow> nat \<Rightarrow> string \<Rightarrow> string" where
  "overwrite content off xs = take off content @ xs @ drop (off + length xs) content"

lemma overwrite_overwrite:
  assumes "off \<le> length content"
  shows "overwrite (overwrite content off xs) (off + length xs) ys = overwrite content off (xs @ ys)"
proof -
  have "drop (off + length xs + length ys) (take off content @ xs @ drop (off + length xs) content) =
      drop (length ys) (drop (off + length xs) content)"
    using assms by simp
  then show ?thesis using assms by (simp add: overwrite_def add.commute add.left_commute)
qed

lemma length_overwrite: "off \<le> length content \<Longrightarrow>
   length (overwrite content off xs) = max (length content) (off + length xs)"
  by (simp add: overwrite_def max_def min_def)

lemma overwrite_Nil [simp]: "overwrite content off [] = content"
  by (simp add: overwrite_def)

lemma overwrite_start [simp]: "overwrite [] 0 xs = xs"
  by (simp add: overwrite_def)

text \<open>A reader that gives the bytes \<open>xs\<close> in some pieces and then the end of the stream.\<close>

definition read_bytes :: "chunk_read \<Rightarrow> string option" where
  "read_bytes cr = (if 0 \<le> cr_len cr \<and> nat (cr_len cr) \<le> uploadChunkSize \<and>
       nat (cr_len cr) \<le> length (cr_buffer cr)
     then Some (take (nat (cr_len cr)) (cr_buffer cr)) else None)"

inductive yields :: "'r reader \<Rightarrow> 'r \<Rightarrow> string \<Rightarrow> bool" for rd :: "'r reader" where
  last_piece: "rd r uploadChunkSize = (cr, r') \<Longrightarrow> read_bytes cr = Some xs \<Longrightarrow>
     cr_err cr = Some io_EOF \<Longrightarrow> yields rd r xs"
| piece: "rd r uploadChunkSize = (cr, r') \<Longrightarrow> read_bytes cr = Some xs \<Longrightarrow>
     cr_err cr = None \<Longrightarrow> yields rd r' ys \<Longrightarrow> yields rd r (xs @ ys)"

locale chunk_store = chunk_reader +
  assumes put: "ok h \<Longrightarrow> length x \<le> uploadChunkSize \<Longrightarrow> unat off + length x < 2 ^ 64 \<Longrightarrow>
      (if trunc then off = 0 \<and> old = [] else view h = Some old \<and> unat off \<le> length old) \<Longrightarrow>
      \<exists>r. reply_of (conn_WriteFileChunk c h (WriteFileChunkReq path off x True trunc)) = Inr r \<and>
        wc_Path r = p \<and> wc_Offset r = off \<and> wc_WrittenBytes r = of_nat (length x) \<and>
        wc_TotalSize r = of_nat (length (overwrite old (unat off) x)) \<and>
        ok (h @ [WriteFileChunkReq path off x True trunc]) \<and>
        view (h @ [WriteFileChunkReq path off x True trunc]) = Some (overwrite old (unat off) x)"
begin

text \<open>Where an upload stands after the bytes \<open>xs\<close>.\<close>

lemma upload_piece:
  assumes rd: "rd (u_source u) uploadChunkSize = (cr, r')" "read_bytes cr = Some xs"
      "cr_err cr \<in> {None, Some io_EOF}"
    and w: "ok (rpc_log w)" and len: "unat start + length done_xs + length xs < 2 ^ 64"
    and u: "u_offset u = start + of_nat (length done_xs)" "u_wroteChunk u = (done_xs \<noteq> [])"
    and base: "if start = 0 then base = [] else view h0 = Some base \<and> unat start \<le> length base"
    and v: "view (rpc_log w) = (if done_xs = [] then view h0 else Some (overwrite base (unat start) done_xs))"
  shows "\<exists>u' w'. run_state (upload_pass c rd path u) w =
      (if cr_err cr = None then Inl u' else Inr (None, u'), w') \<and>
      u_source u' = r' \<and> u_offset u' = start + of_nat (length (done_xs @ xs)) \<and>
      u_wroteChunk u' = (done_xs @ xs \<noteq> []) \<and> ok (rpc_log w') \<and>
      view (rpc_log w') = (if done_xs @ xs = [] then view h0
        else Some (overwrite base (unat start) (done_xs @ xs))) \<and>
      (if xs = [] then u_totalSize u' = u_totalSize u \<and> u_normalizedPath u' = u_normalizedPath u
       else u_totalSize u' = of_nat (length (overwrite base (unat start) (done_xs @ xs))) \<and>
         u_normalizedPath u' = (if u_normalizedPath u = [] then TrimSpace p else u_normalizedPath u))"
proof -
  have n: "0 \<le> cr_len cr" "cr_len cr = int (length xs)" "length xs \<le> uploadChunkSize"
      "take (length xs) (cr_buffer cr) = xs" "nat (cr_len cr) = length xs"
    using rd(2) by (auto simp: read_bytes_def split: if_splits)
  show ?thesis
  proof (cases "xs = []")
    case True
    with n rd u w v show ?thesis
      by (intro exI [of _ "u\<lparr>u_source := r'\<rparr>"] exI [of _ w])
        (auto simp: upload_pass_def Let_def)
  next
    case False
    let ?off = "start + of_nat (length done_xs) :: 64 word"
    let ?tr = "?off = 0 \<and> done_xs = []"
    let ?q = "WriteFileChunkReq path ?off xs True ?tr"
    let ?new = "overwrite base (unat start) (done_xs @ xs)"
    have inside: "unat start \<le> length base" using base by (cases "start = 0") auto
    have off: "unat ?off = unat start + length done_xs"
      using len by (simp add: unat_word_ariths unat_of_small)
    let ?old = "if ?tr then [] else overwrite base (unat start) done_xs"
    have "if ?tr then ?off = 0 \<and> ?old = [] else view (rpc_log w) = Some ?old \<and> unat ?off \<le> length ?old"
      using base v off inside by (auto simp: length_overwrite)
    moreover have "unat ?off + length xs < 2 ^ 64" using len off by simp
    ultimately obtain r where
      r: "reply_of (conn_WriteFileChunk c (rpc_log w) ?q) = Inr r"
        "wc_Path r = p" "wc_Offset r = ?off" "wc_WrittenBytes r = of_nat (length xs)"
        "wc_TotalSize r = of_nat (length (overwrite ?old (unat ?off) xs))"
        "ok (rpc_log w @ [?q])" "view (rpc_log w @ [?q]) = Some (overwrite ?old (unat ?off) xs)"
      using put [OF w n(3), of ?off ?tr ?old] by blast
    have new: "overwrite ?old (unat ?off) xs = ?new"
      using base off inside by (auto simp: overwrite_overwrite)
    obtain mm where run: "run_state (Client_WriteFileChunk c path ?off xs True ?tr) w =
        (Inr r, w\<lparr>rpc_log := rpc_log w @ [?q], metrics := metrics w @ [mm]\<rparr>)"
      using run_agent_rpc [of "''file.write_chunk''" "conn_WriteFileChunk c" ?q w] r(1)
      unfolding Client_WriteFileChunk_def by auto
    show ?thesis
      using False n rd u r run new
      by (intro exI [of _ "u\<lparr>u_source := r', u_offset := ?off + of_nat (length xs),
            u_totalSize := of_nat (length ?new), u_wroteChunk := True,
            u_normalizedPath := (if u_normalizedPath u = [] then TrimSpace p
              else u_normalizedPath u)\<rparr>"]
          exI [of _ "w\<lparr>rpc_log := rpc_log w @ [?q], metrics := metrics w @ [mm]\<rparr>"])
        (auto simp: upload_pass_def Let_def add.assoc)
  qed
qed

lemma upload_loop:
  assumes "yields rd r xs" "u_source u = r" "ok (rpc_log w)"
    and "unat start + length done_xs + length xs < 2 ^ 64"
    and "u_offset u = start + of_nat (length done_xs)" "u_wroteChunk u = (done_xs \<noteq> [])"
    and base: "if start = 0 then base = [] else view h0 = Some base \<and> unat start \<le> length base"
    and "view (rpc_log w) = (if done_xs = [] then view h0 else Some (overwrite base (unat start) done_xs))"
    and "if done_xs = [] then u_totalSize u = 0 \<and> u_normalizedPath u = []
      else u_totalSize u = of_nat (length (overwrite base (unat start) done_xs)) \<and>
        u_normalizedPath u = TrimSpace p"
  shows "\<exists>u' w'. forever (upload_pass c rd path) u w = Some ((None, u'), w') \<and>
      u_offset u' = start + of_nat (length (done_xs @ xs)) \<and>
      u_wroteChunk u' = (done_xs @ xs \<noteq> []) \<and> ok (rpc_log w') \<and>
      view (rpc_log w') = (if done_xs @ xs = [] then view h0
        else Some (overwrite base (unat start) (done_xs @ xs))) \<and>
      (if done_xs @ xs = [] then u_totalSize u' = 0 \<and> u_normalizedPath u' = []
       else u_totalSize u' = of_nat (length (overwrite base (unat start) (done_xs @ xs))) \<and>
         u_normalizedPath u' = TrimSpace p)"
  using assms(1,2,3,4,5,6,8,9)
proof (induction arbitrary: u w done_xs rule: yields.induct)
  case (last_piece r cr r' xs)
  have len: "unat start + length done_xs + length xs < 2 ^ 64" using last_piece.prems by simp
  have rd: "rd (u_source u) uploadChunkSize = (cr, r')" "read_bytes cr = Some xs"
      "cr_err cr \<in> {None, Some io_EOF}"
    using last_piece by simp_all
  from upload_piece [where rd = rd and u = u and w = w and start = start and done_xs = done_xs and base = base and ?h0.0 = h0, OF rd last_piece.prems(2) len last_piece.prems(4,5) base last_piece.prems(6)]
  obtain u' w' where "run_state (upload_pass c rd path u) w = (Inr (None, u'), w')"
      "u_offset u' = start + of_nat (length (done_xs @ xs))"
      "u_wroteChunk u' = (done_xs @ xs \<noteq> [])" "ok (rpc_log w')"
      "view (rpc_log w') = (if done_xs @ xs = [] then view h0
        else Some (overwrite base (unat start) (done_xs @ xs)))"
      "if xs = [] then u_totalSize u' = u_totalSize u \<and> u_normalizedPath u' = u_normalizedPath u
       else u_totalSize u' = of_nat (length (overwrite base (unat start) (done_xs @ xs))) \<and>
         u_normalizedPath u' = (if u_normalizedPath u = [] then TrimSpace p else u_normalizedPath u)"
    using last_piece.hyps(3) by auto
  with last_piece.prems(7) show ?case
    by (subst forever.simps) (auto split: if_splits)
next
  case (piece r cr r' xs ys)
  have len: "unat start + length done_xs + length xs < 2 ^ 64" using piece.prems by simp
  have rd: "rd (u_source u) uploadChunkSize = (cr, r')" "read_bytes cr = Some xs"
      "cr_err cr \<in> {None, Some io_EOF}"
    using piece by simp_all
  from upload_piece [where rd = rd and u = u and w = w and start = start and done_xs = done_xs and base = base and ?h0.0 = h0, OF rd piece.prems(2) len piece.prems(4,5) base piece.prems(6)]
  obtain u' w' where run: "run_state (upload_pass c rd path u) w = (Inl u', w')"
    and u': "u_source u' = r'" "u_offset u' = start + of_nat (length (done_xs @ xs))"
      "u_wroteChunk u' = (done_xs @ xs \<noteq> [])" "ok (rpc_log w')"
      "view (rpc_log w') = (if done_xs @ xs = [] then view h0
        else Some (overwrite base (unat start) (done_xs @ xs)))"
      "if xs = [] then u_totalSize u' = u_totalSize u \<and> u_normalizedPath u' = u_normalizedPath u
       else u_totalSize u' = of_nat (length (overwrite base (unat start) (done_xs @ xs))) \<and>
         u_normalizedPath u' = (if u_normalizedPath u = [] then TrimSpace p else u_normalizedPath u)"
    using piece.hyps(3) by auto
  have tot: "if done_xs @ xs = [] then u_totalSize u' = 0 \<and> u_normalizedPath u' = []
      else u_totalSize u' = of_nat (length (overwrite base (unat start) (done_xs @ xs))) \<and>
        u_normalizedPath u' = TrimSpace p"
    using u'(6) piece.prems(7) by (auto split: if_splits)
  have len': "unat start + length (done_xs @ xs) + length ys < 2 ^ 64" using piece.prems(3) by simp
  have "forever (upload_pass c rd path) u w = forever (upload_pass c rd path) u' w'"
    using run by (rule forever_Inl)
  with piece.IH [OF u'(1,4) len' u'(2,3,5) tot] show ?case
    by (simp only: append_assoc)
qed

lemma upload_exact:
  assumes q: "TrimSpace (ur_Path req) = path" "path \<noteq> []" and rd: "yields rd r xs"
    and w: "ok (rpc_log w)" and len: "unat (ur_Offset req) + length xs < 2 ^ 64"
    and base: "if ur_Offset req = 0 then base = []
      else view (rpc_log w) = Some base \<and> unat (ur_Offset req) \<le> length base"
  defines "new \<equiv> overwrite base (unat (ur_Offset req)) xs"
  shows "\<exists>u w'. UploadFile c req (Some rd) r w = Some ((Inr
       \<lparr>up_Path = (if xs = [] \<and> ur_Offset req > 0 then path else normalizedPath [] path p),
        up_UploadedBytes = ur_Offset req + of_nat (length xs),
        up_TotalSize = (if xs = [] then ur_Offset req else of_nat (length new))\<rparr>, u), w') \<and>
     ok (rpc_log w') \<and> view (rpc_log w') = Some new"
proof -
  let ?u = "\<lparr>u_offset = ur_Offset req, u_normalizedPath = [], u_totalSize = 0,
    u_wroteChunk = False, u_source = r\<rparr>"
  from upload_loop [OF rd _ w, where u = ?u and start = "ur_Offset req" and done_xs = "[]"
      and base = base and ?h0.0 = "rpc_log w"] len base
  obtain u' w' where
    run: "forever (upload_pass c rd path) ?u w = Some ((None, u'), w')"
    and u': "u_offset u' = ur_Offset req + of_nat (length xs)" "u_wroteChunk u' = (xs \<noteq> [])"
      "ok (rpc_log w')" "view (rpc_log w') = (if xs = [] then view (rpc_log w) else Some new)"
      "if xs = [] then u_totalSize u' = 0 \<and> u_normalizedPath u' = []
       else u_totalSize u' = of_nat (length new) \<and> u_normalizedPath u' = TrimSpace p"
    unfolding new_def by (auto split: if_splits)
  show ?thesis
  proof (cases "xs = [] \<and> ur_Offset req = 0")
    case False
    have new_pos: "xs \<noteq> [] \<Longrightarrow> (of_nat (length new) :: 64 word) \<noteq> 0"
    proof -
      assume "xs \<noteq> []"
      moreover have "length base < 2 ^ 64" "unat (ur_Offset req) \<le> length base"
        using base small [OF w] by (auto split: if_splits)
      ultimately have "0 < length new" "length new < 2 ^ 64"
        using len by (auto simp: new_def length_overwrite overwrite_def)
      then show ?thesis by (simp add: word_unat_eq_iff unat_of_small)
    qed
    with False run u' q base show ?thesis
      by (auto simp: UploadFile_def upload_empty_def upload_result_def normalizedPath_def new_def
          word_gt_0)
  next
    case True
    let ?q = "WriteFileChunkReq path 0 [] True True"
    from put [OF u'(3), of "[]" 0 True "[]"] obtain res where
      res: "reply_of (conn_WriteFileChunk c (rpc_log w') ?q) = Inr res" "wc_Path res = p"
        "wc_TotalSize res = 0" "ok (rpc_log w' @ [?q])" "view (rpc_log w' @ [?q]) = Some []"
      by auto
    obtain mm where sent: "run_state (Client_WriteFileChunk c path 0 [] True True) w' =
        (Inr res, w'\<lparr>rpc_log := rpc_log w' @ [?q], metrics := metrics w' @ [mm]\<rparr>)"
      using run_agent_rpc [of "''file.write_chunk''" "conn_WriteFileChunk c" ?q w'] res(1)
      unfolding Client_WriteFileChunk_def by auto
    with True run u' q base res show ?thesis
      by (auto simp: UploadFile_def upload_empty_def upload_result_def normalizedPath_def new_def)
  qed
qed

end

section \<open>The core agent is such a peer\<close>

text \<open>
  What a transfer needs of the agent: the feature is on, the agent validates the path to the
  same file whether or not that file exists yet, the file is no directory, its directory exists
  and a chunk of the backend is not too large for it.
\<close>

definition agent_ready :: "core_agent \<Rightarrow> fs \<Rightarrow> string \<Rightarrow> string \<Rightarrow> bool" where
  "agent_ready ca fs path p \<longleftrightarrow> ca_enabled ca \<and> reads_some ca \<and> uploadChunkSize \<le> ca_max_write_bytes ca \<and>
     fs p \<noteq> Some Dir \<and> (\<forall>x. fs p = Some (File x) \<longrightarrow> length x < 2 ^ 64) \<and>
     (\<forall>wr. ca_validate ca fs wr path = Inr p) \<and>
     (\<forall>wr x. ca_validate ca (fs(p \<mapsto> File x)) wr path = Inr p) \<and>
     (case ca_parent ca p of None \<Rightarrow> True | Some d \<Rightarrow> fs d \<noteq> None)"

definition core_serves :: "core_agent \<Rightarrow> fs \<Rightarrow> nat \<Rightarrow> string \<Rightarrow> string \<Rightarrow> rpc_request list \<Rightarrow> bool" where
  "core_serves ca fs k path p h \<longleftrightarrow> k \<le> length h \<and> agent_ready ca (agent_fs ca fs k h) path p \<and>
     (\<forall>q. q \<noteq> p \<longrightarrow> agent_fs ca fs k h q = fs q)"

definition core_view :: "core_agent \<Rightarrow> fs \<Rightarrow> nat \<Rightarrow> string \<Rightarrow> rpc_request list \<Rightarrow> string option" where
  "core_view ca fs k p h =
     (case agent_fs ca fs k h p of Some (File x) \<Rightarrow> Some x | _ \<Rightarrow> None)"

lemma agent_ready_upd:
  "agent_ready ca fs path p \<Longrightarrow> length x < 2 ^ 64 \<Longrightarrow> agent_ready ca (fs(p \<mapsto> File x)) path p"
  by (auto simp: agent_ready_def split: option.splits)

lemma core_view_Some [simp]:
  "core_view ca fs k p h = Some x \<longleftrightarrow> agent_fs ca fs k h p = Some (File x)"
  by (auto simp: core_view_def split: option.splits fsnode.splits)

lemma write_file_chunk_ready:
  assumes r: "agent_ready ca fs path p" and len: "length x \<le> uploadChunkSize"
    and old: "if trunc then off = 0 \<and> old = [] else fs p = Some (File old) \<and> unat off \<le> length old"
  shows "write_file_chunk ca fs path off x True trunc =
     (Response Error_ok \<lparr>wc_Path = p, wc_Offset = off, wc_WrittenBytes = of_nat (length x),
        wc_TotalSize = of_nat (length (overwrite old (unat off) x))\<rparr>,
      fs(p \<mapsto> File (overwrite old (unat off) x)))"
proof -
  have c: "\<not> length x > ca_max_write_bytes ca" "ca_enabled ca" "ca_validate ca fs True path = Inr p"
      "fs p \<noteq> Some Dir" "\<not> (case ca_parent ca p of None \<Rightarrow> False | Some d \<Rightarrow> fs d = None)"
    using r len by (auto simp: agent_ready_def split: option.splits)
  have o: "opened fs p trunc = old"
    using old c(4) by (auto simp: opened_def split: option.splits fsnode.splits if_splits)
  have i: "\<not> unat off > length old" "(trunc \<and> off > 0) = False" using old by (auto split: if_splits)
  show ?thesis
    using c by (simp add: write_file_chunk_def Let_def overwrite_def o i)
qed

interpretation core: chunk_store "core_conn ca fs k others" path p "core_serves ca fs k path p"
  "core_view ca fs k p" for ca fs k others path p
proof unfold_locales
  fix h content
  assume "core_serves ca fs k path p h" "core_view ca fs k p h = Some content"
  then show "length content < 2 ^ 64" by (auto simp: core_serves_def agent_ready_def)
next
  fix h content and off :: "64 word" and limit :: "32 word"
  assume ok: "core_serves ca fs k path p h" and view: "core_view ca fs k p h = Some content"
    and off: "unat off \<le> length content" and limit: "0 < limit"
  let ?f = "agent_fs ca fs k h"
  from ok view have r: "ca_enabled ca" "ca_validate ca ?f False path = Inr p"
      "?f p = Some (File content)" "length content < 2 ^ 64" "reads_some ca"
    by (auto simp: core_serves_def agent_ready_def)
  have "\<exists>ch. read_file_chunk ca ?f path off limit = Response Error_ok ch \<and> chunk_of content p off limit ch"
  proof (cases "unat off = length content")
    case True
    with read_file_chunk_end [OF r(1,2,3) True, of limit] show ?thesis
      by (auto simp: chunk_of_def intro!: exI [of _ 0])
  next
    case False
    with off have "unat off < length content" by simp
    from read_file_chunk_inside [OF r(1-4) this r(5) limit] show ?thesis
      by (auto simp: chunk_of_def)
  qed
  then show "\<exists>ch. reply_of (conn_ReadFileChunk (core_conn ca fs k others) h
      (ReadFileChunkReq path off limit)) = Inr ch \<and> chunk_of content p off limit ch"
    by (auto simp: Error_ok_def)
next
  fix h and off :: "64 word" and limit :: "32 word"
  assume "core_serves ca fs k path p h"
  then show "core_serves ca fs k path p (h @ [ReadFileChunkReq path off limit]) \<and>
      core_view ca fs k p (h @ [ReadFileChunkReq path off limit]) = core_view ca fs k p h"
    by (auto simp: core_serves_def core_view_def agent_fs_snoc)
next
  fix h trunc and x old :: string and off :: "64 word"
  assume ok: "core_serves ca fs k path p h" and len: "length x \<le> uploadChunkSize"
    and size: "unat off + length x < 2 ^ 64"
    and old: "if trunc then off = 0 \<and> old = []
      else core_view ca fs k p h = Some old \<and> unat off \<le> length old"
  let ?f = "agent_fs ca fs k h"
  let ?new = "overwrite old (unat off) x"
  have k: "k \<le> length h" and r: "agent_ready ca ?f path p" using ok by (auto simp: core_serves_def)
  have "unat off \<le> length old" "length old < 2 ^ 64"
    using old r by (auto simp: agent_ready_def split: if_splits)
  then have new: "length ?new < 2 ^ 64" using size by (simp add: length_overwrite)
  from old have "if trunc then off = 0 \<and> old = [] else ?f p = Some (File old) \<and> unat off \<le> length old"
    by auto
  from write_file_chunk_ready [OF r len this]
  show "\<exists>r. reply_of (conn_WriteFileChunk (core_conn ca fs k others) h
        (WriteFileChunkReq path off x True trunc)) = Inr r \<and>
      wc_Path r = p \<and> wc_Offset r = off \<and> wc_WrittenBytes r = of_nat (length x) \<and>
      wc_TotalSize r = of_nat (length ?new) \<and>
      core_serves ca fs k path p (h @ [WriteFileChunkReq path off x True trunc]) \<and>
      core_view ca fs k p (h @ [WriteFileChunkReq path off x True trunc]) = Some ?new"
    using ok k agent_ready_upd [OF r new]
    by (auto simp: Error_ok_def core_serves_def agent_fs_snoc serve_def)
qed

end
