(* ===== verification/FileTheorems.thy ===== *)
theory FileTheorems
  imports FileTransfer
begin

text \<open>
  The properties of the file service: downloads and uploads end, move exactly the bytes asked
  for, and fit together.
\<close>

section \<open>Uploads to an agent that may answer anything\<close>

text \<open>The requests that send the pieces \<open>xss\<close>, one after the other, from an offset on.\<close>

fun write_requests :: "string \<Rightarrow> 64 word \<Rightarrow> bool \<Rightarrow> string list \<Rightarrow> rpc_request list" where
  "write_requests path off wrote [] = []"
| "write_requests path off wrote (xs # xss) =
     WriteFileChunkReq path off xs True (off = 0 \<and> \<not> wrote) #
     write_requests path (off + of_nat (length xs)) True xss"

lemma write_requests_append:
  "write_requests path off wrote (xss @ [ys]) = write_requests path off wrote xss @
     [WriteFileChunkReq path (off + of_nat (length (concat xss))) ys True
       (off + of_nat (length (concat xss)) = 0 \<and> \<not> (wrote \<or> xss \<noteq> []))]"
  by (induction xss arbitrary: off wrote) (auto simp: add.assoc)

definition sent :: "string \<Rightarrow> 64 word \<Rightarrow> rpc_request list \<Rightarrow> string list \<Rightarrow> 'r upload \<Rightarrow> world \<Rightarrow> bool" where
  "sent path start log xss u w \<longleftrightarrow> rpc_log w = log @ write_requests path start False xss \<and>
     [] \<notin> set xss \<and> u_offset u = start + of_nat (length (concat xss)) \<and>
     u_wroteChunk u = (xss \<noteq> [])"

lemma upload_sends:
  assumes rd: "rd (u_source u) uploadChunkSize = (cr, r')" "read_bytes cr = Some xs"
      "cr_err cr \<in> {None, Some io_EOF}"
    and s: "sent path start log xss u w"
  shows "(\<exists>e u' w'. run_state (upload_pass c rd path u) w = (Inr (Some e, u'), w')) \<or>
    (\<exists>u' w' xss'. run_state (upload_pass c rd path u) w =
        (if cr_err cr = None then Inl u' else Inr (None, u'), w') \<and>
      u_source u' = r' \<and> concat xss' = concat xss @ xs \<and> sent path start log xss' u' w')"
proof -
  have n: "0 \<le> cr_len cr" "cr_len cr = int (length xs)" "length xs \<le> uploadChunkSize"
      "take (length xs) (cr_buffer cr) = xs" "nat (cr_len cr) = length xs"
    using rd(2) by (auto simp: read_bytes_def split: if_splits)
  show ?thesis
  proof (cases "xs = []")
    case True
    with n rd s have "run_state (upload_pass c rd path u) w =
        (if cr_err cr = None then Inl (u\<lparr>u_source := r'\<rparr>) else Inr (None, u\<lparr>u_source := r'\<rparr>), w)"
      by (auto simp: upload_pass_def Let_def)
    moreover have "sent path start log xss (u\<lparr>u_source := r'\<rparr>) w" using s by (simp add: sent_def)
    ultimately show ?thesis using True by fastforce
  next
    case False
    let ?q = "WriteFileChunkReq path (u_offset u) xs True (u_offset u = 0 \<and> \<not> u_wroteChunk u)"
    obtain mm where run: "run_state (Client_WriteFileChunk c path (u_offset u) xs True
          (u_offset u = 0 \<and> \<not> u_wroteChunk u)) w =
        (reply_of (conn_WriteFileChunk c (rpc_log w) ?q),
         w\<lparr>rpc_log := rpc_log w @ [?q], metrics := metrics w @ [mm]\<rparr>)" (is "_ = (_, ?w')")
      using run_agent_rpc [of "''file.write_chunk''" "conn_WriteFileChunk c" ?q w]
      unfolding Client_WriteFileChunk_def by auto
    have next_sent: "sent path start log (xss @ [xs]) (u\<lparr>u_source := r', u_offset := u_offset u + of_nat (length xs),
        u_totalSize := t, u_wroteChunk := True, u_normalizedPath := y\<rparr>) ?w'" for t y
      using s False by (auto simp: sent_def write_requests_append add.assoc)
    show ?thesis
    proof (cases "reply_of (conn_WriteFileChunk c (rpc_log w) ?q)")
      case (Inl e)
      with run n rd False
      have "\<exists>e u' w'. run_state (upload_pass c rd path u) w = (Inr (Some e, u'), w')"
        by (auto simp: upload_pass_def Let_def)
      then show ?thesis ..
    next
      case (Inr res)
      show ?thesis
      proof (cases "wc_Offset res = u_offset u \<and> wc_WrittenBytes res = of_nat (length xs)")
        case True
        define y where "y = (if u_normalizedPath u = [] then TrimSpace (wc_Path res)
          else u_normalizedPath u)"
        let ?u' = "u\<lparr>u_source := r', u_offset := u_offset u + of_nat (length xs),
          u_totalSize := wc_TotalSize res, u_wroteChunk := True, u_normalizedPath := y\<rparr>"
        have "run_state (upload_pass c rd path u) w =
            (if cr_err cr = None then Inl ?u' else Inr (None, ?u'), ?w')"
          unfolding y_def using run n rd False True Inr by (auto simp: upload_pass_def Let_def)
        moreover have "sent path start log (xss @ [xs]) ?u' ?w'" by (rule next_sent)
        ultimately show ?thesis by (intro exI disjI2) (auto intro!: exI [of _ "xss @ [xs]"])
      next
        case False
        with run n rd \<open>xs \<noteq> []\<close> Inr
        have "\<exists>e u' w'. run_state (upload_pass c rd path u) w = (Inr (Some e, u'), w')"
          by (auto simp: upload_pass_def Let_def)
        then show ?thesis ..
      qed
    qed
  qed
qed

lemma upload_loop_sends:
  assumes "yields rd r xs" "u_source u = r" "sent path start log xss u w"
  shows "\<exists>e u' w'. forever (upload_pass c rd path) u w = Some ((e, u'), w') \<and>
    (e = None \<longrightarrow> (\<exists>xss'. concat xss' = concat xss @ xs \<and> sent path start log xss' u' w'))"
  using assms
proof (induction arbitrary: u w xss rule: yields.induct)
  case (last_piece r cr r' xs)
  have rd: "rd (u_source u) uploadChunkSize = (cr, r')" "read_bytes cr = Some xs"
      "cr_err cr \<in> {None, Some io_EOF}"
    using last_piece by simp_all
  from upload_sends [where rd = rd and u = u, OF rd last_piece.prems(2), of c] last_piece.hyps(3) show ?case
    by (subst forever.simps) fastforce
next
  case (piece r cr r' xs ys)
  have rd: "rd (u_source u) uploadChunkSize = (cr, r')" "read_bytes cr = Some xs"
      "cr_err cr \<in> {None, Some io_EOF}"
    using piece by simp_all
  from upload_sends [where rd = rd and u = u, OF rd piece.prems(2), of c] piece.hyps(3) consider
    (failed) e u' w' where "run_state (upload_pass c rd path u) w = (Inr (Some e, u'), w')"
  | (on) u' w' xss' where "run_state (upload_pass c rd path u) w = (Inl u', w')"
      "u_source u' = r'" "concat xss' = concat xss @ xs" "sent path start log xss' u' w'"
    by auto
  then show ?case
  proof cases
    case failed
    then show ?thesis by (subst forever.simps) simp
  next
    case on
    from piece.IH [OF on(2,4)] on(3) show ?thesis
      unfolding forever_Inl [of "upload_pass c rd path", OF on(1)] by simp
  qed
qed

section \<open>A concrete agent and a concrete reader\<close>

definition ex_core :: core_agent where
  "ex_core = \<lparr>ca_enabled = True,
     ca_validate = (\<lambda>fs wr path. if path = ''/tmp/a'' then Inr path else Inl (bad_request path)),
     ca_parent = (\<lambda>p. Some ''/tmp''), ca_max_read_bytes = 4, ca_max_write_bytes = 1048576,
     ca_read_len = min\<rparr>"

definition ex_files :: fs where
  "ex_files = [''/tmp'' \<mapsto> Dir, ''/tmp/a'' \<mapsto> File ''hello world'']"

definition ex_others :: file_conn where
  "ex_others = \<lparr>conn_ListFiles = (\<lambda>h q. Response None \<lparr>lf_CurrentPath = [], lf_Entries = []\<rparr>),
     conn_ReadTextFile = (\<lambda>h q. CallError (Lib ''x'')),
     conn_ReadFileChunk = (\<lambda>h q. Response Error_ok \<lparr>rc_Path = [], rc_Offset = rc_offset q,
       rc_Chunk = ''x'', rc_TotalSize = 0, rc_EOF = False\<rparr>),
     conn_WriteFileChunk = (\<lambda>h q. CallError (Lib ''x'')),
     conn_WriteTextFile = (\<lambda>h q. CallError (Lib ''x'')),
     conn_CreateDirectory = (\<lambda>h q. CallError (Lib ''x'')),
     conn_DeleteFile = (\<lambda>h q. CallError (Lib ''x'')),
     conn_RenameFile = (\<lambda>h q. CallError (Lib ''x''))\<rparr>"

text \<open>A reader over a list of pieces.\<close>

fun read_pieces :: "string list reader" where
  "read_pieces [] n = (\<lparr>cr_buffer = [], cr_len = 0, cr_err = Some io_EOF\<rparr>, [])"
| "read_pieces (xs # xss) n = (\<lparr>cr_buffer = xs, cr_len = int (length xs), cr_err = None\<rparr>, xss)"

lemma read_pieces_yields:
  "\<forall>xs \<in> set xss. length xs \<le> uploadChunkSize \<Longrightarrow> yields read_pieces xss (concat xss)"
proof (induction xss)
  case Nil
  show ?case by (rule last_piece [of read_pieces, OF read_pieces.simps(1)]) (simp_all add: read_bytes_def)
next
  case (Cons xs xss)
  then show ?case
    by (auto intro!: piece [of _ _ _ xss] simp: read_bytes_def)
qed

lemma ex_core_ready: "agent_ready ex_core ex_files ''/tmp/a'' ''/tmp/a''"
  by (simp add: agent_ready_def ex_core_def ex_files_def reads_some_def uploadChunkSize_def)

lemma ex_file: "ex_files ''/tmp/a'' = Some (File ''hello world'')"
  by (simp add: ex_files_def)

lemma ex_path: "TrimSpace ''/tmp/a'' = ''/tmp/a''"
  by (rule TrimSpace_plain) simp_all

section \<open>Properties\<close>

text \<open>
  C22. A download with a limit returns, whatever the core agent answers: after at most as many
  requests as bytes were asked for it has an answer, no more bytes than the limit were handed to
  the writer, and a successful answer reports exactly the number of bytes that were.
\<close>

theorem ranged_download_bounded:
  assumes "dq_Limit q > 0" "go_chunks c"
  shows "\<exists>r chunks w'. DownloadFile c q (Some bufferChunk) [] w = Some ((r, chunks), w') \<and>
     length (concat chunks) \<le> unat (dq_Limit q) \<and>
     length (rpc_log w') \<le> length (rpc_log w) + unat (dq_Limit q) \<and>
     (\<forall>res. r = Inr res \<longrightarrow> unat (dr_DownloadedBytes res) = length (concat chunks))"
proof (cases "TrimSpace (dq_Path q) = []")
  case False
  let ?d = "\<lparr>d_offset = dq_Offset q, d_normalizedPath = [], d_downloadedBytes = 0,
    d_totalSize = 0, d_remaining = dq_Limit q, d_sink = []\<rparr> :: string list download"
  have "ranged (dq_Offset q) (dq_Limit q) ?d" by (simp add: ranged_def)
  from ranged_forever [OF this _ assms(2), of "TrimSpace (dq_Path q)" w] assms(1)
  obtain e d' w' where "forever (download_pass c bufferChunk (TrimSpace (dq_Path q)) (dq_Limit q)) ?d w =
      Some ((e, d'), w')" "ranged (dq_Offset q) (dq_Limit q) d'"
      "length (rpc_log w') \<le> length (rpc_log w) + unat (dq_Limit q)"
    by auto
  with False show ?thesis
    by (cases e) (auto simp: DownloadFile_def ranged_def Let_def)
qed (simp add: DownloadFile_def)

theorem ranged_download_bounded_witness:
  "\<exists>r chunks w'. DownloadFile ex_others \<lparr>dq_Path = ''/tmp/a'', dq_Offset = 0, dq_Limit = 7\<rparr>
      (Some bufferChunk) [] init_world = Some ((r, chunks), w') \<and>
     length (concat chunks) \<le> 7 \<and> length (rpc_log w') \<le> 7"
  using ranged_download_bounded [of "\<lparr>dq_Path = ''/tmp/a'', dq_Offset = 0, dq_Limit = 7\<rparr>" ex_others init_world]
  by (auto simp: go_chunks_def ex_others_def Error_ok_def init_world_def)

text \<open>
  A download without a limit from an agent that always has another non-empty chunk at the
  offset asked for, and never reports the end of the file (a file that grows while it is read),
  never returns.
\<close>

theorem unlimited_download_never_ends:
  assumes "TrimSpace (dq_Path q) \<noteq> []" "dq_Limit q = 0"
    and "\<And>h off limit. \<exists>ch. reply_of (conn_ReadFileChunk c h
        (ReadFileChunkReq (TrimSpace (dq_Path q)) off limit)) = Inr ch \<and>
      rc_Offset ch = off \<and> rc_Chunk ch \<noteq> [] \<and> \<not> rc_EOF ch"
  shows "DownloadFile c q (Some bufferChunk) [] w = None"
proof -
  let ?p = "TrimSpace (dq_Path q)"
  have "forever (download_pass c bufferChunk ?p 0) d w = None" for d w
  proof (rule forever_stuck [where I = "\<lambda>_ _. True"])
    fix d :: "string list download" and w :: world
    let ?q = "ReadFileChunkReq ?p (d_offset d) (downloadLimit (d_remaining d))"
    from assms(3) obtain ch where ch: "reply_of (conn_ReadFileChunk c (rpc_log w) ?q) = Inr ch"
        "rc_Offset ch = d_offset d" "rc_Chunk ch \<noteq> []" "\<not> rc_EOF ch" by blast
    show "\<exists>d' w'. run_state (download_pass c bufferChunk ?p 0 d) w = (Inl d', w') \<and> True"
      using run_download_pass [of d 0 ?q ?p c bufferChunk w] ch
        download_chunk_bytes [of ch d _ bufferChunk _ ?p 0, OF ch(3,2) HOL.refl]
      by (auto simp: bufferChunk_def)
  qed simp
  with assms(1,2) show ?thesis by (simp add: DownloadFile_def)
qed

theorem unlimited_download_never_ends_witness:
  "DownloadFile ex_others \<lparr>dq_Path = ''/tmp/a'', dq_Offset = 0, dq_Limit = 0\<rparr> (Some bufferChunk) []
     init_world = None"
  by (rule unlimited_download_never_ends) (simp_all add: ex_others_def Error_ok_def ex_path)

text \<open>
  C23. A download from the core agent returns exactly the bytes of the file from the offset on,
  up to the limit, in whatever pieces the agent reads them, and reports where they are.
\<close>

theorem download_returns_range:
  assumes "agent_ready ca fs (TrimSpace (dq_Path q)) p" "TrimSpace (dq_Path q) \<noteq> []"
    and "fs p = Some (File content)" "unat (dq_Offset q) \<le> length content"
  defines "xs \<equiv> wanted content (dq_Offset q) (dq_Limit q)"
  shows "\<exists>chunks w'. DownloadFile (core_conn ca fs (length (rpc_log w)) others) q (Some bufferChunk) [] w =
     Some ((Inr \<lparr>dr_Path = normalizedPath [] (TrimSpace (dq_Path q)) p, dr_StartOffset = dq_Offset q,
        dr_EndOffset = (if xs = [] then dq_Offset q else dq_Offset q + of_nat (length xs) - 1),
        dr_TotalSize = of_nat (length content),
        dr_DownloadedBytes = of_nat (length xs)\<rparr>, chunks), w') \<and> concat chunks = xs"
  unfolding xs_def
  using core.download_exact [of q "TrimSpace (dq_Path q)" content ca fs "length (rpc_log w)" p w others]
    assms(1-4)
  by (auto simp: core_serves_def)

theorem download_returns_range_witness:
  "\<exists>chunks w'. DownloadFile (core_conn ex_core ex_files 0 ex_others)
      \<lparr>dq_Path = ''/tmp/a'', dq_Offset = 2, dq_Limit = 7\<rparr> (Some bufferChunk) [] init_world =
     Some ((Inr \<lparr>dr_Path = ''/tmp/a'', dr_StartOffset = 2, dr_EndOffset = 8, dr_TotalSize = 11,
       dr_DownloadedBytes = 7\<rparr>, chunks), w') \<and> concat chunks = ''llo wor''"
  using download_returns_range [of ex_core ex_files "\<lparr>dq_Path = ''/tmp/a'', dq_Offset = 2, dq_Limit = 7\<rparr>"
      "''/tmp/a''" "''hello world''" init_world ex_others]
  by (simp add: ex_path ex_core_ready wanted_def init_world_def ex_file normalizedPath_def)

text \<open>
  C24. An upload to the core agent ends with the file holding the stream at the offset (at offset
  0 the stream alone, whatever the file held before), no other file changed, however the reader
  cuts the stream into pieces.
\<close>

theorem upload_stores_stream:
  assumes "agent_ready ca fs (TrimSpace (ur_Path req)) p" "TrimSpace (ur_Path req) \<noteq> []"
    and "yields rd r xs" "unat (ur_Offset req) + length xs < 2 ^ 64"
    and "if ur_Offset req = 0 then base = []
      else fs p = Some (File base) \<and> unat (ur_Offset req) \<le> length base"
  shows "\<exists>res r' w'. UploadFile (core_conn ca fs (length (rpc_log w)) others) req (Some rd) r w =
      Some ((Inr res, r'), w') \<and> up_UploadedBytes res = ur_Offset req + of_nat (length xs) \<and>
     agent_fs ca fs (length (rpc_log w)) (rpc_log w') =
       fs(p \<mapsto> File (overwrite base (unat (ur_Offset req)) xs))"
proof -
  have serves: "core_serves ca fs (length (rpc_log w)) (TrimSpace (ur_Path req)) p (rpc_log w)"
    using assms(1) by (simp add: core_serves_def)
  have base: "if ur_Offset req = 0 then base = []
      else core_view ca fs (length (rpc_log w)) p (rpc_log w) = Some base \<and>
        unat (ur_Offset req) \<le> length base"
    using assms(5) by simp
  define new where "new = overwrite base (unat (ur_Offset req)) xs"
  from core.upload_exact [OF HOL.refl assms(2,3) serves assms(4) base, of others, folded new_def]
  obtain res r' w' where
    run: "UploadFile (core_conn ca fs (length (rpc_log w)) others) req (Some rd) r w =
      Some ((Inr res, r'), w')"
    and up: "res = \<lparr>up_Path = (if xs = [] \<and> ur_Offset req > 0 then TrimSpace (ur_Path req)
        else normalizedPath [] (TrimSpace (ur_Path req)) p),
      up_UploadedBytes = ur_Offset req + of_nat (length xs),
      up_TotalSize = (if xs = [] then ur_Offset req else of_nat (length new))\<rparr>"
    and w': "core_serves ca fs (length (rpc_log w)) (TrimSpace (ur_Path req)) p (rpc_log w')"
      "core_view ca fs (length (rpc_log w)) p (rpc_log w') = Some new"
    by blast
  have "agent_fs ca fs (length (rpc_log w)) (rpc_log w') =
      fs(p \<mapsto> File new)"
    using w' by (auto simp: core_serves_def fun_eq_iff)
  with run up show ?thesis by (simp add: new_def)
qed

theorem upload_stores_stream_witness:
  "\<exists>res r' w'. UploadFile (core_conn ex_core ex_files 0 ex_others)
      \<lparr>ur_Path = ''/tmp/a'', ur_Offset = 6\<rparr> (Some read_pieces) [''wo'', [], ''men''] init_world =
     Some ((Inr res, r'), w') \<and> up_UploadedBytes res = 11 \<and>
     agent_fs ex_core ex_files 0 (rpc_log w') = ex_files(''/tmp/a'' \<mapsto> File ''hello women'')"
  using upload_stores_stream [of ex_core ex_files "\<lparr>ur_Path = ''/tmp/a'', ur_Offset = 6\<rparr>" "''/tmp/a''"
      read_pieces "[''wo'', [], ''men'']" "''women''" "''hello world''" init_world ex_others]
    read_pieces_yields [of "[''wo'', [], ''men'']"]
  by (auto simp: ex_path ex_core_ready overwrite_def init_world_def ex_file uploadChunkSize_def)

text \<open>
  C25. Round trip: a stream uploaded at offset 0 is what a download of the whole file then
  returns.
\<close>

theorem upload_then_download:
  fixes others :: file_conn and w :: world
  assumes "agent_ready ca fs path p" "TrimSpace path = path" "path \<noteq> []"
    and "yields rd r xs" "length xs < 2 ^ 64"
  defines "c \<equiv> core_conn ca fs (length (rpc_log w)) others"
  shows "\<exists>res r' w'. UploadFile c \<lparr>ur_Path = path, ur_Offset = 0\<rparr> (Some rd) r w = Some ((Inr res, r'), w') \<and>
    (\<exists>res' chunks w''. DownloadFile c \<lparr>dq_Path = path, dq_Offset = 0, dq_Limit = 0\<rparr> (Some bufferChunk) [] w' =
       Some ((Inr res', chunks), w'') \<and> concat chunks = xs)"
proof -
  let ?u = "\<lparr>ur_Path = path, ur_Offset = 0\<rparr>" and ?d = "\<lparr>dq_Path = path, dq_Offset = 0, dq_Limit = 0\<rparr>"
  have "core_serves ca fs (length (rpc_log w)) path p (rpc_log w)"
    using assms(1) by (simp add: core_serves_def)
  from core.upload_exact [of ?u path, OF _ assms(3,4) this, of "[]" others] assms(2,5)
  obtain res r' w' where
    run: "UploadFile c ?u (Some rd) r w = Some ((Inr res, r'), w')"
    and w': "core_serves ca fs (length (rpc_log w)) path p (rpc_log w')"
      "core_view ca fs (length (rpc_log w)) p (rpc_log w') = Some xs"
    unfolding c_def by fastforce
  from core.download_exact [of ?d path xs, OF _ assms(3) _ w', of others] assms(2)
  have "\<exists>res' chunks w''. DownloadFile c ?d (Some bufferChunk) [] w' = Some ((Inr res', chunks), w'') \<and>
      concat chunks = xs"
    unfolding c_def by (fastforce simp: wanted_def)
  with run show ?thesis by blast
qed

theorem upload_then_download_witness:
  "\<exists>res r' w'. UploadFile (core_conn ex_core ex_files 0 ex_others) \<lparr>ur_Path = ''/tmp/a'', ur_Offset = 0\<rparr>
      (Some read_pieces) [''go'', ''od''] init_world = Some ((Inr res, r'), w') \<and>
    (\<exists>res' chunks w''. DownloadFile (core_conn ex_core ex_files 0 ex_others)
        \<lparr>dq_Path = ''/tmp/a'', dq_Offset = 0, dq_Limit = 0\<rparr> (Some bufferChunk) [] w' =
       Some ((Inr res', chunks), w'') \<and> concat chunks = ''good'')"
  using upload_then_download [of ex_core ex_files "''/tmp/a''" "''/tmp/a''" read_pieces "[''go'', ''od'']"
      "''good''" init_world ex_others] read_pieces_yields [of "[''go'', ''od'']"]
  by (simp add: ex_path ex_core_ready init_world_def uploadChunkSize_def)

text \<open>
  C26. An upload of a finite stream returns, whatever the core agent answers, and one that
  reports success has sent exactly the stream, in order and without gaps, from the offset on; the
  number of bytes it reports is the offset behind the last of them.
\<close>

theorem upload_success_is_complete:
  assumes "TrimSpace (ur_Path req) \<noteq> []" "yields rd r xs"
  shows "\<exists>x r' w'. UploadFile c req (Some rd) r w = Some ((x, r'), w') \<and>
    (\<forall>res. x = Inr res \<longrightarrow> up_UploadedBytes res = ur_Offset req + of_nat (length xs) \<and>
      (\<exists>xss. concat xss = xs \<and> rpc_log w' = rpc_log w @
        write_requests (TrimSpace (ur_Path req)) (ur_Offset req) False xss))"
proof -
  let ?p = "TrimSpace (ur_Path req)"
  let ?u = "\<lparr>u_offset = ur_Offset req, u_normalizedPath = [], u_totalSize = 0,
    u_wroteChunk = False, u_source = r\<rparr>"
  have "sent ?p (ur_Offset req) (rpc_log w) [] ?u w" by (simp add: sent_def)
  from upload_loop_sends [OF assms(2) _ this, of c] obtain e u' w' where
    run: "forever (upload_pass c rd ?p) ?u w = Some ((e, u'), w')"
    and s: "e = None \<longrightarrow> (\<exists>xss. concat xss = xs \<and> sent ?p (ur_Offset req) (rpc_log w) xss u' w')"
    by auto
  show ?thesis
  proof (cases e)
    case None
    with s obtain xss where xss: "concat xss = xs" "sent ?p (ur_Offset req) (rpc_log w) xss u' w'" by auto
    have emp: "xss = [] \<longleftrightarrow> xs = []" using xss by (cases xss) (auto simp: sent_def)
    show ?thesis
    proof (cases "xs = [] \<and> ur_Offset req = 0")
      case True
      let ?q = "WriteFileChunkReq ?p 0 [] True True"
      obtain mm where "run_state (Client_WriteFileChunk c ?p 0 [] True True) w' =
          (reply_of (conn_WriteFileChunk c (rpc_log w') ?q),
           w'\<lparr>rpc_log := rpc_log w' @ [?q], metrics := metrics w' @ [mm]\<rparr>)"
        using run_agent_rpc [of "''file.write_chunk''" "conn_WriteFileChunk c" ?q w']
        unfolding Client_WriteFileChunk_def by auto
      with True None run xss emp assms(1) show ?thesis
        by (cases "reply_of (conn_WriteFileChunk c (rpc_log w') ?q)")
          (auto simp: UploadFile_def upload_empty_def upload_result_def sent_def Let_def
            intro!: exI [of _ "[[]]"])
    next
      case False
      with None run xss emp assms(1) show ?thesis
        by (auto simp: UploadFile_def upload_empty_def upload_result_def sent_def Let_def
            intro!: exI [of _ xss])
    qed
  next
    case (Some err)
    with run assms(1) show ?thesis by (simp add: UploadFile_def)
  qed
qed

theorem upload_success_is_complete_witness:
  "\<exists>x r' w'. UploadFile (core_conn ex_core ex_files 0 ex_others) \<lparr>ur_Path = ''/tmp/a'', ur_Offset = 0\<rparr>
      (Some read_pieces) [''go'', ''od''] init_world = Some ((x, r'), w') \<and>
    (\<forall>res. x = Inr res \<longrightarrow> up_UploadedBytes res = 4)"
  using upload_success_is_complete [of "\<lparr>ur_Path = ''/tmp/a'', ur_Offset = 0\<rparr>" read_pieces
      "[''go'', ''od'']" "''good''" "core_conn ex_core ex_files 0 ex_others" init_world]
    read_pieces_yields [of "[''go'', ''od'']"]
  by (auto simp: ex_path uploadChunkSize_def)

end
