(* ===== verification/AuditRepo.thy ===== *)
theory AuditRepo
  imports World
begin

text \<open>
  \<^verbatim>\<open>internal/repository/audit_repository.go\<close>: the statements on the table \<^verbatim>\<open>audit_logs\<close>.

  What the columns accept is PostgreSQL's: \<open>pg_varchar n\<close> is the text a \<^verbatim>\<open>VARCHAR(n)\<close> column
  stores for a text (none: the statement fails), \<open>pg_text\<close>, \<open>pg_inet\<close> and \<open>pg_jsonb\<close> say
  whether a text is stored in a column of that type.
\<close>

record postgres =
  pg_varchar :: "nat \<Rightarrow> string \<Rightarrow> string option"
  pg_text :: "string \<Rightarrow> bool"
  pg_inet :: "string \<Rightarrow> bool"
  pg_jsonb :: "string \<Rightarrow> bool"

text \<open>
  Documented behaviour: a text with more than \<open>n\<close> characters (for ASCII: bytes) is refused
  unless what is too much is spaces, and a text that fits is stored as it is; a text without
  NUL is stored in a \<^verbatim>\<open>TEXT\<close> column.
\<close>

definition plain_text :: "string \<Rightarrow> bool" where
  "plain_text s = list_all (\<lambda>c. 0 < byte c \<and> byte c < 128) s"

definition postgres_ok :: "postgres \<Rightarrow> bool" where
  "postgres_ok pg \<longleftrightarrow> (\<forall>s. plain_text s \<longrightarrow> pg_text pg s \<and>
     (\<forall>n. pg_varchar pg n s =
       (if length s \<le> n then Some s
        else if set (drop n s) \<subseteq> {CHR '' ''} then Some (take n s) else None)))"

definition audit_fits :: "postgres \<Rightarrow> AuditLog \<Rightarrow> AuditLog option" where
  "audit_fits pg item =
     (case (pg_varchar pg 64 (audit_Username item), pg_varchar pg 64 (audit_Module item),
            pg_varchar pg 64 (audit_Action item), pg_varchar pg 64 (audit_TargetType item),
            pg_varchar pg 128 (audit_TargetID item), pg_varchar pg 32 (audit_ResultCode item),
            pg_varchar pg 128 (audit_RequestID item), pg_varchar pg 64 (audit_TraceID item)) of
        (Some username, Some module, Some action, Some targetType, Some targetID, Some resultCode,
         Some requestID, Some traceID) \<Rightarrow>
          if pg_inet pg (audit_IP item) \<and> pg_jsonb pg (audit_RequestSummary item) \<and>
             pg_text pg (audit_ResultMessage item)
          then Some (item\<lparr>audit_Username := username, audit_Module := module,
            audit_Action := action, audit_TargetType := targetType, audit_TargetID := targetID,
            audit_ResultCode := resultCode, audit_RequestID := requestID,
            audit_TraceID := traceID\<rparr>)
          else None
      | _ \<Rightarrow> None)"

definition sql_CreateAudit :: "postgres \<Rightarrow> AuditLog \<Rightarrow> time \<Rightarrow> tables \<Rightarrow> unit result \<times> tables" where
  "sql_CreateAudit pg item now t =
     (let t' = t\<lparr>audit_logs_seq := audit_logs_seq t + 1\<rparr>
      in case audit_fits pg item of
           None \<Rightarrow> (Inl (Lib ''value refused''), t')
         | Some row \<Rightarrow>
             if (case audit_UserID row of None \<Rightarrow> False
                 | Some i \<Rightarrow> i \<notin> user_ID ` set (users t))
             then (Inl (Lib ''foreign key violation''), t')
             else (Inr (), t'\<lparr>audit_logs := audit_logs t @
               [row\<lparr>audit_ID := audit_logs_seq t, audit_CreatedAt := now\<rparr>]\<rparr>))"

record AuditListFilter =
  alf_Page :: int
  alf_Size :: int
  alf_StartTime :: "time option"
  alf_EndTime :: "time option"
  alf_UserID :: "int option"
  alf_Username :: string
  alf_Module :: string
  alf_Action :: string
  alf_TargetType :: string
  alf_TargetID :: string
  alf_Success :: "bool option"
  alf_ResultCode :: string
  alf_RequestID :: string
  alf_TraceID :: string

text \<open>A text filter applies when it is not empty; \<^verbatim>\<open>user_id = ?\<close> is false for a NULL user.\<close>

abbreviation (input) filters :: "string \<Rightarrow> string \<Rightarrow> bool" where
  "filters wanted value \<equiv> wanted \<noteq> [] \<longrightarrow> value = wanted"

definition applyAuditListFilter :: "AuditListFilter \<Rightarrow> AuditLog \<Rightarrow> bool" where
  "applyAuditListFilter f r =
     ((case alf_StartTime f of None \<Rightarrow> True | Some a \<Rightarrow> a \<le> audit_CreatedAt r) \<and>
      (case alf_EndTime f of None \<Rightarrow> True | Some b \<Rightarrow> audit_CreatedAt r \<le> b) \<and>
      (case alf_UserID f of None \<Rightarrow> True | Some i \<Rightarrow> audit_UserID r = Some i) \<and>
      filters (alf_Username f) (audit_Username r) \<and> filters (alf_Module f) (audit_Module r) \<and>
      filters (alf_Action f) (audit_Action r) \<and> filters (alf_TargetType f) (audit_TargetType r) \<and>
      filters (alf_TargetID f) (audit_TargetID r) \<and>
      (case alf_Success f of None \<Rightarrow> True | Some b \<Rightarrow> audit_Success r = b) \<and>
      filters (alf_ResultCode f) (audit_ResultCode r) \<and>
      filters (alf_RequestID f) (audit_RequestID r) \<and> filters (alf_TraceID f) (audit_TraceID r))"

definition audit_selection :: "(int \<Rightarrow> int) \<Rightarrow> AuditListFilter \<Rightarrow> tables \<Rightarrow> AuditLog list" where
  "audit_selection rank f t = order_desc (\<lambda>r. rank (audit_ID r)) audit_CreatedAt
     (filter (applyAuditListFilter f) (audit_logs t))"

section \<open>Repository methods\<close>

definition auditRepo_Create :: "postgres \<Rightarrow> AuditLog \<Rightarrow> (world, unit result) state" where
  "auditRepo_Create pg item = do { now \<leftarrow> Now; dbcall (sql_CreateAudit pg item now) }"

definition auditRepo_List :: "AuditListFilter \<Rightarrow> (world, (AuditLog list \<times> int) result) state" where
  "auditRepo_List f =
     (let page = (if alf_Page f \<le> 0 then 1 else alf_Page f);
          size0 = (if alf_Size f \<le> 0 then 20 else alf_Size f);
          sz = (if size0 > 100 then 100 else size0)
      in call (dbcall (\<lambda>t. (Inr (int (length (filter (applyAuditListFilter f) (audit_logs t)))), t)))
        (\<lambda>total. call (dbquery ((page - 1) * sz) (\<lambda>rank t. page_rows ((page - 1) * sz) sz (audit_selection rank f t)))
        (\<lambda>items. ret (Inr (items, total)))))"

definition auditRepo_CountBefore :: "time \<Rightarrow> (world, int result) state" where
  "auditRepo_CountBefore cutoff =
     dbcall (\<lambda>t. (Inr (int (length (filter (\<lambda>r. audit_CreatedAt r < cutoff) (audit_logs t)))), t))"

definition sql_DeleteAuditBefore :: "time \<Rightarrow> tables \<Rightarrow> int result \<times> tables" where
  "sql_DeleteAuditBefore cutoff t =
     (Inr (int (length (filter (\<lambda>r. audit_CreatedAt r < cutoff) (audit_logs t)))),
      t\<lparr>audit_logs := filter (\<lambda>r. \<not> audit_CreatedAt r < cutoff) (audit_logs t)\<rparr>)"

definition auditRepo_DeleteBefore :: "time \<Rightarrow> (world, int result) state" where
  "auditRepo_DeleteBefore cutoff = dbcall (sql_DeleteAuditBefore cutoff)"

end
