(* ===== verification/AuditService.thy ===== *)
theory AuditService
  imports AuditRepo Redaction
begin

text \<open>
  \<^verbatim>\<open>internal/service/audit_service.go\<close>: recording, listing, exporting and deleting audit
  records.

  Parameters of the service (\<open>auditService\<close>): the decoding and encoding of JSON values by
  \<^verbatim>\<open>encoding/json\<close>, the two layouts of \<^verbatim>\<open>time.Parse\<close>, the Unicode part of
  \<^verbatim>\<open>strings.ToLower\<close> and the database's column types.
\<close>

record auditService =
  aud_pg :: postgres
  aud_uni :: "string \<Rightarrow> string"
  aud_Unmarshal :: "string \<Rightarrow> json result"
  aud_Marshal :: "json \<Rightarrow> string result"
  aud_ParseRFC3339 :: "string \<Rightarrow> time result"
  aud_ParseDate :: "string \<Rightarrow> time result"
  aud_retentionDays :: int
  aud_exportMaxRows :: int

record AuditServiceOptions =
  aso_RetentionDays :: int
  aso_ExportMaxRows :: int

definition NewAuditServiceWithOptions :: "auditService \<Rightarrow> AuditServiceOptions \<Rightarrow> auditService" where
  "NewAuditServiceWithOptions s options = s
     \<lparr>aud_retentionDays := (if aso_RetentionDays options \<le> 0 then 180 else aso_RetentionDays options),
      aud_exportMaxRows := (if aso_ExportMaxRows options \<le> 0 then 100000
        else aso_ExportMaxRows options)\<rparr>"

definition NewAuditService :: "auditService \<Rightarrow> auditService" where
  "NewAuditService s =
     NewAuditServiceWithOptions s \<lparr>aso_RetentionDays = 0, aso_ExportMaxRows = 0\<rparr>"

section \<open>Record\<close>

definition RedactJSON :: "auditService \<Rightarrow> string \<Rightarrow> string" where
  "RedactJSON s raw =
     (let trimmed = TrimSpace raw in
      if trimmed = [] then raw
      else case aud_Unmarshal s trimmed of
        Inl _ \<Rightarrow> RedactText raw
      | Inr value \<Rightarrow>
          (case aud_Marshal s (redactValue (aud_uni s) value) of
             Inl _ \<Rightarrow> RedactText raw
           | Inr bytes \<Rightarrow> bytes))"

record RecordAuditInput =
  rai_UserID :: "int option"
  rai_Username :: string
  rai_IP :: string
  rai_Module :: string
  rai_Action :: string
  rai_TargetType :: string
  rai_TargetID :: string
  rai_RequestSummary :: string
  rai_Success :: bool
  rai_ResultCode :: string
  rai_ResultMessage :: string
  rai_RequestID :: string
  rai_TraceID :: string

definition audit_row :: "auditService \<Rightarrow> RecordAuditInput \<Rightarrow> AuditLog" where
  "audit_row s input =
     \<lparr>audit_ID = 0, audit_UserID = rai_UserID input, audit_Username = rai_Username input,
      audit_IP = rai_IP input, audit_Module = rai_Module input, audit_Action = rai_Action input,
      audit_TargetType = rai_TargetType input, audit_TargetID = rai_TargetID input,
      audit_RequestSummary = RedactJSON s (rai_RequestSummary input),
      audit_Success = rai_Success input, audit_ResultCode = rai_ResultCode input,
      audit_ResultMessage = RedactText (rai_ResultMessage input),
      audit_RequestID = rai_RequestID input, audit_TraceID = rai_TraceID input,
      audit_CreatedAt = 0\<rparr>"

text \<open>\<^verbatim>\<open>_ = s.repo.Create(ctx, item)\<close>: a failure is dropped.\<close>

definition RecordAudit :: "auditService \<Rightarrow> RecordAuditInput \<Rightarrow> (world, unit) state" where
  "RecordAudit s input = do { _ \<leftarrow> auditRepo_Create (aud_pg s) (audit_row s input); ret () }"

section \<open>Listing\<close>

record ListAuditLogsQuery =
  laq_Page :: int
  laq_Size :: int
  laq_StartTime :: string
  laq_EndTime :: string
  laq_UserID :: int
  laq_Username :: string
  laq_Module :: string
  laq_Action :: string
  laq_TargetType :: string
  laq_TargetID :: string
  laq_Success :: "bool option"
  laq_ResultCode :: string
  laq_RequestID :: string
  laq_TraceID :: string

record AuditLogDTO =
  ald_ID :: int
  ald_UserID :: "int option"
  ald_Username :: string
  ald_IP :: string
  ald_Module :: string
  ald_Action :: string
  ald_TargetType :: string
  ald_TargetID :: string
  ald_RequestSummary :: string
  ald_Success :: bool
  ald_ResultCode :: string
  ald_ResultMessage :: string
  ald_RequestID :: string
  ald_TraceID :: string
  ald_CreatedAt :: rfc3339

record ListAuditLogsResult =
  lar_Page :: int
  lar_Size :: int
  lar_Total :: int
  lar_Items :: "AuditLogDTO list"

definition toAuditLogDTO :: "AuditLog \<Rightarrow> AuditLogDTO" where
  "toAuditLogDTO item =
     \<lparr>ald_ID = audit_ID item, ald_UserID = audit_UserID item, ald_Username = audit_Username item,
      ald_IP = audit_IP item, ald_Module = audit_Module item, ald_Action = audit_Action item,
      ald_TargetType = audit_TargetType item, ald_TargetID = audit_TargetID item,
      ald_RequestSummary = audit_RequestSummary item, ald_Success = audit_Success item,
      ald_ResultCode = audit_ResultCode item, ald_ResultMessage = audit_ResultMessage item,
      ald_RequestID = audit_RequestID item, ald_TraceID = audit_TraceID item,
      ald_CreatedAt = FormatRFC3339 (audit_CreatedAt item)\<rparr>"

definition parseAuditTime :: "auditService \<Rightarrow> string \<Rightarrow> bool \<Rightarrow> time result" where
  "parseAuditTime s raw endOfDay =
     (let value = TrimSpace raw in
      case aud_ParseRFC3339 s value of
        Inr parsed \<Rightarrow> Inr parsed
      | Inl _ \<Rightarrow>
          (case aud_ParseDate s value of
             Inl err \<Rightarrow> Inl err
           | Inr parsed \<Rightarrow> if endOfDay then Inr (parsed + (24 * Hour - 1)) else Inr parsed))"

definition audit_bound :: "auditService \<Rightarrow> string \<Rightarrow> bool \<Rightarrow> string \<Rightarrow> time option result" where
  "audit_bound s raw endOfDay message =
     (if TrimSpace raw \<noteq> [] then
        (case parseAuditTime s raw endOfDay of
           Inl _ \<Rightarrow> Inl (New (Code ErrBadRequest) (HTTPStatus ErrBadRequest) message)
         | Inr parsed \<Rightarrow> Inr (Some parsed))
      else Inr None)"

definition auditListFilter :: "auditService \<Rightarrow> ListAuditLogsQuery \<Rightarrow> int \<Rightarrow> int \<Rightarrow> AuditListFilter result" where
  "auditListFilter s query page sz =
     (case audit_bound s (laq_StartTime query) False ''invalid start_time'' of
        Inl err \<Rightarrow> Inl err
      | Inr startTime \<Rightarrow>
          (case audit_bound s (laq_EndTime query) True ''invalid end_time'' of
             Inl err \<Rightarrow> Inl err
           | Inr endTime \<Rightarrow> Inr
               \<lparr>alf_Page = page, alf_Size = sz, alf_StartTime = startTime, alf_EndTime = endTime,
                alf_UserID = (if laq_UserID query > 0 then Some (laq_UserID query) else None),
                alf_Username = TrimSpace (laq_Username query),
                alf_Module = TrimSpace (laq_Module query),
                alf_Action = TrimSpace (laq_Action query),
                alf_TargetType = TrimSpace (laq_TargetType query),
                alf_TargetID = TrimSpace (laq_TargetID query),
                alf_Success = laq_Success query,
                alf_ResultCode = TrimSpace (laq_ResultCode query),
                alf_RequestID = TrimSpace (laq_RequestID query),
                alf_TraceID = TrimSpace (laq_TraceID query)\<rparr>))"

definition ListAuditLogs ::
  "auditService \<Rightarrow> ListAuditLogsQuery \<Rightarrow> (world, ListAuditLogsResult result) state" where
  "ListAuditLogs s query =
     (let page = (if laq_Page query \<le> 0 then 1 else laq_Page query);
          size0 = (if laq_Size query \<le> 0 then 20 else laq_Size query);
          sz = (if size0 > 100 then 100 else size0)
      in case auditListFilter s query page sz of
           Inl err \<Rightarrow> ret (Inl err)
         | Inr flt \<Rightarrow> call_as ErrInternal (auditRepo_List flt) (\<lambda>(items, total).
             ret (Inr \<lparr>lar_Page = page, lar_Size = sz, lar_Total = total,
               lar_Items = map toAuditLogDTO items\<rparr>)))"

section \<open>Export\<close>

text \<open>
  The export writes item by item through a callback on the state of its writer. A page of the
  loop: \<open>Inr None\<close> is the end without an error.
\<close>

type_synonym 'b item_writer = "'b \<Rightarrow> AuditLogDTO \<Rightarrow> go_error option \<times> 'b"

record 'b export =
  ex_exported :: int
  ex_page :: int
  ex_sink :: 'b

text \<open>The inner loop: written items count; \<open>True\<close> when the cap was reached.\<close>

fun export_items ::
  "int \<Rightarrow> 'b item_writer \<Rightarrow> AuditLog list \<Rightarrow> 'b export \<Rightarrow> (go_error option \<times> bool) \<times> 'b export" where
  "export_items maxRows writeItem [] e = ((None, False), e)"
| "export_items maxRows writeItem (item # items) e =
     (if ex_exported e \<ge> maxRows then ((None, True), e)
      else case writeItem (ex_sink e) (toAuditLogDTO item) of
        (Some err, sink) \<Rightarrow> ((Some err, True), e\<lparr>ex_sink := sink\<rparr>)
      | (None, sink) \<Rightarrow> export_items maxRows writeItem items
          (e\<lparr>ex_exported := ex_exported e + 1, ex_sink := sink\<rparr>))"

definition export_page ::
  "auditService \<Rightarrow> AuditListFilter \<Rightarrow> 'b item_writer \<Rightarrow> 'b export \<Rightarrow>
    (world, 'b export + go_error option \<times> 'b export) state" where
  "export_page s flt writeItem e = do {
     r \<leftarrow> auditRepo_List (flt\<lparr>alf_Page := ex_page e, alf_Size := 100\<rparr>);
     ret (case r of
       Inl err \<Rightarrow> Inr (Some (wrapAs ErrInternal err), e)
     | Inr (items, _) \<Rightarrow>
         if items = [] then Inr (None, e)
         else (case export_items (aud_exportMaxRows s) writeItem items e of
             ((Some err, _), e') \<Rightarrow> Inr (Some err, e')
           | ((None, capped), e') \<Rightarrow>
               if capped then Inr (None, e')
               else if int (length items) < 100 then Inr (None, e')
               else Inl (e'\<lparr>ex_page := ex_page e' + 1\<rparr>)))
   }"

definition paginateAuditExport ::
  "auditService \<Rightarrow> AuditListFilter \<Rightarrow> 'b item_writer \<Rightarrow> 'b \<Rightarrow> world \<Rightarrow>
    ((go_error option \<times> 'b export) \<times> world) option" where
  "paginateAuditExport s flt writeItem sink w =
     forever (export_page s flt writeItem) \<lparr>ex_exported = 0, ex_page = 1, ex_sink = sink\<rparr> w"

text \<open>
  The writers of \<^verbatim>\<open>encoding/csv\<close> and \<^verbatim>\<open>encoding/json\<close> on the caller's \<^verbatim>\<open>io.Writer\<close>: rows of
  texts with a flush at the end, and one value per line.
\<close>

record 'b exporter =
  csv_Write :: "'b \<Rightarrow> string list \<Rightarrow> go_error option \<times> 'b"
  csv_Flush :: "'b \<Rightarrow> go_error option \<times> 'b"
  csv_time :: "rfc3339 \<Rightarrow> string"
  json_Encode :: "'b \<Rightarrow> AuditLogDTO \<Rightarrow> go_error option \<times> 'b"

definition csv_header :: "string list" where
  "csv_header = [''id'', ''user_id'', ''username'', ''ip'', ''module'', ''action'', ''target_type'',
     ''target_id'', ''success'', ''result_code'', ''request_id'', ''trace_id'', ''created_at'',
     ''request_summary'', ''result_message'']"

definition csv_row :: "(rfc3339 \<Rightarrow> string) \<Rightarrow> AuditLogDTO \<Rightarrow> string list" where
  "csv_row ts item =
     [itoa (ald_ID item), (case ald_UserID item of None \<Rightarrow> [] | Some i \<Rightarrow> itoa i),
      ald_Username item, ald_IP item, ald_Module item, ald_Action item, ald_TargetType item,
      ald_TargetID item, (if ald_Success item then ''true'' else ''false''), ald_ResultCode item,
      ald_RequestID item, ald_TraceID item, ts (ald_CreatedAt item), ald_RequestSummary item,
      ald_ResultMessage item]"

definition exportCSV ::
  "auditService \<Rightarrow> AuditListFilter \<Rightarrow> 'b exporter \<Rightarrow> 'b \<Rightarrow> world \<Rightarrow> ((go_error option \<times> 'b) \<times> world) option"
  where
  "exportCSV s flt x sink w =
     (case csv_Write x sink csv_header of
        (Some err, sink') \<Rightarrow> Some ((Some err, sink'), w)
      | (None, sink') \<Rightarrow>
          (case paginateAuditExport s flt (\<lambda>b item. csv_Write x b (csv_row (csv_time x) item)) sink' w of
             None \<Rightarrow> None
           | Some ((Some err, e), w') \<Rightarrow> Some ((Some err, ex_sink e), w')
           | Some ((None, e), w') \<Rightarrow> Some (csv_Flush x (ex_sink e), w')))"

definition exportJSONL ::
  "auditService \<Rightarrow> AuditListFilter \<Rightarrow> 'b exporter \<Rightarrow> 'b \<Rightarrow> world \<Rightarrow> ((go_error option \<times> 'b) \<times> world) option"
  where
  "exportJSONL s flt x sink w =
     (case paginateAuditExport s flt (json_Encode x) sink w of
        None \<Rightarrow> None
      | Some ((err, e), w') \<Rightarrow> Some ((err, ex_sink e), w'))"

definition unsupportedFormat :: go_error where
  "unsupportedFormat =
     New (Code ErrBadRequest) (HTTPStatus ErrBadRequest) ''unsupported audit export format''"

definition ExportAudit ::
  "auditService \<Rightarrow> ListAuditLogsQuery \<Rightarrow> string \<Rightarrow> 'b exporter \<Rightarrow> 'b \<Rightarrow> world \<Rightarrow>
    ((go_error option \<times> 'b) \<times> world) option" where
  "ExportAudit s query fmt x sink w =
     (let lowered = ToLower (aud_uni s) (TrimSpace fmt);
          normalizedFormat = (if lowered = [] then ''csv'' else lowered)
      in if normalizedFormat \<noteq> ''csv'' \<and> normalizedFormat \<noteq> ''jsonl'' then
           Some ((Some unsupportedFormat, sink), w)
         else case auditListFilter s query 1 100 of
           Inl err \<Rightarrow> Some ((Some err, sink), w)
         | Inr flt \<Rightarrow>
             if normalizedFormat = ''csv'' then exportCSV s flt x sink w
             else exportJSONL s flt x sink w)"

section \<open>Retention\<close>

record AuditRetentionCleanupRequest =
  arc_DryRun :: bool
  arc_RetentionDays :: int
  arc_ArchiveBeforeDelete :: bool

record AuditRetentionCleanupResult =
  arr_DryRun :: bool
  arr_RetentionDays :: int
  arr_Cutoff :: rfc3339
  arr_MatchedRows :: int
  arr_DeletedRows :: int
  arr_ArchiveBeforeDelete :: bool

text \<open>\<^verbatim>\<open>AddDate(0, 0, -n)\<close> on a UTC instant is \<open>n\<close> times 24 hours earlier.\<close>

definition AuditCleanupRetention ::
  "auditService \<Rightarrow> AuditRetentionCleanupRequest \<Rightarrow> (world, AuditRetentionCleanupResult result) state" where
  "AuditCleanupRetention s req =
     (let days1 = (if arc_RetentionDays req \<le> 0 then aud_retentionDays s else arc_RetentionDays req);
          retentionDays = (if days1 \<le> 0 then 180 else days1)
      in do {
        now \<leftarrow> Now;
        let cutoff = now - retentionDays * (24 * Hour);
        call_as ErrInternal (auditRepo_CountBefore cutoff) (\<lambda>matchedRows.
          let result = \<lparr>arr_DryRun = arc_DryRun req, arr_RetentionDays = retentionDays,
                arr_Cutoff = FormatRFC3339 cutoff, arr_MatchedRows = matchedRows,
                arr_DeletedRows = 0, arr_ArchiveBeforeDelete = arc_ArchiveBeforeDelete req\<rparr>
          in if arc_DryRun req then ret (Inr result)
             else call_as ErrInternal (auditRepo_DeleteBefore cutoff) (\<lambda>deletedRows.
               ret (Inr (result\<lparr>arr_DeletedRows := deletedRows\<rparr>))))
      })"

end
