(* ===== verification/Utf8.thy ===== *)
theory Utf8
  imports Prelude
begin

text \<open>
  Runes of a string: the decoding of UTF-8 as \<^verbatim>\<open>range\<close>, \<^verbatim>\<open>%c\<close> and
  \<^verbatim>\<open>utf8.RuneCountInString\<close> do it. \<open>rune_length\<close> is the number of bytes of the first rune, 0
  for bytes that start no valid sequence (or no bytes at all).
\<close>

definition rune_length :: "string \<Rightarrow> nat" where
  "rune_length s = (case map byte s of
       [] \<Rightarrow> 0
     | a # rest \<Rightarrow>
         let ok = (\<lambda>i lo hi. i < length rest \<and> lo \<le> rest ! i \<and> rest ! i \<le> hi) in
         if a < 0x80 then 1
         else if 0xC2 \<le> a \<and> a \<le> 0xDF \<and> ok 0 0x80 0xBF then 2
         else if 0xE0 \<le> a \<and> a \<le> 0xEF \<and> ok 0 (if a = 0xE0 then 0xA0 else 0x80) (if a = 0xED then 0x9F else 0xBF)
           \<and> ok 1 0x80 0xBF then 3
         else if 0xF0 \<le> a \<and> a \<le> 0xF4 \<and> ok 0 (if a = 0xF0 then 0x90 else 0x80) (if a = 0xF4 then 0x8F else 0xBF)
           \<and> ok 1 0x80 0xBF \<and> ok 2 0x80 0xBF then 4
         else 0)"

text \<open>The first rune as \<^verbatim>\<open>%c\<close> prints it: U+FFFD stands for bytes that start no valid sequence.\<close>

definition first_rune :: "string \<Rightarrow> string" where
  "first_rune s = (if rune_length s = 0 then map char_of [0xEF, 0xBF, 0xBD :: nat]
     else take (rune_length s) s)"

text \<open>Each byte that starts no valid sequence counts as one rune.\<close>

function RuneCountInString :: "string \<Rightarrow> nat" where
  "RuneCountInString [] = 0"
| "RuneCountInString (c # s) = Suc (RuneCountInString (drop (max 1 (rune_length (c # s))) (c # s)))"
  by pat_completeness auto

termination
  by (relation "measure length") auto

lemma RuneCount_le_length: "RuneCountInString s \<le> length s"
proof (induction s rule: RuneCountInString.induct)
  case (2 c s)
  have "length (drop (max 1 (rune_length (c # s))) (c # s)) \<le> length s"
    by simp
  then show ?case
    using "2.IH" by simp
qed simp

lemma RuneCount_ascii: "list_all (\<lambda>c. byte c < 128) s \<Longrightarrow> RuneCountInString s = length s"
  by (induction s) (simp_all add: rune_length_def)

declare RuneCountInString.simps(2) [simp del]

end
