(* ===== verification/HandlerBase.thy ===== *)
theory HandlerBase
  imports AuditService HttpAuth Utf8
begin

text \<open>
  What the HTTP handlers share: the request context (\<^verbatim>\<open>*gin.Context\<close> as far as they read it),
  the answers of \<^verbatim>\<open>internal/api/response/response.go\<close>, the validation tags of the request
  types (\<^verbatim>\<open>internal/dto\<close>), \<^verbatim>\<open>strconv\<close>'s parsing of identifiers, and the audit helper
  \<^verbatim>\<open>internal/api/handler/audit_helper.go\<close>.
\<close>

section \<open>Requests and answers\<close>

record gin_ctx =
  gc_keys :: gin_keys
  gc_ClientIP :: string
  gc_RequestID :: "string option"
  gc_TraceID :: "string option"  \<comment> \<open>of a valid span context\<close>

text \<open>
  \<^verbatim>\<open>middleware.RequestID\<close>: the client's \<^verbatim>\<open>X-Request-ID\<close> if it sent one, else a fresh UUID.
\<close>

definition RequestID :: "string \<Rightarrow> string \<Rightarrow> gin_ctx \<Rightarrow> gin_ctx" where
  "RequestID header uuid c = c\<lparr>gc_RequestID := Some (if header = [] then uuid else header)\<rparr>"

text \<open>\<^verbatim>\<open>requestctx\<close>: the request id that goes out with calls of the agent, if it is not blank.\<close>

definition requestctx_RequestID :: "gin_ctx \<Rightarrow> string option" where
  "requestctx_RequestID c = (case gc_RequestID c of
     None \<Rightarrow> None | Some i \<Rightarrow> if TrimSpace i = [] then None else Some (TrimSpace i))"

datatype 'a reply = OK 'a | Fail int int string  \<comment> \<open>HTTP status, code, message\<close>

definition response_FromError :: "go_error \<Rightarrow> 'a reply" where
  "response_FromError err = (case As err of
       None \<Rightarrow> Fail 500 (Code ErrInternal) (Message ErrInternal)
     | Some appErr \<Rightarrow> Fail (HTTPStatus appErr) (Code appErr) (Message appErr))"

text \<open>\<^verbatim>\<open>response.Fail(c, http.StatusBadRequest, apperror.ErrBadRequest.Code, message)\<close>.\<close>

definition bad_input :: "string \<Rightarrow> 'a reply" where
  "bad_input message = Fail 400 (Code ErrBadRequest) message"

text \<open>
  \<^verbatim>\<open>if err := c.ShouldBindX(&req); err != nil { response.Fail(...); return }\<close>: \<open>req\<close> is what the
  library decoded (none: it could not), and the tags of the type decide the rest.
\<close>

definition bound ::
  "('r \<Rightarrow> bool) \<Rightarrow> 'r option \<Rightarrow> string \<Rightarrow> ('r \<Rightarrow> (world, 'a reply) state) \<Rightarrow> (world, 'a reply) state" where
  "bound tags req message k = (case req of
       None \<Rightarrow> ret (bad_input message)
     | Some r \<Rightarrow> if tags r then k r else ret (bad_input message))"

text \<open>The tags \<^verbatim>\<open>required\<close>, \<^verbatim>\<open>min\<close> and \<^verbatim>\<open>max\<close> on a string (\<^verbatim>\<open>omitempty\<close>: \<open>max\<close> alone).\<close>

abbreviation (input) required :: "string \<Rightarrow> bool" where "required s \<equiv> s \<noteq> []"

definition min_runes :: "nat \<Rightarrow> string \<Rightarrow> bool" where
  "min_runes n s = (n \<le> RuneCountInString s)"

definition max_runes :: "nat \<Rightarrow> string \<Rightarrow> bool" where
  "max_runes n s = (RuneCountInString s \<le> n)"

text \<open>\<^verbatim>\<open>strconv.ParseInt(s, 10, 64)\<close> and \<^verbatim>\<open>strconv.ParseUint(s, 10, 64)\<close>.\<close>

definition digits_value :: "string \<Rightarrow> int option" where
  "digits_value s =
     (if s \<noteq> [] \<and> list_all (\<lambda>c. 48 \<le> byte c \<and> byte c \<le> 57) s
      then Some (foldl (\<lambda>n c. 10 * n + (int (byte c) - 48)) 0 s) else None)"

definition ParseInt :: "string \<Rightarrow> int option" where
  "ParseInt s =
     (let (sign, digits) = (case s of
            CHR ''-'' # r \<Rightarrow> (-1, r) | CHR ''+'' # r \<Rightarrow> (1, r) | _ \<Rightarrow> (1, s))
      in case digits_value digits of
           None \<Rightarrow> None
         | Some n \<Rightarrow> if - (2 ^ 63) \<le> sign * n \<and> sign * n < 2 ^ 63 then Some (sign * n) else None)"

definition ParseUint :: "string \<Rightarrow> int option" where
  "ParseUint s = (case digits_value s of
       None \<Rightarrow> None | Some n \<Rightarrow> if n < 2 ^ 64 then Some n else None)"

text \<open>\<^verbatim>\<open>id, err := strconv.ParseInt(c.Param("id"), 10, 64); if err != nil || id <= 0 { Fail }\<close>.\<close>

definition with_id ::
  "string \<Rightarrow> string \<Rightarrow> (int \<Rightarrow> (world, 'a reply) state) \<Rightarrow> (world, 'a reply) state" where
  "with_id param message k = (case ParseInt param of
       None \<Rightarrow> ret (bad_input message)
     | Some i \<Rightarrow> if i \<le> 0 then ret (bad_input message) else k i)"

section \<open>The audit helper\<close>

definition audit_context :: "gin_ctx \<Rightarrow> RecordAuditInput \<Rightarrow> RecordAuditInput" where
  "audit_context c i0 =
     (let i1 = (if rai_UserID i0 = None \<and> snd (GetCurrentUserID (gc_keys c))
                then i0\<lparr>rai_UserID := Some (fst (GetCurrentUserID (gc_keys c)))\<rparr> else i0);
          i2 = (if rai_Username i1 = [] \<and> snd (GetCurrentUsername (gc_keys c))
                then i1\<lparr>rai_Username := fst (GetCurrentUsername (gc_keys c))\<rparr> else i1);
          i3 = (if rai_IP i2 = [] then i2\<lparr>rai_IP := gc_ClientIP c\<rparr> else i2);
          i4 = (case gc_RequestID c of
                  Some v \<Rightarrow> if rai_RequestID i3 = [] then i3\<lparr>rai_RequestID := v\<rparr> else i3
                | None \<Rightarrow> i3)
      in case gc_TraceID c of
           Some v \<Rightarrow> if rai_TraceID i4 = [] then i4\<lparr>rai_TraceID := v\<rparr> else i4
         | None \<Rightarrow> i4)"

definition recordAudit :: "gin_ctx \<Rightarrow> auditService option \<Rightarrow> RecordAuditInput \<Rightarrow> (world, unit) state" where
  "recordAudit c auditService input = (case auditService of
       None \<Rightarrow> ret ()
     | Some s \<Rightarrow> RecordAudit s (audit_context c input))"

text \<open>Texts between quotation marks, and the summaries \<^verbatim>\<open>{"op":"..."}\<close>.\<close>

definition quoted :: "string \<Rightarrow> string" where
  "quoted s = [CHR 0x22] @ s @ [CHR 0x22]"

definition op_summary :: "string \<Rightarrow> string" where
  "op_summary op = ''{'' @ quoted ''op'' @ '':'' @ quoted op @ ''}''"

text \<open>The fields a handler writes into its audit record.\<close>

definition audit_input :: "string \<Rightarrow> string \<Rightarrow> string \<Rightarrow> string \<Rightarrow> string \<Rightarrow> RecordAuditInput" where
  "audit_input module action targetType targetID summary =
     \<lparr>rai_UserID = None, rai_Username = [], rai_IP = [], rai_Module = module, rai_Action = action,
      rai_TargetType = targetType, rai_TargetID = targetID, rai_RequestSummary = summary,
      rai_Success = False, rai_ResultCode = [], rai_ResultMessage = [], rai_RequestID = [],
      rai_TraceID = []\<rparr>"

definition failed_input :: "string \<Rightarrow> go_error \<Rightarrow> RecordAuditInput \<Rightarrow> RecordAuditInput" where
  "failed_input code err i =
     i\<lparr>rai_Success := False, rai_ResultCode := code, rai_ResultMessage := Error err\<rparr>"

definition ok_input :: "string \<Rightarrow> string \<Rightarrow> RecordAuditInput \<Rightarrow> RecordAuditInput" where
  "ok_input targetID message i =
     i\<lparr>rai_TargetID := targetID, rai_Success := True, rai_ResultCode := ''ok'',
       rai_ResultMessage := message\<rparr>"

text \<open>
  The tail that the handlers share: \<^verbatim>\<open>result, err := service.X(...)\<close>, an audit record of the
  failure or of the success (\<open>target\<close> names what was acted on), and the answer.
\<close>

definition audited ::
  "gin_ctx \<Rightarrow> auditService option \<Rightarrow> RecordAuditInput \<Rightarrow> ('a \<Rightarrow> string) \<Rightarrow> string \<Rightarrow>
    (world, 'a result) state \<Rightarrow> (world, 'a reply) state" where
  "audited c auditService input target message m = do {
     r \<leftarrow> m;
     case r of
       Inl err \<Rightarrow> do {
         recordAudit c auditService (failed_input ''failed'' err input);
         ret (response_FromError err)
       }
     | Inr x \<Rightarrow> do {
         recordAudit c auditService (ok_input (target x) message input);
         ret (OK x)
       }
   }"

text \<open>The same without an audit record.\<close>

definition answered :: "(world, 'a result) state \<Rightarrow> (world, 'a reply) state" where
  "answered m = do {
     r \<leftarrow> m;
     ret (case r of Inl err \<Rightarrow> response_FromError err | Inr x \<Rightarrow> OK x)
   }"

end
