(* ===== verification/FileHandlers.thy ===== *)
theory FileHandlers
  imports HandlerBase FileDownload
begin

text \<open>
  \<^verbatim>\<open>internal/api/handler/file_handler.go\<close>. \<open>lib\<close> gives \<^verbatim>\<open>%q\<close>; \<open>detect\<close> is
  \<^verbatim>\<open>http.DetectContentType\<close> (the content sniffing of \<^verbatim>\<open>net/http\<close>).
\<close>

definition file_audit :: "string \<Rightarrow> string \<Rightarrow> RecordAuditInput" where
  "file_audit action path =
     audit_input ''files'' action ''path'' path (op_summary action)"

definition FileHandler_ListFiles ::
  "file_conn \<Rightarrow> auditService option \<Rightarrow> gin_ctx \<Rightarrow> string option \<Rightarrow> (world, ListFilesResultDTO reply) state"
  where
  "FileHandler_ListFiles h aud c query =
     bound (\<lambda>path. required path) query ''invalid query params'' (\<lambda>path.
       audited c aud (file_audit ''list'' path) (\<lambda>_. path) ''list success'' (ListFiles h path))"

definition FileHandler_ReadTextFile ::
  "file_conn \<Rightarrow> auditService option \<Rightarrow> gin_ctx \<Rightarrow> ReadTextFileRequest option \<Rightarrow>
    (world, ReadTextFileResultDTO reply) state" where
  "FileHandler_ReadTextFile h aud c body =
     bound (\<lambda>req. required (rtr_Path req)) body ''invalid request payload'' (\<lambda>req.
       audited c aud (file_audit ''read'' (rtr_Path req)) (\<lambda>_. rtr_Path req) ''read success''
         (ReadTextFile h req))"

definition FileHandler_WriteTextFile ::
  "file_conn \<Rightarrow> auditService option \<Rightarrow> gin_ctx \<Rightarrow> WriteTextFileRequest option \<Rightarrow>
    (world, WriteTextFileResultDTO reply) state" where
  "FileHandler_WriteTextFile h aud c body =
     bound (\<lambda>req. required (wtr_Path req)) body ''invalid request payload'' (\<lambda>req.
       audited c aud (file_audit ''write'' (wtr_Path req)) (\<lambda>_. wtr_Path req) ''write success''
         (WriteTextFile h req))"

definition FileHandler_CreateDirectory ::
  "file_conn \<Rightarrow> auditService option \<Rightarrow> gin_ctx \<Rightarrow> CreateDirectoryRequest option \<Rightarrow>
    (world, string reply) state" where
  "FileHandler_CreateDirectory h aud c body =
     bound (\<lambda>req. required (cdr_Path req)) body ''invalid request payload'' (\<lambda>req.
       audited c aud (file_audit ''mkdir'' (cdr_Path req)) (\<lambda>_. cdr_Path req) ''mkdir success''
         (CreateDirectory h req))"

definition FileHandler_DeleteFile ::
  "file_conn \<Rightarrow> auditService option \<Rightarrow> gin_ctx \<Rightarrow> DeleteFileRequest option \<Rightarrow>
    (world, string reply) state" where
  "FileHandler_DeleteFile h aud c body =
     bound (\<lambda>req. required (dfr_Path req)) body ''invalid request payload'' (\<lambda>req.
       audited c aud (file_audit ''delete'' (dfr_Path req)) (\<lambda>_. dfr_Path req) ''delete success''
         (DeleteFile h req))"

definition FileHandler_RenameFile ::
  "file_conn \<Rightarrow> auditService option \<Rightarrow> gin_ctx \<Rightarrow> RenameFileRequest option \<Rightarrow>
    (world, RenameFileResultDTO reply) state" where
  "FileHandler_RenameFile h aud c body =
     bound (\<lambda>req. required (rnr_SourcePath req) \<and> required (rnr_TargetPath req)) body
       ''invalid request payload'' (\<lambda>req.
       audited c aud (file_audit ''rename'' (rnr_SourcePath req)) (\<lambda>_. rnr_SourcePath req)
         ''rename success'' (RenameFile h req))"

section \<open>Download\<close>

text \<open>\<^verbatim>\<open>path.Base\<close>: the last element, without trailing slashes.\<close>

definition path_Base :: "string \<Rightarrow> string" where
  "path_Base p =
     (if p = [] then ''.''
      else let stripped = rev (dropWhile (\<lambda>c. c = CHR ''/'') (rev p));
               base = rev (takeWhile (\<lambda>c. c \<noteq> CHR ''/'') (rev stripped))
           in if base = [] then ''/'' else base)"

text \<open>A header \<^verbatim>\<open>Range: bytes=N-\<close> sets the offset of a request that names neither offset nor limit.\<close>

definition range_offset :: "string \<Rightarrow> DownloadFileQuery \<Rightarrow> DownloadFileQuery" where
  "range_offset header query =
     (let rangeHeader = TrimSpace header in
      if rangeHeader \<noteq> [] \<and> dq_Offset query = 0 \<and> dq_Limit query = 0 \<and>
         HasPrefix rangeHeader ''bytes='' then
        (let rangeValue = drop 6 rangeHeader in
         if rangeValue \<noteq> [] \<and> last rangeValue = CHR ''-'' then
           (case ParseUint (TrimSpace (butlast rangeValue)) of
              Some parsed \<Rightarrow> query\<lparr>dq_Offset := of_int parsed\<rparr>
            | None \<Rightarrow> query)
         else query)
      else query)"

definition download_name :: "DownloadFileQuery \<Rightarrow> string" where
  "download_name query =
     (let fileName = path_Base (TrimSpace (dq_Path query)) in
      if fileName = [] \<or> fileName = ''.'' \<or> fileName = ''/'' then ''download.bin'' else fileName)"

record download_headers =
  dh_status :: int
  dh_ContentType :: string
  dh_ContentDisposition :: string
  dh_ContentLength :: "64 word"
  dh_ContentRange :: "(64 word \<times> 64 word \<times> 64 word) option"

definition download_headers_of ::
  "golib \<Rightarrow> (string \<Rightarrow> string) \<Rightarrow> DownloadFileQuery \<Rightarrow> string list \<Rightarrow> DownloadFileResult \<Rightarrow> download_headers"
  where
  "download_headers_of lib detect query chunks result =
     \<lparr>dh_status = (if dq_Offset query > 0 \<or> dq_Limit query > 0 then 206 else 200),
      dh_ContentType = (if chunks \<noteq> [] \<and> hd chunks \<noteq> [] then detect (take 512 (hd chunks))
        else ''application/octet-stream''),
      dh_ContentDisposition = ''attachment; filename='' @ quote lib (download_name query),
      dh_ContentLength = dr_DownloadedBytes result,
      dh_ContentRange = (if dq_Offset query > 0 \<or> dq_Limit query > 0
        then Some (dr_StartOffset result, dr_EndOffset result, dr_TotalSize result) else None)\<rparr>"

definition download_audit :: "DownloadFileQuery \<Rightarrow> RecordAuditInput" where
  "download_audit query =
     audit_input ''files'' ''download'' ''path'' (dq_Path query)
       (''{'' @ quoted ''op'' @ '':'' @ quoted ''download'' @ '','' @ quoted ''offset'' @ '':'' @
        itoa (uint (dq_Offset query)) @ '','' @ quoted ''limit'' @ '':'' @
        itoa (uint (dq_Limit query)) @ ''}'')"

text \<open>
  The chunks go to the response writer until it fails; then the handler returns, without an
  audit record. \<open>write_all\<close> is that loop on the writer's state.
\<close>

fun write_all :: "'w writer \<Rightarrow> string list \<Rightarrow> 'w \<Rightarrow> go_error option \<times> 'w" where
  "write_all wr [] w = (None, w)"
| "write_all wr (chunk # chunks) w = (case wr w chunk of
     (Some err, w') \<Rightarrow> (Some err, w') | (None, w') \<Rightarrow> write_all wr chunks w')"

definition FileHandler_DownloadFile ::
  "golib \<Rightarrow> (string \<Rightarrow> string) \<Rightarrow> file_conn \<Rightarrow> auditService option \<Rightarrow> gin_ctx \<Rightarrow> 'w writer \<Rightarrow> string \<Rightarrow>
    DownloadFileQuery option \<Rightarrow> 'w \<Rightarrow> world \<Rightarrow> ((download_headers reply \<times> 'w) \<times> world) option" where
  "FileHandler_DownloadFile lib detect h aud c writer rangeHeader query0 out w =
     (case query0 of
        None \<Rightarrow> Some ((bad_input ''invalid query params'', out), w)
      | Some q0 \<Rightarrow>
          if dq_Path q0 = [] then Some ((bad_input ''invalid query params'', out), w)
          else let query = range_offset rangeHeader q0 in
          (case DownloadFile h query (Some bufferChunk) [] w of
             None \<Rightarrow> None
           | Some ((Inl err, _), w1) \<Rightarrow>
               (case run_state (recordAudit c aud (failed_input ''failed'' err (download_audit query))) w1 of
                  (_, w2) \<Rightarrow> Some ((response_FromError err, out), w2))
           | Some ((Inr result, bufferedChunks), w1) \<Rightarrow>
               (case write_all writer bufferedChunks out of
                  (Some _, out') \<Rightarrow>
                    Some ((OK (download_headers_of lib detect query bufferedChunks result), out'), w1)
                | (None, out') \<Rightarrow>
                    (case run_state (recordAudit c aud (ok_input (dq_Path query) ''download success''
                        (download_audit query))) w1 of
                       (_, w2) \<Rightarrow>
                         Some ((OK (download_headers_of lib detect query bufferedChunks result), out'), w2)))))"

section \<open>Upload\<close>

text \<open>
  The form of an upload: its two places for the path, what \<^verbatim>\<open>ShouldBind\<close> makes of the request
  struct, and the file part with its name and, if it can be opened, its contents.
\<close>

record 'r upload_form =
  uf_PostPath :: string
  uf_QueryPath :: string
  uf_Bind :: "UploadFileRequest \<Rightarrow> UploadFileRequest option"
  uf_File :: "(string \<times> 'r option) option"

definition upload_audit :: "golib \<Rightarrow> string \<Rightarrow> string \<Rightarrow> UploadFileRequest \<Rightarrow> RecordAuditInput" where
  "upload_audit lib targetPath fileName req =
     audit_input ''files'' ''upload'' ''path'' targetPath
       (''{'' @ quoted ''op'' @ '':'' @ quoted ''upload'' @ '','' @ quoted ''filename'' @ '':'' @
        quote lib fileName @ '','' @ quoted ''offset'' @ '':'' @ itoa (uint (ur_Offset req)) @ ''}'')"

definition FileHandler_UploadFile ::
  "golib \<Rightarrow> file_conn \<Rightarrow> auditService option \<Rightarrow> gin_ctx \<Rightarrow> 'r reader \<Rightarrow> 'r upload_form \<Rightarrow> world \<Rightarrow>
    (UploadFileResult reply \<times> world) option" where
  "FileHandler_UploadFile lib h aud c Read form w =
     (let posted = TrimSpace (uf_PostPath form);
          targetPath = (if posted = [] then TrimSpace (uf_QueryPath form) else posted)
      in if targetPath = [] then Some (bad_input ''path is required'', w)
         else case uf_Bind form \<lparr>ur_Path = targetPath, ur_Offset = 0\<rparr> of
           None \<Rightarrow> Some (bad_input ''invalid upload params'', w)
         | Some req \<Rightarrow>
             if ur_Path req = [] then Some (bad_input ''invalid upload params'', w)
             else (case uf_File form of
               None \<Rightarrow> Some (bad_input ''file is required'', w)
             | Some (_, None) \<Rightarrow> Some (bad_input ''unable to open uploaded file'', w)
             | Some (fileName, Some source) \<Rightarrow>
                 (case UploadFile h req (Some Read) source w of
                    None \<Rightarrow> None
                  | Some ((r, _), w1) \<Rightarrow>
                      (let input = upload_audit lib targetPath fileName req in
                       case r of
                         Inl err \<Rightarrow>
                           (case run_state (recordAudit c aud (failed_input ''failed'' err input)) w1 of
                              (_, w2) \<Rightarrow> Some (response_FromError err, w2))
                       | Inr result \<Rightarrow>
                           (case run_state (recordAudit c aud
                                (ok_input targetPath ''upload success'' input)) w1 of
                              (_, w2) \<Rightarrow> Some (OK result, w2))))))"

end
