(* ===== verification/AgentSystem.thy ===== *)
theory AgentSystem
  imports AgentFiles Utf8 Complex_Main
begin

text \<open>
  The remaining calls of the gRPC client (\<^verbatim>\<open>internal/grpcclient/agent_client.go\<close>): health,
  system overview, resources and cron tasks; the credentials it attaches; and the services on
  top of them, \<^verbatim>\<open>internal/service/cron_service.go\<close> and \<^verbatim>\<open>dashboard_service.go\<close>.
\<close>

section \<open>Floating point\<close>

text \<open>
  \<^verbatim>\<open>float64\<close> as far as it is used: comparison with zero and \<^verbatim>\<open>math.Max\<close>. Values are
  rationals (the sign of a zero is dropped), infinities and NaN.
\<close>

datatype float64 = NaN | PosInf | NegInf | Finite rat

definition is_zero :: "float64 \<Rightarrow> bool" where "is_zero x = (x = Finite 0)"

definition math_Max :: "float64 \<Rightarrow> float64 \<Rightarrow> float64" where
  "math_Max x y =
     (if x = PosInf \<or> y = PosInf then PosInf
      else if x = NaN \<or> y = NaN then NaN
      else case (x, y) of
        (Finite a, Finite b) \<Rightarrow> Finite (max a b)
      | (NegInf, _) \<Rightarrow> y
      | _ \<Rightarrow> x)"

section \<open>Messages\<close>

record CronTask =
  ct_ID :: string
  ct_Expression :: string
  ct_Command :: string
  ct_Enabled :: bool

record DiskInfo =
  disk_MountPoint :: string
  disk_UsagePercent :: float64

text \<open>The overview on the wire; the messages for processor and memory may be absent.\<close>

record overview_msg =
  ov_Hostname :: string
  ov_OS :: string
  ov_Kernel :: string
  ov_Uptime :: string
  ov_CPU :: "float64 option"
  ov_Memory :: "float64 option"
  ov_Disks :: "DiskInfo list"

record SystemOverview =
  so_Hostname :: string
  so_OS :: string
  so_Kernel :: string
  so_Uptime :: string
  so_CPUUsagePercent :: float64
  so_MemoryUsagePercent :: float64
  so_DiskUsagePercent :: float64

record RealtimeResource =
  rr_CPUUsagePercent :: float64
  rr_MemoryUsagePercent :: float64
  rr_DiskUsagePercent :: float64
  rr_LoadAverage1m :: float64
  rr_LoadAverage5m :: float64
  rr_LoadAverage15m :: float64

record system_conn =
  conn_Health :: "string answers"
  conn_Overview :: "overview_msg option answers"
  conn_Realtime :: "RealtimeResource option answers"
  conn_ListCron :: "CronTask list answers"
  conn_CreateCron :: "CronTask option answers"
  conn_UpdateCron :: "CronTask option answers"
  conn_DeleteCron :: "string answers"
  conn_SetCronEnabled :: "CronTask option answers"

section \<open>Calls\<close>

text \<open>
  A call that also examines the body, after the envelope: the error of the examination is the
  error of the call.
\<close>

definition checked :: "('a \<Rightarrow> 'b result) \<Rightarrow> 'a answers \<Rightarrow> 'b answers" where
  "checked f answers = (\<lambda>h q. case answers h q of
       DialError err \<Rightarrow> DialError err
     | CallError err \<Rightarrow> CallError err
     | Response e body \<Rightarrow>
         (case responseError e of
            Some err \<Rightarrow> CallError err
          | None \<Rightarrow> (case f body of Inl err \<Rightarrow> CallError err | Inr x \<Rightarrow> Response e x)))"

definition CheckHealth :: "system_conn \<Rightarrow> (world, string result) state" where
  "CheckHealth c = agent_rpc ''health.check''
     (checked (\<lambda>st. Inr (if TrimSpace st = [] then ''UNKNOWN'' else TrimSpace st)) (conn_Health c))
     CheckHealthReq"

definition extractDiskUsagePercent :: "DiskInfo list \<Rightarrow> float64" where
  "extractDiskUsagePercent disks =
     (if disks = [] then Finite 0
      else case List.find (\<lambda>d. disk_MountPoint d = ''/'') disks of
        Some d \<Rightarrow> disk_UsagePercent d
      | None \<Rightarrow> foldl (\<lambda>m d. math_Max m (disk_UsagePercent d)) (Finite 0) disks)"

definition proto_float :: "float64 option \<Rightarrow> float64" where
  "proto_float x = (case x of None \<Rightarrow> Finite 0 | Some v \<Rightarrow> v)"

definition overview_of :: "overview_msg option \<Rightarrow> SystemOverview result" where
  "overview_of m = (case m of
       None \<Rightarrow> Inl (invalidPayloadError ''system overview payload is empty'')
     | Some o' \<Rightarrow> Inr \<lparr>so_Hostname = ov_Hostname o', so_OS = ov_OS o', so_Kernel = ov_Kernel o',
         so_Uptime = ov_Uptime o', so_CPUUsagePercent = proto_float (ov_CPU o'),
         so_MemoryUsagePercent = proto_float (ov_Memory o'),
         so_DiskUsagePercent = extractDiskUsagePercent (ov_Disks o')\<rparr>)"

definition GetSystemOverview :: "system_conn \<Rightarrow> (world, SystemOverview result) state" where
  "GetSystemOverview c = agent_rpc ''system.get_overview'' (checked overview_of (conn_Overview c))
     GetSystemOverviewReq"

definition resource_of :: "RealtimeResource option \<Rightarrow> RealtimeResource result" where
  "resource_of m = (case m of
       None \<Rightarrow> Inl (invalidPayloadError ''realtime resource payload is empty'')
     | Some r \<Rightarrow> Inr r)"

definition GetRealtimeResource :: "system_conn \<Rightarrow> (world, RealtimeResource result) state" where
  "GetRealtimeResource c = agent_rpc ''system.get_realtime_resource''
     (checked resource_of (conn_Realtime c)) GetRealtimeResourceReq"

definition cronTaskFromProto :: "CronTask option \<Rightarrow> CronTask result" where
  "cronTaskFromProto task = (case task of
       None \<Rightarrow> Inl (invalidPayloadError ''missing cron task payload'')
     | Some t \<Rightarrow> Inr t)"

definition Client_ListCronTasks :: "system_conn \<Rightarrow> (world, CronTask list result) state" where
  "Client_ListCronTasks c = agent_rpc ''cron.list'' (conn_ListCron c) ListCronTasksReq"

definition Client_CreateCronTask ::
  "system_conn \<Rightarrow> string \<Rightarrow> string \<Rightarrow> bool \<Rightarrow> (world, CronTask result) state" where
  "Client_CreateCronTask c expression command enabled =
     agent_rpc ''cron.create'' (checked cronTaskFromProto (conn_CreateCron c))
       (CreateCronTaskReq expression command enabled)"

definition Client_UpdateCronTask ::
  "system_conn \<Rightarrow> string \<Rightarrow> string \<Rightarrow> string \<Rightarrow> bool \<Rightarrow> (world, CronTask result) state" where
  "Client_UpdateCronTask c i expression command enabled =
     agent_rpc ''cron.update'' (checked cronTaskFromProto (conn_UpdateCron c))
       (UpdateCronTaskReq i expression command enabled)"

definition Client_DeleteCronTask :: "system_conn \<Rightarrow> string \<Rightarrow> (world, string result) state" where
  "Client_DeleteCronTask c i = agent_rpc ''cron.delete'' (conn_DeleteCron c) (DeleteCronTaskReq i)"

definition Client_SetCronTaskEnabled ::
  "system_conn \<Rightarrow> string \<Rightarrow> bool \<Rightarrow> (world, CronTask result) state" where
  "Client_SetCronTaskEnabled c i enabled =
     agent_rpc ''cron.set_enabled'' (checked cronTaskFromProto (conn_SetCronEnabled c))
       (SetCronTaskEnabledReq i enabled)"

text \<open>An error of the examination is an agent error, so the call fails with it.\<close>

lemma reply_of_checked:
  assumes "\<And>x e. f x = Inl e \<Longrightarrow> asAgentError e = Some e"
  shows "reply_of (checked f answers h q) = (case reply_of (answers h q) of Inl e \<Rightarrow> Inl e | Inr x \<Rightarrow> f x)"
proof -
  have env: "responseError e = Some err \<Longrightarrow> asAgentError err = Some err" for e err
    using responseError_is [of e err] by (cases err) auto
  show ?thesis
  proof (cases "answers h q")
    case (Response e body)
    then show ?thesis
      using env [of e] assms [of body]
      by (cases "responseError e"; cases "f body") (simp_all add: checked_def reply_of_def)
  qed (simp_all add: checked_def reply_of_def split: option.split)
qed

section \<open>Credentials\<close>

record agent_AuthConfig =
  aac_Mode :: string
  aac_SharedToken :: string

definition normalizeAuthConfig :: "(string \<Rightarrow> string) \<Rightarrow> agent_AuthConfig \<Rightarrow> agent_AuthConfig" where
  "normalizeAuthConfig uni authConfig =
     (let mode = TrimSpace (ToLower uni (aac_Mode authConfig))
      in \<lparr>aac_Mode = (if mode = [] then ''none'' else mode),
          aac_SharedToken = TrimSpace (aac_SharedToken authConfig)\<rparr>)"

text \<open>The outgoing metadata of a call, as a list of keys and values.\<close>

definition withOutgoingRequestID :: "string option \<Rightarrow> (string \<times> string) list \<Rightarrow> (string \<times> string) list" where
  "withOutgoingRequestID requestID md =
     (case requestID of None \<Rightarrow> md | Some i \<Rightarrow> md @ [(''x-request-id'', i)])"

definition withOutgoingAuth :: "agent_AuthConfig \<Rightarrow> (string \<times> string) list \<Rightarrow> (string \<times> string) list" where
  "withOutgoingAuth config md =
     (if aac_Mode config \<noteq> ''token'' then md
      else md @ [(''x-snowpanel-agent-token'', aac_SharedToken config)])"

section \<open>Cron service\<close>

record CronTaskRequest =
  ccr_Expression :: string
  ccr_Command :: string
  ccr_Enabled :: bool

definition cron_char :: "char \<Rightarrow> bool" where
  "cron_char c = ((97 \<le> byte c \<and> byte c \<le> 122) \<or> (65 \<le> byte c \<and> byte c \<le> 90) \<or>
     (48 \<le> byte c \<and> byte c \<le> 57) \<or> c \<in> {CHR ''-'', CHR ''_'', CHR ''.'', CHR ''/''})"

definition blockedTokens :: "string list" where
  "blockedTokens = [''|'', ''&'', '';'', ''>'', ''<'', [CHR 0x60], ''$'', [CHR 0x5C], ''('', '')'']"

definition invalidCronCommand :: "string \<Rightarrow> go_error" where
  "invalidCronCommand detail = Wrap (Code ErrBadRequest) (HTTPStatus ErrBadRequest)
     ''invalid cron command template'' (Plain detail)"

definition validateCronCommand :: "string \<Rightarrow> go_error option" where
  "validateCronCommand command =
     (let normalized = TrimSpace command in
      if normalized = [] then Some (invalidCronCommand ''command is empty'')
      else case List.find (Contains normalized) blockedTokens of
        Some token \<Rightarrow> Some (invalidCronCommand
          (''blocked shell token '' @ [CHR 0x27] @ token @ [CHR 0x27] @ '' in command''))
      | None \<Rightarrow>
          (case dropWhile cron_char normalized of
             [] \<Rightarrow> None
           | rest \<Rightarrow> Some (invalidCronCommand (''unsupported character '' @ [CHR 0x27] @
               first_rune rest @ [CHR 0x27] @ '' in command''))))"

text \<open>The mapping of a task to the API's type changes none of its fields.\<close>

definition mapCronTask :: "CronTask \<Rightarrow> CronTask" where
  "mapCronTask task = \<lparr>ct_ID = ct_ID task, ct_Expression = ct_Expression task,
     ct_Command = ct_Command task, ct_Enabled = ct_Enabled task\<rparr>"

definition agent_call :: "(world, 'a result) state \<Rightarrow> ('a \<Rightarrow> 'b) \<Rightarrow> (world, 'b result) state" where
  "agent_call m f = do {
     r \<leftarrow> m;
     ret (case r of Inl err \<Rightarrow> Inl (mapAgentError err) | Inr x \<Rightarrow> Inr (f x))
   }"

definition Cron_ListTasks :: "system_conn \<Rightarrow> (world, CronTask list result) state" where
  "Cron_ListTasks c = agent_call (Client_ListCronTasks c) (map mapCronTask)"

definition Cron_CreateTask :: "system_conn \<Rightarrow> CronTaskRequest \<Rightarrow> (world, CronTask result) state" where
  "Cron_CreateTask c req =
     (case validateCronCommand (ccr_Command req) of
        Some err \<Rightarrow> ret (Inl err)
      | None \<Rightarrow> agent_call (Client_CreateCronTask c (ccr_Expression req) (ccr_Command req)
          (ccr_Enabled req)) mapCronTask)"

definition Cron_UpdateTask ::
  "system_conn \<Rightarrow> string \<Rightarrow> CronTaskRequest \<Rightarrow> (world, CronTask result) state" where
  "Cron_UpdateTask c i req =
     (case validateCronCommand (ccr_Command req) of
        Some err \<Rightarrow> ret (Inl err)
      | None \<Rightarrow> agent_call (Client_UpdateCronTask c i (ccr_Expression req) (ccr_Command req)
          (ccr_Enabled req)) mapCronTask)"

definition Cron_DeleteTask :: "system_conn \<Rightarrow> string \<Rightarrow> (world, string result) state" where
  "Cron_DeleteTask c i = agent_call (Client_DeleteCronTask c i) id"

definition Cron_SetEnabled :: "system_conn \<Rightarrow> string \<Rightarrow> bool \<Rightarrow> (world, CronTask result) state" where
  "Cron_SetEnabled c i enabled = agent_call (Client_SetCronTaskEnabled c i enabled) mapCronTask"

section \<open>Dashboard\<close>

record DashboardSummary =
  ds_Hostname :: string
  ds_SystemVersion :: string
  ds_KernelVersion :: string
  ds_CPUUsage :: float64
  ds_MemoryUsage :: float64
  ds_DiskUsage :: float64
  ds_Uptime :: string

definition GetSummary :: "system_conn \<Rightarrow> (world, DashboardSummary result) state" where
  "GetSummary c = do {
     r \<leftarrow> GetSystemOverview c;
     case r of
       Inl err \<Rightarrow> ret (Inl (mapAgentError err))
     | Inr overview \<Rightarrow> agent_call (GetRealtimeResource c) (\<lambda>realtime.
         let pick = (\<lambda>now before. if is_zero now then before else now)
         in \<lparr>ds_Hostname = so_Hostname overview, ds_SystemVersion = so_OS overview,
             ds_KernelVersion = so_Kernel overview,
             ds_CPUUsage = pick (rr_CPUUsagePercent realtime) (so_CPUUsagePercent overview),
             ds_MemoryUsage = pick (rr_MemoryUsagePercent realtime) (so_MemoryUsagePercent overview),
             ds_DiskUsage = pick (rr_DiskUsagePercent realtime) (so_DiskUsagePercent overview),
             ds_Uptime = so_Uptime overview\<rparr>)
   }"

section \<open>Lemmas\<close>

lemma Contains_char: "Contains s [c] \<longleftrightarrow> c \<in> set s"
  by (induction s) auto

lemma blocked_not_allowed: "token \<in> set blockedTokens \<Longrightarrow> \<exists>c. token = [c] \<and> \<not> cron_char c"
proof -
  have "list_all (\<lambda>t. case t of [c] \<Rightarrow> \<not> cron_char c | _ \<Rightarrow> False) blockedTokens"
    by code_simp
  moreover assume "token \<in> set blockedTokens"
  ultimately have "case token of [c] \<Rightarrow> \<not> cron_char c | _ \<Rightarrow> False"
    by (simp add: list_all_iff)
  then show ?thesis
    by (simp split: list.splits)
qed

text \<open>The two passes over the command amount to one test: only these characters, and at least one.\<close>

lemma validateCronCommand_None:
  "validateCronCommand command = None \<longleftrightarrow>
     TrimSpace command \<noteq> [] \<and> (\<forall>c \<in> set (TrimSpace command). cron_char c)"
proof -
  let ?s = "TrimSpace command"
  have found: "List.find (Contains ?s) blockedTokens = None" if "\<forall>c \<in> set ?s. cron_char c"
    using that blocked_not_allowed by (fastforce simp: find_None_iff Contains_char)
  show ?thesis
  proof (cases "dropWhile cron_char ?s")
    case Nil
    then have "\<forall>c \<in> set ?s. cron_char c"
      by (simp add: dropWhile_eq_Nil_conv)
    then show ?thesis
      using Nil found by (simp add: validateCronCommand_def Let_def del: dropWhile_eq_Nil_conv)
  next
    case (Cons c rest)
    then have "\<not> (\<forall>c \<in> set ?s. cron_char c)"
      by (metis dropWhile_eq_Nil_conv list.distinct(1))
    then show ?thesis
      using Cons by (simp add: validateCronCommand_def Let_def split: option.split)
  qed
qed

lemma agent_call_run:
  assumes "\<exists>m. run_state p w = (r, w\<lparr>rpc_log := rpc_log w @ qs, metrics := metrics w @ [m]\<rparr>)"
  shows "rpc_log (snd (run_state (agent_call p f) w)) = rpc_log w @ qs"
  using assms by (auto simp: agent_call_def)

end
