(* ===== verification/AgentHandlers.thy ===== *)
theory AgentHandlers
  imports HandlerBase AgentSystem
begin

text \<open>
  The handlers of what the agent does besides files: \<^verbatim>\<open>cron_handler.go\<close>,
  \<^verbatim>\<open>docker_handler.go\<close>, \<^verbatim>\<open>service_handler.go\<close>, \<^verbatim>\<open>dashboard_handler.go\<close>,
  \<^verbatim>\<open>health_handler.go\<close> and \<^verbatim>\<open>system_handler.go\<close> (all in \<^verbatim>\<open>internal/api/handler\<close>).
\<close>

section \<open>Cron\<close>

text \<open>
  \<^verbatim>\<open>json.Marshal\<close> of a map writes the members in the order of their names; \<open>Marshal\<close> is the
  encoder (the same as the audit service's).
\<close>

definition cronAuditSummary :: "(json \<Rightarrow> string result) \<Rightarrow> (string \<times> json) list \<Rightarrow> string" where
  "cronAuditSummary Marshal members = (case Marshal (JObj members) of
       Inl _ \<Rightarrow> op_summary ''cron''
     | Inr encoded \<Rightarrow> encoded)"

definition CronHandler_ListTasks ::
  "(json \<Rightarrow> string result) \<Rightarrow> system_conn \<Rightarrow> auditService option \<Rightarrow> gin_ctx \<Rightarrow> (world, CronTask list reply) state"
  where
  "CronHandler_ListTasks Marshal h aud c =
     (let summary = cronAuditSummary Marshal [(''op'', JStr ''list'')] in
      audited c aud (audit_input ''cron'' ''list'' ''task'' ''*'' summary) (\<lambda>_. ''*'') ''list success''
        (Cron_ListTasks h))"

definition cron_tags :: "CronTaskRequest \<Rightarrow> bool" where
  "cron_tags req = (required (ccr_Expression req) \<and> required (ccr_Command req))"

definition CronHandler_CreateTask ::
  "(json \<Rightarrow> string result) \<Rightarrow> system_conn \<Rightarrow> auditService option \<Rightarrow> gin_ctx \<Rightarrow> CronTaskRequest option \<Rightarrow>
    (world, CronTask reply) state" where
  "CronHandler_CreateTask Marshal h aud c body =
     bound cron_tags body ''invalid request payload'' (\<lambda>req.
       let summary = cronAuditSummary Marshal
             [(''command'', JStr (ccr_Command req)), (''enabled'', JBool (ccr_Enabled req)),
              (''expression'', JStr (ccr_Expression req)), (''op'', JStr ''create'')]
       in audited c aud (audit_input ''cron'' ''create'' ''task'' (ccr_Command req) summary) ct_ID
            ''create success'' (Cron_CreateTask h req))"

definition CronHandler_UpdateTask ::
  "(json \<Rightarrow> string result) \<Rightarrow> system_conn \<Rightarrow> auditService option \<Rightarrow> gin_ctx \<Rightarrow> string \<Rightarrow>
    CronTaskRequest option \<Rightarrow> (world, CronTask reply) state" where
  "CronHandler_UpdateTask Marshal h aud c i body =
     bound (\<lambda>i. required i) (Some i) ''invalid task id'' (\<lambda>i.
     bound cron_tags body ''invalid request payload'' (\<lambda>req.
       let summary = cronAuditSummary Marshal
             [(''command'', JStr (ccr_Command req)), (''enabled'', JBool (ccr_Enabled req)),
              (''expression'', JStr (ccr_Expression req)), (''id'', JStr i), (''op'', JStr ''update'')]
       in audited c aud (audit_input ''cron'' ''update'' ''task'' i summary) ct_ID ''update success''
            (Cron_UpdateTask h i req)))"

definition CronHandler_DeleteTask ::
  "(json \<Rightarrow> string result) \<Rightarrow> system_conn \<Rightarrow> auditService option \<Rightarrow> gin_ctx \<Rightarrow> string \<Rightarrow> (world, string reply) state"
  where
  "CronHandler_DeleteTask Marshal h aud c i =
     bound (\<lambda>i. required i) (Some i) ''invalid task id'' (\<lambda>i.
       let summary = cronAuditSummary Marshal [(''id'', JStr i), (''op'', JStr ''delete'')]
       in audited c aud (audit_input ''cron'' ''delete'' ''task'' i summary) id ''delete success''
            (Cron_DeleteTask h i))"

definition CronHandler_SetEnabled ::
  "(json \<Rightarrow> string result) \<Rightarrow> system_conn \<Rightarrow> auditService option \<Rightarrow> gin_ctx \<Rightarrow> string \<Rightarrow> bool option \<Rightarrow>
    (world, CronTask reply) state" where
  "CronHandler_SetEnabled Marshal h aud c i body =
     bound (\<lambda>i. required i) (Some i) ''invalid task id'' (\<lambda>i.
     bound (\<lambda>_. True) body ''invalid request payload'' (\<lambda>enabled.
       let summary = cronAuditSummary Marshal
             [(''enabled'', JBool enabled), (''id'', JStr i), (''op'', JStr ''set_enabled'')]
       in audited c aud (audit_input ''cron'' ''set_enabled'' ''task'' i summary) ct_ID
            ''set enabled success'' (Cron_SetEnabled h i enabled)))"

definition CronHandler_toggle ::
  "(json \<Rightarrow> string result) \<Rightarrow> system_conn \<Rightarrow> auditService option \<Rightarrow> gin_ctx \<Rightarrow> string \<Rightarrow> bool \<Rightarrow>
    (world, CronTask reply) state" where
  "CronHandler_toggle Marshal h aud c i enabled =
     bound (\<lambda>i. required i) (Some i) ''invalid task id'' (\<lambda>i.
       let action = (if enabled then ''enable'' else ''disable'');
           summary = cronAuditSummary Marshal
             [(''enabled'', JBool enabled), (''id'', JStr i), (''op'', JStr action)]
       in audited c aud (audit_input ''cron'' action ''task'' i summary) ct_ID (action @ '' success'')
            (Cron_SetEnabled h i enabled))"

definition CronHandler_EnableTask where
  "CronHandler_EnableTask Marshal h aud c i = CronHandler_toggle Marshal h aud c i True"

definition CronHandler_DisableTask where
  "CronHandler_DisableTask Marshal h aud c i = CronHandler_toggle Marshal h aud c i False"

section \<open>Containers and services\<close>

definition docker_audit :: "string \<Rightarrow> string \<Rightarrow> string \<Rightarrow> RecordAuditInput" where
  "docker_audit action targetType targetID =
     audit_input ''docker'' action targetType targetID (op_summary action)"

definition DockerHandler_ListContainers ::
  "agent_conn \<Rightarrow> auditService option \<Rightarrow> gin_ctx \<Rightarrow> (world, DockerContainerInfo list reply) state" where
  "DockerHandler_ListContainers h aud c =
     audited c aud (docker_audit ''list_containers'' ''docker_container'' []) (\<lambda>_. []) ''list success''
       (ListContainers h)"

definition DockerHandler_ListImages ::
  "agent_conn \<Rightarrow> auditService option \<Rightarrow> gin_ctx \<Rightarrow> (world, DockerImageInfo list reply) state" where
  "DockerHandler_ListImages h aud c =
     audited c aud (docker_audit ''list_images'' ''docker_image'' []) (\<lambda>_. []) ''list success''
       (ListImages h)"

definition DockerHandler_StartContainer ::
  "agent_conn \<Rightarrow> auditService option \<Rightarrow> gin_ctx \<Rightarrow> string \<Rightarrow> (world, DockerContainerActionResult reply) state"
  where
  "DockerHandler_StartContainer h aud c i =
     bound (\<lambda>i. required i) (Some i) ''invalid container id'' (\<lambda>i.
       audited c aud (docker_audit ''start_container'' ''docker_container'' i) (\<lambda>_. i) ''start success''
         (StartContainer h i))"

definition DockerHandler_StopContainer ::
  "agent_conn \<Rightarrow> auditService option \<Rightarrow> gin_ctx \<Rightarrow> string \<Rightarrow> (world, DockerContainerActionResult reply) state"
  where
  "DockerHandler_StopContainer h aud c i =
     bound (\<lambda>i. required i) (Some i) ''invalid container id'' (\<lambda>i.
       audited c aud (docker_audit ''stop_container'' ''docker_container'' i) (\<lambda>_. i) ''stop success''
         (StopContainer h i))"

definition DockerHandler_RestartContainer ::
  "agent_conn \<Rightarrow> auditService option \<Rightarrow> gin_ctx \<Rightarrow> string \<Rightarrow> (world, DockerContainerActionResult reply) state"
  where
  "DockerHandler_RestartContainer h aud c i =
     bound (\<lambda>i. required i) (Some i) ''invalid container id'' (\<lambda>i.
       audited c aud (docker_audit ''restart_container'' ''docker_container'' i) (\<lambda>_. i)
         ''restart success'' (RestartContainer h i))"

definition service_audit :: "string \<Rightarrow> string \<Rightarrow> string \<Rightarrow> RecordAuditInput" where
  "service_audit action targetID op =
     audit_input ''services'' action ''service'' targetID (op_summary op)"

definition ServiceHandler_ListServices ::
  "agent_conn \<Rightarrow> auditService option \<Rightarrow> gin_ctx \<Rightarrow> string option \<Rightarrow> (world, ServiceInfo list reply) state"
  where
  "ServiceHandler_ListServices h aud c query =
     bound (\<lambda>_. True) query ''invalid query params'' (\<lambda>keyword.
       audited c aud (service_audit ''list'' keyword ''list_services'') (\<lambda>_. keyword) ''list success''
         (ListServices h keyword))"

definition ServiceHandler_StartService ::
  "agent_conn \<Rightarrow> auditService option \<Rightarrow> gin_ctx \<Rightarrow> string \<Rightarrow> (world, ServiceActionResult reply) state" where
  "ServiceHandler_StartService h aud c name =
     bound (\<lambda>n. required n) (Some name) ''invalid service name'' (\<lambda>name.
       audited c aud (service_audit ''start'' name ''start_service'') (\<lambda>_. name) ''start success''
         (StartService h name))"

definition ServiceHandler_StopService ::
  "agent_conn \<Rightarrow> auditService option \<Rightarrow> gin_ctx \<Rightarrow> string \<Rightarrow> (world, ServiceActionResult reply) state" where
  "ServiceHandler_StopService h aud c name =
     bound (\<lambda>n. required n) (Some name) ''invalid service name'' (\<lambda>name.
       audited c aud (service_audit ''stop'' name ''stop_service'') (\<lambda>_. name) ''stop success''
         (StopService h name))"

definition ServiceHandler_RestartService ::
  "agent_conn \<Rightarrow> auditService option \<Rightarrow> gin_ctx \<Rightarrow> string \<Rightarrow> (world, ServiceActionResult reply) state" where
  "ServiceHandler_RestartService h aud c name =
     bound (\<lambda>n. required n) (Some name) ''invalid service name'' (\<lambda>name.
       audited c aud (service_audit ''restart'' name ''restart_service'') (\<lambda>_. name) ''restart success''
         (RestartService h name))"

section \<open>Dashboard, health and ping\<close>

definition DashboardHandler_Summary :: "system_conn \<Rightarrow> (world, DashboardSummary reply) state" where
  "DashboardHandler_Summary h = answered (GetSummary h)"

record dependencyStatus =
  dep_Database :: string
  dep_Agent :: string
  dep_Details :: "string \<rightharpoonup> string"

text \<open>
  \<open>db\<close> is the database handle, if there is one: an error of \<^verbatim>\<open>h.db.DB()\<close> (the handle has no
  connection pool), or the ping, a call that changes nothing.
\<close>

definition collectDependencyStatus ::
  "golib \<Rightarrow> go_error option option \<Rightarrow> system_conn option \<Rightarrow> (world, dependencyStatus) state" where
  "collectDependencyStatus lib db agentClient = do {
     let r0 = \<lparr>dep_Database = ''skipped'', dep_Agent = ''skipped'', dep_Details = Map.empty\<rparr>;
     r1 \<leftarrow> (case db of
        None \<Rightarrow> ret r0
      | Some (Some err) \<Rightarrow> ret (r0\<lparr>dep_Database := ''down'',
          dep_Details := (dep_Details r0)(''database'' \<mapsto> Error err)\<rparr>)
      | Some None \<Rightarrow> do {
          ping \<leftarrow> dbcall (\<lambda>t. (Inr (), t));
          ret (case ping of
            Inl err \<Rightarrow> r0\<lparr>dep_Database := ''down'',
              dep_Details := (dep_Details r0)(''database'' \<mapsto> Error err)\<rparr>
          | Inr _ \<Rightarrow> r0\<lparr>dep_Database := ''up''\<rparr>)
        });
     (case agentClient of
        None \<Rightarrow> ret r1
      | Some h \<Rightarrow> do {
          health \<leftarrow> CheckHealth h;
          ret (case health of
            Inl err \<Rightarrow> r1\<lparr>dep_Agent := ''down'',
              dep_Details := (dep_Details r1)(''agent'' \<mapsto> Error err)\<rparr>
          | Inr status \<Rightarrow>
              if \<not> EqualFold (fold_uni lib) (TrimSpace status) ''SERVING'' then
                r1\<lparr>dep_Agent := ''down'', dep_Details :=
                  (dep_Details r1)(''agent'' \<mapsto> ''unexpected health status: '' @ status)\<rparr>
              else r1\<lparr>dep_Agent := ''up''\<rparr>)
        })
   }"

record health_data =
  hd_status :: string
  hd_checks :: dependencyStatus

definition HealthHandler_Health ::
  "golib \<Rightarrow> go_error option option \<Rightarrow> system_conn option \<Rightarrow> (world, health_data reply) state" where
  "HealthHandler_Health lib db agentClient = do {
     checks \<leftarrow> collectDependencyStatus lib db agentClient;
     ret (OK \<lparr>hd_status = (if dep_Database checks = ''down'' \<or> dep_Agent checks = ''down''
       then ''degraded'' else ''up''), hd_checks = checks\<rparr>)
   }"

text \<open>The answer of \<^verbatim>\<open>/ready\<close> is a status, a code and a message around the same data.\<close>

definition HealthHandler_Readiness ::
  "golib \<Rightarrow> go_error option option \<Rightarrow> system_conn option \<Rightarrow>
    (world, (int \<times> int \<times> string) \<times> health_data) state" where
  "HealthHandler_Readiness lib db agentClient = do {
     checks \<leftarrow> collectDependencyStatus lib db agentClient;
     let data = \<lparr>hd_status = ''ready'', hd_checks = checks\<rparr>;
     ret (if \<not> (dep_Database checks \<noteq> ''down'' \<and> dep_Agent checks \<noteq> ''down'')
       then ((503, 1002, ''service not ready''), data) else ((200, 0, ''ok''), data))
   }"

definition SystemHandler_Ping :: "time \<Rightarrow> (string \<times> rfc3339) reply" where
  "SystemHandler_Ping now = OK (''snowpanel'', FormatRFC3339 now)"

end
