(* ===== verification/TaskHandlers.thy ===== *)
theory TaskHandlers
  imports HandlerBase TaskService
begin

text \<open>
  \<^verbatim>\<open>task_handler.go\<close>, \<^verbatim>\<open>backup_handler.go\<close> and \<^verbatim>\<open>audit_handler.go\<close> of
  \<^verbatim>\<open>internal/api/handler\<close>. \<open>param\<close> is the path parameter \<^verbatim>\<open>:id\<close>.
\<close>

text \<open>\<^verbatim>\<open>var userIDPtr *int64; if userID, ok := middleware.GetCurrentUserID(c); ok { ... }\<close>.\<close>

definition userIDPtr :: "gin_ctx \<Rightarrow> int option" where
  "userIDPtr c = (if snd (GetCurrentUserID (gc_keys c)) then Some (fst (GetCurrentUserID (gc_keys c)))
     else None)"

definition current_username :: "gin_ctx \<Rightarrow> string" where
  "current_username c = fst (GetCurrentUsername (gc_keys c))"

section \<open>Tasks\<close>

definition operation_summary :: "string \<Rightarrow> string \<Rightarrow> string \<Rightarrow> string" where
  "operation_summary operation field value =
     ''{'' @ quoted ''operation'' @ '':'' @ quoted operation @ '','' @ quoted field @ '':'' @
     quoted value @ ''}''"

definition docker_restart_tags :: "CreateDockerRestartTaskRequest \<Rightarrow> bool" where
  "docker_restart_tags req = (required (cdr_ContainerID req) \<and> min_runes 2 (cdr_ContainerID req) \<and>
     max_runes 128 (cdr_ContainerID req) \<and> max_runes 128 (cdr_IdempotencyKey req))"

definition TaskHandler_CreateDockerRestartTask ::
  "taskService \<Rightarrow> auditService option \<Rightarrow> gin_ctx \<Rightarrow> CreateDockerRestartTaskRequest option \<Rightarrow>
    (world, CreateTaskResult reply) state" where
  "TaskHandler_CreateDockerRestartTask h aud c body =
     bound docker_restart_tags body ''invalid request body'' (\<lambda>req.
       audited c aud (audit_input ''tasks'' ''create_docker_restart'' ''task'' (cdr_ContainerID req)
           (operation_summary ''docker.restart'' ''container_id'' (cdr_ContainerID req)))
         (\<lambda>result. itoa (ctr_ID result)) ''task created''
         (CreateDockerRestartTask h req (userIDPtr c) (current_username c)))"

definition service_restart_tags :: "CreateServiceRestartTaskRequest \<Rightarrow> bool" where
  "service_restart_tags req = (required (csr_ServiceName req) \<and> min_runes 2 (csr_ServiceName req) \<and>
     max_runes 128 (csr_ServiceName req) \<and> max_runes 128 (csr_IdempotencyKey req))"

definition TaskHandler_CreateServiceRestartTask ::
  "taskService \<Rightarrow> auditService option \<Rightarrow> gin_ctx \<Rightarrow> CreateServiceRestartTaskRequest option \<Rightarrow>
    (world, CreateTaskResult reply) state" where
  "TaskHandler_CreateServiceRestartTask h aud c body =
     bound service_restart_tags body ''invalid request body'' (\<lambda>req.
       audited c aud (audit_input ''tasks'' ''create_service_restart'' ''task'' (csr_ServiceName req)
           (operation_summary ''service.restart'' ''service_name'' (csr_ServiceName req)))
         (\<lambda>result. itoa (ctr_ID result)) ''task created''
         (CreateServiceRestartTask h req (userIDPtr c) (current_username c)))"

definition TaskHandler_ListTasks ::
  "taskService \<Rightarrow> ListTasksQuery option \<Rightarrow> (world, ListTasksResult reply) state" where
  "TaskHandler_ListTasks h query =
     bound (\<lambda>_. True) query ''invalid query params'' (\<lambda>query. answered (ListTasks h query))"

definition TaskHandler_GetTaskDetail :: "taskService \<Rightarrow> string \<Rightarrow> (world, TaskDetail reply) state" where
  "TaskHandler_GetTaskDetail h param =
     with_id param ''invalid task id'' (\<lambda>i. answered (GetTaskDetail h i))"

definition TaskHandler_CancelTask ::
  "taskService \<Rightarrow> auditService option \<Rightarrow> gin_ctx \<Rightarrow> string \<Rightarrow> (world, (int \<times> string) reply) state" where
  "TaskHandler_CancelTask h aud c param =
     with_id param ''invalid task id'' (\<lambda>i.
       audited c aud (audit_input ''tasks'' ''cancel'' ''task'' (itoa i)
           (''{'' @ quoted ''operation'' @ '':'' @ quoted ''cancel'' @ ''}''))
         (\<lambda>_. itoa i) ''task canceled''
         (call (CancelTask h i (current_username c)) (\<lambda>_. ret (Inr (i, TaskStatusCanceled)))))"

definition TaskHandler_RetryTask ::
  "taskService \<Rightarrow> auditService option \<Rightarrow> gin_ctx \<Rightarrow> string \<Rightarrow> (world, CreateTaskResult reply) state" where
  "TaskHandler_RetryTask h aud c param =
     with_id param ''invalid task id'' (\<lambda>i.
       audited c aud (audit_input ''tasks'' ''retry'' ''task'' (itoa i)
           (''{'' @ quoted ''operation'' @ '':'' @ quoted ''retry'' @ ''}''))
         (\<lambda>result. itoa (ctr_ID result)) ''task retried''
         (RetryTask h i (userIDPtr c) (current_username c)))"

section \<open>Backups\<close>

definition backup_summary :: "golib \<Rightarrow> string \<Rightarrow> string \<Rightarrow> string \<Rightarrow> string" where
  "backup_summary lib resourceType resourceID storageType =
     ''{'' @ quoted ''resource_type'' @ '':'' @ quote lib resourceType @ '','' @
     quoted ''resource_id'' @ '':'' @ quote lib resourceID @ '','' @
     quoted ''storage_type'' @ '':'' @ quote lib storageType @ ''}''"

definition backupCreateSummary :: "golib \<Rightarrow> CreateBackupMetadataRequest \<Rightarrow> string" where
  "backupCreateSummary lib req =
     backup_summary lib (cbm_ResourceType req) (cbm_ResourceID req) (cbm_StorageType req)"

definition backupTaskCreateSummary :: "golib \<Rightarrow> CreateBackupTaskRequest \<Rightarrow> string" where
  "backupTaskCreateSummary lib req =
     backup_summary lib (cbt_ResourceType req) (cbt_ResourceID req) (cbt_StorageType req)"

definition verify_summary :: "golib \<Rightarrow> int \<Rightarrow> string \<Rightarrow> string" where
  "verify_summary lib sizeBytes checksum =
     ''{'' @ quoted ''size_bytes'' @ '':'' @ itoa sizeBytes @ '','' @
     quoted ''checksum'' @ '':'' @ quote lib checksum @ ''}''"

definition backupVerifySummary :: "golib \<Rightarrow> VerifyBackupRequest \<Rightarrow> string" where
  "backupVerifySummary lib req = verify_summary lib (vbr_SizeBytes req) (vbr_Checksum req)"

definition backupVerifyTaskSummary :: "golib \<Rightarrow> CreateBackupVerifyTaskRequest \<Rightarrow> string" where
  "backupVerifyTaskSummary lib req = verify_summary lib (cbv_SizeBytes req) (cbv_Checksum req)"

definition boolString :: "bool \<Rightarrow> string" where
  "boolString value = (if value then ''true'' else ''false'')"

definition cleanup_summary :: "bool \<Rightarrow> int \<Rightarrow> bool \<Rightarrow> string" where
  "cleanup_summary dryRun retentionDays archive =
     ''{'' @ quoted ''dry_run'' @ '':'' @ boolString dryRun @ '','' @
     quoted ''retention_days'' @ '':'' @ itoa retentionDays @ '','' @
     quoted ''archive_before_delete'' @ '':'' @ boolString archive @ ''}''"

definition backupCleanupSummary :: "BackupRetentionCleanupRequest \<Rightarrow> string" where
  "backupCleanupSummary req =
     cleanup_summary (brc_DryRun req) (brc_RetentionDays req) (brc_ArchiveBeforeDelete req)"

definition BackupHandler_ListBackups ::
  "backupService \<Rightarrow> ListBackupsQuery option \<Rightarrow> (world, ListBackupsResult reply) state" where
  "BackupHandler_ListBackups h query =
     bound (\<lambda>_. True) query ''invalid query params'' (\<lambda>query. answered (ListBackups h query))"

definition backup_create_tags :: "CreateBackupMetadataRequest \<Rightarrow> bool" where
  "backup_create_tags req = (required (cbm_ResourceType req) \<and> max_runes 32 (cbm_ResourceType req) \<and>
     required (cbm_ResourceID req) \<and> max_runes 128 (cbm_ResourceID req) \<and>
     max_runes 32 (cbm_StorageType req) \<and> max_runes 1024 (cbm_FilePath req))"

definition BackupHandler_CreateBackup ::
  "golib \<Rightarrow> backupService \<Rightarrow> auditService option \<Rightarrow> gin_ctx \<Rightarrow> CreateBackupMetadataRequest option \<Rightarrow>
    (world, BackupSummary reply) state" where
  "BackupHandler_CreateBackup lib h aud c body =
     bound backup_create_tags body ''invalid request body'' (\<lambda>req.
       audited c aud (audit_input ''backups'' ''create'' ''backup'' (cbm_ResourceID req)
           (backupCreateSummary lib req))
         (\<lambda>result. itoa (sum_ID result)) ''backup metadata created''
         (CreateMetadata h req (userIDPtr c)))"

definition backup_task_tags :: "CreateBackupTaskRequest \<Rightarrow> bool" where
  "backup_task_tags req = (required (cbt_ResourceType req) \<and> max_runes 32 (cbt_ResourceType req) \<and>
     required (cbt_ResourceID req) \<and> max_runes 128 (cbt_ResourceID req) \<and>
     max_runes 32 (cbt_StorageType req) \<and> max_runes 1024 (cbt_FilePath req) \<and>
     max_runes 128 (cbt_IdempotencyKey req))"

definition BackupHandler_CreateBackupTask ::
  "golib \<Rightarrow> taskService \<Rightarrow> auditService option \<Rightarrow> gin_ctx \<Rightarrow> CreateBackupTaskRequest option \<Rightarrow>
    (world, (BackupSummary \<times> CreateTaskResult) reply) state" where
  "BackupHandler_CreateBackupTask lib h aud c body =
     bound backup_task_tags body ''invalid request body'' (\<lambda>req.
       audited c aud (audit_input ''backups'' ''create_task'' ''backup'' (cbt_ResourceID req)
           (backupTaskCreateSummary lib req))
         (\<lambda>result. itoa (sum_ID (fst result))) ''backup task created''
         (CreateBackupTask h req (userIDPtr c) (current_username c)))"

definition verify_tags :: "VerifyBackupRequest \<Rightarrow> bool" where
  "verify_tags req = (vbr_SizeBytes req \<ge> 1 \<and> required (vbr_Checksum req) \<and>
     max_runes 128 (vbr_Checksum req) \<and> max_runes 1024 (vbr_FilePath req))"

definition BackupHandler_VerifyBackup ::
  "golib \<Rightarrow> backupService \<Rightarrow> auditService option \<Rightarrow> gin_ctx \<Rightarrow> string \<Rightarrow> VerifyBackupRequest option \<Rightarrow>
    (world, BackupSummary reply) state" where
  "BackupHandler_VerifyBackup lib h aud c param body =
     with_id param ''invalid backup id'' (\<lambda>i.
     bound verify_tags body ''invalid request body'' (\<lambda>req.
       audited c aud (audit_input ''backups'' ''verify'' ''backup'' (itoa i) (backupVerifySummary lib req))
         (\<lambda>result. itoa (sum_ID result)) ''backup metadata verified'' (Verify h i req)))"

definition verify_task_tags :: "CreateBackupVerifyTaskRequest \<Rightarrow> bool" where
  "verify_task_tags req = ((cbv_SizeBytes req = 0 \<or> cbv_SizeBytes req \<ge> 1) \<and>
     max_runes 128 (cbv_Checksum req) \<and> max_runes 1024 (cbv_FilePath req) \<and>
     max_runes 128 (cbv_IdempotencyKey req))"

text \<open>
  An empty body (\<^verbatim>\<open>io.EOF\<close>) is let through: \<open>Some None\<close>; the request is then the zero value.
\<close>

definition BackupHandler_VerifyBackupTask ::
  "golib \<Rightarrow> taskService \<Rightarrow> auditService option \<Rightarrow> gin_ctx \<Rightarrow> string \<Rightarrow>
    CreateBackupVerifyTaskRequest option option \<Rightarrow> (world, CreateTaskResult reply) state" where
  "BackupHandler_VerifyBackupTask lib h aud c param body =
     with_id param ''invalid backup id'' (\<lambda>i.
     bound verify_task_tags
       (case body of
          Some None \<Rightarrow> Some \<lparr>cbv_SizeBytes = 0, cbv_Checksum = [], cbv_FilePath = [],
            cbv_IdempotencyKey = []\<rparr>
        | Some (Some req) \<Rightarrow> Some req | None \<Rightarrow> None)
       ''invalid request body'' (\<lambda>req.
       audited c aud (audit_input ''backups'' ''verify_task'' ''backup'' (itoa i)
           (backupVerifyTaskSummary lib req))
         (\<lambda>_. itoa i) ''backup verify task created''
         (CreateBackupVerifyTask h i req (userIDPtr c) (current_username c))))"

definition BackupHandler_CleanupRetention ::
  "backupService \<Rightarrow> auditService option \<Rightarrow> gin_ctx \<Rightarrow> BackupRetentionCleanupRequest option \<Rightarrow>
    (world, BackupRetentionCleanupResult reply) state" where
  "BackupHandler_CleanupRetention h aud c body =
     bound (\<lambda>_. True) body ''invalid request body'' (\<lambda>req.
       audited c aud (audit_input ''backups'' ''retention_cleanup'' ''backup'' []
           (backupCleanupSummary req))
         (\<lambda>_. []) ''backup retention cleanup completed'' (CleanupRetention h req))"

section \<open>Audit log\<close>

definition AuditHandler_ListLogs ::
  "auditService \<Rightarrow> ListAuditLogsQuery option \<Rightarrow> (world, ListAuditLogsResult reply) state" where
  "AuditHandler_ListLogs h query =
     bound (\<lambda>_. True) query ''invalid query params'' (\<lambda>query. answered (ListAuditLogs h query))"

text \<open>
  The export streams into the response (\<open>'b\<close>); an error after the first bytes is appended to
  them as the framework does, here the reply beside the stream.
\<close>

definition AuditHandler_ExportLogs ::
  "auditService \<Rightarrow> 'b exporter \<Rightarrow> ListAuditLogsQuery option \<Rightarrow> string \<Rightarrow> 'b \<Rightarrow> world \<Rightarrow>
    ((unit reply \<times> 'b) \<times> world) option" where
  "AuditHandler_ExportLogs h x query0 formatParam out w =
     (case query0 of
        None \<Rightarrow> Some ((bad_input ''invalid query params'', out), w)
      | Some query \<Rightarrow>
          (let lowered = ToLower (aud_uni h) (TrimSpace formatParam);
               fmt = (if lowered = [] then ''csv'' else lowered)
           in if fmt \<noteq> ''csv'' \<and> fmt \<noteq> ''jsonl'' then
                Some ((bad_input ''unsupported audit export format'', out), w)
              else case ExportAudit h query fmt x out w of
                None \<Rightarrow> None
              | Some ((Some err, out'), w') \<Rightarrow> Some ((response_FromError err, out'), w')
              | Some ((None, out'), w') \<Rightarrow> Some ((OK (), out'), w')))"

definition auditCleanupSummary :: "AuditRetentionCleanupRequest \<Rightarrow> string" where
  "auditCleanupSummary req =
     cleanup_summary (arc_DryRun req) (arc_RetentionDays req) (arc_ArchiveBeforeDelete req)"

definition AuditHandler_CleanupRetention ::
  "auditService \<Rightarrow> gin_ctx \<Rightarrow> AuditRetentionCleanupRequest option \<Rightarrow>
    (world, AuditRetentionCleanupResult reply) state" where
  "AuditHandler_CleanupRetention h c body =
     bound (\<lambda>_. True) body ''invalid request body'' (\<lambda>req.
       audited c (Some h) (audit_input ''audit'' ''retention_cleanup'' ''audit_logs'' []
           (auditCleanupSummary req))
         (\<lambda>_. []) ''audit retention cleanup completed'' (AuditCleanupRetention h req))"

end
