(* ===== verification/LoginLimiter.thy ===== *)
theory LoginLimiter
  imports Apperror
begin

text \<open>
  \<^verbatim>\<open>internal/security/login_attempt_limiter.go\<close>: the in-memory guard against password
  guessing. Each method is a function of the time it reads and of the limiter's state; the
  mutex makes the methods atomic. \<^verbatim>\<open>LoginAttemptGuard\<close>, the interface the login handler uses,
  is a locale; what holds of every guard is proved there.
\<close>

definition defaultLoginMaxFailures :: int where "defaultLoginMaxFailures = 5"
definition defaultLoginFailureWindow :: duration where "defaultLoginFailureWindow = 15 * Minute"
definition defaultLoginLockDuration :: duration where "defaultLoginLockDuration = 15 * Minute"

text \<open>The zero \<^verbatim>\<open>time.Time\<close>: January 1 of year 1.\<close>

definition zeroTime :: time where "zeroTime = - 62135596800 * Second"

record loginAttemptState =
  st_failures :: "time list"
  st_lockedUntil :: time

record LoginAttemptLimiter =
  lim_maxFailures :: int
  lim_failureWindow :: duration
  lim_lockDuration :: duration
  lim_states :: "string \<rightharpoonup> loginAttemptState"

record LoginAttemptLimiterOptions =
  lao_MaxFailures :: int
  lao_FailureWindow :: duration
  lao_LockDuration :: duration

definition NewLoginAttemptLimiter :: "LoginAttemptLimiterOptions \<Rightarrow> LoginAttemptLimiter" where
  "NewLoginAttemptLimiter options =
     \<lparr>lim_maxFailures = (if lao_MaxFailures options \<le> 0 then defaultLoginMaxFailures
        else lao_MaxFailures options),
      lim_failureWindow = (if lao_FailureWindow options \<le> 0 then defaultLoginFailureWindow
        else lao_FailureWindow options),
      lim_lockDuration = (if lao_LockDuration options \<le> 0 then defaultLoginLockDuration
        else lao_LockDuration options),
      lim_states = Map.empty\<rparr>"

definition BuildLoginAttemptKey :: "golib \<Rightarrow> string \<Rightarrow> string \<Rightarrow> string" where
  "BuildLoginAttemptKey lib username ip =
     (let normalizedUsername = ToLower (lower_uni lib) (TrimSpace username);
          normalizedIP = TrimSpace ip
      in (if normalizedUsername = [] then ''unknown'' else normalizedUsername) @ ''|'' @
         (if normalizedIP = [] then ''unknown'' else normalizedIP))"

definition pruneFailures :: "LoginAttemptLimiter \<Rightarrow> loginAttemptState \<Rightarrow> time \<Rightarrow> loginAttemptState" where
  "pruneFailures l state now =
     state\<lparr>st_failures := filter (\<lambda>item. item > now - lim_failureWindow l) (st_failures state)\<rparr>"

text \<open>\<^verbatim>\<open>d.Round(time.Second)\<close>, halves away from zero, and \<^verbatim>\<open>%s\<close> of whole positive seconds.\<close>

definition RoundSecond :: "duration \<Rightarrow> duration" where
  "RoundSecond d = (let r = \<bar>d\<bar> mod Second; x = (if r + r < Second then \<bar>d\<bar> - r else \<bar>d\<bar> + Second - r)
     in if d < 0 then - x else x)"

definition DurationSeconds :: "duration \<Rightarrow> string" where
  "DurationSeconds d = (let s = d div Second; h = s div 3600; m = s div 60 mod 60
     in (if h > 0 then itoa h @ ''h'' else []) @ (if h > 0 \<or> m > 0 then itoa m @ ''m'' else []) @
        itoa (s mod 60) @ ''s'')"

definition rateLimited :: "duration \<Rightarrow> go_error" where
  "rateLimited remaining =
     wrapAs ErrLoginRateLimited (Plain (''retry after '' @ DurationSeconds remaining))"

definition Allow ::
  "time \<Rightarrow> string \<Rightarrow> LoginAttemptLimiter \<Rightarrow> go_error option \<times> LoginAttemptLimiter" where
  "Allow now key l = (
     if key = [] then (None, l)
     else case lim_states l key of
       None \<Rightarrow> (None, l)
     | Some st0 \<Rightarrow>
       let state = pruneFailures l st0 now;
           l' = l\<lparr>lim_states := (lim_states l)(key \<mapsto> state)\<rparr>
       in if st_lockedUntil state > now
          then let remaining = RoundSecond (st_lockedUntil state - now)
               in (Some (rateLimited (if remaining < Second then Second else remaining)), l')
          else if st_failures state = []
          then (None, l'\<lparr>lim_states := (lim_states l')(key := None)\<rparr>)
          else (None, l'))"

definition RecordFailure :: "time \<Rightarrow> string \<Rightarrow> LoginAttemptLimiter \<Rightarrow> LoginAttemptLimiter" where
  "RecordFailure now key l = (
     if key = [] then l
     else let st0 = (case lim_states l key of Some st \<Rightarrow> st
               | None \<Rightarrow> \<lparr>st_failures = [], st_lockedUntil = zeroTime\<rparr>);
              st1 = pruneFailures l st0 now;
              st2 = st1\<lparr>st_failures := st_failures st1 @ [now]\<rparr>;
              st3 = (if int (length (st_failures st2)) \<ge> lim_maxFailures l
                     then st2\<lparr>st_failures := [], st_lockedUntil := now + lim_lockDuration l\<rparr>
                     else st2)
          in l\<lparr>lim_states := (lim_states l)(key \<mapsto> st3)\<rparr>)"

definition RecordSuccess :: "string \<Rightarrow> LoginAttemptLimiter \<Rightarrow> LoginAttemptLimiter" where
  "RecordSuccess key l =
     (if key = [] then l else l\<lparr>lim_states := (lim_states l)(key := None)\<rparr>)"

section \<open>The guard's contract\<close>

text \<open>Guarded attempts that all fail, as the login handler makes them; how many passed.\<close>

fun attempts ::
  "(time \<Rightarrow> 'k \<Rightarrow> 's \<Rightarrow> go_error option \<times> 's) \<Rightarrow> (time \<Rightarrow> 'k \<Rightarrow> 's \<Rightarrow> 's) \<Rightarrow> time list \<Rightarrow> 'k \<Rightarrow> 's \<Rightarrow> nat \<times> 's" where
  "attempts allow fail [] k s = (0, s)"
| "attempts allow fail (t # ts) k s = (case allow t k s of
       (Some e, s') \<Rightarrow> attempts allow fail ts k s'
     | (None, s') \<Rightarrow> (case attempts allow fail ts k (fail t k s') of (n, s'') \<Rightarrow> (Suc n, s'')))"

text \<open>
  What the login handler relies on. \<open>counted t0 j k s\<close>: since \<open>t0\<close> exactly \<open>j\<close> failures of
  \<open>k\<close> count, in a window that has not closed; \<open>locked u k s\<close>: \<open>k\<close> is refused until \<open>u\<close>.
  \<open>ok k s\<close>: \<open>k\<close> is a key the guard handles; \<open>epoch\<close> is the earliest time it handles;
  \<open>limit\<close>, \<open>window\<close> and \<open>lock\<close> are its configuration.
\<close>

locale login_guard =
  fixes allow :: "time \<Rightarrow> 'k \<Rightarrow> 's \<Rightarrow> go_error option \<times> 's"
    and fail :: "time \<Rightarrow> 'k \<Rightarrow> 's \<Rightarrow> 's"
    and succeed :: "'k \<Rightarrow> 's \<Rightarrow> 's"
    and counted :: "time \<Rightarrow> nat \<Rightarrow> 'k \<Rightarrow> 's \<Rightarrow> bool"
    and locked :: "time \<Rightarrow> 'k \<Rightarrow> 's \<Rightarrow> bool"
    and ok :: "'k \<Rightarrow> 's \<Rightarrow> bool"
    and epoch :: time and limit :: nat and window :: duration and lock :: duration
  assumes succeed_counts: "ok k s \<Longrightarrow> epoch \<le> t0 \<Longrightarrow> counted t0 0 k (succeed k s)"
    and allow_counted: "\<lbrakk>counted t0 j k s; t0 \<le> t; t < t0 + window\<rbrakk> \<Longrightarrow>
      fst (allow t k s) = None \<and> counted t0 j k (snd (allow t k s))"
    and fail_counted: "\<lbrakk>counted t0 j k s; t0 \<le> t; t < t0 + window; Suc j < limit\<rbrakk> \<Longrightarrow>
      counted t0 (Suc j) k (fail t k s)"
    and fail_locks: "\<lbrakk>counted t0 j k s; t0 \<le> t; t < t0 + window; limit \<le> Suc j\<rbrakk> \<Longrightarrow>
      locked (t + lock) k (fail t k s)"
    and allow_locked: "\<lbrakk>locked u k s; t < u\<rbrakk> \<Longrightarrow>
      fst (allow t k s) \<noteq> None \<and> locked u k (snd (allow t k s))"
begin

lemma attempts_locked:
  "locked u k s \<Longrightarrow> \<forall>t \<in> set ts. t < u \<Longrightarrow> fst (attempts allow fail ts k s) = 0"
proof (induction ts arbitrary: s)
  case (Cons t ts)
  then have "fst (allow t k s) \<noteq> None" "locked u k (snd (allow t k s))"
    using allow_locked by auto
  with Cons show ?case by (cases "allow t k s") auto
qed simp

lemma attempts_counted:
  assumes "counted t0 j k s" "\<forall>t \<in> set ts. t0 \<le> t \<and> t < t0 + window" "j < limit"
    "sorted ts" "\<forall>t \<in> set ts. t < t0 + lock"
  shows "fst (attempts allow fail ts k s) = min (length ts) (limit - j)"
  using assms
proof (induction ts arbitrary: s j)
  case (Cons t ts)
  have t: "t0 \<le> t" "t < t0 + window" using Cons.prems(2) by auto
  obtain s' where s': "allow t k s = (None, s')" "counted t0 j k s'"
    using allow_counted [OF Cons.prems(1) t] by (cases "allow t k s") auto
  show ?case
  proof (cases "Suc j < limit")
    case True
    then have "fst (attempts allow fail ts k (fail t k s')) = min (length ts) (limit - Suc j)"
      using Cons.IH [OF fail_counted [OF s'(2) t True]] Cons.prems by auto
    then show ?thesis using s' True by (auto split: prod.splits)
  next
    case False
    then have lim: "limit = Suc j" using Cons.prems(3) by simp
    have "locked (t + lock) k (fail t k s')" using fail_locks [OF s'(2) t] lim by simp
    moreover have "\<forall>t' \<in> set ts. t' < t + lock" using Cons.prems(5) t(1) by force
    ultimately have "fst (attempts allow fail ts k (fail t k s')) = 0" by (rule attempts_locked)
    then show ?thesis using s' lim by (auto split: prod.splits)
  qed
qed simp

lemma attempts_after_success:
  assumes "ok k s" "epoch \<le> t0" "\<forall>t \<in> set ts. t0 \<le> t \<and> t < t0 + window \<and> t < t0 + lock" "sorted ts" "0 < limit"
  shows "fst (attempts allow fail ts k (succeed k s)) = min (length ts) limit"
  using attempts_counted [OF succeed_counts [OF assms(1,2)], of ts] assms by auto

end

section \<open>The in-memory limiter keeps the contract\<close>

definition configured :: "nat \<Rightarrow> duration \<Rightarrow> duration \<Rightarrow> string \<Rightarrow> LoginAttemptLimiter \<Rightarrow> bool" where
  "configured n window lock k l = (k \<noteq> [] \<and> lim_maxFailures l = int n \<and>
     lim_failureWindow l = window \<and> lim_lockDuration l = lock)"

definition mem_counted ::
  "nat \<Rightarrow> duration \<Rightarrow> duration \<Rightarrow> time \<Rightarrow> nat \<Rightarrow> string \<Rightarrow> LoginAttemptLimiter \<Rightarrow> bool" where
  "mem_counted n window lock t0 j k l = (configured n window lock k l \<and> zeroTime \<le> t0 \<and>
     (case lim_states l k of None \<Rightarrow> j = 0
      | Some st \<Rightarrow> length (st_failures st) = j \<and> (\<forall>f \<in> set (st_failures st). t0 \<le> f) \<and>
          st_lockedUntil st \<le> t0))"

definition mem_locked ::
  "nat \<Rightarrow> duration \<Rightarrow> duration \<Rightarrow> time \<Rightarrow> string \<Rightarrow> LoginAttemptLimiter \<Rightarrow> bool" where
  "mem_locked n window lock u k l = (configured n window lock k l \<and>
     (case lim_states l k of None \<Rightarrow> False | Some st \<Rightarrow> u \<le> st_lockedUntil st))"

lemma prune_all:
  "\<forall>f \<in> set (st_failures st). t0 \<le> f \<Longrightarrow> t < t0 + lim_failureWindow l \<Longrightarrow> pruneFailures l st t = st"
  unfolding pruneFailures_def by (subst filter_True) auto

lemma configured_state [simp]:
  "configured n window lock k (l\<lparr>lim_states := m\<rparr>) = configured n window lock k l"
  by (simp add: configured_def)

lemma mem_allow:
  assumes "mem_counted n window lock t0 j k l" "t0 \<le> t" "t < t0 + window"
  shows "fst (Allow t k l) = None \<and> mem_counted n window lock t0 j k (snd (Allow t k l))"
proof (cases "lim_states l k")
  case None
  then have "Allow t k l = (None, l)" by (simp add: Allow_def)
  then show ?thesis using assms(1) by simp
next
  case (Some st)
  have "k \<noteq> []" "lim_failureWindow l = window" using assms(1) by (simp_all add: mem_counted_def configured_def)
  moreover have "pruneFailures l st t = st"
    using assms Some calculation by (intro prune_all) (auto simp: mem_counted_def)
  ultimately show ?thesis
    using assms Some by (auto simp: Allow_def mem_counted_def Let_def)
qed

lemma mem_fail:
  assumes "mem_counted n window lock t0 j k l" "t0 \<le> t" "t < t0 + window"
  shows "if Suc j < n then mem_counted n window lock t0 (Suc j) k (RecordFailure t k l)
    else mem_locked n window lock (t + lock) k (RecordFailure t k l)"
proof -
  define st where "st = (case lim_states l k of Some st \<Rightarrow> st | None \<Rightarrow> \<lparr>st_failures = [], st_lockedUntil = zeroTime\<rparr>)"
  have c: "configured n window lock k l" using assms(1) by (simp add: mem_counted_def)
  have st: "length (st_failures st) = j" "\<forall>f \<in> set (st_failures st). t0 \<le> f" "st_lockedUntil st \<le> t0"
    using assms(1) by (auto simp: st_def mem_counted_def split: option.splits)
  have "pruneFailures l st t = st" using st(2) assms(3) c by (intro prune_all) (auto simp: configured_def)
  then show ?thesis
    using c st assms by (auto simp: RecordFailure_def st_def [symmetric] Let_def mem_counted_def
        mem_locked_def configured_def)
qed

lemma mem_allow_locked:
  assumes "mem_locked n window lock u k l" "t < u"
  shows "fst (Allow t k l) \<noteq> None \<and> mem_locked n window lock u k (snd (Allow t k l))"
  using assms by (auto simp: Allow_def mem_locked_def configured_def pruneFailures_def Let_def split: option.splits)

interpretation memory_guard: login_guard Allow RecordFailure RecordSuccess
  "mem_counted n window lock" "mem_locked n window lock" "configured n window lock" zeroTime n window lock
  for n window lock
proof
  fix k and s :: LoginAttemptLimiter and t0
  assume "configured n window lock k s" "zeroTime \<le> t0"
  then show "mem_counted n window lock t0 0 k (RecordSuccess k s)"
    by (simp add: mem_counted_def RecordSuccess_def configured_def)
qed (use mem_allow mem_fail mem_allow_locked in \<open>fastforce split: if_splits\<close>)+

section \<open>Properties\<close>

text \<open>
  Guessing passwords against the in-memory guard: of any number of failing attempts on one
  key, in order and within one failure window and lock period after the last success, exactly
  the first \<open>maxFailures\<close> reach the password check; the rest are refused.
\<close>

theorem password_guessing_bounded:
  assumes "key \<noteq> []" "0 < lim_maxFailures l" "zeroTime \<le> t0" "sorted ts"
    "\<forall>t \<in> set ts. t0 \<le> t \<and> t < t0 + lim_failureWindow l \<and> t < t0 + lim_lockDuration l"
  shows "fst (attempts Allow RecordFailure ts key (RecordSuccess key l)) =
    min (length ts) (nat (lim_maxFailures l))"
  by (rule memory_guard.attempts_after_success [where window = "lim_failureWindow l" and lock = "lim_lockDuration l"])
    (use assms in \<open>auto simp: configured_def\<close>)

theorem password_guessing_bounded_witness:
  "fst (attempts Allow RecordFailure [0, 1, 2, 3] ''bob|10.0.0.1'' (RecordSuccess ''bob|10.0.0.1''
      (NewLoginAttemptLimiter \<lparr>lao_MaxFailures = 2, lao_FailureWindow = 10, lao_LockDuration = 10\<rparr>))) =
    min (length [0, 1, 2, 3 :: int]) (nat (lim_maxFailures
      (NewLoginAttemptLimiter \<lparr>lao_MaxFailures = 2, lao_FailureWindow = 10, lao_LockDuration = 10\<rparr>)))"
  by (rule password_guessing_bounded [of _ _ 0])
    (simp_all add: NewLoginAttemptLimiter_def zeroTime_def duration_defs)

text \<open>
  The guard treats keys apart: failures and successes recorded for one key change nothing
  for another, so an attacker on one address cannot lock out a user on another.
\<close>

theorem guard_keys_independent:
  assumes "k \<noteq> k'"
  shows "fst (Allow t k' (RecordFailure t' k l)) = fst (Allow t k' l) \<and>
    fst (Allow t k' (RecordSuccess k l)) = fst (Allow t k' l) \<and>
    fst (Allow t k' (snd (Allow t' k l))) = fst (Allow t k' l)"
  using assms by (auto simp: Allow_def RecordFailure_def RecordSuccess_def pruneFailures_def Let_def
      split: option.splits)

theorem guard_keys_independent_witness:
  "fst (Allow 5 ''eve|10.0.0.2'' (RecordFailure 4 ''bob|10.0.0.1''
      (NewLoginAttemptLimiter \<lparr>lao_MaxFailures = 1, lao_FailureWindow = 10, lao_LockDuration = 10\<rparr>))) = None"
  using guard_keys_independent [of "''bob|10.0.0.1''" "''eve|10.0.0.2''" 5 4
      "NewLoginAttemptLimiter \<lparr>lao_MaxFailures = 1, lao_FailureWindow = 10, lao_LockDuration = 10\<rparr>"]
  by (simp add: Allow_def NewLoginAttemptLimiter_def)

text \<open>
  A refusal lasts no longer than configured: once the lock has run out and no failure is
  left in the window, the key is allowed again and its state is dropped.
\<close>

theorem lock_expires:
  assumes "lim_states l key = Some st" "st_lockedUntil st \<le> now"
    "\<forall>f \<in> set (st_failures st). f \<le> now - lim_failureWindow l" "key \<noteq> []"
  shows "fst (Allow now key l) = None \<and> lim_states (snd (Allow now key l)) key = None"
proof -
  have "filter (\<lambda>f. f > now - lim_failureWindow l) (st_failures st) = []"
    using assms(3) by (auto simp: filter_empty_conv)
  then show ?thesis using assms by (simp add: Allow_def pruneFailures_def Let_def)
qed

theorem lock_expires_witness:
  "fst (Allow 20 ''bob|10.0.0.1'' (RecordFailure 4 ''bob|10.0.0.1''
      (NewLoginAttemptLimiter \<lparr>lao_MaxFailures = 1, lao_FailureWindow = 10, lao_LockDuration = 10\<rparr>))) = None"
  using lock_expires [of "RecordFailure 4 ''bob|10.0.0.1''
      (NewLoginAttemptLimiter \<lparr>lao_MaxFailures = 1, lao_FailureWindow = 10, lao_LockDuration = 10\<rparr>)"
      "''bob|10.0.0.1''" "\<lparr>st_failures = [], st_lockedUntil = 14\<rparr>" 20]
  by (simp add: RecordFailure_def NewLoginAttemptLimiter_def pruneFailures_def Let_def)

end
