(* ===== verification/RedisLimiter.thy ===== *)
theory RedisLimiter
  imports LoginLimiter
begin

text \<open>
  \<^verbatim>\<open>internal/security/login_attempt_limiter_redis.go\<close>: the guard against password guessing that
  several backend instances share through a Redis server. The server is modelled by the commands
  that are used, as Redis documents them; its clock counts milliseconds. A command is answered, or
  is not carried out (the server is not reached, or refuses the command), or is carried out with
  the answer lost (a timeout of the client).
\<close>

section \<open>The server\<close>

record redis_entry =
  re_value :: int
  re_expires :: "int option"

type_synonym redis = "string \<rightharpoonup> redis_entry"

definition redis_ms :: "time \<Rightarrow> int" where
  "redis_ms t = t div Millisecond"

text \<open>A key has expired when the clock is past its time; on the millisecond itself it is there.\<close>

definition redis_get :: "int \<Rightarrow> string \<Rightarrow> redis \<Rightarrow> redis_entry option" where
  "redis_get ms key r = (case r key of
       None \<Rightarrow> None
     | Some e \<Rightarrow> (case re_expires e of
           None \<Rightarrow> Some e
         | Some deadline \<Rightarrow> if ms > deadline then None else Some e))"

definition redis_PTTL :: "int \<Rightarrow> string \<Rightarrow> redis \<Rightarrow> int" where
  "redis_PTTL ms key r = (case redis_get ms key r of
       None \<Rightarrow> -2
     | Some e \<Rightarrow> (case re_expires e of None \<Rightarrow> -1 | Some deadline \<Rightarrow> deadline - ms))"

definition redis_INCR :: "int \<Rightarrow> string \<Rightarrow> redis \<Rightarrow> int \<times> redis" where
  "redis_INCR ms key r = (case redis_get ms key r of
       None \<Rightarrow> (1, r(key \<mapsto> \<lparr>re_value = 1, re_expires = None\<rparr>))
     | Some e \<Rightarrow> (re_value e + 1, r(key \<mapsto> e\<lparr>re_value := re_value e + 1\<rparr>)))"

definition redis_PEXPIRE :: "int \<Rightarrow> string \<Rightarrow> int \<Rightarrow> redis \<Rightarrow> redis" where
  "redis_PEXPIRE ms key period r = (case redis_get ms key r of
       None \<Rightarrow> r
     | Some e \<Rightarrow> if period \<le> 0 then r(key := None) else r(key \<mapsto> e\<lparr>re_expires := Some (ms + period)\<rparr>))"

text \<open>\<^verbatim>\<open>SET key 1 PX period\<close> refuses a period that is not positive.\<close>

definition redis_SET_PX :: "int \<Rightarrow> string \<Rightarrow> int \<Rightarrow> redis \<Rightarrow> redis option" where
  "redis_SET_PX ms key period r =
     (if period \<le> 0 then None else Some (r(key \<mapsto> \<lparr>re_value = 1, re_expires = Some (ms + period)\<rparr>)))"

text \<open>
  \<^verbatim>\<open>recordFailureScript\<close>: a script runs without other commands in between; a command that
  fails ends it and leaves what it has done.
\<close>

definition recordFailureScript ::
  "int \<Rightarrow> string \<Rightarrow> string \<Rightarrow> int \<Rightarrow> int \<Rightarrow> int \<Rightarrow> redis \<Rightarrow> int result \<times> redis" where
  "recordFailureScript ms lockKey failuresKey maxFailures failureWindowMs lockDurationMs r =
     (if redis_get ms lockKey r \<noteq> None then (Inr 1, r)
      else case redis_INCR ms failuresKey r of
        (count, r1) \<Rightarrow>
          let r2 = (if count = 1 then redis_PEXPIRE ms failuresKey failureWindowMs r1 else r1)
          in if count \<ge> maxFailures
             then (case redis_SET_PX ms lockKey lockDurationMs r2 of
                 None \<Rightarrow> (Inl (Lib ''ERR invalid expire time''), r2)
               | Some r3 \<Rightarrow> (Inr 1, r3(failuresKey := None)))
             else (Inr 0, r2))"

section \<open>The limiter\<close>

datatype command_fate = Answered | Refused | Unanswered

record RedisLoginAttemptLimiterOptions =
  rao_MaxFailures :: int
  rao_FailureWindow :: duration
  rao_LockDuration :: duration
  rao_KeyPrefix :: string
  rao_CommandTimeout :: duration

text \<open>
  Beside the fields of the struct (the client is there or nil): the server, and the fates of the
  coming commands.
\<close>

record RedisLoginAttemptLimiter =
  red_client :: bool
  red_maxFailures :: int
  red_failureWindow :: duration
  red_lockDuration :: duration
  red_keyPrefix :: string
  red_commandTimeout :: duration
  red_fallback :: LoginAttemptLimiter
  red_server :: redis
  red_fates :: "nat \<Rightarrow> command_fate"

definition defaultLoginAttemptRedisPrefix :: string where
  "defaultLoginAttemptRedisPrefix = ''snowpanel:auth:attempt''"

definition defaultLoginAttemptCommandTimeout :: duration where
  "defaultLoginAttemptCommandTimeout = 500 * Millisecond"

definition NewRedisLoginAttemptLimiter ::
  "bool \<Rightarrow> redis \<Rightarrow> (nat \<Rightarrow> command_fate) \<Rightarrow> RedisLoginAttemptLimiterOptions \<Rightarrow> RedisLoginAttemptLimiter" where
  "NewRedisLoginAttemptLimiter client server fates options =
     (let maxFailures = (if rao_MaxFailures options \<le> 0 then defaultLoginMaxFailures else rao_MaxFailures options);
          failureWindow = (if rao_FailureWindow options \<le> 0 then defaultLoginFailureWindow else rao_FailureWindow options);
          lockDuration = (if rao_LockDuration options \<le> 0 then defaultLoginLockDuration else rao_LockDuration options);
          commandTimeout = (if rao_CommandTimeout options \<le> 0 then defaultLoginAttemptCommandTimeout
            else rao_CommandTimeout options);
          prefix = TrimSpace (rao_KeyPrefix options);
          keyPrefix = (if prefix = [] then defaultLoginAttemptRedisPrefix else prefix)
      in \<lparr>red_client = client, red_maxFailures = maxFailures, red_failureWindow = failureWindow,
          red_lockDuration = lockDuration, red_keyPrefix = keyPrefix, red_commandTimeout = commandTimeout,
          red_fallback = NewLoginAttemptLimiter \<lparr>lao_MaxFailures = maxFailures,
            lao_FailureWindow = failureWindow, lao_LockDuration = lockDuration\<rparr>,
          red_server = server, red_fates = fates\<rparr>)"

definition lockKey :: "RedisLoginAttemptLimiter \<Rightarrow> string \<Rightarrow> string" where
  "lockKey l attemptKey = red_keyPrefix l @ '':lock:'' @ attemptKey"

definition failuresKey :: "RedisLoginAttemptLimiter \<Rightarrow> string \<Rightarrow> string" where
  "failuresKey l attemptKey = red_keyPrefix l @ '':failures:'' @ attemptKey"

text \<open>One command.\<close>

definition redis_do ::
  "(redis \<Rightarrow> 'a result \<times> redis) \<Rightarrow> RedisLoginAttemptLimiter \<Rightarrow> 'a result \<times> RedisLoginAttemptLimiter" where
  "redis_do command l =
     (let (reply, server) = command (red_server l);
          l' = l\<lparr>red_fates := red_fates l \<circ> Suc\<rparr>
      in case red_fates l 0 of
           Answered \<Rightarrow> (reply, l'\<lparr>red_server := server\<rparr>)
         | Refused \<Rightarrow> (Inl (Lib ''dial tcp: connection refused''), l')
         | Unanswered \<Rightarrow> (Inl (Lib ''context deadline exceeded''), l'\<lparr>red_server := server\<rparr>))"

definition fallback_Allow ::
  "time \<Rightarrow> string \<Rightarrow> RedisLoginAttemptLimiter \<Rightarrow> go_error option \<times> RedisLoginAttemptLimiter" where
  "fallback_Allow now key l = (case Allow now key (red_fallback l) of
     (refused, f) \<Rightarrow> (refused, l\<lparr>red_fallback := f\<rparr>))"

text \<open>
  \<^verbatim>\<open>PTTL\<close> as the client returns it: the numbers -1 and -2 as they are, that is as one and two
  nanoseconds below zero, anything else in milliseconds.
\<close>

definition PTTL_duration :: "int \<Rightarrow> duration" where
  "PTTL_duration n = (if n = -1 \<or> n = -2 then n else n * Millisecond)"

definition Redis_Allow ::
  "time \<Rightarrow> string \<Rightarrow> RedisLoginAttemptLimiter \<Rightarrow> go_error option \<times> RedisLoginAttemptLimiter" where
  "Redis_Allow now key l =
     (if key = [] then (None, l)
      else if \<not> red_client l then fallback_Allow now key l
      else case redis_do (\<lambda>r. (Inr (redis_PTTL (redis_ms now) (lockKey l key) r), r)) l of
        (Inl err, l') \<Rightarrow> fallback_Allow now key l'
      | (Inr n, l') \<Rightarrow>
          let ttl = PTTL_duration n
          in if ttl > 0 \<or> ttl = -1
             then let ttl1 = (if ttl < Second then Second else ttl);
                      ttl2 = (if ttl1 = -1 then red_lockDuration l' else ttl1)
                  in (Some (rateLimited (RoundSecond ttl2)), l')
             else (None, l'))"

text \<open>Errors of the script are dropped; so is its result.\<close>

definition Redis_RecordFailure :: "time \<Rightarrow> string \<Rightarrow> RedisLoginAttemptLimiter \<Rightarrow> RedisLoginAttemptLimiter" where
  "Redis_RecordFailure now key l =
     (if key = [] then l
      else let l1 = l\<lparr>red_fallback := RecordFailure now key (red_fallback l)\<rparr>
           in if \<not> red_client l1 then l1
              else snd (redis_do (recordFailureScript (redis_ms now) (lockKey l1 key) (failuresKey l1 key)
                (red_maxFailures l1) (red_failureWindow l1 div Millisecond)
                (red_lockDuration l1 div Millisecond)) l1))"

definition Redis_RecordSuccess :: "string \<Rightarrow> RedisLoginAttemptLimiter \<Rightarrow> RedisLoginAttemptLimiter" where
  "Redis_RecordSuccess key l =
     (if key = [] then l
      else let l1 = l\<lparr>red_fallback := RecordSuccess key (red_fallback l)\<rparr>
           in if \<not> red_client l1 then l1
              else snd (redis_do (\<lambda>r. (Inr (0 :: int),
                r(lockKey l1 key := None, failuresKey l1 key := None))) l1))"

lemma keys_differ [simp]: "lockKey l k \<noteq> failuresKey l k'" "failuresKey l k' \<noteq> lockKey l k"
  by (simp_all add: lockKey_def failuresKey_def)

section \<open>The contract with a server that answers\<close>

text \<open>
  The configuration in milliseconds, as the script gets it: \<open>n\<close> failures, a window of \<open>wms\<close> and a
  lock of \<open>lms\<close> milliseconds.
\<close>

definition red_configured :: "nat \<Rightarrow> int \<Rightarrow> int \<Rightarrow> string \<Rightarrow> RedisLoginAttemptLimiter \<Rightarrow> bool" where
  "red_configured n wms lms k l = (k \<noteq> [] \<and> red_client l \<and> red_fates l = (\<lambda>_. Answered) \<and> red_maxFailures l = int n \<and>
     red_failureWindow l div Millisecond = wms \<and> red_lockDuration l div Millisecond = lms \<and> 0 < wms \<and> 1 < lms)"

definition red_counted ::
  "nat \<Rightarrow> int \<Rightarrow> int \<Rightarrow> time \<Rightarrow> nat \<Rightarrow> string \<Rightarrow> RedisLoginAttemptLimiter \<Rightarrow> bool" where
  "red_counted n wms lms t0 j k l = (red_configured n wms lms k l \<and> red_server l (lockKey l k) = None \<and>
     (if j = 0 then red_server l (failuresKey l k) = None
      else \<exists>d. red_server l (failuresKey l k) = Some \<lparr>re_value = int j, re_expires = Some d\<rparr> \<and>
        redis_ms t0 + wms \<le> d))"

definition red_locked ::
  "nat \<Rightarrow> int \<Rightarrow> int \<Rightarrow> time \<Rightarrow> string \<Rightarrow> RedisLoginAttemptLimiter \<Rightarrow> bool" where
  "red_locked n wms lms u k l = (red_configured n wms lms k l \<and>
     (\<exists>d. red_server l (lockKey l k) = Some \<lparr>re_value = 1, re_expires = Some d\<rparr> \<and> redis_ms u \<le> d - 1))"

lemma lockKey_update [simp]:
  "lockKey (l\<lparr>red_server := r\<rparr>) = lockKey l" "failuresKey (l\<lparr>red_server := r\<rparr>) = failuresKey l"
  "lockKey (l\<lparr>red_fallback := f\<rparr>) = lockKey l" "failuresKey (l\<lparr>red_fallback := f\<rparr>) = failuresKey l"
  "lockKey (l\<lparr>red_fates := os\<rparr>) = lockKey l" "failuresKey (l\<lparr>red_fates := os\<rparr>) = failuresKey l"
  by (simp_all add: lockKey_def failuresKey_def fun_eq_iff)

lemma red_configured_update [simp]:
  "red_configured n wms lms k (l\<lparr>red_server := r\<rparr>) = red_configured n wms lms k l"
  "red_configured n wms lms k (l\<lparr>red_fallback := f\<rparr>) = red_configured n wms lms k l"
  by (simp_all add: red_configured_def)

lemma redis_do_answered:
  "red_fates l = (\<lambda>_. Answered) \<Longrightarrow> redis_do command l =
    (fst (command (red_server l)), l\<lparr>red_server := snd (command (red_server l))\<rparr>)"
  by (simp add: redis_do_def split_beta comp_def)

lemma redis_ms_mono: "t \<le> t' \<Longrightarrow> redis_ms t \<le> redis_ms t'"
  by (simp add: redis_ms_def zdiv_mono1 duration_defs)

lemma redis_ms_add: "redis_ms (t + n * Millisecond) = redis_ms t + n"
  by (simp add: redis_ms_def duration_defs)

lemma red_succeed:
  "red_configured n wms lms k l \<Longrightarrow> red_counted n wms lms t0 0 k (Redis_RecordSuccess k l)"
  by (auto simp: Redis_RecordSuccess_def Let_def red_counted_def red_configured_def redis_do_answered)

lemma red_allow:
  "red_counted n wms lms t0 j k l \<Longrightarrow>
    fst (Redis_Allow t k l) = None \<and> red_counted n wms lms t0 j k (snd (Redis_Allow t k l))"
  by (auto simp: Redis_Allow_def Let_def red_counted_def red_configured_def redis_do_answered
      redis_PTTL_def redis_get_def PTTL_duration_def)

lemma red_fail:
  assumes "red_counted n wms lms t0 j k l" "t0 \<le> t" "t < t0 + wms * Millisecond"
  shows "if Suc j < n then red_counted n wms lms t0 (Suc j) k (Redis_RecordFailure t k l)
    else red_locked n wms lms (t + (lms - 1) * Millisecond) k (Redis_RecordFailure t k l)"
proof -
  have "redis_ms t \<le> redis_ms t0 + wms"
    using redis_ms_mono [of t "t0 + wms * Millisecond"] assms(3) by (simp add: redis_ms_add)
  moreover have "redis_ms t0 \<le> redis_ms t" using assms(2) by (rule redis_ms_mono)
  ultimately show ?thesis
    using assms(1)
    by (auto simp: Redis_RecordFailure_def red_counted_def red_locked_def red_configured_def redis_do_answered Let_def
        recordFailureScript_def redis_INCR_def redis_PEXPIRE_def redis_SET_PX_def redis_get_def redis_ms_add
        split: if_splits)
qed

lemma red_allow_locked:
  assumes "red_locked n wms lms u k l" "t < u"
  shows "fst (Redis_Allow t k l) \<noteq> None \<and> red_locked n wms lms u k (snd (Redis_Allow t k l))"
proof -
  have "redis_ms t \<le> redis_ms u" using assms(2) by (intro redis_ms_mono) simp
  then show ?thesis
    using assms(1)
    by (auto simp: Redis_Allow_def red_locked_def red_configured_def redis_do_answered Let_def redis_PTTL_def
        redis_get_def PTTL_duration_def duration_defs)
qed

interpretation redis_guard: login_guard Redis_Allow Redis_RecordFailure Redis_RecordSuccess
  "red_counted n wms lms" "red_locked n wms lms" "red_configured n wms lms" t0 n "wms * Millisecond"
  "(lms - 1) * Millisecond"
  for n wms lms t0
  by unfold_locales (use red_succeed red_allow red_fail red_allow_locked in \<open>fastforce split: if_splits\<close>)+

section \<open>The contract without the server\<close>

text \<open>
  Without a client, or with a server that carries out no command, the limiter in memory decides:
  the guard then keeps the contract of that limiter.
\<close>

definition unserved :: "RedisLoginAttemptLimiter \<Rightarrow> bool" where
  "unserved l = (\<not> red_client l \<or> red_fates l = (\<lambda>_. Refused))"

lemma redis_do_refused:
  "red_fates l = (\<lambda>_. Refused) \<Longrightarrow> redis_do command l = (Inl (Lib ''dial tcp: connection refused''), l)"
  by (simp add: redis_do_def split_beta comp_def)

lemma unserved_allow:
  "unserved l \<Longrightarrow> k \<noteq> [] \<Longrightarrow> Redis_Allow t k l =
    (fst (Allow t k (red_fallback l)), l\<lparr>red_fallback := snd (Allow t k (red_fallback l))\<rparr>)"
  by (auto simp: Redis_Allow_def unserved_def fallback_Allow_def redis_do_refused split_beta)

lemma unserved_fail:
  "unserved l \<Longrightarrow> k \<noteq> [] \<Longrightarrow> Redis_RecordFailure t k l = l\<lparr>red_fallback := RecordFailure t k (red_fallback l)\<rparr>"
  by (auto simp: Redis_RecordFailure_def unserved_def redis_do_refused Let_def)

lemma unserved_succeed:
  "unserved l \<Longrightarrow> k \<noteq> [] \<Longrightarrow> Redis_RecordSuccess k l = l\<lparr>red_fallback := RecordSuccess k (red_fallback l)\<rparr>"
  by (auto simp: Redis_RecordSuccess_def unserved_def redis_do_refused Let_def)

definition fall_counted where
  "fall_counted n window lock t0 j k l = (unserved l \<and> mem_counted n window lock t0 j k (red_fallback l))"

definition fall_locked where
  "fall_locked n window lock u k l = (unserved l \<and> mem_locked n window lock u k (red_fallback l))"

definition fall_configured where
  "fall_configured n window lock k l = (unserved l \<and> configured n window lock k (red_fallback l))"

lemma unserved_update [simp]: "unserved (l\<lparr>red_fallback := f\<rparr>) = unserved l"
  by (simp add: unserved_def)

lemma key_of_contract [simp]: "\<not> mem_counted n window lock t0 j [] m" "\<not> mem_locked n window lock u [] m"
  by (simp_all add: mem_counted_def mem_locked_def configured_def)

interpretation unserved_guard: login_guard Redis_Allow Redis_RecordFailure Redis_RecordSuccess
  "fall_counted n window lock" "fall_locked n window lock" "fall_configured n window lock" zeroTime n window lock
  for n window lock
proof
  fix k l t0
  assume "fall_configured n window lock k l" "zeroTime \<le> t0"
  then show "fall_counted n window lock t0 0 k (Redis_RecordSuccess k l)"
    using memory_guard.succeed_counts [of n window lock k "red_fallback l" t0]
    by (cases "k = []") (auto simp: fall_configured_def fall_counted_def unserved_succeed configured_def)
next
  fix t0 j k l t
  assume a: "fall_counted n window lock t0 j k l" "t0 \<le> t" "t < t0 + window"
  then have c: "unserved l" "k \<noteq> []" "mem_counted n window lock t0 j k (red_fallback l)"
    by (auto simp: fall_counted_def)
  show "fst (Redis_Allow t k l) = None \<and> fall_counted n window lock t0 j k (snd (Redis_Allow t k l))"
    using mem_allow [OF c(3) a(2,3)] c(1,2) by (simp add: unserved_allow fall_counted_def)
  show "fall_counted n window lock t0 (Suc j) k (Redis_RecordFailure t k l)" if "Suc j < n"
    using mem_fail [OF c(3) a(2,3)] c(1,2) that by (simp add: unserved_fail fall_counted_def)
  show "fall_locked n window lock (t + lock) k (Redis_RecordFailure t k l)" if "n \<le> Suc j"
    using mem_fail [OF c(3) a(2,3)] c(1,2) that by (simp add: unserved_fail fall_locked_def)
next
  fix u k l t
  assume a: "fall_locked n window lock u k l" "t < u"
  then have c: "unserved l" "k \<noteq> []" "mem_locked n window lock u k (red_fallback l)"
    by (auto simp: fall_locked_def)
  show "fst (Redis_Allow t k l) \<noteq> None \<and> fall_locked n window lock u k (snd (Redis_Allow t k l))"
    using mem_allow_locked [OF c(3) a(2)] c(1,2) by (simp add: unserved_allow fall_locked_def)
qed

section \<open>A server that refuses to write\<close>

text \<open>Reads are answered, writes are refused (a read-only replica, a full memory): the commands of
  the handler alternate.\<close>

definition refuses_writes :: "RedisLoginAttemptLimiter \<Rightarrow> bool" where
  "refuses_writes l = (red_client l \<and> red_fates l = (\<lambda>i. if even i then Answered else Refused))"

lemma attempts_refused_writes:
  assumes "refuses_writes l" "k \<noteq> []" "red_server l (lockKey l k) = None"
  shows "fst (attempts Redis_Allow Redis_RecordFailure ts k l) = length ts"
  using assms
proof (induction ts arbitrary: l)
  case (Cons t ts)
  let ?l = "l\<lparr>red_fates := red_fates l \<circ> Suc\<rparr>"
  have 1: "Redis_Allow t k l = (None, ?l)"
    using Cons.prems by (simp add: Redis_Allow_def refuses_writes_def redis_do_def redis_PTTL_def redis_get_def
        PTTL_duration_def)
  have "red_fates l \<circ> Suc \<circ> Suc = red_fates l"
    using Cons.prems(1) by (auto simp: refuses_writes_def)
  moreover have "(red_fates l \<circ> Suc) 0 = Refused"
    using Cons.prems(1) by (simp add: refuses_writes_def)
  ultimately have "Redis_RecordFailure t k ?l = l\<lparr>red_fallback := RecordFailure t k (red_fallback l)\<rparr>"
    using Cons.prems by (simp add: Redis_RecordFailure_def refuses_writes_def redis_do_def split_beta Let_def)
  moreover have "fst (attempts Redis_Allow Redis_RecordFailure ts k
      (l\<lparr>red_fallback := RecordFailure t k (red_fallback l)\<rparr>)) = length ts"
    by (rule Cons.IH) (use Cons.prems in \<open>simp_all add: refuses_writes_def\<close>)
  ultimately show ?case
    using 1 by (simp add: split_beta)
qed simp

end
