(* ===== verification/AuthHandlers.thy ===== *)
theory AuthHandlers
  imports HandlerBase RedisLimiter
begin

text \<open>
  \<^verbatim>\<open>internal/api/handler/auth_handler.go\<close>. The guard of the login attempts
  (\<^verbatim>\<open>security.LoginAttemptGuard\<close>) is a parameter with a state of its own (\<open>'g\<close>) beside the
  world, so that the handler works with the limiter in memory and with the one in Redis.
\<close>

record 'g loginAttemptGuard =
  guard_Allow :: "time \<Rightarrow> string \<Rightarrow> 'g \<Rightarrow> go_error option \<times> 'g"
  guard_RecordFailure :: "time \<Rightarrow> string \<Rightarrow> 'g \<Rightarrow> 'g"
  guard_RecordSuccess :: "string \<Rightarrow> 'g \<Rightarrow> 'g"

definition memoryGuard :: "LoginAttemptLimiter loginAttemptGuard" where
  "memoryGuard = \<lparr>guard_Allow = Allow, guard_RecordFailure = RecordFailure,
     guard_RecordSuccess = RecordSuccess\<rparr>"

definition redisGuard :: "RedisLoginAttemptLimiter loginAttemptGuard" where
  "redisGuard = \<lparr>guard_Allow = Redis_Allow, guard_RecordFailure = Redis_RecordFailure,
     guard_RecordSuccess = Redis_RecordSuccess\<rparr>"

definition auth_audit :: "string \<Rightarrow> string \<Rightarrow> string \<Rightarrow> string \<Rightarrow> RecordAuditInput" where
  "auth_audit action targetType targetID endpoint =
     audit_input ''auth'' action targetType targetID
       (''{'' @ quoted ''endpoint'' @ '':'' @ quoted (''/api/v1/auth/'' @ endpoint) @ ''}'')"

definition login_tags :: "LoginRequest \<Rightarrow> bool" where
  "login_tags req = (required (lr_Username req) \<and> min_runes 3 (lr_Username req) \<and>
     max_runes 64 (lr_Username req) \<and> required (lr_Password req) \<and> min_runes 6 (lr_Password req) \<and>
     max_runes 128 (lr_Password req))"

definition login_audit :: "LoginRequest \<Rightarrow> RecordAuditInput" where
  "login_audit req = (auth_audit ''login'' ''user'' (lr_Username req) ''login'')
     \<lparr>rai_Username := lr_Username req\<rparr>"

text \<open>\<^verbatim>\<open>ok && (appErr.Code == ErrInvalidCredential.Code || appErr.Code == ErrUserDisabled.Code)\<close>.\<close>

definition counts_as_failure :: "go_error \<Rightarrow> bool" where
  "counts_as_failure err = (case As err of
       None \<Rightarrow> False
     | Some e \<Rightarrow> Code e = Code ErrInvalidCredential \<or> Code e = Code ErrUserDisabled)"

text \<open>
  The handler between the guard and the service. Requests are served concurrently and the guard
  locks only its single methods: \<open>others\<close> is what other requests do to the guard's state while
  this one is with the authentication service.
\<close>

definition AuthHandler_Login ::
  "golib \<Rightarrow> 'g loginAttemptGuard \<Rightarrow> ('g \<Rightarrow> 'g) \<Rightarrow> authService \<Rightarrow> auditService option \<Rightarrow> gin_ctx \<Rightarrow>
    LoginRequest option \<Rightarrow> 'g \<Rightarrow> (world, LoginResponse reply \<times> 'g) state" where
  "AuthHandler_Login lib guard others s aud c body g0 = (case body of
     None \<Rightarrow> ret (bad_input ''invalid login payload'', g0)
   | Some req \<Rightarrow>
       if \<not> login_tags req then ret (bad_input ''invalid login payload'', g0)
       else do {
         let attemptKey = BuildLoginAttemptKey lib (lr_Username req) (gc_ClientIP c);
         now \<leftarrow> Now;
         let (refused, g1) = guard_Allow guard now attemptKey g0;
         case refused of
           Some err \<Rightarrow> do {
             recordAudit c aud (failed_input ''rate_limited'' err (login_audit req));
             ret (response_FromError err, g1)
           }
         | None \<Rightarrow> do {
             r \<leftarrow> Login s req;
             let g2 = others g1;
             case r of
               Inl err \<Rightarrow> do {
                 now' \<leftarrow> Now;
                 let g3 = (if counts_as_failure err
                       then guard_RecordFailure guard now' attemptKey g2 else g2);
                 recordAudit c aud (failed_input ''login_failed'' err (login_audit req));
                 ret (response_FromError err, g3)
               }
             | Inr resp \<Rightarrow> do {
                 let g3 = guard_RecordSuccess guard attemptKey g2;
                 recordAudit c aud (ok_input (lr_Username req) ''login success'' (login_audit req));
                 ret (OK resp, g3)
               }
           }
       })"

definition refresh_tags :: "string \<Rightarrow> bool" where
  "refresh_tags token = (required token \<and> min_runes 32 token \<and> max_runes 4096 token)"

definition AuthHandler_Refresh ::
  "authService \<Rightarrow> auditService option \<Rightarrow> gin_ctx \<Rightarrow> string option \<Rightarrow> (world, LoginResponse reply) state"
  where
  "AuthHandler_Refresh s aud c body =
     bound refresh_tags body ''invalid refresh payload'' (\<lambda>token. do {
       r \<leftarrow> Refresh s token;
       case r of
         Inl err \<Rightarrow> do {
           recordAudit c aud (failed_input ''refresh_failed'' err
             (auth_audit ''refresh'' ''token'' ''refresh'' ''refresh''));
           ret (response_FromError err)
         }
       | Inr resp \<Rightarrow> do {
           let name = up_Username (lres_User resp);
           recordAudit c aud (ok_input name ''token refreshed''
             ((auth_audit ''refresh'' ''user'' name ''refresh'')
               \<lparr>rai_UserID := Some (up_ID (lres_User resp)), rai_Username := name\<rparr>));
           ret (OK resp)
         }
     })"

text \<open>The test for a signed-in user that the next three handlers begin with.\<close>

definition signed_in :: "gin_ctx \<Rightarrow> (int \<Rightarrow> (world, 'a reply) state) \<Rightarrow> (world, 'a reply) state" where
  "signed_in c k = (case GetCurrentUserID (gc_keys c) of (userID, ok) \<Rightarrow>
     if \<not> ok then ret (Fail 401 (Code ErrUnauthorized) (Message ErrUnauthorized)) else k userID)"

definition AuthHandler_Me :: "authService \<Rightarrow> gin_ctx \<Rightarrow> (world, UserProfile reply) state" where
  "AuthHandler_Me s c = signed_in c (\<lambda>userID. answered (Me s userID))"

definition own_audit :: "gin_ctx \<Rightarrow> int \<Rightarrow> string \<Rightarrow> string \<Rightarrow> RecordAuditInput" where
  "own_audit c userID action endpoint =
     (let username = fst (GetCurrentUsername (gc_keys c)) in
      (auth_audit action ''user'' username endpoint)
        \<lparr>rai_UserID := Some userID, rai_Username := username\<rparr>)"

definition AuthHandler_Logout ::
  "authService \<Rightarrow> auditService option \<Rightarrow> gin_ctx \<Rightarrow> (world, bool reply) state" where
  "AuthHandler_Logout s aud c = signed_in c (\<lambda>userID. do {
     let username = fst (GetCurrentUsername (gc_keys c));
     let input = own_audit c userID ''logout'' ''logout'';
     r \<leftarrow> RevokeSession s userID;
     case r of
       Inl err \<Rightarrow> do {
         recordAudit c aud (failed_input ''logout_failed'' err input);
         ret (response_FromError err)
       }
     | Inr _ \<Rightarrow> do {
         recordAudit c aud (ok_input username ''session revoked'' input);
         ret (OK True)
       }
   })"

definition change_password_tags :: "ChangePasswordRequest \<Rightarrow> bool" where
  "change_password_tags req = (required (cpr_CurrentPassword req) \<and>
     min_runes 6 (cpr_CurrentPassword req) \<and> max_runes 128 (cpr_CurrentPassword req) \<and>
     required (cpr_NewPassword req) \<and> min_runes 8 (cpr_NewPassword req) \<and>
     max_runes 128 (cpr_NewPassword req))"

definition AuthHandler_ChangePassword ::
  "authService \<Rightarrow> auditService option \<Rightarrow> gin_ctx \<Rightarrow> ChangePasswordRequest option \<Rightarrow>
    (world, LoginResponse reply) state" where
  "AuthHandler_ChangePassword s aud c body = signed_in c (\<lambda>userID.
     bound change_password_tags body ''invalid change password payload'' (\<lambda>req. do {
       let username = fst (GetCurrentUsername (gc_keys c));
       let input = own_audit c userID ''change_password'' ''change-password'';
       r \<leftarrow> ChangePassword s userID req;
       case r of
         Inl err \<Rightarrow> do {
           recordAudit c aud (failed_input ''password_change_failed'' err input);
           ret (response_FromError err)
         }
       | Inr resp \<Rightarrow> do {
           recordAudit c aud (ok_input username ''password changed'' input);
           ret (OK resp)
         }
     }))"

end
