(* ===== verification/ReplyTypes.thy ===== *)
theory ReplyTypes
  imports FileHandlers AgentHandlers TaskHandlers AuthHandlers
begin

text \<open>
  The answers of the handlers have a type: a failure carries an HTTP status between 400 and 599
  (\<^verbatim>\<open>net/http\<close> panics on a status that is none) and an error code different from the 0 that
  stands for success. The rules go by the structure of the programs; they need that a call of
  the database or the file system fails with an error of the library, not with one of the
  application's.
\<close>

definition http_error :: "go_error \<Rightarrow> bool" where
  "http_error e = (case As e of None \<Rightarrow> True
     | Some a \<Rightarrow> 400 \<le> HTTPStatus a \<and> HTTPStatus a \<le> 599 \<and> Code a \<noteq> 0)"

definition result_ok :: "'a result \<Rightarrow> bool" where
  "result_ok r = (case r of Inl e \<Rightarrow> http_error e | Inr _ \<Rightarrow> True)"

definition reply_ok :: "'a reply \<Rightarrow> bool" where
  "reply_ok r = (case r of OK _ \<Rightarrow> True | Fail status c message \<Rightarrow> 400 \<le> status \<and> status \<le> 599 \<and> c \<noteq> 0)"

definition lib_faults :: "world \<Rightarrow> bool" where
  "lib_faults w = (\<forall>x \<in> set (sched w). case fault x of None \<Rightarrow> True | Some e \<Rightarrow> As e = None)"

definition typed :: "('a \<Rightarrow> bool) \<Rightarrow> (world, 'a) state \<Rightarrow> bool" where
  "typed P m = valid lib_faults m (\<lambda>r w. lib_faults w \<and> P r)"

named_theorems typed_intros \<open>programs by their structure\<close>
named_theorems typed_calls \<open>the operations of the services\<close>

lemma typedD: "typed P m \<Longrightarrow> lib_faults w \<Longrightarrow> P (fst (run_state m w))"
  by (simp add: typed_def valid_def)

lemma typed_ret [typed_intros]: "P x \<Longrightarrow> typed P (ret x)"
  by (simp add: typed_def valid_def)

lemma typed_get [typed_intros]: "typed (\<lambda>_. True) getw"
  by (simp add: typed_def valid_def)

lemma typed_bind: "typed Q m \<Longrightarrow> (\<And>x. Q x \<Longrightarrow> typed P (f x)) \<Longrightarrow> typed P (State_Monad.bind m f)"
  by (simp add: typed_def valid_def split_beta)

lemma typed_weaken: "typed Q m \<Longrightarrow> (\<And>x. Q x \<Longrightarrow> P x) \<Longrightarrow> typed P m"
  by (simp add: typed_def valid_def)

lemma typed_if [typed_intros]: "(b \<Longrightarrow> typed P m) \<Longrightarrow> (\<not> b \<Longrightarrow> typed P n) \<Longrightarrow> typed P (if b then m else n)"
  by simp

lemma typed_case_sum [typed_intros]:
  "(\<And>e. x = Inl e \<Longrightarrow> typed P (f e)) \<Longrightarrow> (\<And>y. x = Inr y \<Longrightarrow> typed P (g y)) \<Longrightarrow> typed P (case_sum f g x)"
  by (cases x) auto

lemma typed_case_option [typed_intros]:
  "(x = None \<Longrightarrow> typed P m) \<Longrightarrow> (\<And>y. x = Some y \<Longrightarrow> typed P (f y)) \<Longrightarrow> typed P (case_option m f x)"
  by (cases x) auto

lemma typed_case_prod [typed_intros]: "(\<And>a b. x = (a, b) \<Longrightarrow> typed P (f a b)) \<Longrightarrow> typed P (case_prod f x)"
  by (cases x) auto

lemma result_ok_simps [simp]: "result_ok (Inl e) = http_error e" "result_ok (Inr x)"
  by (simp_all add: result_ok_def)

lemma http_error_Wrap [simp]: "http_error (Wrap c h m e) \<longleftrightarrow> 400 \<le> h \<and> h \<le> 599 \<and> c \<noteq> 0"
  by (simp add: http_error_def Wrap_def)

lemma http_error_New [simp]: "http_error (New c h m) \<longleftrightarrow> 400 \<le> h \<and> h \<le> 599 \<and> c \<noteq> 0"
  by (simp add: http_error_def New_def)

lemma http_errors [simp]:
  "http_error ErrBadRequest" "http_error ErrInvalidCredential" "http_error ErrUnauthorized"
  "http_error ErrUserNotFound" "http_error ErrInternal" "http_error ErrTokenParse" "http_error ErrPermissionDenied"
  "http_error ErrTaskNotFound" "http_error ErrPasswordChangeNeed" "http_error ErrSessionExpired"
  "http_error ErrUserDisabled" "http_error ErrLoginRateLimited" "http_error ErrBackupNotFound"
  "http_error ErrAgentUnavailable" "http_error ErrTokenGenerate"
  by (simp_all add: http_error_def apperror_defs)

lemma http_error_mapAgentError [simp]: "http_error (mapAgentError e)"
  using HTTPStatus_mapAgentError [of e]
  by (auto simp: http_error_def mapAgentError_def Wrap_def ErrAgentUnavailable_def New_def split: option.splits)

lemma reply_ok_simps [simp]: "reply_ok (OK x)" "reply_ok (bad_input message)"
  "reply_ok (Fail 401 (Code ErrUnauthorized) message)"
  by (simp_all add: reply_ok_def bad_input_def ErrBadRequest_def ErrUnauthorized_def New_def)

lemma reply_ok_FromError [simp]: "http_error e \<Longrightarrow> reply_ok (response_FromError e)"
  by (auto simp: response_FromError_def http_error_def reply_ok_def ErrInternal_def New_def split: option.splits)

lemma lib_faults_enter: "lib_faults w \<Longrightarrow> enter w = (x, w') \<Longrightarrow>
    lib_faults w' \<and> (case x of None \<Rightarrow> True | Some e \<Rightarrow> As e = None)"
  by (cases "sched w") (auto simp: lib_faults_def enter_def)

lemma As_None_http [simp]: "As e = None \<Longrightarrow> http_error e"
  by (simp add: http_error_def)

lemma typed_dbcall:
  assumes "\<And>t e. fst (f t) = Inl e \<Longrightarrow> http_error e"
  shows "typed result_ok (dbcall f)"
  unfolding typed_def
proof (rule validI)
  fix w assume w: "lib_faults w"
  obtain x w1 where e: "enter w = (x, w1)" by fastforce
  obtain r t where f: "f (tbl w1) = (r, t)" by fastforce
  show "lib_faults (snd (run_state (dbcall f) w)) \<and> result_ok (fst (run_state (dbcall f) w))"
    using lib_faults_enter [OF w e] f assms [of "tbl w1"]
    by (cases x; cases r) (simp_all add: dbcall_def e lib_faults_def)
qed

lemma typed_filecall:
  assumes "\<And>t e. fst (f t) = Inl e \<Longrightarrow> http_error e"
  shows "typed result_ok (filecall f)"
  unfolding typed_def
proof (rule validI)
  fix w assume w: "lib_faults w"
  obtain x w1 where e: "enter w = (x, w1)" by fastforce
  obtain r t where f: "f (files w1) = (r, t)" by fastforce
  show "lib_faults (snd (run_state (filecall f) w)) \<and> result_ok (fst (run_state (filecall f) w))"
    using lib_faults_enter [OF w e] f assms [of "files w1"]
    by (cases x; cases r) (simp_all add: filecall_def e lib_faults_def)
qed

lemma typed_dbcall_any [typed_intros]: "typed (\<lambda>_. True) (dbcall f)"
  unfolding typed_def
proof (rule validI)
  fix w assume w: "lib_faults w"
  obtain x w1 where e: "enter w = (x, w1)" by fastforce
  obtain r t where f: "f (tbl w1) = (r, t)" by fastforce
  show "lib_faults (snd (run_state (dbcall f) w)) \<and> True"
    using lib_faults_enter [OF w e] f by (cases x) (simp_all add: dbcall_def e lib_faults_def)
qed

lemma typed_filecall_any [typed_intros]: "typed (\<lambda>_. True) (filecall f)"
  unfolding typed_def
proof (rule validI)
  fix w assume w: "lib_faults w"
  obtain x w1 where e: "enter w = (x, w1)" by fastforce
  obtain r t where f: "f (files w1) = (r, t)" by fastforce
  show "lib_faults (snd (run_state (filecall f) w)) \<and> True"
    using lib_faults_enter [OF w e] f by (cases x) (simp_all add: filecall_def e lib_faults_def)
qed

lemma typed_local [typed_intros]:
  "typed (\<lambda>_. True) Now" "typed (\<lambda>_. True) draw" "typed (\<lambda>_. True) (observe m)"
  "typed (\<lambda>_. True) (spawn i p)" "typed (\<lambda>_. True) (send_rpc q)"
  by (simp_all add: typed_def valid_def Now_def draw_def observe_def spawn_def send_rpc_def lib_faults_def)

text \<open>Any computation composed of calls keeps the faults those of the library.\<close>

lemma typed_bind_any [typed_intros]:
  "typed (\<lambda>_. True) m \<Longrightarrow> (\<And>x. typed P (f x)) \<Longrightarrow> typed P (State_Monad.bind m f)"
  by (rule typed_bind)

lemma typed_call_as:
  "typed (\<lambda>_. True) m \<Longrightarrow> (\<And>x. typed result_ok (k x)) \<Longrightarrow>
    (\<And>e. http_error (wrapAs E e)) \<Longrightarrow> typed result_ok (call_as E m k)"
  unfolding call_as_def by (intro typed_intros) simp_all

lemma typed_call: "typed result_ok m \<Longrightarrow> (\<And>x. typed result_ok (k x)) \<Longrightarrow> typed result_ok (call m k)"
  unfolding call_def by (rule typed_bind, assumption) (auto intro!: typed_intros)

lemma typed_call_any: "typed (\<lambda>_. True) m \<Longrightarrow> (\<And>x. typed (\<lambda>_. True) (k x)) \<Longrightarrow> typed (\<lambda>_. True) (call m k)"
  unfolding call_def by (intro typed_intros) simp_all

lemma typed_call_as_any: "typed (\<lambda>_. True) m \<Longrightarrow> (\<And>x. typed (\<lambda>_. True) (k x)) \<Longrightarrow> typed (\<lambda>_. True) (call_as E m k)"
  unfolding call_as_def by (intro typed_intros) simp_all

section \<open>Handlers by their structure\<close>

lemma typed_recordAudit: "typed (\<lambda>_. True) (recordAudit c aud i)"
  unfolding recordAudit_def RecordAudit_def auditRepo_Create_def by (intro typed_intros) simp_all

lemma typed_audited [typed_intros]: "typed result_ok m \<Longrightarrow> typed reply_ok (audited c aud i t msg m)"
  unfolding audited_def
  by (rule typed_bind, assumption) (intro typed_intros typed_recordAudit; auto simp: result_ok_def)

lemma typed_answered [typed_intros]: "typed result_ok m \<Longrightarrow> typed reply_ok (answered m)"
  unfolding answered_def
  by (rule typed_bind, assumption) (auto intro!: typed_intros simp: result_ok_def split: sum.split)

lemma typed_bound [typed_intros]: "(\<And>r. typed reply_ok (k r)) \<Longrightarrow> typed reply_ok (bound tags req msg k)"
  unfolding bound_def by (intro typed_intros) simp_all

lemma typed_with_id [typed_intros]: "(\<And>i. typed reply_ok (k i)) \<Longrightarrow> typed reply_ok (with_id param msg k)"
  unfolding with_id_def by (intro typed_intros) simp_all

section \<open>Services\<close>

lemma typed_agent_rpc: "typed (\<lambda>_. True) (agent_rpc rpc answers q)"
  unfolding typed_def
proof (rule validI)
  fix w assume "lib_faults w"
  moreover obtain m where "run_state (agent_rpc rpc answers q) w = (reply_of (answers (rpc_log w) q),
      w\<lparr>rpc_log := rpc_log w @ [q], metrics := metrics w @ [m]\<rparr>)"
    using run_agent_rpc by blast
  ultimately show "lib_faults (snd (run_state (agent_rpc rpc answers q) w)) \<and> True"
    by (simp add: lib_faults_def)
qed

lemma typed_translated: "typed (\<lambda>_. True) m \<Longrightarrow> typed result_ok (translated m f)"
  unfolding translated_def by (intro typed_intros) (auto split: sum.split)

lemma typed_agent_call: "typed (\<lambda>_. True) m \<Longrightarrow> typed result_ok (agent_call m f)"
  unfolding agent_call_def by (intro typed_intros) (auto split: sum.split)

lemma typed_file_service [typed_calls]:
  "typed result_ok (ListFiles h p)" "typed result_ok (ReadTextFile h a)" "typed result_ok (WriteTextFile h b)"
  "typed result_ok (CreateDirectory h d)" "typed result_ok (DeleteFile h e)" "typed result_ok (RenameFile h f)"
  unfolding ListFiles_def ReadTextFile_def WriteTextFile_def CreateDirectory_def DeleteFile_def RenameFile_def
    Client_ListFiles_def Client_ReadTextFile_def Client_WriteTextFile_def Client_CreateDirectory_def
    Client_DeleteFile_def Client_RenameFile_def Let_def
  by (intro typed_intros typed_translated typed_agent_rpc; simp add: ErrBadRequest_def New_def)+

lemma http_error_cron: "validateCronCommand command = Some e \<Longrightarrow> http_error e"
  by (auto simp: validateCronCommand_def invalidCronCommand_def Let_def ErrBadRequest_def New_def
      split: if_splits option.splits list.splits)

lemma typed_cron_service [typed_calls]:
  "typed result_ok (Cron_ListTasks h)" "typed result_ok (Cron_CreateTask h r)" "typed result_ok (Cron_UpdateTask h i r)"
  "typed result_ok (Cron_DeleteTask h i)" "typed result_ok (Cron_SetEnabled h i b)" "typed result_ok (GetSummary h)"
  unfolding Cron_ListTasks_def Cron_CreateTask_def Cron_UpdateTask_def Cron_DeleteTask_def Cron_SetEnabled_def
    GetSummary_def Client_ListCronTasks_def Client_CreateCronTask_def Client_UpdateCronTask_def
    Client_DeleteCronTask_def Client_SetCronTaskEnabled_def GetSystemOverview_def GetRealtimeResource_def
  by (intro typed_intros typed_agent_call typed_agent_rpc; simp add: http_error_cron)+

lemma typed_invoke: "typed (\<lambda>_. True) (invoke rpc reply)"
  unfolding invoke_def by (auto intro!: typed_intros split: wire.split)

lemma typed_docker_service [typed_calls]:
  "typed result_ok (ListContainers a)" "typed result_ok (StartContainer a i)" "typed result_ok (StopContainer a i)"
  "typed result_ok (RestartContainer a i)" "typed result_ok (ListImages a)" "typed result_ok (ListServices a i)"
  "typed result_ok (StartService a i)" "typed result_ok (StopService a i)" "typed result_ok (RestartService a i)"
  unfolding ListContainers_def StartContainer_def StopContainer_def RestartContainer_def ListImages_def
    ListServices_def StartService_def StopService_def RestartService_def runDockerAction_def runServiceAction_def
    map_agent_result_def agent_client_defs
  by (intro typed_intros typed_invoke; auto split: sum.split)+

text \<open>The repositories, and the helpers whose errors the services wrap.\<close>

lemma typed_taskRepo [typed_intros]:
  "typed (\<lambda>_. True) (taskRepo_Create t)" "typed (\<lambda>_. True) (taskRepo_GetByID i)"
  "typed (\<lambda>_. True) (taskRepo_GetByIdempotencyKey k)" "typed (\<lambda>_. True) (taskRepo_AppendLog l)"
  "typed (\<lambda>_. True) (taskRepo_UpdateStatus i st p m)" "typed (\<lambda>_. True) (taskRepo_List f)"
  "typed (\<lambda>_. True) (taskRepo_ListLogs i n)"
  unfolding taskRepo_Create_def taskRepo_GetByID_def taskRepo_GetByIdempotencyKey_def taskRepo_AppendLog_def
    taskRepo_UpdateStatus_def taskRepo_List_def taskRepo_ListLogs_def dbquery_def Let_def
  by (intro typed_intros typed_call_any typed_call_as_any; simp)+

lemma typed_backupRepo [typed_intros]:
  "typed (\<lambda>_. True) (backupRepo_Create b)" "typed (\<lambda>_. True) (backupRepo_GetByID i)"
  "typed (\<lambda>_. True) (backupRepo_UpdateStatus i st)" "typed (\<lambda>_. True) (backupRepo_UpdateVerification i st n k p)"
  "typed (\<lambda>_. True) (backupRepo_List f)" "typed (\<lambda>_. True) (backupRepo_CountDeletableBefore c)"
  "typed (\<lambda>_. True) (backupRepo_ListDeletableBefore c)" "typed (\<lambda>_. True) (backupRepo_DeleteDeletableBefore c)"
  unfolding backupRepo_Create_def backupRepo_GetByID_def backupRepo_UpdateStatus_def backupRepo_UpdateVerification_def
    backupRepo_List_def backupRepo_CountDeletableBefore_def backupRepo_ListDeletableBefore_def
    backupRepo_DeleteDeletableBefore_def dbquery_def Let_def
  by (intro typed_intros typed_call_any typed_call_as_any; simp)+

lemma typed_userRepo [typed_intros]:
  "typed (\<lambda>_. True) (userRepo_GetByID i)" "typed (\<lambda>_. True) (userRepo_GetByUsername n)"
  "typed (\<lambda>_. True) (userRepo_UpdateLastLoginAt i t)" "typed (\<lambda>_. True) (userRepo_UpdatePasswordHash i h)"
  "typed (\<lambda>_. True) (userRepo_EnsureUserRoleBySlug i slug)" "typed (\<lambda>_. True) (userRepo_GetRolesAndPermissions c i)"
  unfolding userRepo_defs Let_def
  by (intro typed_intros typed_call_any typed_call_as_any; simp)+

lemma typed_auditRepo [typed_intros]:
  "typed (\<lambda>_. True) (auditRepo_List f)" "typed (\<lambda>_. True) (auditRepo_CountBefore c)"
  "typed (\<lambda>_. True) (auditRepo_DeleteBefore c)"
  unfolding auditRepo_List_def auditRepo_CountBefore_def auditRepo_DeleteBefore_def dbquery_def Let_def
  by (intro typed_intros typed_call_any typed_call_as_any; simp)+

section \<open>Task service\<close>

lemma typed_Let [typed_intros]: "(\<And>x. x = t \<Longrightarrow> typed P (f x)) \<Longrightarrow> typed P (Let t f)"
  by simp

lemma http_error_wrapped [simp]:
  "http_error (internalError e)" "http_error (badRequest e)" "http_error (wrapBackupInternal e)"
  "http_error (badBackupRequest e)" "http_error (wrapAs ErrTokenGenerate e)"
  by (simp_all add: http_error_def wrapBackupInternal_def badBackupRequest_def apperror_defs)

lemma typed_appendTaskLog [typed_intros]: "typed (\<lambda>_. True) (appendTaskLog i l m d)"
  unfolding appendTaskLog_def by (intro typed_intros; simp)

lemma typed_find_existing [typed_intros]: "typed (\<lambda>_. True) (find_existing k)"
  unfolding find_existing_def by (intro typed_intros; simp)

declare http_error_Wrap [simp del]

lemma typed_createAndRunTask: "typed result_ok (createAndRunTask s ty p tb u k)"
  unfolding createAndRunTask_def
  by (intro typed_intros; simp split: sum.split option.split)

lemma typed_create_tasks [typed_calls]:
  "typed result_ok (CreateDockerRestartTask s a tb u)" "typed result_ok (CreateServiceRestartTask s b tb u)"
  "typed result_ok (CreateBackupVerifyTask s i c tb u)"
  unfolding CreateDockerRestartTask_def CreateServiceRestartTask_def CreateBackupVerifyTask_def
  by (intro typed_intros typed_createAndRunTask; simp)+

lemma typed_task_operations [typed_calls]:
  "typed result_ok (CancelTask s i u)" "typed result_ok (ListTasks s q)" "typed result_ok (GetTaskDetail s i)"
  unfolding CancelTask_def ListTasks_def GetTaskDetail_def
  by (intro typed_intros; simp)+

text \<open>An error handed on as it is was an answer of a service already.\<close>

lemma typed_hand_on:
  "typed result_ok m \<Longrightarrow> (\<And>e. http_error e \<Longrightarrow> typed P (f e)) \<Longrightarrow> (\<And>x. typed P (g x)) \<Longrightarrow>
    typed P (State_Monad.bind m (case_sum f g))"
  by (rule typed_bind, assumption) (auto split: sum.split)

lemma typed_RetryTask [typed_calls]: "typed result_ok (RetryTask s i tb u)"
  unfolding RetryTask_def
  by (intro typed_hand_on [OF typed_createAndRunTask] typed_intros; simp)

section \<open>Backup service\<close>

lemma typed_CreateMetadata [typed_calls]: "typed result_ok (CreateMetadata s r u)"
  unfolding CreateMetadata_def by (intro typed_intros; simp)

lemma typed_failBackup [typed_intros]: "http_error e \<Longrightarrow> typed result_ok (failBackup i e)"
  unfolding failBackup_def by (intro typed_intros; simp)

lemma typed_Verify [typed_calls]: "typed result_ok (Verify s i r)"
  unfolding Verify_def by (intro typed_intros; simp)

lemma typed_MarkStatus: "typed (\<lambda>_. True) (MarkStatus s i st)"
  unfolding MarkStatus_def by (intro typed_intros; simp)

lemma typed_ListBackups [typed_calls]: "typed result_ok (ListBackups s q)"
  unfolding ListBackups_def by (intro typed_intros; simp)

lemma typed_CreateBackupTask [typed_calls]: "typed result_ok (CreateBackupTask s r tb u)"
  unfolding CreateBackupTask_def
  by (intro typed_hand_on [OF typed_createAndRunTask] typed_hand_on [OF typed_CreateMetadata]
      typed_intros typed_MarkStatus; simp)

lemma typed_archive_lines: "typed (\<lambda>_. True) (write_archive_lines s path cutoff items)"
proof (induction items)
  case Nil
  show ?case by (simp add: typed_ret)
next
  case (Cons item items)
  show ?case
    unfolding write_archive_lines.simps AppendFile_def by (intro typed_intros Cons; simp)
qed

lemma typed_writeRetentionArchive: "typed (\<lambda>_. True) (writeRetentionArchive s items cutoff)"
  unfolding writeRetentionArchive_def MkdirAll_def CreateExclusive_def
  by (intro typed_intros typed_archive_lines; simp)

lemma typed_CleanupRetention [typed_calls]: "typed result_ok (CleanupRetention s r)"
  unfolding CleanupRetention_def by (intro typed_intros typed_writeRetentionArchive; simp)

section \<open>Audit service\<close>

lemma http_error_filter: "auditListFilter s q page sz = Inl e \<Longrightarrow> http_error e"
  by (auto simp: auditListFilter_def audit_bound_def ErrBadRequest_def New_def http_error_def
      split: sum.splits if_splits)

lemma typed_audit_service [typed_calls]:
  "typed result_ok (ListAuditLogs s q)" "typed result_ok (AuditCleanupRetention s r)"
  unfolding ListAuditLogs_def AuditCleanupRetention_def
  by (intro typed_intros typed_call_as; simp add: http_error_filter)+

section \<open>Authentication service\<close>

lemma typed_auth_helpers [typed_intros]:
  "typed (\<lambda>_. True) (nextSessionTime t)" "typed (\<lambda>_. True) (GenerateFromPassword a p)"
  "typed (\<lambda>_. True) (resolveUserRBAC a u)" "typed (\<lambda>_. True) (generateTokenID a n)"
  unfolding nextSessionTime_def GenerateFromPassword_def resolveUserRBAC_def generateTokenID_def
  by (intro typed_intros typed_call_any; simp)+

lemma typed_generateToken [typed_intros]: "typed (\<lambda>_. True) (generateToken a u rs ps m use k d i)"
  unfolding generateToken_def by (intro typed_intros typed_call_any; simp)

lemma typed_generateTokenPair [typed_intros]: "typed (\<lambda>_. True) (generateTokenPair a u rs ps m i)"
  unfolding generateTokenPair_def by (intro typed_intros typed_call_any; simp)

lemma typed_parseTokenWithUse: "typed result_ok (parseTokenWithUse a t use)"
  unfolding parseTokenWithUse_def by (intro typed_intros) (simp add: Let_def split: option.split)

lemma typed_ValidateSession: "typed result_ok (ValidateSession a c)"
  unfolding ValidateSession_def by (intro typed_intros typed_call_as; simp)

lemma http_error_badPassword [simp]: "http_error (badPassword m d)"
  by (simp add: badPassword_def http_error_def apperror_defs)

lemma typed_auth_service [typed_calls]:
  "typed result_ok (Me a i)" "typed result_ok (RevokeSession a i)"
  unfolding Me_def RevokeSession_def by (intro typed_intros typed_call_as; simp)+

lemma typed_Refresh [typed_calls]: "typed result_ok (Refresh a t)"
  unfolding Refresh_def
  by (intro typed_call [OF typed_parseTokenWithUse] typed_call [OF typed_ValidateSession]
      typed_intros typed_call_as; simp)

lemma typed_ChangePassword [typed_calls]: "typed result_ok (ChangePassword a i r)"
  unfolding ChangePassword_def by (intro typed_intros typed_call_as; simp)

lemma typed_Login [typed_calls]: "typed result_ok (Login a r)"
  unfolding Login_def by (intro typed_intros typed_call_as typed_call; simp)

section \<open>Answers\<close>

lemma http_error_Allow: "Allow now k g = (Some e, g') \<Longrightarrow> http_error e"
  by (auto simp: Allow_def Let_def rateLimited_def http_error_def apperror_defs
      split: if_splits option.splits)

lemma typed_failed_answer: "http_error e \<Longrightarrow>
    typed reply_ok (State_Monad.bind (recordAudit c aud i) (\<lambda>_. ret (response_FromError e)))"
  by (intro typed_intros typed_recordAudit) simp

lemma typed_ok_answer: "typed reply_ok (State_Monad.bind (recordAudit c aud i) (\<lambda>_. ret (OK x)))"
  by (intro typed_intros typed_recordAudit) simp

lemma typed_signed_in [typed_intros]: "(\<And>i. typed reply_ok (k i)) \<Longrightarrow> typed reply_ok (signed_in c k)"
  unfolding signed_in_def by (intro typed_intros) simp_all

lemma typed_AuthHandler_Login:
  "typed (\<lambda>r. reply_ok (fst r)) (AuthHandler_Login lib memoryGuard others s aud c body g)"
  unfolding AuthHandler_Login_def Let_def memoryGuard_def
  by (intro typed_hand_on [OF typed_Login] typed_recordAudit typed_intros;
      auto dest: http_error_Allow)

lemma typed_AuthHandlers:
  "typed reply_ok (AuthHandler_Me s c)" "typed reply_ok (AuthHandler_Logout s aud c)"
  "typed reply_ok (AuthHandler_Refresh s aud c token)"
  "typed reply_ok (AuthHandler_ChangePassword s aud c pw)"
  unfolding AuthHandler_Me_def AuthHandler_Logout_def AuthHandler_Refresh_def AuthHandler_ChangePassword_def Let_def
  by (intro typed_hand_on [OF typed_Refresh] typed_hand_on [OF typed_ChangePassword]
      typed_hand_on [OF typed_auth_service(2)] typed_failed_answer typed_ok_answer typed_intros typed_calls; simp)+

lemma typed_FileHandlers:
  "typed reply_ok (FileHandler_ListFiles h aud c lq)" "typed reply_ok (FileHandler_ReadTextFile h aud c rq)"
  "typed reply_ok (FileHandler_WriteTextFile h aud c wq)" "typed reply_ok (FileHandler_CreateDirectory h aud c dq)"
  "typed reply_ok (FileHandler_DeleteFile h aud c eq)" "typed reply_ok (FileHandler_RenameFile h aud c nq)"
  unfolding FileHandler_ListFiles_def FileHandler_ReadTextFile_def FileHandler_WriteTextFile_def
    FileHandler_CreateDirectory_def FileHandler_DeleteFile_def FileHandler_RenameFile_def
  by (intro typed_intros typed_calls typed_call; simp)+

lemma typed_CronHandlers:
  "typed reply_ok (CronHandler_ListTasks M h aud c)" "typed reply_ok (CronHandler_CreateTask M h aud c r)"
  "typed reply_ok (CronHandler_UpdateTask M h aud c i r)" "typed reply_ok (CronHandler_DeleteTask M h aud c i)"
  "typed reply_ok (CronHandler_SetEnabled M h aud c i b)" "typed reply_ok (CronHandler_EnableTask M h aud c i)"
  "typed reply_ok (CronHandler_DisableTask M h aud c i)" "typed reply_ok (DashboardHandler_Summary h)"
  unfolding CronHandler_ListTasks_def CronHandler_CreateTask_def CronHandler_UpdateTask_def
    CronHandler_DeleteTask_def CronHandler_SetEnabled_def CronHandler_EnableTask_def
    CronHandler_DisableTask_def CronHandler_toggle_def DashboardHandler_Summary_def
  by (intro typed_intros typed_calls typed_call; simp)+

lemma typed_DockerHandlers:
  "typed reply_ok (DockerHandler_ListContainers a aud c)" "typed reply_ok (DockerHandler_ListImages a aud c)"
  "typed reply_ok (DockerHandler_StartContainer a aud c i)" "typed reply_ok (DockerHandler_StopContainer a aud c i)"
  "typed reply_ok (DockerHandler_RestartContainer a aud c i)" "typed reply_ok (ServiceHandler_ListServices a aud c q)"
  "typed reply_ok (ServiceHandler_StartService a aud c i)" "typed reply_ok (ServiceHandler_StopService a aud c i)"
  "typed reply_ok (ServiceHandler_RestartService a aud c i)"
  unfolding DockerHandler_ListContainers_def DockerHandler_ListImages_def DockerHandler_StartContainer_def
    DockerHandler_StopContainer_def DockerHandler_RestartContainer_def ServiceHandler_ListServices_def
    ServiceHandler_StartService_def ServiceHandler_StopService_def ServiceHandler_RestartService_def
  by (intro typed_intros typed_calls; simp)+

lemma typed_TaskHandlers:
  "typed reply_ok (TaskHandler_CreateDockerRestartTask t aud c dr)" "typed reply_ok (TaskHandler_CreateServiceRestartTask t aud c sr)"
  "typed reply_ok (TaskHandler_ListTasks t q)" "typed reply_ok (TaskHandler_GetTaskDetail t i)"
  "typed reply_ok (TaskHandler_CancelTask t aud c i)" "typed reply_ok (TaskHandler_RetryTask t aud c i)"
  unfolding TaskHandler_CreateDockerRestartTask_def TaskHandler_CreateServiceRestartTask_def
    TaskHandler_ListTasks_def TaskHandler_GetTaskDetail_def TaskHandler_CancelTask_def TaskHandler_RetryTask_def
  by (intro typed_intros typed_calls typed_call; simp)+

lemma typed_BackupHandlers:
  "typed reply_ok (BackupHandler_ListBackups b q)" "typed reply_ok (BackupHandler_CreateBackup lib b aud c cb)"
  "typed reply_ok (BackupHandler_CreateBackupTask lib t aud c ct)" "typed reply_ok (BackupHandler_VerifyBackup lib b aud c i vb)"
  "typed reply_ok (BackupHandler_VerifyBackupTask lib t aud c i vt)" "typed reply_ok (BackupHandler_CleanupRetention b aud c br)"
  "typed reply_ok (AuditHandler_ListLogs au lq)" "typed reply_ok (AuditHandler_CleanupRetention au c ar)"
  unfolding BackupHandler_ListBackups_def BackupHandler_CreateBackup_def BackupHandler_CreateBackupTask_def
    BackupHandler_VerifyBackup_def BackupHandler_VerifyBackupTask_def BackupHandler_CleanupRetention_def
    AuditHandler_ListLogs_def AuditHandler_CleanupRetention_def
  by (intro typed_intros typed_calls; simp)+

end
