(* ===== verification/AuditTheorems.thy ===== *)
theory AuditTheorems
  imports AuditService
begin

text \<open>
  What the audit service promises: exports end and are complete, records are masked, the
  retention removes exactly what is too old.
\<close>

section \<open>One page of an export\<close>

lemma auditRepo_List_length:
  "run_state (auditRepo_List f) w = (Inr (items, n), w') \<Longrightarrow> length items \<le> 100"
  by (auto simp: auditRepo_List_def Let_def run_call dbquery_def dbcall_def page_rows_def
      split: prod.splits option.splits sum.splits if_splits)

lemma auditRepo_List_calm:
  assumes "sched w = []" "0 < alf_Page f" "0 < alf_Size f" "alf_Size f \<le> 100"
  shows "run_state (auditRepo_List f) w =
    (Inr (page_rows ((alf_Page f - 1) * alf_Size f) (alf_Size f)
        (audit_selection (scan w (tbl w) (clock w) ((alf_Page f - 1) * alf_Size f)) f (tbl w)),
      int (length (filter (applyAuditListFilter f) (audit_logs (tbl w))))), w)"
  using assms by (simp add: auditRepo_List_def Let_def run_call run_dbcall_calm run_dbquery_calm)

text \<open>The inner loop counts what it writes, never beyond the cap.\<close>

lemma export_items_count:
  "export_items cap wr items e = ((err, capped), e') \<Longrightarrow> ex_exported e \<le> cap \<Longrightarrow>
    ex_exported e \<le> ex_exported e' \<and> ex_exported e' \<le> cap \<and> ex_page e' = ex_page e \<and>
    (err = None \<longrightarrow> \<not> capped \<longrightarrow> ex_exported e' = ex_exported e + int (length items))"
proof (induction cap wr items e rule: export_items.induct)
  case (2 cap wr item items e)
  show ?case
  proof (cases "ex_exported e \<ge> cap")
    case False
    obtain er sink where wr: "wr (ex_sink e) (toAuditLogDTO item) = (er, sink)"
      by fastforce
    show ?thesis
    proof (cases er)
      case None
      with 2 False wr show ?thesis
        by fastforce
    qed (use 2 False wr in auto)
  qed (use 2 in auto)
qed auto

text \<open>A writer that keeps every item.\<close>

definition collect :: "AuditLogDTO list item_writer" where
  "collect xs item = (None, xs @ [item])"

lemma export_items_collect:
  "ex_exported e \<le> cap \<Longrightarrow> export_items cap (\<lambda>b item. (None, g b item)) items e =
    ((None, nat (cap - ex_exported e) < length items),
     e\<lparr>ex_exported := ex_exported e + int (min (nat (cap - ex_exported e)) (length items)),
       ex_sink := foldl g (ex_sink e) (map toAuditLogDTO (take (nat (cap - ex_exported e)) items))\<rparr>)"
proof (induction items arbitrary: e)
  case (Cons item items)
  show ?case
  proof (cases "ex_exported e = cap")
    case False
    with Cons.prems have less: "ex_exported e + 1 \<le> cap" by simp
    have "nat (cap - ex_exported e) = Suc (nat (cap - (ex_exported e + 1)))"
      using less by simp
    then show ?thesis
      using Cons.IH [of "e\<lparr>ex_exported := ex_exported e + 1, ex_sink := g (ex_sink e) (toAuditLogDTO item)\<rparr>"]
        less False Cons.prems by (simp add: min_def)
  qed simp
qed simp

section \<open>Exports end\<close>

lemma paginate_ends:
  assumes "0 < aud_exportMaxRows s"
  shows "\<exists>r w'. paginateAuditExport s flt wr sink w = Some (r, w') \<and>
    ex_exported (snd r) \<le> aud_exportMaxRows s"
  unfolding paginateAuditExport_def
proof (rule forever_total [where I = "\<lambda>e w. ex_exported e \<le> aud_exportMaxRows s"
      and m = "\<lambda>e w. nat (aud_exportMaxRows s - ex_exported e)"])
  let ?cap = "aud_exportMaxRows s"
  fix e w e' w'
  assume le: "ex_exported e \<le> ?cap" and run: "run_state (export_page s flt wr e) w = (Inl e', w')"
  from run obtain items n w1 e1 where page: "run_state (auditRepo_List
        (flt\<lparr>alf_Page := ex_page e, alf_Size := 100\<rparr>)) w = (Inr (items, n), w1)"
      and some: "items \<noteq> []" and items: "export_items ?cap wr items e = ((None, False), e1)"
      and e': "e' = e1\<lparr>ex_page := ex_page e1 + 1\<rparr>"
    by (auto simp: export_page_def split: prod.splits sum.splits if_splits option.splits)
  from some have "1 \<le> int (length items)" by (cases items) simp_all
  moreover have "ex_exported e1 = ex_exported e + int (length items)" "ex_exported e1 \<le> ?cap"
    using export_items_count [OF items le] by simp_all
  ultimately show "ex_exported e' \<le> ?cap \<and> nat (?cap - ex_exported e') < nat (?cap - ex_exported e)"
    using some by (simp add: e')
next
  fix e w r w'
  assume le: "ex_exported e \<le> aud_exportMaxRows s"
    and run: "run_state (export_page s flt wr e) w = (Inr r, w')"
  show "ex_exported (snd r) \<le> aud_exportMaxRows s"
    using run le by (auto simp: export_page_def dest: export_items_count
        split: prod.splits sum.splits if_splits option.splits)
qed (use assms in simp)

lemma NewAuditService_cap: "0 < aud_exportMaxRows (NewAuditServiceWithOptions s options)"
  by (simp add: NewAuditServiceWithOptions_def)

section \<open>Exports are complete\<close>

text \<open>Undisturbed: the pages are consecutive pieces of one selection.\<close>

definition export_at :: "AuditLogDTO list \<Rightarrow> 'b \<Rightarrow> ('b \<Rightarrow> AuditLogDTO \<Rightarrow> 'b) \<Rightarrow> nat \<Rightarrow> nat \<Rightarrow> 'b export \<Rightarrow> bool" where
  "export_at sel sink g cap p e \<longleftrightarrow> ex_page e = int p + 1 \<and> ex_exported e = int (100 * p) \<and>
     100 * p \<le> cap \<and> 100 * p \<le> length sel \<and> ex_sink e = foldl g sink (take (100 * p) sel)"

lemma foldl_take_more:
  "foldl g (foldl g b (take m xs)) (take k (drop m xs)) = foldl g b (take (m + k) xs)"
  by (simp add: take_add)

text \<open>
  The rows of a selection, newest first. The order is determined when no two of them were
  written at the same instant; otherwise each page may order the tied rows differently.
\<close>

definition newest_first :: "AuditListFilter \<Rightarrow> tables \<Rightarrow> AuditLog list" where
  "newest_first f t =
     sort_key (\<lambda>r. - audit_CreatedAt r) (filter (applyAuditListFilter f) (audit_logs t))"

definition untied :: "AuditListFilter \<Rightarrow> tables \<Rightarrow> bool" where
  "untied f t = distinct (map audit_CreatedAt (filter (applyAuditListFilter f) (audit_logs t)))"

lemma audit_selection_untied:
  assumes "untied f t"
  shows "audit_selection rank (f\<lparr>alf_Page := i, alf_Size := n\<rparr>) t = newest_first f t"
proof -
  have "applyAuditListFilter (f\<lparr>alf_Page := i, alf_Size := n\<rparr>) = applyAuditListFilter f"
    by (rule ext) (simp add: applyAuditListFilter_def)
  then show ?thesis
    using assms by (simp add: audit_selection_def newest_first_def untied_def order_desc_distinct)
qed

lemma export_page_calm:
  fixes g :: "'b \<Rightarrow> AuditLogDTO \<Rightarrow> 'b" and w :: world
  defines "wr \<equiv> \<lambda>b item. (None, g b item)"
  assumes calm: "sched w = []" and cap: "aud_exportMaxRows s = int cap"
    and untied: "untied flt (tbl w)" and sel: "sel = map toAuditLogDTO (newest_first flt (tbl w))"
    and at: "export_at sel sink g cap p e" and run: "run_state (export_page s flt wr e) w = (x, w')"
  shows "w' = w \<and> (case x of
      Inl e' \<Rightarrow> export_at sel sink g cap (Suc p) e'
    | Inr (err, e') \<Rightarrow> err = None \<and> ex_sink e' = foldl g sink (take cap sel))"
proof -
  let ?items = "take 100 (drop (100 * p) (newest_first flt (tbl w)))" and ?k = "cap - 100 * p"
  from at have e: "ex_page e = int p + 1" "ex_exported e = int (100 * p)" "100 * p \<le> cap"
      "100 * p \<le> length sel" "ex_sink e = foldl g sink (take (100 * p) sel)"
    by (simp_all add: export_at_def)
  have items: "map toAuditLogDTO ?items = take 100 (drop (100 * p) sel)"
    "length ?items = min 100 (length sel - 100 * p)"
    by (simp_all add: sel take_map drop_map)
  have list: "run_state (auditRepo_List (flt\<lparr>alf_Page := ex_page e, alf_Size := 100\<rparr>)) w =
      (Inr (?items, int (length (filter (applyAuditListFilter (flt\<lparr>alf_Page := ex_page e,
        alf_Size := 100\<rparr>)) (audit_logs (tbl w))))), w)"
    using auditRepo_List_calm [OF calm, of "flt\<lparr>alf_Page := ex_page e, alf_Size := 100\<rparr>"] e(1)
    by (simp add: page_rows_def nat_mult_distrib mult.commute audit_selection_untied [OF untied])
  have k: "nat (aud_exportMaxRows s - ex_exported e) = ?k"
    using e(2,3) cap by simp
  have "foldl g (ex_sink e) (map toAuditLogDTO (take ?k ?items)) =
      foldl g sink (take (100 * p + min ?k 100) sel)"
    unfolding e(5) foldl_take_more [symmetric] by (simp add: sel take_map drop_map)
  then have written: "export_items (aud_exportMaxRows s) wr ?items e = ((None, ?k < length ?items),
      e\<lparr>ex_exported := int (100 * p + min ?k (length ?items)),
        ex_sink := foldl g sink (take (100 * p + min ?k 100) sel)\<rparr>)"
    using export_items_collect [of e "aud_exportMaxRows s" g ?items] e(2,3) cap k
    by (simp add: wr_def)
  have "?items = [] \<longleftrightarrow> length sel \<le> 100 * p"
    by (simp add: sel)
  with run list written have x: "w' = w" "x =
     (if length sel \<le> 100 * p then Inr (None, e)
      else let e' = e\<lparr>ex_exported := int (100 * p + min ?k (length ?items)),
             ex_sink := foldl g sink (take (100 * p + min ?k 100) sel)\<rparr>
        in if ?k < length ?items \<or> length ?items < 100 then Inr (None, e')
           else Inl (e'\<lparr>ex_page := ex_page e' + 1\<rparr>))"
    by (auto simp: export_page_def Let_def)
  consider "length sel \<le> 100 * p" | "\<not> length sel \<le> 100 * p" "?k < length ?items \<or> length ?items < 100"
    | "\<not> length sel \<le> 100 * p" "\<not> (?k < length ?items \<or> length ?items < 100)"
    by blast
  then show ?thesis
  proof cases
    case 1
    then show ?thesis
      using x e(3,5) by simp
  next
    case 2
    then have "take (100 * p + min ?k 100) sel = take cap sel"
      using e(3,4) items(2) by (auto simp: min_def split: if_splits)
    then show ?thesis
      using x 2 by (simp add: Let_def)
  next
    case 3
    then have full: "100 \<le> ?k" "length ?items = 100"
      by (auto simp: items(2))
    have "min 100 (length sel - 100 * p) = 100"
      using full(2) unfolding items(2) .
    then have "100 \<le> length sel - 100 * p"
      by (metis min.cobounded2)
    then have "100 * Suc p \<le> length sel"
      by simp
    then show ?thesis
      using x 3 e(1,3) full by (simp add: Let_def export_at_def add.commute)
  qed
qed

lemma paginate_calm:
  assumes calm: "sched w = []" and cap: "0 < aud_exportMaxRows s" and untied: "untied flt (tbl w)"
  shows "\<exists>e. paginateAuditExport s flt (\<lambda>b item. (None, g b item)) sink w = Some ((None, e), w) \<and>
    ex_sink e = foldl g sink (map toAuditLogDTO
      (take (nat (aud_exportMaxRows s)) (newest_first flt (tbl w))))"
proof -
  let ?sel = "map toAuditLogDTO (newest_first flt (tbl w))" and ?cap = "nat (aud_exportMaxRows s)"
  let ?I = "\<lambda>e w'. w' = w \<and> (\<exists>p. export_at ?sel sink g ?cap p e)"
  have page: "w' = w \<and> (case x of
      Inl e' \<Rightarrow> export_at ?sel sink g ?cap (Suc p) e'
    | Inr (err, e') \<Rightarrow> err = None \<and> ex_sink e' = foldl g sink (take ?cap ?sel))"
    if "export_at ?sel sink g ?cap p e"
      "run_state (export_page s flt (\<lambda>b item. (None, g b item)) e) w = (x, w')" for p e x w'
    using export_page_calm [where cap = ?cap and sel = ?sel, OF calm _ untied refl that] cap by simp
  have "\<exists>r w'. forever (export_page s flt (\<lambda>b item. (None, g b item)))
      \<lparr>ex_exported = 0, ex_page = 1, ex_sink = sink\<rparr> w = Some (r, w') \<and>
      (w' = w \<and> fst r = None \<and> ex_sink (snd r) = foldl g sink (take ?cap ?sel))"
  proof (rule forever_total [where I = ?I and m = "\<lambda>e w. nat (int ?cap + 1 - ex_page e)"])
    fix e v e' v'
    assume "?I e v" and run: "run_state (export_page s flt (\<lambda>b item. (None, g b item)) e) v = (Inl e', v')"
    then obtain p where p: "export_at ?sel sink g ?cap p e" "v = w" by blast
    with page [OF p(1)] run have "v' = w" "export_at ?sel sink g ?cap (Suc p) e'"
      by auto
    moreover from this(2) p(1)
    have "nat (int ?cap + 1 - ex_page e') < nat (int ?cap + 1 - ex_page e)"
      using cap by (auto simp: export_at_def)
    ultimately show "?I e' v' \<and> nat (int ?cap + 1 - ex_page e') < nat (int ?cap + 1 - ex_page e)"
      by blast
  next
    fix e v r v'
    assume "?I e v" and run: "run_state (export_page s flt (\<lambda>b item. (None, g b item)) e) v = (Inr r, v')"
    then obtain p where "export_at ?sel sink g ?cap p e" "v = w" by blast
    with page [OF this(1), of "Inr r" v'] run
    show "v' = w \<and> fst r = None \<and> ex_sink (snd r) = foldl g sink (take ?cap ?sel)"
      by (cases r) simp
  next
    have "export_at ?sel sink g ?cap 0 \<lparr>ex_exported = 0, ex_page = 1, ex_sink = sink\<rparr>"
      by (simp add: export_at_def)
    then show "?I \<lparr>ex_exported = 0, ex_page = 1, ex_sink = sink\<rparr> w" by blast
  qed
  then obtain r where "paginateAuditExport s flt (\<lambda>b item. (None, g b item)) sink w = Some (r, w)"
      "fst r = None" "ex_sink (snd r) = foldl g sink (take ?cap ?sel)"
    unfolding paginateAuditExport_def by blast
  then show ?thesis
    by (cases r) (auto simp: take_map)
qed

lemma foldl_snoc: "foldl (\<lambda>b x. b @ [f x]) ys xs = ys @ map f xs"
  by (induction xs arbitrary: ys) simp_all

section \<open>Properties\<close>

text \<open>
  An export ends, whatever other statements run in between, whichever calls fail and
  however the writer behaves, and the loop writes at most the configured number of rows.
\<close>

theorem audit_export_ends:
  fixes s :: auditService and options :: AuditServiceOptions and sink :: 'b
  defines "S \<equiv> NewAuditServiceWithOptions s options"
  shows "(\<exists>r w'. ExportAudit S query fmt x sink w = Some (r, w')) \<and>
    (\<exists>r w'. paginateAuditExport S flt writeItem sink w = Some (r, w') \<and>
      ex_exported (snd r) \<le> aud_exportMaxRows S)"
proof -
  have ends: "\<exists>r w'. paginateAuditExport S f wr b v = Some (r, w') \<and>
      ex_exported (snd r) \<le> aud_exportMaxRows S" for f v and wr :: "'b item_writer" and b
    by (rule paginate_ends) (simp add: S_def NewAuditService_cap)
  have "\<exists>r w'. exportCSV S f x b v = Some (r, w')" for f b v
    using ends [of f "\<lambda>b item. csv_Write x b (csv_row (csv_time x) item)" "snd (csv_Write x b csv_header)" v]
    by (auto simp: exportCSV_def split: prod.splits option.splits)
  moreover have "\<exists>r w'. exportJSONL S f x b v = Some (r, w')" for f b v
    using ends [of f "json_Encode x" b v] by (auto simp: exportJSONL_def split: prod.splits)
  ultimately have "\<exists>r w'. ExportAudit S query fmt x sink w = Some (r, w')"
    by (simp add: ExportAudit_def Let_def split: sum.splits)
  with ends show ?thesis by blast
qed

text \<open>
  C36. An undisturbed export of rows no two of which carry the same instant writes exactly the
  rows that match the filter, newest first, up to the configured number, whatever number of
  pages that takes: as JSON values, or under the header as CSV rows. The hypothesis on the
  instants is needed: the pages are separate queries ordered by \<^verbatim>\<open>created_at\<close> alone, and the
  database may order tied rows differently in each.
\<close>

theorem audit_export_complete:
  assumes "sched w = []" "0 < aud_exportMaxRows s" "auditListFilter s query 1 100 = Inr flt"
    and "distinct (map audit_CreatedAt (filter (applyAuditListFilter flt) (audit_logs (tbl w))))"
  defines "rows \<equiv> map toAuditLogDTO (take (nat (aud_exportMaxRows s))
      (sort_key (\<lambda>r. - audit_CreatedAt r) (filter (applyAuditListFilter flt) (audit_logs (tbl w)))))"
  shows "ExportAudit s query ''jsonl'' (x\<lparr>json_Encode := collect\<rparr>) [] w = Some ((None, rows), w) \<and>
    ExportAudit s query ''csv'' (y\<lparr>csv_Write := \<lambda>b row. (None, b @ [row]), csv_Flush := \<lambda>b. (None, b)\<rparr>)
      [] w = Some ((None, csv_header # map (csv_row (csv_time y)) rows), w)"
proof
  have untied: "untied flt (tbl w)"
    using assms(4) by (simp add: untied_def)
  have "TrimSpace ''jsonl'' = ''jsonl''" "TrimSpace ''csv'' = ''csv''"
    by (rule TrimSpace_plain; simp)+
  moreover have "isASCII ''jsonl''" "map lower_byte ''jsonl'' = ''jsonl''" "isASCII ''csv''" "map lower_byte ''csv'' = ''csv''"
    by code_simp+
  ultimately have fmt: "ToLower (aud_uni s) (TrimSpace ''jsonl'') = ''jsonl''"
      "ToLower (aud_uni s) (TrimSpace ''csv'') = ''csv''"
    by (simp_all add: ToLower_ASCII)
  have "collect = (\<lambda>b item. (None, b @ [item]))"
    by (intro ext) (simp add: collect_def)
  with paginate_calm [OF assms(1,2) untied, of "\<lambda>b item. b @ [item]" "[]"]
  show "ExportAudit s query ''jsonl'' (x\<lparr>json_Encode := collect\<rparr>) [] w = Some ((None, rows), w)"
    using fmt assms(3)
    by (auto simp: ExportAudit_def Let_def exportJSONL_def rows_def newest_first_def foldl_snoc [where f = "\<lambda>x. x", simplified])
  show "ExportAudit s query ''csv'' (y\<lparr>csv_Write := \<lambda>b row. (None, b @ [row]), csv_Flush := \<lambda>b. (None, b)\<rparr>)
      [] w = Some ((None, csv_header # map (csv_row (csv_time y)) rows), w)"
    using paginate_calm [OF assms(1,2) untied, of "\<lambda>b item. b @ [csv_row (csv_time y) item]" "[csv_header]"]
      fmt assms(3)
    by (auto simp: ExportAudit_def Let_def exportCSV_def rows_def newest_first_def foldl_snoc)
qed

definition ex_pg :: postgres where
  "ex_pg = \<lparr>pg_varchar = (\<lambda>n s. if length s \<le> n then Some s else if set (drop n s) \<subseteq> {CHR '' ''}
     then Some (take n s) else None), pg_text = (\<lambda>_. True), pg_inet = (\<lambda>_. True), pg_jsonb = (\<lambda>_. True)\<rparr>"

lemma ex_pg_ok: "postgres_ok ex_pg"
  by (simp add: postgres_ok_def ex_pg_def)

definition ex_audit :: auditService where
  "ex_audit = \<lparr>aud_pg = ex_pg, aud_uni = id, aud_Unmarshal = (\<lambda>s. if s = ''1'' then Inr (JNum 1) else Inl (Lib ''syntax'')),
     aud_Marshal = (\<lambda>v. if v = JNum 1 then Inr ''1'' else Inl (Lib ''unsupported'')), aud_ParseRFC3339 = (\<lambda>_. Inl (Lib ''time'')),
     aud_ParseDate = (\<lambda>_. Inl (Lib ''time'')), aud_retentionDays = 180, aud_exportMaxRows = 2\<rparr>"

definition ex_row :: "int \<Rightarrow> AuditLog" where
  "ex_row i = (audit_row ex_audit \<lparr>rai_UserID = None, rai_Username = [], rai_IP = [], rai_Module = [],
     rai_Action = [], rai_TargetType = [], rai_TargetID = [], rai_RequestSummary = [],
     rai_Success = True, rai_ResultCode = [], rai_ResultMessage = [], rai_RequestID = [], rai_TraceID = []\<rparr>)
     \<lparr>audit_ID := i, audit_CreatedAt := i\<rparr>"

definition ex_logs :: world where
  "ex_logs = init_world\<lparr>tbl := empty_tables\<lparr>audit_logs := [ex_row 1, ex_row 2, ex_row 3]\<rparr>\<rparr>"

definition ex_query :: ListAuditLogsQuery where
  "ex_query = \<lparr>laq_Page = 0, laq_Size = 0, laq_StartTime = [], laq_EndTime = [], laq_UserID = 0,
     laq_Username = [], laq_Module = [], laq_Action = [], laq_TargetType = [], laq_TargetID = [],
     laq_Success = None, laq_ResultCode = [], laq_RequestID = [], laq_TraceID = []\<rparr>"

definition ex_filter :: AuditListFilter where
  "ex_filter = \<lparr>alf_Page = 1, alf_Size = 100, alf_StartTime = None, alf_EndTime = None, alf_UserID = None,
     alf_Username = [], alf_Module = [], alf_Action = [], alf_TargetType = [], alf_TargetID = [],
     alf_Success = None, alf_ResultCode = [], alf_RequestID = [], alf_TraceID = []\<rparr>"

lemma ex_logs_selection:
  "auditListFilter ex_audit ex_query 1 100 = Inr ex_filter"
  "filter (applyAuditListFilter ex_filter) (audit_logs (tbl ex_logs)) = [ex_row 1, ex_row 2, ex_row 3]"
proof -
  have "TrimSpace [] = []" by code_simp
  then show "auditListFilter ex_audit ex_query 1 100 = Inr ex_filter"
    by (simp add: auditListFilter_def audit_bound_def ex_query_def ex_filter_def)
  show "filter (applyAuditListFilter ex_filter) (audit_logs (tbl ex_logs)) = [ex_row 1, ex_row 2, ex_row 3]"
    by (simp add: ex_logs_def applyAuditListFilter_def ex_filter_def ex_row_def init_world_def)
qed

definition ex_exporter :: "AuditLogDTO list exporter" where
  "ex_exporter = \<lparr>csv_Write = (\<lambda>b row. (None, b)), csv_Flush = (\<lambda>b. (None, b)),
     csv_time = (\<lambda>t. []), json_Encode = (\<lambda>b item. (None, b))\<rparr>"

theorem audit_export_complete_witness:
  "ExportAudit ex_audit ex_query ''jsonl'' (ex_exporter\<lparr>json_Encode := collect\<rparr>) [] ex_logs =
     Some ((None, [toAuditLogDTO (ex_row 3), toAuditLogDTO (ex_row 2)]), ex_logs)"
proof -
  have "sched ex_logs = []" "0 < aud_exportMaxRows ex_audit" "nat (aud_exportMaxRows ex_audit) = 2"
    by (simp_all add: ex_logs_def init_world_def ex_audit_def)
  moreover have "distinct (map audit_CreatedAt (filter (applyAuditListFilter ex_filter) (audit_logs (tbl ex_logs))))"
    by (simp add: ex_logs_selection(2) ex_row_def)
  ultimately show ?thesis
    using audit_export_complete [of ex_logs ex_audit ex_query ex_filter ex_exporter] ex_logs_selection
    by (simp add: ex_row_def)
qed

section \<open>Recording\<close>

lemma alone_dbcall_run:
  assumes "alone w" "run_state (dbcall f) w = (r, w')"
  shows "alone w' \<and> rpc_log w' = rpc_log w \<and> files w' = files w \<and>
    ((\<exists>e. r = Inl e \<and> tbl w' = tbl w) \<or> (r = fst (f (tbl w)) \<and> tbl w' = snd (f (tbl w))))"
  using assms by (cases "sched w") (auto simp: dbcall_def enter_def alone_def split: prod.splits option.splits)

lemma audit_fits_keeps:
  "audit_fits pg r = Some r' \<Longrightarrow> audit_RequestSummary r' = audit_RequestSummary r \<and>
     audit_ResultMessage r' = audit_ResultMessage r \<and> audit_UserID r' = audit_UserID r"
  by (auto simp: audit_fits_def split: option.splits if_splits)

lemma alone_RecordAudit:
  assumes "alone w"
  shows "\<exists>t. tbl (snd (run_state (RecordAudit s i) w)) = t \<and>
    (t = tbl w \<or> t = snd (sql_CreateAudit (aud_pg s) (audit_row s i) (clock w) (tbl w)))"
proof -
  obtain r w' where run: "run_state (dbcall (sql_CreateAudit (aud_pg s) (audit_row s i) (clock w))) w = (r, w')"
    by fastforce
  with alone_dbcall_run [OF assms run] show ?thesis
    by (auto simp: RecordAudit_def auditRepo_Create_def Now_def)
qed

text \<open>
  C38. A record adds at most one row and changes no other; if the summary was JSON, the stored
  summary is JSON in which every sensitive value is masked at any depth, and the message went
  through the masking of texts.
\<close>

theorem audit_record_masked:
  assumes "alone w" and "TrimSpace (rai_RequestSummary i) \<noteq> []"
    and "aud_Unmarshal s (TrimSpace (rai_RequestSummary i)) = Inr v"
    and json: "\<exists>t. aud_Marshal s (redactValue (aud_uni s) v) = Inr t \<and>
      aud_Unmarshal s t = Inr (redactValue (aud_uni s) v)"
  shows "\<exists>new. audit_logs (tbl (snd (run_state (RecordAudit s i) w))) = audit_logs (tbl w) @ new \<and>
    length new \<le> 1 \<and> (\<forall>r \<in> set new. audit_ResultMessage r = RedactText (rai_ResultMessage i) \<and>
      (\<exists>u. aud_Unmarshal s (audit_RequestSummary r) = Inr u \<and> masked (aud_uni s) u))"
proof -
  let ?row = "audit_row s i"
  obtain t where t: "aud_Marshal s (redactValue (aud_uni s) v) = Inr t"
      "aud_Unmarshal s t = Inr (redactValue (aud_uni s) v)"
    using json by blast
  have row: "aud_Unmarshal s (audit_RequestSummary ?row) = Inr (redactValue (aud_uni s) v)"
      "audit_ResultMessage ?row = RedactText (rai_ResultMessage i)"
    using assms(2,3) t by (simp_all add: audit_row_def RedactJSON_def Let_def)
  show ?thesis
    using alone_RecordAudit [OF assms(1), of s i] row masked_redactValue
    by (auto simp: sql_CreateAudit_def Let_def dest!: audit_fits_keeps split: option.splits)
qed

text \<open>A token in the summary, and a failing message with a password.\<close>

definition ex_secret :: json where "ex_secret = JObj [(''token'', JStr ''t0'')]"

definition ex_secret_text :: "string \<Rightarrow> string" where
  "ex_secret_text v = ''{'' @ [CHR 0x22] @ ''token'' @ [CHR 0x22] @ '':'' @ [CHR 0x22] @ v @ [CHR 0x22] @ ''}''"

definition ex_secret_audit :: auditService where
  "ex_secret_audit = ex_audit
     \<lparr>aud_Unmarshal := (\<lambda>s. if s = ex_secret_text ''t0'' then Inr ex_secret
        else if s = ex_secret_text ''[REDACTED]'' then Inr (JObj [(''token'', JStr ''[REDACTED]'')])
        else Inl (Lib ''syntax'')),
      aud_Marshal := (\<lambda>v. if v = JObj [(''token'', JStr ''[REDACTED]'')]
        then Inr (ex_secret_text ''[REDACTED]'') else Inl (Lib ''unsupported''))\<rparr>"

definition ex_secret_input :: RecordAuditInput where
  "ex_secret_input = \<lparr>rai_UserID = None, rai_Username = ''eve'', rai_IP = [], rai_Module = ''auth'',
     rai_Action = ''login'', rai_TargetType = [], rai_TargetID = [], rai_RequestSummary = ex_secret_text ''t0'',
     rai_Success = False, rai_ResultCode = [], rai_ResultMessage = ''password=x'', rai_RequestID = [],
     rai_TraceID = []\<rparr>"

theorem audit_record_masked_witness:
  "\<exists>new. audit_logs (tbl (snd (run_state (RecordAudit ex_secret_audit ex_secret_input) init_world))) =
      audit_logs (tbl init_world) @ new \<and> length new \<le> 1 \<and>
    (\<forall>r \<in> set new. audit_ResultMessage r = RedactText ''password=x'' \<and>
      (\<exists>u. aud_Unmarshal ex_secret_audit (audit_RequestSummary r) = Inr u \<and> masked id u))"
proof -
  have trim: "TrimSpace (ex_secret_text ''t0'') = ex_secret_text ''t0''" "ex_secret_text ''t0'' \<noteq> []"
    by code_simp+
  have red: "redactValue id ex_secret = JObj [(''token'', JStr ''[REDACTED]'')]"
    by code_simp
  have neq: "ex_secret_text ''[REDACTED]'' \<noteq> ex_secret_text ''t0''"
    by (simp add: ex_secret_text_def)
  have uni: "aud_uni ex_secret_audit = id"
    by (simp add: ex_secret_audit_def ex_audit_def)
  have "alone init_world"
    by (simp add: alone_def init_world_def)
  from audit_record_masked [OF this, of ex_secret_input ex_secret_audit ex_secret]
  show ?thesis
    using trim red neq by (simp add: uni) (simp add: ex_secret_input_def ex_secret_audit_def)
qed

section \<open>Retention\<close>

text \<open>
  C39. The retention of the audit log, with any call failing: what is not older than the cut-off
  stays in every case, nothing is removed on a dry run or an error before the deletion, and a
  success that was not a dry run has removed exactly the older rows and reports their number.
\<close>

theorem audit_retention:
  fixes s :: auditService and req :: AuditRetentionCleanupRequest and w :: world
  assumes "alone w"
  defines "days1 \<equiv> (if arc_RetentionDays req \<le> 0 then aud_retentionDays s else arc_RetentionDays req)"
  defines "days \<equiv> (if days1 \<le> 0 then 180 else days1)"
  defines "old \<equiv> \<lambda>r. audit_CreatedAt r < clock w - days * (24 * Hour)"
  shows "case run_state (AuditCleanupRetention s req) w of (result, w') \<Rightarrow>
    (case result of
       Inl e \<Rightarrow> audit_logs (tbl w') = audit_logs (tbl w)
     | Inr r \<Rightarrow> arr_RetentionDays r = days \<and>
         arr_MatchedRows r = int (length (filter old (audit_logs (tbl w)))) \<and>
         (if arc_DryRun req
          then arr_DeletedRows r = 0 \<and> audit_logs (tbl w') = audit_logs (tbl w)
          else arr_DeletedRows r = arr_MatchedRows r \<and>
            audit_logs (tbl w') = filter (\<lambda>r. \<not> old r) (audit_logs (tbl w))))"
proof -
  define cutoff where "cutoff = clock w - days * (24 * Hour)"
  obtain r1 w1 where count: "run_state (auditRepo_CountBefore cutoff) w = (r1, w1)" by fastforce
  have w1: "alone w1" "tbl w1 = tbl w" "\<And>n. r1 = Inr n \<Longrightarrow> n = int (length (filter old (audit_logs (tbl w))))"
    using alone_dbcall_run [OF assms(1) count [unfolded auditRepo_CountBefore_def]]
    by (auto simp: old_def cutoff_def)
  obtain r2 w2 where del: "run_state (auditRepo_DeleteBefore cutoff) w1 = (r2, w2)" by fastforce
  have w2: "(\<exists>e. r2 = Inl e \<and> tbl w2 = tbl w) \<or> r2 = Inr (int (length (filter old (audit_logs (tbl w))))) \<and>
      audit_logs (tbl w2) = filter (\<lambda>r. \<not> old r) (audit_logs (tbl w))"
    using alone_dbcall_run [OF w1(1) del [unfolded auditRepo_DeleteBefore_def]] w1(2)
    by (auto simp: sql_DeleteAuditBefore_def old_def cutoff_def)
  have days: "AuditCleanupRetention s req = do {
        now \<leftarrow> Now;
        let cutoff = now - days * (24 * Hour);
        call_as ErrInternal (auditRepo_CountBefore cutoff) (\<lambda>matchedRows.
          let result = \<lparr>arr_DryRun = arc_DryRun req, arr_RetentionDays = days,
                arr_Cutoff = FormatRFC3339 cutoff, arr_MatchedRows = matchedRows,
                arr_DeletedRows = 0, arr_ArchiveBeforeDelete = arc_ArchiveBeforeDelete req\<rparr>
          in if arc_DryRun req then ret (Inr result)
             else call_as ErrInternal (auditRepo_DeleteBefore cutoff) (\<lambda>deletedRows.
               ret (Inr (result\<lparr>arr_DeletedRows := deletedRows\<rparr>))))
      }"
    unfolding AuditCleanupRetention_def days_def days1_def Let_def ..
  show ?thesis
    unfolding days using count del w1 w2
    by (auto simp: Let_def Now_def run_call_as cutoff_def [symmetric] split: sum.splits)
qed

theorem audit_retention_witness:
  "case run_state (AuditCleanupRetention ex_audit \<lparr>arc_DryRun = False, arc_RetentionDays = 1,
      arc_ArchiveBeforeDelete = False\<rparr>) (ex_logs\<lparr>clock := 86400000000002\<rparr>) of (result, w') \<Rightarrow>
    (case result of Inl e \<Rightarrow> audit_logs (tbl w') = [ex_row 1, ex_row 2, ex_row 3]
     | Inr r \<Rightarrow> arr_DeletedRows r = 1 \<and> audit_logs (tbl w') = [ex_row 2, ex_row 3])"
proof -
  have "alone (ex_logs\<lparr>clock := 86400000000002\<rparr>)"
    by (simp add: alone_def ex_logs_def init_world_def)
  from audit_retention [OF this, of "\<lparr>arc_DryRun = False, arc_RetentionDays = 1,
      arc_ArchiveBeforeDelete = False\<rparr>" ex_audit]
  show ?thesis
    by (auto simp: ex_logs_def ex_row_def ex_audit_def duration_defs split: prod.splits sum.splits)
qed

end
