(* ===== verification/HandlerTheorems.thy ===== *)
theory HandlerTheorems
  imports FileHandlers AgentHandlers TaskHandlers AuthHandlers ReplyTypes AuditTheorems AuthExample
begin

text \<open>
  What the handlers promise together with the services behind them: which audit records an
  action leaves, which requests reach the agent, and how the guard of the login attempts and
  the authentication service work together.
\<close>

section \<open>Masking of plain messages\<close>

lemma fold_prefix_set: "fold_prefix key s = Some (w, r) \<Longrightarrow> set r \<subseteq> set s"
proof (induction key s arbitrary: w r rule: fold_prefix.induct)
  case (2 p ps s)
  then show ?case
    by (cases s) (fastforce simp: Let_def split: if_splits dest: in_set_dropD)+
qed simp

lemma first_match_plain:
  assumes "set s \<inter> {CHR '':'', CHR ''=''} = {}"
  shows "first_match prev s keys = None"
proof -
  have "match_assignment prev s key = None" for key
  proof (rule ccontr)
    assume "match_assignment prev s key \<noteq> None"
    then obtain w s1 c s2 where "fold_prefix key s = Some (w, s1)" "dropWhile is_re_space s1 = c # s2"
        "c = CHR '':'' \<or> c = CHR ''=''"
      by (auto simp: match_assignment_def split: if_splits option.splits list.splits)
    then have "c \<in> set s"
      using fold_prefix_set [of key s w s1] by (metis list.set_intros(1) set_dropWhileD subsetD)
    with \<open>c = CHR '':'' \<or> c = CHR ''=''\<close> assms show False by auto
  qed
  then show ?thesis
    by (induction keys) auto
qed

lemma redact_from_plain: "set s \<inter> {CHR '':'', CHR ''=''} = {} \<Longrightarrow> redact_from prev s = s"
proof (induction s arbitrary: prev)
  case (Cons c s)
  then show ?case
    using first_match_plain [OF Cons.prems, of prev patternKeys] by (subst redact_from.simps) simp
qed (subst redact_from.simps, simp)

lemma RedactText_plain: "set s \<inter> {CHR '':'', CHR ''=''} = {} \<Longrightarrow> RedactText s = s"
  by (simp add: RedactText_def redact_from_plain)

section \<open>One audited call\<close>

lemma run_recordAudit_calm:
  "sched w = [] \<Longrightarrow> run_state (recordAudit c (Some s) i) w =
    ((), w\<lparr>tbl := snd (sql_CreateAudit (aud_pg s) (audit_row s (audit_context c i)) (clock w) (tbl w))\<rparr>)"
  by (simp add: recordAudit_def RecordAudit_def auditRepo_Create_def Now_def run_dbcall_calm)

lemma run_audited:
  "run_state (audited c aud input target message m) w = (case run_state m w of
     (Inl err, w1) \<Rightarrow> (response_FromError err,
        snd (run_state (recordAudit c aud (failed_input ''failed'' err input)) w1))
   | (Inr x, w1) \<Rightarrow> (OK x, snd (run_state (recordAudit c aud (ok_input (target x) message input)) w1)))"
  by (simp add: audited_def split: prod.split sum.split)

text \<open>A row that does not fit is dropped, whatever the calls do.\<close>

lemma recordAudit_dropped:
  assumes "alone w" "audit_fits (aud_pg s) (audit_row s (audit_context c i)) = None"
  shows "audit_logs (tbl (snd (run_state (recordAudit c (Some s) i) w))) = audit_logs (tbl w)"
  using alone_RecordAudit [OF assms(1), of s "audit_context c i"] assms(2)
  by (auto simp: recordAudit_def sql_CreateAudit_def Let_def)

lemma run_translated:
  "run_state (translated m f) w = (case run_state m w of (r, w') \<Rightarrow>
     (case r of Inl err \<Rightarrow> Inl (mapAgentError err) | Inr x \<Rightarrow> Inr (f x), w'))"
  by (simp add: translated_def split: prod.split)

lemma run_DeleteFile:
  assumes "reply_of (conn_DeleteFile h (rpc_log w) (DeleteFileReq (dfr_Path req) (dfr_Recursive req))) = Inr r"
  shows "\<exists>m. run_state (DeleteFile h req) w = (Inr (df_Path r),
    w\<lparr>rpc_log := rpc_log w @ [DeleteFileReq (dfr_Path req) (dfr_Recursive req)], metrics := metrics w @ [m]\<rparr>)"
  using run_agent_rpc [of "''file.delete''" "conn_DeleteFile h" "DeleteFileReq (dfr_Path req) (dfr_Recursive req)" w] assms
  by (auto simp: DeleteFile_def run_translated Client_DeleteFile_def)

text \<open>The audit record of a successful deletion, with the context filled in.\<close>

definition delete_row :: "auditService \<Rightarrow> gin_ctx \<Rightarrow> DeleteFileRequest \<Rightarrow> AuditLog" where
  "delete_row s c req = audit_row s (audit_context c (ok_input (dfr_Path req) ''delete success''
     (file_audit ''delete'' (dfr_Path req))))"

lemma delete_handler_run:
  assumes "dfr_Path req \<noteq> []"
    and "reply_of (conn_DeleteFile h (rpc_log w) (DeleteFileReq (dfr_Path req) (dfr_Recursive req))) = Inr r"
  shows "\<exists>w1. run_state (FileHandler_DeleteFile h aud c (Some req)) w = (OK (df_Path r),
      snd (run_state (recordAudit c aud (ok_input (dfr_Path req) ''delete success''
        (file_audit ''delete'' (dfr_Path req)))) w1)) \<and>
    tbl w1 = tbl w \<and> sched w1 = sched w \<and>
    rpc_log w1 = rpc_log w @ [DeleteFileReq (dfr_Path req) (dfr_Recursive req)]"
  using run_DeleteFile [OF assms(2)] assms(1)
  by (auto simp: FileHandler_DeleteFile_def bound_def run_audited)

lemma recordAudit_rpc_log: "rpc_log (snd (run_state (recordAudit c aud i) w)) = rpc_log w"
  by (auto simp: recordAudit_def RecordAudit_def auditRepo_Create_def Now_def dbcall_def enter_def
      split: option.splits prod.splits list.splits)

lemma varchar_fits:
  "postgres_ok pg \<Longrightarrow> plain_text x \<Longrightarrow> length x \<le> n \<Longrightarrow> pg_varchar pg n x = Some x"
  by (simp add: postgres_ok_def)

lemma varchar_overlong:
  "\<lbrakk>postgres_ok pg; plain_text x; n < length x; \<exists>c \<in> set (drop n x). c \<noteq> CHR '' ''\<rbrakk> \<Longrightarrow> pg_varchar pg n x = None"
  by (auto simp: postgres_ok_def)

text \<open>The trace id of the record: empty when the request has no valid span.\<close>

definition trace_of :: "gin_ctx \<Rightarrow> string" where
  "trace_of c = (case gc_TraceID c of None \<Rightarrow> [] | Some t \<Rightarrow> t)"

lemma delete_row_fields:
  assumes "gc_keys c = \<lparr>CurrentUserID = Some uid, CurrentUsername = Some name, CurrentRoles = rs,
      CurrentPerms = ps, CurrentMustChangePassword = m\<rparr>" "gc_RequestID c = Some rid"
  shows "delete_row s c req = \<lparr>audit_ID = 0, audit_UserID = Some uid, audit_Username = name,
      audit_IP = gc_ClientIP c, audit_Module = ''files'', audit_Action = ''delete'',
      audit_TargetType = ''path'', audit_TargetID = dfr_Path req,
      audit_RequestSummary = RedactJSON s (op_summary ''delete''), audit_Success = True,
      audit_ResultCode = ''ok'', audit_ResultMessage = ''delete success'', audit_RequestID = rid,
      audit_TraceID = trace_of c, audit_CreatedAt = 0\<rparr>"
proof -
  have "RedactText ''delete success'' = ''delete success''"
    by (rule RedactText_plain) simp
  then show ?thesis
    using assms by (simp add: delete_row_def audit_row_def audit_context_def ok_input_def file_audit_def
        audit_input_def GetCurrentUserID_def GetCurrentUsername_def trace_of_def Let_def split: option.split)
qed

text \<open>Concrete values: a user, an agent that deletes what it is asked to, a request.\<close>

definition ex_agent_files :: file_conn where
  "ex_agent_files = \<lparr>conn_ListFiles = (\<lambda>h q. CallError (Lib ''x'')), conn_ReadTextFile = (\<lambda>h q. CallError (Lib ''x'')),
     conn_ReadFileChunk = (\<lambda>h q. CallError (Lib ''x'')), conn_WriteFileChunk = (\<lambda>h q. CallError (Lib ''x'')),
     conn_WriteTextFile = (\<lambda>h q. CallError (Lib ''x'')), conn_CreateDirectory = (\<lambda>h q. CallError (Lib ''x'')),
     conn_DeleteFile = (\<lambda>h q. Response (Some (0, ''ok'', [])) \<lparr>df_Path = ''/srv/a''\<rparr>),
     conn_RenameFile = (\<lambda>h q. CallError (Lib ''x''))\<rparr>"

definition ex_delete :: DeleteFileRequest where
  "ex_delete = \<lparr>dfr_Path = ''/srv/a'', dfr_Recursive = False\<rparr>"

definition ex_ctx :: gin_ctx where
  "ex_ctx = \<lparr>gc_keys = \<lparr>CurrentUserID = Some 7, CurrentUsername = Some ''bob'', CurrentRoles = None,
     CurrentPerms = None, CurrentMustChangePassword = None\<rparr>, gc_ClientIP = ''10.0.0.1'',
     gc_RequestID = Some ''r1'', gc_TraceID = None\<rparr>"

lemma ex_delete_reply:
  "reply_of (conn_DeleteFile ex_agent_files hist q) = Inr \<lparr>df_Path = ''/srv/a''\<rparr>"
  by (simp add: ex_agent_files_def)

lemma ex_audit_simps: "postgres_ok (aud_pg ex_audit)" "pg_inet (aud_pg ex_audit) x" "pg_jsonb (aud_pg ex_audit) x"
  using ex_pg_ok by (simp_all add: ex_audit_def) (simp_all add: ex_pg_def)

section \<open>Properties\<close>

text \<open>
  C37. A file deletion through the API that the agent accepts is answered with success, sends
  exactly one request to the agent and leaves exactly one record in the audit log, with the user,
  the path, the request id and the trace id (none, or that of the request's span), provided
  that no other statement runs and none fails, that the user is still there, and that the values
  fit their columns: a user name and a trace id of at most 64 and a path and a request id of at
  most 128 ASCII characters, an address and a summary that PostgreSQL reads.
\<close>

theorem file_deletion_recorded:
  assumes "sched w = []" "dfr_Path req \<noteq> []"
    and "reply_of (conn_DeleteFile h (rpc_log w) (DeleteFileReq (dfr_Path req) (dfr_Recursive req))) = Inr r"
    and "gc_keys c = \<lparr>CurrentUserID = Some uid, CurrentUsername = Some name, CurrentRoles = rs,
      CurrentPerms = ps, CurrentMustChangePassword = m\<rparr>" "gc_RequestID c = Some rid"
    and "plain_text (trace_of c)" "length (trace_of c) \<le> 64"
    and "uid \<in> user_ID ` set (users (tbl w))" and "postgres_ok (aud_pg s)" "pg_inet (aud_pg s) (gc_ClientIP c)"
    and "pg_jsonb (aud_pg s) (RedactJSON s (op_summary ''delete''))"
    and "plain_text name" "length name \<le> 64" "plain_text (dfr_Path req)" "length (dfr_Path req) \<le> 128"
    and "plain_text rid" "length rid \<le> 128"
  shows "case run_state (FileHandler_DeleteFile h (Some s) c (Some req)) w of (reply, w') \<Rightarrow>
    reply = OK (df_Path r) \<and>
    rpc_log w' = rpc_log w @ [DeleteFileReq (dfr_Path req) (dfr_Recursive req)] \<and>
    (\<exists>row. audit_logs (tbl w') = audit_logs (tbl w) @ [row] \<and> audit_UserID row = Some uid \<and>
      audit_Username row = name \<and> audit_Module row = ''files'' \<and> audit_Action row = ''delete'' \<and>
      audit_TargetID row = dfr_Path req \<and> audit_RequestID row = rid \<and> audit_TraceID row = trace_of c \<and>
      audit_Success row)"
proof -
  obtain w1 where run: "run_state (FileHandler_DeleteFile h (Some s) c (Some req)) w = (OK (df_Path r),
      snd (run_state (recordAudit c (Some s) (ok_input (dfr_Path req) ''delete success''
        (file_audit ''delete'' (dfr_Path req)))) w1))" "tbl w1 = tbl w" "sched w1 = []"
      "rpc_log w1 = rpc_log w @ [DeleteFileReq (dfr_Path req) (dfr_Recursive req)]"
    using delete_handler_run [OF assms(2,3), of "Some s" c] assms(1) by auto
  have plains: "plain_text ''files''" "plain_text ''delete''" "plain_text ''path''" "plain_text ''ok''"
      "plain_text ''delete success''" "plain_text []"
    by code_simp+
  then have msg: "pg_text (aud_pg s) ''delete success''"
    using assms(9) by (simp add: postgres_ok_def)
  have "audit_fits (aud_pg s) (delete_row s c req) = Some (delete_row s c req)"
    using msg plains assms(6,7,10-17)
    by (simp add: audit_fits_def delete_row_fields [OF assms(4,5)] varchar_fits [OF assms(9)])
  with run(2,3) show ?thesis
    using delete_row_fields [OF assms(4,5), of s req] assms(8)
    by (auto simp: run(1,4) recordAudit_rpc_log run_recordAudit_calm [OF run(3)] delete_row_def
        sql_CreateAudit_def Let_def)
qed

theorem file_deletion_recorded_witness:
  "case run_state (FileHandler_DeleteFile ex_agent_files (Some ex_audit) (ex_ctx\<lparr>gc_TraceID := Some ''4bf92f35''\<rparr>)
      (Some ex_delete)) (ex_auth_world ex_user 0) of (reply, w') \<Rightarrow>
    reply = OK ''/srv/a'' \<and> rpc_log w' = [DeleteFileReq ''/srv/a'' False] \<and>
    (\<exists>row. audit_logs (tbl w') = [row] \<and> audit_UserID row = Some 7 \<and> audit_TargetID row = ''/srv/a'' \<and>
      audit_TraceID row = ''4bf92f35'')"
proof -
  let ?c = "ex_ctx\<lparr>gc_TraceID := Some ''4bf92f35''\<rparr>"
  have trace: "trace_of ?c = ''4bf92f35''" by (simp add: trace_of_def)
  have "plain_text ''bob''" "plain_text ''/srv/a''" "plain_text ''r1''" "plain_text ''4bf92f35''"
    by code_simp+
  moreover have "rpc_log (ex_auth_world ex_user 0) = []" "audit_logs (tbl (ex_auth_world ex_user 0)) = []"
      "7 \<in> user_ID ` set (users (tbl (ex_auth_world ex_user 0)))"
    by (simp_all add: ex_auth_world_def init_world_def ex_auth_tables_def empty_tables_def)
  ultimately show ?thesis
    using file_deletion_recorded [of "ex_auth_world ex_user 0" ex_delete ex_agent_files "\<lparr>df_Path = ''/srv/a''\<rparr>"
        ?c 7 "''bob''" None None None "''r1''" ex_audit, unfolded trace] ex_audit_simps
    by (auto simp: ex_delete_def ex_ctx_def ex_delete_reply split: prod.splits)
qed

text \<open>
  C40. The same deletion with a request id of the client's choice that is longer than the column
  (more than 128 ASCII characters) is carried out and answered with success, and leaves no
  record in the audit log, whichever calls fail.
\<close>

theorem overlong_request_id_hides_deletion:
  assumes "alone w" "dfr_Path req \<noteq> []"
    and "reply_of (conn_DeleteFile h (rpc_log w) (DeleteFileReq (dfr_Path req) (dfr_Recursive req))) = Inr r"
    and "postgres_ok (aud_pg s)"
    and "plain_text header" "128 < length header" "\<exists>x \<in> set (drop 128 header). x \<noteq> CHR '' ''"
  shows "case run_state (FileHandler_DeleteFile h (Some s) (RequestID header uuid c) (Some req)) w of (reply, w') \<Rightarrow>
    reply = OK (df_Path r) \<and>
    rpc_log w' = rpc_log w @ [DeleteFileReq (dfr_Path req) (dfr_Recursive req)] \<and>
    audit_logs (tbl w') = audit_logs (tbl w)"
proof -
  let ?c = "RequestID header uuid c" and ?i = "ok_input (dfr_Path req) ''delete success''
      (file_audit ''delete'' (dfr_Path req))"
  obtain w1 where run: "run_state (FileHandler_DeleteFile h (Some s) ?c (Some req)) w = (OK (df_Path r),
      snd (run_state (recordAudit ?c (Some s) ?i) w1))" "tbl w1 = tbl w" "sched w1 = sched w"
      "rpc_log w1 = rpc_log w @ [DeleteFileReq (dfr_Path req) (dfr_Recursive req)]"
    using delete_handler_run [OF assms(2,3), of "Some s" ?c] by auto
  have "audit_RequestID (audit_row s (audit_context ?c ?i)) = header"
    using assms(6) by (auto simp: audit_row_def audit_context_def ok_input_def file_audit_def
        audit_input_def RequestID_def Let_def split: option.split)
  then have "audit_fits (aud_pg s) (audit_row s (audit_context ?c ?i)) = None"
    using varchar_overlong [OF assms(4-7)] by (simp add: audit_fits_def split: option.split)
  moreover have "alone w1"
    using assms(1) run(3) by (simp add: alone_def)
  ultimately show ?thesis
    using recordAudit_dropped [of w1 s ?c ?i] run by (simp add: recordAudit_rpc_log)
qed

theorem overlong_request_id_hides_deletion_witness:
  "case run_state (FileHandler_DeleteFile ex_agent_files (Some ex_audit)
      (RequestID (replicate 129 (CHR ''x'')) [] ex_ctx) (Some ex_delete)) (ex_auth_world ex_user 0) of (reply, w') \<Rightarrow>
    reply = OK ''/srv/a'' \<and> rpc_log w' = [DeleteFileReq ''/srv/a'' False] \<and> audit_logs (tbl w') = []"
proof -
  have "plain_text (replicate 129 (CHR ''x''))"
    by (simp add: plain_text_def list_all_iff)
  moreover have "rpc_log (ex_auth_world ex_user 0) = []" "audit_logs (tbl (ex_auth_world ex_user 0)) = []"
      "alone (ex_auth_world ex_user 0)"
    by (simp_all add: ex_auth_world_def init_world_def ex_auth_tables_def empty_tables_def alone_def)
  ultimately show ?thesis
    using overlong_request_id_hides_deletion [of "ex_auth_world ex_user 0" ex_delete ex_agent_files
        "\<lparr>df_Path = ''/srv/a''\<rparr>" ex_audit "replicate 129 (CHR ''x'')" "[]" ex_ctx] ex_audit_simps
    by (auto simp: ex_delete_def ex_delete_reply split: prod.splits)
qed

section \<open>Well-formed answers\<close>

text \<open>
  C33. Every answer of the handlers is well-formed, whatever the request, the agent, the other
  processes and the faults of the database do: success, or an HTTP status between 400 and 599
  with a non-zero error code. It needs that a failing call of the database fails with an error of
  its library.
\<close>

theorem answers_typed:
  assumes "lib_faults w"
  shows "reply_ok (fst (fst (run_state (AuthHandler_Login lib memoryGuard others s aud c body g) w))) \<and>
      reply_ok (fst (run_state (AuthHandler_Me s c) w)) \<and>
      reply_ok (fst (run_state (AuthHandler_Logout s aud c) w)) \<and>
      reply_ok (fst (run_state (AuthHandler_Refresh s aud c token) w)) \<and>
      reply_ok (fst (run_state (AuthHandler_ChangePassword s aud c pw) w)) \<and>
      reply_ok (fst (run_state (FileHandler_ListFiles h aud c lq) w)) \<and>
      reply_ok (fst (run_state (FileHandler_ReadTextFile h aud c rq) w)) \<and>
      reply_ok (fst (run_state (FileHandler_WriteTextFile h aud c wq) w)) \<and>
      reply_ok (fst (run_state (FileHandler_CreateDirectory h aud c dq) w)) \<and>
      reply_ok (fst (run_state (FileHandler_DeleteFile h aud c eq) w)) \<and>
      reply_ok (fst (run_state (FileHandler_RenameFile h aud c nq) w)) \<and>
      reply_ok (fst (run_state (CronHandler_ListTasks M y aud c) w)) \<and>
      reply_ok (fst (run_state (CronHandler_CreateTask M y aud c cr) w)) \<and>
      reply_ok (fst (run_state (CronHandler_UpdateTask M y aud c i cr) w)) \<and>
      reply_ok (fst (run_state (CronHandler_DeleteTask M y aud c i) w)) \<and>
      reply_ok (fst (run_state (CronHandler_SetEnabled M y aud c i en) w)) \<and>
      reply_ok (fst (run_state (CronHandler_EnableTask M y aud c i) w)) \<and>
      reply_ok (fst (run_state (CronHandler_DisableTask M y aud c i) w)) \<and>
      reply_ok (fst (run_state (DashboardHandler_Summary y) w)) \<and>
      reply_ok (fst (run_state (DockerHandler_ListContainers a aud c) w)) \<and>
      reply_ok (fst (run_state (DockerHandler_ListImages a aud c) w)) \<and>
      reply_ok (fst (run_state (DockerHandler_StartContainer a aud c i) w)) \<and>
      reply_ok (fst (run_state (DockerHandler_StopContainer a aud c i) w)) \<and>
      reply_ok (fst (run_state (DockerHandler_RestartContainer a aud c i) w)) \<and>
      reply_ok (fst (run_state (ServiceHandler_ListServices a aud c sq) w)) \<and>
      reply_ok (fst (run_state (ServiceHandler_StartService a aud c i) w)) \<and>
      reply_ok (fst (run_state (ServiceHandler_StopService a aud c i) w)) \<and>
      reply_ok (fst (run_state (ServiceHandler_RestartService a aud c i) w)) \<and>
      reply_ok (fst (run_state (TaskHandler_CreateDockerRestartTask t aud c dr) w)) \<and>
      reply_ok (fst (run_state (TaskHandler_CreateServiceRestartTask t aud c sr) w)) \<and>
      reply_ok (fst (run_state (TaskHandler_ListTasks t q) w)) \<and>
      reply_ok (fst (run_state (TaskHandler_GetTaskDetail t i) w)) \<and>
      reply_ok (fst (run_state (TaskHandler_CancelTask t aud c i) w)) \<and>
      reply_ok (fst (run_state (TaskHandler_RetryTask t aud c i) w)) \<and>
      reply_ok (fst (run_state (BackupHandler_ListBackups bk bq) w)) \<and>
      reply_ok (fst (run_state (BackupHandler_CreateBackup lib bk aud c cb) w)) \<and>
      reply_ok (fst (run_state (BackupHandler_CreateBackupTask lib t aud c ct) w)) \<and>
      reply_ok (fst (run_state (BackupHandler_VerifyBackup lib bk aud c i vb) w)) \<and>
      reply_ok (fst (run_state (BackupHandler_VerifyBackupTask lib t aud c i vt) w)) \<and>
      reply_ok (fst (run_state (BackupHandler_CleanupRetention bk aud c br) w)) \<and>
      reply_ok (fst (run_state (AuditHandler_ListLogs au alq) w)) \<and>
      reply_ok (fst (run_state (AuditHandler_CleanupRetention au c ar) w))"
proof -
  have ok: "reply_ok (fst (run_state m w))" if "typed reply_ok m" for m :: "(world, 'z reply) state"
    using typedD [OF that assms] .
  have login: "reply_ok (fst (fst (run_state (AuthHandler_Login lib memoryGuard others s aud c body g) w)))"
    using typedD [OF typed_AuthHandler_Login assms] .
  show ?thesis
    by (intro conjI login;
        rule ok, rule typed_AuthHandlers typed_FileHandlers typed_CronHandlers typed_DockerHandlers
          typed_TaskHandlers typed_BackupHandlers)
qed

theorem answers_typed_witness:
  "reply_ok (fst (run_state (AuthHandler_Me ex_auth ex_ctx) (ex_auth_world ex_user 0
      \<lparr>sched := [\<lparr>env = id, tick = 1, fault = Some (Lib ''timeout'')\<rparr>]\<rparr>)))"
  by (rule answers_typed [THEN conjunct2, THEN conjunct1]) (simp add: lib_faults_def)

end
