(* ===== verification/LoginTheorems.thy ===== *)
theory LoginTheorems
  imports HandlerTheorems
begin

text \<open>
  Password guessing through the login handler, a guard of login attempts and the authentication
  service together: with the guard in memory, with the guard in Redis when its server answers and
  when it does not, and the two situations in which guessing is not held back.
\<close>

section \<open>The handler\<close>

lemma Login_wrong:
  assumes "sched w = []"
    and "case find_username (lr_Username req) (tbl w) of None \<Rightarrow> True
      | Some u \<Rightarrow> \<not> ae_compare (as_env s) (user_PasswordHash u) (lr_Password req)"
  shows "run_state (Login s req) w = (Inl ErrInvalidCredential, w)"
  using assms by (auto simp: Login_def run_call_as userRepo_GetByUsername_def run_dbcall_calm split: option.splits)

lemma users_after_audit [simp]: "users (snd (sql_CreateAudit pg row now t)) = users t"
  by (simp add: sql_CreateAudit_def Let_def split: option.split)

lemma run_recordAudit_users:
  assumes "sched w = []"
  shows "sched (snd (run_state (recordAudit c aud i) w)) = [] \<and>
    users (tbl (snd (run_state (recordAudit c aud i) w))) = users (tbl w)"
  using assms run_recordAudit_calm [OF assms] by (cases aud) (simp_all add: recordAudit_def)

lemma recordAudit_users:
  "run_state (recordAudit c aud i) w = (u, w') \<Longrightarrow> sched w = [] \<Longrightarrow>
    sched w' = [] \<and> users (tbl w') = users (tbl w)"
  using run_recordAudit_users [of w c aud i] by simp

text \<open>The handler, for a request whose password does not match.\<close>

definition wrong_login :: "authService \<Rightarrow> tables \<Rightarrow> LoginRequest \<Rightarrow> bool" where
  "wrong_login s t req \<longleftrightarrow> login_tags req \<and> (case find_username (lr_Username req) t of None \<Rightarrow> True
     | Some u \<Rightarrow> \<not> ae_compare (as_env s) (user_PasswordHash u) (lr_Password req))"

lemma login_handler_wrong:
  assumes calm: "sched w = []" and wrong: "wrong_login s (tbl w) req"
    and run: "run_state (AuthHandler_Login lib guard others s aud c (Some req) g) w = ((r, g'), w')"
  defines "k \<equiv> BuildLoginAttemptKey lib (lr_Username req) (gc_ClientIP c)"
  shows "sched w' = [] \<and> users (tbl w') = users (tbl w) \<and>
    (case guard_Allow guard (clock w) k g of
       (Some err, g1) \<Rightarrow> r = response_FromError err \<and> g' = g1
     | (None, g1) \<Rightarrow> r = response_FromError ErrInvalidCredential \<and>
         g' = guard_RecordFailure guard (clock w) k (others g1))"
proof -
  have "login_tags req" "run_state (Login s req) w = (Inl ErrInvalidCredential, w)"
    using wrong Login_wrong [OF calm] by (simp_all add: wrong_login_def)
  moreover have "counts_as_failure ErrInvalidCredential"
    by (simp add: counts_as_failure_def ErrInvalidCredential_def New_def)
  ultimately show ?thesis
    using run calm
    by (auto simp: AuthHandler_Login_def k_def [symmetric] Now_def Let_def dest: recordAudit_users
        split: prod.splits option.splits)
qed

text \<open>Login requests from one address, one after the other, each at its time.\<close>

fun login_run ::
  "golib \<Rightarrow> authService \<Rightarrow> auditService option \<Rightarrow> gin_ctx \<Rightarrow> (time \<times> LoginRequest) list \<Rightarrow>
    'g loginAttemptGuard \<Rightarrow> 'g \<Rightarrow> world \<Rightarrow> LoginResponse reply list" where
  "login_run lib s aud c [] guard g w = []"
| "login_run lib s aud c ((t, req) # reqs) guard g w =
     (case run_state (AuthHandler_Login lib guard id s aud c (Some req) g) (w\<lparr>clock := t\<rparr>) of
        ((r, g'), w') \<Rightarrow> r # login_run lib s aud c reqs guard g' w')"

lemma wrong_login_users: "users t' = users t \<Longrightarrow> wrong_login s t' req = wrong_login s t req"
  by (simp add: wrong_login_def find_username_def)

lemma reply_of_rateLimited:
  "response_FromError (rateLimited d) = Fail 429 (Code ErrLoginRateLimited) (Message ErrLoginRateLimited)"
  by (simp add: rateLimited_def Wrap_def response_FromError_def ErrLoginRateLimited_def New_def)

text \<open>Guards that refuse with nothing but the rate limit, as both limiters do.\<close>

definition rate_limits :: "'g loginAttemptGuard \<Rightarrow> bool" where
  "rate_limits guard = (\<forall>t k g err. fst (guard_Allow guard t k g) = Some err \<longrightarrow> (\<exists>d. err = rateLimited d))"

lemma Allow_rateLimited: "Allow t k g = (Some err, g') \<Longrightarrow> \<exists>d. err = rateLimited d"
  by (auto simp: Allow_def Let_def split: option.splits if_splits)

lemma rate_limits_guards: "rate_limits memoryGuard" "rate_limits redisGuard"
proof -
  show "rate_limits memoryGuard"
    unfolding rate_limits_def memoryGuard_def by (metis Allow_rateLimited loginAttemptGuard.select_convs(1) prod.collapse)
  show "rate_limits redisGuard"
    by (auto simp: rate_limits_def redisGuard_def Redis_Allow_def fallback_Allow_def Let_def
        dest: Allow_rateLimited split: sum.splits if_splits prod.splits)
qed

lemma login_run_attempts:
  assumes "rate_limits guard" "sched w = []"
    "\<forall>(t, req) \<in> set reqs. wrong_login s (tbl w) req \<and> BuildLoginAttemptKey lib (lr_Username req) (gc_ClientIP c) = k"
  shows "length (filter (\<lambda>r. r = response_FromError ErrInvalidCredential) (login_run lib s aud c reqs guard g w)) =
      fst (attempts (guard_Allow guard) (guard_RecordFailure guard) (map fst reqs) k g) \<and>
    (\<forall>r \<in> set (login_run lib s aud c reqs guard g w). r = response_FromError ErrInvalidCredential \<or>
      r = Fail 429 (Code ErrLoginRateLimited) (Message ErrLoginRateLimited))"
  using assms(2,3)
proof (induction reqs arbitrary: g w)
  case (Cons x reqs)
  obtain t req where x: "x = (t, req)" by fastforce
  let ?w = "w\<lparr>clock := t\<rparr>"
  obtain r g' w' where run: "run_state (AuthHandler_Login lib guard id s aud c (Some req) g) ?w = ((r, g'), w')"
    by (metis prod.exhaust)
  have "wrong_login s (tbl ?w) req" "BuildLoginAttemptKey lib (lr_Username req) (gc_ClientIP c) = k"
    using Cons.prems(2) x by auto
  with login_handler_wrong [OF _ _ run] Cons.prems(1)
  have w': "sched w' = []" "users (tbl w') = users (tbl w)"
    and reply: "case fst (guard_Allow guard t k g) of
       Some err \<Rightarrow> r = response_FromError err \<and> g' = snd (guard_Allow guard t k g)
     | None \<Rightarrow> r = response_FromError ErrInvalidCredential \<and>
         g' = guard_RecordFailure guard t k (snd (guard_Allow guard t k g))"
    by (auto split: prod.splits option.splits)
  have ne: "response_FromError ErrInvalidCredential \<noteq>
      (Fail 429 (Code ErrLoginRateLimited) (Message ErrLoginRateLimited) :: LoginResponse reply)"
    by (simp add: response_FromError_def ErrInvalidCredential_def New_def)
  have "\<forall>(t, req) \<in> set reqs. wrong_login s (tbl w') req \<and>
      BuildLoginAttemptKey lib (lr_Username req) (gc_ClientIP c) = k"
    using Cons.prems(2) wrong_login_users [OF w'(2)] by auto
  note IH = Cons.IH [OF w'(1) this, of g']
  show ?case
  proof (cases "fst (guard_Allow guard t k g)")
    case None
    then show ?thesis using IH reply by (simp add: x run split_beta)
  next
    case (Some err)
    then obtain d where "err = rateLimited d" using assms(1) unfolding rate_limits_def by blast
    then show ?thesis using Some IH reply ne by (simp add: x run split_beta reply_of_rateLimited)
  qed
qed simp

lemma login_key_not_empty: "BuildLoginAttemptKey lib u ip \<noteq> []"
  by (simp add: BuildLoginAttemptKey_def Let_def)

text \<open>
  C27. Password guessing through the login handler, the guard and the authentication service
  together: of any number of login requests for one user name and address whose passwords do not
  match, one after the other within a window and lock period after the last success, exactly the
  first \<open>maxFailures\<close> learn that the credentials are wrong; every other one is answered 429.
\<close>

theorem login_guessing_bounded:
  fixes aud :: "auditService option"
  assumes "sched w = []" "0 < lim_maxFailures l" "zeroTime \<le> t0" "sorted (map fst reqs)"
    and "\<forall>(t, req) \<in> set reqs. wrong_login s (tbl w) req \<and>
      BuildLoginAttemptKey lib (lr_Username req) (gc_ClientIP c) = k \<and>
      t0 \<le> t \<and> t < t0 + lim_failureWindow l \<and> t < t0 + lim_lockDuration l"
    and "reqs \<noteq> []"
  defines "replies \<equiv> login_run lib s aud c reqs memoryGuard (RecordSuccess k l) w"
  shows "length (filter (\<lambda>r. r = response_FromError ErrInvalidCredential) replies) =
      min (length reqs) (nat (lim_maxFailures l)) \<and>
    (\<forall>r \<in> set replies. r = response_FromError ErrInvalidCredential \<or>
      r = Fail 429 (Code ErrLoginRateLimited) (Message ErrLoginRateLimited))"
proof -
  have k: "k \<noteq> []"
    using assms(5,6) login_key_not_empty by (cases reqs) auto
  have "fst (attempts Allow RecordFailure (map fst reqs) k (RecordSuccess k l)) =
      min (length (map fst reqs)) (nat (lim_maxFailures l))"
    by (rule memory_guard.attempts_after_success [where window = "lim_failureWindow l" and lock = "lim_lockDuration l"])
      (use assms k in \<open>auto simp: configured_def\<close>)
  moreover have "\<forall>(t, req) \<in> set reqs. wrong_login s (tbl w) req \<and>
      BuildLoginAttemptKey lib (lr_Username req) (gc_ClientIP c) = k"
    using assms(5) by auto
  ultimately show ?thesis
    using login_run_attempts [OF rate_limits_guards(1) assms(1)] by (simp add: replies_def memoryGuard_def)
qed

definition ex_guess :: "string \<Rightarrow> LoginRequest" where
  "ex_guess p = \<lparr>lr_Username = ''bob'', lr_Password = p\<rparr>"

definition ex_limiter :: LoginAttemptLimiter where
  "ex_limiter = NewLoginAttemptLimiter \<lparr>lao_MaxFailures = 2, lao_FailureWindow = 10, lao_LockDuration = 10\<rparr>"

definition ex_key :: string where
  "ex_key = BuildLoginAttemptKey (ae_lib ex_auth_env) ''bob'' (gc_ClientIP ex_ctx)"

lemma ex_guess_wrong:
  assumes "p \<in> {''guess-1'', ''guess-2'', ''guess-3''}"
  shows "wrong_login ex_auth (tbl (ex_auth_world ex_user 0)) (ex_guess p)"
proof -
  have "list_all (\<lambda>p. list_all (\<lambda>c. byte c < 128) p) [''bob'', ''guess-1'', ''guess-2'', ''guess-3'']"
    by code_simp
  then have "RuneCountInString ''bob'' = 3" "RuneCountInString ''guess-1'' = 7"
      "RuneCountInString ''guess-2'' = 7" "RuneCountInString ''guess-3'' = 7"
    by (simp_all add: RuneCount_ascii)
  then show ?thesis
    using assms by (auto simp: wrong_login_def login_tags_def ex_guess_def min_runes_def max_runes_def)
qed

theorem login_guessing_bounded_witness:
  "length (filter (\<lambda>r. r = response_FromError ErrInvalidCredential)
      (login_run (ae_lib ex_auth_env) ex_auth (Some ex_audit) ex_ctx
        [(1, ex_guess ''guess-1''), (2, ex_guess ''guess-2''), (3, ex_guess ''guess-3'')]
        memoryGuard (RecordSuccess ex_key ex_limiter) (ex_auth_world ex_user 0))) = 2"
proof -
  have "BuildLoginAttemptKey (ae_lib ex_auth_env) (lr_Username (ex_guess p)) (gc_ClientIP ex_ctx) = ex_key" for p
    by (simp add: ex_guess_def ex_key_def)
  then show ?thesis
    using login_guessing_bounded [of "ex_auth_world ex_user 0" ex_limiter 0
        "[(1, ex_guess ''guess-1''), (2, ex_guess ''guess-2''), (3, ex_guess ''guess-3'')]" ex_auth
        "ae_lib ex_auth_env" ex_ctx ex_key "Some ex_audit"] ex_guess_wrong
    by (simp add: ex_limiter_def NewLoginAttemptLimiter_def zeroTime_def duration_defs)
qed

text \<open>
  Login requests that are served at the same time are not held back: whatever other requests
  do to the guard in the meantime, a request that was let through before their failures were
  recorded has its password checked, however many there are.
\<close>

theorem concurrent_guesses_pass:
  assumes "sched w = []" "wrong_login s (tbl w) req"
    and "fst (guard_Allow guard (clock w) (BuildLoginAttemptKey lib (lr_Username req) (gc_ClientIP c)) g) = None"
  shows "fst (fst (run_state (AuthHandler_Login lib guard others s aud c (Some req) g) w)) =
    response_FromError ErrInvalidCredential"
proof -
  obtain r g' w' where run: "run_state (AuthHandler_Login lib guard others s aud c (Some req) g) w = ((r, g'), w')"
    by (metis prod.exhaust)
  from login_handler_wrong [OF assms(1,2) run] assms(3) show ?thesis
    by (auto simp: run split: prod.splits)
qed

theorem concurrent_guesses_pass_witness:
  "fst (fst (run_state (AuthHandler_Login (ae_lib ex_auth_env) memoryGuard
      (RecordFailure 0 ex_key \<circ> RecordFailure 0 ex_key \<circ> RecordFailure 0 ex_key) ex_auth (Some ex_audit) ex_ctx
      (Some (ex_guess ''guess-1'')) ex_limiter) (ex_auth_world ex_user 0))) = response_FromError ErrInvalidCredential"
proof (rule concurrent_guesses_pass)
  show "fst (guard_Allow memoryGuard (clock (ex_auth_world ex_user 0)) (BuildLoginAttemptKey (ae_lib ex_auth_env)
      (lr_Username (ex_guess ''guess-1'')) (gc_ClientIP ex_ctx)) ex_limiter) = None"
    by (simp add: memoryGuard_def Allow_def ex_limiter_def NewLoginAttemptLimiter_def)
qed (use ex_guess_wrong [of "''guess-1''"] in simp_all)

section \<open>The guard in Redis\<close>

text \<open>The limiters of the three situations, in the terms of their contracts.\<close>

lemma red_attempts:
  assumes "k \<noteq> []" "red_client l" "red_fates l = (\<lambda>_. Answered)" "0 < red_maxFailures l"
    and "Millisecond dvd red_failureWindow l" "0 < red_failureWindow l"
    and "Millisecond dvd red_lockDuration l" "Millisecond < red_lockDuration l" "sorted ts"
    and "\<forall>t \<in> set ts. t0 \<le> t \<and> t < t0 + red_failureWindow l \<and> t < t0 + red_lockDuration l - Millisecond"
  shows "fst (attempts Redis_Allow Redis_RecordFailure ts k (Redis_RecordSuccess k l)) =
    min (length ts) (nat (red_maxFailures l))"
proof -
  obtain wms lms where ms: "red_failureWindow l = wms * Millisecond" "red_lockDuration l = lms * Millisecond"
    using assms(5,7) by (metis dvdE mult.commute)
  have "0 < wms" "1 < lms" "red_failureWindow l div Millisecond = wms" "red_lockDuration l div Millisecond = lms"
    using assms(6,8) by (simp_all add: ms duration_defs)
  then have "red_configured (nat (red_maxFailures l)) wms lms k l"
    using assms(1-4) by (simp add: red_configured_def)
  then show ?thesis
    by (rule redis_guard.attempts_after_success)
      (use assms in \<open>auto simp: ms algebra_simps\<close>)
qed

lemma fall_attempts:
  assumes "k \<noteq> []" "unserved l" "0 < lim_maxFailures (red_fallback l)" "zeroTime \<le> t0" "sorted ts"
    and "\<forall>t \<in> set ts. t0 \<le> t \<and> t < t0 + lim_failureWindow (red_fallback l) \<and>
      t < t0 + lim_lockDuration (red_fallback l)"
  shows "fst (attempts Redis_Allow Redis_RecordFailure ts k (Redis_RecordSuccess k l)) =
    min (length ts) (nat (lim_maxFailures (red_fallback l)))"
  by (rule unserved_guard.attempts_after_success [where window = "lim_failureWindow (red_fallback l)"
        and lock = "lim_lockDuration (red_fallback l)"])
    (use assms in \<open>auto simp: fall_configured_def configured_def\<close>)

lemma redis_fallback_options [simp]:
  "lim_maxFailures (red_fallback (NewRedisLoginAttemptLimiter client server fates options)) =
    red_maxFailures (NewRedisLoginAttemptLimiter client server fates options)"
  "lim_failureWindow (red_fallback (NewRedisLoginAttemptLimiter client server fates options)) =
    red_failureWindow (NewRedisLoginAttemptLimiter client server fates options)"
  "lim_lockDuration (red_fallback (NewRedisLoginAttemptLimiter client server fates options)) =
    red_lockDuration (NewRedisLoginAttemptLimiter client server fates options)"
  "red_client (NewRedisLoginAttemptLimiter client server fates options) = client"
  "red_fates (NewRedisLoginAttemptLimiter client server fates options) = fates"
  "red_server (NewRedisLoginAttemptLimiter client server fates options) = server"
  "0 < red_maxFailures (NewRedisLoginAttemptLimiter client server fates options)"
  "0 < red_failureWindow (NewRedisLoginAttemptLimiter client server fates options)"
  by (simp_all add: NewRedisLoginAttemptLimiter_def NewLoginAttemptLimiter_def Let_def
      defaultLoginMaxFailures_def defaultLoginFailureWindow_def defaultLoginLockDuration_def duration_defs)

text \<open>
  C32. Password guessing with the limiter in Redis, as its constructor makes it: with a server that
  answers every command, with one that carries out none, and without a client, exactly the first
  \<open>maxFailures\<close> of any number of wrong passwords learn that the credentials are wrong and every
  other one is answered 429, within a window and up to a millisecond before the end of a lock
  period after the last success.
\<close>

theorem redis_guessing_bounded:
  fixes aud :: "auditService option" and t0 :: time and k :: string
    and client :: bool and server :: redis and fates :: "nat \<Rightarrow> command_fate"
    and options :: RedisLoginAttemptLimiterOptions
  defines "l \<equiv> NewRedisLoginAttemptLimiter client server fates options"
  assumes "sched w = []" "zeroTime \<le> t0" "sorted (map fst reqs)" "reqs \<noteq> []"
    and "\<not> client \<or> fates = (\<lambda>_. Answered) \<or> fates = (\<lambda>_. Refused)"
    and "Millisecond dvd red_failureWindow l" "Millisecond dvd red_lockDuration l" "Millisecond < red_lockDuration l"
    and "\<forall>(t, req) \<in> set reqs. wrong_login s (tbl w) req \<and>
      BuildLoginAttemptKey lib (lr_Username req) (gc_ClientIP c) = k \<and>
      t0 \<le> t \<and> t < t0 + red_failureWindow l \<and> t < t0 + red_lockDuration l - Millisecond"
  shows "length (filter (\<lambda>r. r = response_FromError ErrInvalidCredential)
      (login_run lib s aud c reqs redisGuard (Redis_RecordSuccess k l) w)) =
      min (length reqs) (nat (red_maxFailures l)) \<and>
    (\<forall>r \<in> set (login_run lib s aud c reqs redisGuard (Redis_RecordSuccess k l) w).
      r = response_FromError ErrInvalidCredential \<or>
      r = Fail 429 (Code ErrLoginRateLimited) (Message ErrLoginRateLimited))"
proof -
  have k: "k \<noteq> []"
    using assms(5,10) login_key_not_empty by (cases reqs) auto
  have times: "\<forall>t \<in> set (map fst reqs). t0 \<le> t \<and> t < t0 + red_failureWindow l \<and>
      t < t0 + red_lockDuration l - Millisecond"
    using assms(10) by auto
  have "fst (attempts Redis_Allow Redis_RecordFailure (map fst reqs) k (Redis_RecordSuccess k l)) =
      min (length (map fst reqs)) (nat (red_maxFailures l))"
  proof (cases "client \<and> fates = (\<lambda>_. Answered)")
    case True
    show ?thesis
      by (rule red_attempts [OF k]) (use True assms(4,7-9) times in \<open>simp_all add: l_def\<close>)
  next
    case False
    then have "unserved l" using assms(6) by (auto simp: l_def unserved_def)
    moreover have "\<forall>t \<in> set (map fst reqs). t0 \<le> t \<and> t < t0 + red_failureWindow l \<and> t < t0 + red_lockDuration l"
      using times by (auto simp: duration_defs)
    ultimately have "fst (attempts Redis_Allow Redis_RecordFailure (map fst reqs) k (Redis_RecordSuccess k l)) =
        min (length (map fst reqs)) (nat (lim_maxFailures (red_fallback l)))"
      by (intro fall_attempts [OF k _ _ assms(3,4)]) (simp_all add: l_def)
    then show ?thesis by (simp add: l_def)
  qed
  moreover have "\<forall>(t, req) \<in> set reqs. wrong_login s (tbl w) req \<and>
      BuildLoginAttemptKey lib (lr_Username req) (gc_ClientIP c) = k"
    using assms(10) by auto
  ultimately show ?thesis
    using login_run_attempts [OF rate_limits_guards(2) assms(2)] by (simp add: redisGuard_def)
qed

definition ex_redis_options :: RedisLoginAttemptLimiterOptions where
  "ex_redis_options = \<lparr>rao_MaxFailures = 2, rao_FailureWindow = 10 * Second, rao_LockDuration = 10 * Second,
     rao_KeyPrefix = [], rao_CommandTimeout = 0\<rparr>"

lemma ex_redis_config:
  "red_maxFailures (NewRedisLoginAttemptLimiter client server fates ex_redis_options) = 2"
  "red_failureWindow (NewRedisLoginAttemptLimiter client server fates ex_redis_options) = 10 * Second"
  "red_lockDuration (NewRedisLoginAttemptLimiter client server fates ex_redis_options) = 10 * Second"
  by (simp_all add: NewRedisLoginAttemptLimiter_def ex_redis_options_def Let_def duration_defs)

theorem redis_guessing_bounded_witness:
  "length (filter (\<lambda>r. r = response_FromError ErrInvalidCredential)
      (login_run (ae_lib ex_auth_env) ex_auth (Some ex_audit) ex_ctx
        [(1, ex_guess ''guess-1''), (2, ex_guess ''guess-2''), (3, ex_guess ''guess-3'')] redisGuard
        (Redis_RecordSuccess ex_key (NewRedisLoginAttemptLimiter True Map.empty (\<lambda>_. Answered) ex_redis_options))
        (ex_auth_world ex_user 0))) = 2"
proof -
  have "BuildLoginAttemptKey (ae_lib ex_auth_env) (lr_Username (ex_guess p)) (gc_ClientIP ex_ctx) = ex_key" for p
    by (simp add: ex_guess_def ex_key_def)
  then show ?thesis
    using redis_guessing_bounded [of "ex_auth_world ex_user 0" 0
        "[(1, ex_guess ''guess-1''), (2, ex_guess ''guess-2''), (3, ex_guess ''guess-3'')]" True
        "\<lambda>_. Answered" Map.empty ex_redis_options ex_auth "ae_lib ex_auth_env" ex_ctx ex_key "Some ex_audit"]
      ex_guess_wrong
    by (simp add: ex_redis_config zeroTime_def duration_defs)
qed

text \<open>
  With a server that answers reads and refuses writes (a replica, a full memory), guessing is
  not held back: every wrong password of any number is checked, because the failures recorded in
  memory are looked at only when a read fails.
\<close>

theorem redis_refused_writes_unbounded:
  assumes "sched w = []" "refuses_writes l" "red_server l (lockKey l k) = None" "k \<noteq> []"
    and "\<forall>(t, req) \<in> set reqs. wrong_login s (tbl w) req \<and>
      BuildLoginAttemptKey lib (lr_Username req) (gc_ClientIP c) = k"
  shows "length (filter (\<lambda>r. r = response_FromError ErrInvalidCredential)
      (login_run lib s aud c reqs redisGuard l w)) = length reqs"
  using login_run_attempts [OF rate_limits_guards(2) assms(1,5), of aud l]
    attempts_refused_writes [OF assms(2,4,3), of "map fst reqs"]
  by (simp add: redisGuard_def)

theorem redis_refused_writes_unbounded_witness:
  "length (filter (\<lambda>r. r = response_FromError ErrInvalidCredential)
      (login_run (ae_lib ex_auth_env) ex_auth (Some ex_audit) ex_ctx
        (map (\<lambda>i. (int i, ex_guess ''guess-1'')) [0..<1000]) redisGuard
        (NewRedisLoginAttemptLimiter True Map.empty (\<lambda>i. if even i then Answered else Refused) ex_redis_options)
        (ex_auth_world ex_user 0))) = 1000"
proof -
  have "BuildLoginAttemptKey (ae_lib ex_auth_env) (lr_Username (ex_guess p)) (gc_ClientIP ex_ctx) = ex_key" for p
    by (simp add: ex_guess_def ex_key_def)
  then show ?thesis
    by (subst redis_refused_writes_unbounded [where k = ex_key])
      (use ex_guess_wrong in \<open>auto simp: refuses_writes_def ex_key_def login_key_not_empty\<close>)
qed

end
