(* ===== verification/Encryption.thy ===== *)
theory Encryption
  imports Base64 JsonDecode World
begin

text \<open>
  \<^verbatim>\<open>internal/security/encryption.go\<close>: encryption of settings with AES-256-GCM. The cipher, the
  system's randomness and the text of JSON are parameters.
\<close>

record aead =
  Seal :: "string \<Rightarrow> string \<Rightarrow> string"
  Open :: "string \<Rightarrow> string \<Rightarrow> string option"

text \<open>\<open>Seal nonce plaintext\<close>, \<open>Open nonce ciphertext\<close>; the additional data is always nil.\<close>

record crypto =
  cr_NewCipher :: "string \<Rightarrow> go_error option"
  cr_NewGCM :: "string \<Rightarrow> aead result"
  cr_random :: "nat \<Rightarrow> nat \<Rightarrow> string result"
  cr_Marshal :: "json \<Rightarrow> string result"
  cr_Unmarshal :: "string \<Rightarrow> json option"

definition EncryptionPayloadVersion :: int where "EncryptionPayloadVersion = 1"
definition EncryptionAlgorithm :: string where "EncryptionAlgorithm = ''AES-256-GCM''"
definition encryptionKeyBytes :: nat where "encryptionKeyBytes = 32"
definition encryptionNonceBytes :: nat where "encryptionNonceBytes = 12"

record Encryptor =
  enc_keyID :: string
  enc_aead :: "aead option"

record EncryptedPayload =
  ep_Version :: int
  ep_Algorithm :: string
  ep_KeyID :: string
  ep_Nonce :: string
  ep_Ciphertext :: string

definition payload_json :: "EncryptedPayload \<Rightarrow> json" where
  "payload_json p = JObj ([(''version'', JNum (ep_Version p)), (''algorithm'', JStr (ep_Algorithm p))] @
     omitStr ''key_id'' (ep_KeyID p) @
     [(''nonce'', JStr (ep_Nonce p)), (''ciphertext'', JStr (ep_Ciphertext p))])"

definition decode_encrypted :: "json \<Rightarrow> EncryptedPayload option" where
  "decode_encrypted j = (case j of
       JNull \<Rightarrow> Some \<lparr>ep_Version = 0, ep_Algorithm = [], ep_KeyID = [], ep_Nonce = [], ep_Ciphertext = []\<rparr>
     | JObj ms \<Rightarrow> (
         case decInt ''version'' ms 0 of None \<Rightarrow> None | Some v \<Rightarrow> (
         case decStr ''algorithm'' ms [] of None \<Rightarrow> None | Some a \<Rightarrow> (
         case decStr ''key_id'' ms [] of None \<Rightarrow> None | Some k \<Rightarrow> (
         case decStr ''nonce'' ms [] of None \<Rightarrow> None | Some n \<Rightarrow> (
         case decStr ''ciphertext'' ms [] of None \<Rightarrow> None | Some c \<Rightarrow>
           Some \<lparr>ep_Version = v, ep_Algorithm = a, ep_KeyID = k, ep_Nonce = n, ep_Ciphertext = c\<rparr>)))))
     | _ \<Rightarrow> None)"

section \<open>Keys\<close>

text \<open>The four encodings are tried in the order of the source.\<close>

definition key_encodings :: "((nat \<Rightarrow> char) \<times> bool) list" where
  "key_encodings = [(b64_std, True), (b64_std, False), (b64_url, True), (b64_url, False)]"

fun first_key :: "((nat \<Rightarrow> char) \<times> bool) list \<Rightarrow> string \<Rightarrow> string option" where
  "first_key [] s = None"
| "first_key ((al, padded) # encodings) s = (case b64_decode al padded s of
       Some decoded \<Rightarrow> if length decoded = encryptionKeyBytes then Some decoded else first_key encodings s
     | None \<Rightarrow> first_key encodings s)"

definition DecodeEncryptionKey :: "string \<Rightarrow> string result" where
  "DecodeEncryptionKey raw =
     (let trimmed = TrimSpace raw in
      if trimmed = []
      then Inl (Plain ''SNOWPANEL_ENCRYPTION_KEY cannot be empty when encryption is required'')
      else case first_key key_encodings trimmed of
        Some decoded \<Rightarrow> Inr decoded
      | None \<Rightarrow>
          if length trimmed = encryptionKeyBytes then Inr trimmed
          else Inl (Plain ''SNOWPANEL_ENCRYPTION_KEY must decode to 32 bytes for AES-256-GCM''))"

definition NewEncryptor :: "crypto \<Rightarrow> string \<Rightarrow> string \<Rightarrow> Encryptor result" where
  "NewEncryptor cr keyMaterial keyID = (case DecodeEncryptionKey keyMaterial of
       Inl err \<Rightarrow> Inl err
     | Inr key \<Rightarrow> (case cr_NewCipher cr key of
         Some err \<Rightarrow> Inl (Wrapf ''initialize encryption cipher'' err)
       | None \<Rightarrow> (case cr_NewGCM cr key of
           Inl err \<Rightarrow> Inl (Wrapf ''initialize encryption mode'' err)
         | Inr a \<Rightarrow> Inr \<lparr>enc_keyID = TrimSpace keyID, enc_aead = Some a\<rparr>)))"

definition GenerateEncryptionKey :: "crypto \<Rightarrow> (world, string result) state" where
  "GenerateEncryptionKey cr = do {
     n \<leftarrow> draw;
     ret (case cr_random cr n encryptionKeyBytes of
         Inl err \<Rightarrow> Inl (Wrapf ''generate encryption key'' err)
       | Inr key \<Rightarrow> Inr (b64_encode b64_std key))
   }"

section \<open>Encryption\<close>

definition sealed_payload :: "string \<Rightarrow> aead \<Rightarrow> string \<Rightarrow> string \<Rightarrow> EncryptedPayload" where
  "sealed_payload keyID a nonce plaintext =
     \<lparr>ep_Version = EncryptionPayloadVersion, ep_Algorithm = EncryptionAlgorithm, ep_KeyID = keyID,
      ep_Nonce = b64_encode b64_std nonce, ep_Ciphertext = b64_encode b64_std (Seal a nonce plaintext)\<rparr>"

definition Encrypt :: "crypto \<Rightarrow> Encryptor option \<Rightarrow> string \<Rightarrow> (world, string result) state" where
  "Encrypt cr e plaintext = (case e of
       None \<Rightarrow> ret (Inl (Plain ''encryptor is not initialized''))
     | Some enc \<Rightarrow> (case enc_aead enc of
         None \<Rightarrow> ret (Inl (Plain ''encryptor is not initialized''))
       | Some a \<Rightarrow> do {
           n \<leftarrow> draw;
           ret (case cr_random cr n encryptionNonceBytes of
               Inl err \<Rightarrow> Inl (Wrapf ''generate encryption nonce'' err)
             | Inr nonce \<Rightarrow> (case cr_Marshal cr (payload_json (sealed_payload (enc_keyID enc) a nonce plaintext)) of
                 Inl err \<Rightarrow> Inl (Wrapf ''marshal encrypted payload'' err)
               | Inr text \<Rightarrow> Inr text))
         }))"

definition Decrypt :: "crypto \<Rightarrow> Encryptor option \<Rightarrow> string \<Rightarrow> string result" where
  "Decrypt cr e rawPayload = (case e of
       None \<Rightarrow> Inl (Plain ''encryptor is not initialized'')
     | Some enc \<Rightarrow> (case enc_aead enc of
         None \<Rightarrow> Inl (Plain ''encryptor is not initialized'')
       | Some a \<Rightarrow> (case Option.bind (cr_Unmarshal cr rawPayload) decode_encrypted of
           None \<Rightarrow> Inl (Plain ''encrypted payload is invalid'')
         | Some payload \<Rightarrow>
             if ep_Version payload \<noteq> EncryptionPayloadVersion
             then Inl (Plain ''encrypted payload version is unsupported'')
             else if ep_Algorithm payload \<noteq> EncryptionAlgorithm
             then Inl (Plain ''encrypted payload algorithm is unsupported'')
             else case b64_decode b64_std False (ep_Nonce payload) of
               None \<Rightarrow> Inl (Plain ''encrypted payload nonce is invalid'')
             | Some nonce \<Rightarrow>
                 if length nonce \<noteq> encryptionNonceBytes
                 then Inl (Plain ''encrypted payload nonce is invalid'')
                 else case b64_decode b64_std False (ep_Ciphertext payload) of
                   None \<Rightarrow> Inl (Plain ''encrypted payload ciphertext is invalid'')
                 | Some ciphertext \<Rightarrow> (case Open a nonce ciphertext of
                     None \<Rightarrow> Inl (Plain ''encrypted payload authentication failed'')
                   | Some plaintext \<Rightarrow> Inr plaintext))))"

section \<open>Round trip\<close>

text \<open>
  What is documented of the libraries: randomness gives as many bytes as asked for, the JSON text
  of a payload whose strings are ASCII is read back as the value it was made of (\<^verbatim>\<open>encoding/json\<close>
  replaces invalid UTF-8), and GCM opens what was sealed with the same nonce, and
  nothing else (the tag is a function of nonce and ciphertext).
\<close>

definition ascii_payload :: "EncryptedPayload \<Rightarrow> bool" where
  "ascii_payload p = (isASCII (ep_Algorithm p) \<and> isASCII (ep_KeyID p) \<and> isASCII (ep_Nonce p) \<and>
     isASCII (ep_Ciphertext p))"

definition crypto_ok :: "crypto \<Rightarrow> bool" where
  "crypto_ok cr = ((\<forall>n k. \<exists>b. cr_random cr n k = Inr b \<and> length b = k) \<and>
     (\<forall>p. ep_Version p = EncryptionPayloadVersion \<and> ascii_payload p \<longrightarrow>
       (\<exists>raw. cr_Marshal cr (payload_json p) = Inr raw \<and> cr_Unmarshal cr raw = Some (payload_json p))))"

definition aead_ok :: "aead \<Rightarrow> bool" where
  "aead_ok a = (\<forall>nonce c p. Open a nonce c = Some p \<longleftrightarrow> c = Seal a nonce p)"

lemma decode_payload_json: "ep_Version p = EncryptionPayloadVersion \<Longrightarrow> decode_encrypted (payload_json p) = Some p"
  by (simp add: EncryptionPayloadVersion_def int64_def decode_encrypted_def payload_json_def dec_simps fieldMatch_def foldName.simps omitStr_def)

lemma aead_opens [simp]: "aead_ok a \<Longrightarrow> Open a nonce (Seal a nonce p) = Some p"
  by (simp add: aead_ok_def)

lemma decrypt_sealed:
  assumes "crypto_ok cr" "enc_aead enc = Some a" "aead_ok a" "length nonce = encryptionNonceBytes"
    and "cr_Unmarshal cr text = Some (payload_json (sealed_payload k a nonce p))"
  shows "Decrypt cr (Some enc) text = Inr p"
proof -
  have "decode_encrypted (payload_json (sealed_payload k a nonce p)) = Some (sealed_payload k a nonce p)"
    by (rule decode_payload_json) (simp add: sealed_payload_def)
  with assms show ?thesis
    by (simp add: Decrypt_def sealed_payload_def b64_round_trip aead_opens)
qed

text \<open>The payload of a sealing is ASCII when the key id is: the rest is base64 and a constant.\<close>

lemma ascii_sealed:
  assumes "isASCII k"
  shows "ascii_payload (sealed_payload k a nonce p)"
proof -
  have "isASCII (b64_encode b64_std x)" for x
  proof -
    have "list_all b64_plain (b64_encode b64_std x)"
      by (rule encode_plain) (simp add: b64_std_plain)
    then show ?thesis by (auto simp: isASCII_def list_all_iff b64_plain_def)
  qed
  moreover have "isASCII EncryptionAlgorithm" by (simp add: EncryptionAlgorithm_def isASCII_def)
  ultimately show ?thesis using assms by (simp add: ascii_payload_def sealed_payload_def)
qed

lemma encrypt_seals:
  assumes "crypto_ok cr" "enc_aead enc = Some a" "isASCII (enc_keyID enc)"
  shows "\<exists>text nonce. run_state (Encrypt cr (Some enc) p) w = (Inr text, w\<lparr>drawn := drawn w + 1\<rparr>) \<and>
    cr_random cr (drawn w) encryptionNonceBytes = Inr nonce \<and> length nonce = encryptionNonceBytes \<and>
    cr_Unmarshal cr text = Some (payload_json (sealed_payload (enc_keyID enc) a nonce p))"
proof -
  obtain nonce where n: "cr_random cr (drawn w) encryptionNonceBytes = Inr nonce" "length nonce = encryptionNonceBytes"
    using assms(1) unfolding crypto_ok_def by blast
  have "ep_Version (sealed_payload (enc_keyID enc) a nonce p) = EncryptionPayloadVersion"
    by (simp add: sealed_payload_def)
  then obtain raw where "cr_Marshal cr (payload_json (sealed_payload (enc_keyID enc) a nonce p)) = Inr raw"
      "cr_Unmarshal cr raw = Some (payload_json (sealed_payload (enc_keyID enc) a nonce p))"
    using assms(1) ascii_sealed [OF assms(3)] unfolding crypto_ok_def by blast
  with n assms(2) show ?thesis
    by (auto simp: Encrypt_def draw_def)
qed

text \<open>What is decrypted was sealed: the stored nonce and ciphertext encode a sealing of the text.\<close>

lemma decrypted_was_sealed:
  assumes "aead_ok a" "enc_aead enc = Some a" "Decrypt cr (Some enc) text = Inr p"
  shows "\<exists>payload nonce. Option.bind (cr_Unmarshal cr text) decode_encrypted = Some payload \<and>
    b64_decode b64_std False (ep_Nonce payload) = Some nonce \<and>
    b64_decode b64_std False (ep_Ciphertext payload) = Some (Seal a nonce p)"
  using assms by (auto simp: Decrypt_def aead_ok_def split: option.splits if_splits)

section \<open>A generated key is a key\<close>

lemma TrimSpace_b64: "TrimSpace (b64_encode b64_std s) = b64_encode b64_std s"
proof (cases "b64_encode b64_std s = []")
  case False
  then have "b64_plain (hd (b64_encode b64_std s))" "b64_plain (last (b64_encode b64_std s))"
    using encode_plain [of b64_std s] by (simp_all add: list_all_iff b64_std_plain)
  with False show ?thesis by (intro TrimSpace_plain) (auto simp: b64_plain_def)
next
  case True
  have "TrimSpace [] = []" by code_simp
  with True show ?thesis by simp
qed

lemma generated_key_decodes:
  assumes "length key = encryptionKeyBytes"
  shows "DecodeEncryptionKey (b64_encode b64_std key) = Inr key"
proof -
  have len: "length (b64_encode b64_std key) = 43"
    using assms by (simp add: length_b64_encode encryptionKeyBytes_def)
  have "filter (\<lambda>c. c \<noteq> CHR 0x0A \<and> c \<noteq> CHR 0x0D) (b64_encode b64_std key) = b64_encode b64_std key"
    using encode_plain [of b64_std key] by (simp add: filter_id_conv list_all_iff b64_std_plain not_newline)
  then have "b64_decode b64_std True (b64_encode b64_std key) = None"
    using b64_groups_padded [of b64_std "b64_encode b64_std key"] len
    by (cases "b64_groups b64_std True (b64_encode b64_std key)") (auto simp: b64_decode_def)
  moreover have "b64_encode b64_std key \<noteq> []" using len by auto
  ultimately show ?thesis
    using assms by (simp add: DecodeEncryptionKey_def TrimSpace_b64 key_encodings_def b64_round_trip)
qed

end
