(* ===== verification/SystemSettings.thy ===== *)
theory SystemSettings
  imports Encryption AuditRepo UserRepo
begin

text \<open>
  \<^verbatim>\<open>internal/repository/system_setting_repository.go\<close>,
  \<^verbatim>\<open>internal/service/system_setting_service.go\<close>, and the checks of the encryption that
  \<^verbatim>\<open>cmd/server/main.go\<close> makes when the process starts.
\<close>

section \<open>Repository\<close>

definition setting_fits :: "postgres \<Rightarrow> SystemSetting \<Rightarrow> SystemSetting option" where
  "setting_fits pg s = (case (pg_varchar pg 128 (setting_Key s), pg_varchar pg 32 (setting_ValueType s)) of
       (Some key, Some valueType) \<Rightarrow>
         if pg_text pg (setting_Value s) \<and> pg_text pg (setting_Description s)
         then Some (s\<lparr>setting_Key := key, setting_ValueType := valueType,
           setting_UpdatedAt := timestamptz (setting_UpdatedAt s)\<rparr>)
         else None
     | _ \<Rightarrow> None)"

definition overwrite_setting :: "SystemSetting \<Rightarrow> SystemSetting \<Rightarrow> SystemSetting" where
  "overwrite_setting s r = r\<lparr>setting_Value := setting_Value s, setting_ValueType := setting_ValueType s,
     setting_IsEncrypted := setting_IsEncrypted s, setting_Description := setting_Description s,
     setting_UpdatedBy := setting_UpdatedBy s, setting_UpdatedAt := setting_UpdatedAt s\<rparr>"

definition find_setting :: "string \<Rightarrow> tables \<Rightarrow> SystemSetting option" where
  "find_setting key t = first_where (\<lambda>r. setting_Key r = key) (system_settings t)"

text \<open>\<^verbatim>\<open>INSERT ... ON CONFLICT (key) DO UPDATE SET ... RETURNING id\<close>.\<close>

definition sql_UpsertSetting :: "postgres \<Rightarrow> SystemSetting \<Rightarrow> time \<Rightarrow> tables \<Rightarrow> int result \<times> tables" where
  "sql_UpsertSetting pg setting now t =
     (let t' = t\<lparr>system_settings_seq := system_settings_seq t + 1\<rparr>
      in case setting_fits pg setting of
           None \<Rightarrow> (Inl (Lib ''value refused''), t')
         | Some row \<Rightarrow>
             if (case setting_UpdatedBy row of None \<Rightarrow> False | Some i \<Rightarrow> i \<notin> user_ID ` set (users t))
             then (Inl (Lib ''foreign key violation''), t')
             else case find_setting (setting_Key row) t of
               Some old \<Rightarrow> (Inr (setting_ID old), t'\<lparr>system_settings :=
                 update_where (\<lambda>r. setting_Key r = setting_Key row) (overwrite_setting row) (system_settings t)\<rparr>)
             | None \<Rightarrow> (Inr (system_settings_seq t), t'\<lparr>system_settings := system_settings t @
                 [row\<lparr>setting_ID := system_settings_seq t, setting_CreatedAt := timestamptz now\<rparr>]\<rparr>))"

definition settingRepo_GetByKey :: "string \<Rightarrow> (world, SystemSetting option result) state" where
  "settingRepo_GetByKey key = dbcall (\<lambda>t. (Inr (find_setting key t), t))"

definition settingRepo_HasEncryptedSettings :: "(world, bool result) state" where
  "settingRepo_HasEncryptedSettings =
     dbcall (\<lambda>t. (Inr (length (filter setting_IsEncrypted (system_settings t)) > 0), t))"

text \<open>The struct is filled in: the id that the statement returns, the time of creation that GORM sets.\<close>

definition settingRepo_Upsert :: "postgres \<Rightarrow> SystemSetting \<Rightarrow> (world, SystemSetting result) state" where
  "settingRepo_Upsert pg setting = do {
     now \<leftarrow> Now;
     call (dbcall (sql_UpsertSetting pg setting now)) (\<lambda>i.
       ret (Inr (setting\<lparr>setting_ID := i, setting_CreatedAt := now\<rparr>)))
   }"

section \<open>Service\<close>

record systemSettingService =
  sss_pg :: postgres
  sss_lib :: golib
  sss_crypto :: crypto
  sss_encryptor :: "Encryptor option"

record UpsertSystemSettingInput =
  usi_Key :: string
  usi_Value :: string
  usi_ValueType :: string
  usi_IsEncrypted :: bool
  usi_Description :: string
  usi_UpdatedBy :: "int option"

record SystemSettingDTO =
  ssd_ID :: int
  ssd_Key :: string
  ssd_Value :: string
  ssd_ValueType :: string
  ssd_IsEncrypted :: bool
  ssd_Description :: string
  ssd_UpdatedBy :: "int option"
  ssd_CreatedAt :: rfc3339
  ssd_UpdatedAt :: rfc3339

definition normalizeSettingValueType :: "golib \<Rightarrow> string \<Rightarrow> string" where
  "normalizeSettingValueType lib raw =
     (let normalized = TrimSpace (ToLower (lower_uni lib) raw)
      in if normalized = [] then ''string'' else normalized)"

definition mapSystemSetting :: "SystemSetting \<Rightarrow> SystemSettingDTO" where
  "mapSystemSetting s = \<lparr>ssd_ID = setting_ID s, ssd_Key = setting_Key s, ssd_Value = setting_Value s,
     ssd_ValueType = setting_ValueType s, ssd_IsEncrypted = setting_IsEncrypted s,
     ssd_Description = setting_Description s, ssd_UpdatedBy = setting_UpdatedBy s,
     ssd_CreatedAt = FormatRFC3339 (setting_CreatedAt s), ssd_UpdatedAt = FormatRFC3339 (setting_UpdatedAt s)\<rparr>"

definition key_required :: go_error where
  "key_required = wrapAs ErrBadRequest (Plain ''setting key is required'')"

definition no_encryptor :: go_error where
  "no_encryptor = Plain ''SNOWPANEL_ENCRYPTION_KEY cannot be empty when encrypted settings are used''"

definition new_setting :: "golib \<Rightarrow> UpsertSystemSettingInput \<Rightarrow> string \<Rightarrow> time \<Rightarrow> SystemSetting" where
  "new_setting lib input value now =
     \<lparr>setting_ID = 0, setting_Key = TrimSpace (usi_Key input), setting_Value = value,
      setting_ValueType = normalizeSettingValueType lib (usi_ValueType input),
      setting_IsEncrypted = usi_IsEncrypted input, setting_Description = TrimSpace (usi_Description input),
      setting_UpdatedBy = usi_UpdatedBy input, setting_CreatedAt = 0, setting_UpdatedAt = now\<rparr>"

definition UpsertSetting ::
  "systemSettingService \<Rightarrow> UpsertSystemSettingInput \<Rightarrow> (world, SystemSettingDTO result) state" where
  "UpsertSetting s input =
     (if TrimSpace (usi_Key input) = [] then ret (Inl key_required)
      else call (if usi_IsEncrypted input
            then if sss_encryptor s = None then ret (Inl (wrapAs ErrInternal no_encryptor))
              else call_as ErrInternal (Encrypt (sss_crypto s) (sss_encryptor s) (usi_Value input))
                (\<lambda>encrypted. ret (Inr encrypted))
            else ret (Inr (usi_Value input)))
        (\<lambda>value. do {
          now \<leftarrow> Now;
          call_as ErrInternal (settingRepo_Upsert (sss_pg s) (new_setting (sss_lib s) input value now))
            (\<lambda>setting. ret (Inr (mapSystemSetting (setting\<lparr>setting_Value := usi_Value input\<rparr>))))
        }))"

definition GetSettingByKey :: "systemSettingService \<Rightarrow> string \<Rightarrow> (world, SystemSettingDTO result) state" where
  "GetSettingByKey s key =
     (let trimmed = TrimSpace key in
      if trimmed = [] then ret (Inl key_required)
      else call_as ErrInternal (settingRepo_GetByKey trimmed) (\<lambda>found. case found of
          None \<Rightarrow> ret (Inl (wrapAs ErrSystemSettingNotFound (Plain ''system setting not found'')))
        | Some setting \<Rightarrow>
            if setting_IsEncrypted setting then
              (if sss_encryptor s = None then ret (Inl (wrapAs ErrInternal no_encryptor))
               else case Decrypt (sss_crypto s) (sss_encryptor s) (setting_Value setting) of
                 Inl err \<Rightarrow> ret (Inl (wrapAs ErrInternal err))
               | Inr value \<Rightarrow> ret (Inr (mapSystemSetting (setting\<lparr>setting_Value := value\<rparr>))))
            else ret (Inr (mapSystemSetting setting))))"

section \<open>Start-up\<close>

definition newSettingsEncryptor :: "crypto \<Rightarrow> string \<Rightarrow> string \<Rightarrow> Encryptor option result" where
  "newSettingsEncryptor cr encryptionKey encryptionKeyID =
     (if encryptionKey = [] then Inr None
      else case NewEncryptor cr encryptionKey encryptionKeyID of
        Inl err \<Rightarrow> Inl err | Inr e \<Rightarrow> Inr (Some e))"

definition validateEncryptedSettingsStartup :: "Encryptor option \<Rightarrow> (world, go_error option) state" where
  "validateEncryptedSettingsStartup encryptor = do {
     r \<leftarrow> settingRepo_HasEncryptedSettings;
     ret (case r of
         Inl err \<Rightarrow> Some (Wrapf ''check encrypted settings'' err)
       | Inr hasEncryptedSettings \<Rightarrow>
           if hasEncryptedSettings \<and> encryptor = None
           then Some (Plain ''SNOWPANEL_ENCRYPTION_KEY cannot be empty when encrypted settings exist'')
           else None)
   }"

end
