(* ===== verification/SettingsTheorems.thy ===== *)
theory SettingsTheorems
  imports SystemSettings AuditTheorems AuthExample
begin

text \<open>
  The properties of encrypted settings: what is stored is read back, what is read back was stored,
  and a generated key is a key.
\<close>

section \<open>Undisturbed runs\<close>

lemma find_setting_update:
  "find_setting key t = Some old \<Longrightarrow>
    first_where (\<lambda>r. setting_Key r = key) (update_where (\<lambda>r. setting_Key r = key) (overwrite_setting s) (system_settings t)) =
      Some (overwrite_setting s old)"
proof -
  have "first_where (\<lambda>r. setting_Key r = key) (update_where (\<lambda>r. setting_Key r = key) (overwrite_setting s) rows) =
      Some (overwrite_setting s old)" if "first_where (\<lambda>r. setting_Key r = key) rows = Some old" for rows
    using that by (induction rows) (auto simp: update_where_def overwrite_setting_def split: if_splits)
  then show "find_setting key t = Some old \<Longrightarrow> ?thesis" by (simp add: find_setting_def)
qed

lemma find_setting_append:
  "find_setting key t = None \<Longrightarrow> setting_Key r = key \<Longrightarrow>
    first_where (\<lambda>r. setting_Key r = key) (system_settings t @ [r]) = Some r"
proof -
  have "first_where (\<lambda>r. setting_Key r = key) (rows @ [r]) = Some r"
    if "first_where (\<lambda>r. setting_Key r = key) rows = None" "setting_Key r = key" for rows
    using that by (induction rows) (auto split: if_splits)
  then show "find_setting key t = None \<Longrightarrow> setting_Key r = key \<Longrightarrow> ?thesis" by (simp add: find_setting_def)
qed

text \<open>The columns of the row after an upsert whose values fit.\<close>

definition fitting :: "postgres \<Rightarrow> SystemSetting \<Rightarrow> bool" where
  "fitting pg s = (pg_varchar pg 128 (setting_Key s) = Some (setting_Key s) \<and>
     pg_varchar pg 32 (setting_ValueType s) = Some (setting_ValueType s) \<and>
     pg_text pg (setting_Value s) \<and> pg_text pg (setting_Description s))"

lemma upsert_stores:
  assumes "fitting pg s" "\<forall>i. setting_UpdatedBy s = Some i \<longrightarrow> i \<in> user_ID ` set (users t)"
  shows "\<exists>i t'. sql_UpsertSetting pg s now t = (Inr i, t') \<and>
    (\<exists>r. find_setting (setting_Key s) t' = Some r \<and> setting_ID r = i \<and> setting_Key r = setting_Key s \<and>
      setting_Value r = setting_Value s \<and> setting_ValueType r = setting_ValueType s \<and>
      setting_IsEncrypted r = setting_IsEncrypted s \<and> setting_Description r = setting_Description s) \<and>
    filter (\<lambda>r. setting_Key r \<noteq> setting_Key s) (system_settings t') =
      filter (\<lambda>r. setting_Key r \<noteq> setting_Key s) (system_settings t)"
proof -
  define row where "row = s\<lparr>setting_UpdatedAt := timestamptz (setting_UpdatedAt s)\<rparr>"
  have fits: "setting_fits pg s = Some row"
    using assms(1) by (simp add: setting_fits_def fitting_def row_def)
  have user: "\<not> (case setting_UpdatedBy row of None \<Rightarrow> False | Some i \<Rightarrow> i \<notin> user_ID ` set (users t))"
    using assms(2) by (auto simp: row_def split: option.splits)
  have key: "setting_Key row = setting_Key s" by (simp add: row_def)
  show ?thesis
  proof (cases "find_setting (setting_Key s) t")
    case None
    with find_setting_append [OF None] show ?thesis
      using user by (simp add: sql_UpsertSetting_def fits key Let_def find_setting_def) (simp add: row_def)
  next
    case (Some old)
    have "filter (\<lambda>r. setting_Key r \<noteq> setting_Key s) (update_where (\<lambda>r. setting_Key r = setting_Key s) (overwrite_setting row) rows) =
        filter (\<lambda>r. setting_Key r \<noteq> setting_Key s) rows" for rows
      by (induction rows) (auto simp: update_where_def overwrite_setting_def)
    moreover have "setting_Key old = setting_Key s"
      using Some by (auto simp: find_setting_def dest: first_where_Some)
    ultimately show ?thesis
      using user Some find_setting_update [OF Some, of row]
      by (simp add: sql_UpsertSetting_def fits key Let_def find_setting_def overwrite_setting_def) (simp add: row_def)
  qed
qed

lemma run_get_setting:
  assumes "sched w = []" "TrimSpace key \<noteq> []" "find_setting (TrimSpace key) (tbl w) = Some r" "setting_IsEncrypted r"
    and "sss_encryptor s = Some e" "Decrypt (sss_crypto s) (Some e) (setting_Value r) = Inr v"
  shows "run_state (GetSettingByKey s key) w = (Inr (mapSystemSetting (r\<lparr>setting_Value := v\<rparr>)), w)"
  using assms by (simp add: GetSettingByKey_def call_as_def settingRepo_GetByKey_def run_dbcall_calm)

section \<open>A concrete instance\<close>

text \<open>
  Stand-ins for the libraries: sealing writes the nonce before the text, random bytes are all the
  same, a payload is written field by field.
\<close>

definition ex_aead :: aead where
  "ex_aead = \<lparr>Seal = (\<lambda>nonce p. nonce @ p),
     Open = (\<lambda>nonce c. if take (length nonce) c = nonce then Some (drop (length nonce) c) else None)\<rparr>"

lemma ex_aead_ok: "aead_ok ex_aead"
proof -
  have "(take (length n) c = n \<and> drop (length n) c = p) \<longleftrightarrow> c = n @ p" for n c p :: string
    by (metis append_eq_conv_conj)
  then show ?thesis by (auto simp: aead_ok_def ex_aead_def)
qed

definition ex_written :: "EncryptedPayload \<Rightarrow> string" where
  "ex_written p = enc_int (ep_Version p) @ enc_str (ep_Algorithm p) @ enc_str (ep_KeyID p) @
     enc_str (ep_Nonce p) @ enc_str (ep_Ciphertext p)"

definition ex_Marshal :: "json \<Rightarrow> string result" where
  "ex_Marshal j = (case decode_encrypted j of
       None \<Rightarrow> Inl (Lib ''json'')
     | Some p \<Rightarrow> Inr (ex_written p))"

definition ex_Unmarshal :: "string \<Rightarrow> json option" where
  "ex_Unmarshal s0 = (case dec_int s0 of (v, s1) \<Rightarrow> (case dec_str s1 of (a, s2) \<Rightarrow> (case dec_str s2 of (k, s3) \<Rightarrow>
     (case dec_str s3 of (n, s4) \<Rightarrow> (case dec_str s4 of (c, _) \<Rightarrow>
       Some (payload_json \<lparr>ep_Version = v, ep_Algorithm = a, ep_KeyID = k, ep_Nonce = n, ep_Ciphertext = c\<rparr>))))))"

definition ex_crypto :: crypto where
  "ex_crypto = \<lparr>cr_NewCipher = (\<lambda>_. None), cr_NewGCM = (\<lambda>_. Inr ex_aead),
     cr_random = (\<lambda>n k. Inr (replicate k (CHR ''r''))), cr_Marshal = ex_Marshal, cr_Unmarshal = ex_Unmarshal\<rparr>"

lemma ex_read_written: "ex_Unmarshal (ex_written p) = Some (payload_json p)"
  using dec_enc_str [of "ep_Ciphertext p" "[]"] by (cases p) (simp add: ex_Unmarshal_def ex_written_def)

lemma ex_crypto_ok: "crypto_ok ex_crypto"
  by (auto simp: ex_read_written crypto_ok_def ex_crypto_def ex_Marshal_def decode_payload_json)

section \<open>Properties\<close>

text \<open>
  C28. An encrypted setting is read back: after an upsert with nothing else at work, of a value
  whose columns fit, under a key whose id is ASCII, reading the key answers the same value,
  description and id; the row holds a sealing of the value under the nonce that this very call
  drew from the system's randomness (the next draw is the next call's), and the rows of other
  keys are as they were.
\<close>

theorem encrypted_setting_round_trip:
  assumes "sched w = []" "crypto_ok (sss_crypto s)" "sss_encryptor s = Some e" "enc_aead e = Some a" "aead_ok a"
    and "TrimSpace (usi_Key input) \<noteq> []" "usi_IsEncrypted input"
    and "\<forall>j raw. cr_Marshal (sss_crypto s) j = Inr raw \<longrightarrow>
      fitting (sss_pg s) (new_setting (sss_lib s) input raw (clock w))"
    and "\<forall>i. usi_UpdatedBy input = Some i \<longrightarrow> i \<in> user_ID ` set (users (tbl w))"
    and "isASCII (enc_keyID e)"
  shows "case run_state (UpsertSetting s input) w of (r, w') \<Rightarrow>
    \<exists>d d' row nonce payload. r = Inr d \<and> run_state (GetSettingByKey s (usi_Key input)) w' = (Inr d', w') \<and>
      ssd_Value d' = usi_Value input \<and> ssd_IsEncrypted d' \<and> ssd_Key d' = TrimSpace (usi_Key input) \<and>
      ssd_Description d' = TrimSpace (usi_Description input) \<and> ssd_ID d' = ssd_ID d \<and>
      find_setting (TrimSpace (usi_Key input)) (tbl w') = Some row \<and>
      cr_Unmarshal (sss_crypto s) (setting_Value row) = Some (payload_json payload) \<and>
      payload = sealed_payload (enc_keyID e) a nonce (usi_Value input) \<and>
      cr_random (sss_crypto s) (drawn w) encryptionNonceBytes = Inr nonce \<and> drawn w' = drawn w + 1 \<and>
      length nonce = encryptionNonceBytes \<and>
      filter (\<lambda>r. setting_Key r \<noteq> TrimSpace (usi_Key input)) (system_settings (tbl w')) =
        filter (\<lambda>r. setting_Key r \<noteq> TrimSpace (usi_Key input)) (system_settings (tbl w))"
proof -
  obtain raw nonce where enc: "run_state (Encrypt (sss_crypto s) (Some e) (usi_Value input)) w =
      (Inr raw, w\<lparr>drawn := drawn w + 1\<rparr>)" "cr_random (sss_crypto s) (drawn w) encryptionNonceBytes = Inr nonce"
      "length nonce = encryptionNonceBytes"
      "cr_Unmarshal (sss_crypto s) raw = Some (payload_json (sealed_payload (enc_keyID e) a nonce (usi_Value input)))"
    using encrypt_seals [OF assms(2,4,10)] by blast
  have "\<exists>j. cr_Marshal (sss_crypto s) j = Inr raw"
    using enc(1) assms(4) by (auto simp: Encrypt_def draw_def split: sum.splits)
  with assms(8) have fit: "fitting (sss_pg s) (new_setting (sss_lib s) input raw (clock w))" by blast
  let ?row = "new_setting (sss_lib s) input raw (clock w)" and ?k = "TrimSpace (usi_Key input)"
  have "\<forall>i. setting_UpdatedBy ?row = Some i \<longrightarrow> i \<in> user_ID ` set (users (tbl w))"
    using assms(9) by (simp add: new_setting_def)
  from upsert_stores [OF fit this, of "clock w"] obtain i t' r where
    sql: "sql_UpsertSetting (sss_pg s) ?row (clock w) (tbl w) = (Inr i, t')" and
    r: "find_setting ?k t' = Some r" "setting_ID r = i" "setting_Key r = ?k" "setting_Value r = raw"
      "setting_IsEncrypted r" "setting_Description r = TrimSpace (usi_Description input)" and
    others: "filter (\<lambda>r. setting_Key r \<noteq> ?k) (system_settings t') =
      filter (\<lambda>r. setting_Key r \<noteq> ?k) (system_settings (tbl w))"
    using assms(7) by (auto simp: new_setting_def)
  have run: "run_state (UpsertSetting s input) w = (Inr (mapSystemSetting (?row\<lparr>setting_ID := i,
      setting_CreatedAt := clock w, setting_Value := usi_Value input\<rparr>)), w\<lparr>drawn := drawn w + 1, tbl := t'\<rparr>)"
    using assms(1,3,6,7) enc(1) sql
    by (simp add: UpsertSetting_def call_def call_as_def Now_def settingRepo_Upsert_def run_dbcall_calm)
  have "Decrypt (sss_crypto s) (Some e) raw = Inr (usi_Value input)"
    by (rule decrypt_sealed [OF assms(2,4,5) enc(3,4)])
  then have "run_state (GetSettingByKey s (usi_Key input)) (w\<lparr>drawn := drawn w + 1, tbl := t'\<rparr>) =
      (Inr (mapSystemSetting (r\<lparr>setting_Value := usi_Value input\<rparr>)), w\<lparr>drawn := drawn w + 1, tbl := t'\<rparr>)"
    using r assms(1,3,6) by (intro run_get_setting) simp_all
  with run r others enc(2,3,4) show ?thesis
    by (simp add: mapSystemSetting_def)
qed

definition ex_settings :: systemSettingService where
  "ex_settings = \<lparr>sss_pg = ex_pg, sss_lib = ae_lib ex_auth_env, sss_crypto = ex_crypto,
     sss_encryptor = Some \<lparr>enc_keyID = ''k1'', enc_aead = Some ex_aead\<rparr>\<rparr>"

definition ex_setting :: UpsertSystemSettingInput where
  "ex_setting = \<lparr>usi_Key = ''smtp'', usi_Value = ''hunter2'', usi_ValueType = [], usi_IsEncrypted = True,
     usi_Description = ''mail'', usi_UpdatedBy = None\<rparr>"

lemma ex_setting_fits: "fitting ex_pg (new_setting (ae_lib ex_auth_env) ex_setting raw t)"
proof -
  have "TrimSpace ''smtp'' = ''smtp''" "TrimSpace (ToLower (lower_uni (ae_lib ex_auth_env)) []) = []"
    by (simp_all add: TrimSpace_plain) code_simp
  then show ?thesis
    by (simp add: fitting_def new_setting_def ex_setting_def ex_pg_def normalizeSettingValueType_def)
qed

theorem encrypted_setting_round_trip_witness:
  "\<exists>d d' w'. run_state (UpsertSetting ex_settings ex_setting) init_world = (Inr d, w') \<and>
    run_state (GetSettingByKey ex_settings ''smtp'') w' = (Inr d', w') \<and> ssd_Value d' = ''hunter2''"
proof -
  have "TrimSpace ''smtp'' = ''smtp''" by (simp add: TrimSpace_plain)
  then show ?thesis
    using encrypted_setting_round_trip [of init_world ex_settings "\<lparr>enc_keyID = ''k1'', enc_aead = Some ex_aead\<rparr>"
        ex_aead ex_setting] ex_crypto_ok ex_aead_ok ex_setting_fits
    by (auto simp: ex_settings_def ex_setting_def init_world_def isASCII_def split: prod.splits)
qed

text \<open>
  C29. A value that is read from an encrypted row was sealed under the configured key, whatever
  stands in the table, whoever wrote it, and whichever calls fail: the nonce and the ciphertext in
  the row are those of a sealing of exactly this value.
\<close>

theorem encrypted_setting_authentic:
  assumes "sss_encryptor s = Some e" "enc_aead e = Some a" "aead_ok a"
    and "run_state (GetSettingByKey s key) w = (Inr d, w')" "ssd_IsEncrypted d"
  shows "\<exists>row payload nonce. find_setting (TrimSpace key) (tbl w') = Some row \<and>
    Option.bind (cr_Unmarshal (sss_crypto s) (setting_Value row)) decode_encrypted = Some payload \<and>
    b64_decode b64_std False (ep_Nonce payload) = Some nonce \<and>
    b64_decode b64_std False (ep_Ciphertext payload) = Some (Seal a nonce (ssd_Value d))"
proof -
  obtain x w1 where e: "enter w = (x, w1)" by fastforce
  have "x = None" and w': "w' = w1" and "\<exists>row. find_setting (TrimSpace key) (tbl w1) = Some row \<and>
      Decrypt (sss_crypto s) (Some e) (setting_Value row) = Inr (ssd_Value d)"
    using assms(1,4,5)
    by (auto simp: GetSettingByKey_def call_as_def settingRepo_GetByKey_def dbcall_def e Let_def mapSystemSetting_def
        split: if_splits option.splits sum.splits)
  then obtain row where row: "find_setting (TrimSpace key) (tbl w1) = Some row"
      "Decrypt (sss_crypto s) (Some e) (setting_Value row) = Inr (ssd_Value d)" by blast
  from decrypted_was_sealed [OF assms(3,2) row(2)] row(1) w' show ?thesis by blast
qed

definition ex_stored :: SystemSetting where
  "ex_stored = \<lparr>setting_ID = 1, setting_Key = ''smtp'',
     setting_Value = ex_written (sealed_payload ''k1'' ex_aead (replicate 12 (CHR ''n'')) ''hunter2''),
     setting_ValueType = ''string'', setting_IsEncrypted = True, setting_Description = [],
     setting_UpdatedBy = None, setting_CreatedAt = 0, setting_UpdatedAt = 0\<rparr>"

lemma ex_stored_decrypts: "Decrypt ex_crypto (sss_encryptor ex_settings) (setting_Value ex_stored) = Inr ''hunter2''"
proof -
  let ?p = "sealed_payload ''k1'' ex_aead (replicate 12 (CHR ''n'')) ''hunter2''"
  have "cr_Unmarshal ex_crypto (setting_Value ex_stored) = Some (payload_json ?p)"
    by (simp add: ex_crypto_def ex_stored_def ex_read_written)
  then have "Decrypt ex_crypto (Some \<lparr>enc_keyID = ''k1'', enc_aead = Some ex_aead\<rparr>) (setting_Value ex_stored) = Inr ''hunter2''"
    by (intro decrypt_sealed [OF ex_crypto_ok _ ex_aead_ok]) (simp_all add: encryptionNonceBytes_def)
  then show ?thesis by (simp add: ex_settings_def)
qed

theorem encrypted_setting_authentic_witness:
  "\<exists>payload nonce. Option.bind (ex_Unmarshal (setting_Value ex_stored)) decode_encrypted = Some payload \<and>
    b64_decode b64_std False (ep_Nonce payload) = Some nonce \<and>
    b64_decode b64_std False (ep_Ciphertext payload) = Some (Seal ex_aead nonce ''hunter2'')"
proof -
  have key: "TrimSpace ''smtp'' = ''smtp''" by (simp add: TrimSpace_plain)
  let ?w = "init_world\<lparr>tbl := empty_tables\<lparr>system_settings := [ex_stored]\<rparr>\<rparr>"
  have found: "find_setting ''smtp'' (tbl ?w) = Some ex_stored"
    by (simp add: find_setting_def ex_stored_def)
  have "run_state (GetSettingByKey ex_settings ''smtp'') ?w =
      (Inr (mapSystemSetting (ex_stored\<lparr>setting_Value := ''hunter2''\<rparr>)), ?w)"
    using ex_stored_decrypts found by (intro run_get_setting)
      (simp_all add: key ex_settings_def init_world_def ex_stored_def)
  then show ?thesis
    using encrypted_setting_authentic [of ex_settings "\<lparr>enc_keyID = ''k1'', enc_aead = Some ex_aead\<rparr>" ex_aead
        "''smtp''" ?w] found ex_aead_ok
    by (auto simp: key ex_settings_def mapSystemSetting_def ex_stored_def ex_crypto_def)
qed

end
