(* ===== verification/MetricsSet.thy ===== *)
theory MetricsSet
  imports World
begin

text \<open>
  \<^verbatim>\<open>internal/metrics/metrics.go\<close>: the metrics of the backend and their series. A vector of
  \<^verbatim>\<open>prometheus\<close> has its label names; \<^verbatim>\<open>WithLabelValues\<close> panics on another number of values and
  otherwise makes the series if there is none. Histograms keep here what was observed, in
  nanoseconds; gauges the integer that is converted to \<^verbatim>\<open>float64\<close>.
\<close>

section \<open>Vectors\<close>

record 'a vec =
  vec_labels :: "string list"
  vec_series :: "string list \<rightharpoonup> 'a"

definition new_vec :: "string list \<Rightarrow> 'a vec" where
  "new_vec names = \<lparr>vec_labels = names, vec_series = Map.empty\<rparr>"

text \<open>\<open>WithLabelValues\<close> and a change of the series; \<^const>\<open>None\<close> is the panic.\<close>

definition with_labels :: "'a \<Rightarrow> ('a \<Rightarrow> 'a) \<Rightarrow> string list \<Rightarrow> 'a vec \<Rightarrow> 'a vec option" where
  "with_labels zero f values v =
     (if length values \<noteq> length (vec_labels v) then None
      else Some (v\<lparr>vec_series := (vec_series v)(values \<mapsto>
        f (case vec_series v values of None \<Rightarrow> zero | Some x \<Rightarrow> x))\<rparr>))"

definition counter_add :: "int \<Rightarrow> string list \<Rightarrow> int vec \<Rightarrow> int vec option" where
  "counter_add n = with_labels 0 (\<lambda>x. x + n)"

definition histogram_observe :: "duration \<Rightarrow> string list \<Rightarrow> duration list vec \<Rightarrow> duration list vec option" where
  "histogram_observe d = with_labels [] (\<lambda>x. x @ [d])"

section \<open>The set\<close>

record metrics_Set =
  HTTPRequestsTotal :: "int vec"
  HTTPRequestDuration :: "duration list vec"
  HTTPRequestsInFlight :: int
  AgentRequestsTotal :: "int vec"
  AgentRequestDuration :: "duration list vec"
  gauge_TaskQueueDepth :: int
  gauge_TasksRunning :: int
  TasksCompletedTotal :: "int vec"
  TaskDuration :: "duration list vec"
  TaskWorkerClaims :: "int vec"

text \<open>The series that exist from the start: \<open>Add(0)\<close>, and a look-up of the histogram.\<close>

fun add_zeros :: "string list list \<Rightarrow> int vec \<Rightarrow> int vec option" where
  "add_zeros [] v = Some v"
| "add_zeros (l # ls) v = Option.bind (counter_add 0 l v) (add_zeros ls)"

fun touch_all :: "string list list \<Rightarrow> duration list vec \<Rightarrow> duration list vec option" where
  "touch_all [] v = Some v"
| "touch_all (l # ls) v = Option.bind (with_labels [] id l v) (touch_all ls)"

definition task_series :: "string list list" where
  "task_series = concat (map (\<lambda>taskType. map (\<lambda>status. [taskType, status]) [''success'', ''failed'', ''canceled''])
     [''docker_restart'', ''service_restart''])"

definition initTaskMetricSeries :: "metrics_Set \<Rightarrow> metrics_Set option" where
  "initTaskMetricSeries s =
     Option.bind (add_zeros [[''success''], [''empty''], [''error'']] (TaskWorkerClaims s)) (\<lambda>claims.
     Option.bind (add_zeros task_series (TasksCompletedTotal s)) (\<lambda>completed.
     Option.bind (touch_all task_series (TaskDuration s)) (\<lambda>durations.
     Some (s\<lparr>TaskWorkerClaims := claims, TasksCompletedTotal := completed, TaskDuration := durations\<rparr>))))"

definition metrics_New :: "metrics_Set option" where
  "metrics_New = initTaskMetricSeries
     \<lparr>HTTPRequestsTotal = new_vec [''method'', ''route'', ''status''],
      HTTPRequestDuration = new_vec [''method'', ''route''], HTTPRequestsInFlight = 0,
      AgentRequestsTotal = new_vec [''rpc'', ''outcome'', ''transport''],
      AgentRequestDuration = new_vec [''rpc'', ''outcome'', ''transport''],
      gauge_TaskQueueDepth = 0, gauge_TasksRunning = 0,
      TasksCompletedTotal = new_vec [''type'', ''status''], TaskDuration = new_vec [''type'', ''status''],
      TaskWorkerClaims = new_vec [''outcome'']\<rparr>"

text \<open>\<open>taskDurationBuckets\<close>, in nanoseconds; the library panics unless they increase.\<close>

definition taskDurationBuckets :: "duration list" where
  "taskDurationBuckets = [100 * Millisecond, 500 * Millisecond, Second, 2500 * Millisecond, 5 * Second,
     10 * Second, 30 * Second, 60 * Second, 120 * Second, 300 * Second]"

section \<open>Observations\<close>

definition ObserveHTTPRequest ::
  "string \<Rightarrow> string \<Rightarrow> int \<Rightarrow> duration \<Rightarrow> metrics_Set \<Rightarrow> metrics_Set option" where
  "ObserveHTTPRequest reqMethod route statusCode d s =
     Option.bind (counter_add 1 [reqMethod, route, itoa statusCode] (HTTPRequestsTotal s)) (\<lambda>total.
     Option.bind (histogram_observe d [reqMethod, route] (HTTPRequestDuration s)) (\<lambda>durations.
     Some (s\<lparr>HTTPRequestsTotal := total, HTTPRequestDuration := durations\<rparr>)))"

definition ObserveAgentRequest ::
  "string \<Rightarrow> bool \<Rightarrow> bool \<Rightarrow> duration \<Rightarrow> metrics_Set \<Rightarrow> metrics_Set option" where
  "ObserveAgentRequest rpc transport failed d s =
     (let values = [if rpc = [] then ''unknown'' else rpc, if failed then ''error'' else ''success'',
            if transport then ''true'' else ''false'']
      in Option.bind (counter_add 1 values (AgentRequestsTotal s)) (\<lambda>total.
         Option.bind (histogram_observe d values (AgentRequestDuration s)) (\<lambda>durations.
         Some (s\<lparr>AgentRequestsTotal := total, AgentRequestDuration := durations\<rparr>))))"

definition SetTaskQueueDepth :: "int \<Rightarrow> metrics_Set \<Rightarrow> metrics_Set option" where
  "SetTaskQueueDepth n s = Some (s\<lparr>gauge_TaskQueueDepth := n\<rparr>)"

definition SetTasksRunning :: "int \<Rightarrow> metrics_Set \<Rightarrow> metrics_Set option" where
  "SetTasksRunning n s = Some (s\<lparr>gauge_TasksRunning := n\<rparr>)"

definition ObserveTaskCompleted :: "string \<Rightarrow> string \<Rightarrow> duration \<Rightarrow> metrics_Set \<Rightarrow> metrics_Set option" where
  "ObserveTaskCompleted taskType status d s =
     (let values = [if taskType = [] then ''unknown'' else taskType, if status = [] then ''unknown'' else status]
      in Option.bind (counter_add 1 values (TasksCompletedTotal s)) (\<lambda>total.
         Option.bind (histogram_observe d values (TaskDuration s)) (\<lambda>durations.
         Some (s\<lparr>TasksCompletedTotal := total, TaskDuration := durations\<rparr>))))"

definition ObserveTaskWorkerClaim :: "string \<Rightarrow> metrics_Set \<Rightarrow> metrics_Set option" where
  "ObserveTaskWorkerClaim outcome s =
     Option.bind (counter_add 1 [if outcome = [] then ''unknown'' else outcome] (TaskWorkerClaims s)) (\<lambda>claims.
     Some (s\<lparr>TaskWorkerClaims := claims\<rparr>))"

text \<open>
  What the services observe, in the order of the world's log. A request to the agent is logged
  there without its latency, which is \<open>latency\<close> here.
\<close>

fun observe_on :: "duration \<Rightarrow> metric \<Rightarrow> metrics_Set \<Rightarrow> metrics_Set option" where
  "observe_on latency (TaskWorkerClaim outcome) s = ObserveTaskWorkerClaim outcome s"
| "observe_on latency (TaskCompleted taskType status d) s = ObserveTaskCompleted taskType status d s"
| "observe_on latency (TaskQueueDepth n) s = SetTaskQueueDepth n s"
| "observe_on latency (TasksRunning n) s = SetTasksRunning n s"
| "observe_on latency (AgentRequest rpc transport failed) s = ObserveAgentRequest rpc transport failed latency s"

fun observed :: "(duration \<times> metric) list \<Rightarrow> metrics_Set \<Rightarrow> metrics_Set option" where
  "observed [] s = Some s"
| "observed ((latency, m) # ms) s = Option.bind (observe_on latency m s) (observed ms)"

section \<open>No observation panics\<close>

text \<open>The label names are those with which the set is made, so the numbers of values fit.\<close>

definition declared :: "metrics_Set \<Rightarrow> bool" where
  "declared s = (length (vec_labels (HTTPRequestsTotal s)) = 3 \<and> length (vec_labels (HTTPRequestDuration s)) = 2 \<and>
     length (vec_labels (AgentRequestsTotal s)) = 3 \<and> length (vec_labels (AgentRequestDuration s)) = 3 \<and>
     length (vec_labels (TasksCompletedTotal s)) = 2 \<and> length (vec_labels (TaskDuration s)) = 2 \<and>
     length (vec_labels (TaskWorkerClaims s)) = 1)"

lemma with_labels_total:
  "length values = length (vec_labels v) \<Longrightarrow>
    \<exists>v'. with_labels zero f values v = Some v' \<and> vec_labels v' = vec_labels v \<and>
      vec_series v' values = Some (f (case vec_series v values of None \<Rightarrow> zero | Some x \<Rightarrow> x)) \<and>
      (\<forall>l. l \<noteq> values \<longrightarrow> vec_series v' l = vec_series v l)"
  by (simp add: with_labels_def)

definition series :: "int vec \<Rightarrow> string list \<Rightarrow> int" where
  "series v l = (case vec_series v l of None \<Rightarrow> 0 | Some n \<Rightarrow> n)"

lemma ObserveHTTPRequest_total:
  assumes "declared s"
  shows "\<exists>s'. ObserveHTTPRequest reqMethod route status d s = Some s' \<and> declared s' \<and>
    HTTPRequestsInFlight s' = HTTPRequestsInFlight s \<and>
    series (HTTPRequestsTotal s') = (series (HTTPRequestsTotal s))
      ([reqMethod, route, itoa status] := series (HTTPRequestsTotal s) [reqMethod, route, itoa status] + 1)"
  using assms
  by (auto simp: ObserveHTTPRequest_def counter_add_def histogram_observe_def with_labels_def declared_def
      series_def fun_eq_iff split: option.split)

lemma observe_on_total:
  assumes "declared s"
  shows "\<exists>s'. observe_on latency m s = Some s' \<and> declared s' \<and>
    HTTPRequestsInFlight s' = HTTPRequestsInFlight s \<and> HTTPRequestsTotal s' = HTTPRequestsTotal s"
  using assms
  by (cases m) (auto simp: ObserveTaskWorkerClaim_def ObserveTaskCompleted_def SetTaskQueueDepth_def
      SetTasksRunning_def ObserveAgentRequest_def counter_add_def histogram_observe_def with_labels_def declared_def
      Let_def)

lemma observed_total: "declared s \<Longrightarrow> \<exists>s'. observed ms s = Some s' \<and> declared s' \<and>
    HTTPRequestsInFlight s' = HTTPRequestsInFlight s \<and> HTTPRequestsTotal s' = HTTPRequestsTotal s"
proof (induction ms arbitrary: s)
  case (Cons x ms)
  obtain latency m where x: "x = (latency, m)" by fastforce
  from observe_on_total [OF Cons.prems, of latency m] obtain s1 where
    s1: "observe_on latency m s = Some s1" "declared s1"
      "HTTPRequestsInFlight s1 = HTTPRequestsInFlight s" "HTTPRequestsTotal s1 = HTTPRequestsTotal s" by blast
  with Cons.IH [OF s1(2)] show ?case by (simp add: x)
qed simp

lemma metrics_New_declared: "\<exists>s. metrics_New = Some s \<and> declared s"
  by (simp add: metrics_New_def initTaskMetricSeries_def task_series_def counter_add_def with_labels_def
      new_vec_def declared_def)

lemma taskDurationBuckets_increase: "sorted_wrt (<) taskDurationBuckets"
  by (simp add: taskDurationBuckets_def duration_defs)

end
