(* ===== verification/HttpServer.thy ===== *)
theory HttpServer
  imports HandlerBase HttpAuth MetricsSet
begin

text \<open>
  What surrounds the handlers: the middleware of \<^verbatim>\<open>internal/middleware\<close> (\<^verbatim>\<open>cors.go\<close>,
  \<^verbatim>\<open>tracing.go\<close>, \<^verbatim>\<open>recover.go\<close>, \<^verbatim>\<open>metrics.go\<close>, \<^verbatim>\<open>access_log.go\<close>, and the gates of \<^theory_text>\<open>HttpAuth\<close>)
  and the order in which \<^verbatim>\<open>NewRouter\<close> puts it together. A middleware gets the rest of the
  chain (\<^verbatim>\<open>c.Next()\<close>) as a function, so that a panic passes through it as it does in the code.
  Matching a request to a route is the framework's: the request carries its result.
\<close>

section \<open>Requests, responses, servers\<close>

datatype 'c gin_match = Matched 'c | Redirected int | Unmatched

text \<open>Header names are in the canonical form of \<^verbatim>\<open>net/http\<close>, a missing header is empty.\<close>

record 'c http_request =
  req_Method :: string
  req_Path :: string
  req_Query :: string
  req_Header :: "string \<Rightarrow> string"
  req_ClientIP :: string
  req_Match :: "'c gin_match"

datatype answer = JSON int int string | Streamed int  \<comment> \<open>status, code, message; status\<close>

record exchange =
  xc_ctx :: gin_ctx
  xc_span :: "(string \<times> string) option"  \<comment> \<open>trace id and span id\<close>
  xc_attributes :: "(string \<times> string) list"
  xc_span_error :: "string option"  \<comment> \<open>recorded in the span, and its status\<close>
  xc_header :: "string \<rightharpoonup> string"
  xc_status :: int
  xc_written :: bool
  xc_body :: "answer list"

record access_line =
  al_RequestID :: string
  al_TraceID :: string
  al_SpanID :: string
  al_Status :: int
  al_Method :: string
  al_Path :: string
  al_Query :: string
  al_IP :: string
  al_Latency :: duration
  al_UserAgent :: string

record 'g server =
  srv_world :: world
  srv_guard :: 'g
  srv_metrics :: metrics_Set
  srv_access :: "access_line list"
  srv_panics :: "string list"  \<comment> \<open>logged by the recovery\<close>

text \<open>A chain ends, if it does, by returning or by a panic with a value.\<close>

type_synonym 'g chain = "exchange \<Rightarrow> 'g server \<Rightarrow> (string option \<times> exchange \<times> 'g server) option"

definition set_header :: "string \<Rightarrow> string \<Rightarrow> exchange \<Rightarrow> exchange" where
  "set_header k v x = x\<lparr>xc_header := (xc_header x)(k \<mapsto> v)\<rparr>"

text \<open>\<^verbatim>\<open>c.JSON\<close> and the like: the first answer decides the status, a later one is appended.\<close>

definition write_answer :: "answer \<Rightarrow> exchange \<Rightarrow> exchange" where
  "write_answer a x =
     x\<lparr>xc_status := (if xc_written x then xc_status x else (case a of JSON st c m \<Rightarrow> st | Streamed st \<Rightarrow> st)),
       xc_written := True, xc_body := xc_body x @ [a]\<rparr>"

section \<open>Middleware\<close>

definition defaultCORSAllowMethods :: string where
  "defaultCORSAllowMethods = ''GET, POST, PUT, PATCH, DELETE, OPTIONS''"

definition defaultCORSAllowHeaders :: string where
  "defaultCORSAllowHeaders = ''Authorization, Content-Type, X-Requested-With, X-Request-Id''"

definition defaultCORSExposeHeaders :: string where "defaultCORSExposeHeaders = ''X-Request-Id''"

definition defaultCORSMaxAge :: string where "defaultCORSMaxAge = ''600''"

definition cors_headers :: "(string \<Rightarrow> string) \<Rightarrow> exchange \<Rightarrow> exchange" where
  "cors_headers header x0 =
     (let origin = TrimSpace (header ''Origin'') in
      if origin = [] then x0
      else let x = set_header ''Access-Control-Max-Age'' defaultCORSMaxAge
             (set_header ''Access-Control-Expose-Headers'' defaultCORSExposeHeaders
             (set_header ''Access-Control-Allow-Methods'' defaultCORSAllowMethods
             (set_header ''Vary'' ''Origin''
             (set_header ''Access-Control-Allow-Origin'' origin x0))));
             requestHeaders = TrimSpace (header ''Access-Control-Request-Headers'')
           in if requestHeaders \<noteq> []
              then set_header ''Vary'' ''Origin, Access-Control-Request-Headers''
                (set_header ''Access-Control-Allow-Headers'' requestHeaders x)
              else set_header ''Access-Control-Allow-Headers'' defaultCORSAllowHeaders x)"

definition CORS :: "'c http_request \<Rightarrow> 'g chain \<Rightarrow> 'g chain" where
  "CORS req nxt x0 s =
     (let x = cors_headers (req_Header req) x0 in
      if req_Method req = ''OPTIONS'' then Some (None, x\<lparr>xc_status := 204, xc_written := True\<rparr>, s)
      else nxt x s)"

text \<open>\<^verbatim>\<open>RequestID\<close> (\<^theory_text>\<open>HandlerBase\<close>) in the chain; a fresh id is a read of the system's randomness.\<close>

definition RequestID_mw :: "(nat \<Rightarrow> string) \<Rightarrow> 'c http_request \<Rightarrow> 'g chain \<Rightarrow> 'g chain" where
  "RequestID_mw uuid req nxt x s =
     (let given = req_Header req ''X-Request-Id''; fresh = uuid (drawn (srv_world s));
          s' = (if given = [] then s\<lparr>srv_world := (srv_world s)\<lparr>drawn := drawn (srv_world s) + 1\<rparr>\<rparr> else s);
          x' = x\<lparr>xc_ctx := RequestID given fresh (xc_ctx x)\<rparr>
      in nxt (set_header ''X-Request-Id'' (if given = [] then fresh else given) x') s')"

text \<open>
  \<^verbatim>\<open>otelgin.Middleware\<close> is a library: \<open>otel\<close> is the span it puts into the request's context, of
  the service with the given name, if the span is valid.
\<close>

definition otelgin ::
  "(string \<Rightarrow> 'c http_request \<Rightarrow> (string \<times> string) option) \<Rightarrow> string \<Rightarrow> 'c http_request \<Rightarrow> 'g chain \<Rightarrow> 'g chain" where
  "otelgin otel serviceName req nxt x =
     nxt (x\<lparr>xc_span := otel serviceName req,
       xc_ctx := (xc_ctx x)\<lparr>gc_TraceID := map_option fst (otel serviceName req)\<rparr>\<rparr>)"

definition TraceRequestFields :: "'g chain \<Rightarrow> 'g chain" where
  "TraceRequestFields nxt x = nxt (x\<lparr>xc_attributes := xc_attributes x @
     (case gc_RequestID (xc_ctx x) of
        None \<Rightarrow> [] | Some requestID \<Rightarrow> [(''snowpanel.request_id'', requestID)])\<rparr>)"

definition Recover :: "'g chain \<Rightarrow> 'g chain" where
  "Recover nxt x s = (case nxt x s of
       Some (Some p, x', s') \<Rightarrow>
         Some (None, write_answer (JSON 500 1000 ''internal server error'')
             (x'\<lparr>xc_span_error := Some (''panic: '' @ p)\<rparr>),
           s'\<lparr>srv_panics := srv_panics s' @ [p]\<rparr>)
     | r \<Rightarrow> r)"

definition Metrics :: "string \<Rightarrow> 'c http_request \<Rightarrow> 'g chain \<Rightarrow> 'g chain" where
  "Metrics fullPath req nxt x s =
     (let inc = (\<lambda>n s. s\<lparr>srv_metrics := (srv_metrics s)
            \<lparr>HTTPRequestsInFlight := HTTPRequestsInFlight (srv_metrics s) + n\<rparr>\<rparr>);
          startedAt = clock (srv_world s)
      in case nxt x (inc 1 s) of
        None \<Rightarrow> None
      | Some (Some p, x', s') \<Rightarrow> Some (Some p, x', inc (-1) s')
      | Some (None, x', s') \<Rightarrow>
          (let route = (if fullPath = [] then ''unmatched'' else fullPath) in
           case ObserveHTTPRequest (req_Method req) route (xc_status x') (clock (srv_world s') - startedAt)
               (srv_metrics s') of
             None \<Rightarrow> Some (Some ''inconsistent label cardinality'', x', inc (-1) s')
           | Some m \<Rightarrow> Some (None, x', inc (-1) (s'\<lparr>srv_metrics := m\<rparr>))))"

definition toString :: "string option \<Rightarrow> string" where
  "toString v = (case v of None \<Rightarrow> [] | Some t \<Rightarrow> t)"

definition AccessLog :: "'c http_request \<Rightarrow> 'g chain \<Rightarrow> 'g chain" where
  "AccessLog req nxt x s = (case nxt x s of
       Some (None, x', s') \<Rightarrow> Some (None, x', s'\<lparr>srv_access := srv_access s' @
         [\<lparr>al_RequestID = toString (gc_RequestID (xc_ctx x')), al_TraceID = toString (map_option fst (xc_span x')),
           al_SpanID = toString (map_option snd (xc_span x')), al_Status = xc_status x', al_Method = req_Method req,
           al_Path = req_Path req, al_Query = req_Query req, al_IP = req_ClientIP req,
           al_Latency = clock (srv_world s') - clock (srv_world s),
           al_UserAgent = req_Header req ''User-Agent''\<rparr>]\<rparr>)
     | r \<Rightarrow> r)"

text \<open>The gates as middleware: an aborted chain has its answer, the rest of it is not run.\<close>

definition gate_mw :: "(gin_keys \<Rightarrow> (world, gin_keys gate) state) \<Rightarrow> 'g chain \<Rightarrow> 'g chain" where
  "gate_mw gate nxt x s = (case run_state (gate (gc_keys (xc_ctx x))) (srv_world s) of
       (Abort status c message, w) \<Rightarrow> Some (None, write_answer (JSON status c message) x, s\<lparr>srv_world := w\<rparr>)
     | (Continue keys, w) \<Rightarrow> nxt (x\<lparr>xc_ctx := (xc_ctx x)\<lparr>gc_keys := keys\<rparr>\<rparr>) (s\<lparr>srv_world := w\<rparr>))"

section \<open>The router\<close>

text \<open>What a handler does: an answer, or a panic; \<^const>\<open>None\<close> is a handler that never returns.\<close>

datatype handled = Wrote answer | Panicked string

type_synonym 'g endpoint = "gin_ctx \<Rightarrow> 'g \<Rightarrow> world \<Rightarrow> ((handled \<times> 'g) \<times> world) option"

definition run_endpoint :: "'g endpoint \<Rightarrow> 'g chain" where
  "run_endpoint h x s = (case h (xc_ctx x) (srv_guard s) (srv_world s) of
       None \<Rightarrow> None
     | Some ((Wrote a, g), w) \<Rightarrow> Some (None, write_answer a x, s\<lparr>srv_world := w, srv_guard := g\<rparr>)
     | Some ((Panicked p, g), w) \<Rightarrow> Some (Some p, x, s\<lparr>srv_world := w, srv_guard := g\<rparr>))"

definition guarded :: "authService \<Rightarrow> access \<Rightarrow> 'c http_request \<Rightarrow> 'g endpoint \<Rightarrow> 'g chain" where
  "guarded auth a req h =
     (let signed_in = gate_mw (\<lambda>_. JWTAuth auth (req_Header req ''Authorization'') (req_Path req)) in
      case a of
        Public \<Rightarrow> run_endpoint h
      | SignedIn \<Rightarrow> signed_in (run_endpoint h)
      | Needs permission \<Rightarrow>
          signed_in (gate_mw (\<lambda>keys. ret (RequirePermission permission keys)) (run_endpoint h)))"

definition NoRoute :: "'g chain" where
  "NoRoute x s = Some (None, write_answer (JSON 404 1004 ''not found'') x, s)"

record 'c router_settings =
  rs_auth :: authService
  rs_TracingEnabled :: bool
  rs_TracingSvcName :: string
  rs_otel :: "string \<Rightarrow> 'c http_request \<Rightarrow> (string \<times> string) option"
  rs_uuid :: "nat \<Rightarrow> string"

definition tracing_mw :: "'c router_settings \<Rightarrow> 'c http_request \<Rightarrow> 'g chain \<Rightarrow> 'g chain" where
  "tracing_mw rs req nxt =
     (if rs_TracingEnabled rs
      then let serviceName = (if TrimSpace (rs_TracingSvcName rs) = [] then ''snowpanel-backend''
                 else TrimSpace (rs_TracingSvcName rs))
           in otelgin (rs_otel rs) serviceName req (TraceRequestFields nxt)
      else nxt)"

text \<open>\<^verbatim>\<open>router.Use\<close>: the middleware of every request that the framework does not redirect.\<close>

definition global_mw :: "'c router_settings \<Rightarrow> string \<Rightarrow> 'c http_request \<Rightarrow> 'g chain \<Rightarrow> 'g chain" where
  "global_mw rs fullPath req nxt =
     CORS req (RequestID_mw (rs_uuid rs) req (tracing_mw rs req
       (Recover (Metrics fullPath req (AccessLog req nxt)))))"

definition new_exchange :: "string \<Rightarrow> int \<Rightarrow> exchange" where
  "new_exchange clientIP status =
     \<lparr>xc_ctx = \<lparr>gc_keys = no_keys, gc_ClientIP = clientIP, gc_RequestID = None, gc_TraceID = None\<rparr>,
      xc_span = None, xc_attributes = [], xc_span_error = None, xc_header = Map.empty, xc_status = status, xc_written = False,
      xc_body = []\<rparr>"

text \<open>
  The service of a request. \<open>route_of\<close> gives the path and access of the route that was matched
  and \<open>h\<close> its handler; a redirect is answered before any middleware.
\<close>

definition ServeHTTP ::
  "'c router_settings \<Rightarrow> ('c \<Rightarrow> route) \<Rightarrow> ('c \<Rightarrow> 'g endpoint) \<Rightarrow> 'c http_request \<Rightarrow> 'g server \<Rightarrow>
    (string option \<times> exchange \<times> 'g server) option" where
  "ServeHTTP rs route_of h req s = (case req_Match req of
       Redirected status \<Rightarrow>
         Some (None, (new_exchange (req_ClientIP req) status)\<lparr>xc_written := True\<rparr>, s)
     | Unmatched \<Rightarrow> global_mw rs [] req NoRoute (new_exchange (req_ClientIP req) 404) s
     | Matched c \<Rightarrow> global_mw rs (rt_path (route_of c)) req
         (guarded (rs_auth rs) (rt_access (route_of c)) req (h c)) (new_exchange (req_ClientIP req) 200) s)"

section \<open>The gates in the chain are the gates of the route\<close>

lemma keep_keys: "gc_keys (xc_ctx x) = k \<Longrightarrow> x\<lparr>xc_ctx := (xc_ctx x)\<lparr>gc_keys := k\<rparr>\<rparr> = x"
  by (cases x; cases "xc_ctx x") simp

lemma guarded_Abort:
  assumes "run_state (admit auth a (req_Header req ''Authorization'') (req_Path req)) (srv_world s) = (Abort status c message, w)"
  shows "\<exists>keys. guarded auth a req h x s =
    Some (None, write_answer (JSON status c message) (x\<lparr>xc_ctx := (xc_ctx x)\<lparr>gc_keys := keys\<rparr>\<rparr>), s\<lparr>srv_world := w\<rparr>)"
proof (cases a)
  case SignedIn
  have "x\<lparr>xc_ctx := (xc_ctx x)\<lparr>gc_keys := gc_keys (xc_ctx x)\<rparr>\<rparr> = x" by (rule keep_keys) simp
  with SignedIn assms show ?thesis
    by (intro exI [of _ "gc_keys (xc_ctx x)"]) (simp add: guarded_def admit_def gate_mw_def)
next
  case (Needs p)
  obtain g v where j: "run_state (JWTAuth auth (req_Header req ''Authorization'') (req_Path req)) (srv_world s) = (g, v)"
    by fastforce
  have id: "x\<lparr>xc_ctx := (xc_ctx x)\<lparr>gc_keys := gc_keys (xc_ctx x)\<rparr>\<rparr> = x" by (rule keep_keys) simp
  show ?thesis
  proof (cases g)
    case (Abort st c' m)
    with Needs assms j id show ?thesis
      by (intro exI [of _ "gc_keys (xc_ctx x)"]) (simp add: guarded_def admit_def gate_mw_def)
  next
    case (Continue k)
    with Needs assms j show ?thesis
      by (intro exI [of _ k]) (simp add: guarded_def admit_def gate_mw_def)
  qed
qed (use assms in \<open>simp add: admit_def\<close>)

lemma guarded_Continue:
  assumes "run_state (admit auth a (req_Header req ''Authorization'') (req_Path req)) (srv_world s) = (Continue keys, w)"
    and "gc_keys (xc_ctx x) = no_keys"
  shows "guarded auth a req h x s =
    run_endpoint h (x\<lparr>xc_ctx := (xc_ctx x)\<lparr>gc_keys := keys\<rparr>\<rparr>) (s\<lparr>srv_world := w\<rparr>)"
proof (cases a)
  case Public
  then have k: "keys = no_keys" "w = srv_world s" using assms(1) by (auto simp: admit_def)
  show ?thesis using Public unfolding k keep_keys [OF assms(2)] by (simp add: guarded_def)
qed (use assms in \<open>auto simp: guarded_def admit_def gate_mw_def RequirePermission_def abort_with_def
      split: prod.splits gate.splits if_splits\<close>)

end
