(* ===== verification/ApiDispatch.thy ===== *)
theory ApiDispatch
  imports HttpServer FileHandlers AgentHandlers TaskHandlers AuthHandlers
begin

text \<open>
  The handlers behind the routes (\<^verbatim>\<open>NewRouter\<close> in \<^verbatim>\<open>internal/api/router.go\<close>). An \<open>api_call\<close> is a
  request that matched a route, with what the framework decodes for the route's handler:
  path parameters, query and body (\<^const>\<open>None\<close> where it cannot). The streams of downloads,
  uploads and exports have states of one type \<open>'io\<close>.
\<close>

datatype (plugins only: code) 'io api_call =
    Call_Health | Call_Readiness | Call_Prometheus | Call_Ping
  | Call_Login "LoginRequest option" | Call_Refresh "string option"
  | Call_Me | Call_Logout | Call_ChangePassword "ChangePasswordRequest option" | Call_Summary
  | Call_ListFiles "string option"
  | Call_DownloadFile "'io writer" string "DownloadFileQuery option" 'io
  | Call_UploadFile "'io reader" "'io upload_form"
  | Call_ReadTextFile "ReadTextFileRequest option" | Call_WriteTextFile "WriteTextFileRequest option"
  | Call_RenameFile "RenameFileRequest option" | Call_CreateDirectory "CreateDirectoryRequest option"
  | Call_DeleteFile "DeleteFileRequest option"
  | Call_ListServices "string option" | Call_StartService string | Call_StopService string
  | Call_RestartService string
  | Call_ListContainers | Call_StartContainer string | Call_StopContainer string
  | Call_RestartContainer string | Call_ListImages
  | Call_ListCron | Call_CreateCron "CronTaskRequest option" | Call_UpdateCron string "CronTaskRequest option"
  | Call_DeleteCron string | Call_EnableCron string | Call_DisableCron string
  | Call_ListLogs "ListAuditLogsQuery option"
  | Call_ExportLogs "'io exporter" "ListAuditLogsQuery option" string 'io
  | Call_CleanupLogs "AuditRetentionCleanupRequest option"
  | Call_ListTasks "ListTasksQuery option" | Call_GetTaskDetail string
  | Call_CreateDockerRestartTask "CreateDockerRestartTaskRequest option"
  | Call_CreateServiceRestartTask "CreateServiceRestartTaskRequest option"
  | Call_CancelTask string | Call_RetryTask string
  | Call_ListBackups "ListBackupsQuery option" | Call_CreateBackup "CreateBackupMetadataRequest option"
  | Call_CreateBackupTask "CreateBackupTaskRequest option"
  | Call_CleanupBackups "BackupRetentionCleanupRequest option"
  | Call_VerifyBackup string "VerifyBackupRequest option"
  | Call_VerifyBackupTask string "CreateBackupVerifyTaskRequest option option"

text \<open>Method and path under which the router registers the handler.\<close>

primrec endpoint_of :: "'io api_call \<Rightarrow> string \<times> string" where
  "endpoint_of Call_Health = (''GET'', ''/health'')"
| "endpoint_of Call_Readiness = (''GET'', ''/ready'')"
| "endpoint_of Call_Prometheus = (''GET'', ''/metrics'')"
| "endpoint_of Call_Ping = (''GET'', ''/api/v1/ping'')"
| "endpoint_of (Call_Login a) = (''POST'', ''/api/v1/auth/login'')"
| "endpoint_of (Call_Refresh a) = (''POST'', ''/api/v1/auth/refresh'')"
| "endpoint_of Call_Me = (''GET'', ''/api/v1/auth/me'')"
| "endpoint_of Call_Logout = (''POST'', ''/api/v1/auth/logout'')"
| "endpoint_of (Call_ChangePassword a) = (''POST'', ''/api/v1/auth/change-password'')"
| "endpoint_of Call_Summary = (''GET'', ''/api/v1/dashboard/summary'')"
| "endpoint_of (Call_ListFiles a) = (''GET'', ''/api/v1/files/list'')"
| "endpoint_of (Call_DownloadFile a b c d) = (''GET'', ''/api/v1/files/download'')"
| "endpoint_of (Call_UploadFile a b) = (''POST'', ''/api/v1/files/upload'')"
| "endpoint_of (Call_ReadTextFile a) = (''POST'', ''/api/v1/files/read'')"
| "endpoint_of (Call_WriteTextFile a) = (''POST'', ''/api/v1/files/write'')"
| "endpoint_of (Call_RenameFile a) = (''POST'', ''/api/v1/files/rename'')"
| "endpoint_of (Call_CreateDirectory a) = (''POST'', ''/api/v1/files/mkdir'')"
| "endpoint_of (Call_DeleteFile a) = (''DELETE'', ''/api/v1/files/delete'')"
| "endpoint_of (Call_ListServices a) = (''GET'', ''/api/v1/services'')"
| "endpoint_of (Call_StartService a) = (''POST'', ''/api/v1/services/:name/start'')"
| "endpoint_of (Call_StopService a) = (''POST'', ''/api/v1/services/:name/stop'')"
| "endpoint_of (Call_RestartService a) = (''POST'', ''/api/v1/services/:name/restart'')"
| "endpoint_of Call_ListContainers = (''GET'', ''/api/v1/docker/containers'')"
| "endpoint_of (Call_StartContainer a) = (''POST'', ''/api/v1/docker/containers/:id/start'')"
| "endpoint_of (Call_StopContainer a) = (''POST'', ''/api/v1/docker/containers/:id/stop'')"
| "endpoint_of (Call_RestartContainer a) = (''POST'', ''/api/v1/docker/containers/:id/restart'')"
| "endpoint_of Call_ListImages = (''GET'', ''/api/v1/docker/images'')"
| "endpoint_of Call_ListCron = (''GET'', ''/api/v1/cron'')"
| "endpoint_of (Call_CreateCron a) = (''POST'', ''/api/v1/cron'')"
| "endpoint_of (Call_UpdateCron a b) = (''PUT'', ''/api/v1/cron/:id'')"
| "endpoint_of (Call_DeleteCron a) = (''DELETE'', ''/api/v1/cron/:id'')"
| "endpoint_of (Call_EnableCron a) = (''POST'', ''/api/v1/cron/:id/enable'')"
| "endpoint_of (Call_DisableCron a) = (''POST'', ''/api/v1/cron/:id/disable'')"
| "endpoint_of (Call_ListLogs a) = (''GET'', ''/api/v1/audit/logs'')"
| "endpoint_of (Call_ExportLogs a b c d) = (''GET'', ''/api/v1/audit/logs/export'')"
| "endpoint_of (Call_CleanupLogs a) = (''POST'', ''/api/v1/audit/retention/cleanup'')"
| "endpoint_of (Call_ListTasks a) = (''GET'', ''/api/v1/tasks'')"
| "endpoint_of (Call_GetTaskDetail a) = (''GET'', ''/api/v1/tasks/:id'')"
| "endpoint_of (Call_CreateDockerRestartTask a) = (''POST'', ''/api/v1/tasks/docker/restart'')"
| "endpoint_of (Call_CreateServiceRestartTask a) = (''POST'', ''/api/v1/tasks/services/restart'')"
| "endpoint_of (Call_CancelTask a) = (''POST'', ''/api/v1/tasks/:id/cancel'')"
| "endpoint_of (Call_RetryTask a) = (''POST'', ''/api/v1/tasks/:id/retry'')"
| "endpoint_of (Call_ListBackups a) = (''GET'', ''/api/v1/backups'')"
| "endpoint_of (Call_CreateBackup a) = (''POST'', ''/api/v1/backups'')"
| "endpoint_of (Call_CreateBackupTask a) = (''POST'', ''/api/v1/backups/tasks/create'')"
| "endpoint_of (Call_CleanupBackups a) = (''POST'', ''/api/v1/backups/retention/cleanup'')"
| "endpoint_of (Call_VerifyBackup a b) = (''POST'', ''/api/v1/backups/:id/verify'')"
| "endpoint_of (Call_VerifyBackupTask a b) = (''POST'', ''/api/v1/backups/:id/verify-task'')"

definition route_of :: "'io api_call \<Rightarrow> route" where
  "route_of q = (case find (\<lambda>r. (rt_method r, rt_path r) = endpoint_of q) routes of
     Some r \<Rightarrow> r | None \<Rightarrow> rte [] [] Public [])"

text \<open>\<^verbatim>\<open>RouterDeps\<close>, with the libraries the handlers use.\<close>

record 'g RouterDeps =
  dep_lib :: golib
  dep_DetectContentType :: "string \<Rightarrow> string"
  dep_Marshal :: "json \<Rightarrow> string result"
  dep_DB :: "go_error option option"
  dep_AgentClient :: "system_conn option"
  dep_AuthService :: authService
  dep_DashboardService :: system_conn
  dep_FileService :: file_conn
  dep_ServiceManager :: agent_conn
  dep_DockerService :: agent_conn
  dep_CronService :: system_conn
  dep_AuditService :: "auditService option"
  dep_TaskService :: taskService
  dep_BackupService :: backupService
  dep_LoginAttempts :: "'g loginAttemptGuard"
  dep_others :: "'g \<Rightarrow> 'g"  \<comment> \<open>what requests served meanwhile do to the guard\<close>

fun answer_of :: "'a reply \<Rightarrow> answer" where
  "answer_of (OK data) = JSON 200 0 ''ok''"
| "answer_of (Fail status c message) = JSON status c message"

definition handler :: "(world, 'a reply) state \<Rightarrow> 'g endpoint" where
  "handler m c g w = (case run_state m w of (r, w') \<Rightarrow> Some ((Wrote (answer_of r), g), w'))"

text \<open>A handler whose service is a nil interface panics when it calls it.\<close>

definition nil_panic :: string where
  "nil_panic = ''runtime error: invalid memory address or nil pointer dereference''"

text \<open>The handlers as \<^verbatim>\<open>NewRouter\<close> makes and registers them.\<close>

primrec dispatch :: "'g RouterDeps \<Rightarrow> 'io api_call \<Rightarrow> 'g endpoint" where
  "dispatch d Call_Health c =
     handler (HealthHandler_Health (dep_lib d) (dep_DB d) (dep_AgentClient d)) c"
| "dispatch d Call_Readiness c = (\<lambda>g w.
     case run_state (HealthHandler_Readiness (dep_lib d) (dep_DB d) (dep_AgentClient d)) w of
       (((status, code, message), _), w') \<Rightarrow> Some ((Wrote (JSON status code message), g), w'))"
| "dispatch d Call_Prometheus c = (\<lambda>g w. Some ((Wrote (Streamed 200), g), w))"
| "dispatch d Call_Ping c = handler (do { now \<leftarrow> Now; ret (SystemHandler_Ping now) }) c"
| "dispatch d (Call_Login body) c = (\<lambda>g w.
     case run_state (AuthHandler_Login (dep_lib d) (dep_LoginAttempts d) (dep_others d) (dep_AuthService d)
         (dep_AuditService d) c body g) w of
       ((r, g'), w') \<Rightarrow> Some ((Wrote (answer_of r), g'), w'))"
| "dispatch d (Call_Refresh body) c = handler (AuthHandler_Refresh (dep_AuthService d) (dep_AuditService d) c body) c"
| "dispatch d Call_Me c = handler (AuthHandler_Me (dep_AuthService d) c) c"
| "dispatch d Call_Logout c = handler (AuthHandler_Logout (dep_AuthService d) (dep_AuditService d) c) c"
| "dispatch d (Call_ChangePassword body) c =
     handler (AuthHandler_ChangePassword (dep_AuthService d) (dep_AuditService d) c body) c"
| "dispatch d Call_Summary c = handler (DashboardHandler_Summary (dep_DashboardService d)) c"
| "dispatch d (Call_ListFiles q) c = handler (FileHandler_ListFiles (dep_FileService d) (dep_AuditService d) c q) c"
| "dispatch d (Call_DownloadFile writer rangeHeader q out) c = (\<lambda>g w.
     case FileHandler_DownloadFile (dep_lib d) (dep_DetectContentType d) (dep_FileService d) (dep_AuditService d) c
         writer rangeHeader q out w of
       None \<Rightarrow> None
     | Some ((OK headers, _), w') \<Rightarrow> Some ((Wrote (Streamed (dh_status headers)), g), w')
     | Some ((Fail status code message, _), w') \<Rightarrow> Some ((Wrote (JSON status code message), g), w'))"
| "dispatch d (Call_UploadFile Read form) c = (\<lambda>g w.
     case FileHandler_UploadFile (dep_lib d) (dep_FileService d) (dep_AuditService d) c Read form w of
       None \<Rightarrow> None
     | Some (r, w') \<Rightarrow> Some ((Wrote (answer_of r), g), w'))"
| "dispatch d (Call_ReadTextFile b) c = handler (FileHandler_ReadTextFile (dep_FileService d) (dep_AuditService d) c b) c"
| "dispatch d (Call_WriteTextFile b) c = handler (FileHandler_WriteTextFile (dep_FileService d) (dep_AuditService d) c b) c"
| "dispatch d (Call_RenameFile b) c = handler (FileHandler_RenameFile (dep_FileService d) (dep_AuditService d) c b) c"
| "dispatch d (Call_CreateDirectory b) c =
     handler (FileHandler_CreateDirectory (dep_FileService d) (dep_AuditService d) c b) c"
| "dispatch d (Call_DeleteFile b) c = handler (FileHandler_DeleteFile (dep_FileService d) (dep_AuditService d) c b) c"
| "dispatch d (Call_ListServices q) c =
     handler (ServiceHandler_ListServices (dep_ServiceManager d) (dep_AuditService d) c q) c"
| "dispatch d (Call_StartService n) c =
     handler (ServiceHandler_StartService (dep_ServiceManager d) (dep_AuditService d) c n) c"
| "dispatch d (Call_StopService n) c =
     handler (ServiceHandler_StopService (dep_ServiceManager d) (dep_AuditService d) c n) c"
| "dispatch d (Call_RestartService n) c =
     handler (ServiceHandler_RestartService (dep_ServiceManager d) (dep_AuditService d) c n) c"
| "dispatch d Call_ListContainers c =
     handler (DockerHandler_ListContainers (dep_DockerService d) (dep_AuditService d) c) c"
| "dispatch d (Call_StartContainer i) c =
     handler (DockerHandler_StartContainer (dep_DockerService d) (dep_AuditService d) c i) c"
| "dispatch d (Call_StopContainer i) c =
     handler (DockerHandler_StopContainer (dep_DockerService d) (dep_AuditService d) c i) c"
| "dispatch d (Call_RestartContainer i) c =
     handler (DockerHandler_RestartContainer (dep_DockerService d) (dep_AuditService d) c i) c"
| "dispatch d Call_ListImages c = handler (DockerHandler_ListImages (dep_DockerService d) (dep_AuditService d) c) c"
| "dispatch d Call_ListCron c =
     handler (CronHandler_ListTasks (dep_Marshal d) (dep_CronService d) (dep_AuditService d) c) c"
| "dispatch d (Call_CreateCron b) c =
     handler (CronHandler_CreateTask (dep_Marshal d) (dep_CronService d) (dep_AuditService d) c b) c"
| "dispatch d (Call_UpdateCron i b) c =
     handler (CronHandler_UpdateTask (dep_Marshal d) (dep_CronService d) (dep_AuditService d) c i b) c"
| "dispatch d (Call_DeleteCron i) c =
     handler (CronHandler_DeleteTask (dep_Marshal d) (dep_CronService d) (dep_AuditService d) c i) c"
| "dispatch d (Call_EnableCron i) c =
     handler (CronHandler_EnableTask (dep_Marshal d) (dep_CronService d) (dep_AuditService d) c i) c"
| "dispatch d (Call_DisableCron i) c =
     handler (CronHandler_DisableTask (dep_Marshal d) (dep_CronService d) (dep_AuditService d) c i) c"
| "dispatch d (Call_ListLogs q) c = (case dep_AuditService d of
       None \<Rightarrow> (\<lambda>g w. Some ((if q = None then Wrote (answer_of (bad_input ''invalid query params'' :: unit reply))
         else Panicked nil_panic, g), w))
     | Some audits \<Rightarrow> handler (AuditHandler_ListLogs audits q) c)"
| "dispatch d (Call_ExportLogs x q format out) c = (case dep_AuditService d of
       None \<Rightarrow> (\<lambda>g w. Some ((
         let lowered = ToLower (lower_uni (dep_lib d)) (TrimSpace format) in
         if q = None then Wrote (answer_of (bad_input ''invalid query params'' :: unit reply))
         else if lowered \<noteq> [] \<and> lowered \<noteq> ''csv'' \<and> lowered \<noteq> ''jsonl''
         then Wrote (answer_of (bad_input ''unsupported audit export format'' :: unit reply))
         else Panicked nil_panic, g), w))
     | Some audits \<Rightarrow> (\<lambda>g w. case AuditHandler_ExportLogs audits x q format out w of
         None \<Rightarrow> None
       | Some ((OK _, _), w') \<Rightarrow> Some ((Wrote (Streamed 200), g), w')
       | Some ((Fail status code message, _), w') \<Rightarrow> Some ((Wrote (JSON status code message), g), w')))"
| "dispatch d (Call_CleanupLogs b) c = (case dep_AuditService d of
       None \<Rightarrow> (\<lambda>g w. Some ((if b = None then Wrote (answer_of (bad_input ''invalid request body'' :: unit reply))
         else Panicked nil_panic, g), w))
     | Some audits \<Rightarrow> handler (AuditHandler_CleanupRetention audits c b) c)"
| "dispatch d (Call_ListTasks q) c = handler (TaskHandler_ListTasks (dep_TaskService d) q) c"
| "dispatch d (Call_GetTaskDetail i) c = handler (TaskHandler_GetTaskDetail (dep_TaskService d) i) c"
| "dispatch d (Call_CreateDockerRestartTask b) c =
     handler (TaskHandler_CreateDockerRestartTask (dep_TaskService d) (dep_AuditService d) c b) c"
| "dispatch d (Call_CreateServiceRestartTask b) c =
     handler (TaskHandler_CreateServiceRestartTask (dep_TaskService d) (dep_AuditService d) c b) c"
| "dispatch d (Call_CancelTask i) c = handler (TaskHandler_CancelTask (dep_TaskService d) (dep_AuditService d) c i) c"
| "dispatch d (Call_RetryTask i) c = handler (TaskHandler_RetryTask (dep_TaskService d) (dep_AuditService d) c i) c"
| "dispatch d (Call_ListBackups q) c = handler (BackupHandler_ListBackups (dep_BackupService d) q) c"
| "dispatch d (Call_CreateBackup b) c =
     handler (BackupHandler_CreateBackup (dep_lib d) (dep_BackupService d) (dep_AuditService d) c b) c"
| "dispatch d (Call_CreateBackupTask b) c =
     handler (BackupHandler_CreateBackupTask (dep_lib d) (dep_TaskService d) (dep_AuditService d) c b) c"
| "dispatch d (Call_CleanupBackups b) c =
     handler (BackupHandler_CleanupRetention (dep_BackupService d) (dep_AuditService d) c b) c"
| "dispatch d (Call_VerifyBackup i b) c =
     handler (BackupHandler_VerifyBackup (dep_lib d) (dep_BackupService d) (dep_AuditService d) c i b) c"
| "dispatch d (Call_VerifyBackupTask i b) c =
     handler (BackupHandler_VerifyBackupTask (dep_lib d) (dep_TaskService d) (dep_AuditService d) c i b) c"

text \<open>The backend's service of a request.\<close>

definition serve ::
  "'io api_call router_settings \<Rightarrow> 'g RouterDeps \<Rightarrow> 'io api_call http_request \<Rightarrow> 'g server \<Rightarrow>
    (string option \<times> exchange \<times> 'g server) option" where
  "serve rs d req s = ServeHTTP rs route_of (dispatch d) req s"

section \<open>The route of a call\<close>

lemma routes_distinct: "distinct (map (\<lambda>r. (rt_method r, rt_path r)) routes)"
  by code_simp

lemma find_distinct:
  "distinct (map f rs) \<Longrightarrow> r \<in> set rs \<Longrightarrow> find (\<lambda>x. f x = f r) rs = Some r"
  by (induction rs) auto

lemma route_ofI:
  "r \<in> set routes \<Longrightarrow> endpoint_of q = (rt_method r, rt_path r) \<Longrightarrow> route_of q = r"
  using find_distinct [OF routes_distinct, of r] by (simp add: route_of_def)

lemma route_of_simps [simp]:
  "route_of Call_Health = rte ''GET'' ''/health'' Public ''Health''"
  "route_of Call_Readiness = rte ''GET'' ''/ready'' Public ''Readiness''"
  "route_of Call_Prometheus = rte ''GET'' ''/metrics'' Public ''promhttp''"
  "route_of Call_Ping = rte ''GET'' ''/api/v1/ping'' Public ''Ping''"
  "route_of (Call_Login x1) = rte ''POST'' ''/api/v1/auth/login'' Public ''Login''"
  "route_of (Call_Refresh x2) = rte ''POST'' ''/api/v1/auth/refresh'' Public ''Refresh''"
  "route_of Call_Me = rte ''GET'' ''/api/v1/auth/me'' SignedIn ''Me''"
  "route_of Call_Logout = rte ''POST'' ''/api/v1/auth/logout'' SignedIn ''Logout''"
  "route_of (Call_ChangePassword x3) = rte ''POST'' ''/api/v1/auth/change-password'' SignedIn ''ChangePassword''"
  "route_of Call_Summary = rte ''GET'' ''/api/v1/dashboard/summary'' SignedIn ''Summary''"
  "route_of (Call_ListFiles x4) = rte ''GET'' ''/api/v1/files/list'' (Needs ''files.read'') ''ListFiles''"
  "route_of (Call_DownloadFile x5 x6 x7 x8) = rte ''GET'' ''/api/v1/files/download'' (Needs ''files.read'') ''DownloadFile''"
  "route_of (Call_UploadFile x9 x10) = rte ''POST'' ''/api/v1/files/upload'' (Needs ''files.write'') ''UploadFile''"
  "route_of (Call_ReadTextFile x11) = rte ''POST'' ''/api/v1/files/read'' (Needs ''files.read'') ''ReadTextFile''"
  "route_of (Call_WriteTextFile x12) = rte ''POST'' ''/api/v1/files/write'' (Needs ''files.write'') ''WriteTextFile''"
  "route_of (Call_RenameFile x13) = rte ''POST'' ''/api/v1/files/rename'' (Needs ''files.write'') ''RenameFile''"
  "route_of (Call_CreateDirectory x14) = rte ''POST'' ''/api/v1/files/mkdir'' (Needs ''files.write'') ''CreateDirectory''"
  "route_of (Call_DeleteFile x15) = rte ''DELETE'' ''/api/v1/files/delete'' (Needs ''files.write'') ''DeleteFile''"
  "route_of (Call_ListServices x16) = rte ''GET'' ''/api/v1/services'' (Needs ''services.read'') ''ListServices''"
  "route_of (Call_StartService x17) = rte ''POST'' ''/api/v1/services/:name/start'' (Needs ''services.manage'') ''StartService''"
  "route_of (Call_StopService x18) = rte ''POST'' ''/api/v1/services/:name/stop'' (Needs ''services.manage'') ''StopService''"
  "route_of (Call_RestartService x19) = rte ''POST'' ''/api/v1/services/:name/restart'' (Needs ''services.manage'') ''RestartService''"
  "route_of Call_ListContainers = rte ''GET'' ''/api/v1/docker/containers'' (Needs ''docker.read'') ''ListContainers''"
  "route_of (Call_StartContainer x20) = rte ''POST'' ''/api/v1/docker/containers/:id/start'' (Needs ''docker.manage'') ''StartContainer''"
  "route_of (Call_StopContainer x21) = rte ''POST'' ''/api/v1/docker/containers/:id/stop'' (Needs ''docker.manage'') ''StopContainer''"
  "route_of (Call_RestartContainer x22) = rte ''POST'' ''/api/v1/docker/containers/:id/restart'' (Needs ''docker.manage'') ''RestartContainer''"
  "route_of Call_ListImages = rte ''GET'' ''/api/v1/docker/images'' (Needs ''docker.read'') ''ListImages''"
  "route_of Call_ListCron = rte ''GET'' ''/api/v1/cron'' (Needs ''cron.read'') ''ListTasks''"
  "route_of (Call_CreateCron x23) = rte ''POST'' ''/api/v1/cron'' (Needs ''cron.manage'') ''CreateTask''"
  "route_of (Call_UpdateCron x24 x25) = rte ''PUT'' ''/api/v1/cron/:id'' (Needs ''cron.manage'') ''UpdateTask''"
  "route_of (Call_DeleteCron x26) = rte ''DELETE'' ''/api/v1/cron/:id'' (Needs ''cron.manage'') ''DeleteTask''"
  "route_of (Call_EnableCron x27) = rte ''POST'' ''/api/v1/cron/:id/enable'' (Needs ''cron.manage'') ''EnableTask''"
  "route_of (Call_DisableCron x28) = rte ''POST'' ''/api/v1/cron/:id/disable'' (Needs ''cron.manage'') ''DisableTask''"
  "route_of (Call_ListLogs x29) = rte ''GET'' ''/api/v1/audit/logs'' (Needs ''audit.read'') ''ListLogs''"
  "route_of (Call_ExportLogs x30 x31 x32 x33) = rte ''GET'' ''/api/v1/audit/logs/export'' (Needs ''audit.export'') ''ExportLogs''"
  "route_of (Call_CleanupLogs x34) = rte ''POST'' ''/api/v1/audit/retention/cleanup'' (Needs ''audit.manage'') ''CleanupRetention''"
  "route_of (Call_ListTasks x35) = rte ''GET'' ''/api/v1/tasks'' (Needs ''tasks.read'') ''ListTasks''"
  "route_of (Call_GetTaskDetail x36) = rte ''GET'' ''/api/v1/tasks/:id'' (Needs ''tasks.read'') ''GetTaskDetail''"
  "route_of (Call_CreateDockerRestartTask x37) = rte ''POST'' ''/api/v1/tasks/docker/restart'' (Needs ''tasks.manage'') ''CreateDockerRestartTask''"
  "route_of (Call_CreateServiceRestartTask x38) = rte ''POST'' ''/api/v1/tasks/services/restart'' (Needs ''tasks.manage'') ''CreateServiceRestartTask''"
  "route_of (Call_CancelTask x39) = rte ''POST'' ''/api/v1/tasks/:id/cancel'' (Needs ''tasks.manage'') ''CancelTask''"
  "route_of (Call_RetryTask x40) = rte ''POST'' ''/api/v1/tasks/:id/retry'' (Needs ''tasks.manage'') ''RetryTask''"
  "route_of (Call_ListBackups x41) = rte ''GET'' ''/api/v1/backups'' (Needs ''backup.read'') ''ListBackups''"
  "route_of (Call_CreateBackup x42) = rte ''POST'' ''/api/v1/backups'' (Needs ''backup.manage'') ''CreateBackup''"
  "route_of (Call_CreateBackupTask x43) = rte ''POST'' ''/api/v1/backups/tasks/create'' (Needs ''backup.manage'') ''CreateBackupTask''"
  "route_of (Call_CleanupBackups x44) = rte ''POST'' ''/api/v1/backups/retention/cleanup'' (Needs ''backup.manage'') ''CleanupRetention''"
  "route_of (Call_VerifyBackup x45 x46) = rte ''POST'' ''/api/v1/backups/:id/verify'' (Needs ''backup.manage'') ''VerifyBackup''"
  "route_of (Call_VerifyBackupTask x47 x48) = rte ''POST'' ''/api/v1/backups/:id/verify-task'' (Needs ''backup.manage'') ''VerifyBackupTask''"
  by (rule route_ofI; simp add: routes_def; simp add: rte_def)+

end
