(* ===== verification/EffectFrames.thy ===== *)
theory EffectFrames
  imports FileHandlers AgentHandlers TaskHandlers AuthHandlers
begin

text \<open>
  What the handlers can do. \<open>acts P F\<close> relates two worlds between which every request sent to the
  agent satisfies \<open>P\<close> and, if nobody else is at work on the tables, only the parts \<open>F\<close> of the
  backend's own data have changed; without \<open>AuditTrail\<close> the audit log can only grow. The rules go by the structure of the programs.
\<close>

datatype part = Accounts | Queue | BackupRecords | AuditTrail | Settings | LocalFiles

definition unchanged :: "part set \<Rightarrow> tables \<Rightarrow> tables \<Rightarrow> bool" where
  "unchanged F t t' =
     ((Accounts \<notin> F \<longrightarrow> users t' = users t \<and> roles t' = roles t \<and> permissions t' = permissions t \<and>
         role_permissions t' = role_permissions t \<and> user_roles t' = user_roles t) \<and>
      (Queue \<notin> F \<longrightarrow> tasks t' = tasks t \<and> task_logs t' = task_logs t) \<and>
      (BackupRecords \<notin> F \<longrightarrow> backups t' = backups t) \<and>
      (AuditTrail \<notin> F \<longrightarrow> (\<exists>new. audit_logs t' = audit_logs t @ new)) \<and>
      (Settings \<notin> F \<longrightarrow> system_settings t' = system_settings t))"

definition acts :: "(rpc_request \<Rightarrow> bool) \<Rightarrow> part set \<Rightarrow> world \<Rightarrow> world \<Rightarrow> bool" where
  "acts P F w w' =
     ((\<exists>qs. rpc_log w' = rpc_log w @ qs \<and> list_all P qs) \<and>
      (alone w \<longrightarrow> alone w' \<and> unchanged F (tbl w) (tbl w')) \<and> (LocalFiles \<notin> F \<longrightarrow> files w' = files w))"

named_theorems acts_intros \<open>programs by their structure\<close>
named_theorems acts_calls \<open>the operations of the services\<close>

lemma unchanged_refl [simp, intro]: "unchanged F t t"
  by (simp add: unchanged_def)

lemma unchanged_trans: "unchanged F x y \<Longrightarrow> unchanged F y z \<Longrightarrow> unchanged F x z"
  unfolding unchanged_def by (metis append.assoc)

lemma acts_refl: "acts P F w w"
  by (auto simp: acts_def intro!: exI [of _ "[]"])

lemma acts_trans: "acts P F x y \<Longrightarrow> acts P F y z \<Longrightarrow> acts P F x z"
  unfolding acts_def using unchanged_trans by (metis append.assoc list_all_append)

lemma reflp_acts: "reflp (acts P F)"
  by (rule reflpI) (rule acts_refl)

lemma transp_acts: "transp (acts P F)"
  by (rule transpI) (rule acts_trans)

lemma acts_enter: "enter w = (x, w') \<Longrightarrow> acts P F w w'"
  using alone_enter [of w] by (auto simp: acts_def enter_def intro!: exI [of _ "[]"] split: list.splits)

lemma acts_dbcall [acts_intros]:
  assumes "\<And>t. unchanged F t (snd (f t))"
  shows "keeps (acts P F) (dbcall f)"
proof (rule keepsI)
  fix w
  obtain x v where e: "enter w = (x, v)" by fastforce
  have "acts P F v (v\<lparr>tbl := snd (f (tbl v))\<rparr>)"
    using assms by (auto simp: acts_def alone_def intro!: exI [of _ "[]"])
  with acts_enter [OF e] show "acts P F w (snd (run_state (dbcall f) w))"
    by (cases x) (auto simp: dbcall_def e split_beta intro: acts_trans)
qed

lemma acts_filecall:
  assumes "LocalFiles \<in> F"
  shows "keeps (acts P F) (filecall f)"
proof (rule keepsI)
  fix w
  obtain x v where e: "enter w = (x, v)" by fastforce
  have "acts P F v (v\<lparr>files := snd (f (files v))\<rparr>)"
    using assms by (auto simp: acts_def alone_def intro!: exI [of _ "[]"])
  with acts_enter [OF e] show "acts P F w (snd (run_state (filecall f) w))"
    by (cases x) (auto simp: filecall_def e split_beta intro: acts_trans)
qed

lemma acts_same: "rpc_log w' = rpc_log w \<Longrightarrow> tbl w' = tbl w \<Longrightarrow> files w' = files w \<Longrightarrow> sched w' = sched w \<Longrightarrow>
    acts P F w w'"
  by (auto simp: acts_def alone_def intro!: exI [of _ "[]"])

lemma acts_local [acts_intros]:
  "keeps (acts P F) Now" "keeps (acts P F) draw" "keeps (acts P F) (observe m)" "keeps (acts P F) (spawn i p)"
  by (auto intro!: keepsI acts_same simp: Now_def draw_def observe_def spawn_def)

lemma acts_send_rpc: "P q \<Longrightarrow> keeps (acts P F) (send_rpc q)"
  by (auto intro!: keepsI exI [of _ "[q]"] simp: send_rpc_def acts_def alone_def)

lemma keeps_Let: "(\<And>x. x = t \<Longrightarrow> keeps R (f x)) \<Longrightarrow> keeps R (Let t f)"
  by simp

lemmas [acts_intros] = keeps_ret [OF reflp_acts] keeps_get [OF reflp_acts] keeps_bind [OF transp_acts]
  keeps_if keeps_case_sum keeps_case_option keeps_case_prod keeps_Let
  keeps_call [OF reflp_acts transp_acts] keeps_call_as [OF reflp_acts transp_acts]

section \<open>Statements\<close>

lemma sql_unchanged [intro]:
  "Queue \<in> F \<Longrightarrow> unchanged F t (snd (sql_CreateTask a now t))"
  "Queue \<in> F \<Longrightarrow> unchanged F t (snd (sql_UpdateStatus i st p m now t))"
  "Queue \<in> F \<Longrightarrow> unchanged F t (snd (sql_AppendLog l now t))"
  "BackupRecords \<in> F \<Longrightarrow> unchanged F t (snd (sql_CreateBackup b now t))"
  "BackupRecords \<in> F \<Longrightarrow> unchanged F t (snd (sql_UpdateVerification i st n k fp now t))"
  "BackupRecords \<in> F \<Longrightarrow> unchanged F t (snd (sql_UpdateBackupStatus i st now t))"
  "BackupRecords \<in> F \<Longrightarrow> unchanged F t (snd (sql_DeleteDeletableBefore c t))"
  "Accounts \<in> F \<Longrightarrow> unchanged F t (snd (sql_UpdateLastLoginAt i u now t))"
  "Accounts \<in> F \<Longrightarrow> unchanged F t (snd (sql_UpdatePasswordHash i hash now t))"
  "Accounts \<in> F \<Longrightarrow> unchanged F t (snd (sql_AddUserRole i j now t))"
  "unchanged F t (snd (sql_CreateAudit pg au now t))"
  "AuditTrail \<in> F \<Longrightarrow> unchanged F t (snd (sql_DeleteAuditBefore c t))"
  by (auto simp: unchanged_def sql_CreateTask_def sql_UpdateStatus_def sql_AppendLog_def sql_CreateBackup_def
      sql_UpdateVerification_def sql_UpdateBackupStatus_def sql_DeleteDeletableBefore_def sql_UpdateLastLoginAt_def
      sql_UpdatePasswordHash_def sql_AddUserRole_def sql_CreateAudit_def sql_DeleteAuditBefore_def Let_def
      split: option.split sum.split)

section \<open>Handlers by their structure\<close>

lemma acts_recordAudit [acts_intros]: "keeps (acts P F) (recordAudit c aud i)"
  unfolding recordAudit_def RecordAudit_def auditRepo_Create_def by (intro acts_intros sql_unchanged)

lemma acts_shapes [acts_intros]:
  "keeps (acts P F) m \<Longrightarrow> keeps (acts P F) (audited c aud i t msg m)"
  "keeps (acts P F) m \<Longrightarrow> keeps (acts P F) (answered m)"
  "(\<And>r. keeps (acts P F) (k r)) \<Longrightarrow> keeps (acts P F) (bound tags req msg k)"
  "(\<And>n. keeps (acts P F) (l n)) \<Longrightarrow> keeps (acts P F) (with_id param msg l)"
  "(\<And>u. keeps (acts P F) (n u)) \<Longrightarrow> keeps (acts P F) (signed_in c n)"
  unfolding audited_def answered_def bound_def with_id_def signed_in_def by (intro acts_intros; assumption)+

section \<open>Services that call the agent\<close>

lemma acts_invoke: "keeps (acts P F) (invoke rpc reply)"
  unfolding invoke_def by (cases reply; simp; intro acts_intros)

lemma acts_agent_rpc: "P q \<Longrightarrow> keeps (acts P F) (agent_rpc rpc answers q)"
  unfolding agent_rpc_def by (intro acts_intros acts_invoke acts_send_rpc)

lemma acts_translated: "keeps (acts P F) m \<Longrightarrow> keeps (acts P F) (translated m f)"
  unfolding translated_def by (intro acts_intros)

lemma acts_agent_call: "keeps (acts P F) m \<Longrightarrow> keeps (acts P F) (agent_call m f)"
  unfolding agent_call_def by (intro acts_intros)

lemma acts_file_service [acts_calls]:
  "(\<And>q. P (ListFilesReq q)) \<Longrightarrow> keeps (acts P F) (ListFiles h p)"
  "(\<And>a b c. P (ReadTextFileReq a b c)) \<Longrightarrow> keeps (acts P F) (ReadTextFile h rt)"
  "(\<And>a b c d e. P (WriteTextFileReq a b c d e)) \<Longrightarrow> keeps (acts P F) (WriteTextFile h wt)"
  "(\<And>a b. P (CreateDirectoryReq a b)) \<Longrightarrow> keeps (acts P F) (CreateDirectory h cd)"
  "(\<And>a b. P (DeleteFileReq a b)) \<Longrightarrow> keeps (acts P F) (DeleteFile h df)"
  "(\<And>a b. P (RenameFileReq a b)) \<Longrightarrow> keeps (acts P F) (RenameFile h rn)"
  unfolding ListFiles_def ReadTextFile_def WriteTextFile_def CreateDirectory_def DeleteFile_def RenameFile_def
    Client_ListFiles_def Client_ReadTextFile_def Client_WriteTextFile_def Client_CreateDirectory_def
    Client_DeleteFile_def Client_RenameFile_def
  by (intro acts_intros acts_translated acts_agent_rpc; blast)+

lemma acts_cron_service [acts_calls]:
  "P ListCronTasksReq \<Longrightarrow> keeps (acts P F) (Cron_ListTasks h)"
  "(\<And>a b c. P (CreateCronTaskReq a b c)) \<Longrightarrow> keeps (acts P F) (Cron_CreateTask h r)"
  "(\<And>a b c d. P (UpdateCronTaskReq a b c d)) \<Longrightarrow> keeps (acts P F) (Cron_UpdateTask h i r)"
  "(\<And>a. P (DeleteCronTaskReq a)) \<Longrightarrow> keeps (acts P F) (Cron_DeleteTask h i)"
  "(\<And>a b. P (SetCronTaskEnabledReq a b)) \<Longrightarrow> keeps (acts P F) (Cron_SetEnabled h i b)"
  "P GetSystemOverviewReq \<Longrightarrow> P GetRealtimeResourceReq \<Longrightarrow> keeps (acts P F) (GetSummary h)"
  "P CheckHealthReq \<Longrightarrow> keeps (acts P F) (CheckHealth h)"
  unfolding Cron_ListTasks_def Cron_CreateTask_def Cron_UpdateTask_def Cron_DeleteTask_def Cron_SetEnabled_def
    GetSummary_def Client_ListCronTasks_def Client_CreateCronTask_def Client_UpdateCronTask_def
    Client_DeleteCronTask_def Client_SetCronTaskEnabled_def GetSystemOverview_def GetRealtimeResource_def CheckHealth_def
  by (intro acts_intros acts_agent_call acts_agent_rpc; blast)+

lemma acts_docker_service [acts_calls]:
  "P ListDockerContainersReq \<Longrightarrow> keeps (acts P F) (ListContainers a)"
  "(\<And>j. P (StartDockerContainerReq j)) \<Longrightarrow> keeps (acts P F) (StartContainer a i)"
  "(\<And>j. P (StopDockerContainerReq j)) \<Longrightarrow> keeps (acts P F) (StopContainer a i)"
  "(\<And>j. P (RestartDockerContainerReq j)) \<Longrightarrow> keeps (acts P F) (RestartContainer a i)"
  "P ListDockerImagesReq \<Longrightarrow> keeps (acts P F) (ListImages a)"
  "(\<And>j. P (ListServicesReq j)) \<Longrightarrow> keeps (acts P F) (ListServices a i)"
  "(\<And>j. P (StartServiceReq j)) \<Longrightarrow> keeps (acts P F) (StartService a i)"
  "(\<And>j. P (StopServiceReq j)) \<Longrightarrow> keeps (acts P F) (StopService a i)"
  "(\<And>j. P (RestartServiceReq j)) \<Longrightarrow> keeps (acts P F) (RestartService a i)"
  unfolding ListContainers_def StartContainer_def StopContainer_def RestartContainer_def ListImages_def
    ListServices_def StartService_def StopService_def RestartService_def runDockerAction_def runServiceAction_def
    agent_client_defs
  by (intro acts_intros acts_invoke acts_send_rpc; blast)+

section \<open>Services that do not\<close>

lemma acts_reads [acts_intros]:
  "keeps (acts P F) (taskRepo_GetByID i)" "keeps (acts P F) (taskRepo_GetByIdempotencyKey k)"
  "keeps (acts P F) (taskRepo_List tf)" "keeps (acts P F) (taskRepo_ListLogs i n)"
  "keeps (acts P F) (backupRepo_GetByID i)" "keeps (acts P F) (backupRepo_List bf)"
  "keeps (acts P F) (backupRepo_CountDeletableBefore c)" "keeps (acts P F) (backupRepo_ListDeletableBefore c)"
  "keeps (acts P F) (userRepo_GetByID i)" "keeps (acts P F) (userRepo_GetByUsername n')"
  "keeps (acts P F) (userRepo_GetRolesAndPermissions col i)"
  "keeps (acts P F) (auditRepo_List af)" "keeps (acts P F) (auditRepo_CountBefore c)"
  unfolding taskRepo_GetByID_def taskRepo_GetByIdempotencyKey_def taskRepo_List_def taskRepo_ListLogs_def
    backupRepo_GetByID_def backupRepo_List_def backupRepo_CountDeletableBefore_def backupRepo_ListDeletableBefore_def
    userRepo_defs auditRepo_List_def auditRepo_CountBefore_def dbquery_def
  by (intro acts_intros; simp)+

lemma acts_writes [acts_intros]:
  "Queue \<in> F \<Longrightarrow> keeps (acts P F) (taskRepo_Create a)"
  "Queue \<in> F \<Longrightarrow> keeps (acts P F) (taskRepo_AppendLog l)"
  "Queue \<in> F \<Longrightarrow> keeps (acts P F) (taskRepo_UpdateStatus i st p m)"
  "BackupRecords \<in> F \<Longrightarrow> keeps (acts P F) (backupRepo_Create b)"
  "BackupRecords \<in> F \<Longrightarrow> keeps (acts P F) (backupRepo_UpdateStatus i st)"
  "BackupRecords \<in> F \<Longrightarrow> keeps (acts P F) (backupRepo_UpdateVerification i st n k fp)"
  "BackupRecords \<in> F \<Longrightarrow> keeps (acts P F) (backupRepo_DeleteDeletableBefore c)"
  "Accounts \<in> F \<Longrightarrow> keeps (acts P F) (userRepo_UpdateLastLoginAt i u)"
  "Accounts \<in> F \<Longrightarrow> keeps (acts P F) (userRepo_UpdatePasswordHash i hash)"
  "Accounts \<in> F \<Longrightarrow> keeps (acts P F) (userRepo_EnsureUserRoleBySlug i slug)"
  "AuditTrail \<in> F \<Longrightarrow> keeps (acts P F) (auditRepo_DeleteBefore c)"
  unfolding taskRepo_Create_def taskRepo_AppendLog_def taskRepo_UpdateStatus_def backupRepo_Create_def
    backupRepo_UpdateStatus_def backupRepo_UpdateVerification_def backupRepo_DeleteDeletableBefore_def userRepo_defs
    auditRepo_DeleteBefore_def
  by (intro acts_intros sql_unchanged; simp)+

lemma acts_task_service [acts_calls]:
  "Queue \<in> F \<Longrightarrow> keeps (acts P F) (CreateDockerRestartTask s a tb u)"
  "Queue \<in> F \<Longrightarrow> keeps (acts P F) (CreateServiceRestartTask s b tb u)"
  "Queue \<in> F \<Longrightarrow> keeps (acts P F) (CreateBackupVerifyTask s i cv tb u)"
  "Queue \<in> F \<Longrightarrow> BackupRecords \<in> F \<Longrightarrow> keeps (acts P F) (CreateBackupTask s ct tb u)"
  "Queue \<in> F \<Longrightarrow> keeps (acts P F) (CancelTask s i u)"
  "Queue \<in> F \<Longrightarrow> keeps (acts P F) (RetryTask s i tb u)"
  "keeps (acts P F) (ListTasks s lq)" "keeps (acts P F) (GetTaskDetail s i)"
  unfolding CreateDockerRestartTask_def CreateServiceRestartTask_def CreateBackupVerifyTask_def CreateBackupTask_def
    CancelTask_def RetryTask_def ListTasks_def GetTaskDetail_def createAndRunTask_def appendTaskLog_def
    find_existing_def CreateMetadata_def MarkStatus_def
  by (intro acts_intros; assumption)+

lemma acts_archive_lines: "LocalFiles \<in> F \<Longrightarrow> keeps (acts P F) (write_archive_lines s path cutoff items)"
proof (induction items)
  case (Cons item items)
  show ?case unfolding write_archive_lines.simps AppendFile_def
    by (intro acts_intros acts_filecall Cons.IH Cons.prems)
qed (simp add: keeps_ret [OF reflp_acts])

lemma acts_backup_service [acts_calls]:
  "BackupRecords \<in> F \<Longrightarrow> keeps (acts P F) (CreateMetadata s r u)"
  "BackupRecords \<in> F \<Longrightarrow> keeps (acts P F) (Verify s i v)"
  "keeps (acts P F) (ListBackups s q)"
  "BackupRecords \<in> F \<Longrightarrow> LocalFiles \<in> F \<Longrightarrow> keeps (acts P F) (CleanupRetention s c)"
  unfolding CreateMetadata_def Verify_def ListBackups_def CleanupRetention_def writeRetentionArchive_def
    MkdirAll_def CreateExclusive_def failBackup_def
  by (intro acts_intros acts_archive_lines acts_filecall; assumption)+

lemma acts_audit_service [acts_calls]:
  "keeps (acts P F) (ListAuditLogs s q)" "AuditTrail \<in> F \<Longrightarrow> keeps (acts P F) (AuditCleanupRetention s r)"
  unfolding ListAuditLogs_def AuditCleanupRetention_def by (intro acts_intros; assumption)+

lemma acts_auth_helpers [acts_intros]:
  "keeps (acts P F) (nextSessionTime t)" "keeps (acts P F) (GenerateFromPassword a p)"
  "Accounts \<in> F \<Longrightarrow> keeps (acts P F) (resolveUserRBAC a u)" "keeps (acts P F) (generateTokenID a n)"
  "keeps (acts P F) (parseTokenWithUse a tk use)"
  unfolding nextSessionTime_def GenerateFromPassword_def resolveUserRBAC_def generateTokenID_def parseTokenWithUse_def
  by (intro acts_intros; assumption)+

lemma acts_ValidateSession [acts_intros]: "Accounts \<in> F \<Longrightarrow> keeps (acts P F) (ValidateSession a cl)"
  unfolding ValidateSession_def by (intro acts_intros; assumption)

lemma acts_generateTokenPair [acts_intros]: "keeps (acts P F) (generateTokenPair a u rs ps m i)"
  unfolding generateTokenPair_def generateToken_def by (intro acts_intros)

lemma acts_auth_service [acts_calls]:
  "Accounts \<in> F \<Longrightarrow> keeps (acts P F) (Me a i)" "Accounts \<in> F \<Longrightarrow> keeps (acts P F) (RevokeSession a i)"
  "Accounts \<in> F \<Longrightarrow> keeps (acts P F) (Refresh a t)" "Accounts \<in> F \<Longrightarrow> keeps (acts P F) (ChangePassword a i r)"
  "Accounts \<in> F \<Longrightarrow> keeps (acts P F) (Login a l)"
  unfolding Me_def RevokeSession_def Refresh_def ChangePassword_def Login_def by (intro acts_intros; assumption)+

text \<open>The gates of a route.\<close>

lemma acts_JWTAuth: "Accounts \<in> F \<Longrightarrow> keeps (acts P F) (JWTAuth a h p)"
  unfolding JWTAuth_def ParseToken_def by (intro acts_intros; assumption)

lemma acts_admit: "Accounts \<in> F \<Longrightarrow> keeps (acts P F) (admit a acc h p)"
  unfolding admit_def by (cases acc; simp; intro acts_intros acts_JWTAuth; assumption)

section \<open>Streams\<close>

lemma acts_run: "keeps (acts P F) m \<Longrightarrow> run_state m w = (r, w') \<Longrightarrow> acts P F w w'"
  by (metis keepsD snd_conv)

lemma acts_forever:
  assumes "\<And>x. keeps (acts P F) (step x)" "forever step x w = Some (r, w')"
  shows "acts P F w w'"
  by (rule forever_partial [where I = "\<lambda>_ v. acts P F w v" and Q = "\<lambda>_ v. acts P F w v", OF _ _ assms(2)])
    (use acts_run [OF assms(1)] acts_trans in \<open>blast intro: acts_same\<close>)+

lemma acts_DownloadFile:
  assumes "\<And>a b c. P (ReadFileChunkReq a b c)" "DownloadFile h q writeChunk sink w = Some (r, w')"
  shows "acts P F w w'"
proof -
  have "keeps (acts P F) (download_pass h wr path l d)" for wr path l d
    unfolding download_pass_def Client_ReadFileChunk_def by (intro acts_intros acts_agent_rpc assms(1))
  from acts_forever [OF this] assms(2) show ?thesis
    by (auto simp: DownloadFile_def Let_def acts_same split: if_splits option.splits prod.splits)
qed

lemma acts_UploadFile:
  fixes readChunk :: "'r reader option"
  assumes "\<And>a b c d e. P (WriteFileChunkReq a b c d e)" "UploadFile h q readChunk source w = Some (r, w')"
  shows "acts P F w w'"
proof -
  have pass: "keeps (acts P F) (upload_pass h rd path u)" for rd path u
    unfolding upload_pass_def Client_WriteFileChunk_def
    by (intro acts_intros acts_agent_rpc assms(1); simp add: keeps_ret [OF reflp_acts])
  have empty: "keeps (acts P F) (upload_empty h path q u)" for path u
    unfolding upload_empty_def Client_WriteFileChunk_def by (intro acts_intros acts_agent_rpc assms(1))
  have "w' = w \<or> (\<exists>(rd :: 'r reader) path u0 e u w1. forever (upload_pass h rd path) u0 w = Some ((e, u), w1) \<and>
      (w' = w1 \<or> (\<exists>x. run_state (upload_empty h path q u) w1 = (x, w'))))"
    using assms(2) by (auto simp: UploadFile_def Let_def split: if_splits option.splits prod.splits sum.splits) blast+
  then show ?thesis
  proof
    assume "\<exists>(rd :: 'r reader) path u0 e u w1. forever (upload_pass h rd path) u0 w = Some ((e, u), w1) \<and>
      (w' = w1 \<or> (\<exists>x. run_state (upload_empty h path q u) w1 = (x, w')))"
    then obtain rd :: "'r reader" and path u0 e u w1 where
      run: "forever (upload_pass h rd path) u0 w = Some ((e, u), w1)"
        "w' = w1 \<or> (\<exists>x. run_state (upload_empty h path q u) w1 = (x, w'))" by blast
    have "acts P F w w1" by (rule acts_forever [OF pass run(1)])
    moreover have "acts P F w1 w'" using run(2) acts_run [OF empty] by (auto intro: acts_same)
    ultimately show ?thesis by (rule acts_trans)
  qed (simp add: acts_same)
qed

lemma acts_paginate: "paginateAuditExport s flt writeItem sink w = Some (r, w') \<Longrightarrow> acts P F w w'"
  unfolding paginateAuditExport_def
  by (erule acts_forever [rotated]) (unfold export_page_def, intro acts_intros)

lemma acts_ExportAudit: "ExportAudit s q fmt x sink w = Some (r, w') \<Longrightarrow> acts P F w w'"
  by (auto simp: ExportAudit_def exportCSV_def exportJSONL_def Let_def acts_same acts_paginate
      split: if_splits option.splits prod.splits sum.splits)

end
