(* ===== verification/ApiFrames.thy ===== *)
theory ApiFrames
  imports ApiDispatch EffectFrames
begin

text \<open>
  What the handler behind a route can do, for all 48 of them: which requests it sends to the
  agent, and which parts of the backend's own data it changes.
\<close>

section \<open>What a route is for\<close>

text \<open>The access that a request to the agent calls for.\<close>

fun needed :: "rpc_request \<Rightarrow> access" where
  "needed (RestartDockerContainerReq _) = Needs ''docker.manage''"
| "needed (StartDockerContainerReq _) = Needs ''docker.manage''"
| "needed (StopDockerContainerReq _) = Needs ''docker.manage''"
| "needed (RestartServiceReq _) = Needs ''services.manage''"
| "needed (StartServiceReq _) = Needs ''services.manage''"
| "needed (StopServiceReq _) = Needs ''services.manage''"
| "needed (ListFilesReq _) = Needs ''files.read''"
| "needed (ReadTextFileReq _ _ _) = Needs ''files.read''"
| "needed (ReadFileChunkReq _ _ _) = Needs ''files.read''"
| "needed (WriteFileChunkReq _ _ _ _ _) = Needs ''files.write''"
| "needed (WriteTextFileReq _ _ _ _ _) = Needs ''files.write''"
| "needed (CreateDirectoryReq _ _) = Needs ''files.write''"
| "needed (DeleteFileReq _ _) = Needs ''files.write''"
| "needed (RenameFileReq _ _) = Needs ''files.write''"
| "needed ListCronTasksReq = Needs ''cron.read''"
| "needed (CreateCronTaskReq _ _ _) = Needs ''cron.manage''"
| "needed (UpdateCronTaskReq _ _ _ _) = Needs ''cron.manage''"
| "needed (DeleteCronTaskReq _) = Needs ''cron.manage''"
| "needed (SetCronTaskEnabledReq _ _) = Needs ''cron.manage''"
| "needed ListDockerContainersReq = Needs ''docker.read''"
| "needed ListDockerImagesReq = Needs ''docker.read''"
| "needed (ListServicesReq _) = Needs ''services.read''"
| "needed CheckHealthReq = Public"
| "needed GetSystemOverviewReq = SignedIn"
| "needed GetRealtimeResourceReq = SignedIn"

text \<open>The parts of the backend's own data that the routes with an access may change.\<close>

definition may_change :: "access \<Rightarrow> part set" where
  "may_change a = (case a of
       Needs p \<Rightarrow>
         (if p = ''tasks.manage'' then {Queue}
          else if p = ''backup.manage'' then {Queue, BackupRecords, LocalFiles}
          else if p = ''audit.manage'' then {AuditTrail} else {})
     | _ \<Rightarrow> {Accounts})"

section \<open>What the handlers do\<close>

lemma acts_handler:
  "keeps (acts P F) m \<Longrightarrow> handler m c g w = Some ((r, g'), w') \<Longrightarrow> acts P F w w'"
  using keepsD [of "acts P F" m w] by (simp add: handler_def split: prod.splits)

lemma acts_Health [acts_calls]:
  "P CheckHealthReq \<Longrightarrow> keeps (acts P F) (collectDependencyStatus lib db agentClient)"
  unfolding collectDependencyStatus_def by (intro acts_intros acts_calls; simp)

lemma acts_FileHandlers:
  "(\<And>q. P (ListFilesReq q)) \<Longrightarrow> keeps (acts P F) (FileHandler_ListFiles h aud c lq)"
  "(\<And>a b c. P (ReadTextFileReq a b c)) \<Longrightarrow> keeps (acts P F) (FileHandler_ReadTextFile h aud c rq)"
  "(\<And>a b c d e. P (WriteTextFileReq a b c d e)) \<Longrightarrow> keeps (acts P F) (FileHandler_WriteTextFile h aud c wq)"
  "(\<And>a b. P (CreateDirectoryReq a b)) \<Longrightarrow> keeps (acts P F) (FileHandler_CreateDirectory h aud c dq)"
  "(\<And>a b. P (DeleteFileReq a b)) \<Longrightarrow> keeps (acts P F) (FileHandler_DeleteFile h aud c eq)"
  "(\<And>a b. P (RenameFileReq a b)) \<Longrightarrow> keeps (acts P F) (FileHandler_RenameFile h aud c nq)"
  unfolding FileHandler_ListFiles_def FileHandler_ReadTextFile_def FileHandler_WriteTextFile_def
    FileHandler_CreateDirectory_def FileHandler_DeleteFile_def FileHandler_RenameFile_def
  by (intro acts_intros acts_calls; assumption)+

lemma acts_AgentHandlers:
  "P ListCronTasksReq \<Longrightarrow> keeps (acts P F) (CronHandler_ListTasks M h aud c)"
  "(\<And>a b c. P (CreateCronTaskReq a b c)) \<Longrightarrow> keeps (acts P F) (CronHandler_CreateTask M h aud c r)"
  "(\<And>a b c d. P (UpdateCronTaskReq a b c d)) \<Longrightarrow> keeps (acts P F) (CronHandler_UpdateTask M h aud c i r)"
  "(\<And>a. P (DeleteCronTaskReq a)) \<Longrightarrow> keeps (acts P F) (CronHandler_DeleteTask M h aud c i)"
  "(\<And>a b. P (SetCronTaskEnabledReq a b)) \<Longrightarrow> keeps (acts P F) (CronHandler_EnableTask M h aud c i)"
  "(\<And>a b. P (SetCronTaskEnabledReq a b)) \<Longrightarrow> keeps (acts P F) (CronHandler_DisableTask M h aud c i)"
  "P GetSystemOverviewReq \<Longrightarrow> P GetRealtimeResourceReq \<Longrightarrow> keeps (acts P F) (DashboardHandler_Summary h)"
  "P ListDockerContainersReq \<Longrightarrow> keeps (acts P F) (DockerHandler_ListContainers a aud c)"
  "P ListDockerImagesReq \<Longrightarrow> keeps (acts P F) (DockerHandler_ListImages a aud c)"
  "(\<And>j. P (StartDockerContainerReq j)) \<Longrightarrow> keeps (acts P F) (DockerHandler_StartContainer a aud c i)"
  "(\<And>j. P (StopDockerContainerReq j)) \<Longrightarrow> keeps (acts P F) (DockerHandler_StopContainer a aud c i)"
  "(\<And>j. P (RestartDockerContainerReq j)) \<Longrightarrow> keeps (acts P F) (DockerHandler_RestartContainer a aud c i)"
  "(\<And>j. P (ListServicesReq j)) \<Longrightarrow> keeps (acts P F) (ServiceHandler_ListServices a aud c q)"
  "(\<And>j. P (StartServiceReq j)) \<Longrightarrow> keeps (acts P F) (ServiceHandler_StartService a aud c i)"
  "(\<And>j. P (StopServiceReq j)) \<Longrightarrow> keeps (acts P F) (ServiceHandler_StopService a aud c i)"
  "(\<And>j. P (RestartServiceReq j)) \<Longrightarrow> keeps (acts P F) (ServiceHandler_RestartService a aud c i)"
  unfolding CronHandler_ListTasks_def CronHandler_CreateTask_def CronHandler_UpdateTask_def
    CronHandler_DeleteTask_def CronHandler_EnableTask_def CronHandler_DisableTask_def CronHandler_toggle_def
    DashboardHandler_Summary_def DockerHandler_ListContainers_def DockerHandler_StartContainer_def
    DockerHandler_StopContainer_def DockerHandler_RestartContainer_def DockerHandler_ListImages_def
    ServiceHandler_ListServices_def ServiceHandler_StartService_def ServiceHandler_StopService_def
    ServiceHandler_RestartService_def
  by (intro acts_intros acts_calls; assumption)+

lemma acts_TaskHandlers:
  "Queue \<in> F \<Longrightarrow> keeps (acts P F) (TaskHandler_CreateDockerRestartTask t aud c dr)"
  "Queue \<in> F \<Longrightarrow> keeps (acts P F) (TaskHandler_CreateServiceRestartTask t aud c sr)"
  "keeps (acts P F) (TaskHandler_ListTasks t q)" "keeps (acts P F) (TaskHandler_GetTaskDetail t i)"
  "Queue \<in> F \<Longrightarrow> keeps (acts P F) (TaskHandler_CancelTask t aud c i)"
  "Queue \<in> F \<Longrightarrow> keeps (acts P F) (TaskHandler_RetryTask t aud c i)"
  unfolding TaskHandler_CreateDockerRestartTask_def TaskHandler_CreateServiceRestartTask_def
    TaskHandler_ListTasks_def TaskHandler_GetTaskDetail_def TaskHandler_CancelTask_def TaskHandler_RetryTask_def
  by (intro acts_intros acts_calls; assumption)+

lemma acts_BackupHandlers:
  "keeps (acts P F) (BackupHandler_ListBackups b q)"
  "BackupRecords \<in> F \<Longrightarrow> keeps (acts P F) (BackupHandler_CreateBackup lib b aud c cb)"
  "Queue \<in> F \<Longrightarrow> BackupRecords \<in> F \<Longrightarrow> keeps (acts P F) (BackupHandler_CreateBackupTask lib t aud c ct)"
  "BackupRecords \<in> F \<Longrightarrow> keeps (acts P F) (BackupHandler_VerifyBackup lib b aud c i vb)"
  "Queue \<in> F \<Longrightarrow> keeps (acts P F) (BackupHandler_VerifyBackupTask lib t aud c i vt)"
  "BackupRecords \<in> F \<Longrightarrow> LocalFiles \<in> F \<Longrightarrow> keeps (acts P F) (BackupHandler_CleanupRetention b aud c br)"
  "keeps (acts P F) (AuditHandler_ListLogs au lq)"
  "AuditTrail \<in> F \<Longrightarrow> keeps (acts P F) (AuditHandler_CleanupRetention au c ar)"
  unfolding BackupHandler_ListBackups_def BackupHandler_CreateBackup_def BackupHandler_CreateBackupTask_def
    BackupHandler_VerifyBackup_def BackupHandler_VerifyBackupTask_def BackupHandler_CleanupRetention_def
    AuditHandler_ListLogs_def AuditHandler_CleanupRetention_def
  by (intro acts_intros acts_calls; assumption)+

lemma acts_AuthHandlers:
  "Accounts \<in> F \<Longrightarrow> keeps (acts P F) (AuthHandler_Login lib guard others s aud c lb g)"
  "Accounts \<in> F \<Longrightarrow> keeps (acts P F) (AuthHandler_Refresh s aud c token)"
  "Accounts \<in> F \<Longrightarrow> keeps (acts P F) (AuthHandler_Me s c)"
  "Accounts \<in> F \<Longrightarrow> keeps (acts P F) (AuthHandler_Logout s aud c)"
  "Accounts \<in> F \<Longrightarrow> keeps (acts P F) (AuthHandler_ChangePassword s aud c pw)"
  unfolding AuthHandler_Login_def AuthHandler_Refresh_def AuthHandler_Me_def AuthHandler_Logout_def
    AuthHandler_ChangePassword_def
  by (intro acts_intros acts_calls; assumption)+

lemma acts_Download:
  assumes "\<And>a b c. P (ReadFileChunkReq a b c)"
    and "FileHandler_DownloadFile lib detect h aud c writer rangeHeader q out w = Some (r, w')"
  shows "acts P F w w'"
proof -
  have recd: "acts P F v v'" if "run_state (recordAudit c aud i) v = (x, v')" for i v x v'
    by (rule acts_run [OF acts_recordAudit that])
  have download: "acts P F v v'" if "DownloadFile h n (Some bufferChunk) [] v = Some (x, v')" for n v x v'
    using acts_DownloadFile [of P, OF assms(1) that] .
  show ?thesis
    using assms(2)
    by (auto simp: FileHandler_DownloadFile_def Let_def acts_refl dest!: download recd intro: acts_trans
        split: option.splits if_splits prod.splits sum.splits)
qed

lemma acts_Upload:
  assumes "\<And>a b c d e. P (WriteFileChunkReq a b c d e)"
    and "FileHandler_UploadFile lib h aud c Read form w = Some (r, w')"
  shows "acts P F w w'"
proof -
  have recd: "acts P F v v'" if "run_state (recordAudit c aud i) v = (x, v')" for i v x v'
    by (rule acts_run [OF acts_recordAudit that])
  have upload: "acts P F v v'" if "UploadFile h n (Some Read) source v = Some (x, v')" for n source v x v'
    using acts_UploadFile [of P, OF assms(1) that] .
  show ?thesis
    using assms(2)
    by (auto simp: FileHandler_UploadFile_def Let_def acts_refl dest!: upload recd intro: acts_trans
        split: option.splits if_splits prod.splits sum.splits)
qed

lemma acts_Export: "AuditHandler_ExportLogs h x q format out w = Some (r, w') \<Longrightarrow> acts P F w w'"
  by (auto simp: AuditHandler_ExportLogs_def Let_def acts_refl intro: acts_ExportAudit
      split: option.splits if_splits prod.splits sum.splits)

lemmas acts_handlers = acts_FileHandlers acts_AgentHandlers acts_TaskHandlers acts_BackupHandlers acts_AuthHandlers

lemma dispatch_acts:
  assumes "dispatch d q c g w = Some ((r, g'), w')"
  shows "acts (\<lambda>x. needed x = rt_access (route_of q)) (may_change (rt_access (route_of q))) w w'"
proof (cases q)
  case Call_Health
  have "keeps (acts (\<lambda>x. needed x = Public) F) (HealthHandler_Health lib db a)" for F lib db a
    unfolding HealthHandler_Health_def by (intro acts_intros acts_calls) simp
  with Call_Health assms show ?thesis by (auto simp: rte_def elim!: acts_handler [rotated])
next
  case Call_Readiness
  have "keeps (acts (\<lambda>x. needed x = Public) F) (HealthHandler_Readiness lib db a)" for F lib db a
    unfolding HealthHandler_Readiness_def by (intro acts_intros acts_calls) simp
  from acts_run [OF this] Call_Readiness assms show ?thesis
    by (simp add: rte_def split: prod.splits)
next
  case Call_Ping
  have "keeps (acts P F) (do { now \<leftarrow> Now; ret (SystemHandler_Ping now) })" for P F
    by (intro acts_intros)
  with Call_Ping assms show ?thesis by (auto simp: rte_def elim!: acts_handler [rotated])
next
  case (Call_Login body)
  with assms show ?thesis
    by (auto simp: rte_def may_change_def split: prod.splits intro: acts_run [OF acts_AuthHandlers(1), rotated])
next
  case (Call_DownloadFile writer rangeHeader query out)
  with assms show ?thesis
    by (auto simp: rte_def split: option.splits reply.splits elim!: acts_Download [rotated])
next
  case (Call_UploadFile Read form)
  with assms show ?thesis by (auto simp: rte_def split: option.splits elim!: acts_Upload [rotated])
next
  case (Call_ExportLogs x query format out)
  with assms show ?thesis
    by (auto simp: Let_def acts_refl split: option.splits reply.splits if_splits intro: acts_Export)
qed (use assms in \<open>auto simp: rte_def may_change_def acts_refl split: option.splits
      elim!: acts_handler [rotated] intro!: acts_handlers\<close>)

end
