(* ===== verification/ServerTheorems.thy ===== *)
theory ServerTheorems
  imports HttpServer AuthExample
begin

text \<open>What the chain of middleware does around any handler.\<close>

section \<open>The chain around a handler\<close>

text \<open>
  A part of the chain that leaves the registry, the logs and the headers alone, always ends, and
  when it returns has written an answer; if it panics nothing is written yet.
\<close>

definition inner :: "'g chain \<Rightarrow> bool" where
  "inner nxt = (\<forall>x s. \<exists>p x' s'. nxt x s = Some (p, x', s') \<and> srv_metrics s' = srv_metrics s \<and>
     srv_access s' = srv_access s \<and> srv_panics s' = srv_panics s \<and> xc_header x' = xc_header x \<and>
     (case p of None \<Rightarrow> xc_written x' | Some _ \<Rightarrow> xc_written x' = xc_written x \<and> xc_body x' = xc_body x))"

lemma innerD: "inner nxt \<Longrightarrow> \<exists>p x' s'. nxt x s = Some (p, x', s') \<and> srv_metrics s' = srv_metrics s \<and>
     srv_access s' = srv_access s \<and> srv_panics s' = srv_panics s \<and> xc_header x' = xc_header x \<and>
     (case p of None \<Rightarrow> xc_written x' | Some _ \<Rightarrow> xc_written x' = xc_written x \<and> xc_body x' = xc_body x)"
  by (simp add: inner_def)

lemma inner_NoRoute: "inner NoRoute"
  by (simp add: inner_def NoRoute_def write_answer_def)

lemma inner_endpoint:
  fixes h :: "'a endpoint"
  assumes "\<And>ctx g w. h ctx g w \<noteq> None"
  shows "inner (run_endpoint h)"
  unfolding inner_def
proof (intro allI)
  fix x :: exchange and s :: "'a server"
  obtain r g w where "h (xc_ctx x) (srv_guard s) (srv_world s) = Some ((r, g), w)"
    using assms by (metis (full_types) option.exhaust prod.collapse)
  then show "\<exists>p x' s'. run_endpoint h x s = Some (p, x', s') \<and> srv_metrics s' = srv_metrics s \<and>
     srv_access s' = srv_access s \<and> srv_panics s' = srv_panics s \<and> xc_header x' = xc_header x \<and>
     (case p of None \<Rightarrow> xc_written x' | Some _ \<Rightarrow> xc_written x' = xc_written x \<and> xc_body x' = xc_body x)"
    by (cases r) (simp_all add: run_endpoint_def write_answer_def)
qed

lemma inner_gate:
  fixes nxt :: "'a chain"
  shows "inner nxt \<Longrightarrow> inner (gate_mw gate nxt)"
  unfolding inner_def
proof (intro allI)
  fix x :: exchange and s :: "'a server"
  assume nxt: "\<forall>x s. \<exists>p x' s'. nxt x s = Some (p, x', s') \<and> srv_metrics s' = srv_metrics s \<and>
     srv_access s' = srv_access s \<and> srv_panics s' = srv_panics s \<and> xc_header x' = xc_header x \<and>
     (case p of None \<Rightarrow> xc_written x' | Some _ \<Rightarrow> xc_written x' = xc_written x \<and> xc_body x' = xc_body x)"
  obtain r w where r: "run_state (gate (gc_keys (xc_ctx x))) (srv_world s) = (r, w)" by fastforce
  show "\<exists>p x' s'. gate_mw gate nxt x s = Some (p, x', s') \<and> srv_metrics s' = srv_metrics s \<and>
     srv_access s' = srv_access s \<and> srv_panics s' = srv_panics s \<and> xc_header x' = xc_header x \<and>
     (case p of None \<Rightarrow> xc_written x' | Some _ \<Rightarrow> xc_written x' = xc_written x \<and> xc_body x' = xc_body x)"
  proof (cases r)
    case (Abort st c m)
    then show ?thesis by (simp add: gate_mw_def r write_answer_def)
  next
    case (Continue keys)
    with nxt [rule_format, of "x\<lparr>xc_ctx := (xc_ctx x)\<lparr>gc_keys := keys\<rparr>\<rparr>" "s\<lparr>srv_world := w\<rparr>"]
    show ?thesis by (simp add: gate_mw_def r cong: option.case_cong)
  qed
qed

lemma inner_guarded: "(\<And>ctx g w. h ctx g w \<noteq> None) \<Longrightarrow> inner (guarded auth a req h)"
  by (cases a) (simp_all add: guarded_def inner_endpoint inner_gate)

text \<open>The access log and the metrics: a request that is answered is counted, one that panics is not.\<close>

definition counted :: "string \<Rightarrow> 'c http_request \<Rightarrow> int \<Rightarrow> metrics_Set \<Rightarrow> string list \<Rightarrow> int" where
  "counted fullPath req status m =
     (let l = [req_Method req, if fullPath = [] then ''unmatched'' else fullPath, itoa status]
      in (series (HTTPRequestsTotal m))(l := series (HTTPRequestsTotal m) l + 1))"

lemma metered:
  assumes "inner nxt" "declared (srv_metrics s)"
  shows "\<exists>p x' s'. Metrics fullPath req (AccessLog req nxt) x s = Some (p, x', s') \<and> declared (srv_metrics s') \<and>
    HTTPRequestsInFlight (srv_metrics s') = HTTPRequestsInFlight (srv_metrics s) \<and>
    srv_panics s' = srv_panics s \<and> xc_header x' = xc_header x \<and>
    (case p of
       None \<Rightarrow> xc_written x' \<and> length (srv_access s') = Suc (length (srv_access s)) \<and>
         series (HTTPRequestsTotal (srv_metrics s')) = counted fullPath req (xc_status x') (srv_metrics s)
     | Some _ \<Rightarrow> xc_written x' = xc_written x \<and> xc_body x' = xc_body x \<and> srv_access s' = srv_access s \<and>
         HTTPRequestsTotal (srv_metrics s') = HTTPRequestsTotal (srv_metrics s))"
proof -
  let ?s = "s\<lparr>srv_metrics := (srv_metrics s)\<lparr>HTTPRequestsInFlight := HTTPRequestsInFlight (srv_metrics s) + 1\<rparr>\<rparr>"
  obtain p x' s' where n: "nxt x ?s = Some (p, x', s')" "srv_metrics s' = srv_metrics ?s"
      "srv_access s' = srv_access s" "srv_panics s' = srv_panics s" "xc_header x' = xc_header x"
      "case p of None \<Rightarrow> xc_written x' | Some _ \<Rightarrow> xc_written x' = xc_written x \<and> xc_body x' = xc_body x"
    using innerD [OF assms(1), of x ?s] by auto
  have d: "declared (srv_metrics s')" using n(2) assms(2) by (simp add: declared_def)
  show ?thesis
  proof (cases p)
    case (Some e)
    with n d show ?thesis by (simp add: Metrics_def AccessLog_def Let_def declared_def)
  next
    case None
    obtain m where "ObserveHTTPRequest (req_Method req) (if fullPath = [] then ''unmatched'' else fullPath)
        (xc_status x') (clock (srv_world s') - clock (srv_world s)) (srv_metrics s') = Some m"
      "declared m" "HTTPRequestsInFlight m = HTTPRequestsInFlight (srv_metrics s')"
      "series (HTTPRequestsTotal m) = counted fullPath req (xc_status x') (srv_metrics s')"
      using ObserveHTTPRequest_total [OF d] unfolding counted_def Let_def by blast
    moreover have "counted fullPath req st (srv_metrics s') = counted fullPath req st (srv_metrics s)" for st
      by (simp add: counted_def n(2))
    ultimately show ?thesis
      using None n by (simp add: Metrics_def AccessLog_def Let_def declared_def)
  qed
qed

text \<open>Recovery turns the panic into an answer.\<close>

definition answered_or_recovered :: "string \<Rightarrow> 'c http_request \<Rightarrow> 'g server \<Rightarrow> exchange \<Rightarrow> 'g server \<Rightarrow> bool" where
  "answered_or_recovered fullPath req s x' s' =
     (srv_panics s' = srv_panics s \<and> length (srv_access s') = Suc (length (srv_access s)) \<and>
        series (HTTPRequestsTotal (srv_metrics s')) = counted fullPath req (xc_status x') (srv_metrics s) \<or>
      length (srv_panics s') = Suc (length (srv_panics s)) \<and> srv_access s' = srv_access s \<and>
        HTTPRequestsTotal (srv_metrics s') = HTTPRequestsTotal (srv_metrics s) \<and>
        xc_status x' = 500 \<and> xc_body x' = [JSON 500 1000 ''internal server error''])"

lemma recovered:
  assumes "inner nxt" "declared (srv_metrics s)" "\<not> xc_written x" "xc_body x = []"
  shows "\<exists>x' s'. Recover (Metrics fullPath req (AccessLog req nxt)) x s = Some (None, x', s') \<and> xc_written x' \<and>
    declared (srv_metrics s') \<and> HTTPRequestsInFlight (srv_metrics s') = HTTPRequestsInFlight (srv_metrics s) \<and>
    xc_header x' = xc_header x \<and> answered_or_recovered fullPath req s x' s'"
proof -
  obtain p x' s' where m: "Metrics fullPath req (AccessLog req nxt) x s = Some (p, x', s')" "declared (srv_metrics s')"
      "HTTPRequestsInFlight (srv_metrics s') = HTTPRequestsInFlight (srv_metrics s)" "srv_panics s' = srv_panics s"
      "xc_header x' = xc_header x"
      "case p of
       None \<Rightarrow> xc_written x' \<and> length (srv_access s') = Suc (length (srv_access s)) \<and>
         series (HTTPRequestsTotal (srv_metrics s')) = counted fullPath req (xc_status x') (srv_metrics s)
     | Some _ \<Rightarrow> xc_written x' = xc_written x \<and> xc_body x' = xc_body x \<and> srv_access s' = srv_access s \<and>
         HTTPRequestsTotal (srv_metrics s') = HTTPRequestsTotal (srv_metrics s)"
    using metered [OF assms(1,2), of fullPath req x] by blast
  then show ?thesis
    using assms(3,4) by (cases p) (simp_all add: Recover_def answered_or_recovered_def write_answer_def)
qed

lemma cors_headers_frame [simp]:
  "xc_written (cors_headers f x) = xc_written x" "xc_body (cors_headers f x) = xc_body x"
  "xc_status (cors_headers f x) = xc_status x" "xc_ctx (cors_headers f x) = xc_ctx x"
  by (simp_all add: cors_headers_def set_header_def Let_def)

lemma span_frame:
  "\<exists>x'. otelgin otel name req (TraceRequestFields nxt) x s = nxt x' s \<and> xc_written x' = xc_written x \<and>
    xc_body x' = xc_body x \<and> xc_header x' = xc_header x \<and> gc_keys (xc_ctx x') = gc_keys (xc_ctx x) \<and>
    gc_RequestID (xc_ctx x') = gc_RequestID (xc_ctx x) \<and> gc_ClientIP (xc_ctx x') = gc_ClientIP (xc_ctx x)"
  unfolding otelgin_def TraceRequestFields_def by (rule exI, rule conjI, rule refl) simp

lemma tracing_frame:
  "\<exists>x'. tracing_mw rs req nxt x s = nxt x' s \<and> xc_written x' = xc_written x \<and> xc_body x' = xc_body x \<and>
    xc_header x' = xc_header x \<and> gc_keys (xc_ctx x') = gc_keys (xc_ctx x) \<and>
    gc_RequestID (xc_ctx x') = gc_RequestID (xc_ctx x) \<and> gc_ClientIP (xc_ctx x') = gc_ClientIP (xc_ctx x)"
proof (cases "rs_TracingEnabled rs")
  case True
  then show ?thesis unfolding tracing_mw_def Let_def by (simp only: if_True span_frame)
qed (auto simp: tracing_mw_def)

section \<open>Every request\<close>

definition route_label :: "('c \<Rightarrow> route) \<Rightarrow> 'c http_request \<Rightarrow> string" where
  "route_label route_of req = (case req_Match req of Matched c \<Rightarrow> rt_path (route_of c) | _ \<Rightarrow> [])"

lemma global_answers:
  assumes "inner nxt" "declared (srv_metrics s)"
  shows "\<exists>x s'. global_mw rs fullPath req nxt (new_exchange ip st) s = Some (None, x, s') \<and> xc_written x \<and>
    declared (srv_metrics s') \<and> HTTPRequestsInFlight (srv_metrics s') = HTTPRequestsInFlight (srv_metrics s) \<and>
    (if req_Method req = ''OPTIONS'' then xc_status x = 204 \<and> xc_body x = [] \<and> s' = s
     else xc_header x ''X-Request-Id'' = Some (if req_Header req ''X-Request-Id'' = []
         then rs_uuid rs (drawn (srv_world s)) else req_Header req ''X-Request-Id'') \<and>
       answered_or_recovered fullPath req s x s')"
proof (cases "req_Method req = ''OPTIONS''")
  case True
  with assms(2) show ?thesis by (simp add: global_mw_def CORS_def new_exchange_def)
next
  case False
  let ?given = "req_Header req ''X-Request-Id''" and ?fresh = "rs_uuid rs (drawn (srv_world s))"
  let ?x0 = "cors_headers (req_Header req) (new_exchange ip st)"
  let ?s = "if ?given = [] then s\<lparr>srv_world := (srv_world s)\<lparr>drawn := drawn (srv_world s) + 1\<rparr>\<rparr> else s"
  let ?x = "set_header ''X-Request-Id'' (if ?given = [] then ?fresh else ?given)
      (?x0\<lparr>xc_ctx := RequestID ?given ?fresh (xc_ctx ?x0)\<rparr>)"
  let ?rest = "Recover (Metrics fullPath req (AccessLog req nxt))"
  obtain x1 where x1: "tracing_mw rs req ?rest ?x ?s = ?rest x1 ?s" "xc_written x1 = xc_written ?x"
      "xc_body x1 = xc_body ?x" "xc_header x1 = xc_header ?x"
    using tracing_frame [of rs req ?rest ?x ?s] by blast
  have "declared (srv_metrics ?s)" "\<not> xc_written x1" "xc_body x1 = []"
    using assms(2) x1 by (simp_all add: set_header_def new_exchange_def)
  from recovered [OF assms(1) this, of fullPath req] obtain x2 s2 where
    r: "?rest x1 ?s = Some (None, x2, s2)" "xc_written x2" "declared (srv_metrics s2)"
      "HTTPRequestsInFlight (srv_metrics s2) = HTTPRequestsInFlight (srv_metrics ?s)" "xc_header x2 = xc_header x1"
      "answered_or_recovered fullPath req ?s x2 s2" by blast
  have "global_mw rs fullPath req nxt (new_exchange ip st) s = Some (None, x2, s2)"
    using False x1(1) r(1) by (simp add: global_mw_def CORS_def RequestID_mw_def Let_def)
  moreover have "answered_or_recovered fullPath req s x2 s2"
    using r(6) by (simp add: answered_or_recovered_def split: if_splits)
  ultimately show ?thesis
    using False r x1(4) by (simp add: set_header_def)
qed

text \<open>
  C35. Every request that the framework does not redirect is answered, whatever its handler does,
  a panic included, if only it comes to an end: the number of requests in flight is what it was;
  a preflight request is answered 204 with no effect on anything; every other one carries the
  client's request id or a fresh one, and is either in the access log once and counted once
  under its method, its route and its status, or, after a panic, answered 500 with code 1000,
  in the log of panics, and in neither of the two.
\<close>

theorem every_request_answered:
  assumes "declared (srv_metrics s)" "\<And>st. req_Match req \<noteq> Redirected st"
    and "\<And>c ctx g w. req_Match req = Matched c \<Longrightarrow> h c ctx g w \<noteq> None"
  shows "\<exists>x s'. ServeHTTP rs route_of h req s = Some (None, x, s') \<and> xc_written x \<and> declared (srv_metrics s') \<and>
    HTTPRequestsInFlight (srv_metrics s') = HTTPRequestsInFlight (srv_metrics s) \<and>
    (if req_Method req = ''OPTIONS'' then xc_status x = 204 \<and> xc_body x = [] \<and> s' = s
     else xc_header x ''X-Request-Id'' = Some (if req_Header req ''X-Request-Id'' = []
         then rs_uuid rs (drawn (srv_world s)) else req_Header req ''X-Request-Id'') \<and>
       answered_or_recovered (route_label route_of req) req s x s')"
proof -
  note chain = global_answers [OF _ assms(1)]
  show ?thesis
  proof (cases "req_Match req")
    case (Matched c)
    have "inner (guarded (rs_auth rs) (rt_access (route_of c)) req (h c))"
      by (rule inner_guarded) (use assms(3) Matched in simp)
    from chain [OF this] show ?thesis
      unfolding ServeHTTP_def route_label_def Matched gin_match.case .
  next
    case Unmatched
    from chain [OF inner_NoRoute] show ?thesis
      unfolding ServeHTTP_def route_label_def Unmatched gin_match.case .
  qed (use assms(2) in simp)
qed

section \<open>An example\<close>

definition ex_settings :: "'c router_settings" where
  "ex_settings = \<lparr>rs_auth = ex_auth, rs_TracingEnabled = False, rs_TracingSvcName = [], rs_otel = (\<lambda>_ _. None),
     rs_uuid = (\<lambda>_. ''u'')\<rparr>"

definition ex_server :: "unit server" where
  "ex_server = \<lparr>srv_world = ex_auth_world ex_user 5000, srv_guard = (), srv_metrics = the metrics_New,
     srv_access = [], srv_panics = []\<rparr>"

lemma ex_server_declared: "declared (srv_metrics ex_server)"
proof -
  obtain m where m: "metrics_New = Some m" "declared m" using metrics_New_declared by blast
  have e: "srv_metrics ex_server = m" unfolding ex_server_def m(1) by simp
  show ?thesis unfolding e by (rule m(2))
qed

definition ex_ping :: "unit http_request" where
  "ex_ping = \<lparr>req_Method = ''GET'', req_Path = ''/api/v1/ping'', req_Query = [], req_Header = (\<lambda>_. []),
     req_ClientIP = ''10.0.0.1'', req_Match = Matched ()\<rparr>"

definition ex_crash :: "unit \<Rightarrow> unit endpoint" where
  "ex_crash _ ctx g w = Some ((Panicked ''boom'', g), w)"

theorem every_request_answered_witness:
  "\<exists>x s'. ServeHTTP ex_settings (\<lambda>_. rte ''GET'' ''/api/v1/ping'' Public ''Ping'') ex_crash ex_ping ex_server =
       Some (None, x, s') \<and> xc_written x \<and> xc_header x ''X-Request-Id'' = Some ''u'' \<and>
     HTTPRequestsInFlight (srv_metrics s') = HTTPRequestsInFlight (srv_metrics ex_server) \<and>
     answered_or_recovered ''/api/v1/ping'' ex_ping ex_server x s'"
proof -
  have "h \<noteq> None" if "h = ex_crash c ctx g w" for h c ctx g w using that by (simp add: ex_crash_def)
  then show ?thesis
    using every_request_answered [OF ex_server_declared, of ex_ping ex_crash ex_settings
        "\<lambda>_. rte ''GET'' ''/api/v1/ping'' Public ''Ping''"]
    by (simp add: ex_ping_def route_label_def rte_def ex_settings_def) blast
qed

end
