(* ===== verification/ApiTheorems.thy ===== *)
theory ApiTheorems
  imports ApiFrames ServerTheorems AuthTheorems
begin

text \<open>
  The whole of the API: what a request can do, with every handler behind its route and the
  middleware around it, and what the user who made it is allowed to do at that time.
\<close>

section \<open>The middleware around a handler\<close>

lemma Recover_world:
  "Recover (Metrics fp req (AccessLog req nxt)) x s = Some (p, x', s') \<Longrightarrow>
    \<exists>s1 p2 x2 s2. nxt x s1 = Some (p2, x2, s2) \<and> srv_world s1 = srv_world s \<and> srv_world s' = srv_world s2"
  by (auto simp: Recover_def Metrics_def AccessLog_def Let_def split: option.splits prod.splits) force+

lemma global_world:
  assumes "global_mw rs fp req nxt x s = Some (p, x', s')"
  shows "if req_Method req = ''OPTIONS'' then srv_world s' = srv_world s else
    (\<exists>x1 s1 p2 x2 s2 n. nxt x1 s1 = Some (p2, x2, s2) \<and> gc_keys (xc_ctx x1) = gc_keys (xc_ctx x) \<and>
       srv_world s1 = (srv_world s)\<lparr>drawn := n\<rparr> \<and> srv_world s' = srv_world s2)"
proof (cases "req_Method req = ''OPTIONS''")
  case True
  with assms show ?thesis by (simp add: global_mw_def CORS_def)
next
  case False
  let ?rest = "Recover (Metrics fp req (AccessLog req nxt))"
  let ?given = "req_Header req ''X-Request-Id''"
  let ?sa = "if ?given = [] then s\<lparr>srv_world := (srv_world s)\<lparr>drawn := drawn (srv_world s) + 1\<rparr>\<rparr> else s"
  have "srv_world ?sa = (srv_world s)\<lparr>drawn := drawn (srv_world ?sa)\<rparr>" by simp
  moreover obtain xa where "tracing_mw rs req ?rest xa ?sa = Some (p, x', s')" "gc_keys (xc_ctx xa) = gc_keys (xc_ctx x)"
    using assms False by (fastforce simp: global_mw_def CORS_def RequestID_mw_def RequestID_def set_header_def Let_def)
  ultimately obtain xa sa where a: "tracing_mw rs req ?rest xa sa = Some (p, x', s')"
      "gc_keys (xc_ctx xa) = gc_keys (xc_ctx x)" "\<exists>n. srv_world sa = (srv_world s)\<lparr>drawn := n\<rparr>" by blast
  obtain xb where b: "tracing_mw rs req ?rest xa sa = ?rest xb sa" "gc_keys (xc_ctx xb) = gc_keys (xc_ctx xa)"
    using tracing_frame [of rs req ?rest xa sa] by blast
  obtain s1 p2 x2 s2 where "nxt xb s1 = Some (p2, x2, s2)" "srv_world s1 = srv_world sa" "srv_world s' = srv_world s2"
    using Recover_world [of fp req nxt xb sa p x' s'] a(1) b(1) by auto
  with False a(2,3) b(2) show ?thesis by (simp add: False) metis
qed

section \<open>Who may do it\<close>

definition bearer :: "'c http_request \<Rightarrow> string" where
  "bearer req = TrimSpace (TrimPrefix (req_Header req ''Authorization'') ''Bearer '')"

definition token_of :: "authService \<Rightarrow> 'c http_request \<Rightarrow> time \<Rightarrow> jwtClaims option" where
  "token_of auth req now = ae_parse (as_env auth) (ac_JWTSecret (as_cfg auth)) now (bearer req)"

text \<open>
  The token is one the service issued, as far as its lists go: its checksum digests them, names
  have no separators, and its digest is no collision with that of the user's present lists.
\<close>

definition token_sound :: "authService \<Rightarrow> jwtClaims \<Rightarrow> tables \<Rightarrow> tables \<Rightarrow> bool" where
  "token_sound auth c t t' =
     (jc_RBACChecksum c = computeRBACChecksum (ae_sha256hex (as_env auth)) (jc_Roles c) (jc_Permissions c) \<and>
      (\<forall>n \<in> set (jc_Roles c) \<union> set (jc_Permissions c) \<union> role_Slug ` set (roles t) \<union>
         perm_Name ` set (permissions t). plain_name n) \<and>
      (\<forall>rs ps. ae_sha256hex (as_env auth) (rbac_payload (jc_Roles c) (jc_Permissions c)) =
           ae_sha256hex (as_env auth) (rbac_payload rs ps) \<longrightarrow> (rs, ps) = rbac_of auth (jc_UserID c) t' \<longrightarrow>
         rbac_payload (jc_Roles c) (jc_Permissions c) = rbac_payload rs ps))"

text \<open>The user of the token exists, is active, and holds the permission that the route needs.\<close>

definition entitled :: "authService \<Rightarrow> access \<Rightarrow> jwtClaims option \<Rightarrow> tables \<Rightarrow> tables \<Rightarrow> bool" where
  "entitled auth a token t t' = (a = Public \<or>
     (\<exists>c u. token = Some c \<and> find_user (jc_UserID c) t = Some u \<and> user_Status u = 1 \<and>
        (\<forall>p. a = Needs p \<longrightarrow> p \<in> set (user_permission_names (jc_UserID c) t'))))"

lemma accounts_same:
  assumes "unchanged F t t'" "Accounts \<notin> F"
  shows "user_permission_names i t' = user_permission_names i t" "rbac_of auth i t' = rbac_of auth i t"
proof -
  have same: "roles t' = roles t" "permissions t' = permissions t" "role_permissions t' = role_permissions t"
    "user_roles t' = user_roles t"
    using assms by (simp_all add: unchanged_def)
  show names: "user_permission_names i t' = user_permission_names i t"
    unfolding user_permission_names_def same by (rule refl)
  show "rbac_of auth i t' = rbac_of auth i t"
    unfolding rbac_of_def names user_role_slugs_def same by (rule refl)
qed

lemma JWTAuth_user:
  assumes "sched w = []" "run_state (JWTAuth auth header path) w = (Continue k, w')"
  shows "\<exists>c u. ae_parse (as_env auth) (ac_JWTSecret (as_cfg auth)) (clock w)
      (TrimSpace (TrimPrefix header ''Bearer '')) = Some c \<and> CurrentUserID k = Some (jc_UserID c) \<and>
    find_user (jc_UserID c) (tbl w) = Some u \<and> user_Status u = 1"
proof -
  obtain tc where tc: "fst (run_state (ParseToken auth (TrimSpace (TrimPrefix header ''Bearer ''))) w) = Inr tc"
    "run_state (ValidateSession auth tc) w = (Inr (), w')" "CurrentUserID k = Some (tc_UserID tc)"
    using assms(2) unfolding JWTAuth_def Let_def ParseToken_def
    by (auto simp: abort_with_def parseTokenWithUse_def run_local split: if_splits sum.splits prod.splits option.splits)
  obtain c where c: "ae_parse (as_env auth) (ac_JWTSecret (as_cfg auth)) (clock w)
      (TrimSpace (TrimPrefix header ''Bearer '')) = Some c" "tc_UserID tc = jc_UserID c"
    using tc(1) by (auto simp: ParseToken_def parseTokenWithUse_def run_local Let_def split: if_splits option.splits)
  obtain u where u: "find_user (jc_UserID c) (tbl w) = Some u"
    using tc(2) c(2) assms(1) by (cases "find_user (jc_UserID c) (tbl w)") (auto simp: ValidateSession_def run_call_as run_users)
  have "user_Status u = 1"
    using tc(2) run_ValidateSession [OF assms(1), of tc u auth] u c(2) by (auto split: if_splits)
  with c tc(3) u show ?thesis by auto
qed

lemma admit_entitled:
  assumes "sched w = []" "sha_ok (as_env auth)" "collate_ok (as_env auth)"
    and adm: "run_state (admit auth a (req_Header req ''Authorization'') path) w = (Continue keys, w')"
    and sound: "\<And>c. token_of auth req (clock w) = Some c \<Longrightarrow> token_sound auth c (tbl w) (tbl w')"
  shows "entitled auth a (token_of auth req (clock w)) (tbl w) (tbl w')"
proof (cases a)
  case SignedIn
  with adm have "run_state (JWTAuth auth (req_Header req ''Authorization'') path) w = (Continue keys, w')"
    by (simp add: admit_def)
  from JWTAuth_user [OF assms(1) this] SignedIn show ?thesis
    by (auto simp: entitled_def token_of_def bearer_def)
next
  case (Needs p)
  obtain k v where j: "run_state (JWTAuth auth (req_Header req ''Authorization'') path) w = (Continue k, v)" "keys = k"
    using adm Needs by (auto simp: admit_def RequirePermission_def abort_with_def split: gate.splits prod.splits if_splits)
  obtain c u where c: "token_of auth req (clock w) = Some c" "CurrentUserID k = Some (jc_UserID c)"
      "find_user (jc_UserID c) (tbl w) = Some u" "user_Status u = 1"
    using JWTAuth_user [OF assms(1) j(1)] by (auto simp: token_of_def bearer_def)
  note t = sound [OF c(1), unfolded token_sound_def]
  have "\<exists>u. CurrentUserID keys = Some (user_ID u) \<and> find_user (user_ID u) (tbl w) = Some u \<and> user_Status u = 1 \<and>
    (\<forall>l. user_LastLoginAt u = Some l \<longrightarrow> l \<le> jc_SessionIssuedAt c) \<and>
    p \<in> set (user_permission_names (user_ID u) (tbl w'))"
    by (rule admit_authorized [OF assms(1-3) adm [unfolded Needs]])
      (use t c(1) in \<open>auto simp: token_of_def bearer_def\<close>)
  then show ?thesis using Needs c j(2) by (auto simp: entitled_def)
qed (simp add: entitled_def)

section \<open>Effects and rights\<close>

lemma unchanged_mono: "unchanged F t t' \<Longrightarrow> F \<subseteq> G \<Longrightarrow> unchanged G t t'"
  unfolding unchanged_def by blast

lemma request_effects:
  assumes "serve rs d req s = Some (p, x, s')" "req_Match req = Matched q" "sched (srv_world s) = []"
    and "sha_ok (as_env (rs_auth rs))" "collate_ok (as_env (rs_auth rs))"
    and sound: "\<And>c. token_of (rs_auth rs) req (clock (srv_world s)) = Some c \<Longrightarrow>
      token_sound (rs_auth rs) c (tbl (srv_world s)) (tbl (srv_world s'))"
  shows "(\<exists>qs. rpc_log (srv_world s') = rpc_log (srv_world s) @ qs \<and>
      list_all (\<lambda>r. needed r = rt_access (route_of q)) qs) \<and>
    unchanged (insert Accounts (may_change (rt_access (route_of q)))) (tbl (srv_world s)) (tbl (srv_world s')) \<and>
    (LocalFiles \<notin> may_change (rt_access (route_of q)) \<longrightarrow> files (srv_world s') = files (srv_world s)) \<and>
    (entitled (rs_auth rs) (rt_access (route_of q)) (token_of (rs_auth rs) req (clock (srv_world s)))
       (tbl (srv_world s)) (tbl (srv_world s')) \<or>
     rpc_log (srv_world s') = rpc_log (srv_world s) \<and> files (srv_world s') = files (srv_world s) \<and>
     unchanged {Accounts} (tbl (srv_world s)) (tbl (srv_world s')))"
proof -
  let ?a = "rt_access (route_of q)" and ?w = "srv_world s"
  have "global_mw rs (rt_path (route_of q)) req (guarded (rs_auth rs) ?a req (dispatch d q))
      (new_exchange (req_ClientIP req) 200) s = Some (p, x, s')"
    using assms(1,2) by (simp add: serve_def ServeHTTP_def)
  from global_world [OF this] consider (none) "srv_world s' = ?w" |
    (run) x1 s1 p2 x2 s2 n where "guarded (rs_auth rs) ?a req (dispatch d q) x1 s1 = Some (p2, x2, s2)"
      "gc_keys (xc_ctx x1) = no_keys" "srv_world s1 = ?w\<lparr>drawn := n\<rparr>" "srv_world s' = srv_world s2"
    by (auto simp: new_exchange_def split: if_splits)
  then show ?thesis
  proof cases
    case run
    let ?w0 = "?w\<lparr>drawn := n\<rparr>"
    obtain g w1 where adm: "run_state (admit (rs_auth rs) ?a (req_Header req ''Authorization'') (req_Path req)) ?w0 = (g, w1)"
      by fastforce
    have w1: "acts (\<lambda>_. False) {Accounts} ?w0 w1"
      using keepsD [OF acts_admit [of "{Accounts}" "\<lambda>_. False"]] adm by (metis insertI1 snd_conv)
    then have before: "rpc_log w1 = rpc_log ?w" "files w1 = files ?w" "unchanged {Accounts} (tbl ?w) (tbl w1)" "alone w1"
      using assms(3) by (auto simp: acts_def alone_def list_all_iff)
    show ?thesis
    proof (cases g)
      case (Abort st c m)
      have "srv_world s2 = w1"
        using guarded_Abort [of "rs_auth rs" ?a req s1 st c m w1 "dispatch d q" x1] adm run(1,3) Abort by auto
      with run(4) before show ?thesis by (auto intro: unchanged_mono)
    next
      case (Continue keys)
      obtain r g' w2 where d: "dispatch d q ((xc_ctx x1)\<lparr>gc_keys := keys\<rparr>) (srv_guard s1) w1 = Some ((r, g'), w2)"
          "srv_world s2 = w2"
        using guarded_Continue [of "rs_auth rs" ?a req s1 keys w1 x1 "dispatch d q"] adm run(1-3) Continue
        by (auto simp: run_endpoint_def split: option.splits prod.splits handled.splits)
      have acts: "acts (\<lambda>r. needed r = ?a) (may_change ?a) w1 w2" by (rule dispatch_acts [OF d(1)])
      have after: "\<exists>qs. rpc_log w2 = rpc_log w1 @ qs \<and> list_all (\<lambda>r. needed r = ?a) qs"
          "unchanged (may_change ?a) (tbl w1) (tbl w2)" "LocalFiles \<notin> may_change ?a \<longrightarrow> files w2 = files w1"
        using acts before(4) by (auto simp: acts_def)
      have ent: "entitled (rs_auth rs) ?a (token_of (rs_auth rs) req (clock ?w)) (tbl ?w) (tbl w2)"
      proof (cases ?a)
        case (Needs perm)
        then have "Accounts \<notin> may_change ?a" by (auto simp: may_change_def)
        note same = accounts_same [OF after(2) this]
        have "entitled (rs_auth rs) ?a (token_of (rs_auth rs) req (clock ?w0)) (tbl ?w0) (tbl w1)"
          by (rule admit_entitled [OF _ assms(4,5) adm [unfolded Continue]])
            (use sound run(4) d(2) same assms(3) in \<open>auto simp: token_sound_def\<close>)
        then show ?thesis by (simp add: entitled_def same)
      next
        case SignedIn
        obtain k v where "run_state (JWTAuth (rs_auth rs) (req_Header req ''Authorization'') (req_Path req)) ?w0 = (Continue k, v)"
          using adm SignedIn Continue by (auto simp: admit_def)
        from JWTAuth_user [OF _ this] assms(3) SignedIn show ?thesis
          by (auto simp: entitled_def token_of_def bearer_def)
      qed (simp add: entitled_def)
      have "unchanged (insert Accounts (may_change ?a)) (tbl ?w) (tbl w2)"
        by (rule unchanged_trans [OF unchanged_mono [OF before(3)] unchanged_mono [OF after(2)]]) auto
      with after ent before run(4) d(2) show ?thesis by auto
    qed
  qed simp
qed

text \<open>
  C4. Complete mediation, for the whole API: serving a request, with nothing else writing to the
  database and the database answering, sends the agent only requests that
  the route's access is for, and changes only the parts of the backend's data that it is for
  (the audit log grows, except by its own retention); and if the request had any effect beyond
  the accounts, then the user of its token existed, was active, and held the permission of the
  route by the roles stored when it was served.
\<close>

theorem effects_authorized:
  assumes "serve rs d req s = Some (p, x, s')" "req_Match req = Matched q" "sched (srv_world s) = []"
    and "sha_ok (as_env (rs_auth rs))" "collate_ok (as_env (rs_auth rs))"
    and sound: "\<And>c. token_of (rs_auth rs) req (clock (srv_world s)) = Some c \<Longrightarrow>
      token_sound (rs_auth rs) c (tbl (srv_world s)) (tbl (srv_world s'))"
  shows "(\<exists>qs. rpc_log (srv_world s') = rpc_log (srv_world s) @ qs \<and>
      list_all (\<lambda>r. needed r = rt_access (route_of q)) qs) \<and>
    unchanged (insert Accounts (may_change (rt_access (route_of q)))) (tbl (srv_world s)) (tbl (srv_world s')) \<and>
    (LocalFiles \<notin> may_change (rt_access (route_of q)) \<longrightarrow> files (srv_world s') = files (srv_world s)) \<and>
    (entitled (rs_auth rs) (rt_access (route_of q)) (token_of (rs_auth rs) req (clock (srv_world s)))
       (tbl (srv_world s)) (tbl (srv_world s')) \<or>
     rpc_log (srv_world s') = rpc_log (srv_world s) \<and> files (srv_world s') = files (srv_world s) \<and>
     unchanged {Accounts} (tbl (srv_world s)) (tbl (srv_world s')))"
  using assms by (rule request_effects)

text \<open>The requests to the agent that change nothing there.\<close>

fun reads :: "rpc_request \<Rightarrow> bool" where
  "reads (ListFilesReq _) = True"
| "reads (ReadTextFileReq _ _ _) = True"
| "reads (ReadFileChunkReq _ _ _) = True"
| "reads CheckHealthReq = True"
| "reads GetSystemOverviewReq = True"
| "reads GetRealtimeResourceReq = True"
| "reads _ = False"

lemma operator_reads:
  assumes "a \<in> {Public, SignedIn} \<or> (\<exists>p \<in> set operatorPermissions. a = Needs p)"
  shows "needed r = a \<Longrightarrow> reads r" "may_change a \<subseteq> {Accounts}"
  using assms by (cases r; auto simp: operatorPermissions_def may_change_def)+

text \<open>
  C12. What the default role of new users opens. A request whose user holds no permission beyond
  the two of the operator role (by the roles stored when it was served), or whose token names
  nobody, served with nothing else writing to the database and the database answering, sends
  the agent only requests that read, and changes nothing of the backend's own data but the
  accounts (sessions, passwords, the role of a user without one): no task, backup, setting or
  local file, and the audit log only grows.
\<close>

theorem operator_read_only:
  assumes "serve rs d req s = Some (p, x, s')" "req_Match req = Matched q" "sched (srv_world s) = []"
    and "sha_ok (as_env (rs_auth rs))" "collate_ok (as_env (rs_auth rs))"
    and sound: "\<And>c. token_of (rs_auth rs) req (clock (srv_world s)) = Some c \<Longrightarrow>
      token_sound (rs_auth rs) c (tbl (srv_world s)) (tbl (srv_world s'))"
    and operator: "\<And>c. token_of (rs_auth rs) req (clock (srv_world s)) = Some c \<Longrightarrow>
      set (user_permission_names (jc_UserID c) (tbl (srv_world s'))) \<subseteq> set operatorPermissions"
  shows "(\<exists>qs. rpc_log (srv_world s') = rpc_log (srv_world s) @ qs \<and> list_all reads qs) \<and>
    unchanged {Accounts} (tbl (srv_world s)) (tbl (srv_world s')) \<and> files (srv_world s') = files (srv_world s)"
proof -
  let ?a = "rt_access (route_of q)" and ?token = "token_of (rs_auth rs) req (clock (srv_world s))"
  note all = request_effects [OF assms(1-5) sound]
  show ?thesis
  proof (cases "entitled (rs_auth rs) ?a ?token (tbl (srv_world s)) (tbl (srv_world s'))")
    case True
    then have "?a \<in> {Public, SignedIn} \<or> (\<exists>p \<in> set operatorPermissions. ?a = Needs p)"
      using operator by (cases ?a) (auto simp: entitled_def)
    note op = operator_reads [OF this]
    have "insert Accounts (may_change ?a) = {Accounts}" "LocalFiles \<notin> may_change ?a"
      using op(2) by auto
    with all op(1) show ?thesis by (auto simp: list_all_iff)
  next
    case False
    with all have "rpc_log (srv_world s') = rpc_log (srv_world s)" "files (srv_world s') = files (srv_world s)"
      "unchanged {Accounts} (tbl (srv_world s)) (tbl (srv_world s'))" by auto
    then show ?thesis by simp
  qed
qed

definition ex_claims :: jwtClaims where
  "ex_claims = session_claims ex_auth ex_user ([''op''], [''files.read'']) False tokenUseAccess (24 * Hour) 3000 3000 ''t''"

definition ex_list :: "unit api_call http_request" where
  "ex_list = \<lparr>req_Method = ''GET'', req_Path = ''/api/v1/files/list'', req_Query = ''path=/etc'',
     req_Header = (\<lambda>k. if k = ''Authorization'' then ''Bearer '' @ enc_str ''k'' @ enc_claims ex_claims else []),
     req_ClientIP = ''10.0.0.1'', req_Match = Matched (Call_ListFiles (Some ''/etc''))\<rparr>"

lemma ex_bearer: "TrimSpace (TrimPrefix (req_Header ex_list ''Authorization'') ''Bearer '') = enc_str ''k'' @ enc_claims ex_claims"
  unfolding ex_list_def using Bearer_token [of "enc_str ''k'' @ enc_claims ex_claims"] ex_token_trim by simp

lemma ex_claims_issued: "issued_token ex_auth (enc_str ''k'' @ enc_claims ex_claims) ex_claims"
  by (simp add: issued_token_def ex_token_trim ex_auth_env_def)

lemma ex_admitted:
  "\<exists>keys. run_state (admit ex_auth (Needs ''files.read'') (req_Header ex_list ''Authorization'') path)
    (ex_auth_world ex_user 5000\<lparr>drawn := n\<rparr>) = (Continue keys, ex_auth_world ex_user 5000\<lparr>drawn := n\<rparr>)"
proof -
  let ?w = "ex_auth_world ex_user 5000\<lparr>drawn := n\<rparr>" and ?tok = "enc_str ''k'' @ enc_claims ex_claims"
  let ?tc = "token_claims ex_auth ex_user ([''op''], [''files.read'']) False tokenUseAccess 3000"
  have parse: "run_state (ParseToken ex_auth ?tok) ?w = (Inr ?tc, ?w)"
    using run_parse_issued [OF _ _ ex_claims_issued [unfolded ex_claims_def], of ?w tokenUseAccess] ex_libs
    by (simp add: ParseToken_def libs_ok_def NewNumericDate_def duration_defs ex_claims_def)
  have valid: "run_state (ValidateSession ex_auth ?tc) ?w = (Inr (), ?w)"
    using ex_bob_live [of 3000 False tokenUseAccess 5000]
    by (simp add: run_ValidateSession [where u = ex_user])
  have "HasPrefix (req_Header ex_list ''Authorization'') ''Bearer ''" "req_Header ex_list ''Authorization'' \<noteq> []"
    by (simp_all add: ex_list_def)
  with parse valid ex_bearer show ?thesis
    by (simp add: admit_def JWTAuth_def Let_def RequirePermission_def GetCurrentPermissions_def)
qed

lemma run_ListFiles_handler:
  "\<exists>r ms. run_state (FileHandler_ListFiles h None c (Some ''/etc'')) w =
    (r, w\<lparr>rpc_log := rpc_log w @ [ListFilesReq ''/etc''], metrics := metrics w @ ms\<rparr>)"
proof -
  have "TrimSpace ''/etc'' = ''/etc''" by (simp add: TrimSpace_plain)
  moreover obtain m where "run_state (agent_rpc ''file.list'' (conn_ListFiles h) (ListFilesReq ''/etc'')) w =
     (reply_of (conn_ListFiles h (rpc_log w) (ListFilesReq ''/etc'')),
      w\<lparr>rpc_log := rpc_log w @ [ListFilesReq ''/etc''], metrics := metrics w @ [m]\<rparr>)"
    using run_agent_rpc by blast
  ultimately show ?thesis
    by (cases "reply_of (conn_ListFiles h (rpc_log w) (ListFilesReq ''/etc''))")
      (auto simp: FileHandler_ListFiles_def bound_def audited_def ListFiles_def translated_def Client_ListFiles_def
        recordAudit_def)
qed

lemma ex_list_served:
  "\<exists>x s'. serve ex_settings (d\<lparr>dep_AuditService := None\<rparr>) ex_list ex_server = Some (None, x, s') \<and>
     rpc_log (srv_world s') = [ListFilesReq ''/etc''] \<and> tbl (srv_world s') = ex_auth_tables ex_user"
proof -
  let ?q = "Call_ListFiles (Some ''/etc'') :: unit api_call" and ?d = "d\<lparr>dep_AuditService := None\<rparr>"
  let ?nxt = "guarded ex_auth (Needs ''files.read'') ex_list (dispatch ?d ?q)"
  have "inner ?nxt" by (rule inner_guarded) (simp add: handler_def split: prod.splits)
  from global_answers [OF this ex_server_declared, of ex_settings "''/api/v1/files/list''" ex_list "''10.0.0.1''" 200]
  obtain x s' where g: "global_mw ex_settings ''/api/v1/files/list'' ex_list ?nxt (new_exchange ''10.0.0.1'' 200) ex_server =
      Some (None, x, s')" by blast
  from global_world [OF this] obtain x1 s1 p2 x2 s2 n where run: "?nxt x1 s1 = Some (p2, x2, s2)"
      "gc_keys (xc_ctx x1) = no_keys" "srv_world s1 = ex_auth_world ex_user 5000\<lparr>drawn := n\<rparr>" "srv_world s' = srv_world s2"
    by (auto simp: ex_list_def new_exchange_def ex_server_def)
  obtain keys where "run_state (admit ex_auth (Needs ''files.read'') (req_Header ex_list ''Authorization'') (req_Path ex_list))
      (srv_world s1) = (Continue keys, srv_world s1)" using ex_admitted run(3) by metis
  from guarded_Continue [OF this run(2), of "dispatch ?d ?q"] run(1)
  have e: "run_endpoint (dispatch ?d ?q) (x1\<lparr>xc_ctx := (xc_ctx x1)\<lparr>gc_keys := keys\<rparr>\<rparr>) s1 = Some (p2, x2, s2)"
    by simp
  obtain r ms where "run_state (FileHandler_ListFiles (dep_FileService d) None ((xc_ctx x1)\<lparr>gc_keys := keys\<rparr>) (Some ''/etc''))
      (srv_world s1) = (r, (srv_world s1)\<lparr>rpc_log := rpc_log (srv_world s1) @ [ListFilesReq ''/etc''],
        metrics := metrics (srv_world s1) @ ms\<rparr>)" using run_ListFiles_handler by blast
  with e have "srv_world s2 = (srv_world s1)\<lparr>rpc_log := rpc_log (srv_world s1) @ [ListFilesReq ''/etc''],
      metrics := metrics (srv_world s1) @ ms\<rparr>" by (auto simp: run_endpoint_def handler_def)
  moreover have "rpc_log (ex_auth_world ex_user 5000) = []" by (simp add: ex_auth_world_def init_world_def)
  moreover have "serve ex_settings ?d ex_list ex_server = Some (None, x, s')"
    using g by (simp add: serve_def ServeHTTP_def ex_list_def ex_settings_def rte_def)
  ultimately show ?thesis using run(3,4) by auto
qed

lemma ex_served_env:
  "rs_auth ex_settings = ex_auth" "srv_world ex_server = ex_auth_world ex_user 5000"
  "req_Match ex_list = Matched (Call_ListFiles (Some ''/etc''))" "rpc_log (ex_auth_world ex_user 5000) = []"
  by (simp_all add: ex_settings_def ex_server_def ex_list_def ex_auth_world_def init_world_def)

lemma ex_token_of: "token_of ex_auth ex_list 5000 = Some ex_claims"
  using ex_claims_issued unfolding token_of_def bearer_def ex_bearer
  by (simp add: issued_token_def ex_claims_def session_claims_def NewNumericDate_def duration_defs)

lemma ex_token_sound: "token_sound ex_auth ex_claims (ex_auth_tables ex_user) (ex_auth_tables ex_user)"
proof -
  have "\<forall>n \<in> {''op'', ''files.read''} \<union> role_Slug ` set (roles (ex_auth_tables ex_user)) \<union>
      perm_Name ` set (permissions (ex_auth_tables ex_user)). plain_name n"
    by (simp add: plain_name_def ex_auth_tables_def)
  then show ?thesis by (auto simp: token_sound_def ex_claims_def session_claims_def)
qed

theorem effects_authorized_witness:
  "\<forall>d. \<exists>x s'. serve ex_settings (d\<lparr>dep_AuditService := None\<rparr>) ex_list ex_server = Some (None, x, s') \<and>
     rpc_log (srv_world s') = [ListFilesReq ''/etc''] \<and>
     entitled ex_auth (Needs ''files.read'') (Some ex_claims) (ex_auth_tables ex_user) (tbl (srv_world s'))"
proof
  fix d :: "unit RouterDeps"
  let ?d = "d\<lparr>dep_AuditService := None\<rparr>"
  obtain x s' where s: "serve ex_settings ?d ex_list ex_server = Some (None, x, s')"
      "rpc_log (srv_world s') = [ListFilesReq ''/etc'']" "tbl (srv_world s') = ex_auth_tables ex_user"
    using ex_list_served by blast
  have "entitled ex_auth (Needs ''files.read'') (Some ex_claims) (ex_auth_tables ex_user) (tbl (srv_world s'))"
    using effects_authorized [OF s(1) ex_served_env(3)] ex_libs s(2,3) ex_token_of ex_token_sound
    by (auto simp: ex_served_env rte_def libs_ok_def)
  with s show "\<exists>x s'. serve ex_settings ?d ex_list ex_server = Some (None, x, s') \<and>
     rpc_log (srv_world s') = [ListFilesReq ''/etc''] \<and>
     entitled ex_auth (Needs ''files.read'') (Some ex_claims) (ex_auth_tables ex_user) (tbl (srv_world s'))" by blast
qed

theorem operator_read_only_witness:
  "\<forall>d. \<exists>x s' qs. serve ex_settings (d\<lparr>dep_AuditService := None\<rparr>) ex_list ex_server = Some (None, x, s') \<and>
     rpc_log (srv_world s') = [ListFilesReq ''/etc''] \<and> rpc_log (srv_world s') = [] @ qs \<and> list_all reads qs \<and>
     unchanged {Accounts} (ex_auth_tables ex_user) (tbl (srv_world s'))"
proof
  fix d :: "unit RouterDeps"
  let ?d = "d\<lparr>dep_AuditService := None\<rparr>"
  obtain x s' where s: "serve ex_settings ?d ex_list ex_server = Some (None, x, s')"
      "rpc_log (srv_world s') = [ListFilesReq ''/etc'']" "tbl (srv_world s') = ex_auth_tables ex_user"
    using ex_list_served by blast
  have user: "set (user_permission_names (jc_UserID ex_claims) (ex_auth_tables ex_user)) \<subseteq> set operatorPermissions"
  proof -
    have "user_permission_names 7 (ex_auth_tables ex_user) = [''files.read'']"
      using ex_rbac(1) by (simp add: rbac_of_def ex_auth_env_def)
    then show ?thesis by (simp add: ex_claims_def session_claims_def operatorPermissions_def)
  qed
  have "(\<exists>qs. rpc_log (srv_world s') = [] @ qs \<and> list_all reads qs) \<and>
      unchanged {Accounts} (ex_auth_tables ex_user) (tbl (srv_world s'))"
    using operator_read_only [OF s(1) ex_served_env(3)] ex_libs s(3) ex_token_of ex_token_sound user
    by (auto simp: ex_served_env libs_ok_def)
  with s show "\<exists>x s' qs. serve ex_settings ?d ex_list ex_server = Some (None, x, s') \<and>
     rpc_log (srv_world s') = [ListFilesReq ''/etc''] \<and> rpc_log (srv_world s') = [] @ qs \<and> list_all reads qs \<and>
     unchanged {Accounts} (ex_auth_tables ex_user) (tbl (srv_world s'))" by blast
qed

end
