(* ===== verification/Config.thy ===== *)
theory Config
  imports AuthService Encryption AgentSystem
begin

text \<open>
  \<^verbatim>\<open>internal/config/config.go\<close>: the configuration of the process, from environment variables and a
  \<^verbatim>\<open>.env\<close> file by way of \<^verbatim>\<open>viper\<close>. A key has the value of its non-empty environment variable or
  else of the file (\<open>vp_source\<close>), or else its default. The conversions of \<^verbatim>\<open>viper\<close> (a text that is
  no number counts as zero, one that is no truth value as false), \<^verbatim>\<open>time.ParseDuration\<close> and
  the system's randomness are parameters.
\<close>

section \<open>The configuration\<close>

record ServerConfig =
  srv_Host :: string
  srv_Port :: string
  srv_ReadTimeout :: duration
  srv_WriteTimeout :: duration

record DatabaseConfig =
  dbc_Host :: string
  dbc_Port :: int
  dbc_User :: string
  dbc_Password :: string
  dbc_Name :: string
  dbc_SSLMode :: string
  dbc_Timezone :: string
  dbc_MaxOpenConns :: int
  dbc_MaxIdleConns :: int
  dbc_MaxLifetime :: duration

record RedisConfig =
  rdc_Host :: string
  rdc_Port :: int
  rdc_Password :: string
  rdc_DB :: int

record SecurityConfig =
  scc_EncryptionKey :: string
  scc_EncryptionKeyID :: string

record TracingConfig =
  trc_Enabled :: bool
  trc_ServiceName :: string
  trc_ServiceVersion :: string
  trc_OTLPEndpoint :: string
  trc_Insecure :: bool
  trc_SampleRatio :: float64

record AgentAuthConfig =
  agc_Mode :: string
  agc_SharedToken :: string
  agc_TLSCAFile :: string
  agc_TLSCertFile :: string
  agc_TLSKeyFile :: string

record TaskWorkerConfig =
  twc_Enabled :: bool
  twc_WorkerID :: string
  twc_Concurrency :: int
  twc_LeaseDuration :: duration
  twc_PollInterval :: duration
  twc_MaxAttempts :: int

record AuditConfig =
  auc_RetentionDays :: int
  auc_ExportMaxRows :: int

record BackupConfig =
  bkc_RetentionDays :: int
  bkc_LocalDir :: string

record Config =
  cfg_AppEnv :: string
  cfg_Server :: ServerConfig
  cfg_Database :: DatabaseConfig
  cfg_Redis :: RedisConfig
  cfg_Auth :: AuthConfig
  cfg_Security :: SecurityConfig
  cfg_Tracing :: TracingConfig
  cfg_AgentAuth :: AgentAuthConfig
  cfg_TaskWorker :: TaskWorkerConfig
  cfg_Audit :: AuditConfig
  cfg_Backup :: BackupConfig
  cfg_AgentTarget :: string
  cfg_AgentTimeout :: duration

section \<open>Sources and defaults\<close>

datatype setting_value = StrVal string | IntVal int | BoolVal bool | FloatVal float64

record viper =
  vp_source :: "string \<rightharpoonup> string"
  vp_ToInt :: "string \<Rightarrow> int"
  vp_ToBool :: "string \<Rightarrow> bool"
  vp_ToFloat64 :: "string \<Rightarrow> float64"
  vp_ParseDuration :: "string \<Rightarrow> duration result"
  vp_random :: "nat \<Rightarrow> nat \<Rightarrow> string result"

definition config_defaults :: "(string \<times> setting_value) list" where
  "config_defaults =
     [(''APP_ENV'', StrVal ''development''), (''BACKEND_HOST'', StrVal ''0.0.0.0''),
      (''BACKEND_PORT'', StrVal ''8080''), (''BACKEND_READ_TIMEOUT'', StrVal ''5s''),
      (''BACKEND_WRITE_TIMEOUT'', StrVal ''10s''), (''AGENT_TARGET'', StrVal ''127.0.0.1:50051''),
      (''AGENT_TIMEOUT'', StrVal ''3s''), (''BACKEND_AGENT_AUTH_MODE'', StrVal ''none''),
      (''BACKEND_AGENT_SHARED_TOKEN'', StrVal []), (''BACKEND_AGENT_TLS_CA_FILE'', StrVal []),
      (''BACKEND_AGENT_TLS_CERT_FILE'', StrVal []), (''BACKEND_AGENT_TLS_KEY_FILE'', StrVal []),
      (''JWT_SECRET'', StrVal []), (''JWT_ISSUER'', StrVal ''snowpanel-backend''),
      (''JWT_EXPIRE'', StrVal ''24h''), (''JWT_REFRESH_EXPIRE'', StrVal ''168h''),
      (''LOGIN_ATTEMPT_STORE'', StrVal ''memory''),
      (''LOGIN_ATTEMPT_REDIS_PREFIX'', StrVal ''snowpanel:auth:attempt''),
      (''LOGIN_MAX_FAILURES'', IntVal 5), (''LOGIN_FAILURE_WINDOW'', StrVal ''15m''),
      (''LOGIN_LOCK_DURATION'', StrVal ''15m''), (''BOOTSTRAP_ADMIN'', BoolVal True),
      (''DEFAULT_ADMIN_USERNAME'', StrVal ''admin''),
      (''DEFAULT_ADMIN_EMAIL'', StrVal ''admin@snowpanel.local''), (''DEFAULT_ADMIN_PASSWORD'', StrVal []),
      (''SNOWPANEL_ENCRYPTION_KEY'', StrVal []), (''SNOWPANEL_ENCRYPTION_KEY_ID'', StrVal []),
      (''TASK_WORKER_ENABLED'', BoolVal True), (''TASK_WORKER_ID'', StrVal []),
      (''TASK_WORKER_CONCURRENCY'', IntVal 2), (''TASK_WORKER_LEASE_DURATION'', StrVal ''30s''),
      (''TASK_WORKER_POLL_INTERVAL'', StrVal ''2s''), (''TASK_WORKER_MAX_ATTEMPTS'', IntVal 3),
      (''AUDIT_RETENTION_DAYS'', IntVal 180), (''AUDIT_EXPORT_MAX_ROWS'', IntVal 100000),
      (''BACKUP_RETENTION_DAYS'', IntVal 30), (''BACKUP_LOCAL_DIR'', StrVal ''var/backups''),
      (''OTEL_TRACING_ENABLED'', BoolVal False), (''OTEL_SERVICE_NAME'', StrVal ''snowpanel-backend''),
      (''OTEL_SERVICE_VERSION'', StrVal []), (''OTEL_EXPORTER_OTLP_ENDPOINT'', StrVal []),
      (''OTEL_EXPORTER_OTLP_INSECURE'', BoolVal True), (''OTEL_TRACES_SAMPLER_ARG'', FloatVal (Finite 1)),
      (''POSTGRES_HOST'', StrVal ''127.0.0.1''), (''POSTGRES_PORT'', IntVal 5432),
      (''POSTGRES_USER'', StrVal ''snowpanel''), (''POSTGRES_PASSWORD'', StrVal ''snowpanel''),
      (''POSTGRES_DB'', StrVal ''snowpanel''), (''POSTGRES_SSLMODE'', StrVal ''disable''),
      (''POSTGRES_TIMEZONE'', StrVal ''UTC''), (''POSTGRES_MAX_OPEN_CONNS'', IntVal 20),
      (''POSTGRES_MAX_IDLE_CONNS'', IntVal 5), (''POSTGRES_CONN_MAX_LIFETIME'', StrVal ''30m''),
      (''REDIS_HOST'', StrVal ''127.0.0.1''), (''REDIS_PORT'', IntVal 6379), (''REDIS_PASSWORD'', StrVal []),
      (''REDIS_DB'', IntVal 0)]"

text \<open>Each getter is called for keys whose default has its type.\<close>

definition GetString :: "viper \<Rightarrow> string \<Rightarrow> string" where
  "GetString v key = (case vp_source v key of Some s \<Rightarrow> s
     | None \<Rightarrow> (case map_of config_defaults key of Some (StrVal s) \<Rightarrow> s | _ \<Rightarrow> []))"

definition GetInt :: "viper \<Rightarrow> string \<Rightarrow> int" where
  "GetInt v key = (case vp_source v key of Some s \<Rightarrow> vp_ToInt v s
     | None \<Rightarrow> (case map_of config_defaults key of Some (IntVal n) \<Rightarrow> n | _ \<Rightarrow> 0))"

definition GetBool :: "viper \<Rightarrow> string \<Rightarrow> bool" where
  "GetBool v key = (case vp_source v key of Some s \<Rightarrow> vp_ToBool v s
     | None \<Rightarrow> (case map_of config_defaults key of Some (BoolVal b) \<Rightarrow> b | _ \<Rightarrow> False))"

definition GetFloat64 :: "viper \<Rightarrow> string \<Rightarrow> float64" where
  "GetFloat64 v key = (case vp_source v key of Some s \<Rightarrow> vp_ToFloat64 v s
     | None \<Rightarrow> (case map_of config_defaults key of Some (FloatVal x) \<Rightarrow> x | _ \<Rightarrow> Finite 0))"

section \<open>Normalisation\<close>

definition mustDuration :: "viper \<Rightarrow> string \<Rightarrow> duration \<Rightarrow> duration" where
  "mustDuration v raw fallback =
     (if raw = [] then fallback
      else case vp_ParseDuration v raw of Inl _ \<Rightarrow> fallback | Inr value \<Rightarrow> value)"

definition normalizeEnv :: "golib \<Rightarrow> string \<Rightarrow> string" where
  "normalizeEnv lib raw =
     (let normalized = TrimSpace (ToLower (lower_uni lib) raw)
      in if normalized = [] then ''development'' else normalized)"

definition normalizeLoginAttemptStore :: "golib \<Rightarrow> string \<Rightarrow> string" where
  "normalizeLoginAttemptStore lib raw =
     (let normalized = TrimSpace (ToLower (lower_uni lib) raw)
      in if normalized = ''redis'' then ''redis'' else ''memory'')"

definition normalizeAgentAuthMode :: "golib \<Rightarrow> string \<Rightarrow> string" where
  "normalizeAgentAuthMode lib raw =
     (let normalized = TrimSpace (ToLower (lower_uni lib) raw)
      in if normalized = [] then ''none'' else normalized)"

definition config_isProductionEnv :: "golib \<Rightarrow> string \<Rightarrow> bool" where
  "config_isProductionEnv lib raw = (normalizeEnv lib raw = ''production'')"

definition weakValues :: "string list" where
  "weakValues = [''change-me-in-production'', ''changeme'', ''password'', ''admin123456'', ''snowpanel'']"

definition isWeakJWTSecret :: "golib \<Rightarrow> string \<Rightarrow> bool" where
  "isWeakJWTSecret lib secret =
     (let trimmed = TrimSpace secret in
      if length trimmed < 32 then True
      else list_ex (Contains (ToLower (lower_uni lib) trimmed)) weakValues)"

definition config_isStrongPassword :: "string \<Rightarrow> bool" where
  "config_isStrongPassword raw =
     (let password = TrimSpace raw
      in if length password < 14 then False
         else case password_loop password (False, False, False, False) of
           (hasUpper, hasLower, hasDigit, hasSymbol) \<Rightarrow> hasUpper \<and> hasLower \<and> hasDigit \<and> hasSymbol)"

definition generateDevJWTSecret :: "viper \<Rightarrow> nat \<Rightarrow> (world, string result) state" where
  "generateDevJWTSecret v byteLen = do {
     n \<leftarrow> draw;
     ret (case vp_random v n byteLen of Inl err \<Rightarrow> Inl err | Inr buffer \<Rightarrow> Inr (EncodeRawURL buffer))
   }"

definition clampSampleRatio :: "float64 \<Rightarrow> float64" where
  "clampSampleRatio raw = (case raw of
       NaN \<Rightarrow> NaN | NegInf \<Rightarrow> Finite 0 | PosInf \<Rightarrow> Finite 1
     | Finite x \<Rightarrow> if x < 0 then Finite 0 else if x > 1 then Finite 1 else Finite x)"

section \<open>Loading\<close>

definition load_with :: "viper \<Rightarrow> golib \<Rightarrow> string \<Rightarrow> string \<Rightarrow> Config" where
  "load_with v lib appEnv jwtSecret =
     \<lparr>cfg_AppEnv = appEnv,
      cfg_Server = \<lparr>srv_Host = GetString v ''BACKEND_HOST'', srv_Port = GetString v ''BACKEND_PORT'',
        srv_ReadTimeout = mustDuration v (GetString v ''BACKEND_READ_TIMEOUT'') (5 * Second),
        srv_WriteTimeout = mustDuration v (GetString v ''BACKEND_WRITE_TIMEOUT'') (10 * Second)\<rparr>,
      cfg_Database = \<lparr>dbc_Host = GetString v ''POSTGRES_HOST'', dbc_Port = GetInt v ''POSTGRES_PORT'',
        dbc_User = GetString v ''POSTGRES_USER'', dbc_Password = GetString v ''POSTGRES_PASSWORD'',
        dbc_Name = GetString v ''POSTGRES_DB'', dbc_SSLMode = GetString v ''POSTGRES_SSLMODE'',
        dbc_Timezone = GetString v ''POSTGRES_TIMEZONE'', dbc_MaxOpenConns = GetInt v ''POSTGRES_MAX_OPEN_CONNS'',
        dbc_MaxIdleConns = GetInt v ''POSTGRES_MAX_IDLE_CONNS'',
        dbc_MaxLifetime = mustDuration v (GetString v ''POSTGRES_CONN_MAX_LIFETIME'') (30 * Minute)\<rparr>,
      cfg_Redis = \<lparr>rdc_Host = GetString v ''REDIS_HOST'', rdc_Port = GetInt v ''REDIS_PORT'',
        rdc_Password = GetString v ''REDIS_PASSWORD'', rdc_DB = GetInt v ''REDIS_DB''\<rparr>,
      cfg_Auth = \<lparr>ac_AppEnv = appEnv, ac_JWTSecret = jwtSecret, ac_JWTIssuer = GetString v ''JWT_ISSUER'',
        ac_JWTExpire = mustDuration v (GetString v ''JWT_EXPIRE'') (24 * Hour),
        ac_JWTRefreshExpire = mustDuration v (GetString v ''JWT_REFRESH_EXPIRE'') (7 * 24 * Hour),
        ac_LoginAttemptStore = normalizeLoginAttemptStore lib (GetString v ''LOGIN_ATTEMPT_STORE''),
        ac_LoginAttemptPrefix = TrimSpace (GetString v ''LOGIN_ATTEMPT_REDIS_PREFIX''),
        ac_LoginMaxFailures = GetInt v ''LOGIN_MAX_FAILURES'',
        ac_LoginFailureWindow = mustDuration v (GetString v ''LOGIN_FAILURE_WINDOW'') (15 * Minute),
        ac_LoginLockDuration = mustDuration v (GetString v ''LOGIN_LOCK_DURATION'') (15 * Minute),
        ac_BootstrapAdmin = GetBool v ''BOOTSTRAP_ADMIN'',
        ac_DefaultAdminUsername = GetString v ''DEFAULT_ADMIN_USERNAME'',
        ac_DefaultAdminEmail = GetString v ''DEFAULT_ADMIN_EMAIL'',
        ac_DefaultAdminPassword = GetString v ''DEFAULT_ADMIN_PASSWORD''\<rparr>,
      cfg_Security = \<lparr>scc_EncryptionKey = TrimSpace (GetString v ''SNOWPANEL_ENCRYPTION_KEY''),
        scc_EncryptionKeyID = TrimSpace (GetString v ''SNOWPANEL_ENCRYPTION_KEY_ID'')\<rparr>,
      cfg_Tracing = \<lparr>trc_Enabled = GetBool v ''OTEL_TRACING_ENABLED'',
        trc_ServiceName = TrimSpace (GetString v ''OTEL_SERVICE_NAME''),
        trc_ServiceVersion = TrimSpace (GetString v ''OTEL_SERVICE_VERSION''),
        trc_OTLPEndpoint = TrimSpace (GetString v ''OTEL_EXPORTER_OTLP_ENDPOINT''),
        trc_Insecure = GetBool v ''OTEL_EXPORTER_OTLP_INSECURE'',
        trc_SampleRatio = clampSampleRatio (GetFloat64 v ''OTEL_TRACES_SAMPLER_ARG'')\<rparr>,
      cfg_AgentAuth = \<lparr>agc_Mode = normalizeAgentAuthMode lib (GetString v ''BACKEND_AGENT_AUTH_MODE''),
        agc_SharedToken = TrimSpace (GetString v ''BACKEND_AGENT_SHARED_TOKEN''),
        agc_TLSCAFile = TrimSpace (GetString v ''BACKEND_AGENT_TLS_CA_FILE''),
        agc_TLSCertFile = TrimSpace (GetString v ''BACKEND_AGENT_TLS_CERT_FILE''),
        agc_TLSKeyFile = TrimSpace (GetString v ''BACKEND_AGENT_TLS_KEY_FILE'')\<rparr>,
      cfg_TaskWorker = \<lparr>twc_Enabled = GetBool v ''TASK_WORKER_ENABLED'',
        twc_WorkerID = TrimSpace (GetString v ''TASK_WORKER_ID''),
        twc_Concurrency = GetInt v ''TASK_WORKER_CONCURRENCY'',
        twc_LeaseDuration = mustDuration v (GetString v ''TASK_WORKER_LEASE_DURATION'') (30 * Second),
        twc_PollInterval = mustDuration v (GetString v ''TASK_WORKER_POLL_INTERVAL'') (2 * Second),
        twc_MaxAttempts = GetInt v ''TASK_WORKER_MAX_ATTEMPTS''\<rparr>,
      cfg_Audit = \<lparr>auc_RetentionDays = GetInt v ''AUDIT_RETENTION_DAYS'',
        auc_ExportMaxRows = GetInt v ''AUDIT_EXPORT_MAX_ROWS''\<rparr>,
      cfg_Backup = \<lparr>bkc_RetentionDays = GetInt v ''BACKUP_RETENTION_DAYS'',
        bkc_LocalDir = TrimSpace (GetString v ''BACKUP_LOCAL_DIR'')\<rparr>,
      cfg_AgentTarget = GetString v ''AGENT_TARGET'',
      cfg_AgentTimeout = mustDuration v (GetString v ''AGENT_TIMEOUT'') (3 * Second)\<rparr>"

definition Load :: "viper \<Rightarrow> golib \<Rightarrow> (world, Config) state" where
  "Load v lib = do {
     let appEnv = normalizeEnv lib (GetString v ''APP_ENV'');
     let jwtSecret = TrimSpace (GetString v ''JWT_SECRET'');
     secret \<leftarrow> (if \<not> config_isProductionEnv lib appEnv \<and> isWeakJWTSecret lib jwtSecret
       then do {
         generated \<leftarrow> generateDevJWTSecret v 48;
         ret (case generated of Inl _ \<Rightarrow> jwtSecret | Inr g \<Rightarrow> g)
       }
       else ret jwtSecret);
     ret (load_with v lib appEnv secret)
   }"

section \<open>Validation\<close>

definition agent_auth_error :: "AgentAuthConfig \<Rightarrow> go_error option" where
  "agent_auth_error a =
     (if agc_Mode a \<in> {[], ''none''} then None
      else if agc_Mode a = ''token'' then
        (if TrimSpace (agc_SharedToken a) = []
         then Some (Plain ''BACKEND_AGENT_SHARED_TOKEN cannot be empty when BACKEND_AGENT_AUTH_MODE=token'')
         else None)
      else if agc_Mode a = ''mtls''
      then Some (Plain ''BACKEND_AGENT_AUTH_MODE=mtls is reserved but not implemented yet'')
      else Some (Plain ''BACKEND_AGENT_AUTH_MODE must be one of: none, token, mtls''))"

definition Validate :: "golib \<Rightarrow> Config \<Rightarrow> go_error option" where
  "Validate lib c =
     (let production = config_isProductionEnv lib (cfg_AppEnv c); auth = cfg_Auth c; worker = cfg_TaskWorker c;
          rawStore = TrimSpace (ToLower (lower_uni lib) (ac_LoginAttemptStore auth))
      in if production \<and> isWeakJWTSecret lib (ac_JWTSecret auth)
         then Some (Plain ''JWT_SECRET must be explicitly set to a strong value in production'')
         else if ac_BootstrapAdmin auth \<and> TrimSpace (ac_DefaultAdminUsername auth) = []
         then Some (Plain ''DEFAULT_ADMIN_USERNAME cannot be empty when BOOTSTRAP_ADMIN=true'')
         else if ac_BootstrapAdmin auth \<and> TrimSpace (ac_DefaultAdminEmail auth) = []
         then Some (Plain ''DEFAULT_ADMIN_EMAIL cannot be empty when BOOTSTRAP_ADMIN=true'')
         else if ac_BootstrapAdmin auth \<and> production \<and>
           \<not> config_isStrongPassword (ac_DefaultAdminPassword auth)
         then Some (Plain ''DEFAULT_ADMIN_PASSWORD must be strong in production when BOOTSTRAP_ADMIN=true'')
         else if rawStore \<noteq> [] \<and> rawStore \<noteq> ''memory'' \<and> rawStore \<noteq> ''redis''
         then Some (Plain ''LOGIN_ATTEMPT_STORE must be one of: memory, redis'')
         else case (if TrimSpace (scc_EncryptionKey (cfg_Security c)) \<noteq> []
             then (case DecodeEncryptionKey (scc_EncryptionKey (cfg_Security c)) of Inl err \<Rightarrow> Some err | Inr _ \<Rightarrow> None)
             else None) of
           Some err \<Rightarrow> Some err
         | None \<Rightarrow>
             if twc_Concurrency worker < 1 then Some (Plain ''TASK_WORKER_CONCURRENCY must be greater than 0'')
             else if twc_LeaseDuration worker \<le> 0 then Some (Plain ''TASK_WORKER_LEASE_DURATION must be greater than 0'')
             else if twc_PollInterval worker \<le> 0 then Some (Plain ''TASK_WORKER_POLL_INTERVAL must be greater than 0'')
             else if twc_MaxAttempts worker < 1 then Some (Plain ''TASK_WORKER_MAX_ATTEMPTS must be greater than 0'')
             else if auc_RetentionDays (cfg_Audit c) < 1 then Some (Plain ''AUDIT_RETENTION_DAYS must be greater than 0'')
             else if auc_ExportMaxRows (cfg_Audit c) < 1 then Some (Plain ''AUDIT_EXPORT_MAX_ROWS must be greater than 0'')
             else if bkc_RetentionDays (cfg_Backup c) < 1 then Some (Plain ''BACKUP_RETENTION_DAYS must be greater than 0'')
             else if TrimSpace (bkc_LocalDir (cfg_Backup c)) = [] then Some (Plain ''BACKUP_LOCAL_DIR cannot be empty'')
             else agent_auth_error (cfg_AgentAuth c))"

section \<open>Addresses\<close>

definition Server_Address :: "ServerConfig \<Rightarrow> string" where
  "Server_Address c = srv_Host c @ '':'' @ srv_Port c"

definition Redis_Address :: "RedisConfig \<Rightarrow> string" where
  "Redis_Address c = rdc_Host c @ '':'' @ itoa (rdc_Port c)"

definition DSN :: "DatabaseConfig \<Rightarrow> string" where
  "DSN c = ''host='' @ dbc_Host c @ '' port='' @ itoa (dbc_Port c) @ '' user='' @ dbc_User c @
     '' password='' @ dbc_Password c @ '' dbname='' @ dbc_Name c @ '' sslmode='' @ dbc_SSLMode c @
     '' TimeZone='' @ dbc_Timezone c"

end
