(* ===== verification/Startup.thy ===== *)
theory Startup
  imports Config SystemSettings RedisLimiter TaskService AuditService AuthExample
begin

text \<open>
  \<^verbatim>\<open>cmd/server/main.go\<close> up to the moment at which the server listens: the order of the checks that
  end the process, and how the services are made from the configuration. The connection to the
  database and the ping of Redis are parameters; the logger decides nothing, tracing is in \<^theory_text>\<open>Connections\<close>.
\<close>

section \<open>Services from the configuration\<close>

definition audit_options :: "Config \<Rightarrow> AuditServiceOptions" where
  "audit_options cfg = \<lparr>aso_RetentionDays = auc_RetentionDays (cfg_Audit cfg),
     aso_ExportMaxRows = auc_ExportMaxRows (cfg_Audit cfg)\<rparr>"

definition agent_auth :: "Config \<Rightarrow> agent_AuthConfig" where
  "agent_auth cfg = \<lparr>aac_Mode = agc_Mode (cfg_AgentAuth cfg), aac_SharedToken = agc_SharedToken (cfg_AgentAuth cfg)\<rparr>"

definition main_backupService :: "Config \<Rightarrow> backupService \<Rightarrow> backupService" where
  "main_backupService cfg ext =
     NewBackupServiceWithOptions (bkc_RetentionDays (cfg_Backup cfg)) (bkc_LocalDir (cfg_Backup cfg)) ext"

definition main_taskService :: "Config \<Rightarrow> backupService \<Rightarrow> taskService \<Rightarrow> taskService" where
  "main_taskService cfg bs ext = NewTaskServiceWithOptions (ext
     \<lparr>ts_AsyncExecution := \<not> twc_Enabled (cfg_TaskWorker cfg),
      ts_MaxAttempts := twc_MaxAttempts (cfg_TaskWorker cfg), ts_metrics := True,
      ts_backupService := Some bs\<rparr>)"

definition worker_options :: "Config \<Rightarrow> TaskWorkerOptions" where
  "worker_options cfg = \<lparr>wo_WorkerID = twc_WorkerID (cfg_TaskWorker cfg),
     wo_Concurrency = twc_Concurrency (cfg_TaskWorker cfg),
     wo_LeaseDuration = twc_LeaseDuration (cfg_TaskWorker cfg),
     wo_PollInterval = twc_PollInterval (cfg_TaskWorker cfg)\<rparr>"

text \<open>The guard of the logins: the one in Redis only when it is configured and answers the ping.\<close>

definition main_guard ::
  "Config \<Rightarrow> bool \<Rightarrow> redis \<Rightarrow> (nat \<Rightarrow> command_fate) \<Rightarrow> LoginAttemptLimiter + RedisLoginAttemptLimiter" where
  "main_guard cfg ping server fates =
     (let auth = cfg_Auth cfg in
      if ac_LoginAttemptStore auth = ''redis'' \<and> ping
      then Inr (NewRedisLoginAttemptLimiter True server fates
        \<lparr>rao_MaxFailures = ac_LoginMaxFailures auth, rao_FailureWindow = ac_LoginFailureWindow auth,
         rao_LockDuration = ac_LoginLockDuration auth, rao_KeyPrefix = ac_LoginAttemptPrefix auth,
         rao_CommandTimeout = 0\<rparr>)
      else Inl (NewLoginAttemptLimiter
        \<lparr>lao_MaxFailures = ac_LoginMaxFailures auth, lao_FailureWindow = ac_LoginFailureWindow auth,
         lao_LockDuration = ac_LoginLockDuration auth\<rparr>))"

section \<open>The checks\<close>

record backend =
  be_encryptor :: "Encryptor option"
  be_auth :: authService

text \<open>\<^verbatim>\<open>log.Fatalf\<close> and \<^verbatim>\<open>zapLogger.Fatal\<close> end the process with the error.\<close>

definition start_backend ::
  "viper \<Rightarrow> crypto \<Rightarrow> auth_env \<Rightarrow> (DatabaseConfig \<Rightarrow> go_error option) \<Rightarrow> (world, backend result) state" where
  "start_backend v cr libs connect = do {
     cfg \<leftarrow> Load v (ae_lib libs);
     case Validate (ae_lib libs) cfg of
       Some err \<Rightarrow> ret (Inl (Wrapf ''invalid runtime config'' err))
     | None \<Rightarrow> (case connect (cfg_Database cfg) of
         Some err \<Rightarrow> ret (Inl (Wrapf ''failed to connect postgres'' err))
       | None \<Rightarrow> (case newSettingsEncryptor cr (scc_EncryptionKey (cfg_Security cfg))
             (scc_EncryptionKeyID (cfg_Security cfg)) of
           Inl err \<Rightarrow> ret (Inl (Wrapf ''invalid settings encryption config'' err))
         | Inr encryptor \<Rightarrow> do {
             refused \<leftarrow> validateEncryptedSettingsStartup encryptor;
             case refused of
               Some err \<Rightarrow> ret (Inl (Wrapf ''invalid encrypted settings config'' err))
             | None \<Rightarrow> do {
                 let auth = NewAuthService libs (cfg_Auth cfg);
                 ensured \<leftarrow> EnsureDefaultAdmin auth;
                 ret (case ensured of
                     Inl err \<Rightarrow> Inl (Wrapf ''failed to ensure default admin'' err)
                   | Inr _ \<Rightarrow> Inr \<lparr>be_encryptor = encryptor, be_auth = auth\<rparr>)
               }
           }))
   }"

section \<open>The configuration and the services agree\<close>

lemma EqualFold_ascii:
  "EqualFold ufold s t \<Longrightarrow> isASCII s \<Longrightarrow> isASCII t \<Longrightarrow> map lower_byte s = map lower_byte t"
  by (induction ufold s t rule: EqualFold.induct) (auto simp: isASCII_def split: if_splits)

lemma production_plain:
  "TrimSpace ''production'' = ''production''" "isASCII ''production''" "map lower_byte ''production'' = ''production''"
  by (simp_all add: TrimSpace_plain) code_simp+

text \<open>The service's test for production (by folding) implies that of the configuration (by lowering).\<close>

lemma production_agrees:
  assumes "isASCII raw" "TrimSpace raw = raw" "isProductionEnv lib raw"
  shows "config_isProductionEnv lib raw"
proof -
  have "map lower_byte raw = ''production''"
    using EqualFold_ascii [of "fold_uni lib" raw "''production''"] assms production_plain
    by (simp add: isProductionEnv_def)
  then show ?thesis
    using assms(1) production_plain(1) by (simp add: config_isProductionEnv_def normalizeEnv_def ToLower_def)
qed

lemma TrimSpace_development: "TrimSpace ''development'' = ''development''"
  by (simp add: TrimSpace_plain)

lemma TrimSpace_normalizeEnv: "TrimSpace (normalizeEnv lib raw) = normalizeEnv lib raw"
  by (simp add: normalizeEnv_def Let_def TrimSpace_development)

lemma isStrongPassword_agrees: "config_isStrongPassword p = isStrongPassword p"
  by (simp add: config_isStrongPassword_def isStrongPassword_def)

lemma isStrongPassword_TrimSpace [simp]: "isStrongPassword (TrimSpace p) = isStrongPassword p"
  by (simp add: isStrongPassword_def)

lemma strong_not_empty: "isStrongPassword p \<Longrightarrow> TrimSpace p \<noteq> []"
  by (auto simp: isStrongPassword_def)

text \<open>What is loaded: the environment in its normal form, in both places.\<close>

lemma run_Load:
  "\<exists>secret w'. run_state (Load v lib) w = (load_with v lib (normalizeEnv lib (GetString v ''APP_ENV'')) secret, w') \<and>
    tbl w' = tbl w \<and> sched w' = sched w"
  by (auto simp: Load_def Let_def generateDevJWTSecret_def draw_def)

lemma loaded_env:
  assumes "run_state (Load v lib) w = (cfg, w')"
  shows "ac_AppEnv (cfg_Auth cfg) = cfg_AppEnv cfg \<and> TrimSpace (cfg_AppEnv cfg) = cfg_AppEnv cfg \<and>
    tbl w' = tbl w \<and> sched w' = sched w \<and> TrimSpace (bkc_LocalDir (cfg_Backup cfg)) = bkc_LocalDir (cfg_Backup cfg) \<and>
    TrimSpace (scc_EncryptionKey (cfg_Security cfg)) = scc_EncryptionKey (cfg_Security cfg)"
  using run_Load [of v lib w] assms by (auto simp: load_with_def TrimSpace_normalizeEnv)

text \<open>What validation demands.\<close>

lemma Validate_None:
  assumes "Validate lib cfg = None"
  shows "config_isProductionEnv lib (cfg_AppEnv cfg) \<Longrightarrow> \<not> isWeakJWTSecret lib (ac_JWTSecret (cfg_Auth cfg))"
    and "ac_BootstrapAdmin (cfg_Auth cfg) \<Longrightarrow> TrimSpace (ac_DefaultAdminUsername (cfg_Auth cfg)) \<noteq> []"
    and "ac_BootstrapAdmin (cfg_Auth cfg) \<Longrightarrow> TrimSpace (ac_DefaultAdminEmail (cfg_Auth cfg)) \<noteq> []"
    and "ac_BootstrapAdmin (cfg_Auth cfg) \<Longrightarrow> config_isProductionEnv lib (cfg_AppEnv cfg) \<Longrightarrow>
      isStrongPassword (ac_DefaultAdminPassword (cfg_Auth cfg))"
    and "TrimSpace (scc_EncryptionKey (cfg_Security cfg)) \<noteq> [] \<Longrightarrow>
      \<exists>k. DecodeEncryptionKey (scc_EncryptionKey (cfg_Security cfg)) = Inr k"
    and "1 \<le> twc_Concurrency (cfg_TaskWorker cfg)" "0 < twc_LeaseDuration (cfg_TaskWorker cfg)"
      "0 < twc_PollInterval (cfg_TaskWorker cfg)" "1 \<le> twc_MaxAttempts (cfg_TaskWorker cfg)"
      "1 \<le> auc_RetentionDays (cfg_Audit cfg)" "1 \<le> auc_ExportMaxRows (cfg_Audit cfg)"
      "1 \<le> bkc_RetentionDays (cfg_Backup cfg)" "TrimSpace (bkc_LocalDir (cfg_Backup cfg)) \<noteq> []"
  using assms unfolding Validate_def Let_def
  by (auto simp: isStrongPassword_agrees split: if_splits option.splits sum.splits)

lemma run_resolveBootstrapPassword:
  assumes "run_state (Load v (ae_lib libs)) w = (cfg, w')" "Validate (ae_lib libs) cfg = None"
    and "isASCII (cfg_AppEnv cfg)" "ac_BootstrapAdmin (cfg_Auth cfg)" "random_ok libs"
  shows "\<exists>p. fst (run_state (resolveBootstrapPassword (NewAuthService libs (cfg_Auth cfg))) w0) = Inr p \<and>
    (isProductionEnv (ae_lib libs) (cfg_AppEnv cfg) \<longrightarrow> isStrongPassword p)"
proof -
  note v = Validate_None(2-4) [OF assms(2)]
  have prod: "isProductionEnv (ae_lib libs) (cfg_AppEnv cfg) \<Longrightarrow> isStrongPassword (ac_DefaultAdminPassword (cfg_Auth cfg))"
    using production_agrees [OF assms(3)] loaded_env [OF assms(1)] v(3) assms(4) by blast
  obtain b where "ae_random libs (drawn w0) 24 = Inr b"
    using assms(5) unfolding random_ok_def by blast
  then show ?thesis
    using v(1,2) assms(4) prod strong_not_empty loaded_env [OF assms(1)]
    by (auto simp: resolveBootstrapPassword_def NewAuthService_def generateBootstrapPassword_def draw_def Let_def)
qed

text \<open>
  Where nothing validates, the constructors decide: the lifetimes of the tokens, and the limits of
  the guard, whichever of the two it is.
\<close>

definition positive_or :: "int \<Rightarrow> int \<Rightarrow> int" where
  "positive_or x d = (if 0 < x then x else d)"

definition guard_limits :: "LoginAttemptLimiter + RedisLoginAttemptLimiter \<Rightarrow> int \<times> duration \<times> duration" where
  "guard_limits g = (case g of
       Inl l \<Rightarrow> (lim_maxFailures l, lim_failureWindow l, lim_lockDuration l)
     | Inr l \<Rightarrow> (red_maxFailures l, red_failureWindow l, red_lockDuration l))"

lemma lifetimes_used:
  "ac_JWTExpire (as_cfg (NewAuthService libs auth)) = positive_or (ac_JWTExpire auth) (24 * Hour)"
  "ac_JWTRefreshExpire (as_cfg (NewAuthService libs auth)) = positive_or (ac_JWTRefreshExpire auth) (7 * 24 * Hour)"
  by (simp_all add: NewAuthService_def positive_or_def Let_def)

lemma limits_used:
  "guard_limits (main_guard cfg ping server fates) =
     (positive_or (ac_LoginMaxFailures (cfg_Auth cfg)) 5,
      positive_or (ac_LoginFailureWindow (cfg_Auth cfg)) (15 * Minute),
      positive_or (ac_LoginLockDuration (cfg_Auth cfg)) (15 * Minute))"
  by (simp add: guard_limits_def main_guard_def NewLoginAttemptLimiter_def NewRedisLoginAttemptLimiter_def
      positive_or_def defaultLoginMaxFailures_def defaultLoginFailureWindow_def defaultLoginLockDuration_def Let_def)

section \<open>Properties\<close>

text \<open>
  C30. How the values of a configuration that validates arrive in the services. The options of the
  worker (concurrency, lease, poll interval, attempts), of the audit log (retention, rows of an
  export) and of the backups (retention, directory) are used as they are: no constructor replaces
  one by a default of its own. The lifetimes of the tokens and the limits on logins (failures,
  window, lock), which the validation does not look at, are used where they are positive; in
  place of any other, the constructor puts its own default. The encryption key decodes to 32 bytes, and
  the bootstrap of the administrator finds a password, a strong one in production. The name of
  the environment is in ASCII.
\<close>

theorem validated_config_used:
  assumes "run_state (Load v (ae_lib libs)) w = (cfg, w')" "Validate (ae_lib libs) cfg = None"
    and "isASCII (cfg_AppEnv cfg)" "random_ok libs"
  shows "wo_Concurrency (normalizeTaskWorkerOptions host pid (worker_options cfg)) = twc_Concurrency (cfg_TaskWorker cfg) \<and>
    wo_LeaseDuration (normalizeTaskWorkerOptions host pid (worker_options cfg)) = twc_LeaseDuration (cfg_TaskWorker cfg) \<and>
    wo_PollInterval (normalizeTaskWorkerOptions host pid (worker_options cfg)) = twc_PollInterval (cfg_TaskWorker cfg) \<and>
    ts_MaxAttempts (main_taskService cfg bs ts) = twc_MaxAttempts (cfg_TaskWorker cfg) \<and>
    aud_retentionDays (NewAuditServiceWithOptions s (audit_options cfg)) = auc_RetentionDays (cfg_Audit cfg) \<and>
    aud_exportMaxRows (NewAuditServiceWithOptions s (audit_options cfg)) = auc_ExportMaxRows (cfg_Audit cfg) \<and>
    bs_retentionDays (main_backupService cfg ext) = bkc_RetentionDays (cfg_Backup cfg) \<and>
    bs_localDir (main_backupService cfg ext) = bkc_LocalDir (cfg_Backup cfg) \<and>
    ac_JWTExpire (as_cfg (NewAuthService libs (cfg_Auth cfg))) = positive_or (ac_JWTExpire (cfg_Auth cfg)) (24 * Hour) \<and>
    ac_JWTRefreshExpire (as_cfg (NewAuthService libs (cfg_Auth cfg))) =
      positive_or (ac_JWTRefreshExpire (cfg_Auth cfg)) (7 * 24 * Hour) \<and>
    guard_limits (main_guard cfg ping server fates) =
      (positive_or (ac_LoginMaxFailures (cfg_Auth cfg)) 5,
       positive_or (ac_LoginFailureWindow (cfg_Auth cfg)) (15 * Minute),
       positive_or (ac_LoginLockDuration (cfg_Auth cfg)) (15 * Minute)) \<and>
    (scc_EncryptionKey (cfg_Security cfg) \<noteq> [] \<longrightarrow>
      (\<exists>key. DecodeEncryptionKey (scc_EncryptionKey (cfg_Security cfg)) = Inr key \<and> length key = 32)) \<and>
    (ac_BootstrapAdmin (cfg_Auth cfg) \<longrightarrow>
      (\<exists>p. fst (run_state (resolveBootstrapPassword (NewAuthService libs (cfg_Auth cfg))) w0) = Inr p \<and>
        (isProductionEnv (ae_lib libs) (cfg_AppEnv cfg) \<longrightarrow> isStrongPassword p)))"
proof -
  note v = Validate_None [OF assms(2)] and l = loaded_env [OF assms(1)]
  have key: "DecodeEncryptionKey raw = Inr key \<Longrightarrow> length key = 32" for raw key
  proof -
    have "first_key es x = Some key \<Longrightarrow> length key = 32" for es x
      by (induction es x rule: first_key.induct) (auto simp: encryptionKeyBytes_def split: option.splits if_splits)
    then show "DecodeEncryptionKey raw = Inr key \<Longrightarrow> length key = 32"
      by (auto simp: DecodeEncryptionKey_def Let_def encryptionKeyBytes_def split: option.splits if_splits)
  qed
  show ?thesis
    using v(5-) l key run_resolveBootstrapPassword [OF assms(1-3) _ assms(4)]
    unfolding limits_used lifetimes_used
    by (auto simp: normalizeTaskWorkerOptions_def worker_options_def main_taskService_def NewTaskServiceWithOptions_def
        NewAuditServiceWithOptions_def audit_options_def main_backupService_def NewBackupServiceWithOptions_def Let_def)
qed

text \<open>A configuration for production: an environment with four variables, and numbers and durations
  left to their defaults.\<close>

definition ex_secret :: string where "ex_secret = ''0123456789abcdef0123456789abcdef''"

definition ex_viper :: viper where
  "ex_viper = \<lparr>vp_source = map_of [(''APP_ENV'', ''Production''), (''JWT_SECRET'', ex_secret),
       (''DEFAULT_ADMIN_PASSWORD'', ''Correct-Horse-1''),
       (''SNOWPANEL_ENCRYPTION_KEY'', b64_encode b64_std (replicate 32 (CHR ''k'')))],
     vp_ToInt = (\<lambda>_. 0), vp_ToBool = (\<lambda>_. False), vp_ToFloat64 = (\<lambda>_. Finite 0),
     vp_ParseDuration = (\<lambda>_. Inl (Lib ''time: invalid duration'')), vp_random = (\<lambda>_ _. Inl (Lib ''EOF''))\<rparr>"

lemma ex_viper_strings:
  "GetString ex_viper ''APP_ENV'' = ''Production''" "GetString ex_viper ''JWT_SECRET'' = ex_secret"
  "GetString ex_viper ''DEFAULT_ADMIN_USERNAME'' = ''admin''"
  "GetString ex_viper ''DEFAULT_ADMIN_EMAIL'' = ''admin@snowpanel.local''"
  "GetString ex_viper ''DEFAULT_ADMIN_PASSWORD'' = ''Correct-Horse-1''"
  "GetString ex_viper ''LOGIN_ATTEMPT_STORE'' = ''memory''"
  "GetString ex_viper ''SNOWPANEL_ENCRYPTION_KEY'' = b64_encode b64_std (replicate 32 (CHR ''k''))"
  "GetString ex_viper ''SNOWPANEL_ENCRYPTION_KEY_ID'' = []"
  "GetString ex_viper ''BACKUP_LOCAL_DIR'' = ''var/backups''"
  "GetString ex_viper ''BACKEND_AGENT_AUTH_MODE'' = ''none''"
  by (simp_all add: GetString_def ex_viper_def config_defaults_def)

lemma ex_viper_numbers:
  "GetInt ex_viper ''TASK_WORKER_CONCURRENCY'' = 2" "GetInt ex_viper ''TASK_WORKER_MAX_ATTEMPTS'' = 3"
  "GetInt ex_viper ''AUDIT_RETENTION_DAYS'' = 180" "GetInt ex_viper ''AUDIT_EXPORT_MAX_ROWS'' = 100000"
  "GetInt ex_viper ''BACKUP_RETENTION_DAYS'' = 30" "GetBool ex_viper ''BOOTSTRAP_ADMIN''"
  "mustDuration ex_viper raw fallback = fallback"
  by (simp_all add: GetInt_def GetBool_def mustDuration_def ex_viper_def config_defaults_def)

lemma ex_secret_strong: "\<not> isWeakJWTSecret lib ex_secret"
proof -
  have "TrimSpace ex_secret = ex_secret" by (simp add: TrimSpace_plain ex_secret_def)
  moreover have "isASCII ex_secret" "\<not> list_ex (Contains (map lower_byte ex_secret)) weakValues" "length ex_secret = 32"
    by code_simp+
  ultimately show ?thesis by (simp add: isWeakJWTSecret_def ToLower_def)
qed

lemma ex_plain:
  "TrimSpace ''admin'' = ''admin''" "TrimSpace ''admin@snowpanel.local'' = ''admin@snowpanel.local''"
  "TrimSpace ''Correct-Horse-1'' = ''Correct-Horse-1''" "TrimSpace ''memory'' = ''memory''"
  "TrimSpace ''var/backups'' = ''var/backups''" "TrimSpace ''none'' = ''none''" "TrimSpace ex_secret = ex_secret"
  by (simp_all add: TrimSpace_plain ex_secret_def)

lemma ex_lowered:
  "password_loop ''Correct-Horse-1'' (False, False, False, False) = (True, True, True, True)"
  by code_simp

lemma ToLower_ascii: "isASCII s \<Longrightarrow> map lower_byte s = t \<Longrightarrow> ToLower u s = t"
  by (simp add: ToLower_def)

lemma ex_ToLower:
  "ToLower u ''Production'' = ''production''" "ToLower u ''production'' = ''production''"
  "ToLower u ''memory'' = ''memory''" "ToLower u ''none'' = ''none''"
  by (rule ToLower_ascii; code_simp)+

lemma ex_normal:
  "normalizeEnv lib ''Production'' = ''production''" "normalizeEnv lib ''production'' = ''production''"
  "normalizeLoginAttemptStore lib ''memory'' = ''memory''" "normalizeAgentAuthMode lib ''none'' = ''none''"
  by (simp_all add: normalizeEnv_def normalizeLoginAttemptStore_def normalizeAgentAuthMode_def ex_ToLower
      ex_plain production_plain Let_def)

lemma ex_load:
  "run_state (Load ex_viper lib) w = (load_with ex_viper lib ''production'' ex_secret, w)"
  by (simp add: Load_def Let_def ex_viper_strings ex_normal ex_plain config_isProductionEnv_def)

definition ex_config :: "golib \<Rightarrow> Config" where
  "ex_config lib = load_with ex_viper lib ''production'' ex_secret"

lemma ex_config_fields:
  "cfg_AppEnv (ex_config lib) = ''production''" "ac_AppEnv (cfg_Auth (ex_config lib)) = ''production''"
  "ac_JWTSecret (cfg_Auth (ex_config lib)) = ex_secret" "ac_BootstrapAdmin (cfg_Auth (ex_config lib))"
  "ac_DefaultAdminUsername (cfg_Auth (ex_config lib)) = ''admin''"
  "ac_DefaultAdminEmail (cfg_Auth (ex_config lib)) = ''admin@snowpanel.local''"
  "ac_DefaultAdminPassword (cfg_Auth (ex_config lib)) = ''Correct-Horse-1''"
  "ac_LoginAttemptStore (cfg_Auth (ex_config lib)) = ''memory''"
  "scc_EncryptionKey (cfg_Security (ex_config lib)) = b64_encode b64_std (replicate 32 (CHR ''k''))"
  "cfg_TaskWorker (ex_config lib) = \<lparr>twc_Enabled = GetBool ex_viper ''TASK_WORKER_ENABLED'',
     twc_WorkerID = TrimSpace (GetString ex_viper ''TASK_WORKER_ID''), twc_Concurrency = 2,
     twc_LeaseDuration = 30 * Second, twc_PollInterval = 2 * Second, twc_MaxAttempts = 3\<rparr>"
  "cfg_Audit (ex_config lib) = \<lparr>auc_RetentionDays = 180, auc_ExportMaxRows = 100000\<rparr>"
  "cfg_Backup (ex_config lib) = \<lparr>bkc_RetentionDays = 30, bkc_LocalDir = ''var/backups''\<rparr>"
  "agc_Mode (cfg_AgentAuth (ex_config lib)) = ''none''"
  by (simp_all add: ex_config_def load_with_def ex_viper_strings ex_viper_numbers ex_normal ex_plain TrimSpace_b64)

lemma ex_key_decodes: "DecodeEncryptionKey (b64_encode b64_std (replicate 32 (CHR ''k''))) = Inr (replicate 32 (CHR ''k''))"
  by (rule generated_key_decodes) (simp add: encryptionKeyBytes_def)

lemma ex_valid: "Validate lib (ex_config lib) = None"
proof -
  have "config_isStrongPassword ''Correct-Horse-1''"
    by (simp add: config_isStrongPassword_def ex_plain ex_lowered del: password_loop.simps)
  then show ?thesis
    using ex_secret_strong [of lib]
    by (simp add: Validate_def Let_def ex_config_fields ex_plain ex_ToLower ex_key_decodes agent_auth_error_def duration_defs)
qed

theorem validated_config_used_witness:
  "wo_Concurrency (normalizeTaskWorkerOptions ''h'' 1 (worker_options (ex_config (ae_lib ex_auth_env)))) = 2 \<and>
    (\<exists>p. fst (run_state (resolveBootstrapPassword (NewAuthService ex_auth_env
      (cfg_Auth (ex_config (ae_lib ex_auth_env))))) init_world) = Inr p)"
proof -
  have "isASCII (cfg_AppEnv (ex_config (ae_lib ex_auth_env)))" "random_ok ex_auth_env"
    using ex_libs by (simp_all add: ex_config_fields production_plain libs_ok_def)
  from validated_config_used [OF ex_load [folded ex_config_def] ex_valid this, of "''h''" 1]
  show ?thesis by (simp add: ex_config_fields) blast
qed

text \<open>
  C31. When the backend starts to serve, its configuration is valid: in production its secret is not
  weak, a weak password never becomes the administrator's, and if the database holds an encrypted
  setting there is a key to read it with.
\<close>

theorem startup_guarded:
  assumes "run_state (start_backend v cr libs connect) w = (Inr be, w')" "sched w = []"
    and "isASCII (cfg_AppEnv (fst (run_state (Load v (ae_lib libs)) w)))"
    and "isProductionEnv (ae_lib libs) (cfg_AppEnv (fst (run_state (Load v (ae_lib libs)) w)))"
  shows "\<not> isWeakJWTSecret (ae_lib libs) (ac_JWTSecret (as_cfg (be_auth be))) \<and>
    (ac_BootstrapAdmin (as_cfg (be_auth be)) \<longrightarrow> isStrongPassword (ac_DefaultAdminPassword (as_cfg (be_auth be)))) \<and>
    ((\<exists>r \<in> set (system_settings (tbl w)). setting_IsEncrypted r) \<longrightarrow> be_encryptor be \<noteq> None)"
proof -
  obtain cfg w1 where load: "run_state (Load v (ae_lib libs)) w = (cfg, w1)" by fastforce
  note l = loaded_env [OF load]
  have valid: "Validate (ae_lib libs) cfg = None" and auth: "be_auth be = NewAuthService libs (cfg_Auth cfg)"
    and keys: "(\<exists>r \<in> set (system_settings (tbl w)). setting_IsEncrypted r) \<longrightarrow> be_encryptor be \<noteq> None"
    using assms(1,2) l
    by (auto simp: start_backend_def load validateEncryptedSettingsStartup_def settingRepo_HasEncryptedSettings_def
        run_dbcall_calm Let_def filter_empty_conv split: option.splits sum.splits prod.splits if_splits)
  have "config_isProductionEnv (ae_lib libs) (cfg_AppEnv cfg)"
    using production_agrees assms(3,4) l load by auto
  with valid auth keys Validate_None(1,4) [OF valid] show ?thesis
    by (auto simp: NewAuthService_def Let_def)
qed

definition ex_start_crypto :: crypto where
  "ex_start_crypto = \<lparr>cr_NewCipher = (\<lambda>_. None), cr_NewGCM = (\<lambda>_. Inr \<lparr>Seal = (\<lambda>n p. n @ p), Open = (\<lambda>n c. None)\<rparr>),
     cr_random = (\<lambda>_ _. Inl (Lib ''EOF'')), cr_Marshal = (\<lambda>_. Inl (Lib ''json'')), cr_Unmarshal = (\<lambda>_. None)\<rparr>"

lemma ex_backend_starts:
  "\<exists>be w'. run_state (start_backend ex_viper ex_start_crypto ex_auth_env (\<lambda>_. None)) init_world = (Inr be, w') \<and>
    be_auth be = NewAuthService ex_auth_env (cfg_Auth (ex_config (ae_lib ex_auth_env)))"
proof -
  let ?auth = "NewAuthService ex_auth_env (cfg_Auth (ex_config (ae_lib ex_auth_env)))"
  have cfg: "ac_BootstrapAdmin (as_cfg ?auth)" "ac_DefaultAdminUsername (as_cfg ?auth) = ''admin''"
      "ac_DefaultAdminEmail (as_cfg ?auth) = ''admin@snowpanel.local''"
      "ac_DefaultAdminPassword (as_cfg ?auth) = ''Correct-Horse-1''" "as_env ?auth = ex_auth_env"
    by (simp_all add: NewAuthService_def Let_def ex_config_fields)
  have strong: "accepted_password ?auth"
    by (rule strong_password_accepted)
      (simp add: cfg isStrongPassword_def ex_plain ex_lowered del: password_loop.simps)
  have defaults: "fst (sql_EnsureRBACDefaults (clock init_world) (tbl init_world)) = Inr ()"
    by (simp add: sql_EnsureRBACDefaults_def default_roles_def new_role_def init_world_def empty_tables_def Let_def)
  have "\<exists>w'. run_state (EnsureDefaultAdmin ?auth) init_world = (Inr (), w')"
    using run_EnsureDefaultAdmin [of init_world ?auth "''hCorrect-Horse-1''"
        "snd (sql_EnsureRBACDefaults (clock init_world) (tbl init_world))"] defaults strong
    by (simp add: cfg ex_plain init_world_def user_inv_empty prod_eq_iff) (auto simp: empty_tables_def)
  moreover have "DecodeEncryptionKey (scc_EncryptionKey (cfg_Security (ex_config (ae_lib ex_auth_env)))) =
      Inr (replicate 32 (CHR ''k''))"
    by (simp add: ex_config_fields ex_key_decodes)
  moreover have "run_state settingRepo_HasEncryptedSettings init_world = (Inr False, init_world)"
    by (simp add: settingRepo_HasEncryptedSettings_def init_world_def empty_tables_def dbcall_def enter_def)
  ultimately show ?thesis
    using ex_valid [of "ae_lib ex_auth_env"]
    by (auto simp: start_backend_def ex_load [folded ex_config_def] newSettingsEncryptor_def NewEncryptor_def
        ex_start_crypto_def validateEncryptedSettingsStartup_def Let_def)
qed

theorem startup_guarded_witness:
  "\<exists>be w'. run_state (start_backend ex_viper ex_start_crypto ex_auth_env (\<lambda>_. None)) init_world = (Inr be, w') \<and>
    \<not> isWeakJWTSecret (ae_lib ex_auth_env) (ac_JWTSecret (as_cfg (be_auth be))) \<and>
    isStrongPassword (ac_DefaultAdminPassword (as_cfg (be_auth be)))"
proof -
  obtain be w' where run: "run_state (start_backend ex_viper ex_start_crypto ex_auth_env (\<lambda>_. None)) init_world = (Inr be, w')"
      and auth: "be_auth be = NewAuthService ex_auth_env (cfg_Auth (ex_config (ae_lib ex_auth_env)))"
    using ex_backend_starts by blast
  have "EqualFold (fold_uni (ae_lib ex_auth_env)) ''production'' ''production''"
    by (simp add: lower_byte_def)
  moreover have "sched init_world = []" "ac_BootstrapAdmin (as_cfg (be_auth be))"
    by (simp_all add: init_world_def auth NewAuthService_def Let_def ex_config_fields)
  ultimately show ?thesis
    using startup_guarded [OF run] run
    by (simp add: ex_load [folded ex_config_def] ex_config_fields production_plain isProductionEnv_def)
qed

end
