(* ===== verification/Connections.thy ===== *)
theory Connections
  imports Startup
begin

text \<open>
  What the process connects to, and how it ends: \<^verbatim>\<open>internal/database/postgres.go\<close>,
  \<^verbatim>\<open>internal/observability/tracing.go\<close>, the constructors of \<^verbatim>\<open>grpcclient/agent_client.go\<close>
  and the rest of \<^verbatim>\<open>cmd/server/main.go\<close>. Opening a connection or an exporter is the
  library's; its outcome is a parameter.
\<close>

section \<open>Database\<close>

record db_pool =
  pool_MaxOpenConns :: int
  pool_MaxIdleConns :: int
  pool_ConnMaxLifetime :: duration

text \<open>\<open>gorm_Open\<close> gets the connection string, \<open>db_DB\<close> is the error of \<^verbatim>\<open>db.DB()\<close>.\<close>

definition NewPostgres ::
  "(string \<Rightarrow> go_error option) \<Rightarrow> go_error option \<Rightarrow> DatabaseConfig \<Rightarrow> db_pool result" where
  "NewPostgres gorm_Open db_DB cfg = (case gorm_Open (DSN cfg) of
       Some err \<Rightarrow> Inl err
     | None \<Rightarrow> (case db_DB of
         Some err \<Rightarrow> Inl err
       | None \<Rightarrow> Inr \<lparr>pool_MaxOpenConns = dbc_MaxOpenConns cfg, pool_MaxIdleConns = dbc_MaxIdleConns cfg,
           pool_ConnMaxLifetime = dbc_MaxLifetime cfg\<rparr>))"

text \<open>\<open>Close\<close> waits for the pool or for the end of the context, whichever comes first.\<close>

datatype closing = Closed "go_error option" | Expired go_error

definition database_Close :: "go_error option \<Rightarrow> closing \<Rightarrow> go_error option" where
  "database_Close db_DB first = (case db_DB of
       Some err \<Rightarrow> Some err
     | None \<Rightarrow> (case first of Closed err \<Rightarrow> err | Expired err \<Rightarrow> Some err))"

section \<open>Tracing\<close>

record tracer_provider =
  tp_Endpoint :: string
  tp_Insecure :: bool
  tp_SampleRatio :: float64
  tp_Resource :: "(string \<times> string) list"

text \<open>No provider (\<open>Inr None\<close>): tracing is off and the shutdown function does nothing.\<close>

definition InitTracing ::
  "(string \<Rightarrow> bool \<Rightarrow> go_error option) \<Rightarrow> TracingConfig \<Rightarrow> string \<Rightarrow> tracer_provider option result" where
  "InitTracing new_exporter cfg appEnv =
     (if \<not> trc_Enabled cfg then Inr None
      else let endpoint = TrimSpace (trc_OTLPEndpoint cfg) in
        if endpoint = []
        then Inl (Plain ''OTEL_EXPORTER_OTLP_ENDPOINT is required when OTEL_TRACING_ENABLED=true'')
        else case new_exporter endpoint (trc_Insecure cfg) of
          Some err \<Rightarrow> Inl (Wrapf ''create otlp trace exporter'' err)
        | None \<Rightarrow>
            (let serviceName = (if TrimSpace (trc_ServiceName cfg) = [] then ''snowpanel-backend''
                   else TrimSpace (trc_ServiceName cfg));
                 version = TrimSpace (trc_ServiceVersion cfg)
             in Inr (Some \<lparr>tp_Endpoint = endpoint, tp_Insecure = trc_Insecure cfg,
               tp_SampleRatio = trc_SampleRatio cfg,
               tp_Resource = [(''service.name'', serviceName),
                 (''deployment.environment.name'', TrimSpace appEnv)] @
                 (if version = [] then [] else [(''service.version'', version)])\<rparr>)))"

text \<open>An error of the initialisation turns tracing off and is no reason to stop.\<close>

definition main_tracingEnabled :: "(string \<Rightarrow> bool \<Rightarrow> go_error option) \<Rightarrow> Config \<Rightarrow> bool" where
  "main_tracingEnabled new_exporter cfg =
     (case InitTracing new_exporter (cfg_Tracing cfg) (cfg_AppEnv cfg) of
        Inl _ \<Rightarrow> False | Inr _ \<Rightarrow> trc_Enabled (cfg_Tracing cfg))"

section \<open>The client of the agent\<close>

record Client =
  cl_target :: string
  cl_timeout :: duration
  cl_authConfig :: agent_AuthConfig

definition NewWithAuth :: "golib \<Rightarrow> string \<Rightarrow> duration \<Rightarrow> agent_AuthConfig \<Rightarrow> Client" where
  "NewWithAuth lib target limit authConfig =
     \<lparr>cl_target = target, cl_timeout = limit, cl_authConfig = normalizeAuthConfig (lower_uni lib) authConfig\<rparr>"

definition Client_New :: "golib \<Rightarrow> string \<Rightarrow> duration \<Rightarrow> Client" where
  "Client_New lib target limit = NewWithAuth lib target limit \<lparr>aac_Mode = ''none'', aac_SharedToken = []\<rparr>"

definition main_agentClient :: "golib \<Rightarrow> Config \<Rightarrow> Client" where
  "main_agentClient lib cfg = NewWithAuth lib (cfg_AgentTarget cfg) (cfg_AgentTimeout cfg) (agent_auth cfg)"

section \<open>The end of the process\<close>

text \<open>
  Either the server stops by itself, with an error, or a signal comes. \<^verbatim>\<open>log.Fatalf\<close> runs no
  deferred call; otherwise these run in the reverse order of their statements. \<open>tracing\<close> and
  \<open>redis\<close> say whether \<^verbatim>\<open>InitTracing\<close> gave no error and whether there is a Redis client.
\<close>

datatype server_end = ServerStopped "go_error option" | Signalled

datatype ending = Fatal go_error | ShutdownServer | CloseDatabase | CloseRedis | ShutdownTracing | SyncLogger
  | StopSignals

definition http_ErrServerClosed :: go_error where
  "http_ErrServerClosed = Lib ''http: Server closed''"

definition main_end :: "bool \<Rightarrow> bool \<Rightarrow> server_end \<Rightarrow> ending list" where
  "main_end tracing redis e =
     (let orderly = [ShutdownServer, CloseDatabase] @ (if redis then [CloseRedis] else []) @
            (if tracing then [ShutdownTracing] else []) @ [SyncLogger, StopSignals]
      in case e of
           ServerStopped (Some err) \<Rightarrow> if err \<noteq> http_ErrServerClosed then [Fatal err] else orderly
         | _ \<Rightarrow> orderly)"

section \<open>Lemmas\<close>

text \<open>Tracing that was initialised has an endpoint, a service name, and the environment's name.\<close>

lemma InitTracing_ready:
  "InitTracing new_exporter cfg appEnv = Inr (Some tp) \<Longrightarrow>
    tp_Endpoint tp \<noteq> [] \<and> new_exporter (tp_Endpoint tp) (tp_Insecure tp) = None \<and>
    (\<exists>n. n \<noteq> [] \<and> (''service.name'', n) \<in> set (tp_Resource tp))"
  by (auto simp: InitTracing_def Let_def split: if_splits option.splits)

text \<open>The credentials a valid configuration sends: its token, trimmed, or none.\<close>

lemma validated_credentials:
  assumes "Validate lib cfg = None" "agc_Mode (cfg_AgentAuth cfg) = ''token''" "TrimSpace (ToLower (lower_uni lib) ''token'') = ''token''"
  shows "withOutgoingAuth (cl_authConfig (main_agentClient lib cfg)) md =
      md @ [(''x-snowpanel-agent-token'', TrimSpace (agc_SharedToken (cfg_AgentAuth cfg)))] \<and>
    TrimSpace (agc_SharedToken (cfg_AgentAuth cfg)) \<noteq> []"
  using assms
  by (auto simp: main_agentClient_def NewWithAuth_def normalizeAuthConfig_def agent_auth_def withOutgoingAuth_def Let_def
      Validate_def agent_auth_error_def split: if_splits option.splits sum.splits)

text \<open>The server has stopped taking requests before the database is closed.\<close>

lemma main_end_order:
  "main_end tracing redis e = ShutdownServer # CloseDatabase # rest \<or> (\<exists>err. main_end tracing redis e = [Fatal err])"
  if "rest = drop 2 (main_end tracing redis e)" for rest
  using that by (auto simp: main_end_def Let_def split: server_end.split option.split)

end
