(* ===== verification/Backend.thy ===== *)
theory Backend
  imports ApiTheorems Connections TaskWorker AuditTheorems
begin

text \<open>
  The backend as \<^verbatim>\<open>cmd/server/main.go\<close> puts it together: the services of the router made from
  the configuration and one client of the agent, and what that excludes.
\<close>

section \<open>The services of the router\<close>

text \<open>
  \<^verbatim>\<open>security.LoginAttemptGuard\<close> is an interface; the value in it is one of the two limiters.
\<close>

fun either_Allow ::
  "time \<Rightarrow> string \<Rightarrow> LoginAttemptLimiter + RedisLoginAttemptLimiter \<Rightarrow>
    go_error option \<times> (LoginAttemptLimiter + RedisLoginAttemptLimiter)" where
  "either_Allow now k (Inl l) = apsnd Inl (guard_Allow memoryGuard now k l)"
| "either_Allow now k (Inr l) = apsnd Inr (guard_Allow redisGuard now k l)"

definition loginAttempts :: "(LoginAttemptLimiter + RedisLoginAttemptLimiter) loginAttemptGuard" where
  "loginAttempts = \<lparr>guard_Allow = either_Allow,
     guard_RecordFailure = (\<lambda>now k. map_sum (guard_RecordFailure memoryGuard now k) (guard_RecordFailure redisGuard now k)),
     guard_RecordSuccess = (\<lambda>k. map_sum (guard_RecordSuccess memoryGuard k) (guard_RecordSuccess redisGuard k))\<rparr>"

text \<open>
  What \<^verbatim>\<open>main\<close> does not make itself: the libraries, the ping of the database, and what the one
  agent behind the client answers. The fields of \<open>pe_audit\<close>, \<open>pe_tasks\<close> and \<open>pe_backups\<close> that the
  constructors set are overwritten.
\<close>

record process_env =
  pe_lib :: golib
  pe_DetectContentType :: "string \<Rightarrow> string"
  pe_Marshal :: "json \<Rightarrow> string result"
  pe_ping :: "go_error option"
  pe_agent :: agent_conn
  pe_files :: file_conn
  pe_system :: system_conn
  pe_audit :: auditService
  pe_tasks :: taskService
  pe_backups :: backupService
  pe_exporter :: "string \<Rightarrow> bool \<Rightarrow> go_error option"
  pe_uuid :: "nat \<Rightarrow> string"

definition main_deps ::
  "process_env \<Rightarrow> Config \<Rightarrow> authService \<Rightarrow>
    (LoginAttemptLimiter + RedisLoginAttemptLimiter \<Rightarrow> LoginAttemptLimiter + RedisLoginAttemptLimiter) \<Rightarrow>
    (LoginAttemptLimiter + RedisLoginAttemptLimiter) RouterDeps" where
  "main_deps e cfg auth others =
     (let bs = main_backupService cfg (pe_backups e) in
      \<lparr>dep_lib = pe_lib e, dep_DetectContentType = pe_DetectContentType e, dep_Marshal = pe_Marshal e,
       dep_DB = Some (pe_ping e), dep_AgentClient = Some (pe_system e), dep_AuthService = auth,
       dep_DashboardService = pe_system e, dep_FileService = pe_files e, dep_ServiceManager = pe_agent e,
       dep_DockerService = pe_agent e, dep_CronService = pe_system e,
       dep_AuditService = Some (NewAuditServiceWithOptions (pe_audit e) (audit_options cfg)),
       dep_TaskService = main_taskService cfg bs ((pe_tasks e)
         \<lparr>ts_dockerService := Some (pe_agent e), ts_serviceManager := Some (pe_agent e)\<rparr>),
       dep_BackupService = bs, dep_LoginAttempts = loginAttempts, dep_others = others\<rparr>)"

definition main_router ::
  "process_env \<Rightarrow> Config \<Rightarrow> authService \<Rightarrow> (string \<Rightarrow> 'c http_request \<Rightarrow> (string \<times> string) option) \<Rightarrow>
    'c router_settings" where
  "main_router e cfg auth otel =
     \<lparr>rs_auth = auth, rs_TracingEnabled = main_tracingEnabled (pe_exporter e) cfg,
      rs_TracingSvcName = trc_ServiceName (cfg_Tracing cfg), rs_otel = otel, rs_uuid = pe_uuid e\<rparr>"

section \<open>What never panics\<close>

text \<open>Programs by what they can return.\<close>

definition returns :: "('a \<Rightarrow> bool) \<Rightarrow> (world, 'a) state \<Rightarrow> bool" where
  "returns P m = (\<forall>w. P (fst (run_state m w)))"

named_theorems returns_intros \<open>programs by their structure\<close>

lemma returns_ret [returns_intros]: "P x \<Longrightarrow> returns P (ret x)"
  by (simp add: returns_def)

lemma returns_bind: "(\<And>x. returns P (f x)) \<Longrightarrow> returns P (State_Monad.bind m f)"
  by (simp add: returns_def split_beta)

lemma returns_bind_outcome:
  assumes "returns (\<lambda>r. r \<noteq> Panic) m" "\<And>x. returns P (g x)"
  shows "returns P (State_Monad.bind m (case_outcome p g))"
  unfolding returns_def
proof
  fix w
  obtain r w' where m: "run_state m w = (r, w')" by fastforce
  then have "r \<noteq> Panic" using assms(1) unfolding returns_def by (metis fst_conv)
  then show "P (fst (run_state (State_Monad.bind m (case_outcome p g)) w))"
    using m assms(2) by (cases r) (simp_all add: returns_def)
qed

lemma returns_if [returns_intros]: "returns P m \<Longrightarrow> returns P n \<Longrightarrow> returns P (if b then m else n)"
  by simp

lemma returns_sum [returns_intros]:
  "(\<And>e. returns P (f e)) \<Longrightarrow> (\<And>y. returns P (g y)) \<Longrightarrow> returns P (case_sum f g x)"
  by (cases x) auto

lemma returns_option [returns_intros]:
  "returns P m \<Longrightarrow> (\<And>y. returns P (f y)) \<Longrightarrow> returns P (case_option m f x)"
  by (cases x) auto

lemma returns_bool [returns_intros]:
  "returns P m \<Longrightarrow> returns P n \<Longrightarrow> returns P (case_bool m n b)"
  by (cases b) auto

lemma restart_calls:
  "ts_dockerService s = Some c \<Longrightarrow> returns (\<lambda>r. r \<noteq> Panic) (docker_restart s i)"
  "ts_serviceManager s = Some c \<Longrightarrow> returns (\<lambda>r. r \<noteq> Panic) (service_restart s n)"
  by (simp_all add: docker_restart_def service_restart_def returns_def split_beta)

lemma executeTaskOperation_no_panic:
  assumes "ts_dockerService s = Some c" "ts_serviceManager s = Some c'"
  shows "returns (\<lambda>r. r \<noteq> Panic) (executeTaskOperation s i payload wid)"
proof -
  note calls = restart_calls(1) [THEN returns_bind_outcome, OF assms(1)]
    restart_calls(2) [THEN returns_bind_outcome, OF assms(2)]
  show ?thesis unfolding executeTaskOperation_def
    by (intro calls returns_intros returns_bind; simp)
qed

lemma runTask_operation_no_panic:
  assumes "ts_dockerService s = Some c" "ts_serviceManager s = Some c'"
  shows "returns (\<lambda>r. r \<noteq> Panic) (runTask_operation s i payload)"
proof -
  note calls = restart_calls(1) [THEN returns_bind_outcome, OF assms(1)]
    restart_calls(2) [THEN returns_bind_outcome, OF assms(2)]
  show ?thesis unfolding runTask_operation_def
    by (intro calls returns_intros returns_bind; simp)
qed

lemma runTask_no_panic:
  assumes "ts_dockerService s = Some c" "ts_serviceManager s = Some c'"
  shows "returns (\<lambda>r. r \<noteq> Panic) (runTask s i payload)"
  unfolding runTask_def
  by (intro returns_bind_outcome [OF runTask_operation_no_panic [OF assms]] returns_intros returns_bind; simp)

lemma runClaimedTask_no_panic:
  assumes "ts_dockerService s = Some c" "ts_serviceManager s = Some c'"
  shows "returns (\<lambda>r. r \<noteq> Panic) (runClaimedTask s wid task)"
  unfolding runClaimedTask_def
  by (intro returns_bind_outcome [OF executeTaskOperation_no_panic [OF assms]] returns_intros returns_bind; simp)

text \<open>
  The calls that are not transfers of files: their handlers end. With an audit service none of the
  handlers panics.
\<close>

fun transfer :: "'io api_call \<Rightarrow> bool" where
  "transfer (Call_DownloadFile _ _ _ _) = True"
| "transfer (Call_UploadFile _ _) = True"
| "transfer _ = False"

lemma handler_total: "handler m c g w \<noteq> None"
  by (simp add: handler_def split: prod.split)

lemma handler_quiet: "handler m c g w = Some ((h, g'), w') \<Longrightarrow> h \<noteq> Panicked p"
  by (auto simp: handler_def split: prod.splits)

lemma dispatch_quiet:
  assumes "dep_AuditService d = Some a" "dispatch d q c g w = Some ((h, g'), w')"
  shows "h \<noteq> Panicked p"
  using assms
  by (cases q) (auto dest: handler_quiet split: option.splits prod.splits reply.splits)

lemma dispatch_total:
  assumes "dep_AuditService d = Some (NewAuditServiceWithOptions a options)" "\<not> transfer q"
  shows "dispatch d q c g w \<noteq> None"
proof (cases q)
  case (Call_ExportLogs x query format out)
  have "\<exists>r w'. ExportAudit (NewAuditServiceWithOptions a options) qu fmt x out w = Some (r, w')" for qu fmt
    by (rule audit_export_ends [THEN conjunct1])
  moreover have "AuditHandler_ExportLogs h x query format out w = None \<Longrightarrow> \<exists>qu fmt. ExportAudit h qu fmt x out w = None" for h
    by (auto simp: AuditHandler_ExportLogs_def Let_def split: option.splits prod.splits if_splits)
  ultimately have "AuditHandler_ExportLogs (NewAuditServiceWithOptions a options) x query format out w \<noteq> None"
    by (metis option.distinct(1))
  with Call_ExportLogs assms(1) show ?thesis by (auto split: option.splits prod.splits reply.splits)
qed (use assms in \<open>simp_all add: handler_total split: prod.split\<close>)

section \<open>A chain that does not panic\<close>

definition quiet :: "'g chain \<Rightarrow> bool" where
  "quiet nxt = (\<forall>x s p x' s'. nxt x s = Some (p, x', s') \<longrightarrow> p = None)"

lemma quiet_endpoint: "(\<And>c g w h g' w' p. e c g w = Some ((h, g'), w') \<Longrightarrow> h \<noteq> Panicked p) \<Longrightarrow> quiet (run_endpoint e)"
  unfolding quiet_def run_endpoint_def by (fastforce split: option.splits prod.splits handled.splits)

lemma quiet_gate: "quiet nxt \<Longrightarrow> quiet (gate_mw gate nxt)"
  unfolding quiet_def gate_mw_def by (auto split: prod.splits gate.splits)

lemma quiet_guarded:
  "(\<And>c g w h g' w' p. e c g w = Some ((h, g'), w') \<Longrightarrow> h \<noteq> Panicked p) \<Longrightarrow> quiet (guarded auth a req e)"
  using quiet_endpoint [of e] by (cases a) (simp_all add: guarded_def quiet_gate)

lemma quiet_Recover:
  assumes "quiet nxt" "inner nxt" "declared (srv_metrics s)"
    "Recover (Metrics fp req (AccessLog req nxt)) x s = Some (p, x', s')"
  shows "srv_panics s' = srv_panics s"
proof -
  let ?s = "s\<lparr>srv_metrics := (srv_metrics s)\<lparr>HTTPRequestsInFlight := HTTPRequestsInFlight (srv_metrics s) + 1\<rparr>\<rparr>"
  obtain q x1 s1 where n: "nxt x ?s = Some (q, x1, s1)" "srv_metrics s1 = srv_metrics ?s" "srv_panics s1 = srv_panics s"
    using innerD [OF assms(2), of x ?s] by auto
  have q: "q = None" using n(1) assms(1) unfolding quiet_def by blast
  have "declared (srv_metrics s1)" using n(2) assms(3) by (simp add: declared_def)
  from ObserveHTTPRequest_total [OF this] obtain m where
    "ObserveHTTPRequest (req_Method req) (if fp = [] then ''unmatched'' else fp) (xc_status x1)
      (clock (srv_world s1) - clock (srv_world s)) (srv_metrics s1) = Some m" by blast
  then show ?thesis
    using assms(4) n q by (auto simp: Recover_def Metrics_def AccessLog_def Let_def)
qed

lemma quiet_global:
  assumes "quiet nxt" "inner nxt" "declared (srv_metrics s)" "req_Method req \<noteq> ''OPTIONS''"
    "global_mw rs fp req nxt x s = Some (p, x', s')"
  shows "srv_panics s' = srv_panics s"
proof -
  let ?rest = "Recover (Metrics fp req (AccessLog req nxt))"
  obtain xa sa where a: "tracing_mw rs req ?rest xa sa = Some (p, x', s')" "srv_metrics sa = srv_metrics s"
      "srv_panics sa = srv_panics s"
    using assms(4,5) by (fastforce simp: global_mw_def CORS_def RequestID_mw_def Let_def)
  obtain xb where b: "tracing_mw rs req ?rest xa sa = ?rest xb sa"
    using tracing_frame [of rs req ?rest xa sa] by blast
  have "?rest xb sa = Some (p, x', s')" "declared (srv_metrics sa)" using a(1,2) b assms(3) by simp_all
  from quiet_Recover [OF assms(1,2) this(2,1)] a(3) show ?thesis by simp
qed

section \<open>The backend\<close>

text \<open>
  C34. The backend that \<^verbatim>\<open>main\<close> builds, from whatever configuration: every request to one of its
  routes is answered, and its handler does not panic, as none of its services is nil; the request
  is in the access log once and counted once under its route and status. File transfers are assumed to end, every other handler does,
  whatever the agent answers and other goroutines do. Nor does the execution of a task panic,
  which would end the process, whatever is in the task's row.
\<close>

theorem backend_serves:
  assumes "declared (srv_metrics s)" "req_Match req = Matched q" "req_Method req \<noteq> ''OPTIONS''"
    and "transfer q \<Longrightarrow> \<forall>c g w. dispatch (main_deps e cfg auth others) q c g w \<noteq> None"
  shows "(\<exists>x s'. serve (main_router e cfg auth otel) (main_deps e cfg auth others) req s = Some (None, x, s') \<and>
      xc_written x \<and> srv_panics s' = srv_panics s \<and> length (srv_access s') = Suc (length (srv_access s)) \<and>
      series (HTTPRequestsTotal (srv_metrics s')) = counted (rt_path (route_of q)) req (xc_status x) (srv_metrics s)) \<and>
    fst (run_state (runClaimedTask (dep_TaskService (main_deps e cfg auth others)) worker task) w) \<noteq> Panic \<and>
    fst (run_state (runTask (dep_TaskService (main_deps e cfg auth others)) (task_ID task) payload) w) \<noteq> Panic"
proof -
  let ?d = "main_deps e cfg auth others" and ?rs = "main_router e cfg auth otel"
  let ?nxt = "guarded (rs_auth ?rs) (rt_access (route_of q)) req (dispatch ?d q)"
  have audit: "dep_AuditService ?d = Some (NewAuditServiceWithOptions (pe_audit e) (audit_options cfg))"
    and tasks: "ts_dockerService (dep_TaskService ?d) = Some (pe_agent e)"
      "ts_serviceManager (dep_TaskService ?d) = Some (pe_agent e)"
    by (simp_all add: main_deps_def main_taskService_def NewTaskServiceWithOptions_def Let_def)
  have "inner ?nxt"
    by (rule inner_guarded) (use assms(4) dispatch_total [OF audit, of q] in blast)
  moreover have "quiet ?nxt" by (rule quiet_guarded) (rule dispatch_quiet [OF audit])
  moreover obtain x s' where g: "global_mw ?rs (rt_path (route_of q)) req ?nxt (new_exchange (req_ClientIP req) 200) s =
      Some (None, x, s')" "xc_written x" "answered_or_recovered (rt_path (route_of q)) req s x s'"
    using global_answers [OF \<open>inner ?nxt\<close> assms(1), of ?rs "rt_path (route_of q)" req "req_ClientIP req" 200] assms(3)
    by auto
  ultimately have "srv_panics s' = srv_panics s" using quiet_global assms(1,3) by blast
  moreover have "serve ?rs ?d req s = Some (None, x, s')" using g(1) assms(2) by (simp add: serve_def ServeHTTP_def)
  ultimately show ?thesis
    using g(2,3) runClaimedTask_no_panic [OF tasks] runTask_no_panic [OF tasks]
    unfolding answered_or_recovered_def returns_def by auto
qed

definition ex_ping_call :: "unit api_call http_request" where
  "ex_ping_call = \<lparr>req_Method = ''GET'', req_Path = ''/api/v1/ping'', req_Query = [], req_Header = (\<lambda>_. []),
     req_ClientIP = ''10.0.0.1'', req_Match = Matched Call_Ping\<rparr>"

definition ex_main_server :: "(LoginAttemptLimiter + RedisLoginAttemptLimiter) server" where
  "ex_main_server = \<lparr>srv_world = srv_world ex_server,
     srv_guard = Inl (NewLoginAttemptLimiter \<lparr>lao_MaxFailures = 5, lao_FailureWindow = Minute, lao_LockDuration = Hour\<rparr>),
     srv_metrics = srv_metrics ex_server, srv_access = [], srv_panics = []\<rparr>"

theorem backend_serves_witness:
  "\<forall>e cfg others otel. \<exists>x s'. serve (main_router e cfg ex_auth otel) (main_deps e cfg ex_auth others) ex_ping_call
       ex_main_server = Some (None, x, s') \<and> srv_panics s' = [] \<and> length (srv_access s') = 1"
proof (intro allI)
  fix e cfg others otel
  have "declared (srv_metrics ex_main_server)" "req_Match ex_ping_call = Matched Call_Ping"
    "req_Method ex_ping_call \<noteq> ''OPTIONS''" "srv_panics ex_main_server = []" "srv_access ex_main_server = []"
    using ex_server_declared by (simp_all add: ex_main_server_def ex_ping_call_def)
  then have "\<exists>x s'. serve (main_router e cfg ex_auth otel) (main_deps e cfg ex_auth others) ex_ping_call
       ex_main_server = Some (None, x, s') \<and> xc_written x \<and> srv_panics s' = srv_panics ex_main_server \<and>
      length (srv_access s') = Suc (length (srv_access ex_main_server)) \<and>
      series (HTTPRequestsTotal (srv_metrics s')) =
        counted (rt_path (route_of (Call_Ping :: unit api_call))) ex_ping_call (xc_status x) (srv_metrics ex_main_server)"
    by (intro backend_serves [THEN conjunct1]) simp_all
  then show "\<exists>x s'. serve (main_router e cfg ex_auth otel) (main_deps e cfg ex_auth others) ex_ping_call
       ex_main_server = Some (None, x, s') \<and> srv_panics s' = [] \<and> length (srv_access s') = 1"
    by (auto simp: ex_main_server_def)
qed

end
