(* ===== verification/Spec2Isabelle.thy ===== *)
theory Spec2Isabelle
  imports TaskTheorems BackupTheorems AuthTheorems FileTheorems HandlerTheorems LoginTheorems
    SettingsTheorems Backend
begin

text \<open>
  SnowPanel is a panel for the administration of a server. Its backend (Go, under
  \<^verbatim>\<open>src/backend\<close>) serves an HTTP API: handlers check and decode requests, services carry them
  out, repositories keep users, tasks, backups and the audit log in PostgreSQL, and a gRPC client
  asks the core agent (Rust, \<^verbatim>\<open>src/core-agent\<close>), which runs with more rights, to act on files,
  containers, services and cron jobs. A worker in the backend takes queued tasks and executes
  them. This development models the backend and states what makes it correct.

  \<^bold>\<open>How code becomes definitions.\<close> Functions keep their names; methods whose names several
  types share carry a prefix (\<open>taskRepo_\<close>, \<open>backupRepo_\<close>, \<open>userRepo_\<close>, \<open>auditRepo_\<close> for
  repositories, \<open>Client_\<close> for the gRPC client, \<open>Cron_\<close> for the cron service, \<open>TaskHandler_\<close> and so
  on for handlers), and \<open>sql_\<close> marks the effect of the statement inside a repository method.
  Structs are records, strings are lists of bytes, unbounded where Go's are bounded only by memory;
  integers that are counted or compared are \<open>int\<close>, those whose wrap-around the code can reach
  (offsets and sizes of file chunks) are 64-bit words. An error is a value of \<open>go_error\<close>, a
  fallible call returns \<open>go_error + 'a\<close>; a nil interface is \<open>None\<close>, a call on it \<open>Panic\<close>. Code
  with effects is a program of the state monad over the \<open>world\<close> of theory \<^theory_text>\<open>World\<close>: tables,
  files, clock, requests sent to the agent, metrics. Every database statement and file operation
  takes a slot of the world's schedule, which says what other goroutines, other instances and
  operators do to the tables before it, how long it takes, and whether it fails; so a property
  about every world is one about every interleaving of statements and every pattern of faults.
  A query for several rows sorts by the columns its \<^verbatim>\<open>ORDER BY\<close> names and leaves ties in the order
  in which the database visits the rows, which may be another one for each query (\<open>scan\<close>).

  \<^bold>\<open>Theories, from the bottom up.\<close>
  \<^item> \<^theory_text>\<open>Prelude\<close>: the string functions of Go's library that the code calls (trimming, case,
    prefixes, decimal numbers), instants and durations, JSON values, rules for state programs.
    \<^theory_text>\<open>Utf8\<close> decodes runes, \<^theory_text>\<open>Base64\<close> is the encoding in its two alphabets, \<^theory_text>\<open>Filepath\<close> cleans, joins and relates paths, \<^theory_text>\<open>JsonDecode\<close> reads JSON
    values into typed fields.
  \<^item> \<^theory_text>\<open>Apperror\<close> (\<^verbatim>\<open>apperror/error.go\<close>, \<^verbatim>\<open>service/agent_error.go\<close>): the application errors and
    the translation of the agent's. \<^theory_text>\<open>Schema\<close> (\<^verbatim>\<open>model/schema.go\<close>, the migrations): rows, tables,
    the locale \<open>keyed_table\<close> of tables with a unique id. \<^theory_text>\<open>World\<close>: effects, and the relation
    \<open>keeps R m\<close> that a program's every step is an \<open>R\<close>-step.
  \<^item> \<^theory_text>\<open>Redaction\<close> (\<^verbatim>\<open>security/redaction.go\<close>), \<^theory_text>\<open>LoginLimiter\<close>
    (\<^verbatim>\<open>security/login_attempt_limiter.go\<close>) with the locale \<open>login_guard\<close>: what any guard of login
    attempts promises. \<^theory_text>\<open>RedisLimiter\<close> (\<^verbatim>\<open>security/login_attempt_limiter_redis.go\<close>) is the
    guard in Redis: the commands it uses, each answered, refused or left without an answer, and
    two interpretations of \<open>login_guard\<close>, for a server that answers and for one that is away.
  \<^item> \<^theory_text>\<open>Encryption\<close>, \<^theory_text>\<open>SystemSettings\<close>, \<^theory_text>\<open>SettingsTheorems\<close> (\<^verbatim>\<open>security/encryption.go\<close>,
    \<^verbatim>\<open>repository/system_setting_repository.go\<close>, \<^verbatim>\<open>service/system_setting_service.go\<close>): settings
    that are kept encrypted.
  \<^item> \<^theory_text>\<open>TaskRepo\<close>, \<^theory_text>\<open>TaskPayload\<close>, \<^theory_text>\<open>TaskService\<close>, \<^theory_text>\<open>TaskWorker\<close>
    (\<^verbatim>\<open>repository/task_repository.go\<close>, \<^verbatim>\<open>service/task_service.go\<close>): the queue and its worker.
    \<^theory_text>\<open>TaskProtocol\<close> is the table as a state machine with its invariant, \<^theory_text>\<open>TaskFrame\<close> that the
    service only takes its steps (locale \<open>task_frame\<close>), \<^theory_text>\<open>TaskRun\<close> and \<^theory_text>\<open>TaskPipeline\<close> follow
    undisturbed runs, with the goroutines of \<^verbatim>\<open>go s.runTask\<close> and those of the worker, \<^theory_text>\<open>TaskTheorems\<close> states the properties.
  \<^item> \<^theory_text>\<open>BackupRepo\<close>, \<^theory_text>\<open>BackupService\<close> (locale \<open>backup_frame\<close>), \<^theory_text>\<open>BackupRun\<close>,
    \<^theory_text>\<open>BackupRetention\<close>, \<^theory_text>\<open>BackupTheorems\<close>: metadata, artifacts with manifest and checksum,
    verification, retention (\<^verbatim>\<open>repository/backup_repository.go\<close>, \<^verbatim>\<open>service/backup_service.go\<close>).
  \<^item> \<^theory_text>\<open>UserRepo\<close>, \<^theory_text>\<open>AuthService\<close>, \<^theory_text>\<open>HttpAuth\<close> (\<^verbatim>\<open>repository/user_repository.go\<close>,
    \<^verbatim>\<open>service/auth_service.go\<close>, \<^verbatim>\<open>middleware/jwt_auth.go\<close>, \<^verbatim>\<open>middleware/permission.go\<close>,
    \<^verbatim>\<open>api/router.go\<close>): users, roles, sessions, the gates before the handlers and the table of
    routes. \<^theory_text>\<open>AuthFrame\<close> (locales \<open>auth_calls\<close>, \<open>auth_frame\<close>), \<^theory_text>\<open>AuthRun\<close>,
    \<^theory_text>\<open>AuthSession\<close>, \<^theory_text>\<open>AuthRoles\<close>, \<^theory_text>\<open>AuthExample\<close>, \<^theory_text>\<open>AuthTheorems\<close> prove their properties.
  \<^item> \<^theory_text>\<open>Agent\<close>, \<^theory_text>\<open>AgentFiles\<close>, \<^theory_text>\<open>AgentSystem\<close> (\<^verbatim>\<open>grpcclient/agent_client.go\<close>,
    \<^verbatim>\<open>service/docker_service.go\<close>, \<^verbatim>\<open>service/service_manager_service.go\<close>,
    \<^verbatim>\<open>service/cron_service.go\<close>, \<^verbatim>\<open>service/dashboard_service.go\<close>): calls of the agent.
  \<^item> \<^theory_text>\<open>FileService\<close> (\<^verbatim>\<open>service/file_service.go\<close>) with its download and upload loops;
    \<^theory_text>\<open>CoreAgent\<close>, the agent's chunk operations (\<^verbatim>\<open>core-agent/src/file/service.rs\<close>);
    \<^theory_text>\<open>FileDownload\<close>, \<^theory_text>\<open>FileTransfer\<close> (locales \<open>chunk_reader\<close>, \<open>chunk_store\<close>, interpreted on the
    core agent), \<^theory_text>\<open>FileTheorems\<close>.
  \<^item> \<^theory_text>\<open>AuditRepo\<close>, \<^theory_text>\<open>AuditService\<close>, \<^theory_text>\<open>AuditTheorems\<close> (\<^verbatim>\<open>repository/audit_repository.go\<close>,
    \<^verbatim>\<open>service/audit_service.go\<close>): recording, listing, export, retention.
  \<^item> \<^theory_text>\<open>HandlerBase\<close>, \<^theory_text>\<open>FileHandlers\<close>, \<^theory_text>\<open>AgentHandlers\<close>, \<^theory_text>\<open>TaskHandlers\<close>, \<^theory_text>\<open>AuthHandlers\<close>
    (\<^verbatim>\<open>api/handler\<close>, \<^verbatim>\<open>api/response\<close>): from a decoded request to the answer, with the audit record.
    \<^theory_text>\<open>ReplyTypes\<close> types the answers by the structure of the programs, \<^theory_text>\<open>HandlerTheorems\<close> states
    what holds of handlers and services together, \<^theory_text>\<open>LoginTheorems\<close> of the login handler with each
    of the two guards.
  \<^item> \<^theory_text>\<open>Config\<close> (\<^verbatim>\<open>config/config.go\<close>): loading, normalisation and validation of the
    configuration. \<^theory_text>\<open>Startup\<close> (\<^verbatim>\<open>cmd/server/main.go\<close>): the checks before the server listens and
    the services made from the configuration. \<^theory_text>\<open>Connections\<close> (\<^verbatim>\<open>database/postgres.go\<close>,
    \<^verbatim>\<open>observability/tracing.go\<close>, \<^verbatim>\<open>cmd/server/main.go\<close>): what the process connects to and how it ends.
  \<^item> \<^theory_text>\<open>MetricsSet\<close> (\<^verbatim>\<open>metrics/metrics.go\<close>): the metrics and their series. \<^theory_text>\<open>HttpServer\<close>
    (\<^verbatim>\<open>middleware\<close>, \<^verbatim>\<open>api/router.go\<close>): the chain of middleware around a handler, where a panic
    passes through the rest of the chain as it does in the code; \<^theory_text>\<open>ServerTheorems\<close> what it does
    around any handler. \<^theory_text>\<open>ApiDispatch\<close>: every call of the API with its route, its handler and the
    services \<^verbatim>\<open>NewRouter\<close> gives it, so that \<open>serve\<close> is the backend's service of a request.
    \<^theory_text>\<open>Backend\<close> (\<^verbatim>\<open>cmd/server/main.go\<close>) is the router with the services that \<^verbatim>\<open>main\<close> gives it.
    \<^theory_text>\<open>EffectFrames\<close> bounds the effects of the services' programs (agent requests, parts of the
    data), \<^theory_text>\<open>ApiFrames\<close> those of every handler, \<^theory_text>\<open>ApiTheorems\<close> relates them to the rights of the
    user.

  \<^bold>\<open>Properties.\<close> Invariants of the tables hold for every sequence of operations with any
  interleaving and any faults; they come from a frame theorem per service (\<open>keeps\<close> rules over the
  programs) and one lemma per statement. Functional properties follow undisturbed runs (an empty
  schedule, where no call fails) statement by statement, and each operation is described on its
  error branches too. Sessions, leases and cancellations are safety properties over reachable worlds.
  Transfers are proved against the contract \<open>chunk_store\<close>, which the agent's own code is shown to
  meet. Some properties state what the code does although it seems unintended; the text before such
  a property says so. Four properties are about the whole API: no request has an effect that the
  route's permission, held by the token's user at that time, is not for; a user with no more than
  the operator's permissions changes nothing but accounts; every request is
  answered, logged and counted, whatever its handler does; and in the backend that \<^verbatim>\<open>main\<close>
  builds no handler panics. A lease excludes other workers from the guarded statements only:
  the unguarded \<^verbatim>\<open>UpdateStatus\<close> is part of the property about it, with what it may overwrite.

  \<^bold>\<open>Loops.\<close> Loops over lists are structural recursion. A loop without a bound in the source
  (downloads, uploads, audit export, the worker) is \<open>forever\<close>, a \<open>partial_function (option)\<close>
  whose value \<open>None\<close> means that it does not end; termination is proved as \<open>Some\<close>, never assumed.

  \<^bold>\<open>Parameters and hypotheses.\<close> What the repository only calls is an argument: the tables of
  Unicode and \<^verbatim>\<open>%q\<close> (\<open>golib\<close>), JSON Web Tokens, bcrypt, SHA-256, randomness and the collation of the
  database (\<open>auth_env\<close>, with the named hypotheses \<open>jwt_ok\<close>, \<open>bcrypt_ok\<close> (which
  includes that passwords of more than 72 bytes are refused), \<open>random_ok\<close>), the
  limits of PostgreSQL's column types (\<open>postgres_ok\<close>), AES-GCM (\<open>crypto\<close>, \<open>aead\<close>, with \<open>crypto_ok\<close>, whose
  JSON round trip is for payloads of ASCII strings, and \<open>aead_ok\<close>), the source of the configuration (\<open>viper\<close>), JSON text, the CSV writer, the agent's answers
  (a function of the requests so far). Each property that uses such a hypothesis has an instance in
  which concrete functions meet it.

  \<^bold>\<open>Not modelled.\<close> Connections and TLS, the work of the tracing exporter and the text of the
  log; the matching of paths to routes and the decoding of requests, which are gin's (a request
  carries the outcome of the match, a handler gets the decoded value or an error); the data of a
  successful answer in the chain of middleware, where an answer is its status, code and message;
  \<^verbatim>\<open>prometheus\<close>' export; the delivery of signals; the frontend; the agent's operations other than
  chunked reads and writes; messages generated by \<^verbatim>\<open>protoc\<close>. A database statement is atomic, as
  PostgreSQL's are at the isolation level used; a fault of a call leaves the tables as they were,
  so a commit whose acknowledgement is lost is not covered. Four simplifications are smaller: the lengths
  of the columns outside the audit log and the settings, and the references of tasks and backups
  to the users who caused them, restrict nothing here; \<^verbatim>\<open>EVALSHA\<close> with its fallback to \<^verbatim>\<open>EVAL\<close>, which is one command; numbers
  in redacted JSON, which are exact where Go reads \<^verbatim>\<open>float64\<close>; and a handler that panics after
  it has written part of an answer.
\<close>

end
